(* ===== verification/Prelude.thy ===== *)
theory Prelude
  imports Main "HOL-Library.AList" "HOL-Library.Char_ord" "HOL-Library.List_Lexorder"
    "HOL-Library.Product_Lexorder" "HOL-Library.Multiset"
begin

text \<open>
  Shared vocabulary of the development: Python exceptions as values of a sum type and
  the sequencing of computations that may raise; strings, with the whitespace that
  \<open>str.strip\<close> removes; dictionaries as association lists in insertion order, which is
  how CPython keeps them; the facts about lists that several components use.
  Strings are lists of characters below code point 256.
\<close>

named_theorems result_simps \<open>inversion of computations that may raise\<close>
named_theorems dict_simps \<open>dictionaries in insertion order\<close>

section \<open>Exceptions and results\<close>

text \<open>
  The exception classes the program raises or catches.  \<open>ContractError\<close> and
  \<open>CandidateError\<close> are subclasses of \<open>ValueError\<close> in the source.  The string is the
  argument of the exception (for a \<open>KeyError\<close> without the quotes \<open>str\<close> adds).
\<close>

datatype exn =
    ContractError string
  | CandidateError string
  | ValueError string
  | KeyError string
  | IndexError string
  | TypeError string
  | AttributeError string
  | OverflowError string
  | ZeroDivisionError string
  | RuntimeError string
  | TimeoutError string
  | OSError string
  | JSONDecodeError string
  | FileExistsError string
  | TimeoutExpired string

type_synonym 'a result = "exn + 'a"

fun exn_message :: "exn \<Rightarrow> string" where
  "exn_message (ContractError m) = m"
| "exn_message (CandidateError m) = m"
| "exn_message (ValueError m) = m"
| "exn_message (KeyError m) = m"
| "exn_message (IndexError m) = m"
| "exn_message (TypeError m) = m"
| "exn_message (AttributeError m) = m"
| "exn_message (OverflowError m) = m"
| "exn_message (ZeroDivisionError m) = m"
| "exn_message (RuntimeError m) = m"
| "exn_message (TimeoutError m) = m"
| "exn_message (OSError m) = m"
| "exn_message (JSONDecodeError m) = m"
| "exn_message (FileExistsError m) = m"
| "exn_message (TimeoutExpired m) = m"

fun exn_class :: "exn \<Rightarrow> string" where
  "exn_class (ContractError m) = ''ContractError''"
| "exn_class (CandidateError m) = ''CandidateError''"
| "exn_class (ValueError m) = ''ValueError''"
| "exn_class (KeyError m) = ''KeyError''"
| "exn_class (IndexError m) = ''IndexError''"
| "exn_class (TypeError m) = ''TypeError''"
| "exn_class (AttributeError m) = ''AttributeError''"
| "exn_class (OverflowError m) = ''OverflowError''"
| "exn_class (ZeroDivisionError m) = ''ZeroDivisionError''"
| "exn_class (RuntimeError m) = ''RuntimeError''"
| "exn_class (TimeoutError m) = ''TimeoutError''"
| "exn_class (OSError m) = ''OSError''"
| "exn_class (JSONDecodeError m) = ''JSONDecodeError''"
| "exn_class (FileExistsError m) = ''FileExistsError''"
| "exn_class (TimeoutExpired m) = ''TimeoutExpired''"

fun is_contract_error :: "exn \<Rightarrow> bool" where
  "is_contract_error (ContractError m) = True"
| "is_contract_error _ = False"

fun rbind :: "'e + 'a \<Rightarrow> ('a \<Rightarrow> 'e + 'b) \<Rightarrow> 'e + 'b" where
  "rbind (Inl e) f = Inl e"
| "rbind (Inr x) f = f x"

lemma rbind_eq_Inr_iff [simp, result_simps]:
  "rbind m f = Inr y \<longleftrightarrow> (\<exists>x. m = Inr x \<and> f x = Inr y)"
  by (cases m) auto

lemma rbind_eq_Inl_iff [result_simps]:
  "rbind m f = Inl e \<longleftrightarrow> m = Inl e \<or> (\<exists>x. m = Inr x \<and> f x = Inl e)"
  by (cases m) auto

text \<open>An early exit of the source is a branch that raises.\<close>

lemma if_Inl_eq_Inr_iff [simp, result_simps]:
  "(if b then Inl e else m) = Inr z \<longleftrightarrow> \<not> b \<and> m = Inr z"
  "(if b then m else Inl e) = Inr z \<longleftrightarrow> b \<and> m = Inr z"
  by auto

lemma case_option_Inl_eq_Inr_iff [simp, result_simps]:
  "(case x of None \<Rightarrow> Inl e | Some y \<Rightarrow> f y) = Inr z \<longleftrightarrow> (\<exists>y. x = Some y \<and> f y = Inr z)"
  "(case x of None \<Rightarrow> m | Some y \<Rightarrow> Inl e) = Inr z \<longleftrightarrow> x = None \<and> m = Inr z"
  by (auto split: option.splits)

lemma if_Inl_eq_Inl_iff [result_simps]:
  "(if b then m else m') = Inl z \<longleftrightarrow> b \<and> m = Inl z \<or> \<not> b \<and> m' = Inl z"
  by auto

lemma case_option_Inl_eq_Inl_iff [result_simps]:
  "(case x of None \<Rightarrow> m | Some y \<Rightarrow> f y) = Inl z \<longleftrightarrow>
     x = None \<and> m = Inl z \<or> (\<exists>y. x = Some y \<and> f y = Inl z)"
  by (auto split: option.splits)

lemma rbind_cong [fundef_cong]:
  "m = m' \<Longrightarrow> (\<And>x. m' = Inr x \<Longrightarrow> f x = f' x) \<Longrightarrow> rbind m f = rbind m' f'"
  by (cases m') auto

lemma rbind_assoc: "rbind (rbind m f) g = rbind m (\<lambda>x. rbind (f x) g)"
  by (cases m) auto

text \<open>A loop that raises at the first element whose body raises.\<close>

fun rtraverse :: "('a \<Rightarrow> 'e + 'b) \<Rightarrow> 'a list \<Rightarrow> 'e + 'b list" where
  "rtraverse f [] = Inr []"
| "rtraverse f (x # xs) = rbind (f x) (\<lambda>y. rbind (rtraverse f xs) (\<lambda>ys. Inr (y # ys)))"

lemma rtraverse_cong [fundef_cong]:
  "xs = ys \<Longrightarrow> (\<And>x. x \<in> set ys \<Longrightarrow> f x = g x) \<Longrightarrow> rtraverse f xs = rtraverse g ys"
proof (induction ys arbitrary: xs)
  case Nil
  then show ?case by simp
next
  case (Cons y ys)
  from Cons.prems have "xs = y # ys" "f y = g y" by auto
  moreover have "rtraverse f ys = rtraverse g ys"
    using Cons.prems by (intro Cons.IH) auto
  ultimately show ?case by simp
qed

lemma rtraverse_eq_Inr_iff [result_simps]:
  "rtraverse f xs = Inr ys \<longleftrightarrow> list_all2 (\<lambda>x y. f x = Inr y) xs ys"
proof (induction xs arbitrary: ys)
  case Nil
  then show ?case by auto
next
  case (Cons x xs)
  then show ?case by (cases ys) auto
qed

lemma rtraverse_all_Inr: "(\<And>x. x \<in> set xs \<Longrightarrow> f x = Inr (g x)) \<Longrightarrow> rtraverse f xs = Inr (map g xs)"
  by (induction xs) auto

lemma rtraverse_map: "rtraverse f (map g xs) = rtraverse (\<lambda>x. f (g x)) xs"
  by (induction xs) auto

lemma rtraverse_InlD: "rtraverse f xs = Inl e \<Longrightarrow> \<exists>x \<in> set xs. f x = Inl e"
  by (induction xs) (auto simp: rbind_eq_Inl_iff)

lemma rtraverse_length: "rtraverse f xs = Inr ys \<Longrightarrow> length ys = length xs"
  by (simp add: rtraverse_eq_Inr_iff list_all2_lengthD)

lemma rtraverse_setD:
  assumes "rtraverse f xs = Inr ys" and "y \<in> set ys"
  shows "\<exists>x \<in> set xs. f x = Inr y"
  using assms by (fastforce simp: rtraverse_eq_Inr_iff list_all2_conv_all_nth in_set_conv_nth)

lemma rtraverse_setI:
  assumes "rtraverse f xs = Inr ys" and "x \<in> set xs"
  shows "\<exists>y \<in> set ys. f x = Inr y"
  using assms by (fastforce simp: rtraverse_eq_Inr_iff list_all2_conv_all_nth in_set_conv_nth)

text \<open>A loop over a state that stops at the first exception.\<close>

fun rfold :: "('s \<Rightarrow> 'a \<Rightarrow> 'e + 's) \<Rightarrow> 's \<Rightarrow> 'a list \<Rightarrow> 'e + 's" where
  "rfold f s [] = Inr s"
| "rfold f s (x # xs) = rbind (f s x) (\<lambda>s'. rfold f s' xs)"

lemma rfold_append: "rfold f s (xs @ ys) = rbind (rfold f s xs) (\<lambda>s'. rfold f s' ys)"
  by (induction xs arbitrary: s) (auto simp: rbind_assoc)

lemma rfold_InlD: "rfold f s xs = Inl e \<Longrightarrow> \<exists>t x. x \<in> set xs \<and> f t x = Inl e"
proof (induction xs arbitrary: s)
  case Nil
  then show ?case by simp
next
  case (Cons x xs)
  then show ?case by (simp add: rbind_eq_Inl_iff) blast
qed

lemma rfold_invariant:
  assumes "rfold f s xs = Inr s'" and "P s"
    and "\<And>t x t'. P t \<Longrightarrow> x \<in> set xs \<Longrightarrow> f t x = Inr t' \<Longrightarrow> P t'"
  shows "P s'"
  using assms
proof (induction xs arbitrary: s)
  case Nil
  then show ?case by simp
next
  case (Cons x xs)
  from Cons.prems(1) obtain t where t: "f s x = Inr t" "rfold f t xs = Inr s'"
    by auto
  have "P t" using Cons.prems(3) [OF Cons.prems(2) _ t(1)] by simp
  show ?case
    using t(2) \<open>P t\<close> Cons.prems(3) by (rule Cons.IH) simp_all
qed

lemma rfold_total:
  assumes "P s" and "\<And>t x. P t \<Longrightarrow> x \<in> set xs \<Longrightarrow> \<exists>t'. f t x = Inr t' \<and> P t'"
  shows "\<exists>s'. rfold f s xs = Inr s' \<and> P s'"
  using assms
proof (induction xs arbitrary: s)
  case Nil
  then show ?case by simp
next
  case (Cons x xs)
  obtain t where t: "f s x = Inr t" "P t"
    using Cons.prems(1) Cons.prems(2) [of s x] by auto
  have "\<exists>s'. rfold f t xs = Inr s' \<and> P s'"
    using t(2) Cons.prems(2) by (intro Cons.IH) auto
  with t(1) show ?case by simp
qed

section \<open>Strings\<close>

text \<open>The characters below 256 for which \<open>str.isspace\<close> holds.\<close>

definition py_isspace :: "char \<Rightarrow> bool" where
  "py_isspace c \<longleftrightarrow> (of_char c :: nat) \<in> {9, 10, 11, 12, 13, 28, 29, 30, 31, 32, 133, 160}"

definition py_lstrip :: "string \<Rightarrow> string" where
  "py_lstrip s = dropWhile py_isspace s"

definition py_rstrip :: "string \<Rightarrow> string" where
  "py_rstrip s = rev (dropWhile py_isspace (rev s))"

definition py_strip :: "string \<Rightarrow> string" where
  "py_strip s = py_rstrip (py_lstrip s)"

lemma py_strip_Nil [simp]: "py_strip [] = []"
  by (simp add: py_strip_def py_lstrip_def py_rstrip_def)

lemma hd_dropWhile': "dropWhile P xs \<noteq> [] \<Longrightarrow> \<not> P (hd (dropWhile P xs))"
  by (rule hd_dropWhile)

lemma py_strip_id:
  assumes "s \<noteq> [] \<Longrightarrow> \<not> py_isspace (hd s)" and "s \<noteq> [] \<Longrightarrow> \<not> py_isspace (last s)"
  shows "py_strip s = s"
proof (cases "s = []")
  case True
  then show ?thesis by simp
next
  case False
  then have "py_lstrip s = s"
    using assms(1) by (cases s) (auto simp: py_lstrip_def)
  moreover have "dropWhile py_isspace (rev s) = rev s"
    using assms(2) False by (cases "rev s") (auto simp: last_rev hd_rev)
  ultimately show ?thesis by (simp add: py_strip_def py_rstrip_def)
qed

lemma py_strip_no_space: "(\<And>c. c \<in> set s \<Longrightarrow> \<not> py_isspace c) \<Longrightarrow> py_strip s = s"
  by (rule py_strip_id) auto

lemma py_rstrip_last: "py_rstrip s \<noteq> [] \<Longrightarrow> \<not> py_isspace (last (py_rstrip s))"
  using hd_dropWhile [of py_isspace "rev s"] by (simp add: py_rstrip_def last_rev)

lemma py_rstrip_hd: "py_rstrip s \<noteq> [] \<Longrightarrow> hd (py_rstrip s) = hd s"
proof -
  assume ne: "py_rstrip s \<noteq> []"
  have "s = py_rstrip s @ rev (takeWhile py_isspace (rev s))"
    unfolding py_rstrip_def
    by (metis rev_append rev_rev_ident takeWhile_dropWhile_id)
  with ne show ?thesis by (metis hd_append2)
qed

lemma py_strip_idem [simp]: "py_strip (py_strip s) = py_strip s"
proof (rule py_strip_id)
  assume ne: "py_strip s \<noteq> []"
  then have "py_lstrip s \<noteq> []" by (auto simp: py_strip_def py_rstrip_def)
  then have "\<not> py_isspace (hd (py_lstrip s))" by (simp add: py_lstrip_def hd_dropWhile)
  with ne show "\<not> py_isspace (hd (py_strip s))" by (simp add: py_strip_def py_rstrip_hd)
next
  assume "py_strip s \<noteq> []"
  then show "\<not> py_isspace (last (py_strip s))" by (simp add: py_strip_def py_rstrip_last)
qed

fun join :: "string \<Rightarrow> string list \<Rightarrow> string" where
  "join sep [] = []"
| "join sep [x] = x"
| "join sep (x # xs) = x @ sep @ join sep xs"

definition digit_char :: "nat \<Rightarrow> char" where
  "digit_char d = char_of (48 + d)"

fun nat_text :: "nat \<Rightarrow> string" where
  "nat_text n = (if n < 10 then [digit_char n] else nat_text (n div 10) @ [digit_char (n mod 10)])"

declare nat_text.simps [simp del]

definition int_text :: "int \<Rightarrow> string" where
  "int_text i = (if i < 0 then ''-'' @ nat_text (nat (- i)) else nat_text (nat i))"

definition has_prefix :: "string \<Rightarrow> string \<Rightarrow> bool" where
  "has_prefix p s \<longleftrightarrow> take (length p) s = p"

text \<open>\<open>p in s\<close> for strings.\<close>

fun is_substring :: "string \<Rightarrow> string \<Rightarrow> bool" where
  "is_substring p [] \<longleftrightarrow> p = []"
| "is_substring p (c # cs) \<longleftrightarrow> has_prefix p (c # cs) \<or> is_substring p cs"

section \<open>Dictionaries\<close>

type_synonym 'a dict = "(string \<times> 'a) list"

definition dict_keys :: "'a dict \<Rightarrow> string list" where
  "dict_keys d = map fst d"

definition dict_has :: "string \<Rightarrow> 'a dict \<Rightarrow> bool" where
  "dict_has k d \<longleftrightarrow> k \<in> set (map fst d)"

definition dict_get :: "string \<Rightarrow> 'a dict \<Rightarrow> 'a option" where
  "dict_get k d = map_of d k"

definition dict_set :: "string \<Rightarrow> 'a \<Rightarrow> 'a dict \<Rightarrow> 'a dict" where
  "dict_set k v d = AList.update k v d"

text \<open>\<open>d.update(e)\<close>: existing keys keep their place, new keys are appended.\<close>

definition dict_update :: "'a dict \<Rightarrow> 'a dict \<Rightarrow> 'a dict" where
  "dict_update d e = foldl (\<lambda>acc (k, v). dict_set k v acc) d e"

lemma dict_get_set [simp, dict_simps]: "dict_get k (dict_set k' v d) = (if k = k' then Some v else dict_get k d)"
  by (simp add: dict_get_def dict_set_def AList.update_conv')

lemma dict_has_get: "dict_has k d \<longleftrightarrow> dict_get k d \<noteq> None"
  by (simp add: dict_has_def dict_get_def map_of_eq_None_iff)

lemma dict_keys_set [dict_simps]:
  "dict_keys (dict_set k v d) = (if k \<in> set (dict_keys d) then dict_keys d else dict_keys d @ [k])"
  by (simp add: dict_keys_def dict_set_def AList.update_keys)

lemma distinct_dict_set: "distinct (dict_keys d) \<Longrightarrow> distinct (dict_keys (dict_set k v d))"
  by (simp add: dict_keys_set)

lemma dict_get_Nil [simp]: "dict_get k [] = None"
  by (simp add: dict_get_def)

lemma dict_get_Cons [simp]: "dict_get k ((k', v) # d) = (if k' = k then Some v else dict_get k d)"
  by (simp add: dict_get_def)

lemma dict_update_Nil [simp]: "dict_update d [] = d"
  by (simp add: dict_update_def)

lemma dict_update_Cons [simp]: "dict_update d ((k, v) # e) = dict_update (dict_set k v d) e"
  by (simp add: dict_update_def)

lemma dict_get_update:
  "distinct (dict_keys e) \<Longrightarrow>
    dict_get k (dict_update d e) = (case dict_get k e of None \<Rightarrow> dict_get k d | Some v \<Rightarrow> Some v)"
proof (induction e arbitrary: d)
  case Nil
  then show ?case by simp
next
  case (Cons p e)
  obtain k' v where p: "p = (k', v)" by (cases p)
  have "k' = k \<Longrightarrow> dict_get k e = None"
    using Cons.prems p by (auto simp: dict_get_def dict_keys_def map_of_eq_None_iff)
  with Cons p show ?case by (auto simp: dict_keys_def split: option.splits)
qed

lemma dict_get_in_keys: "dict_get k d = Some v \<Longrightarrow> k \<in> set (dict_keys d)"
  by (metis dict_get_def dict_keys_def domI dom_map_of_conv_image_fst list.set_map)

lemma dict_get_mem: "dict_get k d = Some v \<Longrightarrow> (k, v) \<in> set d"
  by (simp add: dict_get_def map_of_SomeD)

lemma dict_get_mem_iff: "distinct (dict_keys d) \<Longrightarrow> dict_get k d = Some v \<longleftrightarrow> (k, v) \<in> set d"
  by (simp add: dict_get_def dict_keys_def)

end
