(* ===== verification/Py_Float.thy ===== *)
theory Py_Float
  imports Complex_Main Prelude "HOL-Library.Log_Nat"
begin

text \<open>
  Python's \<open>float\<close>: IEEE binary64 with round-half-to-even, executable on rationals.
  A finite double is the rational it denotes; the two zeros are one value, which only
  the text of a float tells apart (division by zero raises).  The locale
  \<open>rounding\<close> is what the clients use of the rounding function; the interpretation at
  the end of the theory discharges it for binary64.
\<close>

section \<open>The interface of a rounding function\<close>

locale rounding =
  fixes rd :: "rat \<Rightarrow> rat"
  assumes rd_mono: "p \<le> q \<Longrightarrow> rd p \<le> rd q"
    and rd_idem: "rd (rd q) = rd q"
    and rd_zero: "rd 0 = 0"
    and rd_one: "rd 1 = 1"
begin

lemma rd_nonneg: "0 \<le> q \<Longrightarrow> 0 \<le> rd q"
  using rd_mono [of 0 q] by (simp add: rd_zero)

lemma rd_le_one: "q \<le> 1 \<Longrightarrow> rd q \<le> 1"
  using rd_mono [of q 1] by (simp add: rd_one)

lemma rd_ge_one: "1 \<le> q \<Longrightarrow> 1 \<le> rd q"
  using rd_mono [of 1 q] by (simp add: rd_one)

lemma rd_scale_down:
  assumes "rd b = b" and "0 \<le> b" and "0 \<le> f" and "f \<le> 1"
  shows "rd (b * f) \<le> b"
proof -
  have "b * f \<le> b" using assms by (simp add: mult_left_le)
  then show ?thesis using rd_mono [of "b * f" b] assms(1) by simp
qed

lemma rd_scale_up:
  assumes "rd b = b" and "0 \<le> b" and "1 \<le> f"
  shows "b \<le> rd (b * f)"
proof -
  have "b * 1 \<le> b * f" using assms by (intro mult_left_mono) auto
  then show ?thesis using rd_mono [of b "b * f"] assms(1) by simp
qed

lemma rd_less_imp_less: "rd p < rd q \<Longrightarrow> p < q"
  using rd_mono [of q p] by force

end

section \<open>Binary exponents\<close>

definition binexp :: "rat \<Rightarrow> int" where
  "binexp q = (case quotient_of \<bar>q\<bar> of (p, d) \<Rightarrow>
     let e = int (floorlog 2 (nat p)) - int (floorlog 2 (nat d))
     in if 2 powi e \<le> \<bar>q\<bar> then e else e - 1)"

lemma two_powi_pos [simp]: "0 < (2 :: rat) powi e"
  by (simp add: zero_less_power_int)

lemma two_powi_mono: "a \<le> b \<Longrightarrow> (2 :: rat) powi a \<le> 2 powi b"
  by (simp add: power_int_increasing)

lemma two_powi_less_iff: "(2 :: rat) powi a < 2 powi b \<longleftrightarrow> a < b"
  by (meson linorder_not_less one_less_numeral_iff power_int_strict_increasing semiring_norm(76)
      two_powi_mono)

lemma two_powi_add: "(2 :: rat) powi (a + b) = 2 powi a * 2 powi b"
  by (simp add: power_int_add)

lemma two_powi_diff: "(2 :: rat) powi (a - b) = 2 powi a / 2 powi b"
  by (simp add: power_int_diff)

lemma floorlog_powi:
  assumes "0 < n"
  shows "(2 :: rat) powi (int (floorlog 2 n) - 1) \<le> of_nat n"
    and "of_nat n < (2 :: rat) powi int (floorlog 2 n)"
proof -
  have b: "2 ^ (floorlog 2 n - 1) \<le> n" "n < 2 ^ floorlog 2 n"
    using floorlog_bounds [of n 2] assms by auto
  have pos: "0 < floorlog 2 n" using assms by (simp add: floorlog_def)
  have "(2 :: rat) powi (int (floorlog 2 n) - 1) = 2 powi int (floorlog 2 n - 1)"
    using pos by (simp add: of_nat_diff)
  also have "\<dots> = of_nat (2 ^ (floorlog 2 n - 1))" by simp
  also have "\<dots> \<le> of_nat n" using b(1) by (rule of_nat_mono)
  finally show "(2 :: rat) powi (int (floorlog 2 n) - 1) \<le> of_nat n" .
  have "(of_nat n :: rat) < of_nat (2 ^ floorlog 2 n)"
    using b(2) by (simp only: of_nat_less_iff)
  then show "of_nat n < (2 :: rat) powi int (floorlog 2 n)" by simp
qed

lemma binexp_bounds:
  assumes "q \<noteq> 0"
  shows "2 powi binexp q \<le> \<bar>q\<bar>" and "\<bar>q\<bar> < 2 powi (binexp q + 1)"
proof -
  obtain p d where pd: "quotient_of \<bar>q\<bar> = (p, d)" by (cases "quotient_of \<bar>q\<bar>") auto
  have d: "0 < d" using quotient_of_denom_pos [OF pd] .
  have q: "\<bar>q\<bar> = of_int p / of_int d" using quotient_of_div [OF pd] .
  have p: "0 < p"
    using assms q d by (metis div_by_0 divide_eq_0_iff linorder_neqE_linordered_idom of_int_0_less_iff
        of_int_less_0_iff not_less_iff_gr_or_eq zero_less_abs_iff zero_less_divide_iff of_int_0)
  define a where "a = int (floorlog 2 (nat p))"
  define b where "b = int (floorlog 2 (nat d))"
  have pr: "(of_int p :: rat) = of_nat (nat p)" and dr: "(of_int d :: rat) = of_nat (nat d)"
    using p d by (simp_all add: of_nat_nat)
  have P: "(2 :: rat) powi (a - 1) \<le> of_int p" "of_int p < (2 :: rat) powi a"
    using floorlog_powi [of "nat p"] p unfolding a_def pr by auto
  have D: "(2 :: rat) powi (b - 1) \<le> of_int d" "of_int d < (2 :: rat) powi b"
    using floorlog_powi [of "nat d"] d unfolding b_def dr by auto
  have dpos: "(0 :: rat) < of_int d" using d by simp
  have up: "\<bar>q\<bar> < 2 powi (a - b + 1)"
  proof -
    have "of_int p / of_int d < 2 powi a / (of_int d :: rat)"
      using P(2) dpos by (rule divide_strict_right_mono)
    also have "\<dots> \<le> 2 powi a / 2 powi (b - 1)"
      using D(1) dpos by (intro divide_left_mono) auto
    also have "\<dots> = 2 powi (a - (b - 1))" by (simp only: two_powi_diff)
    finally show ?thesis using q by (simp add: algebra_simps)
  qed
  have lo: "2 powi (a - b - 1) \<le> \<bar>q\<bar>"
  proof -
    have "(2 :: rat) powi (a - b - 1) = 2 powi (a - 1) / 2 powi b"
      by (simp only: two_powi_diff [symmetric]) (simp add: algebra_simps)
    also have "\<dots> \<le> 2 powi (a - 1) / of_int d"
      using D(2) dpos by (intro divide_left_mono) auto
    also have "\<dots> \<le> of_int p / of_int d"
      using P(1) dpos by (intro divide_right_mono) auto
    finally show ?thesis using q by simp
  qed
  have be: "binexp q = (if 2 powi (a - b) \<le> \<bar>q\<bar> then a - b else a - b - 1)"
    by (simp add: binexp_def pd a_def b_def Let_def)
  show "2 powi binexp q \<le> \<bar>q\<bar>" using lo by (simp add: be)
  show "\<bar>q\<bar> < 2 powi (binexp q + 1)" using up by (simp add: be)
qed

lemma binexp_unique:
  assumes "2 powi e \<le> \<bar>q\<bar>" and "\<bar>q\<bar> < 2 powi (e + 1)"
  shows "binexp q = e"
proof -
  have q: "q \<noteq> 0" using assms(1) two_powi_pos [of e] by (auto simp: linorder_not_le [symmetric])
  have "2 powi e < (2 :: rat) powi (binexp q + 1)" using assms(1) binexp_bounds(2) [OF q] by simp
  moreover have "2 powi binexp q < (2 :: rat) powi (e + 1)" using assms(2) binexp_bounds(1) [OF q] by simp
  ultimately show ?thesis by (simp only: two_powi_less_iff)
qed

lemma binexp_mono: "0 < p \<Longrightarrow> p \<le> q \<Longrightarrow> binexp p \<le> binexp q"
proof -
  assume pq: "0 < p" "p \<le> q"
  have "2 powi binexp p \<le> \<bar>p\<bar>" using binexp_bounds(1) [of p] pq by simp
  also have "\<dots> \<le> \<bar>q\<bar>" using pq by simp
  also have "\<dots> < 2 powi (binexp q + 1)" using binexp_bounds(2) [of q] pq by simp
  finally show ?thesis by (simp only: two_powi_less_iff)
qed

lemma binexp_minus [simp]: "binexp (- q) = binexp q"
  by (simp add: binexp_def)

section \<open>Round half to even\<close>

definition rne :: "rat \<Rightarrow> int" where
  "rne x = (let f = \<lfloor>x\<rfloor>; r = x - of_int f in
     if r < 1 / 2 then f else if 1 / 2 < r then f + 1 else if even f then f else f + 1)"

lemma rne_of_int [simp]: "rne (of_int k) = k"
  by (simp add: rne_def)

lemma rne_floor: "rne x = \<lfloor>x\<rfloor> \<or> rne x = \<lfloor>x\<rfloor> + 1"
  by (simp add: rne_def Let_def)

lemma rne_le_int: "x \<le> of_int k \<Longrightarrow> rne x \<le> k"
proof -
  assume le: "x \<le> of_int k"
  show ?thesis
  proof (cases "x = of_int k")
    case True
    then show ?thesis by simp
  next
    case False
    with le have "x < of_int k" by simp
    then have "\<lfloor>x\<rfloor> < k" by (simp add: floor_less_iff)
    then show ?thesis using rne_floor [of x] by auto
  qed
qed

lemma rne_ge_int: "of_int k \<le> x \<Longrightarrow> k \<le> rne x"
proof -
  assume "of_int k \<le> x"
  then have "k \<le> \<lfloor>x\<rfloor>" by (simp add: le_floor_iff)
  then show ?thesis using rne_floor [of x] by auto
qed

lemma rne_mono: "x \<le> y \<Longrightarrow> rne x \<le> rne y"
proof -
  assume xy: "x \<le> y"
  then have fl: "\<lfloor>x\<rfloor> \<le> \<lfloor>y\<rfloor>" by (rule floor_mono)
  show ?thesis
  proof (cases "\<lfloor>x\<rfloor> = \<lfloor>y\<rfloor>")
    case True
    with xy show ?thesis by (auto simp: rne_def Let_def)
  next
    case False
    with fl have "\<lfloor>x\<rfloor> + 1 \<le> \<lfloor>y\<rfloor>" by simp
    then show ?thesis using rne_floor [of x] rne_floor [of y] by linarith
  qed
qed

lemma rne_minus: "rne (- x) = - rne x"
proof (cases "x = of_int \<lfloor>x\<rfloor>")
  case True
  then obtain k where "x = of_int k" by blast
  then have "- x = of_int (- k)" by simp
  then show ?thesis using \<open>x = of_int k\<close> rne_of_int by metis
next
  case False
  have f: "of_int \<lfloor>x\<rfloor> \<le> x" "x < of_int \<lfloor>x\<rfloor> + 1" by linarith+
  with False have "of_int \<lfloor>x\<rfloor> < x" by linarith
  with f have fm: "\<lfloor>- x\<rfloor> = - \<lfloor>x\<rfloor> - 1" by (intro floor_unique) auto
  show ?thesis by (auto simp: rne_def Let_def fm)
qed

section \<open>Rounding to binary64\<close>

definition ulp_exp :: "rat \<Rightarrow> int" where
  "ulp_exp q = max (binexp q - 52) (- 1074)"

definition rnd :: "rat \<Rightarrow> rat" where
  "rnd q = (if q = 0 then 0 else of_int (rne (q / 2 powi ulp_exp q)) * 2 powi ulp_exp q)"

lemma rnd_zero [simp]: "rnd 0 = 0"
  by (simp add: rnd_def)

lemma ulp_exp_minus [simp]: "ulp_exp (- q) = ulp_exp q"
  by (simp add: ulp_exp_def)

lemma rnd_minus: "rnd (- q) = - rnd q"
  by (simp add: rnd_def rne_minus flip: minus_divide_left)

text \<open>A multiple of a power of two that is at least the unit in the last place is kept.\<close>

lemma rnd_exact:
  assumes "r = of_int k * 2 powi m" and "ulp_exp r \<le> m"
  shows "rnd r = r"
proof (cases "r = 0")
  case True
  then show ?thesis by simp
next
  case False
  define j where "j = nat (m - ulp_exp r)"
  define u where "u = (2 :: rat) powi ulp_exp r"
  have u0: "u \<noteq> 0" using two_powi_pos [of "ulp_exp r"] by (simp add: u_def)
  have "(2 :: rat) powi m = 2 powi (int j + ulp_exp r)"
    using assms(2) by (simp add: j_def)
  also have "\<dots> = 2 ^ j * u" by (simp add: two_powi_add u_def)
  finally have "r = of_int (k * 2 ^ j) * u"
    using assms(1) by simp
  with u0 have "r / u = of_int (k * 2 ^ j)" by simp
  then have "rnd r = of_int (k * 2 ^ j) * u"
    using False by (simp only: rnd_def u_def if_False rne_of_int)
  with \<open>r = of_int (k * 2 ^ j) * u\<close> show ?thesis by simp
qed

lemma rnd_powi: "- 1074 \<le> e \<Longrightarrow> rnd (2 powi e) = 2 powi e"
proof (rule rnd_exact [of _ 1 e])
  assume "- 1074 \<le> e"
  have "binexp (2 powi e) = e"
    by (rule binexp_unique) (simp_all add: two_powi_add)
  with \<open>- 1074 \<le> e\<close> show "ulp_exp (2 powi e) \<le> e" by (simp add: ulp_exp_def)
qed simp

text \<open>Every integer below \<open>2 ^ 53\<close> over a power of two is a double.\<close>

lemma rnd_dyadic:
  assumes "q = of_int k / 2 ^ n" and "\<bar>k\<bar> < 2 ^ 53" and "n \<le> 1074"
  shows "rnd q = q"
proof (cases "k = 0")
  case True
  with assms(1) show ?thesis by simp
next
  case False
  then have q0: "q \<noteq> 0" using assms(1) by simp
  have eq: "q = of_int k * 2 powi (- int n)"
    using assms(1) by (simp add: power_int_minus divide_inverse)
  have "(of_int \<bar>k\<bar> :: rat) < of_int (2 ^ 53)"
    using assms(2) by (simp only: of_int_less_iff)
  then have "of_int \<bar>k\<bar> * 2 powi (- int n) < (2 :: rat) powi 53 * 2 powi (- int n)"
    by (intro mult_strict_right_mono) simp_all
  moreover have "\<bar>q\<bar> = of_int \<bar>k\<bar> * 2 powi (- int n)"
    unfolding eq abs_mult using two_powi_pos [of "- int n"] by (simp only: of_int_abs abs_of_pos)
  ultimately have "\<bar>q\<bar> < 2 powi 53 * 2 powi (- int n)" by simp
  then have "\<bar>q\<bar> < 2 powi (53 - int n)" by (simp only: two_powi_add [symmetric]) simp
  with binexp_bounds(1) [OF q0] have "(2 :: rat) powi binexp q < 2 powi (53 - int n)"
    by (rule le_less_trans)
  then have "binexp q < 53 - int n" by (rule two_powi_less_iff [THEN iffD1])
  with assms(3) have "ulp_exp q \<le> - int n" by (simp add: ulp_exp_def)
  with eq show ?thesis by (rule rnd_exact)
qed

lemma rnd_int: "\<bar>k\<bar> < 2 ^ 53 \<Longrightarrow> rnd (of_int k) = of_int k"
  by (rule rnd_dyadic [of _ k 0]) simp_all

lemma rnd_one [simp]: "rnd 1 = 1"
  using rnd_powi [of 0] by simp

lemma ulp_exp_mono: "0 < p \<Longrightarrow> p \<le> q \<Longrightarrow> ulp_exp p \<le> ulp_exp q"
  using binexp_mono [of p q] by (simp add: ulp_exp_def)

lemma rnd_pos_le_powi:
  assumes "0 < p" and "p \<le> 2 powi e" and "ulp_exp p \<le> e"
  shows "rnd p \<le> 2 powi e"
proof -
  define k where "k = (2 :: int) ^ nat (e - ulp_exp p)"
  have k: "(of_int k :: rat) = 2 powi e / 2 powi ulp_exp p"
  proof -
    have "(of_int k :: rat) = 2 powi (e - ulp_exp p)"
      using assms(3) by (simp add: k_def power_int_def)
    then show ?thesis by (simp only: two_powi_diff)
  qed
  have "p / 2 powi ulp_exp p \<le> of_int k"
    unfolding k using assms(2) by (intro divide_right_mono) (auto intro: less_imp_le)
  then have "rne (p / 2 powi ulp_exp p) \<le> k" by (rule rne_le_int)
  then have "(of_int (rne (p / 2 powi ulp_exp p)) :: rat) \<le> of_int k" by simp
  then have "rnd p \<le> of_int k * 2 powi ulp_exp p"
    using assms(1) by (simp add: rnd_def less_imp_le)
  then show ?thesis by (simp add: k)
qed

lemma rnd_pos_ge_powi:
  assumes "2 powi e \<le> q" and "ulp_exp q \<le> e"
  shows "2 powi e \<le> rnd q"
proof -
  have q: "0 < q" using assms(1) two_powi_pos [of e] by linarith
  define k where "k = (2 :: int) ^ nat (e - ulp_exp q)"
  have k: "(of_int k :: rat) = 2 powi e / 2 powi ulp_exp q"
  proof -
    have "(of_int k :: rat) = 2 powi (e - ulp_exp q)"
      using assms(2) by (simp add: k_def power_int_def)
    then show ?thesis by (simp only: two_powi_diff)
  qed
  have "of_int k \<le> q / 2 powi ulp_exp q"
    unfolding k using assms(1) by (intro divide_right_mono) (auto intro: less_imp_le)
  then have "k \<le> rne (q / 2 powi ulp_exp q)" by (rule rne_ge_int)
  then have "(of_int k :: rat) \<le> of_int (rne (q / 2 powi ulp_exp q))" by simp
  then have "of_int k * 2 powi ulp_exp q \<le> rnd q"
    using q by (simp add: rnd_def less_imp_le)
  then show ?thesis by (simp add: k)
qed

lemma rnd_mono_pos:
  assumes "0 < p" and "p \<le> q"
  shows "rnd p \<le> rnd q"
proof (cases "ulp_exp p = ulp_exp q")
  case True
  have "p / 2 powi ulp_exp p \<le> q / 2 powi ulp_exp q"
    using assms(2) True by (simp add: divide_right_mono less_imp_le)
  then have "(of_int (rne (p / 2 powi ulp_exp p)) :: rat) \<le> of_int (rne (q / 2 powi ulp_exp q))"
    by (simp only: of_int_le_iff rne_mono)
  with True assms show ?thesis by (simp add: rnd_def mult_right_mono less_imp_le)
next
  case False
  with ulp_exp_mono [OF assms] have lt: "ulp_exp p < ulp_exp q" by simp
  then have q: "ulp_exp q = binexp q - 52" and pq: "binexp p < binexp q"
    by (auto simp: ulp_exp_def max_def split: if_splits)
  have "p < 2 powi (binexp p + 1)" using binexp_bounds(2) [of p] assms(1) by simp
  also have "\<dots> \<le> 2 powi binexp q" using pq by (intro two_powi_mono) simp
  finally have "rnd p \<le> 2 powi binexp q"
    using assms(1) lt q by (intro rnd_pos_le_powi) auto
  also have "\<dots> \<le> rnd q"
    using binexp_bounds(1) [of q] assms q by (intro rnd_pos_ge_powi) auto
  finally show ?thesis .
qed

lemma rnd_nonneg: "0 \<le> q \<Longrightarrow> 0 \<le> rnd q"
proof (cases "q = 0")
  assume "0 \<le> q" "q \<noteq> 0"
  then have "of_int 0 \<le> q / 2 powi ulp_exp q" by simp
  then have "0 \<le> rne (q / 2 powi ulp_exp q)" by (rule rne_ge_int)
  then have "(0 :: rat) \<le> of_int (rne (q / 2 powi ulp_exp q))" by simp
  with \<open>q \<noteq> 0\<close> show ?thesis
    using two_powi_pos [of "ulp_exp q"] by (simp add: rnd_def)
qed simp

lemma rnd_nonpos: "q \<le> 0 \<Longrightarrow> rnd q \<le> 0"
  using rnd_nonneg [of "- q"] by (simp add: rnd_minus)

lemma rnd_mono: "p \<le> q \<Longrightarrow> rnd p \<le> rnd q"
proof -
  assume pq: "p \<le> q"
  consider "0 < p" | "q < 0" | "p \<le> 0" "0 \<le> q" by linarith
  then show ?thesis
  proof cases
    case 1
    then show ?thesis using pq by (rule rnd_mono_pos)
  next
    case 2
    then have "rnd (- q) \<le> rnd (- p)" using pq by (intro rnd_mono_pos) auto
    then show ?thesis by (simp add: rnd_minus)
  next
    case 3
    then show ?thesis using rnd_nonpos [of p] rnd_nonneg [of q] by linarith
  qed
qed

lemma rnd_idem_pos:
  assumes "0 < q"
  shows "rnd (rnd q) = rnd q"
proof (cases "rnd q = 0")
  case True
  then show ?thesis by simp
next
  case False
  define k where "k = rne (q / 2 powi ulp_exp q)"
  have r: "rnd q = of_int k * 2 powi ulp_exp q" using assms by (simp add: rnd_def k_def)
  have r0: "0 < rnd q" using False rnd_nonneg [of q] assms by simp
  have qlt: "q \<le> 2 powi (binexp q + 1)" using binexp_bounds(2) [of q] assms by simp
  show ?thesis
  proof (cases "ulp_exp q \<le> binexp q")
    case True
    then have le: "rnd q \<le> 2 powi (binexp q + 1)"
      using assms qlt by (intro rnd_pos_le_powi) auto
    show ?thesis
    proof (cases "rnd q = 2 powi (binexp q + 1)")
      case True
      moreover have "- 1074 \<le> binexp q + 1"
        using \<open>ulp_exp q \<le> binexp q\<close> by (simp add: ulp_exp_def)
      ultimately show ?thesis by (simp add: rnd_powi)
    next
      case False
      with le have "rnd q < 2 powi (binexp q + 1)" by simp
      moreover have "2 powi binexp (rnd q) \<le> rnd q" using binexp_bounds(1) [of "rnd q"] r0 by simp
      ultimately have "(2 :: rat) powi binexp (rnd q) < 2 powi (binexp q + 1)" by simp
      then have "ulp_exp (rnd q) \<le> ulp_exp q"
        by (simp add: two_powi_less_iff ulp_exp_def)
      with r show ?thesis by (rule rnd_exact)
    qed
  next
    case False
    then have u: "ulp_exp q = - 1074" and b: "binexp q + 1 \<le> - 1074"
      by (auto simp: ulp_exp_def max_def split: if_splits)
    have "q \<le> 2 powi (- 1074)" using qlt two_powi_mono [OF b] by simp
    then have le: "rnd q \<le> 2 powi (- 1074)" using assms u by (intro rnd_pos_le_powi) auto
    have "2 powi binexp (rnd q) \<le> rnd q" using binexp_bounds(1) [of "rnd q"] r0 by simp
    with le have "(2 :: rat) powi binexp (rnd q) \<le> 2 powi (- 1074)" by (rule order_trans [rotated])
    also have "\<dots> < (2 :: rat) powi (- 1074 + 1)" by (rule two_powi_less_iff [THEN iffD2]) simp
    finally have "(2 :: rat) powi binexp (rnd q) < 2 powi (- 1074 + 1)" .
    then have "binexp (rnd q) < - 1074 + 1" by (rule two_powi_less_iff [THEN iffD1])
    then have "ulp_exp (rnd q) \<le> ulp_exp q"
      by (simp add: ulp_exp_def)
    with r show ?thesis by (rule rnd_exact)
  qed
qed

lemma rnd_idem [simp]: "rnd (rnd q) = rnd q"
proof -
  consider "0 < q" | "q = 0" | "0 < - q" by linarith
  then show ?thesis
  proof cases
    case 3
    then have "rnd (rnd (- q)) = rnd (- q)" by (rule rnd_idem_pos)
    then show ?thesis by (simp add: rnd_minus)
  qed (simp_all add: rnd_idem_pos)
qed

interpretation ieee: rounding rnd
  by unfold_locales (auto intro: rnd_mono)

lemma rnd_pos_iff: "rnd q = q \<Longrightarrow> 0 < rnd q \<longleftrightarrow> 0 < q"
  by simp

section \<open>The values and the operations of \<open>float\<close>\<close>

datatype py_float = Fin rat | PosInf | NegInf | NaN

definition max_double :: rat where
  "max_double = 2 ^ 1024"

text \<open>The double nearest to an exact result; overflow gives an infinity.\<close>

definition to_double :: "rat \<Rightarrow> py_float" where
  "to_double q = (let r = rnd q in
     if max_double \<le> r then PosInf else if r \<le> - max_double then NegInf else Fin r)"

definition is_double :: "py_float \<Rightarrow> bool" where
  "is_double x \<longleftrightarrow> (case x of Fin q \<Rightarrow> rnd q = q \<and> \<bar>q\<bar> < max_double | _ \<Rightarrow> True)"

text \<open>\<open>float(i)\<close> for an \<open>int\<close>: raises when the rounded value is out of range.\<close>

definition float_of_int :: "int \<Rightarrow> py_float result" where
  "float_of_int i = (let r = rnd (of_int i) in
     if max_double \<le> \<bar>r\<bar> then Inl (OverflowError ''int too large to convert to float'')
     else Inr (Fin r))"

fun flt_isfinite :: "py_float \<Rightarrow> bool" where
  "flt_isfinite (Fin q) = True"
| "flt_isfinite _ = False"

fun flt_less :: "py_float \<Rightarrow> py_float \<Rightarrow> bool" where
  "flt_less (Fin a) (Fin b) = (a < b)"
| "flt_less (Fin a) PosInf = True"
| "flt_less NegInf (Fin b) = True"
| "flt_less NegInf PosInf = True"
| "flt_less _ _ = False"

fun flt_eq :: "py_float \<Rightarrow> py_float \<Rightarrow> bool" where
  "flt_eq (Fin a) (Fin b) = (a = b)"
| "flt_eq PosInf PosInf = True"
| "flt_eq NegInf NegInf = True"
| "flt_eq _ _ = False"

definition flt_le :: "py_float \<Rightarrow> py_float \<Rightarrow> bool" where
  "flt_le x y \<longleftrightarrow> flt_less x y \<or> flt_eq x y"

fun flt_neg :: "py_float \<Rightarrow> py_float" where
  "flt_neg (Fin a) = Fin (- a)"
| "flt_neg PosInf = NegInf"
| "flt_neg NegInf = PosInf"
| "flt_neg NaN = NaN"

fun flt_add :: "py_float \<Rightarrow> py_float \<Rightarrow> py_float" where
  "flt_add NaN y = NaN"
| "flt_add x NaN = NaN"
| "flt_add PosInf NegInf = NaN"
| "flt_add NegInf PosInf = NaN"
| "flt_add PosInf y = PosInf"
| "flt_add NegInf y = NegInf"
| "flt_add x PosInf = PosInf"
| "flt_add x NegInf = NegInf"
| "flt_add (Fin a) (Fin b) = to_double (a + b)"

definition flt_sub :: "py_float \<Rightarrow> py_float \<Rightarrow> py_float" where
  "flt_sub x y = flt_add x (flt_neg y)"

definition signed_inf :: "rat \<Rightarrow> py_float" where
  "signed_inf s = (if 0 < s then PosInf else if s < 0 then NegInf else NaN)"

fun flt_mul :: "py_float \<Rightarrow> py_float \<Rightarrow> py_float" where
  "flt_mul NaN y = NaN"
| "flt_mul x NaN = NaN"
| "flt_mul PosInf PosInf = PosInf"
| "flt_mul PosInf NegInf = NegInf"
| "flt_mul NegInf PosInf = NegInf"
| "flt_mul NegInf NegInf = PosInf"
| "flt_mul PosInf (Fin b) = signed_inf b"
| "flt_mul NegInf (Fin b) = signed_inf (- b)"
| "flt_mul (Fin a) PosInf = signed_inf a"
| "flt_mul (Fin a) NegInf = signed_inf (- a)"
| "flt_mul (Fin a) (Fin b) = to_double (a * b)"

text \<open>\<open>x / y\<close>: Python raises on a zero divisor.\<close>

fun flt_div :: "py_float \<Rightarrow> py_float \<Rightarrow> py_float result" where
  "flt_div x (Fin b) =
     (if b = 0 then Inl (ZeroDivisionError ''float division by zero'')
      else Inr (case x of Fin a \<Rightarrow> to_double (a / b)
                | PosInf \<Rightarrow> signed_inf b | NegInf \<Rightarrow> signed_inf (- b) | NaN \<Rightarrow> NaN))"
| "flt_div x PosInf = Inr (case x of Fin a \<Rightarrow> Fin 0 | _ \<Rightarrow> NaN)"
| "flt_div x NegInf = Inr (case x of Fin a \<Rightarrow> Fin 0 | _ \<Rightarrow> NaN)"
| "flt_div x NaN = Inr NaN"

lemma rnd_less_max: "is_double (Fin q) \<Longrightarrow> to_double q = Fin q"
  by (auto simp: is_double_def to_double_def Let_def)

lemma to_double_is_double: "is_double (to_double q)"
  by (auto simp: is_double_def to_double_def Let_def abs_if)

lemma float_of_int_is_double: "float_of_int i = Inr x \<Longrightarrow> is_double x \<and> flt_isfinite x"
  by (auto simp: float_of_int_def is_double_def Let_def split: if_splits)

lemma float_of_int_pos: "float_of_int i = Inr (Fin q) \<Longrightarrow> 1 \<le> i \<Longrightarrow> 1 \<le> q"
  using rnd_mono [of 1 "of_int i"] by (auto simp: float_of_int_def Let_def split: if_splits)

lemma flt_less_irrefl [simp]: "\<not> flt_less x x"
  by (cases x) auto

lemma flt_less_trans: "flt_less x y \<Longrightarrow> flt_less y z \<Longrightarrow> flt_less x z"
  by (cases x; cases y; cases z) auto

lemma to_double_Fin_le: "to_double p = Fin a \<Longrightarrow> to_double q = Fin b \<Longrightarrow> p \<le> q \<Longrightarrow> a \<le> b"
  using rnd_mono [of p q] by (auto simp: to_double_def Let_def split: if_splits)

end
