(* ===== verification/Json.thy ===== *)
theory Json
  imports Py_Float
begin

text \<open>
  JSON documents as Python holds them after \<open>json.loads\<close>: integers are unbounded,
  floats are binary64, an object is a dictionary in insertion order.  Equality, truth
  value, \<open>str\<close>, \<open>repr\<close> and the canonical serialisation behind every digest are the
  interpreter's.  The shortest decimal text of a float (\<open>float.__repr__\<close>) and SHA-256
  are arguments.
\<close>

datatype json =
    JNull
  | JBool bool
  | JInt int
  | JFloat py_float
  | JStr string
  | JList "json list"
  | JObj "(string \<times> json) list"

type_synonym jdict = "json dict"

section \<open>Well-formed documents\<close>

text \<open>What \<open>json.loads\<close> returns: no object has two entries for one key, floats are doubles.\<close>

primrec wf_json :: "json \<Rightarrow> bool" where
  "wf_json JNull = True"
| "wf_json (JBool b) = True"
| "wf_json (JInt i) = True"
| "wf_json (JFloat x) = is_double x"
| "wf_json (JStr s) = True"
| "wf_json (JList xs) = list_all id (map wf_json xs)"
| "wf_json (JObj kvs) = (distinct (map fst kvs) \<and> list_all (\<lambda>p. snd p) (map (map_prod id wf_json) kvs))"

lemma wf_json_list [simp]: "list_all id (map wf_json xs) \<longleftrightarrow> (\<forall>x \<in> set xs. wf_json x)"
  by (auto simp: list_all_iff)

lemma wf_json_obj [simp]:
  "list_all (\<lambda>p. snd p) (map (map_prod id wf_json) kvs) \<longleftrightarrow> (\<forall>p \<in> set kvs. wf_json (snd p))"
  by (auto simp: list_all_iff)

lemma wf_json_get: "wf_json (JObj d) \<Longrightarrow> dict_get k d = Some v \<Longrightarrow> wf_json v"
  by (fastforce dest: dict_get_mem)

section \<open>Type tests and conversions\<close>

fun is_str :: "json \<Rightarrow> bool" where
  "is_str (JStr s) = True"
| "is_str _ = False"

fun is_bool :: "json \<Rightarrow> bool" where
  "is_bool (JBool b) = True"
| "is_bool _ = False"

fun is_list :: "json \<Rightarrow> bool" where
  "is_list (JList xs) = True"
| "is_list _ = False"

fun is_obj :: "json \<Rightarrow> bool" where
  "is_obj (JObj d) = True"
| "is_obj _ = False"

text \<open>\<open>float(value)\<close> for the numeric values; \<open>isinstance(value, (int, float))\<close> without bool.\<close>

fun is_number :: "json \<Rightarrow> bool" where
  "is_number (JInt i) = True"
| "is_number (JFloat x) = True"
| "is_number _ = False"

fun py_float_of :: "json \<Rightarrow> py_float result" where
  "py_float_of (JInt i) = float_of_int i"
| "py_float_of (JFloat x) = Inr x"
| "py_float_of (JBool b) = Inr (Fin (if b then 1 else 0))"
| "py_float_of _ = Inl (TypeError ''float() argument must be a string or a real number'')"

fun py_truthy :: "json \<Rightarrow> bool" where
  "py_truthy JNull = False"
| "py_truthy (JBool b) = b"
| "py_truthy (JInt i) = (i \<noteq> 0)"
| "py_truthy (JFloat x) = (x \<noteq> Fin 0)"
| "py_truthy (JStr s) = (s \<noteq> [])"
| "py_truthy (JList xs) = (xs \<noteq> [])"
| "py_truthy (JObj d) = (d \<noteq> [])"

definition opt_truthy :: "json option \<Rightarrow> bool" where
  "opt_truthy v = (case v of None \<Rightarrow> False | Some x \<Rightarrow> py_truthy x)"

text \<open>\<open>d.get(k)\<close>: a missing key reads as \<open>None\<close>.\<close>

definition dget :: "string \<Rightarrow> jdict \<Rightarrow> json" where
  "dget k d = (case dict_get k d of None \<Rightarrow> JNull | Some v \<Rightarrow> v)"

text \<open>\<open>d[k]\<close>: a missing key raises.\<close>

definition dindex :: "string \<Rightarrow> jdict \<Rightarrow> json result" where
  "dindex k d = (case dict_get k d of None \<Rightarrow> Inl (KeyError k) | Some v \<Rightarrow> Inr v)"

section \<open>Equality of values\<close>

text \<open>
  \<open>==\<close> compares dictionaries regardless of order, \<open>True\<close> with 1, and an integral float
  with the integer.  Both sides are brought to a normal form.  A NaN is different from
  everything; inside a container CPython compares by identity first, and \<open>json.loads\<close>
  returns one NaN object.
\<close>

primrec py_norm :: "json \<Rightarrow> json" where
  "py_norm JNull = JNull"
| "py_norm (JBool b) = JInt (if b then 1 else 0)"
| "py_norm (JInt i) = JInt i"
| "py_norm (JFloat x) = (case x of Fin q \<Rightarrow> if q = of_int \<lfloor>q\<rfloor> then JInt \<lfloor>q\<rfloor> else JFloat x | _ \<Rightarrow> JFloat x)"
| "py_norm (JStr s) = JStr s"
| "py_norm (JList xs) = JList (map py_norm xs)"
| "py_norm (JObj kvs) = JObj (sort_key fst (map (map_prod id py_norm) kvs))"

definition py_eq :: "json \<Rightarrow> json \<Rightarrow> bool" where
  "py_eq a b \<longleftrightarrow> a \<noteq> JFloat NaN \<and> py_norm a = py_norm b"

lemma py_norm_eq_NaN [simp]: "py_norm a = JFloat NaN \<longleftrightarrow> a = JFloat NaN"
  by (cases a) (auto split: py_float.splits)

lemma py_eq_refl: "a \<noteq> JFloat NaN \<Longrightarrow> py_eq a a"
  by (simp add: py_eq_def)

lemma py_eq_sym: "py_eq a b \<Longrightarrow> py_eq b a"
  by (auto simp: py_eq_def)

lemma py_eq_trans: "py_eq a b \<Longrightarrow> py_eq b c \<Longrightarrow> py_eq a c"
  by (auto simp: py_eq_def)

lemma py_norm_eq_JStr [simp]: "py_norm a = JStr s \<longleftrightarrow> a = JStr s"
  by (cases a) (auto split: py_float.splits)

lemma py_eq_JStr [simp]: "py_eq a (JStr s) \<longleftrightarrow> a = JStr s"
  by (auto simp: py_eq_def)

lemma py_eq_JStr_left [simp]: "py_eq (JStr s) a \<longleftrightarrow> a = JStr s"
  using py_eq_sym py_eq_JStr by blast

section \<open>Text of values\<close>

definition hex_digit :: "nat \<Rightarrow> char" where
  "hex_digit d = char_of (if d < 10 then 48 + d else 87 + d)"

definition hex2 :: "char \<Rightarrow> string" where
  "hex2 c = [hex_digit (of_char c div 16), hex_digit (of_char c mod 16)]"

text \<open>\<open>json.dumps\<close> with \<open>ensure_ascii=False\<close>.\<close>

definition json_escape :: "char \<Rightarrow> string" where
  "json_escape c =
     (let n = of_char c :: nat in
      if n = 34 then [CHR 0x5C, CHR 0x22]
      else if n = 92 then [CHR 0x5C, CHR 0x5C]
      else if n = 10 then [CHR 0x5C, CHR ''n'']
      else if n = 13 then [CHR 0x5C, CHR ''r'']
      else if n = 9 then [CHR 0x5C, CHR ''t'']
      else if n = 12 then [CHR 0x5C, CHR ''f'']
      else if n = 8 then [CHR 0x5C, CHR ''b'']
      else if n < 32 then [CHR 0x5C, CHR ''u'', CHR ''0'', CHR ''0''] @ hex2 c
      else [c])"

definition json_quote :: "string \<Rightarrow> string" where
  "json_quote s = [CHR 0x22] @ concat (map json_escape s) @ [CHR 0x22]"

text \<open>\<open>json.dumps(value, ensure_ascii=False, sort_keys=True, separators=(",", ":"))\<close>.\<close>

fun json_float :: "(py_float \<Rightarrow> string) \<Rightarrow> py_float \<Rightarrow> string" where
  "json_float fr NaN = ''NaN''"
| "json_float fr PosInf = ''Infinity''"
| "json_float fr NegInf = ''-Infinity''"
| "json_float fr x = fr x"

primrec json_text :: "(py_float \<Rightarrow> string) \<Rightarrow> json \<Rightarrow> string" where
  "json_text fr JNull = ''null''"
| "json_text fr (JBool b) = (if b then ''true'' else ''false'')"
| "json_text fr (JInt i) = int_text i"
| "json_text fr (JFloat x) = json_float fr x"
| "json_text fr (JStr s) = json_quote s"
| "json_text fr (JList xs) = ''['' @ join '','' (map (json_text fr) xs) @ '']''"
| "json_text fr (JObj kvs) =
     [CHR 0x7B] @ join '','' (map (\<lambda>p. json_quote (fst p) @ '':'' @ snd p)
       (sort_key fst (map (map_prod id (json_text fr)) kvs))) @ [CHR 0x7D]"

text \<open>UTF-8 of the code points below 256.\<close>

definition utf8_char :: "char \<Rightarrow> nat list" where
  "utf8_char c = (let n = of_char c in if n < 128 then [n] else [192 + n div 64, 128 + n mod 64])"

definition utf8 :: "string \<Rightarrow> nat list" where
  "utf8 s = concat (map utf8_char s)"

text \<open>
  What the code takes from outside: SHA-256 of a byte string as 64 hexadecimal digits,
  the text of a float (\<open>repr\<close>, \<open>:.6f\<close> and \<open>:g\<close>), the value of \<open>float(text)\<close>, the two
  operations of \<open>pathlib\<close> that ask the file system, and the check \<open>urllib\<close> makes of a
  bracketed host, which differs between versions of the library.
\<close>

record py_env =
  sha256 :: "nat list \<Rightarrow> string"
  float_text :: "py_float \<Rightarrow> string"
  float_fixed6 :: "py_float \<Rightarrow> string"
  float_general :: "py_float \<Rightarrow> string"
  expanduser :: "string \<Rightarrow> string"
  resolve_path :: "string \<Rightarrow> string"
  float_of_text :: "string \<Rightarrow> py_float option"
  bracketed_host :: "string \<Rightarrow> unit result"

definition canonical_json :: "py_env \<Rightarrow> json \<Rightarrow> nat list" where
  "canonical_json env v = utf8 (json_text (float_text env) v)"

definition digest_json :: "py_env \<Rightarrow> json \<Rightarrow> string" where
  "digest_json env v = sha256 env (canonical_json env v)"

text \<open>\<open>repr\<close> of a string and \<open>str\<close> of a value.\<close>

definition py_printable :: "char \<Rightarrow> bool" where
  "py_printable c \<longleftrightarrow> (let n = of_char c :: nat in 32 \<le> n \<and> n < 127 \<or> 160 < n \<and> n \<noteq> 173)"

definition repr_char :: "char \<Rightarrow> char \<Rightarrow> string" where
  "repr_char q c =
     (let n = of_char c :: nat in
      if c = q \<or> n = 92 then [CHR 0x5C, c]
      else if n = 10 then [CHR 0x5C, CHR ''n'']
      else if n = 13 then [CHR 0x5C, CHR ''r'']
      else if n = 9 then [CHR 0x5C, CHR ''t'']
      else if py_printable c then [c]
      else [CHR 0x5C, CHR ''x''] @ hex2 c)"

definition repr_str :: "string \<Rightarrow> string" where
  "repr_str s = (let q = (if CHR 0x27 \<in> set s \<and> CHR 0x22 \<notin> set s then CHR 0x22 else CHR 0x27)
     in [q] @ concat (map (repr_char q) s) @ [q])"

primrec py_repr :: "(py_float \<Rightarrow> string) \<Rightarrow> json \<Rightarrow> string" where
  "py_repr fr JNull = ''None''"
| "py_repr fr (JBool b) = (if b then ''True'' else ''False'')"
| "py_repr fr (JInt i) = int_text i"
| "py_repr fr (JFloat x) = fr x"
| "py_repr fr (JStr s) = repr_str s"
| "py_repr fr (JList xs) = ''['' @ join '', '' (map (py_repr fr) xs) @ '']''"
| "py_repr fr (JObj kvs) =
     [CHR 0x7B] @ join '', '' (map (\<lambda>p. repr_str (fst p) @ '': '' @ snd p)
       (map (map_prod id (py_repr fr)) kvs)) @ [CHR 0x7D]"

definition py_str :: "(py_float \<Rightarrow> string) \<Rightarrow> json \<Rightarrow> string" where
  "py_str fr v = (case v of JStr s \<Rightarrow> s | _ \<Rightarrow> py_repr fr v)"

text \<open>\<open>str(exc)\<close>, where that of a \<open>KeyError\<close> is the \<open>repr\<close> of its argument, and \<open>f"{type(exc).__name__}: {exc}"\<close>.\<close>

fun exn_str :: "exn \<Rightarrow> string" where
  "exn_str (KeyError m) = repr_str m"
| "exn_str e = exn_message e"

definition exn_described :: "exn \<Rightarrow> string" where
  "exn_described e = exn_class e @ '': '' @ exn_str e"

section \<open>Lemmas\<close>

text \<open>A type test of the source is a case with one branch that does not raise.\<close>

lemma case_json_Inl_eq_Inr_iff [simp, result_simps]:
  "(case v of JList xs \<Rightarrow> f xs | _ \<Rightarrow> Inl e) = Inr z \<longleftrightarrow> (\<exists>xs. v = JList xs \<and> f xs = Inr z)"
  "(case v of JObj d \<Rightarrow> g d | _ \<Rightarrow> Inl e) = Inr z \<longleftrightarrow> (\<exists>d. v = JObj d \<and> g d = Inr z)"
  "(case v of JStr s \<Rightarrow> h s | _ \<Rightarrow> Inl e) = Inr z \<longleftrightarrow> (\<exists>s. v = JStr s \<and> h s = Inr z)"
  "(case v of JInt i \<Rightarrow> k i | _ \<Rightarrow> Inl e) = Inr z \<longleftrightarrow> (\<exists>i. v = JInt i \<and> k i = Inr z)"
  by (auto split: json.splits)

lemma case_json_Inl_eq_InlD:
  "(case v of JList xs \<Rightarrow> f xs | _ \<Rightarrow> Inl e) = Inl z \<Longrightarrow> e = z \<or> (\<exists>xs. v = JList xs \<and> f xs = Inl z)"
  "(case v of JObj d \<Rightarrow> g d | _ \<Rightarrow> Inl e) = Inl z \<Longrightarrow> e = z \<or> (\<exists>d. v = JObj d \<and> g d = Inl z)"
  "(case v of JStr s \<Rightarrow> h s | _ \<Rightarrow> Inl e) = Inl z \<Longrightarrow> e = z \<or> (\<exists>s. v = JStr s \<and> h s = Inl z)"
  "(case v of JInt i \<Rightarrow> k i | _ \<Rightarrow> Inl e) = Inl z \<Longrightarrow> e = z \<or> (\<exists>i. v = JInt i \<and> k i = Inl z)"
  by (auto split: json.splits)

lemma dget_Some: "dict_get k d = Some v \<Longrightarrow> dget k d = v"
  by (simp add: dget_def)

lemma dindex_eq_Inr [simp]: "dindex k d = Inr v \<longleftrightarrow> dict_get k d = Some v"
  by (simp add: dindex_def split: option.splits)

lemma dindex_Cons [simp]: "dindex k ((k', v) # d) = (if k' = k then Inr v else dindex k d)"
  by (simp add: dindex_def)

lemma dget_Cons [simp]: "dget k ((k', v) # d) = (if k' = k then v else dget k d)"
  by (simp add: dget_def)

lemma dget_Nil [simp]: "dget k [] = JNull"
  by (simp add: dget_def)

lemma py_float_of_double: "py_float_of v = Inr x \<Longrightarrow> wf_json v \<Longrightarrow> is_double x"
proof (cases v)
  case (JBool b)
  assume "py_float_of v = Inr x" "wf_json v"
  then show ?thesis using JBool by (auto simp: is_double_def max_double_def)
qed (auto dest: float_of_int_is_double)

end
