(* ===== verification/Task_Contract.thy ===== *)
theory Task_Contract
  imports Json
begin

text \<open>
  The task contract parser, \<open>src/kernel_infra/contracts.py\<close>: the schema checks in the
  order the code makes them, the specifications they produce, and the invariant
  \<open>wf_task\<close> that every accepted task satisfies.
\<close>

section \<open>Constants and primitive checks\<close>

definition TASK_SCHEMA :: string where
  "TASK_SCHEMA = ''kernelinfra.task.v1''"

datatype stage_kind = Compile | Correctness | Sanitize | Benchmark | Profile | Judge

fun kind_name :: "stage_kind \<Rightarrow> string" where
  "kind_name Compile = ''compile''"
| "kind_name Correctness = ''correctness''"
| "kind_name Sanitize = ''sanitize''"
| "kind_name Benchmark = ''benchmark''"
| "kind_name Profile = ''profile''"
| "kind_name Judge = ''judge''"

definition STAGE_KINDS :: "stage_kind list" where
  "STAGE_KINDS = [Compile, Correctness, Sanitize, Benchmark, Profile, Judge]"

datatype gpu_mode = Shared | Exclusive

fun mode_name :: "gpu_mode \<Rightarrow> string" where
  "mode_name Shared = ''shared''"
| "mode_name Exclusive = ''exclusive''"

definition MODES :: "gpu_mode list" where
  "MODES = [Shared, Exclusive]"

datatype execution = Broker | Local | Service

fun execution_name :: "execution \<Rightarrow> string" where
  "execution_name Broker = ''broker''"
| "execution_name Local = ''local''"
| "execution_name Service = ''service''"

definition EXECUTIONS :: "execution list" where
  "EXECUTIONS = [Broker, Local, Service]"

text \<open>\<open>x in FROZENSET\<close>: the member with this name.\<close>

definition member_named :: "('a \<Rightarrow> string) \<Rightarrow> 'a list \<Rightarrow> string \<Rightarrow> 'a option" where
  "member_named name xs s = find (\<lambda>x. name x = s) xs"

text \<open>\<open>f"{sorted(names)}"\<close>.\<close>

definition sorted_names :: "('a \<Rightarrow> string) \<Rightarrow> 'a list \<Rightarrow> string" where
  "sorted_names name members = ''['' @ join '', '' (map repr_str (sort (map name members))) @ '']''"

definition id_start :: "char \<Rightarrow> bool" where
  "id_start c \<longleftrightarrow> (let n = of_char c :: nat in 97 \<le> n \<and> n \<le> 122 \<or> 48 \<le> n \<and> n \<le> 57)"

definition id_char :: "char \<Rightarrow> bool" where
  "id_char c \<longleftrightarrow> id_start c \<or> c = CHR ''.'' \<or> c = CHR ''_'' \<or> c = CHR ''-''"

text \<open>The full match of \<open>^[a-z0-9][a-z0-9._-]{0,95}$\<close>.\<close>

definition is_identifier :: "string \<Rightarrow> bool" where
  "is_identifier s \<longleftrightarrow> s \<noteq> [] \<and> id_start (hd s) \<and> list_all id_char (tl s) \<and> length s \<le> 96"

fun expect_object :: "json \<Rightarrow> string \<Rightarrow> jdict result" where
  "expect_object (JObj d) loc = Inr d"
| "expect_object _ loc = Inl (ContractError (loc @ '' must be an object''))"

definition strict_keys :: "jdict \<Rightarrow> string list \<Rightarrow> string list \<Rightarrow> string \<Rightarrow> unit result" where
  "strict_keys value required optional loc =
     (let missing = sort (filter (\<lambda>k. \<not> dict_has k value) required);
          unknown = sort (filter (\<lambda>k. k \<notin> set required \<and> k \<notin> set optional) (dict_keys value))
      in if missing \<noteq> [] then Inl (ContractError (loc @ '' missing fields: '' @ join '', '' missing))
         else if unknown \<noteq> [] then Inl (ContractError (loc @ '' unknown fields: '' @ join '', '' unknown))
         else Inr ())"

definition text_field :: "json \<Rightarrow> string \<Rightarrow> string result" where
  "text_field value loc =
     (case value of
        JStr s \<Rightarrow> if py_strip s = [] then Inl (ContractError (loc @ '' must be a non-empty string''))
                  else Inr (py_strip s)
      | _ \<Rightarrow> Inl (ContractError (loc @ '' must be a non-empty string'')))"

definition ID_PATTERN :: string where
  "ID_PATTERN = ''^[a-z0-9][a-z0-9._-]{0,95}$''"

definition identifier_field :: "json \<Rightarrow> string \<Rightarrow> string result" where
  "identifier_field value loc = rbind (text_field value loc) (\<lambda>result.
     if is_identifier result then Inr result
     else Inl (ContractError (loc @ '' must match '' @ repr_str ID_PATTERN @ ''; got '' @ repr_str result)))"

definition positive_number :: "json \<Rightarrow> string \<Rightarrow> py_float result" where
  "positive_number value loc =
     (if \<not> is_number value then Inl (ContractError (loc @ '' must be a positive number''))
      else rbind (py_float_of value) (\<lambda>result.
        if \<not> flt_isfinite result \<or> flt_le result (Fin 0)
        then Inl (ContractError (loc @ '' must be a finite positive number''))
        else Inr result))"

definition positive_int :: "json \<Rightarrow> string \<Rightarrow> int result" where
  "positive_int value loc =
     (case value of
        JInt i \<Rightarrow> if i < 1 then Inl (ContractError (loc @ '' must be a positive integer'')) else Inr i
      | _ \<Rightarrow> Inl (ContractError (loc @ '' must be a positive integer'')))"

definition optional_timeout :: "json \<Rightarrow> string \<Rightarrow> py_float option result" where
  "optional_timeout value loc =
     (if value = JNull then Inr None else rbind (positive_number value loc) (\<lambda>x. Inr (Some x)))"

section \<open>Specifications\<close>

record resource_spec =
  rs_mode :: gpu_mode
  rs_gpu_count :: int
  rs_estimate_s :: "py_float option"
  rs_queue_timeout_s :: "py_float option"
  rs_run_timeout_s :: py_float
  rs_allowed_gpu_ids :: "int list option"

record stage_spec =
  st_id :: string
  st_kind :: stage_kind
  st_execution :: execution
  st_judge_identity :: string
  st_cwd :: string
  st_command :: "string list"
  st_resources :: "resource_spec option"
  st_service_deployment_id :: "string option"

record comparison_spec =
  cmp_primary_workloads :: "string list"
  cmp_guardrails :: "py_float dict"
  cmp_relative_noise_floor :: py_float

record task_spec =
  task_id :: string
  task_description :: string
  task_workloads :: "string list"
  task_comparison :: comparison_spec
  task_stages :: "stage_spec list"
  task_raw :: json
  task_digest :: string
  task_source_path :: string

section \<open>Paths\<close>

definition path_is_absolute :: "string \<Rightarrow> bool" where
  "path_is_absolute p \<longleftrightarrow> has_prefix ''/'' p"

definition path_join :: "string \<Rightarrow> string \<Rightarrow> string" where
  "path_join d p = (if path_is_absolute p then p else d @ ''/'' @ p)"

text \<open>\<open>path.parent\<close> of an absolute path.\<close>

definition path_parent :: "string \<Rightarrow> string" where
  "path_parent p =
     (let q = rev (dropWhile (\<lambda>c. c = CHR ''/'') (dropWhile (\<lambda>c. c \<noteq> CHR ''/'') (rev p)))
      in if q = [] then ''/'' else q)"

section \<open>Stages\<close>

definition parse_command :: "json \<Rightarrow> string \<Rightarrow> string list result" where
  "parse_command value loc =
     (case value of
        JList items \<Rightarrow>
          if items = [] \<or> \<not> list_all (\<lambda>item. is_str item \<and> item \<noteq> JStr []) items
          then Inl (ContractError (loc @ '' must be a non-empty string list''))
          else Inr (map (\<lambda>item. case item of JStr s \<Rightarrow> s | _ \<Rightarrow> []) items)
      | _ \<Rightarrow> Inl (ContractError (loc @ '' must be a non-empty string list'')))"

fun nonneg_index :: "json \<Rightarrow> bool" where
  "nonneg_index (JInt i) = (0 \<le> i)"
| "nonneg_index _ = False"

fun int_of_json :: "json \<Rightarrow> int" where
  "int_of_json (JInt i) = i"
| "int_of_json _ = 0"

definition parse_allowed_gpu_ids :: "json \<Rightarrow> int \<Rightarrow> string \<Rightarrow> int list option result" where
  "parse_allowed_gpu_ids value gpu_count loc =
     (case value of
        JNull \<Rightarrow> Inr None
      | JList items \<Rightarrow>
          if items = [] \<or> \<not> list_all nonneg_index items
          then Inl (ContractError (loc @ '' must be a nonempty list of nonnegative integers''))
          else let ids = map int_of_json items in
            if \<not> distinct ids
            then Inl (ContractError (loc @ '' must contain distinct GPU indices''))
            else if int (length ids) < gpu_count
            then Inl (ContractError (loc @ '' must have at least gpu_count members''))
            else Inr (Some ids)
      | _ \<Rightarrow> Inl (ContractError (loc @ '' must be a nonempty list of nonnegative integers'')))"

text \<open>An absent estimate is 600 seconds, an explicit \<open>null\<close> is no estimate.\<close>

definition parse_estimate :: "jdict \<Rightarrow> string \<Rightarrow> py_float option result" where
  "parse_estimate resources loc =
     (let estimate_raw = (case dict_get ''estimate_s'' resources of None \<Rightarrow> JInt 600 | Some v \<Rightarrow> v)
      in if estimate_raw = JNull then Inr None
         else rbind (positive_number estimate_raw loc) (\<lambda>x. Inr (Some x)))"

definition parse_resources :: "json \<Rightarrow> string \<Rightarrow> resource_spec result" where
  "parse_resources value loc =
     rbind (expect_object value loc) (\<lambda>resources.
     rbind (strict_keys resources [''mode'', ''gpu_count'', ''run_timeout_s'']
              [''estimate_s'', ''queue_timeout_s'', ''allowed_gpu_ids''] loc) (\<lambda>_.
     rbind (text_field (dget ''mode'' resources) (loc @ ''.mode'')) (\<lambda>mode_text.
     case member_named mode_name MODES mode_text of
       None \<Rightarrow> Inl (ContractError (loc @ ''.mode must be shared or exclusive''))
     | Some mode \<Rightarrow>
     rbind (parse_estimate resources (loc @ ''.estimate_s'')) (\<lambda>estimate.
     rbind (positive_int (dget ''gpu_count'' resources) (loc @ ''.gpu_count'')) (\<lambda>gpu_count.
     rbind (parse_allowed_gpu_ids (dget ''allowed_gpu_ids'' resources) gpu_count
              (loc @ ''.allowed_gpu_ids'')) (\<lambda>allowed.
     rbind (optional_timeout (dget ''queue_timeout_s'' resources) (loc @ ''.queue_timeout_s''))
       (\<lambda>queue_timeout.
     rbind (positive_number (dget ''run_timeout_s'' resources) (loc @ ''.run_timeout_s''))
       (\<lambda>run_timeout.
     Inr \<lparr>rs_mode = mode, rs_gpu_count = gpu_count, rs_estimate_s = estimate,
          rs_queue_timeout_s = queue_timeout, rs_run_timeout_s = run_timeout,
          rs_allowed_gpu_ids = allowed\<rparr>))))))))"

text \<open>
  The checks of \<open>_parse_stage\<close> before the execution-specific part: identifier, kind,
  execution, judge and the optional service deployment.
\<close>

definition parse_judge :: "py_env \<Rightarrow> json \<Rightarrow> string \<Rightarrow> string \<Rightarrow> (string \<times> string \<times> string list) result" where
  "parse_judge env value task_dir loc =
     rbind (expect_object value loc) (\<lambda>judge.
     rbind (strict_keys judge [''identity'', ''cwd'', ''command''] [] loc) (\<lambda>_.
     rbind (text_field (dget ''identity'' judge) (loc @ ''.identity'')) (\<lambda>identity.
     rbind (text_field (dget ''cwd'' judge) (loc @ ''.cwd'')) (\<lambda>cwd_text.
     let cwd = expanduser env cwd_text;
         absolute = (if path_is_absolute cwd then cwd else path_join task_dir cwd)
     in rbind (parse_command (dget ''command'' judge) (loc @ ''.command'')) (\<lambda>command.
     Inr (identity, resolve_path env absolute, command))))))"

definition parse_deployment :: "jdict \<Rightarrow> execution \<Rightarrow> string \<Rightarrow> string option result" where
  "parse_deployment raw exec loc =
     (case dict_get ''service_deployment'' raw of
        None \<Rightarrow> Inr None
      | Some v \<Rightarrow>
          if exec \<noteq> Service
          then Inl (ContractError (loc @ ''.service_deployment is allowed only for service execution''))
          else rbind (identifier_field v (loc @ ''.service_deployment'')) (\<lambda>d. Inr (Some d)))"

definition parse_stage :: "py_env \<Rightarrow> json \<Rightarrow> nat \<Rightarrow> string \<Rightarrow> stage_spec result" where
  "parse_stage env value index task_dir =
     (let loc = ''task.stages['' @ nat_text index @ '']'' in
     rbind (expect_object value loc) (\<lambda>raw.
     rbind (strict_keys raw [''id'', ''kind'', ''judge'']
              [''execution'', ''resources'', ''service_deployment''] loc) (\<lambda>_.
     rbind (identifier_field (dget ''id'' raw) (loc @ ''.id'')) (\<lambda>stage_id.
     rbind (text_field (dget ''kind'' raw) (loc @ ''.kind'')) (\<lambda>kind_text.
     case member_named kind_name STAGE_KINDS kind_text of
       None \<Rightarrow> Inl (ContractError (loc @ ''.kind must be one of '' @ sorted_names kind_name STAGE_KINDS))
     | Some kind \<Rightarrow>
     rbind (text_field (case dict_get ''execution'' raw of None \<Rightarrow> JStr ''broker'' | Some v \<Rightarrow> v)
              (loc @ ''.execution'')) (\<lambda>execution_text.
     case member_named execution_name EXECUTIONS execution_text of
       None \<Rightarrow> Inl (ContractError (loc @ ''.execution must be one of '' @ sorted_names execution_name EXECUTIONS))
     | Some execution \<Rightarrow>
     rbind (parse_judge env (dget ''judge'' raw) task_dir (loc @ ''.judge''))
       (\<lambda>(identity, cwd, command).
     rbind (parse_deployment raw execution loc) (\<lambda>deployment.
     if execution \<in> {Local, Service} then
       (if dict_has ''resources'' raw
        then Inl (ContractError (loc @ ''.resources must be omitted for ''
               @ execution_name execution @ '' execution''))
        else Inr \<lparr>st_id = stage_id, st_kind = kind, st_execution = execution,
               st_judge_identity = identity, st_cwd = cwd, st_command = command,
               st_resources = None, st_service_deployment_id = deployment\<rparr>)
     else if \<not> dict_has ''resources'' raw
       then Inl (ContractError (loc @ ''.resources is required for broker execution''))
     else rbind (parse_resources (dget ''resources'' raw) (loc @ ''.resources'')) (\<lambda>resources.
       Inr \<lparr>st_id = stage_id, st_kind = kind, st_execution = execution,
            st_judge_identity = identity, st_cwd = cwd, st_command = command,
            st_resources = Some resources, st_service_deployment_id = None\<rparr>)))))))))"

section \<open>Tasks\<close>

fun workload_index_where :: "string \<Rightarrow> nat \<Rightarrow> string" where
  "workload_index_where w i = w @ ''['' @ nat_text i @ '']''"

definition parse_identifier_list :: "json list \<Rightarrow> string \<Rightarrow> string list result" where
  "parse_identifier_list values loc =
     rtraverse (\<lambda>(i, v). identifier_field v (workload_index_where loc i)) (List.enumerate 0 values)"

definition parse_workloads :: "json \<Rightarrow> string list result" where
  "parse_workloads value =
     (case value of
        JList items \<Rightarrow>
          if items = [] then Inl (ContractError ''task.workloads must be a non-empty string list'')
          else rbind (parse_identifier_list items ''task.workloads'') (\<lambda>workloads.
            if \<not> distinct workloads then Inl (ContractError ''task.workloads must be unique'')
            else Inr workloads)
      | _ \<Rightarrow> Inl (ContractError ''task.workloads must be a non-empty string list''))"

definition parse_noise :: "json \<Rightarrow> py_float result" where
  "parse_noise value =
     (if \<not> is_number value
      then Inl (ContractError ''relative_noise_floor must be a number in [0, 1)'')
      else rbind (py_float_of value) (\<lambda>noise.
        if \<not> flt_isfinite noise \<or> \<not> (flt_le (Fin 0) noise \<and> flt_less noise (Fin 1))
        then Inl (ContractError ''relative_noise_floor must be a number in [0, 1)'')
        else Inr noise))"

definition add_guardrail :: "string list \<Rightarrow> py_float dict \<Rightarrow> string \<times> json \<Rightarrow> py_float dict result" where
  "add_guardrail workloads guardrails item =
     rbind (identifier_field (JStr (fst item)) ''guardrail workload'') (\<lambda>workload.
     if workload \<notin> set workloads
     then Inl (ContractError (''guardrail workload is not declared: '' @ workload))
     else rbind (positive_number (snd item) (''guardrail '' @ workload)) (\<lambda>threshold.
       Inr (dict_set workload threshold guardrails)))"

definition parse_guardrails :: "json \<Rightarrow> string list \<Rightarrow> py_float dict result" where
  "parse_guardrails value workloads =
     (case value of
        JObj items \<Rightarrow> rfold (add_guardrail workloads) [] items
      | _ \<Rightarrow> Inl (ContractError ''task.comparison.guardrails must map workload ids to minimum speedup''))"

definition parse_comparison :: "json \<Rightarrow> string list \<Rightarrow> comparison_spec result" where
  "parse_comparison value workloads =
     rbind (expect_object value ''task.comparison'') (\<lambda>raw.
     rbind (strict_keys raw [''primary_workloads'', ''relative_noise_floor''] [''guardrails'']
              ''task.comparison'') (\<lambda>_.
     case dget ''primary_workloads'' raw of
       JList items \<Rightarrow>
         if items = [] then Inl (ContractError ''task.comparison.primary_workloads must be a non-empty list'')
         else rbind (parse_identifier_list items ''task.comparison.primary_workloads'') (\<lambda>primary.
           let unknown = sort (filter (\<lambda>w. w \<notin> set workloads) (remdups primary)) in
           if unknown \<noteq> []
           then Inl (ContractError (''primary workloads are not declared by task: '' @ join '', '' unknown))
           else rbind (parse_noise (dget ''relative_noise_floor'' raw)) (\<lambda>noise.
             rbind (parse_guardrails
                      (case dict_get ''guardrails'' raw of None \<Rightarrow> JObj [] | Some v \<Rightarrow> v) workloads)
               (\<lambda>guardrails.
             Inr \<lparr>cmp_primary_workloads = primary, cmp_guardrails = guardrails,
                  cmp_relative_noise_floor = noise\<rparr>)))
     | _ \<Rightarrow> Inl (ContractError ''task.comparison.primary_workloads must be a non-empty list'')))"

definition exclusive_kind :: "stage_kind \<Rightarrow> bool" where
  "exclusive_kind k \<longleftrightarrow> k \<in> {Sanitize, Benchmark, Profile}"

text \<open>The loop that requires exclusive mode for timing and sanitizer stages.\<close>

definition stage_mode_violation :: "stage_spec \<Rightarrow> bool" where
  "stage_mode_violation stage \<longleftrightarrow>
     st_execution stage = Broker \<and> exclusive_kind (st_kind stage) \<and>
     (case st_resources stage of None \<Rightarrow> False | Some r \<Rightarrow> rs_mode r \<noteq> Exclusive)"

definition check_stages :: "stage_spec list \<Rightarrow> unit result" where
  "check_stages stages =
     (if \<not> distinct (map st_id stages) then Inl (ContractError ''task stage ids must be unique'')
      else if \<not> list_ex (\<lambda>s. st_kind s \<in> {Correctness, Judge}) stages
      then Inl (ContractError ''task must contain a correctness or judge stage'')
      else case find stage_mode_violation stages of
        Some stage \<Rightarrow> Inl (ContractError (''stage '' @ repr_str (st_id stage) @ '' kind=''
          @ repr_str (kind_name (st_kind stage)) @ '' must use exclusive mode''))
      | None \<Rightarrow> Inr ())"

definition parse_stages :: "py_env \<Rightarrow> json \<Rightarrow> string \<Rightarrow> stage_spec list result" where
  "parse_stages env value task_dir =
     (case value of
        JList items \<Rightarrow>
          if items = [] then Inl (ContractError ''task.stages must be a non-empty list'')
          else rtraverse (\<lambda>(i, v). parse_stage env v i task_dir) (List.enumerate 0 items)
      | _ \<Rightarrow> Inl (ContractError ''task.stages must be a non-empty list''))"

definition parse_task :: "py_env \<Rightarrow> json \<Rightarrow> string \<Rightarrow> task_spec result" where
  "parse_task env raw_value source_path =
     rbind (expect_object raw_value ''task'') (\<lambda>raw.
     rbind (strict_keys raw [''schema'', ''task_id'', ''workloads'', ''comparison'', ''stages'']
              [''description''] ''task'') (\<lambda>_.
     if \<not> py_eq (dget ''schema'' raw) (JStr TASK_SCHEMA)
     then Inl (ContractError (''task.schema must be '' @ repr_str TASK_SCHEMA @ ''; got ''
       @ py_repr (float_text env) (dget ''schema'' raw)))
     else
     rbind (identifier_field (dget ''task_id'' raw) ''task.task_id'') (\<lambda>tid.
     let description = py_strip (py_str (float_text env)
           (case dict_get ''description'' raw of None \<Rightarrow> JStr [] | Some v \<Rightarrow> v)) in
     rbind (parse_workloads (dget ''workloads'' raw)) (\<lambda>workloads.
     rbind (parse_comparison (dget ''comparison'' raw) workloads) (\<lambda>comparison.
     rbind (parse_stages env (dget ''stages'' raw) (path_parent source_path)) (\<lambda>stages.
     rbind (check_stages stages) (\<lambda>_.
     Inr \<lparr>task_id = tid, task_description = description, task_workloads = workloads,
          task_comparison = comparison, task_stages = stages, task_raw = raw_value,
          task_digest = digest_json env raw_value, task_source_path = source_path\<rparr>)))))))"

text \<open>The task file as the file system and \<open>json.loads\<close> present it.\<close>

datatype json_file = FileMissing | FileMalformed string | FileParsed json

definition load_task :: "py_env \<Rightarrow> json_file \<Rightarrow> string \<Rightarrow> task_spec result" where
  "load_task env content path =
     (let source = resolve_path env (expanduser env path) in
      case content of
        FileMissing \<Rightarrow> Inl (ContractError (''task file not found: '' @ source))
      | FileMalformed e \<Rightarrow> Inl (ContractError (''invalid task JSON at '' @ source @ '': '' @ e))
      | FileParsed raw \<Rightarrow> parse_task env raw source)"

section \<open>The invariant of accepted tasks\<close>

definition pos_float :: "py_float \<Rightarrow> bool" where
  "pos_float x \<longleftrightarrow> (case x of Fin q \<Rightarrow> 0 < q | _ \<Rightarrow> False)"

definition opt_all :: "('a \<Rightarrow> bool) \<Rightarrow> 'a option \<Rightarrow> bool" where
  "opt_all P v \<longleftrightarrow> (case v of None \<Rightarrow> True | Some x \<Rightarrow> P x)"

lemma opt_all_simps [simp]: "opt_all P None" "opt_all P (Some x) = P x"
  by (simp_all add: opt_all_def)

definition wf_gpu_scope :: "int \<Rightarrow> int list \<Rightarrow> bool" where
  "wf_gpu_scope n ids \<longleftrightarrow> ids \<noteq> [] \<and> distinct ids \<and> list_all (\<lambda>i. 0 \<le> i) ids \<and> n \<le> int (length ids)"

definition wf_resources :: "resource_spec \<Rightarrow> bool" where
  "wf_resources r \<longleftrightarrow> 1 \<le> rs_gpu_count r \<and> opt_all pos_float (rs_estimate_s r) \<and>
     opt_all pos_float (rs_queue_timeout_s r) \<and> pos_float (rs_run_timeout_s r) \<and>
     opt_all (wf_gpu_scope (rs_gpu_count r)) (rs_allowed_gpu_ids r)"

definition stripped :: "string \<Rightarrow> bool" where
  "stripped s \<longleftrightarrow> s \<noteq> [] \<and> py_strip s = s"

definition wf_command :: "string list \<Rightarrow> bool" where
  "wf_command c \<longleftrightarrow> c \<noteq> [] \<and> [] \<notin> set c"

definition wf_placement :: "stage_spec \<Rightarrow> bool" where
  "wf_placement s \<longleftrightarrow>
     (case st_execution s of
        Broker \<Rightarrow> (\<exists>r. st_resources s = Some r \<and> wf_resources r) \<and> st_service_deployment_id s = None
      | Local \<Rightarrow> st_resources s = None \<and> st_service_deployment_id s = None
      | Service \<Rightarrow> st_resources s = None \<and> opt_all is_identifier (st_service_deployment_id s))"

definition wf_stage :: "stage_spec \<Rightarrow> bool" where
  "wf_stage s \<longleftrightarrow> is_identifier (st_id s) \<and> stripped (st_judge_identity s) \<and>
     wf_command (st_command s) \<and> wf_placement s"

definition wf_noise :: "py_float \<Rightarrow> bool" where
  "wf_noise x \<longleftrightarrow> (case x of Fin q \<Rightarrow> 0 \<le> q \<and> q < 1 | _ \<Rightarrow> False)"

definition wf_comparison :: "string list \<Rightarrow> comparison_spec \<Rightarrow> bool" where
  "wf_comparison workloads c \<longleftrightarrow>
     cmp_primary_workloads c \<noteq> [] \<and> set (cmp_primary_workloads c) \<subseteq> set workloads \<and>
     distinct (dict_keys (cmp_guardrails c)) \<and>
     list_all (\<lambda>(w, x). w \<in> set workloads \<and> pos_float x) (cmp_guardrails c) \<and>
     wf_noise (cmp_relative_noise_floor c)"

definition wf_task :: "task_spec \<Rightarrow> bool" where
  "wf_task t \<longleftrightarrow> is_identifier (task_id t) \<and> py_strip (task_description t) = task_description t \<and>
     task_workloads t \<noteq> [] \<and> distinct (task_workloads t) \<and> list_all is_identifier (task_workloads t) \<and>
     wf_comparison (task_workloads t) (task_comparison t) \<and>
     task_stages t \<noteq> [] \<and> list_all wf_stage (task_stages t) \<and> distinct (map st_id (task_stages t)) \<and>
     list_ex (\<lambda>s. st_kind s \<in> {Correctness, Judge}) (task_stages t) \<and>
     list_all (\<lambda>s. \<not> stage_mode_violation s) (task_stages t)"

section \<open>What each check establishes\<close>

named_theorems check_elims \<open>what an accepted field satisfies\<close>

lemma text_field_Inr [check_elims]:
  "text_field v loc = Inr s \<Longrightarrow> stripped s \<and> (\<exists>t. v = JStr t \<and> s = py_strip t)"
  by (auto simp: text_field_def stripped_def split: json.splits if_splits)

lemma identifier_field_Inr [check_elims]: "identifier_field v loc = Inr s \<Longrightarrow> is_identifier s"
  by (auto simp: identifier_field_def split: if_splits)

lemma positive_number_Inr [check_elims]: "positive_number v loc = Inr x \<Longrightarrow> pos_float x"
proof -
  assume "positive_number v loc = Inr x"
  then have "flt_isfinite x" "\<not> flt_le x (Fin 0)"
    by (auto simp: positive_number_def split: if_splits)
  then show ?thesis by (cases x) (auto simp: pos_float_def flt_le_def)
qed

lemma positive_int_Inr [check_elims]: "positive_int v loc = Inr i \<Longrightarrow> 1 \<le> i \<and> v = JInt i"
  by (auto simp: positive_int_def split: json.splits if_splits)

lemma optional_timeout_Inr [check_elims]:
  "optional_timeout v loc = Inr x \<Longrightarrow> opt_all pos_float x"
  by (auto simp: optional_timeout_def split: if_splits dest: positive_number_Inr)

lemma nonneg_index_iff: "nonneg_index v \<longleftrightarrow> (\<exists>i. v = JInt i \<and> 0 \<le> i)"
  by (cases v) auto

lemma parse_allowed_gpu_ids_Inr [check_elims]:
  "parse_allowed_gpu_ids v n loc = Inr x \<Longrightarrow> opt_all (wf_gpu_scope n) x"
  by (auto simp: parse_allowed_gpu_ids_def wf_gpu_scope_def Let_def list_all_iff nonneg_index_iff
      split: json.splits if_splits) force

lemma parse_command_Inr [check_elims]:
  assumes "parse_command v loc = Inr c"
  shows "wf_command c"
proof -
  from assms obtain items where items: "items \<noteq> []"
      "list_all (\<lambda>item. is_str item \<and> item \<noteq> JStr []) items"
      "c = map (\<lambda>item. case item of JStr s \<Rightarrow> s | _ \<Rightarrow> []) items"
    by (auto simp: parse_command_def split: json.splits if_splits)
  have "[] \<noteq> (case item of JStr s \<Rightarrow> s | _ \<Rightarrow> [])" if "item \<in> set items" for item
    using items(2) that by (cases item) (auto simp: list_all_iff)
  with items(1,3) show ?thesis by (auto simp: wf_command_def)
qed

lemma parse_estimate_Inr [check_elims]:
  "parse_estimate d loc = Inr x \<Longrightarrow> opt_all pos_float x"
  by (auto simp: parse_estimate_def Let_def split: if_splits dest: positive_number_Inr)

lemma parse_resources_Inr [check_elims]:
  "parse_resources v loc = Inr r \<Longrightarrow> wf_resources r"
  by (auto simp: parse_resources_def wf_resources_def dest!: check_elims)

lemma parse_judge_Inr [check_elims]:
  "parse_judge env v dir loc = Inr (identity, cwd, command) \<Longrightarrow> stripped identity \<and> wf_command command"
  by (auto simp: parse_judge_def Let_def dest!: check_elims)

lemma parse_deployment_Inr [check_elims]:
  "parse_deployment raw e loc = Inr d \<Longrightarrow> opt_all is_identifier d \<and> (e \<noteq> Service \<longrightarrow> d = None)"
  by (auto simp: parse_deployment_def split: option.splits dest!: check_elims)

lemma parse_stage_Inr [check_elims]:
  assumes "parse_stage env v i dir = Inr s"
  shows "wf_stage s"
  using assms
  by (auto simp: parse_stage_def Let_def wf_stage_def wf_placement_def
      split: if_splits execution.splits dest!: check_elims)

end
