(* ===== verification/Task_Documents.thy ===== *)
theory Task_Documents
  imports Task_Checks
begin

text \<open>
  The documents that specifications are written to, and the round trip: a well-formed
  specification written as a document parses to itself.  \<open>request_resources\<close> is the
  document \<open>RunStore.create_run\<close> writes; \<open>task_document\<close> is the task file a client would
  write for a specification.
\<close>

section \<open>Documents of specifications\<close>

lemma strict_keys_Inr_iff:
  "strict_keys d req opt loc = Inr u \<longleftrightarrow>
     (\<forall>k \<in> set req. dict_has k d) \<and> (\<forall>k \<in> set (dict_keys d). k \<in> set req \<or> k \<in> set opt)"
proof -
  have "sort xs = [] \<longleftrightarrow> xs = []" for xs :: "string list"
    by (metis length_0_conv length_sort)
  then show ?thesis by (auto simp: strict_keys_def Let_def filter_empty_conv)
qed

lemma py_space_not_id: "id_char c \<Longrightarrow> \<not> py_isspace c"
  by (auto simp: id_char_def id_start_def py_isspace_def Let_def)

lemma is_identifier_chars: "is_identifier s \<Longrightarrow> c \<in> set s \<Longrightarrow> id_char c"
  by (cases s) (auto simp: is_identifier_def list_all_iff id_char_def)

lemma is_identifier_stripped: "is_identifier s \<Longrightarrow> stripped s"
proof -
  assume s: "is_identifier s"
  then have "py_strip s = s"
    by (intro py_strip_no_space) (blast dest: is_identifier_chars py_space_not_id)
  with s show ?thesis by (simp add: stripped_def is_identifier_def)
qed

lemma text_field_document: "stripped s \<Longrightarrow> text_field (JStr s) loc = Inr s"
  by (simp add: text_field_def stripped_def)

lemma identifier_field_document: "is_identifier s \<Longrightarrow> identifier_field (JStr s) loc = Inr s"
  by (simp add: identifier_field_def text_field_document is_identifier_stripped)

lemma positive_number_document: "pos_float x \<Longrightarrow> positive_number (JFloat x) loc = Inr x"
  by (cases x) (auto simp: positive_number_def pos_float_def flt_le_def)

definition opt_number :: "py_float option \<Rightarrow> json" where
  "opt_number v = (case v of None \<Rightarrow> JNull | Some x \<Rightarrow> JFloat x)"

lemma optional_timeout_document: "opt_all pos_float v \<Longrightarrow> optional_timeout (opt_number v) loc = Inr v"
  by (cases v) (simp_all add: optional_timeout_def opt_number_def positive_number_document)

text \<open>
  The resources of a stage as \<open>create_run\<close> writes them into \<open>request.json\<close>
  (\<open>src/kernel_infra/store.py\<close>): the scope appears only when it is set.
\<close>

definition request_resources :: "resource_spec \<Rightarrow> json" where
  "request_resources r = JObj ([
     (''mode'', JStr (mode_name (rs_mode r))),
     (''gpu_count'', JInt (rs_gpu_count r)),
     (''estimate_s'', opt_number (rs_estimate_s r)),
     (''queue_timeout_s'', opt_number (rs_queue_timeout_s r)),
     (''run_timeout_s'', JFloat (rs_run_timeout_s r))] @
     (case rs_allowed_gpu_ids r of None \<Rightarrow> [] | Some ids \<Rightarrow> [(''allowed_gpu_ids'', JList (map JInt ids))]))"

lemma member_named_mode [simp]: "member_named mode_name MODES (mode_name m) = Some m"
  by (cases m) (simp_all add: member_named_def MODES_def)

lemma member_named_kind [simp]: "member_named kind_name STAGE_KINDS (kind_name k) = Some k"
  by (cases k) (simp_all add: member_named_def STAGE_KINDS_def)

lemma member_named_execution [simp]: "member_named execution_name EXECUTIONS (execution_name x) = Some x"
  by (cases x) (simp_all add: member_named_def EXECUTIONS_def)

lemma stripped_mode [simp]: "stripped (mode_name m)"
  by (cases m) (simp_all add: stripped_def py_strip_def py_lstrip_def py_rstrip_def py_isspace_def)

lemma stripped_kind [simp]: "stripped (kind_name k)"
  by (cases k) (simp_all add: stripped_def py_strip_def py_lstrip_def py_rstrip_def py_isspace_def)

lemma stripped_execution [simp]: "stripped (execution_name x)"
  by (cases x) (simp_all add: stripped_def py_strip_def py_lstrip_def py_rstrip_def py_isspace_def)

lemma parse_allowed_document:
  "wf_gpu_scope n ids \<Longrightarrow> parse_allowed_gpu_ids (JList (map JInt ids)) n loc = Inr (Some ids)"
  by (auto simp: parse_allowed_gpu_ids_def wf_gpu_scope_def Let_def list_all_iff o_def)

lemma parse_estimate_document:
  "opt_all pos_float v \<Longrightarrow> dict_get ''estimate_s'' d = Some (opt_number v) \<Longrightarrow> parse_estimate d loc = Inr v"
  by (cases v) (simp_all add: parse_estimate_def opt_number_def positive_number_document)

lemma parse_request_resources:
  assumes "wf_resources r"
  shows "parse_resources (request_resources r) loc = Inr r"
proof -
  obtain d where d: "request_resources r = JObj d" by (simp add: request_resources_def)
  have "dget ''mode'' d = JStr (mode_name (rs_mode r))" "dget ''gpu_count'' d = JInt (rs_gpu_count r)"
    "dget ''queue_timeout_s'' d = opt_number (rs_queue_timeout_s r)"
    "dget ''run_timeout_s'' d = JFloat (rs_run_timeout_s r)"
    "dict_get ''estimate_s'' d = Some (opt_number (rs_estimate_s r))"
    "dget ''allowed_gpu_ids'' d = (case rs_allowed_gpu_ids r of None \<Rightarrow> JNull | Some ids \<Rightarrow> JList (map JInt ids))"
    using d by (auto simp: request_resources_def split: option.splits)
  moreover have "strict_keys d [''mode'', ''gpu_count'', ''run_timeout_s'']
              [''estimate_s'', ''queue_timeout_s'', ''allowed_gpu_ids''] loc = Inr ()"
    using d by (auto simp: strict_keys_Inr_iff request_resources_def dict_keys_def dict_has_def split: option.splits)
  moreover have "parse_allowed_gpu_ids (case rs_allowed_gpu_ids r of None \<Rightarrow> JNull | Some ids \<Rightarrow> JList (map JInt ids))
      (rs_gpu_count r) l = Inr (rs_allowed_gpu_ids r)" for l
    using assms by (cases "rs_allowed_gpu_ids r")
      (simp_all add: wf_resources_def parse_allowed_document, simp add: parse_allowed_gpu_ids_def)
  moreover have "parse_estimate d l = Inr (rs_estimate_s r)" for l
    using assms calculation(5) by (intro parse_estimate_document) (simp_all add: wf_resources_def)
  ultimately show ?thesis
    using assms
    by (simp add: d parse_resources_def wf_resources_def text_field_document positive_number_document
        optional_timeout_document positive_int_def)
qed

definition stage_document :: "stage_spec \<Rightarrow> json" where
  "stage_document s = JObj ([
     (''id'', JStr (st_id s)),
     (''kind'', JStr (kind_name (st_kind s))),
     (''execution'', JStr (execution_name (st_execution s))),
     (''judge'', JObj [(''identity'', JStr (st_judge_identity s)), (''cwd'', JStr (st_cwd s)),
        (''command'', JList (map JStr (st_command s)))])] @
     (case st_resources s of None \<Rightarrow> [] | Some r \<Rightarrow> [(''resources'', request_resources r)]) @
     (case st_service_deployment_id s of None \<Rightarrow> [] | Some d \<Rightarrow> [(''service_deployment'', JStr d)]))"

text \<open>A working directory that the file system leaves as it is.\<close>

definition settled_cwd :: "py_env \<Rightarrow> string \<Rightarrow> bool" where
  "settled_cwd env p \<longleftrightarrow> stripped p \<and> expanduser env p = p \<and> path_is_absolute p \<and> resolve_path env p = p"

lemma parse_command_document: "wf_command c \<Longrightarrow> parse_command (JList (map JStr c)) loc = Inr c"
  by (auto simp: parse_command_def wf_command_def list_all_iff o_def)

lemma parse_judge_document:
  assumes "stripped i" "wf_command c" "settled_cwd env p"
  shows "parse_judge env (JObj [(''identity'', JStr i), (''cwd'', JStr p), (''command'', JList (map JStr c))]) dir loc
    = Inr (i, p, c)"
  using assms
  by (simp add: parse_judge_def strict_keys_Inr_iff [THEN iffD2] dict_keys_def dict_has_def Let_def
      text_field_document settled_cwd_def parse_command_document)

lemma parse_stage_document:
  assumes "wf_stage s" and "settled_cwd env (st_cwd s)"
  shows "parse_stage env (stage_document s) i dir = Inr s"
proof -
  obtain d where d: "stage_document s = JObj d" by (simp add: stage_document_def)
  have g: "dget ''id'' d = JStr (st_id s)" "dget ''kind'' d = JStr (kind_name (st_kind s))"
    "dict_get ''execution'' d = Some (JStr (execution_name (st_execution s)))"
    "dget ''judge'' d = JObj [(''identity'', JStr (st_judge_identity s)), (''cwd'', JStr (st_cwd s)),
        (''command'', JList (map JStr (st_command s)))]"
    "dict_has ''resources'' d = (st_resources s \<noteq> None)"
    "st_resources s = Some r \<Longrightarrow> dget ''resources'' d = request_resources r"
    "dict_get ''service_deployment'' d = map_option JStr (st_service_deployment_id s)" for r
    using d by (auto simp: stage_document_def dict_has_get split: option.splits)
  have k: "strict_keys d [''id'', ''kind'', ''judge'']
      [''execution'', ''resources'', ''service_deployment''] loc = Inr ()" for loc
    using d by (auto simp: strict_keys_Inr_iff stage_document_def dict_keys_def dict_has_def split: option.splits)
  show ?thesis
    using assms
    by (cases "st_execution s"; cases "st_service_deployment_id s")
      (auto simp: d parse_stage_def k g wf_stage_def wf_placement_def identifier_field_document
        text_field_document parse_judge_document parse_deployment_def parse_request_resources Let_def
        simp del: execution_name.simps kind_name.simps)
qed

definition comparison_document :: "comparison_spec \<Rightarrow> json" where
  "comparison_document c = JObj [
     (''primary_workloads'', JList (map JStr (cmp_primary_workloads c))),
     (''relative_noise_floor'', JFloat (cmp_relative_noise_floor c)),
     (''guardrails'', JObj (map (map_prod id JFloat) (cmp_guardrails c)))]"

definition task_document :: "task_spec \<Rightarrow> json" where
  "task_document t = JObj [
     (''schema'', JStr TASK_SCHEMA),
     (''task_id'', JStr (task_id t)),
     (''description'', JStr (task_description t)),
     (''workloads'', JList (map JStr (task_workloads t))),
     (''comparison'', comparison_document (task_comparison t)),
     (''stages'', JList (map stage_document (task_stages t)))]"

lemma parse_identifier_list_document:
  assumes "list_all is_identifier ws"
  shows "parse_identifier_list (map JStr ws) loc = Inr ws"
proof -
  have "rtraverse (\<lambda>(i, v). identifier_field v (workload_index_where loc i)) (List.enumerate n (map JStr ws)) = Inr ws" for n
    using assms by (induction ws arbitrary: n) (auto simp: identifier_field_document)
  then show ?thesis by (simp add: parse_identifier_list_def)
qed

lemma parse_workloads_document:
  "ws \<noteq> [] \<Longrightarrow> distinct ws \<Longrightarrow> list_all is_identifier ws \<Longrightarrow> parse_workloads (JList (map JStr ws)) = Inr ws"
  by (simp add: parse_workloads_def parse_identifier_list_document)

lemma dict_set_new: "k \<notin> set (dict_keys d) \<Longrightarrow> dict_set k v d = d @ [(k, v)]"
  unfolding dict_set_def dict_keys_def by (induction d) auto

lemma parse_guardrails_document:
  assumes "distinct (dict_keys g)" and "list_all (\<lambda>(w, x). w \<in> set ws \<and> pos_float x) g"
    and "list_all is_identifier ws"
  shows "parse_guardrails (JObj (map (map_prod id JFloat) g)) ws = Inr g"
proof -
  have "rfold (add_guardrail ws) acc (map (map_prod id JFloat) g) = Inr (acc @ g)"
    if "distinct (dict_keys (acc @ g))" for acc
    using that assms(2)
  proof (induction g arbitrary: acc)
    case Nil
    then show ?case by simp
  next
    case (Cons p g)
    obtain w x where p: "p = (w, x)" by (cases p)
    have w: "w \<in> set ws" "pos_float x" "is_identifier w"
      using Cons.prems p assms(3) by (auto simp: list_all_iff)
    have "w \<notin> set (dict_keys acc)" using Cons.prems(1) p by (auto simp: dict_keys_def)
    moreover have "rfold (add_guardrail ws) (acc @ [p]) (map (map_prod id JFloat) g) = Inr ((acc @ [p]) @ g)"
      using Cons.prems by (intro Cons.IH) auto
    moreover have "add_guardrail ws acc (w, JFloat x) = Inr (acc @ [(w, x)])"
      using w \<open>w \<notin> set (dict_keys acc)\<close>
      by (simp add: add_guardrail_def identifier_field_document positive_number_document dict_set_new)
    ultimately show ?case by (simp add: p id_def)
  qed
  from this [of "[]"] show ?thesis using assms(1) by (simp add: parse_guardrails_def)
qed

lemma parse_comparison_document:
  assumes "wf_comparison ws c" and "list_all is_identifier ws"
  shows "parse_comparison (comparison_document c) ws = Inr c"
proof -
  have sub: "set (cmp_primary_workloads c) \<subseteq> set ws" using assms(1) by (simp add: wf_comparison_def)
  have ids: "list_all is_identifier (cmp_primary_workloads c)"
    using sub assms(2) by (auto simp: list_all_iff)
  have un: "filter (\<lambda>w. w \<notin> set ws) (remdups (cmp_primary_workloads c)) = []"
    using sub by (auto simp: filter_empty_conv)
  have noise: "parse_noise (JFloat (cmp_relative_noise_floor c)) = Inr (cmp_relative_noise_floor c)"
    using assms(1) by (cases "cmp_relative_noise_floor c")
      (auto simp: parse_noise_def wf_comparison_def wf_noise_def flt_le_def)
  have st: "strict_keys [(''primary_workloads'', a), (''relative_noise_floor'', b), (''guardrails'', g)]
     [''primary_workloads'', ''relative_noise_floor''] [''guardrails''] loc = Inr ()" for a b g loc
    by (simp add: strict_keys_Inr_iff dict_keys_def dict_has_def)
  show ?thesis
    using assms
    by (simp add: parse_comparison_def comparison_document_def st un noise Let_def
        parse_identifier_list_document ids parse_guardrails_document wf_comparison_def)
qed

lemma parse_stages_document:
  assumes "list_all wf_stage ss" and "list_all (\<lambda>s. settled_cwd env (st_cwd s)) ss" and "ss \<noteq> []"
  shows "parse_stages env (JList (map stage_document ss)) dir = Inr ss"
proof -
  have "rtraverse (\<lambda>(i, v). parse_stage env v i dir) (List.enumerate n (map stage_document ss)) = Inr ss" for n
    using assms(1,2) by (induction ss arbitrary: n) (auto simp: parse_stage_document)
  then show ?thesis using assms(3) by (simp add: parse_stages_def)
qed

lemma parse_task_document:
  assumes "wf_task t" and "list_all (\<lambda>s. settled_cwd env (st_cwd s)) (task_stages t)"
  shows "parse_task env (task_document t) src = Inr (t\<lparr>task_raw := task_document t,
     task_digest := digest_json env (task_document t), task_source_path := src\<rparr>)"
proof -
  have st: "strict_keys [(''schema'', a), (''task_id'', b), (''description'', c), (''workloads'', d),
       (''comparison'', e), (''stages'', f)]
     [''schema'', ''task_id'', ''workloads'', ''comparison'', ''stages''] [''description''] loc = Inr ()"
    for a b c d e f loc
    by (simp add: strict_keys_Inr_iff dict_keys_def dict_has_def)
  have ck: "check_stages (task_stages t) = Inr ()"
    using assms(1) by (auto simp: check_stages_def wf_task_def find_None_iff list_all_iff split: option.splits)
  show ?thesis
    using assms ck
    by (simp add: parse_task_def task_document_def st Let_def wf_task_def identifier_field_document
        parse_workloads_document parse_comparison_document parse_stages_document py_str_def)
qed

section \<open>A concrete task\<close>

definition sample_env :: py_env where
  "sample_env = \<lparr>sha256 = (\<lambda>bytes. nat_text (sum_list bytes)), float_text = (\<lambda>x. ''1.5''),
     float_fixed6 = (\<lambda>x. ''1.500000''), float_general = (\<lambda>x. ''1.5''),
     expanduser = (\<lambda>p. p), resolve_path = (\<lambda>p. p),
     float_of_text = (\<lambda>s. None), bracketed_host = (\<lambda>s. Inl (ValueError ''Invalid IPv6 URL''))\<rparr>"

definition sample_resources :: resource_spec where
  "sample_resources = \<lparr>rs_mode = Exclusive, rs_gpu_count = 1, rs_estimate_s = None,
     rs_queue_timeout_s = None, rs_run_timeout_s = Fin 60, rs_allowed_gpu_ids = Some [1, 3]\<rparr>"

definition sample_task :: task_spec where
  "sample_task = \<lparr>task_id = ''gemm'', task_description = ''a kernel'', task_workloads = [''small'', ''large''],
     task_comparison = \<lparr>cmp_primary_workloads = [''large''], cmp_guardrails = [(''small'', Fin 1)],
       cmp_relative_noise_floor = Fin (1 / 64)\<rparr>,
     task_stages = [
       \<lparr>st_id = ''check'', st_kind = Correctness, st_execution = Local, st_judge_identity = ''judge-v1'',
        st_cwd = ''/judge'', st_command = [''python'', ''check.py''], st_resources = None,
        st_service_deployment_id = None\<rparr>,
       \<lparr>st_id = ''bench'', st_kind = Benchmark, st_execution = Broker, st_judge_identity = ''judge-v1'',
        st_cwd = ''/judge'', st_command = [''python'', ''bench.py''],
        st_resources = Some sample_resources, st_service_deployment_id = None\<rparr>],
     task_raw = JNull, task_digest = ''digest'', task_source_path = ''/tasks/gemm.json''\<rparr>"

lemma sample_task_wf: "wf_task sample_task"
  by (simp add: wf_task_def sample_task_def is_identifier_def id_char_def id_start_def wf_comparison_def
      wf_noise_def wf_stage_def wf_command_def wf_placement_def stripped_def stage_mode_violation_def
      wf_resources_def wf_gpu_scope_def sample_resources_def exclusive_kind_def dict_keys_def
      pos_float_def opt_all_def py_strip_def py_lstrip_def py_rstrip_def py_isspace_def)

lemma sample_task_settled: "list_all (\<lambda>s. settled_cwd sample_env (st_cwd s)) (task_stages sample_task)"
  by (simp add: sample_task_def settled_cwd_def sample_env_def path_is_absolute_def has_prefix_def stripped_def
      py_strip_def py_lstrip_def py_rstrip_def py_isspace_def)

lemmas sample_task_parses = parse_task_document [OF sample_task_wf sample_task_settled]

section \<open>Properties\<close>

text \<open>Parsing a task document raises nothing but a contract error, or the overflow of
  converting a huge integer to a float.\<close>

lemma rejected_task_error:
  assumes "parse_task env raw src = Inl e"
  shows "is_contract_error e \<or> (\<exists>m. e = OverflowError m)"
  using parse_task_Inl [OF assms] by (simp add: contract_or_overflow_def)

theorem rejected_task_error_witness:
  "is_contract_error (ContractError ''task must be an object'') \<or>
     (\<exists>m. ContractError ''task must be an object'' = OverflowError m)"
  using rejected_task_error [of sample_env JNull "''/t.json''" "ContractError ''task must be an object''"]
  by (simp add: parse_task_def)

text \<open>C20: The document of a well-formed task parses back to that task, with the document as
  raw value and its digest, when the working directories are absolute and resolved.\<close>

theorem task_document_roundtrip:
  assumes "wf_task t" and "list_all (\<lambda>s. settled_cwd env (st_cwd s)) (task_stages t)"
  shows "parse_task env (task_document t) src = Inr (t\<lparr>task_raw := task_document t,
     task_digest := digest_json env (task_document t), task_source_path := src\<rparr>)"
  using assms by (rule parse_task_document)

theorem task_document_roundtrip_witness:
  "\<exists>t. parse_task sample_env (task_document sample_task) ''/t.json'' = Inr t \<and> task_id t = ''gemm''"
  using task_document_roundtrip [OF sample_task_wf sample_task_settled, of "''/t.json''"]
  by (simp add: sample_task_def)

text \<open>The resource object a run request stores parses back to the resources of the stage.\<close>

lemma request_resources_roundtrip:
  assumes "wf_resources r"
  shows "parse_resources (request_resources r) loc = Inr r"
  using assms by (rule parse_request_resources)

theorem request_resources_roundtrip_witness:
  "parse_resources (request_resources sample_resources) ''here'' = Inr sample_resources"
  by (rule request_resources_roundtrip)
    (simp add: wf_resources_def sample_resources_def wf_gpu_scope_def opt_all_def pos_float_def)

text \<open>A task whose noise floor is an integer too large for a float is not rejected as a
  contract violation: the overflow escapes.\<close>

definition huge_noise_document :: json where
  "huge_noise_document = JObj [
     (''schema'', JStr TASK_SCHEMA), (''task_id'', JStr ''gemm''), (''workloads'', JList [JStr ''small'']),
     (''comparison'', JObj [(''primary_workloads'', JList [JStr ''small'']),
        (''relative_noise_floor'', JInt (2 ^ 1024))]),
     (''stages'', JList [])]"

lemma float_of_huge_int: "float_of_int (2 ^ 1024) = Inl (OverflowError ''int too large to convert to float'')"
proof -
  have "rnd (2 ^ 1024) = 2 ^ 1024" using rnd_powi [of 1024] by (simp add: power_int_def)
  then show ?thesis by (simp add: float_of_int_def Let_def max_double_def)
qed

lemma huge_noise_escapes:
  "load_task env (FileParsed huge_noise_document) path = Inl (OverflowError ''int too large to convert to float'')"
proof -
  have "parse_noise (JInt (2 ^ 1024)) = Inl (OverflowError ''int too large to convert to float'')"
    using float_of_huge_int by (simp add: parse_noise_def)
  then show ?thesis
    by (simp add: load_task_def parse_task_def huge_noise_document_def Let_def strict_keys_def dict_keys_def
        dict_has_def identifier_field_def text_field_def is_identifier_def id_char_def id_start_def
        py_strip_def py_lstrip_def py_rstrip_def py_isspace_def parse_workloads_def parse_identifier_list_def
        parse_comparison_def del: power_numeral)
qed

end
