(* ===== verification/Task_Forms.thy ===== *)
theory Task_Forms
  imports Task_Documents
begin

text \<open>
  The task documents the parser accepts, described without the parser: which keys each
  object has, and which value of the document each field of the specification is read from.
  Together with \<open>wf_task\<close> the description is exact, so no check of the parser is left out.
\<close>

section \<open>Fields\<close>

definition fields_of :: "jdict \<Rightarrow> string list \<Rightarrow> string list \<Rightarrow> bool" where
  "fields_of d required optional \<longleftrightarrow>
     set required \<subseteq> set (dict_keys d) \<and> set (dict_keys d) \<subseteq> set required \<union> set optional"

definition reads_text :: "json \<Rightarrow> string \<Rightarrow> bool" where
  "reads_text v s \<longleftrightarrow> s \<noteq> [] \<and> (\<exists>t. v = JStr t \<and> s = py_strip t)"

definition reads_identifier :: "json \<Rightarrow> string \<Rightarrow> bool" where
  "reads_identifier v s \<longleftrightarrow> reads_text v s \<and> is_identifier s"

definition reads_number :: "json \<Rightarrow> py_float \<Rightarrow> bool" where
  "reads_number v x \<longleftrightarrow> is_number v \<and> py_float_of v = Inr x"

section \<open>The form of a document\<close>

definition resources_form :: "json \<Rightarrow> resource_spec \<Rightarrow> bool" where
  "resources_form v r \<longleftrightarrow> (\<exists>d. v = JObj d \<and>
     fields_of d [''mode'', ''gpu_count'', ''run_timeout_s''] [''estimate_s'', ''queue_timeout_s'', ''allowed_gpu_ids''] \<and>
     reads_text (dget ''mode'' d) (mode_name (rs_mode r)) \<and>
     dget ''gpu_count'' d = JInt (rs_gpu_count r) \<and>
     (case rs_estimate_s r of
        None \<Rightarrow> dict_get ''estimate_s'' d = Some JNull
      | Some x \<Rightarrow> reads_number (case dict_get ''estimate_s'' d of None \<Rightarrow> JInt 600 | Some e \<Rightarrow> e) x) \<and>
     (case rs_queue_timeout_s r of
        None \<Rightarrow> dget ''queue_timeout_s'' d = JNull
      | Some x \<Rightarrow> reads_number (dget ''queue_timeout_s'' d) x) \<and>
     reads_number (dget ''run_timeout_s'' d) (rs_run_timeout_s r) \<and>
     dget ''allowed_gpu_ids'' d =
       (case rs_allowed_gpu_ids r of None \<Rightarrow> JNull | Some ids \<Rightarrow> JList (map JInt ids)))"

definition judge_form :: "py_env \<Rightarrow> string \<Rightarrow> json \<Rightarrow> string \<Rightarrow> string \<Rightarrow> string list \<Rightarrow> bool" where
  "judge_form env dir v identity cwd command \<longleftrightarrow> (\<exists>d p. v = JObj d \<and>
     fields_of d [''identity'', ''cwd'', ''command''] [] \<and>
     reads_text (dget ''identity'' d) identity \<and>
     reads_text (dget ''cwd'' d) p \<and> cwd = resolve_path env (path_join dir (expanduser env p)) \<and>
     dget ''command'' d = JList (map JStr command))"

definition stage_form :: "py_env \<Rightarrow> string \<Rightarrow> json \<Rightarrow> stage_spec \<Rightarrow> bool" where
  "stage_form env dir v s \<longleftrightarrow> (\<exists>d. v = JObj d \<and>
     fields_of d [''id'', ''kind'', ''judge''] [''execution'', ''resources'', ''service_deployment''] \<and>
     reads_text (dget ''id'' d) (st_id s) \<and>
     reads_text (dget ''kind'' d) (kind_name (st_kind s)) \<and>
     reads_text (case dict_get ''execution'' d of None \<Rightarrow> JStr ''broker'' | Some e \<Rightarrow> e) (execution_name (st_execution s)) \<and>
     judge_form env dir (dget ''judge'' d) (st_judge_identity s) (st_cwd s) (st_command s) \<and>
     (case st_resources s of
        None \<Rightarrow> dict_get ''resources'' d = None
      | Some r \<Rightarrow> (\<exists>e. dict_get ''resources'' d = Some e \<and> resources_form e r)) \<and>
     (case st_service_deployment_id s of
        None \<Rightarrow> dict_get ''service_deployment'' d = None
      | Some i \<Rightarrow> (\<exists>e. dict_get ''service_deployment'' d = Some e \<and> reads_text e i)))"

text \<open>A guardrail whose name, stripped, occurs again is overwritten.\<close>

definition guardrails_form :: "string list \<Rightarrow> json \<Rightarrow> py_float dict \<Rightarrow> bool" where
  "guardrails_form workloads v g \<longleftrightarrow> (\<exists>items read. v = JObj items \<and>
     list_all2 (\<lambda>(k, e) (w, x). w = py_strip k \<and> is_identifier w \<and> w \<in> set workloads \<and> reads_number e x \<and> pos_float x)
       items read \<and>
     g = foldl (\<lambda>g entry. dict_set (fst entry) (snd entry) g) [] read)"

definition comparison_form :: "string list \<Rightarrow> json \<Rightarrow> comparison_spec \<Rightarrow> bool" where
  "comparison_form workloads v c \<longleftrightarrow> (\<exists>d items. v = JObj d \<and>
     fields_of d [''primary_workloads'', ''relative_noise_floor''] [''guardrails''] \<and>
     dget ''primary_workloads'' d = JList items \<and> list_all2 reads_identifier items (cmp_primary_workloads c) \<and>
     reads_number (dget ''relative_noise_floor'' d) (cmp_relative_noise_floor c) \<and>
     guardrails_form workloads (case dict_get ''guardrails'' d of None \<Rightarrow> JObj [] | Some e \<Rightarrow> e) (cmp_guardrails c))"

definition task_form :: "py_env \<Rightarrow> string \<Rightarrow> json \<Rightarrow> task_spec \<Rightarrow> bool" where
  "task_form env src raw t \<longleftrightarrow> (\<exists>d names stages. raw = JObj d \<and>
     fields_of d [''schema'', ''task_id'', ''workloads'', ''comparison'', ''stages''] [''description''] \<and>
     dget ''schema'' d = JStr TASK_SCHEMA \<and>
     reads_text (dget ''task_id'' d) (task_id t) \<and>
     task_description t = py_strip (py_str (float_text env) (case dict_get ''description'' d of None \<Rightarrow> JStr [] | Some e \<Rightarrow> e)) \<and>
     dget ''workloads'' d = JList names \<and> list_all2 reads_identifier names (task_workloads t) \<and>
     comparison_form (task_workloads t) (dget ''comparison'' d) (task_comparison t) \<and>
     dget ''stages'' d = JList stages \<and> list_all2 (stage_form env (path_parent src)) stages (task_stages t))"

section \<open>The parser accepts exactly these\<close>

named_theorems form_iff \<open>when a check accepts\<close>

lemma strict_keys_form [form_iff]: "strict_keys d required optional loc = Inr u \<longleftrightarrow> fields_of d required optional"
  by (auto simp: strict_keys_Inr_iff fields_of_def dict_has_def dict_keys_def)

lemma text_field_form [form_iff]: "text_field v loc = Inr s \<longleftrightarrow> reads_text v s"
  by (cases v) (auto simp: text_field_def reads_text_def)

lemma identifier_field_form [form_iff]: "identifier_field v loc = Inr s \<longleftrightarrow> reads_identifier v s"
  by (auto simp: identifier_field_def reads_identifier_def rbind_eq_Inr_iff form_iff)

lemma positive_number_form [form_iff]: "positive_number v loc = Inr x \<longleftrightarrow> reads_number v x \<and> pos_float x"
  by (cases x) (auto simp: positive_number_def reads_number_def rbind_eq_Inr_iff pos_float_def flt_le_def)

lemma positive_int_form [form_iff]: "positive_int v loc = Inr i \<longleftrightarrow> v = JInt i \<and> 1 \<le> i"
  by (cases v) (auto simp: positive_int_def)

lemma optional_timeout_form [form_iff]:
  "optional_timeout v loc = Inr x \<longleftrightarrow>
     (case x of None \<Rightarrow> v = JNull | Some y \<Rightarrow> reads_number v y) \<and> opt_all pos_float x"
  by (cases x) (auto simp: optional_timeout_def rbind_eq_Inr_iff form_iff reads_number_def)

lemma parse_estimate_form [form_iff]:
  "parse_estimate d loc = Inr x \<longleftrightarrow>
     (case x of None \<Rightarrow> dict_get ''estimate_s'' d = Some JNull
      | Some y \<Rightarrow> reads_number (case dict_get ''estimate_s'' d of None \<Rightarrow> JInt 600 | Some e \<Rightarrow> e) y) \<and> opt_all pos_float x"
  by (cases x; cases "dict_get ''estimate_s'' d")
    (auto simp: parse_estimate_def rbind_eq_Inr_iff form_iff reads_number_def)

lemma parse_allowed_form [form_iff]:
  "parse_allowed_gpu_ids v n loc = Inr x \<longleftrightarrow>
     v = (case x of None \<Rightarrow> JNull | Some ids \<Rightarrow> JList (map JInt ids)) \<and> opt_all (wf_gpu_scope n) x"
proof
  assume r: "parse_allowed_gpu_ids v n loc = Inr x"
  have "map (JInt \<circ> int_of_json) items = items" if "list_all nonneg_index items" for items
    using that by (auto simp: list_all_iff nonneg_index_iff intro!: map_idI)
  with r have "v = (case x of None \<Rightarrow> JNull | Some ids \<Rightarrow> JList (map JInt ids))"
    by (auto simp: parse_allowed_gpu_ids_def Let_def split: json.splits if_splits)
  with parse_allowed_gpu_ids_Inr [OF r]
  show "v = (case x of None \<Rightarrow> JNull | Some ids \<Rightarrow> JList (map JInt ids)) \<and> opt_all (wf_gpu_scope n) x" by simp
next
  assume "v = (case x of None \<Rightarrow> JNull | Some ids \<Rightarrow> JList (map JInt ids)) \<and> opt_all (wf_gpu_scope n) x"
  then show "parse_allowed_gpu_ids v n loc = Inr x"
    by (cases x) (simp_all add: parse_allowed_document, simp add: parse_allowed_gpu_ids_def)
qed

lemma parse_command_form [form_iff]: "parse_command v loc = Inr c \<longleftrightarrow> v = JList (map JStr c) \<and> wf_command c"
proof
  assume r: "parse_command v loc = Inr c"
  have "map (JStr \<circ> (\<lambda>item. case item of JStr s \<Rightarrow> s | _ \<Rightarrow> [])) items = items" if "\<forall>item \<in> set items. is_str item" for items
    using that by (fastforce intro!: map_idI split: json.splits)
  with r have "v = JList (map JStr c)"
    by (auto simp: parse_command_def list_all_iff split: json.splits if_splits)
  with parse_command_Inr [OF r] show "v = JList (map JStr c) \<and> wf_command c" by simp
qed (simp add: parse_command_document)

lemma member_named_form [form_iff]:
  "member_named mode_name MODES s = Some m \<longleftrightarrow> s = mode_name m"
  "member_named kind_name STAGE_KINDS s = Some k \<longleftrightarrow> s = kind_name k"
  "member_named execution_name EXECUTIONS s = Some x \<longleftrightarrow> s = execution_name x"
proof -
  show "member_named mode_name MODES s = Some m \<longleftrightarrow> s = mode_name m"
    by (cases m) (auto simp: member_named_def MODES_def)
  show "member_named kind_name STAGE_KINDS s = Some k \<longleftrightarrow> s = kind_name k"
    by (cases k) (auto simp: member_named_def STAGE_KINDS_def)
  show "member_named execution_name EXECUTIONS s = Some x \<longleftrightarrow> s = execution_name x"
    by (cases x) (auto simp: member_named_def EXECUTIONS_def)
qed

lemma case_member_iff:
  "(case m of None \<Rightarrow> Inl e | Some x \<Rightarrow> f x) = Inr y \<longleftrightarrow> (\<exists>x. m = Some x \<and> f x = Inr y)"
  by (cases m) auto

lemma resource_spec_iff:
  "r = \<lparr>rs_mode = m, rs_gpu_count = n, rs_estimate_s = e, rs_queue_timeout_s = q, rs_run_timeout_s = t, rs_allowed_gpu_ids = g\<rparr> \<longleftrightarrow>
     rs_mode r = m \<and> rs_gpu_count r = n \<and> rs_estimate_s r = e \<and> rs_queue_timeout_s r = q \<and> rs_run_timeout_s r = t \<and>
     rs_allowed_gpu_ids r = g"
  by (cases r) auto

lemma parse_resources_form [form_iff]: "parse_resources v loc = Inr r \<longleftrightarrow> resources_form v r \<and> wf_resources r"
proof -
  have "expect_object v loc = Inr d \<longleftrightarrow> v = JObj d" for d by (cases v) auto
  then show ?thesis
    unfolding parse_resources_def resources_form_def wf_resources_def rbind_eq_Inr_iff case_member_iff form_iff
      sum.inject resource_spec_iff
    by (cases "rs_mode r") (fastforce simp: resource_spec_iff)+
qed

lemma expect_object_form [form_iff]: "expect_object v loc = Inr d \<longleftrightarrow> v = JObj d"
  by (cases v) auto

lemma parse_judge_form [form_iff]:
  "parse_judge env v dir loc = Inr (i, p, c) \<longleftrightarrow> judge_form env dir v i p c \<and> wf_command c"
proof -
  have "(if path_is_absolute p then p else path_join dir p) = path_join dir p" for p by (simp add: path_join_def)
  then show ?thesis
    unfolding parse_judge_def judge_form_def rbind_eq_Inr_iff form_iff Let_def by auto
qed

lemma parse_deployment_form [form_iff]:
  "parse_deployment d x loc = Inr i \<longleftrightarrow>
     (case i of None \<Rightarrow> dict_get ''service_deployment'' d = None
      | Some j \<Rightarrow> x = Service \<and> is_identifier j \<and> (\<exists>e. dict_get ''service_deployment'' d = Some e \<and> reads_text e j))"
  by (cases i) (auto simp: parse_deployment_def form_iff reads_identifier_def rbind_eq_Inr_iff split: option.splits)

lemma stage_spec_iff:
  "s = \<lparr>st_id = i, st_kind = k, st_execution = x, st_judge_identity = j, st_cwd = p, st_command = c, st_resources = r,
     st_service_deployment_id = d\<rparr> \<longleftrightarrow>
   st_id s = i \<and> st_kind s = k \<and> st_execution s = x \<and> st_judge_identity s = j \<and> st_cwd s = p \<and> st_command s = c \<and>
   st_resources s = r \<and> st_service_deployment_id s = d"
  by (cases s) auto

lemma parse_stage_form: "parse_stage env v n dir = Inr s \<longleftrightarrow> stage_form env dir v s \<and> wf_stage s"
proof
  assume p: "parse_stage env v n dir = Inr s"
  let ?tail = "\<lambda>loc d i k x (identity, cwd, command) deployment.
    if x \<in> {Local, Service} then
       (if dict_has ''resources'' d
        then Inl (ContractError (loc @ ''.resources must be omitted for '' @ execution_name x @ '' execution''))
        else Inr \<lparr>st_id = i, st_kind = k, st_execution = x, st_judge_identity = identity, st_cwd = cwd, st_command = command,
               st_resources = None, st_service_deployment_id = deployment\<rparr>)
     else if \<not> dict_has ''resources'' d
       then Inl (ContractError (loc @ ''.resources is required for broker execution''))
     else rbind (parse_resources (dget ''resources'' d) (loc @ ''.resources'')) (\<lambda>resources.
       Inr \<lparr>st_id = i, st_kind = k, st_execution = x, st_judge_identity = identity, st_cwd = cwd, st_command = command,
            st_resources = Some resources, st_service_deployment_id = None\<rparr>)"
  obtain loc d i k x identity cwd command deployment where d: "v = JObj d"
    "fields_of d [''id'', ''kind'', ''judge''] [''execution'', ''resources'', ''service_deployment'']"
    "reads_identifier (dget ''id'' d) i" "reads_text (dget ''kind'' d) (kind_name k)"
    "reads_text (case dict_get ''execution'' d of None \<Rightarrow> JStr ''broker'' | Some e \<Rightarrow> e) (execution_name x)"
    "judge_form env dir (dget ''judge'' d) identity cwd command"
    "case deployment of None \<Rightarrow> dict_get ''service_deployment'' d = None
      | Some j \<Rightarrow> x = Service \<and> is_identifier j \<and> (\<exists>e. dict_get ''service_deployment'' d = Some e \<and> reads_text e j)"
    "?tail loc d i k x (identity, cwd, command) deployment = Inr s"
    using p unfolding parse_stage_def Let_def rbind_eq_Inr_iff case_member_iff form_iff split_paired_Ex prod.case by blast
  have "stage_form env dir v s"
  proof (cases "x \<in> {Local, Service}")
    case True
    then have s: "s = \<lparr>st_id = i, st_kind = k, st_execution = x, st_judge_identity = identity, st_cwd = cwd, st_command = command,
        st_resources = None, st_service_deployment_id = deployment\<rparr>" "dict_get ''resources'' d = None"
      using d(8) by (auto simp: dict_has_get split: if_splits)
    show ?thesis
      unfolding stage_form_def s(1) stage_spec.simps option.case
      using d(1-7) s(2) by (cases deployment) (auto simp: reads_identifier_def)
  next
    case False
    then obtain r e where s: "s = \<lparr>st_id = i, st_kind = k, st_execution = x, st_judge_identity = identity, st_cwd = cwd,
        st_command = command, st_resources = Some r, st_service_deployment_id = None\<rparr>"
      "dict_get ''resources'' d = Some e" "resources_form e r"
      using d(8) by (auto simp: dict_has_get dget_def form_iff split: if_splits)
    show ?thesis
      unfolding stage_form_def s(1) stage_spec.simps option.case
      using d(1-7) s(2,3) False by (cases deployment) (auto simp: reads_identifier_def)
  qed
  with parse_stage_Inr [OF p] show "stage_form env dir v s \<and> wf_stage s" by simp
next
  assume f: "stage_form env dir v s \<and> wf_stage s"
  then obtain d where d: "v = JObj d"
    "fields_of d [''id'', ''kind'', ''judge''] [''execution'', ''resources'', ''service_deployment'']"
    "reads_text (dget ''id'' d) (st_id s)" "reads_text (dget ''kind'' d) (kind_name (st_kind s))"
    "reads_text (case dict_get ''execution'' d of None \<Rightarrow> JStr ''broker'' | Some e \<Rightarrow> e) (execution_name (st_execution s))"
    "judge_form env dir (dget ''judge'' d) (st_judge_identity s) (st_cwd s) (st_command s)"
    "case st_resources s of None \<Rightarrow> dict_get ''resources'' d = None
      | Some r \<Rightarrow> (\<exists>e. dict_get ''resources'' d = Some e \<and> resources_form e r)"
    "case st_service_deployment_id s of None \<Rightarrow> dict_get ''service_deployment'' d = None
      | Some i \<Rightarrow> (\<exists>e. dict_get ''service_deployment'' d = Some e \<and> reads_text e i)"
    unfolding stage_form_def by blast
  have w: "is_identifier (st_id s)" "wf_command (st_command s)" "wf_placement s" using f by (simp_all add: wf_stage_def)
  have checks: "strict_keys d [''id'', ''kind'', ''judge''] [''execution'', ''resources'', ''service_deployment''] loc = Inr ()"
    "identifier_field (dget ''id'' d) loc = Inr (st_id s)" "text_field (dget ''kind'' d) loc = Inr (kind_name (st_kind s))"
    "text_field (case dict_get ''execution'' d of None \<Rightarrow> JStr ''broker'' | Some e \<Rightarrow> e) loc = Inr (execution_name (st_execution s))"
    "parse_judge env (dget ''judge'' d) dir loc = Inr (st_judge_identity s, st_cwd s, st_command s)"
    "parse_deployment d (st_execution s) loc = Inr (st_service_deployment_id s)" for loc
    unfolding form_iff reads_identifier_def using d(2-6,8) w
    by (auto simp: wf_placement_def split: option.splits execution.splits)
  show "parse_stage env v n dir = Inr s"
  proof (cases "st_execution s")
    case Broker
    then obtain r e where r: "st_resources s = Some r" "wf_resources r" "st_service_deployment_id s = None"
      "dict_get ''resources'' d = Some e" "resources_form e r" using w(3) d(7) by (auto simp: wf_placement_def)
    then have "parse_resources (dget ''resources'' d) loc = Inr r" for loc by (simp add: parse_resources_form dget_def)
    with Broker r checks member_named_form show ?thesis
      by (simp add: parse_stage_def d(1) Let_def dict_has_get stage_spec_iff del: execution_name.simps)
  next
    case Local
    then have "st_resources s = None" "dict_get ''resources'' d = None" using w(3) d(7) by (auto simp: wf_placement_def)
    with Local checks member_named_form show ?thesis
      by (simp add: parse_stage_def d(1) Let_def dict_has_get stage_spec_iff del: execution_name.simps)
  next
    case Service
    then have "st_resources s = None" "dict_get ''resources'' d = None" using w(3) d(7) by (auto simp: wf_placement_def)
    with Service checks member_named_form show ?thesis
      by (simp add: parse_stage_def d(1) Let_def dict_has_get stage_spec_iff del: execution_name.simps)
  qed
qed

lemma rtraverse_enumerate_iff:
  assumes "\<And>i v y. f (i, v) = Inr y \<longleftrightarrow> P v y"
  shows "rtraverse f (List.enumerate n vs) = Inr ys \<longleftrightarrow> list_all2 P vs ys"
proof (induction vs arbitrary: n ys)
  case (Cons v vs)
  show ?case by (cases ys) (simp_all add: rbind_eq_Inr_iff Cons.IH assms)
qed auto

lemma parse_identifier_list_form [form_iff]:
  "parse_identifier_list vs loc = Inr ys \<longleftrightarrow> list_all2 reads_identifier vs ys"
  unfolding parse_identifier_list_def by (rule rtraverse_enumerate_iff) (simp add: form_iff)

lemma parse_noise_form [form_iff]: "parse_noise v = Inr x \<longleftrightarrow> reads_number v x \<and> wf_noise x"
  by (cases x) (auto simp: parse_noise_def reads_number_def rbind_eq_Inr_iff wf_noise_def flt_le_def)

lemma rfold_foldl:
  assumes "\<And>acc x acc'. f acc x = Inr acc' \<longleftrightarrow> (\<exists>y. P x y \<and> acc' = step acc y)"
  shows "rfold f acc xs = Inr r \<longleftrightarrow> (\<exists>ys. list_all2 P xs ys \<and> r = foldl step acc ys)"
proof (induction xs arbitrary: acc)
  case (Cons x xs)
  show ?case
    unfolding rfold.simps rbind_eq_Inr_iff assms Cons.IH list_all2_Cons1 by fastforce
qed auto

lemma parse_guardrails_form [form_iff]: "parse_guardrails v ws = Inr g \<longleftrightarrow> guardrails_form ws v g"
proof -
  let ?P = "\<lambda>(k, e) (w, x). w = py_strip k \<and> is_identifier w \<and> w \<in> set ws \<and> reads_number e x \<and> pos_float x"
  have step: "add_guardrail ws acc (k, e) = Inr acc' \<longleftrightarrow> (\<exists>y. ?P (k, e) y \<and> acc' = dict_set (fst y) (snd y) acc)" for acc k e acc'
    by (auto simp: add_guardrail_def rbind_eq_Inr_iff form_iff reads_identifier_def reads_text_def is_identifier_def)
  have "rfold (add_guardrail ws) [] items = Inr g \<longleftrightarrow>
      (\<exists>ys. list_all2 ?P items ys \<and> g = foldl (\<lambda>g entry. dict_set (fst entry) (snd entry) g) [] ys)" for items
    by (rule rfold_foldl, rename_tac acc item acc', case_tac item, simp only: step)
  then show ?thesis by (cases v) (simp_all add: parse_guardrails_def guardrails_form_def)
qed

lemma parse_comparison_form [form_iff]:
  assumes "list_all is_identifier ws"
  shows "parse_comparison v ws = Inr c \<longleftrightarrow> comparison_form ws v c \<and> wf_comparison ws c"
proof
  assume p: "parse_comparison v ws = Inr c"
  have "comparison_form ws v c"
    using p unfolding parse_comparison_def rbind_eq_Inr_iff form_iff Let_def
    by (auto simp: comparison_form_def rbind_eq_Inr_iff form_iff split: json.splits if_splits)
  with parse_comparison_Inr [OF p] show "comparison_form ws v c \<and> wf_comparison ws c" by simp
next
  assume f: "comparison_form ws v c \<and> wf_comparison ws c"
  then obtain d items where d: "v = JObj d" "dget ''primary_workloads'' d = JList items"
    "fields_of d [''primary_workloads'', ''relative_noise_floor''] [''guardrails'']"
    "list_all2 reads_identifier items (cmp_primary_workloads c)" "reads_number (dget ''relative_noise_floor'' d) (cmp_relative_noise_floor c)"
    "guardrails_form ws (case dict_get ''guardrails'' d of None \<Rightarrow> JObj [] | Some e \<Rightarrow> e) (cmp_guardrails c)"
    unfolding comparison_form_def by blast
  have w: "cmp_primary_workloads c \<noteq> []" "set (cmp_primary_workloads c) \<subseteq> set ws" "wf_noise (cmp_relative_noise_floor c)"
    using f by (simp_all add: wf_comparison_def)
  have un: "filter (\<lambda>w. w \<notin> set ws) (remdups (cmp_primary_workloads c)) = []" using w(2) by (auto simp: filter_empty_conv)
  have "items \<noteq> []" using d(4) w(1) by auto
  moreover have "strict_keys d [''primary_workloads'', ''relative_noise_floor''] [''guardrails''] loc = Inr ()"
    "parse_identifier_list items loc = Inr (cmp_primary_workloads c)"
    "parse_noise (dget ''relative_noise_floor'' d) = Inr (cmp_relative_noise_floor c)"
    "parse_guardrails (case dict_get ''guardrails'' d of None \<Rightarrow> JObj [] | Some e \<Rightarrow> e) ws = Inr (cmp_guardrails c)" for loc
    using d w(3) by (simp_all add: form_iff)
  ultimately show "parse_comparison v ws = Inr c" by (simp add: parse_comparison_def d(1,2) un Let_def)
qed

lemma parse_workloads_form [form_iff]:
  "parse_workloads v = Inr ws \<longleftrightarrow> (\<exists>items. v = JList items \<and> list_all2 reads_identifier items ws) \<and> ws \<noteq> [] \<and> distinct ws"
  by (cases v) (auto simp: parse_workloads_def rbind_eq_Inr_iff form_iff)

lemma parse_stages_form [form_iff]:
  "parse_stages env v dir = Inr ss \<longleftrightarrow>
     (\<exists>items. v = JList items \<and> list_all2 (stage_form env dir) items ss) \<and> ss \<noteq> [] \<and> list_all wf_stage ss"
proof -
  have "rtraverse (\<lambda>(i, v). parse_stage env v i dir) (List.enumerate 0 items) = Inr ss \<longleftrightarrow>
      list_all2 (\<lambda>v s. stage_form env dir v s \<and> wf_stage s) items ss" for items
    by (rule rtraverse_enumerate_iff) (simp add: parse_stage_form)
  also have "list_all2 (\<lambda>v s. stage_form env dir v s \<and> wf_stage s) items ss \<longleftrightarrow>
      list_all2 (stage_form env dir) items ss \<and> list_all wf_stage ss" for items
    by (auto simp: list_all2_conv_all_nth list_all_length)
  finally show ?thesis by (cases v) (auto simp: parse_stages_def)
qed

lemma parse_task_form:
  "parse_task env raw src = Inr t \<longleftrightarrow>
     task_form env src raw t \<and> wf_task t \<and> task_raw t = raw \<and> task_digest t = digest_json env raw \<and> task_source_path t = src"
proof
  assume p: "parse_task env raw src = Inr t"
  then obtain d ws where d: "raw = JObj d" "parse_workloads (dget ''workloads'' d) = Inr ws"
    by (auto simp: parse_task_def form_iff)
  have ids: "list_all is_identifier ws" using parse_workloads_Inr [OF d(2)] by simp
  have "task_form env src raw t"
    using p d unfolding parse_task_def task_form_def
    by (auto simp: form_iff parse_comparison_form [OF ids] reads_identifier_def Let_def split: if_splits)
  with parse_task_Inr [OF p] show "task_form env src raw t \<and> wf_task t \<and> task_raw t = raw \<and>
      task_digest t = digest_json env raw \<and> task_source_path t = src" by simp
next
  assume f: "task_form env src raw t \<and> wf_task t \<and> task_raw t = raw \<and> task_digest t = digest_json env raw \<and> task_source_path t = src"
  then obtain d names stages where d: "raw = JObj d"
    "fields_of d [''schema'', ''task_id'', ''workloads'', ''comparison'', ''stages''] [''description'']"
    "dget ''schema'' d = JStr TASK_SCHEMA" "reads_text (dget ''task_id'' d) (task_id t)"
    "task_description t = py_strip (py_str (float_text env) (case dict_get ''description'' d of None \<Rightarrow> JStr [] | Some e \<Rightarrow> e))"
    "dget ''workloads'' d = JList names" "list_all2 reads_identifier names (task_workloads t)"
    "comparison_form (task_workloads t) (dget ''comparison'' d) (task_comparison t)"
    "dget ''stages'' d = JList stages" "list_all2 (stage_form env (path_parent src)) stages (task_stages t)"
    unfolding task_form_def by blast
  have ids: "list_all is_identifier (task_workloads t)" and ck: "check_stages (task_stages t) = Inr ()"
    using f by (auto simp: check_stages_def wf_task_def find_None_iff list_all_iff split: option.splits)
  have "strict_keys d [''schema'', ''task_id'', ''workloads'', ''comparison'', ''stages''] [''description''] loc = Inr ()"
    "identifier_field (dget ''task_id'' d) loc = Inr (task_id t)" "parse_workloads (dget ''workloads'' d) = Inr (task_workloads t)"
    "parse_comparison (dget ''comparison'' d) (task_workloads t) = Inr (task_comparison t)"
    "parse_stages env (dget ''stages'' d) (path_parent src) = Inr (task_stages t)" for loc
    using f d(2-4,6-10) unfolding form_iff parse_comparison_form [OF ids] by (auto simp: wf_task_def reads_identifier_def)
  then have "parse_task env raw src = Inr \<lparr>task_id = task_id t, task_description = task_description t, task_workloads = task_workloads t,
      task_comparison = task_comparison t, task_stages = task_stages t, task_raw = raw, task_digest = digest_json env raw,
      task_source_path = src\<rparr>" using ck by (simp add: parse_task_def d(1,3,5) Let_def)
  also have "\<dots> = Inr t" using f by (cases t) simp
  finally show "parse_task env raw src = Inr t" .
qed

section \<open>Properties\<close>

text \<open>C6: The parser accepts a document as a task exactly when the document has the form of the
  task (the keys of each object, none missing and none unknown, the schema, and every field
  read from its value in the document) and the task satisfies the rules for values:
  identifiers, unique workloads and stages, primary workloads and guardrails over declared
  workloads, a noise floor in [0, 1), broker stages with resources, exclusive mode for timing
  and sanitizer stages, a correctness or judge stage.  The task keeps the raw document and
  carries its digest.\<close>

theorem accepted_task_well_formed:
  "parse_task env raw src = Inr t \<longleftrightarrow>
     task_form env src raw t \<and> wf_task t \<and> task_raw t = raw \<and> task_digest t = digest_json env raw \<and> task_source_path t = src"
  by (rule parse_task_form)

theorem accepted_task_well_formed_witness:
  "\<exists>t. task_form sample_env ''/t.json'' (task_document sample_task) t \<and> wf_task t \<and> task_id t = ''gemm''"
  using sample_task_parses [of "''/t.json''"] unfolding accepted_task_well_formed by (force simp: sample_task_def)

end
