(* ===== verification/Lifecycle.thy ===== *)
theory Lifecycle
  imports Task_Documents
begin

text \<open>
  The vocabulary that runs, results and projections share: the lifecycle states of a run
  (\<open>store.py\<close>, \<open>runner.py\<close>), the status and validity a judge reports (\<open>results.py\<close>),
  with the names the code stores them under.  States are ordered by name, the order in
  which summaries list them.
\<close>

section \<open>Lifecycle states of a run\<close>

datatype run_lifecycle =
    Accepted | Submitting | Queued | WaitingLocal | Running | StageFinished
  | Completed | Rejected | InfraError | Cancelled | Interrupted

fun lifecycle_name :: "run_lifecycle \<Rightarrow> string" where
  "lifecycle_name Accepted = ''accepted''"
| "lifecycle_name Submitting = ''submitting''"
| "lifecycle_name Queued = ''queued''"
| "lifecycle_name WaitingLocal = ''waiting_local''"
| "lifecycle_name Running = ''running''"
| "lifecycle_name StageFinished = ''stage_finished''"
| "lifecycle_name Completed = ''completed''"
| "lifecycle_name Rejected = ''rejected''"
| "lifecycle_name InfraError = ''infra_error''"
| "lifecycle_name Cancelled = ''cancelled''"
| "lifecycle_name Interrupted = ''interrupted''"

definition TERMINAL_STATES :: "run_lifecycle list" where
  "TERMINAL_STATES = [Completed, Rejected, InfraError, Cancelled, Interrupted]"

definition is_terminal :: "run_lifecycle \<Rightarrow> bool" where
  "is_terminal s \<longleftrightarrow> s \<in> set TERMINAL_STATES"

lemma is_terminal_simps [simp]:
  "is_terminal Completed" "is_terminal Rejected" "is_terminal InfraError"
  "is_terminal Cancelled" "is_terminal Interrupted"
  "\<not> is_terminal Accepted" "\<not> is_terminal Submitting" "\<not> is_terminal Queued"
  "\<not> is_terminal WaitingLocal" "\<not> is_terminal Running" "\<not> is_terminal StageFinished"
  by (simp_all add: is_terminal_def TERMINAL_STATES_def)

lemma lifecycle_name_inject: "lifecycle_name a = lifecycle_name b \<Longrightarrow> a = b"
  by (cases a; cases b) simp_all

instantiation run_lifecycle :: linorder
begin

definition less_eq_run_lifecycle :: "run_lifecycle \<Rightarrow> run_lifecycle \<Rightarrow> bool" where
  "less_eq_run_lifecycle a b \<longleftrightarrow> lifecycle_name a \<le> lifecycle_name b"

definition less_run_lifecycle :: "run_lifecycle \<Rightarrow> run_lifecycle \<Rightarrow> bool" where
  "less_run_lifecycle a b \<longleftrightarrow> lifecycle_name a < lifecycle_name b"

instance
  by standard
    (auto simp: less_eq_run_lifecycle_def less_run_lifecycle_def intro: lifecycle_name_inject)

end

section \<open>What a judge reports\<close>

datatype status = Passed | Failed

fun status_name :: "status \<Rightarrow> string" where
  "status_name Passed = ''passed''"
| "status_name Failed = ''failed''"

definition STATUSES :: "status list" where
  "STATUSES = [Passed, Failed]"

datatype validity = Valid | Invalid | Unknown

fun validity_name :: "validity \<Rightarrow> string" where
  "validity_name Valid = ''valid''"
| "validity_name Invalid = ''invalid''"
| "validity_name Unknown = ''unknown''"

definition VALIDITIES :: "validity list" where
  "VALIDITIES = [Valid, Invalid, Unknown]"

lemma member_named_status [simp]: "member_named status_name STATUSES (status_name s) = Some s"
  by (cases s) (simp_all add: member_named_def STATUSES_def)

lemma member_named_validity [simp]: "member_named validity_name VALIDITIES (validity_name v) = Some v"
  by (cases v) (simp_all add: member_named_def VALIDITIES_def)

lemma member_named_Some: "member_named name xs s = Some x \<Longrightarrow> x \<in> set xs \<and> name x = s"
  by (auto simp: member_named_def find_Some_iff)

text \<open>\<open>value in FROZENSET\<close> hashes the value: a list or an object raises.\<close>

definition lookup_named :: "('a \<Rightarrow> string) \<Rightarrow> 'a list \<Rightarrow> json \<Rightarrow> exn \<Rightarrow> 'a result" where
  "lookup_named name members value err =
     (case value of
        JStr s \<Rightarrow> (case member_named name members s of None \<Rightarrow> Inl err | Some x \<Rightarrow> Inr x)
      | JList xs \<Rightarrow> Inl (TypeError ''unhashable type: list'')
      | JObj d \<Rightarrow> Inl (TypeError ''unhashable type: dict'')
      | _ \<Rightarrow> Inl err)"

lemma lookup_named_Inr:
  "lookup_named name members v err = Inr x \<longleftrightarrow> (\<exists>s. v = JStr s \<and> member_named name members s = Some x)"
  by (auto simp: lookup_named_def split: json.splits)

end
