(* ===== verification/Stage_Result.thy ===== *)
theory Stage_Result
  imports Lifecycle
begin

text \<open>
  \<open>src/kernel_infra/results.py\<close>: the validation of a judge's stage result and the
  aggregation of the stage results of a run into its outcome, validity and frontier
  eligibility.  A workload row stays a dictionary, because aggregation merges the rows
  of several stages field by field.
\<close>

section \<open>Validation of one stage result\<close>

definition STAGE_RESULT_SCHEMA :: string where
  "STAGE_RESULT_SCHEMA = ''kernelinfra.stage-result.v1''"

record stage_result =
  sr_status :: status
  sr_validity :: validity
  sr_summary :: "string option"
  sr_workloads :: "jdict list"
  sr_artifacts :: "jdict option"
  sr_fingerprints :: "jdict option"
  sr_metrics :: "jdict option"

definition finite_positive :: "json \<Rightarrow> string \<Rightarrow> py_float result" where
  "finite_positive value loc =
     (if \<not> is_number value then Inl (ContractError (loc @ '' must be a positive finite number''))
      else rbind (py_float_of value) (\<lambda>number.
        if \<not> flt_isfinite number \<or> flt_le number (Fin 0)
        then Inl (ContractError (loc @ '' must be a positive finite number''))
        else Inr number))"

text \<open>The optional fields: an absent field passes.\<close>

definition optional_field :: "string \<Rightarrow> (json \<Rightarrow> unit result) \<Rightarrow> jdict \<Rightarrow> unit result" where
  "optional_field k check d = (case dict_get k d of None \<Rightarrow> Inr () | Some v \<Rightarrow> check v)"

definition require :: "bool \<Rightarrow> string \<Rightarrow> unit result" where
  "require ok msg = (if ok then Inr () else Inl (ContractError msg))"

definition check_time :: "string \<Rightarrow> json \<Rightarrow> unit result" where
  "check_time loc v = rbind (finite_positive v loc) (\<lambda>_. Inr ())"

definition check_samples :: "string \<Rightarrow> json \<Rightarrow> unit result" where
  "check_samples loc v =
     (case v of
        JList samples \<Rightarrow>
          if samples = [] then Inl (ContractError (loc @ '' must be a non-empty list''))
          else rbind (rtraverse (\<lambda>(i, x). check_time (loc @ ''['' @ nat_text i @ '']'') x)
                 (List.enumerate 0 samples)) (\<lambda>_. Inr ())
      | _ \<Rightarrow> Inl (ContractError (loc @ '' must be a non-empty list'')))"

definition WORKLOAD_FIELDS :: "string list" where
  "WORKLOAD_FIELDS = [''id'', ''correct'', ''candidate_ms'', ''baseline_ms'', ''candidate_samples_ms'',
     ''baseline_samples_ms'', ''stable'', ''speedup'', ''notes'']"

definition validate_workload :: "py_env \<Rightarrow> json \<Rightarrow> nat \<Rightarrow> task_spec \<Rightarrow> jdict result" where
  "validate_workload env value index task =
     (let loc = ''stage result workloads['' @ nat_text index @ '']'' in
     rbind (expect_object value loc) (\<lambda>row.
     let unknown = sort (filter (\<lambda>k. k \<notin> set WORKLOAD_FIELDS) (dict_keys row)) in
     if unknown \<noteq> [] then Inl (ContractError (loc @ '' unknown fields: '' @ join '', '' unknown))
     else if \<not> list_ex (\<lambda>w. py_eq (dget ''id'' row) (JStr w)) (task_workloads task)
     then Inl (ContractError (loc @ ''.id is not declared by the task: '' @ py_repr (float_text env) (dget ''id'' row)))
     else
     rbind (optional_field ''correct'' (\<lambda>v. require (is_bool v) (loc @ ''.correct must be boolean'')) row) (\<lambda>_.
     rbind (optional_field ''candidate_ms'' (check_time (loc @ ''.candidate_ms'')) row) (\<lambda>_.
     rbind (optional_field ''baseline_ms'' (check_time (loc @ ''.baseline_ms'')) row) (\<lambda>_.
     rbind (optional_field ''speedup'' (check_time (loc @ ''.speedup'')) row) (\<lambda>_.
     rbind (optional_field ''candidate_samples_ms'' (check_samples (loc @ ''.candidate_samples_ms'')) row) (\<lambda>_.
     rbind (optional_field ''baseline_samples_ms'' (check_samples (loc @ ''.baseline_samples_ms'')) row) (\<lambda>_.
     rbind (optional_field ''stable'' (\<lambda>v. require (is_bool v) (loc @ ''.stable must be boolean'')) row) (\<lambda>_.
     rbind (optional_field ''notes'' (\<lambda>v. require (is_str v) (loc @ ''.notes must be a string'')) row) (\<lambda>_.
     Inr row))))))))))"

definition row_id :: "jdict \<Rightarrow> string" where
  "row_id row = (case dget ''id'' row of JStr s \<Rightarrow> s | _ \<Rightarrow> [])"

text \<open>The loop over the rows: each is validated, then its id must be new.\<close>

fun validate_rows :: "py_env \<Rightarrow> task_spec \<Rightarrow> nat \<Rightarrow> string list \<Rightarrow> json list \<Rightarrow> jdict list result" where
  "validate_rows env task index seen [] = Inr []"
| "validate_rows env task index seen (v # vs) =
     rbind (validate_workload env v index task) (\<lambda>row.
     if row_id row \<in> set seen then Inl (ContractError (''duplicate workload result: '' @ row_id row))
     else rbind (validate_rows env task (Suc index) (row_id row # seen) vs) (\<lambda>rows. Inr (row # rows)))"

definition STAGE_RESULT_FIELDS :: "string list" where
  "STAGE_RESULT_FIELDS = [''schema'', ''status'', ''validity'', ''summary'', ''workloads'', ''artifacts'',
     ''fingerprints'', ''metrics'']"

fun opt_string :: "json \<Rightarrow> string option" where
  "opt_string (JStr s) = Some s"
| "opt_string _ = None"

fun opt_object :: "json \<Rightarrow> jdict option" where
  "opt_object (JObj d) = Some d"
| "opt_object _ = None"

definition validate_stage_result :: "py_env \<Rightarrow> json \<Rightarrow> task_spec \<Rightarrow> stage_result result" where
  "validate_stage_result env v task =
     rbind (expect_object v ''stage result'') (\<lambda>value.
     let unknown = sort (filter (\<lambda>k. k \<notin> set STAGE_RESULT_FIELDS) (dict_keys value));
         missing = sort (filter (\<lambda>k. \<not> dict_has k value) [''schema'', ''status'', ''validity'']) in
     if missing \<noteq> [] then Inl (ContractError (''stage result missing fields: '' @ join '', '' missing))
     else if unknown \<noteq> [] then Inl (ContractError (''stage result unknown fields: '' @ join '', '' unknown))
     else if \<not> py_eq (dget ''schema'' value) (JStr STAGE_RESULT_SCHEMA)
     then Inl (ContractError (''stage result schema must be '' @ repr_str STAGE_RESULT_SCHEMA))
     else
     rbind (lookup_named status_name STATUSES (dget ''status'' value)
              (ContractError ''stage result status must be passed or failed'')) (\<lambda>status.
     rbind (lookup_named validity_name VALIDITIES (dget ''validity'' value)
              (ContractError ''stage result validity must be valid, invalid, or unknown'')) (\<lambda>validity.
     if status = Passed \<and> validity = Invalid
     then Inl (ContractError ''a passed stage cannot report invalid validity'')
     else if status = Failed \<and> validity = Valid
     then Inl (ContractError ''a failed stage cannot report valid validity'')
     else
     rbind (optional_field ''summary'' (\<lambda>x. require (is_str x) ''stage result summary must be a string'') value) (\<lambda>_.
     rbind (optional_field ''artifacts'' (\<lambda>x. require (is_obj x) ''stage result artifacts must be an object'') value) (\<lambda>_.
     rbind (optional_field ''fingerprints'' (\<lambda>x. require (is_obj x) ''stage result fingerprints must be an object'') value) (\<lambda>_.
     rbind (optional_field ''metrics'' (\<lambda>x. require (is_obj x) ''stage result metrics must be an object'') value) (\<lambda>_.
     case (case dict_get ''workloads'' value of None \<Rightarrow> JList [] | Some x \<Rightarrow> x) of
       JList rows \<Rightarrow> rbind (validate_rows env task 0 [] rows) (\<lambda>normalized.
         Inr \<lparr>sr_status = status, sr_validity = validity,
              sr_summary = Option.bind (dict_get ''summary'' value) opt_string,
              sr_workloads = normalized,
              sr_artifacts = Option.bind (dict_get ''artifacts'' value) opt_object,
              sr_fingerprints = Option.bind (dict_get ''fingerprints'' value) opt_object,
              sr_metrics = Option.bind (dict_get ''metrics'' value) opt_object\<rparr>)
     | _ \<Rightarrow> Inl (ContractError ''stage result workloads must be a list''))))))))"

text \<open>The result file as the file system and \<open>json.loads\<close> present it.\<close>

definition load_stage_result :: "py_env \<Rightarrow> json_file \<Rightarrow> string \<Rightarrow> task_spec \<Rightarrow> stage_result result" where
  "load_stage_result env content path task =
     (case content of
        FileMissing \<Rightarrow> Inl (ContractError (''judge result missing: '' @ path))
      | FileMalformed e \<Rightarrow> Inl (ContractError (''judge result is invalid JSON: '' @ e))
      | FileParsed v \<Rightarrow> validate_stage_result env v task)"

section \<open>Aggregation\<close>

record stage_summary =
  ss_id :: string
  ss_kind :: stage_kind
  ss_status :: status
  ss_validity :: validity
  ss_summary :: string

record run_result =
  rr_run_id :: string
  rr_task_id :: string
  rr_task_sha256 :: string
  rr_candidate_sha256 :: string
  rr_outcome :: run_lifecycle
  rr_validity :: validity
  rr_frontier_eligible :: bool
  rr_terminal_reason :: "string option"
  rr_stages :: "stage_summary list"
  rr_workloads :: "jdict list"
  rr_fingerprints :: jdict
  rr_metrics :: "jdict dict"

type_synonym staged = "string \<times> stage_kind \<times> stage_result"

record aggregate_state =
  ag_merged :: "jdict dict"
  ag_fingerprints :: jdict
  ag_metrics :: "jdict dict"
  ag_validity :: validity
  ag_all_passed :: bool
  ag_summaries :: "stage_summary list"

text \<open>\<open>merged.setdefault(row["id"], {}).update(row)\<close>.\<close>

definition merge_row :: "jdict dict \<Rightarrow> jdict \<Rightarrow> jdict dict" where
  "merge_row merged row =
     dict_set (row_id row)
       (dict_update (case dict_get (row_id row) merged of None \<Rightarrow> [] | Some r \<Rightarrow> r) row) merged"

definition next_validity :: "validity \<Rightarrow> validity \<Rightarrow> validity" where
  "next_validity current reported =
     (if reported = Invalid then Invalid
      else if reported = Valid \<and> current \<noteq> Invalid then Valid
      else if reported = Unknown \<and> current \<noteq> Invalid then Unknown
      else current)"

definition aggregate_step :: "aggregate_state \<Rightarrow> staged \<Rightarrow> aggregate_state" where
  "aggregate_step a stage = (case stage of (sid, kind, result) \<Rightarrow>
     \<lparr>ag_merged = foldl merge_row (ag_merged a) (sr_workloads result),
      ag_fingerprints = dict_update (ag_fingerprints a)
        (case sr_fingerprints result of None \<Rightarrow> [] | Some f \<Rightarrow> f),
      ag_metrics = (case sr_metrics result of
          None \<Rightarrow> ag_metrics a
        | Some m \<Rightarrow> if m = [] then ag_metrics a else dict_set sid m (ag_metrics a)),
      ag_validity = next_validity (ag_validity a) (sr_validity result),
      ag_all_passed = (ag_all_passed a \<and> sr_status result = Passed),
      ag_summaries = ag_summaries a @ [\<lparr>ss_id = sid, ss_kind = kind, ss_status = sr_status result,
        ss_validity = sr_validity result,
        ss_summary = (case sr_summary result of None \<Rightarrow> [] | Some s \<Rightarrow> s)\<rparr>]\<rparr>)"

definition aggregate_stages :: "task_spec \<Rightarrow> staged list \<Rightarrow> aggregate_state" where
  "aggregate_stages task stages = foldl aggregate_step
     \<lparr>ag_merged = [], ag_fingerprints = [], ag_metrics = [], ag_validity = Unknown,
      ag_all_passed = (stages \<noteq> [] \<and> length stages = length (task_stages task)),
      ag_summaries = []\<rparr> stages"

definition row_timed :: "jdict \<Rightarrow> bool" where
  "row_timed row \<longleftrightarrow> dict_has ''candidate_ms'' row \<and> dict_has ''baseline_ms'' row"

definition row_stable :: "jdict \<Rightarrow> bool" where
  "row_stable row \<longleftrightarrow> (case dict_get ''stable'' row of None \<Rightarrow> True | Some v \<Rightarrow> py_truthy v)"

definition aggregate_run_result ::
  "task_spec \<Rightarrow> string \<Rightarrow> string \<Rightarrow> string \<Rightarrow> staged list \<Rightarrow> string option \<Rightarrow> run_result" where
  "aggregate_run_result task run_id task_sha candidate_sha stages reason =
     (let a = aggregate_stages task stages;
          merged = ag_merged a;
          timed = map fst (filter (\<lambda>p. row_timed (snd p)) merged);
          stable = list_all (\<lambda>p. row_stable (snd p)) merged;
          eligible = (ag_all_passed a \<and> ag_validity a = Valid \<and>
            set (task_workloads task) \<subseteq> set timed \<and> stable);
          outcome = (if ag_all_passed a then Completed
            else if ag_validity a = Invalid then Rejected else InfraError)
      in \<lparr>rr_run_id = run_id, rr_task_id = task_id task, rr_task_sha256 = task_sha,
          rr_candidate_sha256 = candidate_sha, rr_outcome = outcome, rr_validity = ag_validity a,
          rr_frontier_eligible = eligible, rr_terminal_reason = reason,
          rr_stages = ag_summaries a, rr_workloads = map snd (sort_key fst merged),
          rr_fingerprints = ag_fingerprints a, rr_metrics = ag_metrics a\<rparr>)"

end
