(* ===== verification/Result_Facts.thy ===== *)
theory Result_Facts
  imports Stage_Result
begin

text \<open>
  What validated stage results satisfy, and what their aggregation computes: the merged
  row of a workload takes every field from the last row that reports it, one invalid
  stage makes the run invalid, and an eligible run has finite positive times for every
  declared workload.
\<close>

section \<open>Rows of dictionaries\<close>

lemma sort_key_fst_map: "map fst (sort_key fst xs) = sort (map fst xs)"
  by (rule sym, rule properties_for_sort) simp_all

lemma set_dict_set: "set (dict_set k v d) \<subseteq> insert (k, v) (set d)"
  unfolding dict_set_def by (induction d) auto

lemma set_dict_update: "set (dict_update d e) \<subseteq> set d \<union> set e"
proof (induction e arbitrary: d)
  case Nil
  then show ?case by simp
next
  case (Cons p e)
  obtain k v where p: "p = (k, v)" by (cases p)
  have "set (dict_update d (p # e)) \<subseteq> set (dict_set k v d) \<union> set e"
    using Cons.IH [of "dict_set k v d"] by (simp add: p)
  then show ?case using set_dict_set [of k v d] p by auto
qed

lemma distinct_dict_update: "distinct (dict_keys d) \<Longrightarrow> distinct (dict_keys (dict_update d e))"
proof (induction e arbitrary: d)
  case (Cons p e)
  then show ?case by (cases p) (simp add: distinct_dict_set)
qed simp

section \<open>Validated rows\<close>

definition time_ok :: "json \<Rightarrow> bool" where
  "time_ok v \<longleftrightarrow> is_number v \<and> (case py_float_of v of Inr (Fin q) \<Rightarrow> 0 < q | _ \<Rightarrow> False)"

lemma time_okE:
  assumes "time_ok v"
  obtains q where "py_float_of v = Inr (Fin q)" and "0 < q"
  using assms by (auto simp: time_ok_def split: sum.splits py_float.splits)

lemma time_ok_double: "time_ok v \<Longrightarrow> wf_json v \<Longrightarrow> py_float_of v = Inr x \<Longrightarrow> is_double x"
  by (rule py_float_of_double)

lemma finite_positive_Inr: "finite_positive v loc = Inr x \<Longrightarrow> time_ok v"
proof -
  assume "finite_positive v loc = Inr x"
  then have "is_number v" "py_float_of v = Inr x" "flt_isfinite x" "\<not> flt_le x (Fin 0)"
    by (auto simp: finite_positive_def)
  then show ?thesis by (cases x) (auto simp: time_ok_def flt_le_def)
qed

definition TIME_FIELDS :: "string list" where
  "TIME_FIELDS = [''candidate_ms'', ''baseline_ms'', ''speedup'']"

definition field_ok :: "task_spec \<Rightarrow> string \<Rightarrow> json \<Rightarrow> bool" where
  "field_ok task k v \<longleftrightarrow> wf_json v \<and>
     (k = ''id'' \<longrightarrow> (\<exists>w \<in> set (task_workloads task). v = JStr w)) \<and>
     (k \<in> set TIME_FIELDS \<longrightarrow> time_ok v) \<and>
     (k = ''stable'' \<or> k = ''correct'' \<longrightarrow> is_bool v)"

definition wf_row :: "task_spec \<Rightarrow> jdict \<Rightarrow> bool" where
  "wf_row task row \<longleftrightarrow> distinct (dict_keys row) \<and> dict_has ''id'' row \<and>
     list_all (\<lambda>(k, v). field_ok task k v) row"

lemma wf_row_field: "wf_row task row \<Longrightarrow> dict_get k row = Some v \<Longrightarrow> field_ok task k v"
  by (auto simp: wf_row_def list_all_iff dest!: dict_get_mem)

lemma wf_row_id:
  assumes "wf_row task row"
  shows "row_id row \<in> set (task_workloads task)" and "dict_get ''id'' row = Some (JStr (row_id row))"
proof -
  from assms obtain v where v: "dict_get ''id'' row = Some v" by (auto simp: wf_row_def dict_has_get)
  with assms obtain w where "w \<in> set (task_workloads task)" "v = JStr w"
    using wf_row_field [OF assms v] by (auto simp: field_ok_def)
  with v show "row_id row \<in> set (task_workloads task)" "dict_get ''id'' row = Some (JStr (row_id row))"
    by (simp_all add: row_id_def dget_def)
qed

lemma wf_row_time:
  assumes "wf_row task row" and "dict_get k row = Some v" and "k \<in> set TIME_FIELDS"
  shows "time_ok v"
  using wf_row_field [OF assms(1,2)] assms(3) by (simp add: field_ok_def)

lemma optional_field_Inr:
  "optional_field k check d = Inr u \<longleftrightarrow> (\<forall>v. dict_get k d = Some v \<longrightarrow> check v = Inr ())"
  by (auto simp: optional_field_def split: option.splits)

lemma validate_workload_Inr:
  assumes "validate_workload env v i task = Inr row" and "wf_json v"
  shows "v = JObj row" and "wf_row task row"
proof -
  from assms(1) have v: "expect_object v (''stage result workloads['' @ nat_text i @ '']'') = Inr row"
    and id: "list_ex (\<lambda>w. py_eq (dget ''id'' row) (JStr w)) (task_workloads task)"
    and f: "\<And>v. dict_get ''candidate_ms'' row = Some v \<Longrightarrow> time_ok v"
      "\<And>v. dict_get ''baseline_ms'' row = Some v \<Longrightarrow> time_ok v"
      "\<And>v. dict_get ''speedup'' row = Some v \<Longrightarrow> time_ok v"
      "\<And>v. dict_get ''stable'' row = Some v \<Longrightarrow> is_bool v"
      "\<And>v. dict_get ''correct'' row = Some v \<Longrightarrow> is_bool v"
    by (auto simp: validate_workload_def Let_def optional_field_Inr check_time_def require_def
        dest: finite_positive_Inr)
  from v show vo: "v = JObj row" by (cases v) auto
  with assms(2) have d: "distinct (dict_keys row)" by (simp add: dict_keys_def)
  from id obtain w where w: "w \<in> set (task_workloads task)" "dget ''id'' row = JStr w"
    by (auto simp: list_ex_iff)
  then have idw: "dict_get ''id'' row = Some (JStr w)" by (simp add: dget_def split: option.splits)
  have "field_ok task k x" if "(k, x) \<in> set row" for k x
    using that dict_get_mem_iff [OF d, of k x] f idw w(1) assms(2) vo
    by (fastforce simp: field_ok_def TIME_FIELDS_def)
  with d idw show "wf_row task row" by (auto simp: wf_row_def dict_has_get list_all_iff)
qed

definition wf_stage_result :: "task_spec \<Rightarrow> stage_result \<Rightarrow> bool" where
  "wf_stage_result task r \<longleftrightarrow>
     \<not> (sr_status r = Passed \<and> sr_validity r = Invalid) \<and>
     \<not> (sr_status r = Failed \<and> sr_validity r = Valid) \<and>
     list_all (wf_row task) (sr_workloads r) \<and> distinct (map row_id (sr_workloads r))"

lemma validate_rows_Inr:
  assumes "validate_rows env task i seen vs = Inr rows" and "\<forall>v \<in> set vs. wf_json v"
  shows "list_all (wf_row task) rows \<and> distinct (map row_id rows) \<and> set (map row_id rows) \<inter> set seen = {}"
  using assms
proof (induction vs arbitrary: i seen rows)
  case Nil
  then show ?case by simp
next
  case (Cons v vs)
  from Cons.prems(1) obtain row rest where row: "validate_workload env v i task = Inr row"
    and new: "row_id row \<notin> set seen"
    and rest: "validate_rows env task (Suc i) (row_id row # seen) vs = Inr rest" and rows: "rows = row # rest"
    by auto
  have "list_all (wf_row task) rest \<and> distinct (map row_id rest) \<and>
      set (map row_id rest) \<inter> set (row_id row # seen) = {}"
    using rest Cons.prems(2) by (intro Cons.IH) auto
  moreover have "wf_row task row" using validate_workload_Inr [OF row] Cons.prems(2) by auto
  ultimately show ?case using new rows by auto
qed

lemma validate_stage_result_Inr:
  assumes "validate_stage_result env v task = Inr r" and "wf_json v"
  shows "wf_stage_result task r"
proof -
  from assms(1) obtain vd rows where vd: "expect_object v ''stage result'' = Inr vd"
    and rows: "(case dict_get ''workloads'' vd of None \<Rightarrow> JList [] | Some x \<Rightarrow> x) = JList rows"
      "validate_rows env task 0 [] rows = Inr (sr_workloads r)"
    and st: "\<not> (sr_status r = Passed \<and> sr_validity r = Invalid)"
      "\<not> (sr_status r = Failed \<and> sr_validity r = Valid)"
    by (auto simp: validate_stage_result_def Let_def)
  from vd assms(2) have wf: "wf_json (JObj vd)" by (cases v) auto
  have "wf_json (JList rows)"
    using rows(1) wf_json_get [OF wf, of "''workloads''"] by (auto split: option.splits)
  then have "\<forall>x \<in> set rows. wf_json x" by simp
  from validate_rows_Inr [OF rows(2) this] st show ?thesis by (simp add: wf_stage_result_def)
qed

section \<open>The merged rows\<close>

definition all_rows :: "staged list \<Rightarrow> jdict list" where
  "all_rows stages = concat (map (\<lambda>(sid, kind, r). sr_workloads r) stages)"

lemma foldl_merge_concat: "foldl (\<lambda>m r. foldl merge_row m (f r)) m xs = foldl merge_row m (concat (map f xs))"
  by (induction xs arbitrary: m) auto

lemma ag_merged_foldl:
  "ag_merged (foldl aggregate_step a stages) = foldl merge_row (ag_merged a) (all_rows stages)"
  by (induction stages arbitrary: a) (auto simp: all_rows_def aggregate_step_def split: prod.splits)

lemma ag_merged_eq: "ag_merged (aggregate_stages task stages) = foldl merge_row [] (all_rows stages)"
  by (simp add: aggregate_stages_def ag_merged_foldl)

text \<open>The value of a field after merging: the last row of the workload that reports it.\<close>

definition last_reported :: "string \<Rightarrow> string \<Rightarrow> jdict list \<Rightarrow> json option" where
  "last_reported w k rows =
     (let reporting = filter (\<lambda>r. row_id r = w \<and> dict_has k r) rows
      in if reporting = [] then None else dict_get k (last reporting))"

lemma last_reported_snoc:
  "last_reported w k (rows @ [r]) =
     (if row_id r = w \<and> dict_has k r then dict_get k r else last_reported w k rows)"
  by (simp add: last_reported_def Let_def)

lemma merge_row_get:
  assumes "distinct (dict_keys r)"
  shows "dict_get w (merge_row m r) =
    (if row_id r = w then Some (dict_update (case dict_get w m of None \<Rightarrow> [] | Some x \<Rightarrow> x) r) else dict_get w m)"
  by (simp add: merge_row_def)

lemma merged_field:
  assumes "\<forall>r \<in> set rows. distinct (dict_keys r)"
  shows "Option.bind (dict_get w (foldl merge_row [] rows)) (dict_get k) = last_reported w k rows"
    and "dict_get w (foldl merge_row [] rows) = None \<longleftrightarrow> w \<notin> row_id ` set rows"
  using assms
proof (induction rows rule: rev_induct)
  case Nil
  {
    case 1
    then show ?case by (simp add: last_reported_def)
  next
    case 2
    then show ?case by simp
  }
next
  case (snoc r rows)
  {
    case 1
    then have d: "distinct (dict_keys r)" and IH: "Option.bind (dict_get w (foldl merge_row [] rows)) (dict_get k) = last_reported w k rows"
      using snoc(1) by auto
    show ?case
      using IH by (cases "dict_get w (foldl merge_row [] rows)")
        (auto simp: merge_row_get [OF d] last_reported_snoc dict_get_update [OF d] dict_has_get
          split: option.splits)
  next
    case 2
    then have "distinct (dict_keys r)" by simp
    then show ?case using 2 snoc(2) by (auto simp: merge_row_get)
  }
qed

lemma merged_keys:
  "distinct (dict_keys (foldl merge_row [] rows))"
  by (induction rows rule: rev_induct) (simp_all add: dict_keys_def [of "[]"] merge_row_def distinct_dict_set)

lemma merged_entry:
  assumes "list_all (wf_row task) rows" and "(w, row) \<in> set (foldl merge_row [] rows)"
  shows "wf_row task row \<and> row_id row = w"
  using assms
proof (induction rows arbitrary: w row rule: rev_induct)
  case Nil
  then show ?case by simp
next
  case (snoc r rows)
  let ?m = "foldl merge_row [] rows"
  from snoc.prems(1) have wr: "wf_row task r" and wrs: "list_all (wf_row task) rows" by auto
  define old where "old = (case dict_get (row_id r) ?m of None \<Rightarrow> [] | Some x \<Rightarrow> x)"
  have d: "distinct (dict_keys r)" using wr by (simp add: wf_row_def)
  have old: "distinct (dict_keys old) \<and> list_all (\<lambda>(k, v). field_ok task k v) old"
  proof (cases "dict_get (row_id r) ?m")
    case None
    then show ?thesis by (simp add: old_def dict_keys_def)
  next
    case (Some x)
    then have "(row_id r, x) \<in> set ?m" by (rule dict_get_mem)
    with snoc.IH [OF wrs] have "wf_row task x" by blast
    with Some show ?thesis by (simp add: old_def wf_row_def)
  qed
  have idr: "dict_get ''id'' (dict_update old r) = Some (JStr (row_id r))"
    using wf_row_id(2) [OF wr] by (simp add: dict_get_update [OF d])
  have "wf_row task (dict_update old r)"
    using old wr set_dict_update [of old r] idr
    by (auto simp: wf_row_def list_all_iff distinct_dict_update dict_has_get)
  moreover have "row_id (dict_update old r) = row_id r" using idr by (simp add: row_id_def dget_def)
  moreover have "(w, row) \<in> insert (row_id r, dict_update old r) (set ?m)"
  proof -
    have "merge_row ?m r = dict_set (row_id r) (dict_update old r) ?m"
      by (simp only: merge_row_def old_def)
    then have "(w, row) \<in> set (dict_set (row_id r) (dict_update old r) ?m)"
      using snoc.prems(2) by simp
    then show ?thesis using set_dict_set [of "row_id r" "dict_update old r" ?m] by blast
  qed
  ultimately show ?case using snoc.IH [OF wrs] by auto
qed

section \<open>Validity, status and eligibility\<close>

definition validities :: "staged list \<Rightarrow> validity list" where
  "validities stages = map (\<lambda>(sid, kind, r). sr_validity r) stages"

definition all_stages_passed :: "staged list \<Rightarrow> bool" where
  "all_stages_passed stages \<longleftrightarrow> list_all (\<lambda>(sid, kind, r). sr_status r = Passed) stages"

lemma next_validity_eq:
  "next_validity c r = (if c = Invalid \<or> r = Invalid then Invalid else r)"
  by (cases r) (auto simp: next_validity_def)

lemma foldl_validity:
  "ag_validity (foldl aggregate_step a stages) =
     (if ag_validity a = Invalid \<or> Invalid \<in> set (validities stages) then Invalid
      else if stages = [] then ag_validity a else last (validities stages))"
proof (induction stages arbitrary: a)
  case Nil
  then show ?case by (auto simp: validities_def)
next
  case (Cons s stages)
  obtain sid kind r where s: "s = (sid, kind, r)" by (cases s)
  have step: "ag_validity (aggregate_step a s) =
      (if ag_validity a = Invalid \<or> sr_validity r = Invalid then Invalid else sr_validity r)"
    by (simp add: aggregate_step_def s next_validity_eq)
  have "validities (s # stages) = sr_validity r # validities stages"
    by (simp add: validities_def s)
  moreover have "validities stages = [] \<longleftrightarrow> stages = []"
    by (simp add: validities_def)
  ultimately show ?case
    using Cons.IH [of "aggregate_step a s"] by (auto simp: step)
qed

lemma aggregate_validity:
  "ag_validity (aggregate_stages task stages) =
     (if Invalid \<in> set (validities stages) then Invalid
      else if stages = [] then Unknown else last (validities stages))"
  by (simp add: aggregate_stages_def foldl_validity)

lemma foldl_all_passed:
  "ag_all_passed (foldl aggregate_step a stages) \<longleftrightarrow> ag_all_passed a \<and> all_stages_passed stages"
  by (induction stages arbitrary: a) (auto simp: aggregate_step_def all_stages_passed_def split: prod.splits)

lemma aggregate_all_passed:
  "ag_all_passed (aggregate_stages task stages) \<longleftrightarrow>
     stages \<noteq> [] \<and> length stages = length (task_stages task) \<and> all_stages_passed stages"
  by (simp add: aggregate_stages_def foldl_all_passed)

definition wf_staged :: "task_spec \<Rightarrow> staged list \<Rightarrow> bool" where
  "wf_staged task stages \<longleftrightarrow> list_all (\<lambda>(sid, kind, r). wf_stage_result task r) stages"

lemma wf_staged_rows: "wf_staged task stages \<Longrightarrow> list_all (wf_row task) (all_rows stages)"
  by (fastforce simp: wf_staged_def all_rows_def wf_stage_result_def list_all_iff)

text \<open>What the frontier may rely on for a result it finds eligible.\<close>

definition complete_timing :: "task_spec \<Rightarrow> jdict list \<Rightarrow> bool" where
  "complete_timing task rows \<longleftrightarrow>
     distinct (map row_id rows) \<and> set (map row_id rows) = set (task_workloads task) \<and>
     list_all (\<lambda>row. wf_row task row \<and> row_timed row \<and> row_stable row) rows"

lemma aggregate_workload_rows:
  assumes "wf_staged task stages"
    and "rows = rr_workloads (aggregate_run_result task rid tsha csha stages reason)"
  shows "list_all (wf_row task) rows" and "distinct (map row_id rows)"
    and "set rows = snd ` set (ag_merged (aggregate_stages task stages))"
proof -
  let ?m = "ag_merged (aggregate_stages task stages)"
  have rows: "rows = map snd (sort_key fst ?m)"
    using assms(2) by (simp add: aggregate_run_result_def Let_def)
  have entry: "wf_row task r \<and> row_id r = w" if "(w, r) \<in> set ?m" for w r
    using merged_entry [OF wf_staged_rows [OF assms(1)]] that by (simp add: ag_merged_eq)
  show "set rows = snd ` set ?m" by (simp add: rows)
  then show "list_all (wf_row task) rows" using entry by (fastforce simp: list_all_iff)
  have "map row_id rows = map fst (sort_key fst ?m)"
    unfolding rows map_map by (rule map_cong [OF refl]) (use entry in auto)
  moreover have "mset (map fst (sort_key fst ?m)) = mset (dict_keys ?m)"
    by (simp add: dict_keys_def)
  moreover have "distinct (dict_keys ?m)" by (simp add: ag_merged_eq merged_keys)
  ultimately show "distinct (map row_id rows)" by (metis mset_eq_imp_distinct_iff)
qed

lemma aggregate_eligible:
  assumes "wf_staged task stages"
    and "rr_frontier_eligible (aggregate_run_result task rid tsha csha stages reason)"
  shows "complete_timing task (rr_workloads (aggregate_run_result task rid tsha csha stages reason))"
proof -
  let ?m = "ag_merged (aggregate_stages task stages)"
  let ?rows = "rr_workloads (aggregate_run_result task rid tsha csha stages reason)"
  note rows = aggregate_workload_rows [OF assms(1) refl, of rid tsha csha reason]
  have entry: "wf_row task r \<and> row_id r = w" if "(w, r) \<in> set ?m" for w r
    using merged_entry [OF wf_staged_rows [OF assms(1)]] that by (simp add: ag_merged_eq)
  from assms(2) have timed: "set (task_workloads task) \<subseteq> fst ` {p \<in> set ?m. row_timed (snd p)}"
    and stable: "\<forall>p \<in> set ?m. row_stable (snd p)"
    by (auto simp: aggregate_run_result_def Let_def list_all_iff)
  have d: "distinct (map fst ?m)" using merged_keys by (simp add: ag_merged_eq flip: dict_keys_def)
  have all: "row_timed r \<and> row_stable r \<and> w \<in> set (task_workloads task)" if wr: "(w, r) \<in> set ?m" for w r
  proof -
    have w: "w \<in> set (task_workloads task)" using wf_row_id(1) entry [OF wr] by blast
    with timed obtain r' where r': "(w, r') \<in> set ?m" "row_timed r'" by fastforce
    with wr d have "r = r'" by (metis eq_key_imp_eq_value)
    with r' w stable wr show ?thesis by auto
  qed
  have ids: "set (map row_id ?rows) = set (task_workloads task)"
  proof
    show "set (map row_id ?rows) \<subseteq> set (task_workloads task)"
      using rows(1) wf_row_id(1) by (fastforce simp: list_all_iff)
    show "set (task_workloads task) \<subseteq> set (map row_id ?rows)"
    proof
      fix w assume "w \<in> set (task_workloads task)"
      with timed obtain r where "(w, r) \<in> set ?m" by fastforce
      with entry rows(3) show "w \<in> set (map row_id ?rows)" by force
    qed
  qed
  show ?thesis
    using rows(1,2) ids all unfolding complete_timing_def list_all_iff rows(3) by fastforce
qed

lemma sorted_merged_ids:
  assumes "wf_staged task stages"
  shows "map row_id (rr_workloads (aggregate_run_result task rid tsha csha stages reason)) =
    sort (map fst (ag_merged (aggregate_stages task stages)))"
proof -
  let ?m = "ag_merged (aggregate_stages task stages)"
  have entry: "row_id r = w" if "(w, r) \<in> set ?m" for w r
    using merged_entry [OF wf_staged_rows [OF assms(1)]] that by (simp add: ag_merged_eq)
  have "map row_id (map snd (sort_key fst ?m)) = map fst (sort_key fst ?m)"
    unfolding map_map by (rule map_cong [OF refl]) (use entry in auto)
  then have "map row_id (map snd (sort_key fst ?m)) = sort (map fst ?m)"
    by (simp add: sort_key_fst_map)
  then show ?thesis by (simp add: aggregate_run_result_def Let_def)
qed

text \<open>Every field of a row of the result is the one reported last.\<close>

lemma result_row_field:
  assumes "wf_staged task stages"
    and "row \<in> set (rr_workloads (aggregate_run_result task rid tsha csha stages reason))"
  shows "dict_get k row = last_reported (row_id row) k (all_rows stages)"
proof -
  let ?m = "ag_merged (aggregate_stages task stages)"
  have d: "\<forall>r \<in> set (all_rows stages). distinct (dict_keys r)"
    using wf_staged_rows [OF assms(1)] by (auto simp: list_all_iff wf_row_def)
  from assms(2) aggregate_workload_rows(3) [OF assms(1) refl] obtain w where w: "(w, row) \<in> set ?m"
    by force
  then have "row_id row = w" using merged_entry [OF wf_staged_rows [OF assms(1)]] by (simp add: ag_merged_eq)
  moreover have "dict_get w ?m = Some row"
    using w dict_get_mem_iff [of ?m w row] by (simp add: ag_merged_eq merged_keys)
  ultimately show ?thesis
    using merged_field(1) [OF d, of "row_id row" k] by (simp add: ag_merged_eq)
qed

lemma result_row_ids:
  assumes "wf_staged task stages"
  shows "set (map row_id (rr_workloads (aggregate_run_result task rid tsha csha stages reason))) =
    row_id ` set (all_rows stages)"
proof -
  let ?m = "ag_merged (aggregate_stages task stages)"
  have d: "\<forall>r \<in> set (all_rows stages). distinct (dict_keys r)"
    using wf_staged_rows [OF assms(1)] by (auto simp: list_all_iff wf_row_def)
  have "w \<in> set (map fst ?m) \<longleftrightarrow> w \<in> row_id ` set (all_rows stages)" for w
    using merged_field(2) [OF d, of w] by (auto simp: ag_merged_eq dict_get_def map_of_eq_None_iff)
  then show ?thesis unfolding sorted_merged_ids [OF assms] set_sort by blast
qed

lemma result_outcome:
  "rr_outcome (aggregate_run_result task rid tsha csha stages reason) =
     (if stages \<noteq> [] \<and> length stages = length (task_stages task) \<and> all_stages_passed stages then Completed
      else if Invalid \<in> set (validities stages) then Rejected else InfraError)"
proof -
  have "last (validities stages) \<in> set (validities stages)" if "stages \<noteq> []"
    using that by (intro last_in_set) (simp add: validities_def)
  then show ?thesis
    by (auto simp: aggregate_run_result_def Let_def aggregate_validity aggregate_all_passed)
qed

section \<open>Concrete results\<close>

definition sample_row :: "string \<Rightarrow> int \<Rightarrow> int \<Rightarrow> jdict" where
  "sample_row w candidate baseline =
     [(''id'', JStr w), (''candidate_ms'', JInt candidate), (''baseline_ms'', JInt baseline)]"

definition sample_report :: "jdict list \<Rightarrow> json" where
  "sample_report rows = JObj [(''schema'', JStr STAGE_RESULT_SCHEMA), (''status'', JStr ''passed''),
     (''validity'', JStr ''valid''), (''workloads'', JList (map JObj rows))]"

definition sample_result :: "jdict list \<Rightarrow> stage_result" where
  "sample_result rows = \<lparr>sr_status = Passed, sr_validity = Valid, sr_summary = None,
     sr_workloads = rows, sr_artifacts = None, sr_fingerprints = None, sr_metrics = None\<rparr>"

definition sample_stages :: "staged list" where
  "sample_stages = [(''check'', Correctness, sample_result []),
     (''bench'', Benchmark, sample_result [sample_row ''small'' 4 8, sample_row ''large'' 16 32])]"

lemma sample_row_ok:
  assumes "w \<in> set (task_workloads task)" and "1 \<le> c" "c < 2 ^ 53" "1 \<le> b" "b < 2 ^ 53"
  shows "wf_row task (sample_row w c b)" and "row_id (sample_row w c b) = w"
proof -
  have "time_ok (JInt i)" if "1 \<le> i" "i < 2 ^ 53" for i
    using that rnd_int [of i] by (auto simp: time_ok_def float_of_int_def Let_def max_double_def)
  with assms show "wf_row task (sample_row w c b)"
    by (auto simp: wf_row_def sample_row_def dict_keys_def dict_has_def field_ok_def TIME_FIELDS_def)
  show "row_id (sample_row w c b) = w" by (simp add: row_id_def sample_row_def)
qed

lemma sample_stages_wf: "wf_staged sample_task sample_stages"
proof -
  have "''small'' \<in> set (task_workloads sample_task)" "''large'' \<in> set (task_workloads sample_task)"
    by (simp_all add: sample_task_def)
  then show ?thesis
    by (simp add: wf_staged_def sample_stages_def wf_stage_result_def sample_result_def sample_row_ok)
qed

definition sample_run :: run_result where
  "sample_run = aggregate_run_result sample_task ''run-1'' ''tsha'' ''csha'' sample_stages None"

lemma sample_run_eligible: "rr_frontier_eligible sample_run" and sample_run_validity: "rr_validity sample_run = Valid"
  by code_simp+

section \<open>Properties\<close>

text \<open>An accepted stage result is consistent (a passed stage is not invalid, a failed one
  not valid), reports only declared workloads, each at most once, with finite positive times
  and boolean flags.\<close>

lemma accepted_stage_result:
  assumes "validate_stage_result env v task = Inr r" and "wf_json v"
  shows "wf_stage_result task r"
  using assms by (rule validate_stage_result_Inr)

lemma accepted_stage_result_witness:
  "wf_stage_result sample_task (sample_result [])"
proof (rule accepted_stage_result)
  show "validate_stage_result sample_env (sample_report []) sample_task = Inr (sample_result [])"
    by (simp add: validate_stage_result_def sample_report_def sample_result_def STAGE_RESULT_FIELDS_def
        dict_keys_def dict_has_def lookup_named_def member_named_def STATUSES_def VALIDITIES_def
        optional_field_def Let_def)
qed (simp add: sample_report_def)

text \<open>The rows of a run result are the workloads that any stage reported, once each, in
  the order of their ids, and every field of a row is the one the last stage to report that
  field for that workload gave.\<close>

lemma result_rows_merge_last:
  assumes "wf_staged task stages"
    and "rows = rr_workloads (aggregate_run_result task rid tsha csha stages reason)"
  shows "sorted (map row_id rows) \<and> distinct (map row_id rows) \<and>
    set (map row_id rows) = row_id ` set (all_rows stages) \<and>
    (\<forall>row \<in> set rows. \<forall>k. dict_get k row = last_reported (row_id row) k (all_rows stages))"
  using aggregate_workload_rows(2) [OF assms] result_row_ids [OF assms(1)] result_row_field [OF assms(1)]
    sorted_merged_ids [OF assms(1)] assms(2)
  by (metis sorted_sort)

theorem result_rows_merge_last_witness:
  "\<exists>rows. rows = rr_workloads sample_run \<and> set (map row_id rows) = row_id ` set (all_rows sample_stages)"
  using result_rows_merge_last [OF sample_stages_wf refl, of "''run-1''" "''tsha''" "''csha''" None]
  by (simp add: sample_run_def)

text \<open>One invalid stage makes the run invalid, otherwise the last stage decides the
  validity; a run completes exactly when every stage of the task reported and passed, and
  is rejected exactly when it does not complete and is invalid.\<close>

lemma result_validity_outcome:
  "rr_validity (aggregate_run_result task rid tsha csha stages reason) =
     (if Invalid \<in> set (validities stages) then Invalid
      else if stages = [] then Unknown else last (validities stages)) \<and>
   rr_outcome (aggregate_run_result task rid tsha csha stages reason) =
     (if stages \<noteq> [] \<and> length stages = length (task_stages task) \<and> all_stages_passed stages then Completed
      else if Invalid \<in> set (validities stages) then Rejected else InfraError)"
proof (rule conjI)
  show "rr_validity (aggregate_run_result task rid tsha csha stages reason) =
     (if Invalid \<in> set (validities stages) then Invalid
      else if stages = [] then Unknown else last (validities stages))"
    by (simp add: aggregate_run_result_def Let_def aggregate_validity)
qed (rule result_outcome)

text \<open>C4: A frontier-eligible run passed every stage, is valid, and has exactly one row, with
  finite positive candidate and baseline times and no instability, for every declared
  workload.\<close>

theorem eligible_run_complete:
  assumes "wf_staged task stages"
    and "res = aggregate_run_result task rid tsha csha stages reason"
    and "rr_frontier_eligible res"
  shows "complete_timing task (rr_workloads res) \<and> rr_validity res = Valid \<and> rr_outcome res = Completed \<and>
    length stages = length (task_stages task) \<and> all_stages_passed stages"
proof -
  have "ag_all_passed (aggregate_stages task stages)" "rr_validity res = Valid"
    using assms(2,3) by (auto simp: aggregate_run_result_def Let_def)
  then show ?thesis
    using aggregate_eligible [OF assms(1)] assms(2,3)
    by (auto simp: aggregate_all_passed aggregate_run_result_def Let_def)
qed

theorem eligible_run_complete_witness:
  "complete_timing sample_task (rr_workloads sample_run)"
  using eligible_run_complete [OF sample_stages_wf sample_run_def sample_run_eligible] by blast

end
