(* ===== verification/Frontier.thy ===== *)
theory Frontier
  imports Result_Facts
begin

text \<open>
  \<open>src/kernel_infra/frontier.py\<close>: the reduction of the results of one task, in order of
  acceptance, to the best accepted time per workload and one decision per run.
\<close>

section \<open>State and decisions\<close>

datatype decision =
    Ineligible | MeasurementUnstable | CompilerEquivalent | RegressesGuardrail
  | FirstValid | PerCellPareto | ImprovesPrimary | Dominated

fun decision_name :: "decision \<Rightarrow> string" where
  "decision_name Ineligible = ''ineligible''"
| "decision_name MeasurementUnstable = ''measurement-unstable''"
| "decision_name CompilerEquivalent = ''compiler-equivalent''"
| "decision_name RegressesGuardrail = ''regresses-guardrail''"
| "decision_name FirstValid = ''first-valid''"
| "decision_name PerCellPareto = ''per-cell-pareto''"
| "decision_name ImprovesPrimary = ''improves-primary''"
| "decision_name Dominated = ''dominated''"

definition accepts :: "decision \<Rightarrow> bool" where
  "accepts d \<longleftrightarrow> d \<in> {FirstValid, ImprovesPrimary, PerCellPareto}"

record cell =
  cell_run_id :: string
  cell_candidate_ms :: py_float
  cell_baseline_ms :: py_float
  cell_speedup :: py_float

record run_decision =
  rd_run_id :: string
  rd_decision :: decision
  rd_reason :: "string option"
  rd_validity :: validity
  rd_outcome :: run_lifecycle

record frontier_state =
  fr_cells :: "cell dict"
  fr_decisions :: "run_decision list"
  fr_seen_compiler :: "string dict"

type_synonym candidate = "string \<times> run_result"

section \<open>Reading rows\<close>

text \<open>\<open>row["id"]\<close> as a dictionary key.\<close>

definition row_key :: "jdict \<Rightarrow> string result" where
  "row_key row = rbind (dindex ''id'' row) (\<lambda>v.
     case v of JStr s \<Rightarrow> Inr s | _ \<Rightarrow> Inl (TypeError ''row id is not a string''))"

definition add_row :: "jdict dict \<Rightarrow> jdict \<Rightarrow> jdict dict result" where
  "add_row rows row = rbind (row_key row) (\<lambda>w. Inr (dict_set w row rows))"

definition rows_by_id :: "jdict list \<Rightarrow> jdict dict result" where
  "rows_by_id workloads = rfold add_row [] workloads"

definition row_ms :: "string \<Rightarrow> jdict \<Rightarrow> py_float result" where
  "row_ms k row = rbind (dindex k row) py_float_of"

definition find_row :: "string \<Rightarrow> jdict dict \<Rightarrow> jdict result" where
  "find_row w rows = (case dict_get w rows of None \<Rightarrow> Inl (KeyError w) | Some row \<Rightarrow> Inr row)"

section \<open>Compiler fingerprints and guardrails\<close>

definition compiler_fingerprint :: "jdict \<Rightarrow> (string \<times> string) option" where
  "compiler_fingerprint fingerprints =
     (case filter (\<lambda>k. case dict_get k fingerprints of Some (JStr s) \<Rightarrow> s \<noteq> [] | _ \<Rightarrow> False)
             [''cubin_sha256'', ''sass_sha256'', ''binary_sha256''] of
        [] \<Rightarrow> None
      | k # _ \<Rightarrow> (case dict_get k fingerprints of Some (JStr s) \<Rightarrow> Some (k, s) | _ \<Rightarrow> None))"

fun guardrail_failure :: "py_env \<Rightarrow> py_float dict \<Rightarrow> jdict dict \<Rightarrow> string option result" where
  "guardrail_failure env [] rows = Inr None"
| "guardrail_failure env ((w, threshold) # rest) rows =
     rbind (find_row w rows) (\<lambda>row.
     rbind (row_ms ''baseline_ms'' row) (\<lambda>baseline.
     rbind (row_ms ''candidate_ms'' row) (\<lambda>candidate.
     rbind (flt_div baseline candidate) (\<lambda>speedup.
     if flt_less speedup threshold
     then Inr (Some (w @ '' speedup '' @ float_fixed6 env speedup @ '' is below guardrail ''
            @ float_fixed6 env threshold))
     else guardrail_failure env rest rows))))"

section \<open>Comparison with the current cells\<close>

text \<open>
  The loop over the primary workloads: the lists of improved and of regressed workloads,
  beyond the noise floor on either side.
\<close>

definition compare_primary ::
  "py_float \<Rightarrow> jdict dict \<Rightarrow> cell dict \<Rightarrow> string list \<times> string list \<Rightarrow> string \<Rightarrow> (string list \<times> string list) result"
  where
  "compare_primary noise rows cells acc w = (case acc of (improved, regressed) \<Rightarrow>
     (case dict_get w cells of
        None \<Rightarrow> Inr (improved @ [w], regressed)
      | Some current \<Rightarrow>
          rbind (find_row w rows) (\<lambda>row.
          rbind (row_ms ''candidate_ms'' row) (\<lambda>candidate.
          let best = cell_candidate_ms current in
          if flt_less candidate (flt_mul best (flt_sub (Fin 1) noise)) then Inr (improved @ [w], regressed)
          else if flt_less (flt_mul best (flt_add (Fin 1) noise)) candidate then Inr (improved, regressed @ [w])
          else Inr (improved, regressed)))))"

definition decide ::
  "py_env \<Rightarrow> task_spec \<Rightarrow> frontier_state \<Rightarrow> jdict dict \<Rightarrow> (string \<times> string) option \<Rightarrow>
     string option \<Rightarrow> (decision \<times> string option) result" where
  "decide env task st rows compiler default_reason =
     (case Option.bind compiler (\<lambda>(k, v). map_option (\<lambda>r. (k, r))
              (dict_get (k @ '':'' @ v) (fr_seen_compiler st))) of
        Some (k, run) \<Rightarrow> Inr (CompilerEquivalent, Some (''same '' @ k @ '' as '' @ run))
      | None \<Rightarrow>
          rbind (guardrail_failure env (cmp_guardrails (task_comparison task)) rows) (\<lambda>failure.
          case failure of
            Some reason \<Rightarrow> Inr (RegressesGuardrail, Some reason)
          | None \<Rightarrow>
              if fr_cells st = [] then Inr (FirstValid, default_reason)
              else rbind (rfold (compare_primary (cmp_relative_noise_floor (task_comparison task)) rows (fr_cells st))
                     ([], []) (cmp_primary_workloads (task_comparison task))) (\<lambda>(improved, regressed).
                if improved \<noteq> [] \<and> regressed \<noteq> []
                then Inr (PerCellPareto, Some (''improves '' @ join '','' improved
                       @ ''; regresses '' @ join '','' regressed))
                else if improved \<noteq> []
                then Inr (ImprovesPrimary, Some (''improves '' @ join '','' improved))
                else Inr (Dominated, Some ''no primary workload improved beyond the noise floor''))))"

definition update_cell :: "string \<Rightarrow> cell dict \<Rightarrow> string \<times> jdict \<Rightarrow> cell dict result" where
  "update_cell run_id cells entry = (case entry of (w, row) \<Rightarrow>
     rbind (row_ms ''candidate_ms'' row) (\<lambda>candidate.
     if (case dict_get w cells of None \<Rightarrow> True | Some current \<Rightarrow> flt_less candidate (cell_candidate_ms current))
     then rbind (row_ms ''baseline_ms'' row) (\<lambda>baseline.
          rbind (flt_div baseline candidate) (\<lambda>speedup.
          Inr (dict_set w \<lparr>cell_run_id = run_id, cell_candidate_ms = candidate,
                 cell_baseline_ms = baseline, cell_speedup = speedup\<rparr> cells)))
     else Inr cells))"

section \<open>The reduction\<close>

definition row_unstable :: "jdict \<Rightarrow> bool" where
  "row_unstable row \<longleftrightarrow> dict_get ''stable'' row = Some (JBool False)"

definition record_decision :: "candidate \<Rightarrow> decision \<Rightarrow> string option \<Rightarrow> frontier_state \<Rightarrow> frontier_state" where
  "record_decision c d reason st = (case c of (run_id, result) \<Rightarrow>
     st\<lparr>fr_decisions := fr_decisions st @ [\<lparr>rd_run_id = run_id, rd_decision = d, rd_reason = reason,
          rd_validity = rr_validity result, rd_outcome = rr_outcome result\<rparr>]\<rparr>)"

definition frontier_step :: "py_env \<Rightarrow> task_spec \<Rightarrow> frontier_state \<Rightarrow> candidate \<Rightarrow> frontier_state result" where
  "frontier_step env task st c = (case c of (run_id, result) \<Rightarrow>
     rbind (rows_by_id (rr_workloads result)) (\<lambda>rows.
     if rr_validity result = Valid \<and> list_ex (\<lambda>(w, row). row_unstable row) rows
     then Inr (record_decision c MeasurementUnstable
            (Some ''judge marked at least one workload measurement unstable'') st)
     else if rr_frontier_eligible result
     then let compiler = compiler_fingerprint (rr_fingerprints result) in
       rbind (decide env task st rows compiler (rr_terminal_reason result)) (\<lambda>(d, reason).
       rbind (if accepts d then rfold (update_cell run_id) (fr_cells st) rows else Inr (fr_cells st)) (\<lambda>cells.
       Inr (record_decision c d reason
         (st\<lparr>fr_cells := cells,
            fr_seen_compiler :=
              (case compiler of
                 None \<Rightarrow> fr_seen_compiler st
               | Some (k, v) \<Rightarrow>
                   (case dict_get (k @ '':'' @ v) (fr_seen_compiler st) of
                      None \<Rightarrow> dict_set (k @ '':'' @ v) run_id (fr_seen_compiler st)
                    | Some first \<Rightarrow> fr_seen_compiler st))\<rparr>))))
     else Inr (record_decision c Ineligible (rr_terminal_reason result) st)))"

definition empty_frontier :: frontier_state where
  "empty_frontier = \<lparr>fr_cells = [], fr_decisions = [], fr_seen_compiler = []\<rparr>"

definition reduce_candidates :: "py_env \<Rightarrow> task_spec \<Rightarrow> candidate list \<Rightarrow> frontier_state result" where
  "reduce_candidates env task candidates = rfold (frontier_step env task) empty_frontier candidates"

text \<open>
  The runs the reduction looks at: those of the task's digest whose \<open>result.json\<close> can be
  read.  A stored run is its id, its task digest and the result file, if it parses.
\<close>

type_synonym stored_result = "string \<times> string \<times> run_result option"

fun select_candidates :: "string \<Rightarrow> stored_result list \<Rightarrow> candidate list" where
  "select_candidates digest [] = []"
| "select_candidates digest ((run_id, sha, file) # rest) =
     (if sha \<noteq> digest then select_candidates digest rest
      else case file of
        None \<Rightarrow> select_candidates digest rest
      | Some result \<Rightarrow> (run_id, result) # select_candidates digest rest)"

text \<open>The projection the reduction writes, and where under \<open>frontiers/\<close> it goes.\<close>

record frontier_projection =
  fp_task_id :: string
  fp_task_sha256 :: string
  fp_generated_at :: string
  fp_relative_noise_floor :: py_float
  fp_cells :: "cell dict"
  fp_decisions :: "run_decision list"

definition frontier_path :: "task_spec \<Rightarrow> string list" where
  "frontier_path task = [task_id task, task_digest task @ ''.json'']"

definition rebuild_frontier ::
  "py_env \<Rightarrow> string \<Rightarrow> task_spec \<Rightarrow> stored_result list \<Rightarrow> (string list \<times> frontier_projection) result" where
  "rebuild_frontier env now task stored =
     rbind (reduce_candidates env task (select_candidates (task_digest task) stored)) (\<lambda>st.
     Inr (frontier_path task,
          \<lparr>fp_task_id = task_id task, fp_task_sha256 = task_digest task, fp_generated_at = now,
           fp_relative_noise_floor = cmp_relative_noise_floor (task_comparison task),
           fp_cells = fr_cells st, fp_decisions = fr_decisions st\<rparr>))"

end
