(* ===== verification/Frontier_Facts.thy ===== *)
theory Frontier_Facts
  imports Frontier
begin

text \<open>
  The reduction never raises on results the aggregation wrote; its cells are the minima of
  the accepted times, each with the run that reached it; and its decisions say what they
  claim about the cells they were taken against.
\<close>

section \<open>Times\<close>

definition time_value :: "py_float \<Rightarrow> bool" where
  "time_value x \<longleftrightarrow> is_double x \<and> pos_float x"

lemma time_value_Fin: "time_value x \<longleftrightarrow> (\<exists>q. x = Fin q \<and> 0 < q \<and> rnd q = q \<and> q < max_double)"
  by (auto simp: time_value_def is_double_def pos_float_def split: py_float.splits)

lemma time_not_less: "time_value x \<Longrightarrow> time_value y \<Longrightarrow> \<not> flt_less x y \<longleftrightarrow> flt_le y x"
  by (auto simp: time_value_Fin flt_le_def)

lemma flt_le_trans_time: "time_value y \<Longrightarrow> flt_le x y \<Longrightarrow> flt_le y z \<Longrightarrow> flt_le x z"
  by (cases x; cases z) (auto simp: time_value_Fin flt_le_def)

lemma flt_le_refl_time: "time_value x \<Longrightarrow> flt_le x x"
  by (auto simp: time_value_Fin flt_le_def)

lemma row_ms_time:
  assumes "wf_row task row" and "dict_has k row" and "k \<in> set TIME_FIELDS"
  shows "\<exists>x. row_ms k row = Inr x \<and> time_value x"
proof -
  from assms(2) obtain v where v: "dict_get k row = Some v" by (auto simp: dict_has_get)
  then have "time_ok v" "wf_json v"
    using wf_row_field [OF assms(1) v] assms(3) by (auto simp: field_ok_def)
  then obtain q where "py_float_of v = Inr (Fin q)" "0 < q" by (auto elim: time_okE)
  moreover have "is_double (Fin q)"
    using calculation(1) \<open>wf_json v\<close> by (rule py_float_of_double)
  ultimately show ?thesis
    using v by (auto simp: row_ms_def dindex_def time_value_def pos_float_def)
qed

lemma flt_div_time: "time_value x \<Longrightarrow> time_value y \<Longrightarrow> \<exists>z. flt_div x y = Inr z"
  by (auto simp: time_value_Fin)

section \<open>Rows\<close>

definition wf_candidate :: "task_spec \<Rightarrow> candidate \<Rightarrow> bool" where
  "wf_candidate task c \<longleftrightarrow>
     list_all (wf_row task) (rr_workloads (snd c)) \<and> distinct (map row_id (rr_workloads (snd c))) \<and>
     (rr_frontier_eligible (snd c) \<longrightarrow> complete_timing task (rr_workloads (snd c)))"

definition keyed :: "jdict list \<Rightarrow> jdict dict" where
  "keyed rows = map (\<lambda>r. (row_id r, r)) rows"

lemma rows_by_id_keyed:
  assumes "list_all (wf_row task) rows" and "distinct (map row_id rows)"
  shows "rows_by_id rows = Inr (keyed rows)"
proof -
  have "rfold add_row acc rows = Inr (acc @ keyed rows)"
    if "distinct (dict_keys acc @ map row_id rows)" for acc
    using that assms(1)
  proof (induction rows arbitrary: acc)
    case Nil
    then show ?case by (simp add: keyed_def)
  next
    case (Cons r rows)
    have r: "wf_row task r" using Cons.prems by simp
    have "add_row acc r = Inr (acc @ [(row_id r, r)])"
      using Cons.prems(1) wf_row_id(2) [OF r]
      by (simp add: add_row_def row_key_def dindex_def dict_set_new)
    moreover have "rfold add_row (acc @ [(row_id r, r)]) rows = Inr ((acc @ [(row_id r, r)]) @ keyed rows)"
      using Cons.prems by (intro Cons.IH) (auto simp: dict_keys_def)
    ultimately show ?case by (simp add: keyed_def)
  qed
  from this [of "[]"] assms(2) show ?thesis by (simp add: rows_by_id_def dict_keys_def)
qed

lemma find_row_keyed:
  assumes "w \<in> row_id ` set rows"
  shows "\<exists>row \<in> set rows. row_id row = w \<and> find_row w (keyed rows) = Inr row"
proof -
  from assms have "dict_get w (keyed rows) \<noteq> None"
    by (auto simp: keyed_def dict_get_def map_of_eq_None_iff image_iff)
  then obtain row where row: "dict_get w (keyed rows) = Some row" by auto
  then have "(w, row) \<in> set (keyed rows)" by (rule dict_get_mem)
  with row show ?thesis by (auto simp: keyed_def find_row_def)
qed

lemma complete_timing_row:
  assumes "complete_timing task rows" and "row \<in> set rows"
  shows "wf_row task row" and "\<exists>x. row_ms ''candidate_ms'' row = Inr x \<and> time_value x"
    and "\<exists>x. row_ms ''baseline_ms'' row = Inr x \<and> time_value x"
proof -
  show w: "wf_row task row" using assms by (auto simp: complete_timing_def list_all_iff)
  have t: "row_timed row" using assms by (auto simp: complete_timing_def list_all_iff)
  show "\<exists>x. row_ms ''candidate_ms'' row = Inr x \<and> time_value x"
    "\<exists>x. row_ms ''baseline_ms'' row = Inr x \<and> time_value x"
    using t by (auto intro!: row_ms_time [OF w] simp: row_timed_def TIME_FIELDS_def)
qed

lemma complete_timing_find:
  assumes "complete_timing task rows" and "w \<in> set (task_workloads task)"
  shows "\<exists>row \<in> set rows. row_id row = w \<and> find_row w (keyed rows) = Inr row"
  using assms by (intro find_row_keyed) (auto simp: complete_timing_def)

section \<open>Updating the cells\<close>

definition cell_from :: "string \<Rightarrow> jdict \<Rightarrow> cell \<Rightarrow> bool" where
  "cell_from run_id row c \<longleftrightarrow> cell_run_id c = run_id \<and>
     row_ms ''candidate_ms'' row = Inr (cell_candidate_ms c) \<and>
     row_ms ''baseline_ms'' row = Inr (cell_baseline_ms c) \<and>
     flt_div (cell_baseline_ms c) (cell_candidate_ms c) = Inr (cell_speedup c)"

definition cells_ok :: "cell dict \<Rightarrow> bool" where
  "cells_ok cells \<longleftrightarrow> (\<forall>w c. dict_get w cells = Some c \<longrightarrow> time_value (cell_candidate_ms c))"

text \<open>What one entry does to its cell.\<close>

definition cell_step :: "string \<Rightarrow> jdict \<Rightarrow> cell option \<Rightarrow> cell option \<Rightarrow> bool" where
  "cell_step run_id row before after \<longleftrightarrow> (\<exists>x. row_ms ''candidate_ms'' row = Inr x \<and>
     ((\<exists>c. before = Some c \<and> \<not> flt_less x (cell_candidate_ms c) \<and> after = Some c) \<or>
      ((\<forall>c. before = Some c \<longrightarrow> flt_less x (cell_candidate_ms c)) \<and>
       (\<exists>c. after = Some c \<and> cell_from run_id row c))))"

lemma update_cell_Inr:
  assumes "update_cell run_id cells (w, row) = Inr cells'"
  shows "cell_step run_id row (dict_get w cells) (dict_get w cells')"
    and "w' \<noteq> w \<Longrightarrow> dict_get w' cells' = dict_get w' cells"
proof -
  from assms obtain x where x: "row_ms ''candidate_ms'' row = Inr x"
    and step: "(if (case dict_get w cells of None \<Rightarrow> True | Some c \<Rightarrow> flt_less x (cell_candidate_ms c))
     then rbind (row_ms ''baseline_ms'' row) (\<lambda>baseline. rbind (flt_div baseline x) (\<lambda>speedup.
          Inr (dict_set w \<lparr>cell_run_id = run_id, cell_candidate_ms = x,
                 cell_baseline_ms = baseline, cell_speedup = speedup\<rparr> cells)))
     else Inr cells) = Inr cells'"
    by (auto simp: update_cell_def)
  show "cell_step run_id row (dict_get w cells) (dict_get w cells')"
    using x step by (auto simp: cell_step_def cell_from_def split: if_splits option.splits)
  show "w' \<noteq> w \<Longrightarrow> dict_get w' cells' = dict_get w' cells"
    using step by (auto split: if_splits)
qed

lemma update_cells_Inr:
  assumes "rfold (update_cell run_id) cells entries = Inr cells'" and "distinct (map fst entries)"
  shows "w \<notin> fst ` set entries \<Longrightarrow> dict_get w cells' = dict_get w cells"
    and "(w, row) \<in> set entries \<Longrightarrow> cell_step run_id row (dict_get w cells) (dict_get w cells')"
  using assms
proof (induction entries arbitrary: cells)
  case Nil
  {
    case 1
    then show ?case by simp
  next
    case 2
    then show ?case by simp
  }
next
  case (Cons e entries)
  obtain w0 row0 where e: "e = (w0, row0)" by (cases e)
  {
    case 1
    then obtain mid where mid: "update_cell run_id cells (w0, row0) = Inr mid"
      "rfold (update_cell run_id) mid entries = Inr cells'" by (auto simp: e)
    have "dict_get w cells' = dict_get w mid" using 1 mid(2) by (intro Cons.IH(1)) (auto simp: e)
    with update_cell_Inr(2) [OF mid(1), of w] 1 show ?case by (auto simp: e)
  next
    case 2
    then obtain mid where mid: "update_cell run_id cells (w0, row0) = Inr mid"
      "rfold (update_cell run_id) mid entries = Inr cells'" by (auto simp: e)
    show ?case
    proof (cases "(w, row) \<in> set entries")
      case True
      then have "w \<in> fst ` set entries" by (rule image_eqI [rotated]) simp
      then have "w \<noteq> w0" using 2 by (auto simp: e)
      then have "dict_get w mid = dict_get w cells" using update_cell_Inr(2) [OF mid(1)] by simp
      moreover have "cell_step run_id row (dict_get w mid) (dict_get w cells')"
        using True 2 mid(2) by (intro Cons.IH(2)) (auto simp: e)
      ultimately show ?thesis by simp
    next
      case False
      with 2 have w: "w = w0" "row = row0" by (auto simp: e)
      with 2 have "dict_get w cells' = dict_get w mid" using mid(2) by (intro Cons.IH(1)) (auto simp: e)
      with update_cell_Inr(1) [OF mid(1)] w show ?thesis by simp
    qed
  }
qed

lemma cell_step_time:
  assumes "cell_step run_id row b a" and "\<exists>x. row_ms ''candidate_ms'' row = Inr x \<and> time_value x"
    and "\<forall>c. b = Some c \<longrightarrow> time_value (cell_candidate_ms c)"
  shows "\<exists>c x. a = Some c \<and> time_value (cell_candidate_ms c) \<and> row_ms ''candidate_ms'' row = Inr x \<and>
    flt_le (cell_candidate_ms c) x \<and> (\<forall>c'. b = Some c' \<longrightarrow> flt_le (cell_candidate_ms c) (cell_candidate_ms c')) \<and>
    (b = a \<or> cell_from run_id row c)"
  using assms
  by (auto simp: cell_step_def cell_from_def time_not_less flt_le_refl_time)
     (auto simp: flt_le_def)

lemma update_cell_total:
  assumes "\<exists>x. row_ms ''candidate_ms'' row = Inr x \<and> time_value x"
    and "\<exists>x. row_ms ''baseline_ms'' row = Inr x \<and> time_value x"
  shows "\<exists>cells'. update_cell run_id cells (w, row) = Inr cells'"
proof -
  from assms obtain x y where x: "row_ms ''candidate_ms'' row = Inr x" "time_value x"
    and y: "row_ms ''baseline_ms'' row = Inr y" "time_value y" by auto
  from flt_div_time [OF y(2) x(2)] obtain z where "flt_div y x = Inr z" by auto
  with x y show ?thesis by (auto simp: update_cell_def)
qed

lemma update_cells_total:
  assumes "complete_timing task rows"
  shows "\<exists>cells'. rfold (update_cell run_id) cells (keyed rows) = Inr cells'"
proof -
  have "\<exists>cells'. rfold (update_cell run_id) cells (keyed rows) = Inr cells' \<and> True"
  proof (rule rfold_total)
    fix t e assume "e \<in> set (keyed rows)"
    then obtain row where "row \<in> set rows" "e = (row_id row, row)" by (auto simp: keyed_def)
    with complete_timing_row(2,3) [OF assms]
    show "\<exists>t'. update_cell run_id t e = Inr t' \<and> True" by (simp add: update_cell_total)
  qed simp
  then show ?thesis by simp
qed

section \<open>Comparison\<close>

definition improved_on :: "py_float \<Rightarrow> jdict dict \<Rightarrow> cell dict \<Rightarrow> string \<Rightarrow> bool" where
  "improved_on noise rows cells w \<longleftrightarrow>
     (case dict_get w cells of
        None \<Rightarrow> True
      | Some c \<Rightarrow> (case rbind (find_row w rows) (row_ms ''candidate_ms'') of
          Inl e \<Rightarrow> False
        | Inr x \<Rightarrow> flt_less x (flt_mul (cell_candidate_ms c) (flt_sub (Fin 1) noise))))"

definition regressed_on :: "py_float \<Rightarrow> jdict dict \<Rightarrow> cell dict \<Rightarrow> string \<Rightarrow> bool" where
  "regressed_on noise rows cells w \<longleftrightarrow> \<not> improved_on noise rows cells w \<and>
     (case dict_get w cells of
        None \<Rightarrow> False
      | Some c \<Rightarrow> (case rbind (find_row w rows) (row_ms ''candidate_ms'') of
          Inl e \<Rightarrow> False
        | Inr x \<Rightarrow> flt_less (flt_mul (cell_candidate_ms c) (flt_add (Fin 1) noise)) x))"

lemma compare_primary_Inr:
  assumes "compare_primary noise rows cells (i, r) w = Inr (i', r')"
  shows "i' = i @ (if improved_on noise rows cells w then [w] else [])"
    and "r' = r @ (if regressed_on noise rows cells w then [w] else [])"
  using assms
  by (auto simp: compare_primary_def improved_on_def regressed_on_def Let_def
      split: option.splits if_splits)

lemma compare_all_Inr:
  assumes "rfold (compare_primary noise rows cells) (i, r) ws = Inr (i', r')"
  shows "i' = i @ filter (improved_on noise rows cells) ws"
    and "r' = r @ filter (regressed_on noise rows cells) ws"
  using assms
proof (induction ws arbitrary: i r)
  case Nil
  {
    case 1
    then show ?case by simp
  next
    case 2
    then show ?case by simp
  }
next
  case (Cons w ws)
  {
    case 1
    then obtain i1 r1 where s: "compare_primary noise rows cells (i, r) w = Inr (i1, r1)"
      "rfold (compare_primary noise rows cells) (i1, r1) ws = Inr (i', r')" by auto
    then show ?case using Cons.IH(1) [OF s(2)] compare_primary_Inr(1) [OF s(1)] by simp
  next
    case 2
    then obtain i1 r1 where s: "compare_primary noise rows cells (i, r) w = Inr (i1, r1)"
      "rfold (compare_primary noise rows cells) (i1, r1) ws = Inr (i', r')" by auto
    then show ?case using Cons.IH(2) [OF s(2)] compare_primary_Inr(2) [OF s(1)] by simp
  }
qed

lemma compare_all_total:
  assumes "complete_timing task rows" and "set ws \<subseteq> set (task_workloads task)"
  shows "\<exists>i r. rfold (compare_primary noise (keyed rows) cells) acc ws = Inr (i, r)"
proof -
  have "\<exists>s. rfold (compare_primary noise (keyed rows) cells) acc ws = Inr s \<and> True"
  proof (rule rfold_total)
    fix t w assume "w \<in> set ws"
    with assms obtain row where row: "row \<in> set rows" "find_row w (keyed rows) = Inr row"
      using complete_timing_find [OF assms(1)] by blast
    from complete_timing_row(2) [OF assms(1) row(1)] obtain x where "row_ms ''candidate_ms'' row = Inr x"
      by auto
    with row show "\<exists>t'. compare_primary noise (keyed rows) cells t w = Inr t' \<and> True"
      by (cases t) (auto simp: compare_primary_def Let_def split: option.splits)
  qed simp
  then show ?thesis by auto
qed

lemma guardrail_total:
  assumes "complete_timing task rows" and "list_all (\<lambda>(w, x). w \<in> set (task_workloads task)) gs"
  shows "\<exists>f. guardrail_failure env gs (keyed rows) = Inr f"
  using assms(2)
proof (induction gs)
  case Nil
  then show ?case by simp
next
  case (Cons g gs)
  obtain w t where g: "g = (w, t)" by (cases g)
  with Cons.prems obtain row where row: "row \<in> set rows" "find_row w (keyed rows) = Inr row"
    using complete_timing_find [OF assms(1), of w] by auto
  obtain x y where "row_ms ''candidate_ms'' row = Inr x" "time_value x"
    "row_ms ''baseline_ms'' row = Inr y" "time_value y"
    using complete_timing_row(2,3) [OF assms(1) row(1)] by blast
  moreover from this obtain z where "flt_div y x = Inr z" using flt_div_time by blast
  ultimately show ?case using row Cons by (simp add: g)
qed

lemma guardrail_None:
  assumes "guardrail_failure env gs rows = Inr None" and "(w, t) \<in> set gs"
  shows "\<exists>row b c s. find_row w rows = Inr row \<and> row_ms ''baseline_ms'' row = Inr b \<and>
     row_ms ''candidate_ms'' row = Inr c \<and> flt_div b c = Inr s \<and> \<not> flt_less s t"
  using assms by (induction gs) (auto split: if_splits)

section \<open>The noise band\<close>

lemma to_double_unit: "0 \<le> q \<Longrightarrow> q \<le> 1 \<Longrightarrow> to_double q = Fin (rnd q)"
  using ieee.rd_le_one [of q] ieee.rd_nonneg [of q]
  by (simp add: to_double_def max_double_def Let_def)

text \<open>Below the noise band means strictly faster, above it strictly slower.\<close>

lemma below_noise_less:
  assumes "time_value best" and "wf_noise noise" and "flt_less x (flt_mul best (flt_sub (Fin 1) noise))"
  shows "flt_less x best"
proof -
  from assms(1) obtain b where b: "best = Fin b" "0 < b" "rnd b = b" "b < max_double"
    by (auto simp: time_value_Fin)
  from assms(2) obtain q where q: "noise = Fin q" "0 \<le> q" "q < 1"
    by (auto simp: wf_noise_def split: py_float.splits)
  define f where "f = rnd (1 - q)"
  have f: "0 \<le> f" "f \<le> 1" using q by (auto simp: f_def ieee.rd_nonneg ieee.rd_le_one)
  have sub: "flt_sub (Fin 1) noise = Fin f"
    using q to_double_unit [of "1 - q"] by (simp add: flt_sub_def f_def)
  have le: "rnd (b * f) \<le> b" using b f by (intro ieee.rd_scale_down) auto
  have "0 \<le> rnd (b * f)" using b f by (intro ieee.rd_nonneg) auto
  then have "flt_mul best (Fin f) = Fin (rnd (b * f))"
    using le b by (simp add: to_double_def Let_def)
  with assms(3) le show ?thesis by (cases x) (simp_all add: sub b)
qed

lemma above_noise_greater:
  assumes "time_value best" and "wf_noise noise" and "flt_less (flt_mul best (flt_add (Fin 1) noise)) x"
  shows "flt_less best x"
proof -
  from assms(1) obtain b where b: "best = Fin b" "0 < b" "rnd b = b" "b < max_double"
    by (auto simp: time_value_Fin)
  from assms(2) obtain q where q: "noise = Fin q" "0 \<le> q" "q < 1"
    by (auto simp: wf_noise_def split: py_float.splits)
  define f where "f = rnd (1 + q)"
  have f: "1 \<le> f" using q by (simp add: f_def ieee.rd_ge_one)
  have f2: "f \<le> 2" using rnd_mono [of "1 + q" 2] rnd_int [of 2] q by (simp add: f_def)
  have add: "flt_add (Fin 1) noise = Fin f"
    using q f f2 by (simp add: f_def to_double_def max_double_def Let_def)
  have le: "b \<le> rnd (b * f)" using b f by (intro ieee.rd_scale_up) auto
  have "flt_mul best (Fin f) = PosInf \<or> flt_mul best (Fin f) = Fin (rnd (b * f))"
    using le b by (auto simp: to_double_def Let_def)
  with assms(3) le show ?thesis by (cases x) (auto simp: add b)
qed

section \<open>One step\<close>

lemma decide_decision: "decide env task st rows k reason = Inr (d, r) \<Longrightarrow> d \<notin> {Ineligible, MeasurementUnstable}"
  by (auto simp: decide_def split: option.splits if_splits)

lemma dict_get_in_keys_iff: "dict_get k d = None \<longleftrightarrow> k \<notin> set (dict_keys d)"
  by (simp add: dict_get_def dict_keys_def map_of_eq_None_iff)

lemma decide_total:
  assumes "wf_task task" and "complete_timing task rows"
  shows "\<exists>d r. decide env task st (keyed rows) compiler reason = Inr (d, r)"
proof -
  from assms(1) have g: "list_all (\<lambda>(w, x). w \<in> set (task_workloads task)) (cmp_guardrails (task_comparison task))"
    and p: "set (cmp_primary_workloads (task_comparison task)) \<subseteq> set (task_workloads task)"
    by (auto simp: wf_task_def wf_comparison_def list_all_iff)
  obtain f where "guardrail_failure env (cmp_guardrails (task_comparison task)) (keyed rows) = Inr f"
    using guardrail_total [OF assms(2) g] by auto
  moreover obtain i r where "rfold (compare_primary (cmp_relative_noise_floor (task_comparison task)) (keyed rows)
      (fr_cells st)) ([], []) (cmp_primary_workloads (task_comparison task)) = Inr (i, r)"
    using compare_all_total [OF assms(2) p] by blast
  ultimately show ?thesis by (auto simp: decide_def split: option.split)
qed

lemma stable_not_unstable: "row_stable row \<Longrightarrow> \<not> row_unstable row"
  by (auto simp: row_stable_def row_unstable_def)

lemma frontier_step_total:
  assumes "wf_task task" and "wf_candidate task c"
  shows "\<exists>st'. frontier_step env task st c = Inr st'"
proof -
  obtain rid res where c: "c = (rid, res)" by (cases c)
  have rows: "rows_by_id (rr_workloads res) = Inr (keyed (rr_workloads res))"
    using assms(2) by (intro rows_by_id_keyed) (auto simp: wf_candidate_def c)
  show ?thesis
  proof (cases "rr_frontier_eligible res")
    case True
    with assms(2) have ct: "complete_timing task (rr_workloads res)" by (simp add: wf_candidate_def c)
    obtain d r where "decide env task st (keyed (rr_workloads res))
        (compiler_fingerprint (rr_fingerprints res)) (rr_terminal_reason res) = Inr (d, r)"
      using decide_total [OF assms(1) ct] by blast
    moreover obtain cells where "rfold (update_cell rid) (fr_cells st) (keyed (rr_workloads res)) = Inr cells"
      using update_cells_total [OF ct] by blast
    ultimately show ?thesis using rows by (simp add: frontier_step_def c Let_def)
  next
    case False
    then show ?thesis using rows by (simp add: frontier_step_def c)
  qed
qed

text \<open>The compiler identity under which a run is remembered.\<close>

definition compiler_identity :: "run_result \<Rightarrow> string option" where
  "compiler_identity res = map_option (\<lambda>(k, v). k @ '':'' @ v) (compiler_fingerprint (rr_fingerprints res))"

text \<open>What a step records, and when it touches the cells.\<close>

definition step_outcome :: "py_env \<Rightarrow> task_spec \<Rightarrow> frontier_state \<Rightarrow> candidate \<Rightarrow> decision \<Rightarrow> string option \<Rightarrow> frontier_state \<Rightarrow> bool" where
  "step_outcome env task st c d reason st' \<longleftrightarrow>
     fr_decisions st' = fr_decisions st @ [\<lparr>rd_run_id = fst c, rd_decision = d, rd_reason = reason,
       rd_validity = rr_validity (snd c), rd_outcome = rr_outcome (snd c)\<rparr>] \<and>
     (accepts d \<longrightarrow> rfold (update_cell (fst c)) (fr_cells st) (keyed (rr_workloads (snd c))) = Inr (fr_cells st')) \<and>
     (\<not> accepts d \<longrightarrow> fr_cells st' = fr_cells st) \<and>
     (d \<in> {Ineligible, MeasurementUnstable} \<longrightarrow> fr_seen_compiler st' = fr_seen_compiler st) \<and>
     (d \<notin> {Ineligible, MeasurementUnstable} \<longrightarrow> dict_keys (fr_seen_compiler st') =
        (case compiler_identity (snd c) of None \<Rightarrow> dict_keys (fr_seen_compiler st)
         | Some i \<Rightarrow> dict_keys (fr_seen_compiler st) @
             (if dict_has i (fr_seen_compiler st) then [] else [i]))) \<and>
     (d \<notin> {Ineligible, MeasurementUnstable} \<longrightarrow> rr_frontier_eligible (snd c) \<and>
        decide env task st (keyed (rr_workloads (snd c)))
          (compiler_fingerprint (rr_fingerprints (snd c))) (rr_terminal_reason (snd c)) = Inr (d, reason))"

lemma frontier_step_outcome:
  assumes "frontier_step env task st c = Inr st'" and "wf_candidate task c"
  shows "\<exists>d reason. step_outcome env task st c d reason st'"
proof -
  obtain rid res where c: "c = (rid, res)" by (cases c)
  have rows: "rows_by_id (rr_workloads res) = Inr (keyed (rr_workloads res))"
    using assms(2) by (intro rows_by_id_keyed) (auto simp: wf_candidate_def c)
  consider "rr_validity res = Valid \<and> list_ex (\<lambda>(w, row). row_unstable row) (keyed (rr_workloads res))"
    | "\<not> (rr_validity res = Valid \<and> list_ex (\<lambda>(w, row). row_unstable row) (keyed (rr_workloads res)))"
      "rr_frontier_eligible res"
    | "\<not> (rr_validity res = Valid \<and> list_ex (\<lambda>(w, row). row_unstable row) (keyed (rr_workloads res)))"
      "\<not> rr_frontier_eligible res" by blast
  then show ?thesis
  proof cases
    case 1
    with assms(1) have "st' = record_decision c MeasurementUnstable
        (Some ''judge marked at least one workload measurement unstable'') st"
      by (simp add: frontier_step_def c rows)
    then show ?thesis by (auto simp: step_outcome_def record_decision_def c accepts_def)
  next
    case 2
    let ?k = "compiler_fingerprint (rr_fingerprints res)"
    from 2 assms(1) obtain d r cells where d: "decide env task st (keyed (rr_workloads res)) ?k
        (rr_terminal_reason res) = Inr (d, r)"
      and cells: "(if accepts d then rfold (update_cell rid) (fr_cells st) (keyed (rr_workloads res))
        else Inr (fr_cells st)) = Inr cells"
      and seen: "fr_seen_compiler st' = (case ?k of None \<Rightarrow> fr_seen_compiler st
        | Some (k, v) \<Rightarrow> (case dict_get (k @ '':'' @ v) (fr_seen_compiler st) of
            None \<Rightarrow> dict_set (k @ '':'' @ v) rid (fr_seen_compiler st) | Some first \<Rightarrow> fr_seen_compiler st))"
      and st': "fr_cells st' = cells" "fr_decisions st' = fr_decisions st @ [\<lparr>rd_run_id = rid,
        rd_decision = d, rd_reason = r, rd_validity = rr_validity res, rd_outcome = rr_outcome res\<rparr>]"
      by (auto simp: frontier_step_def c rows Let_def record_decision_def)
    have "dict_keys (fr_seen_compiler st') = (case compiler_identity res of None \<Rightarrow> dict_keys (fr_seen_compiler st)
        | Some i \<Rightarrow> dict_keys (fr_seen_compiler st) @ (if dict_has i (fr_seen_compiler st) then [] else [i]))"
      by (auto simp: seen compiler_identity_def dict_has_get dict_keys_set dict_get_in_keys_iff
          dest: dict_get_in_keys split: option.splits)
    moreover have "d \<notin> {Ineligible, MeasurementUnstable}" using decide_decision [OF d] by simp
    ultimately have "step_outcome env task st c d r st'"
      using d cells st' 2(2) by (simp add: step_outcome_def c split: if_splits)
    then show ?thesis by blast
  next
    case 3
    with assms(1) have "st' = record_decision c Ineligible (rr_terminal_reason res) st"
      by (simp add: frontier_step_def c rows)
    then show ?thesis by (auto simp: step_outcome_def record_decision_def c accepts_def)
  qed
qed

section \<open>The whole reduction\<close>

definition accepted_runs :: "candidate list \<Rightarrow> run_decision list \<Rightarrow> candidate list" where
  "accepted_runs cs ds = map fst (filter (\<lambda>(c, d). accepts (rd_decision d)) (zip cs ds))"

lemma accepted_runs_snoc:
  "length cs = length ds \<Longrightarrow>
     accepted_runs (cs @ [c]) (ds @ [d]) = accepted_runs cs ds @ (if accepts (rd_decision d) then [c] else [])"
  by (simp add: accepted_runs_def)

definition identities :: "candidate list \<Rightarrow> string list" where
  "identities accepted = concat (map (\<lambda>c. case compiler_identity (snd c) of None \<Rightarrow> [] | Some i \<Rightarrow> [i]) accepted)"

lemma identities_append [simp]: "identities (as @ bs) = identities as @ identities bs"
  by (simp add: identities_def)

definition attained :: "candidate list \<Rightarrow> cell dict \<Rightarrow> bool" where
  "attained accepted cells \<longleftrightarrow> (\<forall>w c. dict_get w cells = Some c \<longrightarrow>
     (\<exists>(rid, res) \<in> set accepted. \<exists>row \<in> set (rr_workloads res). row_id row = w \<and> cell_from rid row c))"

lemma attained_extend:
  assumes "attained as cells"
    and "\<And>w y. dict_get w cells' = Some y \<Longrightarrow> dict_get w cells = Some y \<or> attained [c] [(w, y)]"
  shows "attained (as @ [c]) cells'"
  unfolding attained_def
proof (intro allI impI)
  fix w y assume y: "dict_get w cells' = Some y"
  from assms(2) [OF y] show "\<exists>(rid, res) \<in> set (as @ [c]). \<exists>row \<in> set (rr_workloads res). row_id row = w \<and> cell_from rid row y"
  proof
    assume "dict_get w cells = Some y"
    with assms(1) obtain e where "e \<in> set as"
      "case e of (rid, res) \<Rightarrow> \<exists>row \<in> set (rr_workloads res). row_id row = w \<and> cell_from rid row y"
      unfolding attained_def by blast
    then show ?thesis by (intro bexI [of _ e]) auto
  next
    assume "attained [c] [(w, y)]"
    then show ?thesis by (intro bexI [of _ c]) (auto simp: attained_def)
  qed
qed

definition lower_bound :: "candidate list \<Rightarrow> cell dict \<Rightarrow> bool" where
  "lower_bound accepted cells \<longleftrightarrow> (\<forall>(rid, res) \<in> set accepted. \<forall>row \<in> set (rr_workloads res).
     \<exists>c x. dict_get (row_id row) cells = Some c \<and> row_ms ''candidate_ms'' row = Inr x \<and>
       flt_le (cell_candidate_ms c) x)"

definition frontier_inv :: "task_spec \<Rightarrow> candidate list \<Rightarrow> frontier_state \<Rightarrow> bool" where
  "frontier_inv task cs st \<longleftrightarrow>
     map rd_run_id (fr_decisions st) = map fst cs \<and> cells_ok (fr_cells st) \<and>
     attained (accepted_runs cs (fr_decisions st)) (fr_cells st) \<and>
     lower_bound (accepted_runs cs (fr_decisions st)) (fr_cells st) \<and>
     distinct (identities (accepted_runs cs (fr_decisions st))) \<and>
     set (identities (accepted_runs cs (fr_decisions st)))
       \<subseteq> set (dict_keys (fr_seen_compiler st))"

text \<open>The update with one accepted run, cell by cell.\<close>

definition cells_after :: "candidate \<Rightarrow> cell dict \<Rightarrow> cell dict \<Rightarrow> bool" where
  "cells_after c cells cells' \<longleftrightarrow>
     (\<forall>w. w \<notin> row_id ` set (rr_workloads (snd c)) \<longrightarrow> dict_get w cells' = dict_get w cells) \<and>
     (\<forall>row \<in> set (rr_workloads (snd c)).
        cell_step (fst c) row (dict_get (row_id row) cells) (dict_get (row_id row) cells'))"

lemma update_cells_after:
  assumes "rfold (update_cell (fst c)) cells (keyed (rr_workloads (snd c))) = Inr cells'"
    and "distinct (map row_id (rr_workloads (snd c)))"
  shows "cells_after c cells cells'"
proof -
  have fsts: "map fst (keyed (rr_workloads (snd c))) = map row_id (rr_workloads (snd c))"
    by (simp add: keyed_def)
  note upd = update_cells_Inr [OF assms(1), unfolded fsts, OF assms(2)]
  have "fst ` set (keyed (rr_workloads (snd c))) = row_id ` set (rr_workloads (snd c))"
    by (force simp: keyed_def)
  with upd show ?thesis by (auto simp: cells_after_def keyed_def)
qed

lemma cells_after_ok:
  assumes "cells_after c cells cells'" and "cells_ok cells" and "complete_timing task (rr_workloads (snd c))"
  shows "cells_ok cells'" and "lower_bound [c] cells'"
    and "dict_get w cells = Some x \<Longrightarrow>
      \<exists>y. dict_get w cells' = Some y \<and> flt_le (cell_candidate_ms y) (cell_candidate_ms x)"
    and "dict_get w cells' = Some y \<Longrightarrow> dict_get w cells = Some y \<or> attained [c] [(w, y)]"
proof -
  have step: "\<exists>y x. dict_get (row_id row) cells' = Some y \<and> time_value (cell_candidate_ms y) \<and>
      row_ms ''candidate_ms'' row = Inr x \<and> flt_le (cell_candidate_ms y) x \<and>
      (\<forall>c'. dict_get (row_id row) cells = Some c' \<longrightarrow> flt_le (cell_candidate_ms y) (cell_candidate_ms c')) \<and>
      (dict_get (row_id row) cells = dict_get (row_id row) cells' \<or> cell_from (fst c) row y)"
    if "row \<in> set (rr_workloads (snd c))" for row
  proof (rule cell_step_time)
    show "cell_step (fst c) row (dict_get (row_id row) cells) (dict_get (row_id row) cells')"
      using assms(1) that by (simp add: cells_after_def)
    show "\<exists>x. row_ms ''candidate_ms'' row = Inr x \<and> time_value x"
      using complete_timing_row(2) [OF assms(3) that] .
    show "\<forall>x. dict_get (row_id row) cells = Some x \<longrightarrow> time_value (cell_candidate_ms x)"
      using assms(2) by (simp add: cells_ok_def)
  qed
  have other: "dict_get w cells' = dict_get w cells" if "w \<notin> row_id ` set (rr_workloads (snd c))" for w
    using assms(1) that by (simp add: cells_after_def)
  show "cells_ok cells'"
    unfolding cells_ok_def
  proof (intro allI impI)
    fix w y assume y: "dict_get w cells' = Some y"
    show "time_value (cell_candidate_ms y)"
    proof (cases "w \<in> row_id ` set (rr_workloads (snd c))")
      case True
      with step y show ?thesis by fastforce
    next
      case False
      with other [OF False] y assms(2) show ?thesis by (simp add: cells_ok_def)
    qed
  qed
  show "lower_bound [c] cells'" using step by (fastforce simp: lower_bound_def)
  show "\<exists>y. dict_get w cells' = Some y \<and> flt_le (cell_candidate_ms y) (cell_candidate_ms x)"
    if x: "dict_get w cells = Some x"
  proof (cases "w \<in> row_id ` set (rr_workloads (snd c))")
    case True
    with step x show ?thesis by fastforce
  next
    case False
    moreover have "time_value (cell_candidate_ms x)" using assms(2) x by (simp add: cells_ok_def)
    ultimately show ?thesis using other [of w] x by (simp add: flt_le_refl_time)
  qed
  show "dict_get w cells = Some y \<or> attained [c] [(w, y)]" if y: "dict_get w cells' = Some y"
  proof (cases "w \<in> row_id ` set (rr_workloads (snd c))")
    case True
    then obtain row where row: "row \<in> set (rr_workloads (snd c))" "w = row_id row" by auto
    with step [OF row(1)] y have "dict_get w cells = Some y \<or> cell_from (fst c) row y" by auto
    then show ?thesis using row by (cases c) (auto simp: attained_def)
  next
    case False
    with other [OF False] y show ?thesis by simp
  qed
qed

lemma attained_mono: "attained as cells \<Longrightarrow> set as \<subseteq> set bs \<Longrightarrow> attained bs cells"
  unfolding attained_def by blast

lemma lower_bound_after:
  assumes "lower_bound as cells"
    and "\<And>w x. dict_get w cells = Some x \<Longrightarrow>
      \<exists>y. dict_get w cells' = Some y \<and> flt_le (cell_candidate_ms y) (cell_candidate_ms x)"
    and "cells_ok cells"
  shows "lower_bound as cells'"
  unfolding lower_bound_def
proof (clarify)
  fix rid res row
  assume "(rid, res) \<in> set as" "row \<in> set (rr_workloads res)"
  with assms(1) obtain c x where c: "dict_get (row_id row) cells = Some c"
    "row_ms ''candidate_ms'' row = Inr x" "flt_le (cell_candidate_ms c) x"
    by (fastforce simp: lower_bound_def)
  moreover obtain y where "dict_get (row_id row) cells' = Some y"
    "flt_le (cell_candidate_ms y) (cell_candidate_ms c)" using assms(2) [OF c(1)] by blast
  moreover have "time_value (cell_candidate_ms c)" using assms(3) c(1) by (simp add: cells_ok_def)
  ultimately show "\<exists>c x. dict_get (row_id row) cells' = Some c \<and>
      row_ms ''candidate_ms'' row = Inr x \<and> flt_le (cell_candidate_ms c) x"
    using flt_le_trans_time by blast
qed

lemma decide_new_identity:
  assumes "decide env task st rows (compiler_fingerprint (rr_fingerprints res)) reason = Inr (d, r)"
    and "accepts d" and "compiler_identity res = Some i"
  shows "i \<notin> set (dict_keys (fr_seen_compiler st))"
proof
  assume "i \<in> set (dict_keys (fr_seen_compiler st))"
  then have "dict_get i (fr_seen_compiler st) \<noteq> None" by (simp add: dict_get_in_keys_iff)
  with assms show False
    by (auto simp: decide_def compiler_identity_def accepts_def split: option.splits prod.splits)
qed

lemma frontier_inv_empty: "frontier_inv task [] empty_frontier"
  by (simp add: frontier_inv_def empty_frontier_def cells_ok_def attained_def lower_bound_def
      accepted_runs_def identities_def)

lemma frontier_inv_step:
  assumes "frontier_inv task cs st" and "frontier_step env task st c = Inr st'" and "wf_candidate task c"
  shows "frontier_inv task (cs @ [c]) st'"
proof -
  obtain d reason where out: "step_outcome env task st c d reason st'"
    using frontier_step_outcome [OF assms(2,3)] by blast
  let ?as = "accepted_runs cs (fr_decisions st)"
  let ?as' = "accepted_runs (cs @ [c]) (fr_decisions st')"
  from assms(1) have "length (map rd_run_id (fr_decisions st)) = length (map fst cs)"
    by (simp add: frontier_inv_def)
  then have as': "?as' = ?as @ (if accepts d then [c] else [])"
    using out by (simp add: step_outcome_def accepted_runs_snoc)
  have seen: "set (dict_keys (fr_seen_compiler st)) \<subseteq> set (dict_keys (fr_seen_compiler st'))"
    using out by (cases "d \<in> {Ineligible, MeasurementUnstable}")
      (auto simp: step_outcome_def split: option.splits)
  show ?thesis
  proof (cases "accepts d")
    case True
    then have d: "d \<notin> {Ineligible, MeasurementUnstable}" by (auto simp: accepts_def)
    with out have el: "rr_frontier_eligible (snd c)"
      and dec: "decide env task st (keyed (rr_workloads (snd c)))
        (compiler_fingerprint (rr_fingerprints (snd c))) (rr_terminal_reason (snd c)) = Inr (d, reason)"
      by (simp_all add: step_outcome_def)
    have ct: "complete_timing task (rr_workloads (snd c))"
      using el assms(3) by (simp add: wf_candidate_def)
    have upd: "cells_after c (fr_cells st) (fr_cells st')"
      using out True ct by (intro update_cells_after) (simp_all add: step_outcome_def complete_timing_def)
    have ok: "cells_ok (fr_cells st)" using assms(1) by (simp add: frontier_inv_def)
    note after = cells_after_ok [OF upd ok ct]
    have "lower_bound ?as (fr_cells st)" using assms(1) by (simp add: frontier_inv_def)
    from lower_bound_after [OF this after(3) ok] have "lower_bound ?as (fr_cells st')" .
    with after(2) have lb: "lower_bound ?as' (fr_cells st')"
      by (auto simp: as' True lower_bound_def)
    have "attained ?as (fr_cells st)" using assms(1) by (simp add: frontier_inv_def)
    from attained_extend [OF this after(4)] have at: "attained ?as' (fr_cells st')"
      by (simp add: as' True)
    have old: "distinct (identities ?as)" "set (identities ?as) \<subseteq> set (dict_keys (fr_seen_compiler st))"
      using assms(1) by (simp_all add: frontier_inv_def)
    have ids: "distinct (identities ?as') \<and> set (identities ?as') \<subseteq> set (dict_keys (fr_seen_compiler st'))"
    proof (cases "compiler_identity (snd c)")
      case None
      then have "identities [c] = []" by (simp add: identities_def)
      with old seen show ?thesis by (auto simp: as' True)
    next
      case (Some i)
      then have i: "identities [c] = [i]" by (simp add: identities_def)
      have new: "i \<notin> set (dict_keys (fr_seen_compiler st))"
        using decide_new_identity [OF dec True Some] .
      have "i \<in> set (dict_keys (fr_seen_compiler st'))"
        using out d Some new by (auto simp: step_outcome_def dict_has_get dict_get_in_keys_iff)
      with i old seen new show ?thesis by (auto simp: as' True)
    qed
    show ?thesis
      using assms(1) out lb at ids after(1)
      by (simp add: frontier_inv_def step_outcome_def)
  next
    case False
    then have same: "?as' = ?as" "fr_cells st' = fr_cells st"
      using as' out by (simp_all add: step_outcome_def)
    have "map rd_run_id (fr_decisions st') = map fst (cs @ [c])"
      using assms(1) out by (simp add: step_outcome_def frontier_inv_def)
    moreover have "set (identities ?as) \<subseteq> set (dict_keys (fr_seen_compiler st'))"
      using assms(1) seen by (auto simp: frontier_inv_def)
    ultimately show ?thesis using assms(1) by (simp add: frontier_inv_def same)
  qed
qed

lemma reduce_candidates_total:
  assumes "wf_task task" and "list_all (wf_candidate task) cs"
  shows "\<exists>st. reduce_candidates env task cs = Inr st \<and> frontier_inv task cs st"
  using assms(2)
proof (induction cs rule: rev_induct)
  case Nil
  then show ?case by (simp add: reduce_candidates_def frontier_inv_empty)
next
  case (snoc c cs)
  then obtain st where st: "reduce_candidates env task cs = Inr st" "frontier_inv task cs st" by auto
  moreover obtain st' where st': "frontier_step env task st c = Inr st'"
    using frontier_step_total [OF assms(1), of c env st] snoc.prems by auto
  moreover have "frontier_inv task (cs @ [c]) st'"
    using frontier_inv_step [OF st(2) st'] snoc.prems by simp
  ultimately show ?case by (simp add: reduce_candidates_def rfold_append)
qed

section \<open>What the decisions say\<close>

lemma decide_accepted_guardrails:
  assumes "decide env task st rows k reason = Inr (d, r)" and "accepts d"
    and "(w, t) \<in> set (cmp_guardrails (task_comparison task))"
  shows "\<exists>row b c s. find_row w rows = Inr row \<and> row_ms ''baseline_ms'' row = Inr b \<and>
     row_ms ''candidate_ms'' row = Inr c \<and> flt_div b c = Inr s \<and> \<not> flt_less s t"
proof -
  from assms(1,2) have "guardrail_failure env (cmp_guardrails (task_comparison task)) rows = Inr None"
    by (auto simp: decide_def accepts_def split: option.splits)
  then show ?thesis by (rule guardrail_None) (rule assms(3))
qed

text \<open>The decision of a run that reaches the comparison, in terms of the two sets.\<close>

definition comparison_decision :: "string list \<Rightarrow> string list \<Rightarrow> decision" where
  "comparison_decision improved regressed =
     (if improved \<noteq> [] \<and> regressed \<noteq> [] then PerCellPareto
      else if improved \<noteq> [] then ImprovesPrimary else Dominated)"

lemma decide_comparison:
  assumes "decide env task st rows k reason = Inr (d, r)"
    and "d \<in> {PerCellPareto, ImprovesPrimary, Dominated}"
  shows "d = comparison_decision
      (filter (improved_on (cmp_relative_noise_floor (task_comparison task)) rows (fr_cells st))
         (cmp_primary_workloads (task_comparison task)))
      (filter (regressed_on (cmp_relative_noise_floor (task_comparison task)) rows (fr_cells st))
         (cmp_primary_workloads (task_comparison task)))"
proof -
  let ?f = "rfold (compare_primary (cmp_relative_noise_floor (task_comparison task)) rows (fr_cells st))
      ([], []) (cmp_primary_workloads (task_comparison task))"
  from assms obtain i g where ig: "?f = Inr (i, g)" and "d = comparison_decision i g"
    by (auto simp: decide_def comparison_decision_def split: option.splits if_splits)
  with compare_all_Inr [OF ig] show ?thesis by simp
qed

text \<open>
  An improvement over an existing cell is strictly faster than it, so the cell of that
  workload changes hands.
\<close>

lemma improved_replaces_cell:
  assumes "improved_on noise (keyed rows) cells w" and "wf_noise noise" and "cells_ok cells"
    and "complete_timing task rows" and "w \<in> set (task_workloads task)"
    and "cells_after (rid, res) cells cells'" and "rr_workloads res = rows"
  shows "\<exists>c. dict_get w cells' = Some c \<and> cell_run_id c = rid \<and>
     (\<forall>old. dict_get w cells = Some old \<longrightarrow> flt_less (cell_candidate_ms c) (cell_candidate_ms old))"
proof -
  obtain row where row: "row \<in> set rows" "row_id row = w" "find_row w (keyed rows) = Inr row"
    using complete_timing_find [OF assms(4,5)] by blast
  obtain x where x: "row_ms ''candidate_ms'' row = Inr x"
    using complete_timing_row(2) [OF assms(4) row(1)] by blast
  have less: "flt_less x (cell_candidate_ms old)" if "dict_get w cells = Some old" for old
  proof (rule below_noise_less)
    show "time_value (cell_candidate_ms old)" using that assms(3) by (simp add: cells_ok_def)
    show "flt_less x (flt_mul (cell_candidate_ms old) (flt_sub (Fin 1) noise))"
      using assms(1) that row(3) x by (simp add: improved_on_def)
  qed (rule assms(2))
  have "cell_step rid row (dict_get w cells) (dict_get w cells')"
    using assms(6,7) row by (auto simp: cells_after_def)
  with x less show ?thesis by (auto simp: cell_step_def cell_from_def)
qed

section \<open>Runs the aggregation wrote\<close>

definition aggregated :: "task_spec \<Rightarrow> candidate \<Rightarrow> bool" where
  "aggregated task c \<longleftrightarrow> (\<exists>tsha csha stages reason. wf_staged task stages \<and>
     snd c = aggregate_run_result task (fst c) tsha csha stages reason)"

lemma aggregated_wf: "aggregated task c \<Longrightarrow> wf_candidate task c"
  by (auto simp: aggregated_def wf_candidate_def aggregate_eligible
      intro: aggregate_workload_rows(1,2) [OF _ refl])

lemma sample_run_aggregated: "aggregated sample_task (''run-1'', sample_run)"
  unfolding aggregated_def using sample_stages_wf by (auto simp: sample_run_def)

lemma sample_first_step:
  "\<exists>st. frontier_step sample_env sample_task empty_frontier (''run-1'', sample_run) = Inr st"
  by (rule frontier_step_total [OF sample_task_wf aggregated_wf [OF sample_run_aggregated]])

text \<open>A state whose cells the sample run beats on both workloads.\<close>

definition sample_frontier :: frontier_state where
  "sample_frontier = \<lparr>fr_cells =
       [(''small'', \<lparr>cell_run_id = ''old'', cell_candidate_ms = Fin 8, cell_baseline_ms = Fin 8, cell_speedup = Fin 1\<rparr>),
        (''large'', \<lparr>cell_run_id = ''old'', cell_candidate_ms = Fin 32, cell_baseline_ms = Fin 32, cell_speedup = Fin 1\<rparr>)],
     fr_decisions = [], fr_seen_compiler = []\<rparr>"

lemma sample_frontier_ok: "cells_ok (fr_cells sample_frontier)"
proof -
  have "rnd 8 = 8" "rnd 32 = 32" using rnd_int [of 8] rnd_int [of 32] by simp_all
  then show ?thesis
    by (auto simp: cells_ok_def sample_frontier_def time_value_Fin max_double_def)
qed

lemma sample_step_improves:
  "\<exists>st. frontier_step sample_env sample_task sample_frontier (''run-1'', sample_run) = Inr st \<and>
     map rd_decision (fr_decisions st) = [ImprovesPrimary]"
proof -
  let ?rows = "[(''large'', sample_row ''large'' 16 32), (''small'', sample_row ''small'' 4 8)]"
  have r: "rnd 2 = 2" "rnd 4 = 4" "rnd 8 = 8" "rnd 16 = 16" "rnd 32 = 32"
    using rnd_int [of 2] rnd_int [of 4] rnd_int [of 8] rnd_int [of 16] rnd_int [of 32] by simp_all
  have n: "rnd (63 / 64) = 63 / 64" "rnd (63 / 2) = 63 / 2"
    using rnd_dyadic [of "63 / 64" 63 6] rnd_dyadic [of "63 / 2" 63 1] by simp_all
  have w: "rr_workloads sample_run = map snd ?rows" "rr_validity sample_run = Valid"
    "rr_fingerprints sample_run = []" "rr_terminal_reason sample_run = None" "rr_outcome sample_run = Completed"
    by (code_simp)+
  have rows: "rows_by_id (rr_workloads sample_run) = Inr ?rows" unfolding w by code_simp
  have t: "row_ms ''candidate_ms'' (sample_row a c b) = py_float_of (JInt c)"
    "row_ms ''baseline_ms'' (sample_row a c b) = py_float_of (JInt b)" for a c b
    by (simp_all add: row_ms_def dindex_def sample_row_def)
  have cmp: "cmp_guardrails (task_comparison sample_task) = [(''small'', Fin 1)]"
    "cmp_primary_workloads (task_comparison sample_task) = [''large'']"
    "cmp_relative_noise_floor (task_comparison sample_task) = Fin (1 / 64)"
    by (simp_all add: sample_task_def)
  have dec: "decide sample_env sample_task sample_frontier ?rows (compiler_fingerprint (rr_fingerprints sample_run))
      None = Inr (ImprovesPrimary, Some ''improves large'')"
    by (simp add: decide_def w compiler_fingerprint_def cmp find_row_def t float_of_int_def Let_def r n
        max_double_def to_double_def compare_primary_def sample_frontier_def flt_sub_def)
  show ?thesis
    using dec sample_run_eligible frontier_step_total [OF sample_task_wf aggregated_wf [OF sample_run_aggregated],
        of sample_env sample_frontier] rows w
    by (auto simp: frontier_step_def row_unstable_def sample_row_def Let_def accepts_def record_decision_def
        sample_frontier_def)
qed

section \<open>Properties\<close>

text \<open>C2: On runs the aggregation wrote, the reduction never raises: it records one decision
  per run in order; every cell was attained by an accepted run for that workload, no accepted
  run is faster than the cells, and no two accepted runs share a compiler fingerprint.\<close>

theorem frontier_reduction_sound:
  assumes "wf_task task" and "list_all (aggregated task) cs"
  shows "\<exists>st. reduce_candidates env task cs = Inr st \<and> frontier_inv task cs st"
proof -
  have "list_all (wf_candidate task) cs" using assms(2) by (simp add: list_all_iff aggregated_wf)
  with assms(1) show ?thesis by (rule reduce_candidates_total)
qed

theorem frontier_reduction_sound_witness:
  "\<exists>st. reduce_candidates sample_env sample_task [(''run-1'', sample_run)] = Inr st \<and>
     frontier_inv sample_task [(''run-1'', sample_run)] st"
  using frontier_reduction_sound [OF sample_task_wf, of "[(''run-1'', sample_run)]"] sample_run_aggregated
  by simp

text \<open>Each cell only ever gets faster: a step keeps the cells unless its decision accepts
  the run, and an accepted run leaves every cell at most as slow as before.\<close>

lemma frontier_cells_improve:
  assumes "wf_candidate task c" and "cells_ok (fr_cells st)"
    and "frontier_step env task st c = Inr st'"
  shows "cells_ok (fr_cells st') \<and>
    (\<exists>d. map rd_decision (fr_decisions st') = map rd_decision (fr_decisions st) @ [d] \<and>
       (\<not> accepts d \<longrightarrow> fr_cells st' = fr_cells st) \<and>
       (\<forall>w old. dict_get w (fr_cells st) = Some old \<longrightarrow>
          (\<exists>new. dict_get w (fr_cells st') = Some new \<and>
             flt_le (cell_candidate_ms new) (cell_candidate_ms old))))"
proof -
  obtain d reason where out: "step_outcome env task st c d reason st'"
    using frontier_step_outcome [OF assms(3,1)] by blast
  have cells: "cells_ok (fr_cells st') \<and> (\<forall>w old. dict_get w (fr_cells st) = Some old \<longrightarrow>
      (\<exists>new. dict_get w (fr_cells st') = Some new \<and> flt_le (cell_candidate_ms new) (cell_candidate_ms old)))"
  proof (cases "accepts d")
    case True
    then have "d \<notin> {Ineligible, MeasurementUnstable}" by (auto simp: accepts_def)
    with out assms(1) have ct: "complete_timing task (rr_workloads (snd c))"
      by (simp add: step_outcome_def wf_candidate_def)
    have upd: "cells_after c (fr_cells st) (fr_cells st')"
      using out True ct by (intro update_cells_after) (simp_all add: step_outcome_def complete_timing_def)
    show ?thesis using cells_after_ok(1,3) [OF upd assms(2) ct] by blast
  next
    case False
    then have "fr_cells st' = fr_cells st" using out by (simp add: step_outcome_def)
    with assms(2) show ?thesis by (auto simp: cells_ok_def flt_le_refl_time)
  qed
  with out show ?thesis by (auto simp: step_outcome_def)
qed

lemma frontier_cells_improve_witness:
  "\<exists>(st :: frontier_state) d. cells_ok (fr_cells st) \<and>
     map rd_decision (fr_decisions st) = map rd_decision (fr_decisions empty_frontier) @ [d]"
proof -
  obtain st where st: "frontier_step sample_env sample_task empty_frontier (''run-1'', sample_run) = Inr st"
    using sample_first_step by blast
  have "cells_ok (fr_cells empty_frontier)" by (simp add: cells_ok_def empty_frontier_def)
  note step = frontier_cells_improve [OF aggregated_wf [OF sample_run_aggregated] this st]
  from step obtain d where "map rd_decision (fr_decisions st) = map rd_decision (fr_decisions empty_frontier) @ [d]"
    by (elim conjE exE)
  with step show ?thesis by (intro exI [of _ st] exI [of _ d] conjI) simp_all
qed

text \<open>C19: A run that any decision accepts is eligible and keeps every guardrail of the task:
  for each one the measured speedup is not below the threshold.\<close>

theorem accepted_run_keeps_guardrails:
  assumes "wf_candidate task (rid, res)" and "frontier_step env task st (rid, res) = Inr st'"
    and "accepts (rd_decision (last (fr_decisions st')))"
    and "(w, t) \<in> set (cmp_guardrails (task_comparison task))"
  shows "rr_frontier_eligible res \<and> (\<exists>row b c s. row \<in> set (rr_workloads res) \<and> row_id row = w \<and>
     row_ms ''baseline_ms'' row = Inr b \<and> row_ms ''candidate_ms'' row = Inr c \<and>
     flt_div b c = Inr s \<and> \<not> flt_less s t)"
proof -
  obtain d reason where out: "step_outcome env task st (rid, res) d reason st'"
    using frontier_step_outcome [OF assms(2,1)] by blast
  then have d: "accepts d" using assms(3) by (simp add: step_outcome_def)
  then have "d \<notin> {Ineligible, MeasurementUnstable}" by (auto simp: accepts_def)
  with out have el: "rr_frontier_eligible res"
    and dec: "decide env task st (keyed (rr_workloads res)) (compiler_fingerprint (rr_fingerprints res))
      (rr_terminal_reason res) = Inr (d, reason)"
    by (simp_all add: step_outcome_def)
  obtain row b c s where row: "find_row w (keyed (rr_workloads res)) = Inr row"
    "row_ms ''baseline_ms'' row = Inr b" "row_ms ''candidate_ms'' row = Inr c" "flt_div b c = Inr s"
    "\<not> flt_less s t"
    using decide_accepted_guardrails [OF dec d assms(4)] by blast
  have "row \<in> set (rr_workloads res) \<and> row_id row = w"
    using row(1) by (auto simp: find_row_def keyed_def split: option.splits dest!: dict_get_mem)
  with el row show ?thesis by blast
qed

theorem accepted_run_keeps_guardrails_witness:
  "rr_frontier_eligible sample_run \<and> (\<exists>row b c s. row \<in> set (rr_workloads sample_run) \<and> row_id row = ''small'' \<and>
     row_ms ''baseline_ms'' row = Inr b \<and> row_ms ''candidate_ms'' row = Inr c \<and>
     flt_div b c = Inr s \<and> \<not> flt_less s (Fin 1))"
proof -
  obtain st where st: "frontier_step sample_env sample_task sample_frontier (''run-1'', sample_run) = Inr st"
    "map rd_decision (fr_decisions st) = [ImprovesPrimary]"
    using sample_step_improves by (elim exE conjE)
  from st(2) have "accepts (rd_decision (last (fr_decisions st)))" by (auto simp: accepts_def)
  moreover have "(''small'', Fin 1) \<in> set (cmp_guardrails (task_comparison sample_task))"
    by (simp add: sample_task_def)
  ultimately show ?thesis
    by (rule accepted_run_keeps_guardrails [OF aggregated_wf [OF sample_run_aggregated] st(1)])
qed

text \<open>C3: A run recorded as improving the primary workloads is strictly faster than the
  frontier on at least one of them, whose cell it takes over, and is above the noise band on
  none.\<close>

theorem improving_run_takes_cell:
  assumes "wf_task task" and "wf_candidate task (rid, res)" and "cells_ok (fr_cells st)"
    and "frontier_step env task st (rid, res) = Inr st'"
    and "rd_decision (last (fr_decisions st')) = ImprovesPrimary"
  shows "(\<exists>w \<in> set (cmp_primary_workloads (task_comparison task)). \<exists>c.
      dict_get w (fr_cells st') = Some c \<and> cell_run_id c = rid \<and>
      (\<forall>old. dict_get w (fr_cells st) = Some old \<longrightarrow> flt_less (cell_candidate_ms c) (cell_candidate_ms old))) \<and>
    (\<forall>w \<in> set (cmp_primary_workloads (task_comparison task)).
      \<not> regressed_on (cmp_relative_noise_floor (task_comparison task)) (keyed (rr_workloads res)) (fr_cells st) w)"
proof -
  let ?noise = "cmp_relative_noise_floor (task_comparison task)"
  let ?ws = "cmp_primary_workloads (task_comparison task)"
  let ?rows = "rr_workloads res"
  obtain d reason where out: "step_outcome env task st (rid, res) d reason st'"
    using frontier_step_outcome [OF assms(4,2)] by blast
  with assms(5) have d: "d = ImprovesPrimary" by (simp add: step_outcome_def)
  with out have el: "rr_frontier_eligible res"
    and dec: "decide env task st (keyed ?rows) (compiler_fingerprint (rr_fingerprints res))
      (rr_terminal_reason res) = Inr (ImprovesPrimary, reason)"
    by (simp_all add: step_outcome_def)
  have ct: "complete_timing task ?rows" using el assms(2) by (simp add: wf_candidate_def)
  have upd: "cells_after (rid, res) (fr_cells st) (fr_cells st')"
    using out d ct by (intro update_cells_after) (simp_all add: step_outcome_def complete_timing_def accepts_def)
  have cmp: "wf_noise ?noise" "set ?ws \<subseteq> set (task_workloads task)"
    using assms(1) by (simp_all add: wf_task_def wf_comparison_def)
  have "filter (improved_on ?noise (keyed ?rows) (fr_cells st)) ?ws \<noteq> []"
    and reg: "filter (regressed_on ?noise (keyed ?rows) (fr_cells st)) ?ws = []"
    using decide_comparison [OF dec] by (auto simp: comparison_decision_def split: if_splits)
  then obtain w where w: "w \<in> set ?ws" "improved_on ?noise (keyed ?rows) (fr_cells st) w"
    by (auto simp: filter_empty_conv)
  have "w \<in> set (task_workloads task)" using w cmp by blast
  from improved_replaces_cell [OF w(2) cmp(1) assms(3) ct this upd refl] w(1) reg show ?thesis
    by (auto simp: filter_empty_conv)
qed

theorem improving_run_takes_cell_witness:
  "\<exists>st :: frontier_state. \<exists>w \<in> set (cmp_primary_workloads (task_comparison sample_task)). \<exists>c.
      dict_get w (fr_cells st) = Some c \<and> cell_run_id c = ''run-1''"
proof -
  obtain st where st: "frontier_step sample_env sample_task sample_frontier (''run-1'', sample_run) = Inr st"
    "map rd_decision (fr_decisions st) = [ImprovesPrimary]"
    using sample_step_improves by (elim exE conjE)
  from st(2) have "rd_decision (last (fr_decisions st)) = ImprovesPrimary" by auto
  from improving_run_takes_cell [OF sample_task_wf aggregated_wf [OF sample_run_aggregated] sample_frontier_ok st(1) this]
  show ?thesis by (intro exI [of _ st]) auto
qed

end
