(* ===== verification/Snapshot.thy ===== *)
theory Snapshot
  imports Task_Documents
begin

text \<open>
  \<open>src/kernel_infra/candidate.py\<close>: the snapshot of a submitted candidate and the digest
  that identifies it.  A directory tree is the datatype \<open>node\<close>; a symbolic link records
  whether it points to a directory, because \<open>os.walk\<close> lists it accordingly.  A snapshot
  is what the digest sees: the regular files under it, sorted by path components, each
  with its bytes.
\<close>

section \<open>File trees\<close>

datatype node =
    RegularFile "nat list"
  | Directory "(string \<times> node) list"
  | Symlink bool
  | Special

type_synonym entries = "(string \<times> node) list"

definition IGNORED_NAMES :: "string list" where
  "IGNORED_NAMES = [''.git'', ''__pycache__'', ''.pytest_cache'']"

fun is_link :: "node \<Rightarrow> bool" where
  "is_link (Symlink d) = True"
| "is_link _ = False"

text \<open>How \<open>os.walk\<close> divides the entries of a directory, ignored names removed.\<close>

fun walks_as_directory :: "node \<Rightarrow> bool" where
  "walks_as_directory (Directory es) = True"
| "walks_as_directory (Symlink d) = d"
| "walks_as_directory _ = False"

definition visible :: "entries \<Rightarrow> entries" where
  "visible es = filter (\<lambda>(name, n). name \<notin> set IGNORED_NAMES) es"

definition walk_directories :: "entries \<Rightarrow> entries" where
  "walk_directories es = sort_key fst (filter (\<lambda>(name, n). walks_as_directory n) (visible es))"

definition walk_files :: "entries \<Rightarrow> entries" where
  "walk_files es = filter (\<lambda>(name, n). \<not> walks_as_directory n) (visible es)"

definition check_link :: "string \<Rightarrow> string \<times> node \<Rightarrow> unit result" where
  "check_link base entry =
     (if is_link (snd entry)
      then Inl (CandidateError (''candidate contains symlink: '' @ path_join base (fst entry))) else Inr ())"

definition check_file :: "string \<Rightarrow> string \<times> node \<Rightarrow> unit result" where
  "check_file base entry =
     (case snd entry of
        Symlink d \<Rightarrow> Inl (CandidateError (''candidate contains symlink: '' @ path_join base (fst entry)))
      | RegularFile bytes \<Rightarrow> Inr ()
      | _ \<Rightarrow> Inl (CandidateError (''candidate contains special file: '' @ path_join base (fst entry))))"

lemma walk_directories_smaller:
  "(name, Directory sub) \<in> set (walk_directories es) \<Longrightarrow>
     size_list (size_prod (\<lambda>x. 0) size) sub < size_list (size_prod (\<lambda>x. 0) size) es"
proof -
  assume "(name, Directory sub) \<in> set (walk_directories es)"
  then have "(name, Directory sub) \<in> set es" by (auto simp: walk_directories_def visible_def)
  then show ?thesis by (rule size_list_estimation) simp
qed

text \<open>The loop over \<open>os.walk\<close>: a directory is checked before its subdirectories, in sorted order.\<close>

function walk_check :: "string \<Rightarrow> entries \<Rightarrow> unit result" where
  "walk_check base es =
     rbind (rtraverse (check_link base) (walk_directories es)) (\<lambda>_.
     rbind (rtraverse (check_file base) (walk_files es)) (\<lambda>_.
     rbind (rtraverse (\<lambda>entry. case entry of
              (name, Directory sub) \<Rightarrow> walk_check (path_join base name) sub
            | _ \<Rightarrow> Inr ()) (walk_directories es)) (\<lambda>_. Inr ())))"
  by pat_completeness auto
termination
  by (relation "measure (\<lambda>(base, es). size_list (size_prod (\<lambda>x. 0) size) es)")
    (auto dest: walk_directories_smaller)

declare walk_check.simps [simp del]

text \<open>The candidate path as the file system presents it, \<open>source\<close> its resolved form.\<close>

definition validate_candidate :: "string \<Rightarrow> node option \<Rightarrow> unit result" where
  "validate_candidate source content =
     (case content of
        Some (Symlink d) \<Rightarrow> Inl (CandidateError ''candidate root must not be a symlink'')
      | None \<Rightarrow> Inl (CandidateError (''candidate not found: '' @ source))
      | Some (RegularFile bytes) \<Rightarrow> Inr ()
      | Some Special \<Rightarrow> Inl (CandidateError (''candidate must be a file or directory: '' @ source))
      | Some (Directory es) \<Rightarrow> walk_check source es)"

section \<open>Copying\<close>

text \<open>
  \<open>_copy_directory\<close> walks again, with the same checks, and copies the regular files; the
  directories it meets are created even when nothing is copied into them.
\<close>

function copy_directory :: "string \<Rightarrow> entries \<Rightarrow> entries result" where
  "copy_directory base es =
     rbind (rtraverse (check_link base) (walk_directories es)) (\<lambda>_.
     rbind (rtraverse (\<lambda>entry. rbind (check_file base entry) (\<lambda>_. Inr entry))
              (sort_key fst (walk_files es))) (\<lambda>files.
     rbind (rtraverse (\<lambda>entry. case entry of
              (name, Directory sub) \<Rightarrow>
                rbind (copy_directory (path_join base name) sub) (\<lambda>copied. Inr (name, Directory copied))
            | _ \<Rightarrow> Inr entry) (walk_directories es)) (\<lambda>directories.
     Inr (files @ directories))))"
  by pat_completeness auto
termination
  by (relation "measure (\<lambda>(base, es). size_list (size_prod (\<lambda>x. 0) size) es)")
    (auto dest: walk_directories_smaller)

declare copy_directory.simps [simp del]

section \<open>Hashing\<close>

text \<open>
  \<open>base.rglob("*")\<close> restricted to regular files, as paths relative to the root; a link to
  a file is a file to \<open>is_file\<close>, and is refused by the loop.
\<close>

fun node_files :: "string list \<Rightarrow> string \<times> node \<Rightarrow> (string list \<times> node) list" where
  "node_files prefix (name, RegularFile bytes) = [(prefix @ [name], RegularFile bytes)]"
| "node_files prefix (name, Directory es) = concat (map (node_files (prefix @ [name])) es)"
| "node_files prefix (name, Symlink d) = (if d then [] else [(prefix @ [name], Symlink d)])"
| "node_files prefix (name, Special) = []"

definition snapshot_files :: "entries \<Rightarrow> (string list \<times> node) list" where
  "snapshot_files es = sort_key fst (concat (map (node_files []) es))"

definition posix_path :: "string list \<Rightarrow> string" where
  "posix_path parts = join ''/'' parts"

text \<open>\<open>n.to_bytes(8, "big")\<close>.\<close>

definition be64 :: "nat \<Rightarrow> nat list" where
  "be64 n = map (\<lambda>i. nat (int n div 256 ^ i mod 256)) (rev [0..<8])"

definition file_frame :: "string list \<Rightarrow> nat list \<Rightarrow> nat list" where
  "file_frame parts bytes = (let relative = utf8 (posix_path parts) in be64 (length relative) @ relative @ bytes)"

definition hash_step :: "string \<Rightarrow> nat list \<Rightarrow> string list \<times> node \<Rightarrow> nat list result" where
  "hash_step base stream file =
     (case snd file of
        RegularFile bytes \<Rightarrow> Inr (stream @ file_frame (fst file) bytes)
      | _ \<Rightarrow> Inl (CandidateError (''snapshot contains symlink: '' @ path_join base (posix_path (fst file)))))"

definition snapshot_stream :: "string \<Rightarrow> entries \<Rightarrow> nat list result" where
  "snapshot_stream base es = rfold (hash_step base) [] (snapshot_files es)"

definition hash_snapshot :: "py_env \<Rightarrow> string \<Rightarrow> entries \<Rightarrow> string result" where
  "hash_snapshot env base es = rbind (snapshot_stream base es) (\<lambda>stream. Inr (sha256 env stream))"

text \<open>The whole operation: the destination's entries and the digest.\<close>

definition path_name :: "string \<Rightarrow> string" where
  "path_name p = (let name = rev (takeWhile (\<lambda>c. c \<noteq> CHR ''/'') (rev p)) in if name = ''.'' then [] else name)"

definition snapshot_candidate ::
  "py_env \<Rightarrow> string \<Rightarrow> node option \<Rightarrow> string \<Rightarrow> (entries \<times> string) result" where
  "snapshot_candidate env source content destination =
     rbind (validate_candidate source content) (\<lambda>_.
     rbind (case content of
              Some (RegularFile bytes) \<Rightarrow> Inr [(path_name source, RegularFile bytes)]
            | Some (Directory es) \<Rightarrow> copy_directory source es
            | _ \<Rightarrow> Inr []) (\<lambda>copied.
     rbind (hash_snapshot env destination copied) (\<lambda>digest. Inr (copied, digest))))"

end
