(* ===== verification/Snapshot_Facts.thy ===== *)
theory Snapshot_Facts
  imports Snapshot
begin

text \<open>
  A candidate is accepted exactly when everything it contains outside ignored names is a
  regular file or a directory; then the snapshot holds exactly those files, and its digest
  is a function of the set of (path, bytes) pairs.  The byte stream behind the digest is
  not injective, because the bytes of a file are not framed.
\<close>

section \<open>The files a snapshot keeps\<close>

fun clean_node :: "node \<Rightarrow> bool" where
  "clean_node (RegularFile bytes) = True"
| "clean_node (Directory es) = list_all (\<lambda>(name, n). name \<in> set IGNORED_NAMES \<or> clean_node n) es"
| "clean_node (Symlink d) = False"
| "clean_node Special = False"

definition clean :: "entries \<Rightarrow> bool" where
  "clean es \<longleftrightarrow> list_all (\<lambda>(name, n). name \<in> set IGNORED_NAMES \<or> clean_node n) es"

lemma clean_node_Directory [simp]: "clean_node (Directory es) \<longleftrightarrow> clean es"
  by (simp add: clean_def)

declare clean_node.simps(2) [simp del]

fun kept_node :: "string list \<Rightarrow> string \<times> node \<Rightarrow> (string list \<times> nat list) list" where
  "kept_node prefix (name, RegularFile bytes) =
     (if name \<in> set IGNORED_NAMES then [] else [(prefix @ [name], bytes)])"
| "kept_node prefix (name, Directory es) =
     (if name \<in> set IGNORED_NAMES then [] else concat (map (kept_node (prefix @ [name])) es))"
| "kept_node prefix (name, _) = []"

definition kept_files :: "entries \<Rightarrow> (string list \<times> nat list) list" where
  "kept_files es = concat (map (kept_node []) es)"

fun wf_node :: "node \<Rightarrow> bool" where
  "wf_node (Directory es) \<longleftrightarrow> distinct (map fst es) \<and> list_all (\<lambda>(name, n). wf_node n) es"
| "wf_node _ \<longleftrightarrow> True"

definition wf_entries :: "entries \<Rightarrow> bool" where
  "wf_entries es \<longleftrightarrow> wf_node (Directory es)"

section \<open>Acceptance\<close>

lemma set_walk_directories: "set (walk_directories es) = {(name, n) \<in> set es. name \<notin> set IGNORED_NAMES \<and> walks_as_directory n}"
  by (auto simp: walk_directories_def visible_def)

lemma set_walk_files: "set (walk_files es) = {(name, n) \<in> set es. name \<notin> set IGNORED_NAMES \<and> \<not> walks_as_directory n}"
  by (auto simp: walk_files_def visible_def)

lemma rtraverse_unit_Inr: "(\<exists>us. rtraverse f xs = Inr us) \<longleftrightarrow> (\<forall>x \<in> set xs. \<exists>u. f x = Inr u)"
proof (induction xs)
  case Nil
  then show ?case by simp
next
  case (Cons x xs)
  have "(\<exists>us. rtraverse f (x # xs) = Inr us) \<longleftrightarrow> (\<exists>u. f x = Inr u) \<and> (\<exists>us. rtraverse f xs = Inr us)"
    by auto
  with Cons show ?case by simp
qed

lemma check_link_Inr: "(\<exists>u. check_link base e = Inr u) \<longleftrightarrow> \<not> is_link (snd e)"
  by (simp add: check_link_def)

lemma check_file_Inr: "(\<exists>u. check_file base e = Inr u) \<longleftrightarrow> (\<exists>bytes. snd e = RegularFile bytes)"
  by (cases "snd e") (simp_all add: check_file_def)

lemma level_clean:
  "clean es \<longleftrightarrow> (\<forall>e \<in> set (walk_directories es). \<not> is_link (snd e)) \<and>
     (\<forall>e \<in> set (walk_files es). \<exists>bytes. snd e = RegularFile bytes) \<and>
     (\<forall>(name, n) \<in> set (walk_directories es). \<forall>sub. n = Directory sub \<longrightarrow> clean sub)"
proof
  assume "clean es"
  then have c: "clean_node n" if "(name, n) \<in> set es" "name \<notin> set IGNORED_NAMES" for name n
    using that by (auto simp: clean_def list_all_iff)
  have "\<not> is_link n" if "(name, n) \<in> set (walk_directories es)" for name n
    using that c [of name n] by (cases n) (auto simp: set_walk_directories)
  moreover have "\<exists>bytes. n = RegularFile bytes" if "(name, n) \<in> set (walk_files es)" for name n
    using that c [of name n] by (cases n) (auto simp: set_walk_files)
  moreover have "clean sub" if "(name, Directory sub) \<in> set (walk_directories es)" for name sub
    using that c [of name "Directory sub"] by (auto simp: set_walk_directories)
  ultimately show "(\<forall>e \<in> set (walk_directories es). \<not> is_link (snd e)) \<and>
     (\<forall>e \<in> set (walk_files es). \<exists>bytes. snd e = RegularFile bytes) \<and>
     (\<forall>(name, n) \<in> set (walk_directories es). \<forall>sub. n = Directory sub \<longrightarrow> clean sub)"
    by (intro conjI ballI) (auto simp: split_paired_all)
next
  assume r: "(\<forall>e \<in> set (walk_directories es). \<not> is_link (snd e)) \<and>
     (\<forall>e \<in> set (walk_files es). \<exists>bytes. snd e = RegularFile bytes) \<and>
     (\<forall>(name, n) \<in> set (walk_directories es). \<forall>sub. n = Directory sub \<longrightarrow> clean sub)"
  have "clean_node n" if "(name, n) \<in> set es" "name \<notin> set IGNORED_NAMES" for name n
  proof (cases "walks_as_directory n")
    case True
    then have m: "(name, n) \<in> set (walk_directories es)" using that by (simp add: set_walk_directories)
    have "\<not> is_link n" using r m by fastforce
    with True obtain sub where "n = Directory sub" by (cases n) auto
    moreover have "clean sub" using r m calculation by fastforce
    ultimately show ?thesis by simp
  next
    case False
    then have "(name, n) \<in> set (walk_files es)" using that by (simp add: set_walk_files)
    then show ?thesis using r by fastforce
  qed
  then show "clean es" by (auto simp: clean_def list_all_iff)
qed

lemma walk_check_Inr: "walk_check base es = Inr u \<longleftrightarrow> clean es"
proof (induction "size_list (size_prod (\<lambda>x. 0) size) es" arbitrary: base es u rule: less_induct)
  case less
  have sub: "(\<exists>u. (case e of (name, Directory sub) \<Rightarrow> walk_check (path_join base name) sub | _ \<Rightarrow> Inr ()) = Inr u)
      \<longleftrightarrow> (\<forall>s. snd e = Directory s \<longrightarrow> clean s)" if e: "e \<in> set (walk_directories es)" for e
  proof (cases "snd e")
    case (Directory s)
    then have "e = (fst e, Directory s)" by (cases e) simp
    with e have "(fst e, Directory s) \<in> set (walk_directories es)" by simp
    from less [OF walk_directories_smaller [OF this]] Directory show ?thesis by (cases e) auto
  qed (cases e, simp)+
  have "walk_check base es = Inr u \<longleftrightarrow>
      (\<exists>us. rtraverse (check_link base) (walk_directories es) = Inr us) \<and>
      (\<exists>us. rtraverse (check_file base) (walk_files es) = Inr us) \<and>
      (\<exists>us. rtraverse (\<lambda>e. case e of (name, Directory sub) \<Rightarrow> walk_check (path_join base name) sub
          | _ \<Rightarrow> Inr ()) (walk_directories es) = Inr us)"
    by (subst walk_check.simps) auto
  then show ?case
    unfolding rtraverse_unit_Inr check_link_Inr check_file_Inr level_clean [of es]
    using sub by fastforce
qed

section \<open>The copy\<close>

text \<open>The tree a clean directory is copied to.\<close>

function copied :: "entries \<Rightarrow> entries" where
  "copied es = sort_key fst (walk_files es) @
     map (\<lambda>e. case e of (name, Directory sub) \<Rightarrow> (name, Directory (copied sub)) | _ \<Rightarrow> e) (walk_directories es)"
  by pat_completeness auto
termination
  by (relation "measure (size_list (size_prod (\<lambda>x. 0) size))") (auto dest: walk_directories_smaller)

declare copied.simps [simp del]

lemma rtraverse_const: "(\<And>x. x \<in> set xs \<Longrightarrow> f x = Inr (g x)) \<Longrightarrow> rtraverse f xs = Inr (map g xs)"
  by (rule rtraverse_all_Inr)

lemma copy_directory_clean: "clean es \<Longrightarrow> copy_directory base es = Inr (copied es)"
proof (induction "size_list (size_prod (\<lambda>x. 0) size) es" arbitrary: base es rule: less_induct)
  case less
  note lvl = less.prems [unfolded level_clean [of es]]
  have links: "rtraverse (check_link base) (walk_directories es) = Inr (map (\<lambda>e. ()) (walk_directories es))"
    using lvl by (intro rtraverse_const) (auto simp: check_link_def)
  have files: "rtraverse (\<lambda>e. rbind (check_file base e) (\<lambda>_. Inr e)) (sort_key fst (walk_files es))
      = Inr (map (\<lambda>e. e) (sort_key fst (walk_files es)))"
    using lvl by (intro rtraverse_const) (fastforce simp: check_file_def split: node.splits)
  have dirs: "rtraverse (\<lambda>e. case e of (name, Directory sub) \<Rightarrow>
        rbind (copy_directory (path_join base name) sub) (\<lambda>copied. Inr (name, Directory copied)) | _ \<Rightarrow> Inr e)
      (walk_directories es) =
    Inr (map (\<lambda>e. case e of (name, Directory sub) \<Rightarrow> (name, Directory (copied sub)) | _ \<Rightarrow> e) (walk_directories es))"
  proof (rule rtraverse_const)
    fix e assume e: "e \<in> set (walk_directories es)"
    obtain name n where n: "e = (name, n)" by (cases e)
    show "(case e of (name, Directory sub) \<Rightarrow>
        rbind (copy_directory (path_join base name) sub) (\<lambda>copied. Inr (name, Directory copied)) | _ \<Rightarrow> Inr e)
      = Inr (case e of (name, Directory sub) \<Rightarrow> (name, Directory (copied sub)) | _ \<Rightarrow> e)"
    proof (cases n)
      case (Directory sub)
      then have m: "(name, Directory sub) \<in> set (walk_directories es)" using e n by simp
      then have "clean sub" using lvl by fastforce
      from less.hyps [OF walk_directories_smaller [OF m] this] show ?thesis by (simp add: n Directory)
    qed (simp_all add: n)
  qed
  show ?case by (subst copy_directory.simps) (simp add: links files dirs copied.simps [of es])
qed

definition as_nodes :: "(string list \<times> nat list) list \<Rightarrow> (string list \<times> node) list" where
  "as_nodes fs = map (\<lambda>(p, b). (p, RegularFile b)) fs"

lemma mset_concat_map_cong:
  "mset xs = mset ys \<Longrightarrow> (\<And>x. x \<in> set xs \<Longrightarrow> mset (f x) = mset (g x)) \<Longrightarrow>
     mset (concat (map f xs)) = mset (concat (map g ys))"
proof -
  assume p: "mset xs = mset ys" and fg: "\<And>x. x \<in> set xs \<Longrightarrow> mset (f x) = mset (g x)"
  have "mset (concat (map f xs)) = (\<Sum>x \<in># mset xs. mset (f x))" by (induction xs) auto
  also have "\<dots> = (\<Sum>x \<in># mset xs. mset (g x))" by (rule arg_cong [where f = sum_mset], rule image_mset_cong) (simp add: fg)
  also have "\<dots> = (\<Sum>x \<in># mset ys. mset (g x))" by (simp add: p)
  also have "\<dots> = mset (concat (map g ys))" by (induction ys) auto
  finally show ?thesis .
qed

lemma kept_ignored: "fst e \<in> set IGNORED_NAMES \<Longrightarrow> kept_node prefix e = []"
  by (cases "(prefix, e)" rule: kept_node.cases) auto

lemma concat_kept_visible: "concat (map (kept_node prefix) (visible es)) = concat (map (kept_node prefix) es)"
  unfolding visible_def by (induction es) (auto simp: kept_ignored)

lemma visible_mset: "mset (walk_files es @ walk_directories es) = mset (visible es)"
proof -
  have "filter (\<lambda>(name, n). \<not> walks_as_directory n) (visible es) = filter (\<lambda>e. \<not> walks_as_directory (snd e)) (visible es)"
    "filter (\<lambda>(name, n). walks_as_directory n) (visible es) = filter (\<lambda>e. walks_as_directory (snd e)) (visible es)"
    by (auto intro: filter_cong)
  then show ?thesis
    by (simp add: walk_files_def walk_directories_def del: mset_filter flip: multiset_partition)
       (simp add: union_commute flip: multiset_partition)
qed

lemma copied_files:
  assumes "clean es"
  shows "mset (concat (map (node_files prefix) (copied es))) = mset (as_nodes (concat (map (kept_node prefix) es)))"
  using assms
proof (induction "size_list (size_prod (\<lambda>x. 0) size) es" arbitrary: prefix es rule: less_induct)
  case less
  note lvl = less.prems [unfolded level_clean [of es]]
  let ?d = "\<lambda>e. case e of (name, Directory sub) \<Rightarrow> (name, Directory (copied sub)) | _ \<Rightarrow> e"
  have f: "node_files prefix e = as_nodes (kept_node prefix e)" if "e \<in> set (walk_files es)" for e
  proof -
    from that lvl obtain b where "snd e = RegularFile b" by blast
    moreover have "fst e \<notin> set IGNORED_NAMES" using that by (auto simp: set_walk_files)
    ultimately show ?thesis by (cases e) (simp add: as_nodes_def)
  qed
  have d: "mset (node_files prefix (?d e)) = mset (as_nodes (kept_node prefix e))"
    if e: "e \<in> set (walk_directories es)" for e
  proof -
    have "\<not> is_link (snd e)" "walks_as_directory (snd e)" using e lvl by (auto simp: set_walk_directories)
    then obtain sub where "snd e = Directory sub" by (cases "snd e") auto
    then have es: "e = (fst e, Directory sub)" by (cases e) simp
    then have m: "(fst e, Directory sub) \<in> set (walk_directories es)" using e by simp
    then have c: "clean sub" using lvl by fastforce
    have ni: "fst e \<notin> set IGNORED_NAMES" using e by (auto simp: set_walk_directories)
    show ?thesis
      using less.hyps [OF walk_directories_smaller [OF m] c] ni by (subst (1 2) es) simp
  qed
  have "mset (concat (map (node_files prefix) (copied es))) =
      mset (concat (map (node_files prefix) (walk_files es))) +
      mset (concat (map (node_files prefix \<circ> ?d) (walk_directories es)))"
    by (simp add: copied.simps [of es] mset_concat_map_cong [of "sort_key fst (walk_files es)" "walk_files es"])
  also have "\<dots> = mset (concat (map (as_nodes \<circ> kept_node prefix) (walk_files es))) +
      mset (concat (map (as_nodes \<circ> kept_node prefix) (walk_directories es)))"
    by (intro arg_cong2 [where f = "(+)"] mset_concat_map_cong) (simp_all add: f d)
  also have "\<dots> = mset (concat (map (as_nodes \<circ> kept_node prefix) (walk_files es @ walk_directories es)))" by simp
  also have "\<dots> = mset (concat (map (as_nodes \<circ> kept_node prefix) (visible es)))"
    by (rule mset_concat_map_cong [OF visible_mset refl])
  also have "concat (map (as_nodes \<circ> kept_node prefix) xs) = as_nodes (concat (map (kept_node prefix) xs))" for xs
    by (induction xs) (simp_all add: as_nodes_def)
  finally show ?case by (simp add: concat_kept_visible)
qed

section \<open>Distinct paths\<close>

lemma kept_prefix: "(p, b) \<in> set (kept_node prefix e) \<Longrightarrow> \<exists>rest. p = prefix @ fst e # rest"
proof (induction prefix e arbitrary: p b rule: kept_node.induct)
  case (2 prefix name es)
  then obtain e where "e \<in> set es" "(p, b) \<in> set (kept_node (prefix @ [name]) e)" "name \<notin> set IGNORED_NAMES"
    by (auto split: if_splits)
  with 2 obtain rest where "p = (prefix @ [name]) @ fst e # rest" by blast
  then show ?case by simp
qed (auto split: if_splits)

lemma kept_distinct:
  "(\<And>e. e \<in> set es \<Longrightarrow> distinct (map fst (kept_node prefix e))) \<Longrightarrow> distinct (map fst es) \<Longrightarrow>
     distinct (map fst (concat (map (kept_node prefix) es)))"
proof (induction es)
  case Nil
  then show ?case by simp
next
  case (Cons e es)
  have "set (map fst (kept_node prefix e)) \<inter> set (map fst (concat (map (kept_node prefix) es))) = {}"
  proof (rule ccontr)
    assume "\<not> ?thesis"
    then obtain p b c e' where "(p, b) \<in> set (kept_node prefix e)" "e' \<in> set es"
      "(p, c) \<in> set (kept_node prefix e')" by fastforce
    then obtain r r' where "p = prefix @ fst e # r" "p = prefix @ fst e' # r'"
      using kept_prefix by blast
    then have "fst e = fst e'" by simp
    with \<open>e' \<in> set es\<close> Cons.prems(2) show False by (metis distinct.simps(2) imageI list.set_map list.simps(9))
  qed
  moreover have "distinct (map fst (kept_node prefix e))" using Cons.prems(1) by simp
  moreover have "distinct (map fst (concat (map (kept_node prefix) es)))" using Cons by simp
  ultimately show ?case by (simp del: set_map)
qed

lemma kept_node_distinct: "wf_node (snd e) \<Longrightarrow> distinct (map fst (kept_node prefix e))"
proof (induction prefix e rule: kept_node.induct)
  case (2 prefix name es)
  show ?case
  proof (cases "name \<in> set IGNORED_NAMES")
    case False
    with 2 have "distinct (map fst (concat (map (kept_node (prefix @ [name])) es)))"
      by (intro kept_distinct) (auto simp: list_all_iff)
    with False show ?thesis by simp
  qed simp
qed (auto split: if_splits)

lemma kept_files_distinct:
  assumes "wf_entries es"
  shows "distinct (map fst (kept_files es))"
proof -
  have "distinct (map fst es)" "list_all (\<lambda>(name, n). wf_node n) es" using assms by (simp_all add: wf_entries_def)
  then show ?thesis unfolding kept_files_def
    by (intro kept_distinct kept_node_distinct) (auto simp: list_all_iff)
qed

section \<open>The digest\<close>

definition frames :: "(string list \<times> nat list) list \<Rightarrow> nat list" where
  "frames fs = concat (map (\<lambda>(p, b). file_frame p b) fs)"

lemma sort_key_mset:
  "mset xs = mset ys \<Longrightarrow> distinct (map f xs) \<Longrightarrow> sort_key f xs = sort_key f ys"
  by (rule sort_key_inj_key_eq) (auto simp: distinct_map)

lemma hash_steps: "rfold (hash_step base) acc (as_nodes fs) = Inr (acc @ frames fs)"
  by (induction fs arbitrary: acc) (auto simp: as_nodes_def hash_step_def frames_def)

lemma map_fst_as_nodes [simp]: "map fst (as_nodes fs) = map fst fs"
  by (induction fs) (auto simp: as_nodes_def)

lemma sort_as_nodes: "sort_key fst (as_nodes fs) = as_nodes (sort_key fst fs)" if "distinct (map fst fs)"
proof -
  have d: "distinct (map fst (as_nodes fs))" using that by simp
  have "mset (as_nodes fs) = mset (as_nodes (sort_key fst fs))" by (simp add: as_nodes_def)
  then have "sort_key fst (as_nodes fs) = sort_key fst (as_nodes (sort_key fst fs))"
    by (rule sort_key_mset) (rule d)
  also have "\<dots> = as_nodes (sort_key fst fs)"
    by (rule sort_key_id_if_sorted) simp
  finally show ?thesis .
qed

lemma snapshot_files_copied:
  assumes "clean es" and "wf_entries es"
  shows "snapshot_files (copied es) = as_nodes (sort_key fst (kept_files es))"
proof -
  have m: "mset (concat (map (node_files []) (copied es))) = mset (as_nodes (kept_files es))"
    using copied_files [OF assms(1), of "[]"] by (simp add: kept_files_def)
  have d: "distinct (map fst (kept_files es))" using assms(2) by (rule kept_files_distinct)
  then have d': "distinct (map fst (as_nodes (kept_files es)))" by simp
  have "sort_key fst (concat (map (node_files []) (copied es))) = sort_key fst (as_nodes (kept_files es))"
    using sort_key_mset [OF m [symmetric] d'] by simp
  then show ?thesis by (simp add: snapshot_files_def sort_as_nodes [OF d])
qed

lemma snapshot_clean:
  assumes "clean es" and "wf_entries es"
  shows "snapshot_candidate env src (Some (Directory es)) dst =
    Inr (copied es, sha256 env (frames (sort_key fst (kept_files es))))"
  using assms walk_check_Inr [of src es "()"]
  by (simp add: snapshot_candidate_def validate_candidate_def copy_directory_clean hash_snapshot_def
      snapshot_stream_def snapshot_files_copied hash_steps)

lemma check_Inl:
  "check_link base e = Inl x \<Longrightarrow> \<exists>m. x = CandidateError m"
  "check_file base e = Inl x \<Longrightarrow> \<exists>m. x = CandidateError m"
  by (auto simp: check_link_def check_file_def split: if_splits node.splits)

lemma walk_check_Inl: "walk_check base es = Inl x \<Longrightarrow> \<exists>m. x = CandidateError m"
proof (induction "size_list (size_prod (\<lambda>x. 0) size) es" arbitrary: base es rule: less_induct)
  case less
  from less.prems consider "rtraverse (check_link base) (walk_directories es) = Inl x"
    | "rtraverse (check_file base) (walk_files es) = Inl x"
    | "rtraverse (\<lambda>e. case e of (name, Directory sub) \<Rightarrow> walk_check (path_join base name) sub | _ \<Rightarrow> Inr ())
        (walk_directories es) = Inl x"
    by (subst (asm) walk_check.simps) (auto simp: rbind_eq_Inl_iff)
  then show ?case
  proof cases
    case 1
    then show ?thesis by (auto dest!: rtraverse_InlD check_Inl)
  next
    case 2
    then show ?thesis by (auto dest!: rtraverse_InlD check_Inl)
  next
    case 3
    then obtain e where e: "e \<in> set (walk_directories es)"
      "(case e of (name, Directory sub) \<Rightarrow> walk_check (path_join base name) sub | _ \<Rightarrow> Inr ()) = Inl x"
      by (auto dest: rtraverse_InlD)
    then obtain name sub where "e = (name, Directory sub)" "walk_check (path_join base name) sub = Inl x"
      by (auto split: prod.splits node.splits)
    with e(1) less.hyps [OF walk_directories_smaller] show ?thesis by blast
  qed
qed

lemma snapshot_not_clean:
  assumes "\<not> clean es"
  shows "\<exists>m. snapshot_candidate env src (Some (Directory es)) dst = Inl (CandidateError m)"
proof (cases "walk_check src es")
  case (Inl x)
  then show ?thesis using walk_check_Inl [OF Inl] by (auto simp: snapshot_candidate_def validate_candidate_def)
next
  case (Inr u)
  with assms walk_check_Inr show ?thesis by blast
qed

text \<open>Two trees with the same files have the same frames.\<close>

lemma frames_determined:
  assumes "wf_entries es" and "wf_entries es'" and "set (kept_files es) = set (kept_files es')"
  shows "sort_key fst (kept_files es) = sort_key fst (kept_files es')"
proof (rule sort_key_mset)
  have d: "distinct (map fst (kept_files es))" "distinct (map fst (kept_files es'))"
    using assms by (simp_all add: kept_files_distinct)
  then show "mset (kept_files es) = mset (kept_files es')"
    using assms(3) by (metis distinct_map set_eq_iff_mset_eq_distinct)
  show "distinct (map fst (kept_files es))" by (rule d)
qed

definition sample_tree :: entries where
  "sample_tree = [(''main.cu'', RegularFile [1, 2]), (''.git'', Directory [(''HEAD'', Symlink False)]),
     (''lib'', Directory [(''a.h'', RegularFile [3])])]"

definition sample_tree_listed_otherwise :: entries where
  "sample_tree_listed_otherwise = [(''lib'', Directory [(''a.h'', RegularFile [3]), (''__pycache__'', Special)]),
     (''main.cu'', RegularFile [1, 2])]"

lemma sample_tree_ok:
  "wf_entries sample_tree" "clean sample_tree"
  "wf_entries sample_tree_listed_otherwise" "clean sample_tree_listed_otherwise"
  "set (kept_files sample_tree) = set (kept_files sample_tree_listed_otherwise)"
  by (auto simp: wf_entries_def sample_tree_def sample_tree_listed_otherwise_def clean_def IGNORED_NAMES_def kept_files_def)

section \<open>Properties\<close>

text \<open>C7: A candidate directory is snapshotted exactly when everything in it outside ignored
  names is a regular file or a directory; the snapshot then holds exactly those files, by path
  and content, and its digest is the hash of their frames in path order.  Any other tree is
  refused with a candidate error.\<close>

theorem snapshot_keeps_regular_files:
  assumes "wf_entries es"
  shows "(clean es \<longrightarrow> (\<exists>snap. snapshot_candidate env src (Some (Directory es)) dst =
        Inr (snap, sha256 env (frames (sort_key fst (kept_files es)))) \<and>
        snapshot_files snap = as_nodes (sort_key fst (kept_files es)))) \<and>
    (\<not> clean es \<longrightarrow> (\<exists>m. snapshot_candidate env src (Some (Directory es)) dst = Inl (CandidateError m)))"
  using snapshot_clean [OF _ assms] snapshot_files_copied [OF _ assms] snapshot_not_clean by blast

theorem snapshot_keeps_regular_files_witness:
  "\<exists>snap. snapshot_candidate sample_env ''/c'' (Some (Directory sample_tree)) ''/d'' =
        Inr (snap, sha256 sample_env (frames (sort_key fst (kept_files sample_tree)))) \<and>
        snapshot_files snap = as_nodes (sort_key fst (kept_files sample_tree))"
  using snapshot_keeps_regular_files [OF sample_tree_ok(1), of sample_env "''/c''" "''/d''"] sample_tree_ok(2) by blast

text \<open>The digest of an accepted candidate depends only on its files: neither the order in
  which directories list them, nor ignored entries, nor where the candidate lies matter.\<close>

lemma snapshot_digest_deterministic:
  assumes "wf_entries es" and "wf_entries es'" and "set (kept_files es) = set (kept_files es')"
    and "snapshot_candidate env src (Some (Directory es)) dst = Inr (snap, d)"
    and "snapshot_candidate env src' (Some (Directory es')) dst' = Inr (snap', d')"
  shows "d = d'"
proof -
  have "clean es" "clean es'" using assms(4,5) snapshot_not_clean by (metis Inl_Inr_False)+
  then show ?thesis
    using assms snapshot_clean frames_determined [OF assms(1-3)] by simp
qed

theorem snapshot_digest_deterministic_witness:
  "sha256 sample_env (frames (sort_key fst (kept_files sample_tree))) =
     sha256 sample_env (frames (sort_key fst (kept_files sample_tree_listed_otherwise)))"
  using snapshot_digest_deterministic [OF sample_tree_ok(1,3,5)
      snapshot_clean [OF sample_tree_ok(2,1), of sample_env "''/c''" "''/d''"]
      snapshot_clean [OF sample_tree_ok(4,3), of sample_env "''/x''" "''/y''"]] .

text \<open>C21: The digest does not identify the snapshot: for any two contents there are two
  different accepted candidates, one with two files and one with a single file, whose snapshots
  differ and whose digests are equal whatever the hash function, because file contents are
  hashed without their length.\<close>

theorem snapshot_digest_collision:
  "\<exists>es es' snap snap' d. snap \<noteq> snap' \<and>
     es = [(''a'', RegularFile b1), (''b'', RegularFile b2)] \<and>
     snapshot_candidate env src (Some (Directory es)) dst = Inr (snap, d) \<and>
     snapshot_candidate env src (Some (Directory es')) dst = Inr (snap', d)"
proof -
  let ?es = "[(''a'', RegularFile b1), (''b'', RegularFile b2)]"
  let ?es' = "[(''a'', RegularFile (b1 @ file_frame [''b''] b2))]"
  have wf: "wf_entries ?es" "wf_entries ?es'" "clean ?es" "clean ?es'"
    by (simp_all add: wf_entries_def clean_def)
  have k: "sort_key fst (kept_files ?es) = [([''a''], b1), ([''b''], b2)]"
    "sort_key fst (kept_files ?es') = [([''a''], b1 @ file_frame [''b''] b2)]"
    by (simp_all add: kept_files_def IGNORED_NAMES_def)
  have f: "frames (sort_key fst (kept_files ?es)) = frames (sort_key fst (kept_files ?es'))"
    unfolding k by (simp add: frames_def file_frame_def [of "[''a'']"] Let_def)
  have c: "copied ?es = ?es" "copied ?es' = ?es'"
    by (subst copied.simps, simp add: walk_files_def walk_directories_def visible_def IGNORED_NAMES_def)+
  show ?thesis
  proof (intro exI conjI)
    show "?es \<noteq> ?es'" by simp
    show "snapshot_candidate env src (Some (Directory ?es)) dst =
        Inr (?es, sha256 env (frames (sort_key fst (kept_files ?es))))"
      using snapshot_clean [OF wf(3,1), of env src dst] unfolding c .
    show "snapshot_candidate env src (Some (Directory ?es')) dst =
        Inr (?es', sha256 env (frames (sort_key fst (kept_files ?es))))"
      using snapshot_clean [OF wf(4,2), of env src dst] unfolding c f .
  qed (rule refl)
qed

end
