(* ===== verification/Run_Store.thy ===== *)
theory Run_Store
  imports Snapshot_Facts Frontier_Facts
begin

text \<open>
  \<open>src/kernel_infra/store.py\<close>: the run directories.  A run directory is the record
  \<open>run_files\<close> of the files the code writes into it; the store maps run ids to them.  The
  clock is an argument: \<open>utc_now\<close> reads the next instant.  Every operation that can raise
  leaves the store as it was when it does.
\<close>

section \<open>State\<close>

record run_state =
  rn_id :: string
  rn_task_id :: string
  rn_task_sha256 :: string
  rn_candidate_sha256 :: string
  rn_label :: string
  rn_state :: run_lifecycle
  rn_stage_id :: "string option"
  rn_stage_kind :: "stage_kind option"
  rn_stage_index :: "nat option"
  rn_broker_job_id :: "string option"
  rn_gpu_ids :: "int list"
  rn_service_deployment_ids :: "string list"
  rn_accepted_at :: string
  rn_updated_at :: string
  rn_terminal_at :: "string option"
  rn_reason :: "string option"

record run_event =
  ev_at :: string
  ev_event :: string
  ev_run_id :: string
  ev_state :: run_lifecycle
  ev_stage_id :: "string option"
  ev_broker_job_id :: "string option"
  ev_gpu_ids :: "int list"
  ev_reason :: "string option"

record run_request =
  rq_run_id :: string
  rq_task_id :: string
  rq_task_sha256 :: string
  rq_candidate_sha256 :: string
  rq_candidate_source :: string
  rq_task_source :: string
  rq_label :: string
  rq_accepted_at :: string
  rq_stages :: "json list"

record stage_receipt =
  sc_run_id :: string
  sc_stage_id :: string
  sc_stage_kind :: stage_kind
  sc_execution :: execution
  sc_judge_identity :: string
  sc_started_at :: string
  sc_finished_at :: string
  sc_exit_code :: int
  sc_broker_job_id :: "string option"
  sc_gpu_ids :: "int list"
  sc_judge_result_valid :: bool
  sc_error :: "string option"

record run_files =
  rf_task :: json
  rf_candidate :: entries
  rf_request :: run_request
  rf_state :: run_state
  rf_events :: "run_event list"
  rf_stage_dirs :: "string list"
  rf_receipts :: "stage_receipt dict"
  rf_result :: "run_result option"

record run_store =
  store_runs :: "run_files dict"
  store_frontiers :: "(string list \<times> frontier_projection) list"
  store_tick :: nat

type_synonym clock = "nat \<Rightarrow> string"

definition utc_now :: "clock \<Rightarrow> run_store \<Rightarrow> string \<times> run_store" where
  "utc_now clock st = (clock (store_tick st), st\<lparr>store_tick := Suc (store_tick st)\<rparr>)"

section \<open>Creating a run\<close>

definition request_stage :: "stage_spec \<Rightarrow> json" where
  "request_stage s = JObj [
     (''id'', JStr (st_id s)),
     (''kind'', JStr (kind_name (st_kind s))),
     (''execution'', JStr (execution_name (st_execution s))),
     (''judge_identity'', JStr (st_judge_identity s)),
     (''resolved_cwd'', JStr (st_cwd s)),
     (''command'', JList (map JStr (st_command s))),
     (''service_deployment'', (case st_service_deployment_id s of None \<Rightarrow> JNull | Some d \<Rightarrow> JStr d)),
     (''resources'', (case st_resources s of None \<Rightarrow> JNull | Some r \<Rightarrow> request_resources r))]"

text \<open>\<open>sorted({...})\<close> over the stages that name a deployment.\<close>

definition task_deployments :: "task_spec \<Rightarrow> string list" where
  "task_deployments task =
     sort (remdups (concat (map (\<lambda>s. case st_service_deployment_id s of None \<Rightarrow> [] | Some d \<Rightarrow> [d]) (task_stages task))))"

definition run_dir :: "string \<Rightarrow> unit result" where
  "run_dir rid =
     (if rid = [] \<or> CHR ''/'' \<in> set rid \<or> rid \<in> {''.'', ''..''}
      then Inl (ValueError (''invalid run id: '' @ repr_str rid)) else Inr ())"

definition append_event :: "clock \<Rightarrow> string \<Rightarrow> run_state \<Rightarrow> run_event list \<Rightarrow> run_store \<Rightarrow> run_event list \<times> run_store" where
  "append_event clock event s events st =
     (case utc_now clock st of (now, st') \<Rightarrow>
        (events @ [\<lparr>ev_at = now, ev_event = event, ev_run_id = rn_id s, ev_state = rn_state s,
           ev_stage_id = rn_stage_id s, ev_broker_job_id = rn_broker_job_id s, ev_gpu_ids = rn_gpu_ids s,
           ev_reason = rn_reason s\<rparr>], st'))"

definition initial_request :: "py_env \<Rightarrow> task_spec \<Rightarrow> string \<Rightarrow> string \<Rightarrow> string \<Rightarrow> string \<Rightarrow> string \<Rightarrow> run_request" where
  "initial_request env task rid candidate_digest candidate label now =
     \<lparr>rq_run_id = rid, rq_task_id = task_id task, rq_task_sha256 = task_digest task,
      rq_candidate_sha256 = candidate_digest,
      rq_candidate_source = resolve_path env (expanduser env candidate),
      rq_task_source = task_source_path task, rq_label = label, rq_accepted_at = now,
      rq_stages = map request_stage (task_stages task)\<rparr>"

definition initial_state :: "task_spec \<Rightarrow> string \<Rightarrow> string \<Rightarrow> string \<Rightarrow> string \<Rightarrow> run_state" where
  "initial_state task rid candidate_digest label now =
     \<lparr>rn_id = rid, rn_task_id = task_id task, rn_task_sha256 = task_digest task,
      rn_candidate_sha256 = candidate_digest, rn_label = label, rn_state = Accepted,
      rn_stage_id = None, rn_stage_kind = None, rn_stage_index = None, rn_broker_job_id = None,
      rn_gpu_ids = [], rn_service_deployment_ids = task_deployments task,
      rn_accepted_at = now, rn_updated_at = now, rn_terminal_at = None, rn_reason = None\<rparr>"

text \<open>
  The directory is made first, so an existing run is never overwritten; a candidate that
  cannot be snapshotted removes it again.
\<close>

definition create_run ::
  "py_env \<Rightarrow> clock \<Rightarrow> string \<Rightarrow> task_spec \<Rightarrow> string \<Rightarrow> node option \<Rightarrow> string \<Rightarrow> run_store \<Rightarrow> (run_state \<times> run_store) result" where
  "create_run env clock suffix task candidate content label st =
     (let rid = task_id task @ ''-'' @ suffix in
     rbind (run_dir rid) (\<lambda>_.
     if dict_has rid (store_runs st) then Inl (FileExistsError rid)
     else
     rbind (snapshot_candidate env (resolve_path env (expanduser env candidate)) content (rid @ ''/candidate''))
       (\<lambda>(snapshot, candidate_digest).
     case utc_now clock st of (now, st1) \<Rightarrow>
     let state = initial_state task rid candidate_digest label now
     in case append_event clock ''accepted'' state [] st1 of (events, st2) \<Rightarrow>
     Inr (state, st2\<lparr>store_runs := dict_set rid
       \<lparr>rf_task = task_raw task, rf_candidate = snapshot,
        rf_request = initial_request env task rid candidate_digest candidate label now,
        rf_state = state, rf_events = events, rf_stage_dirs = [], rf_receipts = [], rf_result = None\<rparr> (store_runs st2)\<rparr>))))"

section \<open>Reading and updating\<close>

definition read_files :: "string \<Rightarrow> run_store \<Rightarrow> run_files result" where
  "read_files rid st = rbind (run_dir rid) (\<lambda>_.
     case dict_get rid (store_runs st) of
       None \<Rightarrow> Inl (KeyError (''run not found: '' @ rid))
     | Some files \<Rightarrow> Inr files)"

definition read_state :: "string \<Rightarrow> run_store \<Rightarrow> run_state result" where
  "read_state rid st = rbind (read_files rid st) (\<lambda>files. Inr (rf_state files))"

definition read_request :: "string \<Rightarrow> run_store \<Rightarrow> run_request result" where
  "read_request rid st = rbind (run_dir rid) (\<lambda>_.
     case dict_get rid (store_runs st) of
       None \<Rightarrow> Inl (KeyError (''run request not found: '' @ rid))
     | Some files \<Rightarrow> Inr (rf_request files))"

text \<open>The terminal time is written by the first update that leaves the run terminal.\<close>

definition stamp :: "string \<Rightarrow> run_state \<Rightarrow> run_state" where
  "stamp now s =
     (let s1 = s\<lparr>rn_updated_at := now\<rparr> in
      if is_terminal (rn_state s1) \<and> rn_terminal_at s1 \<in> {None, Some []}
      then s1\<lparr>rn_terminal_at := Some now\<rparr> else s1)"

definition put_files :: "string \<Rightarrow> run_files \<Rightarrow> run_store \<Rightarrow> run_store" where
  "put_files rid files st = st\<lparr>store_runs := dict_set rid files (store_runs st)\<rparr>"

definition update_state ::
  "clock \<Rightarrow> string \<Rightarrow> string \<Rightarrow> (run_state \<Rightarrow> run_state) \<Rightarrow> run_store \<Rightarrow> (run_state \<times> run_store) result" where
  "update_state clock rid event changes st =
     rbind (read_files rid st) (\<lambda>files.
     case utc_now clock st of (now, st1) \<Rightarrow>
     let s = stamp now (changes (rf_state files)) in
     case append_event clock event s (rf_events files) st1 of (events, st2) \<Rightarrow>
     Inr (s, put_files rid (files\<lparr>rf_state := s, rf_events := events\<rparr>) st2))"

definition write_result :: "string \<Rightarrow> run_result \<Rightarrow> run_store \<Rightarrow> run_store result" where
  "write_result rid r st = rbind (read_files rid st) (\<lambda>files.
     Inr (put_files rid (files\<lparr>rf_result := Some r\<rparr>) st))"

text \<open>The states in the order of their directories, then, stably, of acceptance.\<close>

definition list_states :: "string option \<Rightarrow> run_store \<Rightarrow> run_state list" where
  "list_states tid st =
     sort_key rn_accepted_at
       (filter (\<lambda>s. case tid of None \<Rightarrow> True | Some t \<Rightarrow> rn_task_id s = t)
          (map (\<lambda>(rid, files). rf_state files) (sort_key fst (store_runs st))))"

section \<open>Recovery\<close>

definition interrupted_reason :: string where
  "interrupted_reason = ''kernel-infrad restarted before the run became terminal''"

definition interrupt_run :: "clock \<Rightarrow> nat \<times> run_store \<Rightarrow> run_state \<Rightarrow> (nat \<times> run_store) result" where
  "interrupt_run clock acc s =
     (case acc of (changed, st) \<Rightarrow>
        if is_terminal (rn_state s) then Inr (changed, st)
        else rbind (update_state clock (rn_id s) ''interrupted''
                 (\<lambda>x. x\<lparr>rn_state := Interrupted, rn_reason := Some interrupted_reason\<rparr>) st)
          (\<lambda>(s', st'). Inr (Suc changed, st')))"

definition recover_interrupted :: "clock \<Rightarrow> run_store \<Rightarrow> (nat \<times> run_store) result" where
  "recover_interrupted clock st = rfold (interrupt_run clock) (0, st) (list_states None st)"

section \<open>The frontier of a task from the store\<close>

definition stored_results :: "string \<Rightarrow> run_store \<Rightarrow> stored_result list" where
  "stored_results tid st =
     map (\<lambda>s. (rn_id s, rn_task_sha256 s,
            Option.bind (dict_get (rn_id s) (store_runs st)) rf_result)) (list_states (Some tid) st)"

definition write_frontier :: "py_env \<Rightarrow> clock \<Rightarrow> task_spec \<Rightarrow> run_store \<Rightarrow> (frontier_projection \<times> run_store) result" where
  "write_frontier env clock task st =
     (case utc_now clock st of (now, st1) \<Rightarrow>
     rbind (rebuild_frontier env now task (stored_results (task_id task) st)) (\<lambda>(path, projection).
     Inr (projection, st1\<lparr>store_frontiers := (path, projection) #
       filter (\<lambda>(p, f). p \<noteq> path) (store_frontiers st1)\<rparr>)))"

end
