(* ===== verification/Ledger.thy ===== *)
theory Ledger
  imports Prelude
begin

text \<open>
  The contract of a durable projection: a store of states by id whose only way to change a
  state is a read-modify-write update that settles time stamps.  The run store and the
  service store both provide it; what recovery does to every open entry is proved here
  once.
\<close>

locale ledger =
  fixes peek :: "'s \<Rightarrow> string \<Rightarrow> 'st option"
    and update :: "string \<Rightarrow> string \<Rightarrow> ('st \<Rightarrow> 'st) \<Rightarrow> 's \<Rightarrow> ('st \<times> 's) result"
    and settle :: "'s \<Rightarrow> 'st \<Rightarrow> 'st"
  assumes update_known: "peek s k = Some x \<Longrightarrow>
      \<exists>s'. update k event f s = Inr (settle s (f x), s') \<and> peek s' k = Some (settle s (f x)) \<and>
        (\<forall>k'. k' \<noteq> k \<longrightarrow> peek s' k' = peek s k')"
    and update_unknown: "peek s k = None \<Longrightarrow> \<exists>e. update k event f s = Inl e"
begin

lemma update_Inr:
  assumes "update k event f s = Inr (y, s')"
  shows "\<exists>x. peek s k = Some x \<and> y = settle s (f x)" and "peek s' k = Some y"
    and "k' \<noteq> k \<Longrightarrow> peek s' k' = peek s k'"
proof -
  obtain x where x: "peek s k = Some x" using update_unknown [of s k event f] assms by (cases "peek s k") auto
  from update_known [OF x, of event f] assms show "\<exists>x. peek s k = Some x \<and> y = settle s (f x)"
    "peek s' k = Some y" "k' \<noteq> k \<Longrightarrow> peek s' k' = peek s k'" using x by auto
qed

lemma update_keeps_known: "update k event f s = Inr (y, s') \<Longrightarrow> peek s' k' = None \<longleftrightarrow> peek s k' = None"
proof (cases "k' = k")
  case True
  assume "update k event f s = Inr (y, s')"
  then show ?thesis using update_Inr(1,2) True by fastforce
next
  case False
  assume "update k event f s = Inr (y, s')"
  then show ?thesis using update_Inr(3) False by simp
qed

end

text \<open>The closing sweep: each listed entry is updated with the same change, and counted.\<close>

definition sweep_step ::
  "(string \<Rightarrow> 's \<Rightarrow> ('st \<times> 's) result) \<Rightarrow> nat \<times> 's \<Rightarrow> string \<Rightarrow> (nat \<times> 's) result" where
  "sweep_step close acc k = (case acc of (n, s) \<Rightarrow> rbind (close k s) (\<lambda>(y, s'). Inr (Suc n, s')))"

locale closing_ledger = ledger +
  fixes terminal :: "'b \<Rightarrow> bool"
    and closing :: "'b \<Rightarrow> 'b"
  assumes settle_terminal: "terminal (settle s x) \<longleftrightarrow> terminal x"
    and closing_terminal: "terminal (closing x)"
begin

lemma sweep:
  assumes "\<And>k. k \<in> set ks \<Longrightarrow> peek s k \<noteq> None" and "distinct ks"
  shows "\<exists>s'. rfold (sweep_step (\<lambda>k. update k event closing)) (n, s) ks = Inr (n + length ks, s') \<and>
     (\<forall>k \<in> set ks. \<exists>y. peek s' k = Some y \<and> terminal y) \<and>
     (\<forall>k. k \<notin> set ks \<longrightarrow> peek s' k = peek s k)"
  using assms
proof (induction ks arbitrary: n s)
  case Nil
  then show ?case by simp
next
  case (Cons k ks)
  then obtain x where "peek s k = Some x" by fastforce
  from update_known [OF this, of event closing] obtain s1 where s1:
    "update k event closing s = Inr (settle s (closing x), s1)" "peek s1 k = Some (settle s (closing x))"
    "\<forall>k'. k' \<noteq> k \<longrightarrow> peek s1 k' = peek s k'" by blast
  have "\<exists>s'. rfold (sweep_step (\<lambda>k. update k event closing)) (Suc n, s1) ks = Inr (Suc n + length ks, s') \<and>
     (\<forall>k \<in> set ks. \<exists>y. peek s' k = Some y \<and> terminal y) \<and> (\<forall>k. k \<notin> set ks \<longrightarrow> peek s' k = peek s1 k)"
  proof (rule Cons.IH)
    show "peek s1 k' \<noteq> None" if "k' \<in> set ks" for k'
    proof -
      have "k' \<noteq> k" using that Cons.prems(2) by auto
      then show ?thesis using s1(3) Cons.prems(1) [of k'] that by simp
    qed
    show "distinct ks" using Cons.prems(2) by simp
  qed
  moreover have "sweep_step (\<lambda>k. update k event closing) (n, s) k = Inr (Suc n, s1)"
    by (simp add: sweep_step_def s1(1))
  moreover have "terminal (settle s (closing x))" by (simp add: settle_terminal closing_terminal)
  ultimately show ?case using s1(2,3) Cons.prems(2) by auto
qed

end

end
