(* ===== verification/Run_Store_Facts.thy ===== *)
theory Run_Store_Facts
  imports Run_Store Ledger
begin

text \<open>
  The run store keeps its invariant, an update touches one run, terminal times are written
  once, and recovery closes exactly the open runs.  The laws of the ledger interface are
  discharged for the run store by interpretation.
\<close>

section \<open>The ledger interface\<close>

definition peek_run :: "run_store \<Rightarrow> string \<Rightarrow> run_state option" where
  "peek_run st rid = (case read_state rid st of Inl e \<Rightarrow> None | Inr s \<Rightarrow> Some s)"

lemma peek_run_files:
  "peek_run st rid = Some s \<longleftrightarrow> run_dir rid = Inr () \<and>
     (\<exists>files. dict_get rid (store_runs st) = Some files \<and> rf_state files = s)"
  by (auto simp: peek_run_def read_state_def read_files_def run_dir_def split: option.splits sum.splits if_splits)

lemma peek_run_None:
  "peek_run st rid = None \<longleftrightarrow> run_dir rid \<noteq> Inr () \<or> dict_get rid (store_runs st) = None"
  by (auto simp: peek_run_def read_state_def read_files_def run_dir_def split: option.splits sum.splits if_splits)

lemma update_state_known:
  assumes "peek_run st rid = Some s"
  shows "\<exists>st'. update_state clock rid event f st = Inr (stamp (clock (store_tick st)) (f s), st') \<and>
     peek_run st' rid = Some (stamp (clock (store_tick st)) (f s)) \<and>
     (\<forall>k. k \<noteq> rid \<longrightarrow> peek_run st' k = peek_run st k)"
proof -
  from assms obtain files where files: "run_dir rid = Inr ()" "dict_get rid (store_runs st) = Some files"
    "rf_state files = s" by (auto simp: peek_run_files)
  then show ?thesis
    by (simp add: update_state_def read_files_def utc_now_def append_event_def Let_def put_files_def
        peek_run_def read_state_def)
qed

lemma update_state_unknown: "peek_run st rid = None \<Longrightarrow> \<exists>e. update_state clock rid event f st = Inl e"
  by (cases "run_dir rid") (auto simp: peek_run_None update_state_def read_files_def)

lemma stamp_terminal [simp]: "rn_state (stamp now s) = rn_state s"
  by (simp add: stamp_def Let_def)

lemma stamp_id [simp]: "rn_id (stamp now s) = rn_id s"
  by (simp add: stamp_def Let_def)

lemma stamp_written:
  "stamp now s = s\<lparr>rn_updated_at := now, rn_terminal_at :=
     if is_terminal (rn_state s) \<and> rn_terminal_at s \<in> {None, Some []} then Some now else rn_terminal_at s\<rparr>"
  by (cases s) (auto simp: stamp_def Let_def)

definition interrupt :: "run_state \<Rightarrow> run_state" where
  "interrupt s = s\<lparr>rn_state := Interrupted, rn_reason := Some interrupted_reason\<rparr>"

interpretation runs: closing_ledger peek_run "update_state clock"
    "\<lambda>st. stamp (clock (store_tick st))" "\<lambda>s. is_terminal (rn_state s)" interrupt
  for clock
proof
  show "\<exists>s'. update_state clock k event f s = Inr (stamp (clock (store_tick s)) (f x), s') \<and>
      peek_run s' k = Some (stamp (clock (store_tick s)) (f x)) \<and>
      (\<forall>k'. k' \<noteq> k \<longrightarrow> peek_run s' k' = peek_run s k')" if "peek_run s k = Some x" for s k x event f
    using that by (rule update_state_known)
  show "\<exists>e. update_state clock k event f s = Inl e" if "peek_run s k = None" for s k event f
    using that by (rule update_state_unknown)
qed (simp_all add: interrupt_def)

section \<open>The invariant\<close>

definition wf_run :: "string \<Rightarrow> run_files \<Rightarrow> bool" where
  "wf_run rid files \<longleftrightarrow> run_dir rid = Inr () \<and> rn_id (rf_state files) = rid \<and> rq_run_id (rf_request files) = rid \<and>
     rf_events files \<noteq> [] \<and> ev_state (last (rf_events files)) = rn_state (rf_state files) \<and>
     ev_reason (last (rf_events files)) = rn_reason (rf_state files) \<and>
     list_all (\<lambda>e. ev_run_id e = rid) (rf_events files) \<and>
     (is_terminal (rn_state (rf_state files)) \<longrightarrow> rn_terminal_at (rf_state files) \<noteq> None)"

definition wf_store :: "run_store \<Rightarrow> bool" where
  "wf_store st \<longleftrightarrow> distinct (dict_keys (store_runs st)) \<and> list_all (\<lambda>(rid, files). wf_run rid files) (store_runs st)"

lemma wf_store_get: "wf_store st \<Longrightarrow> dict_get rid (store_runs st) = Some files \<Longrightarrow> wf_run rid files"
  by (auto simp: wf_store_def list_all_iff dest!: dict_get_mem)

lemma wf_store_set:
  assumes "wf_store st" and "wf_run rid files" and "store_runs st' = dict_set rid files (store_runs st)"
  shows "wf_store st'"
  using assms set_dict_set [of rid files "store_runs st"]
  by (auto simp: wf_store_def list_all_iff distinct_dict_set)

lemma update_state_wf:
  assumes "update_state clock rid event f st = Inr (s, st')" and "wf_store st"
    and "\<And>x. rn_id (f x) = rn_id x"
  shows "wf_store st'"
proof -
  from assms(1) obtain files where files: "run_dir rid = Inr ()" "dict_get rid (store_runs st) = Some files"
    and st': "store_runs st' = dict_set rid (files\<lparr>rf_state := stamp (clock (store_tick st)) (f (rf_state files)),
      rf_events := fst (append_event clock event (stamp (clock (store_tick st)) (f (rf_state files)))
        (rf_events files) (st\<lparr>store_tick := Suc (store_tick st)\<rparr>))\<rparr>) (store_runs st)"
    by (auto simp: update_state_def read_files_def utc_now_def append_event_def Let_def put_files_def)
  have "wf_run rid files" using assms(2) files(2) by (rule wf_store_get)
  then have "wf_run rid (files\<lparr>rf_state := stamp (clock (store_tick st)) (f (rf_state files)),
      rf_events := fst (append_event clock event (stamp (clock (store_tick st)) (f (rf_state files)))
        (rf_events files) (st\<lparr>store_tick := Suc (store_tick st)\<rparr>))\<rparr>)"
    by (auto simp: wf_run_def append_event_def utc_now_def assms(3)) (auto simp: stamp_def Let_def assms(3))
  from wf_store_set [OF assms(2) this st'] show ?thesis .
qed

lemma create_run_Inr:
  assumes "create_run env clock suffix task candidate content label st = Inr (s, st')"
  shows "rn_id s = task_id task @ ''-'' @ suffix" and "rn_state s = Accepted"
    and "dict_get (rn_id s) (store_runs st) = None"
    and "\<exists>files. dict_get (rn_id s) (store_runs st') = Some files \<and> rf_state files = s \<and>
      rf_result files = None \<and> wf_run (rn_id s) files \<and>
      snapshot_candidate env (resolve_path env (expanduser env candidate)) content (rn_id s @ ''/candidate'') =
        Inr (rf_candidate files, rn_candidate_sha256 s)"
    and "rn_task_sha256 s = task_digest task"
    and "k \<noteq> rn_id s \<Longrightarrow> dict_get k (store_runs st') = dict_get k (store_runs st)"
    and "wf_store st \<Longrightarrow> wf_store st'"
proof -
  let ?rid = "task_id task @ ''-'' @ suffix"
  let ?now = "clock (store_tick st)"
  from assms obtain snap d where
    dir: "run_dir ?rid = Inr ()" and new: "\<not> dict_has ?rid (store_runs st)"
    and snap: "snapshot_candidate env (resolve_path env (expanduser env candidate)) content
      (?rid @ ''/candidate'') = Inr (snap, d)"
    and st: "s = initial_state task ?rid d label ?now"
    and runs: "store_runs st' = dict_set ?rid
       \<lparr>rf_task = task_raw task, rf_candidate = snap,
        rf_request = initial_request env task ?rid d candidate label ?now, rf_state = s,
        rf_events = fst (append_event clock ''accepted'' s [] (st\<lparr>store_tick := Suc (store_tick st)\<rparr>)),
        rf_stage_dirs = [], rf_receipts = [], rf_result = None\<rparr> (store_runs st)"
    by (auto simp: create_run_def Let_def utc_now_def append_event_def)
  define files where "files = \<lparr>rf_task = task_raw task, rf_candidate = snap,
        rf_request = initial_request env task ?rid d candidate label ?now, rf_state = s,
        rf_events = fst (append_event clock ''accepted'' s [] (st\<lparr>store_tick := Suc (store_tick st)\<rparr>)),
        rf_stage_dirs = [], rf_receipts = [], rf_result = None\<rparr>"
  have st': "store_runs st' = dict_set ?rid files (store_runs st)" using runs by (simp add: files_def)
  have s: "rn_id s = ?rid" "rn_state s = Accepted" "rn_candidate_sha256 s = d" "rn_task_sha256 s = task_digest task"
      "rn_terminal_at s = None" "rn_reason s = None"
    using st by (simp_all add: initial_state_def)
  have files: "rf_state files = s" "rf_candidate files = snap" "rf_result files = None"
      "rq_run_id (rf_request files) = ?rid"
      "rf_events files = fst (append_event clock ''accepted'' s [] (st\<lparr>store_tick := Suc (store_tick st)\<rparr>))"
    by (simp_all add: files_def initial_request_def)
  have wf: "wf_run ?rid files"
    using dir s files by (simp add: wf_run_def append_event_def utc_now_def)
  show "rn_id s = task_id task @ ''-'' @ suffix" "rn_state s = Accepted" "rn_task_sha256 s = task_digest task"
    using s by simp_all
  show "dict_get (rn_id s) (store_runs st) = None" using new s by (simp add: dict_has_get)
  show "\<exists>files. dict_get (rn_id s) (store_runs st') = Some files \<and> rf_state files = s \<and>
      rf_result files = None \<and> wf_run (rn_id s) files \<and>
      snapshot_candidate env (resolve_path env (expanduser env candidate)) content (rn_id s @ ''/candidate'') =
        Inr (rf_candidate files, rn_candidate_sha256 s)"
    using files snap s wf st' by (intro exI [of _ files]) simp
  show "k \<noteq> rn_id s \<Longrightarrow> dict_get k (store_runs st') = dict_get k (store_runs st)" using st' s by simp
  show "wf_store st \<Longrightarrow> wf_store st'" using wf_store_set [OF _ wf st'] .
qed

section \<open>Listing\<close>

lemma set_list_states:
  "set (list_states tid st) = {rf_state files | rid files. (rid, files) \<in> set (store_runs st) \<and>
     (case tid of None \<Rightarrow> True | Some t \<Rightarrow> rn_task_id (rf_state files) = t)}"
  unfolding list_states_def by (force simp: image_iff)

lemma listed_known: "wf_store st \<Longrightarrow> s \<in> set (list_states None st) \<Longrightarrow> peek_run st (rn_id s) = Some s"
proof -
  assume wf: "wf_store st" and "s \<in> set (list_states None st)"
  then obtain rid files where f: "(rid, files) \<in> set (store_runs st)" "s = rf_state files"
    by (auto simp: set_list_states)
  with wf have "wf_run rid files" by (auto simp: wf_store_def list_all_iff)
  moreover have "dict_get rid (store_runs st) = Some files"
    using wf f(1) by (simp add: wf_store_def dict_get_mem_iff)
  ultimately show ?thesis using f(2) by (auto simp: peek_run_files wf_run_def)
qed

lemma known_listed: "peek_run st rid = Some s \<Longrightarrow> s \<in> set (list_states None st)"
  by (auto simp: peek_run_files set_list_states dest!: dict_get_mem)

lemma distinct_map_sort_key: "distinct (map f (sort_key g xs)) \<longleftrightarrow> distinct (map f xs)"
  by (simp add: distinct_map)

lemma distinct_listed:
  assumes "wf_store st"
  shows "distinct (map rn_id (list_states None st))"
proof -
  let ?l = "sort_key fst (store_runs st)"
  have mem: "rn_id (rf_state files) = rid" if "(rid, files) \<in> set (store_runs st)" for rid files
    using assms that by (auto simp: wf_store_def list_all_iff wf_run_def)
  have "map rn_id (map (\<lambda>(rid, files). rf_state files) ?l) = map fst ?l"
    unfolding map_map by (rule map_cong [OF refl]) (auto dest: mem)
  moreover have "distinct (map fst ?l)"
    using assms by (simp add: wf_store_def dict_keys_def distinct_map)
  ultimately have "distinct (map rn_id (map (\<lambda>(rid, files). rf_state files) ?l))" by metis
  then show ?thesis
    unfolding list_states_def distinct_map_sort_key by (rule distinct_map_filter)
qed

section \<open>Recovery\<close>

lemma recover_as_sweep:
  "rfold (interrupt_run clock) (n, st) ss =
     rfold (sweep_step (\<lambda>k. update_state clock k ''interrupted'' interrupt)) (n, st)
       (map rn_id (filter (\<lambda>s. \<not> is_terminal (rn_state s)) ss))"
proof (induction ss arbitrary: n st)
  case Nil
  then show ?case by simp
next
  case (Cons s ss)
  have i: "interrupt = (\<lambda>x. x\<lparr>rn_state := Interrupted, rn_reason := Some interrupted_reason\<rparr>)"
    by (simp add: fun_eq_iff interrupt_def)
  show ?case
  proof (cases "is_terminal (rn_state s)")
    case True
    then show ?thesis using Cons.IH by (simp add: interrupt_run_def)
  next
    case False
    then show ?thesis
      using Cons.IH by (cases "update_state clock (rn_id s) ''interrupted'' interrupt st")
        (auto simp: interrupt_run_def sweep_step_def i)
  qed
qed

lemma recover_interrupted_closes:
  assumes "wf_store st"
  shows "\<exists>st'. recover_interrupted clock st =
       Inr (length (filter (\<lambda>s. \<not> is_terminal (rn_state s)) (list_states None st)), st') \<and>
     (\<forall>rid s. peek_run st rid = Some s \<longrightarrow>
        (\<exists>s'. peek_run st' rid = Some s' \<and> is_terminal (rn_state s') \<and>
           (is_terminal (rn_state s) \<longrightarrow> s' = s))) \<and>
     (\<forall>rid. peek_run st rid = None \<longrightarrow> peek_run st' rid = None)"
proof -
  let ?open = "filter (\<lambda>s. \<not> is_terminal (rn_state s)) (list_states None st)"
  have known: "peek_run st k \<noteq> None" if "k \<in> set (map rn_id ?open)" for k
    using that listed_known [OF assms] by auto
  have "distinct (map rn_id ?open)"
    using distinct_listed [OF assms] by (rule distinct_map_filter)
  from runs.sweep [OF known this, where clock = clock and n = 0 and event = "''interrupted''"]
  obtain st' where st': "recover_interrupted clock st = Inr (length ?open, st')"
    "\<forall>k \<in> set (map rn_id ?open). \<exists>y. peek_run st' k = Some y \<and> is_terminal (rn_state y)"
    "\<forall>k. k \<notin> set (map rn_id ?open) \<longrightarrow> peek_run st' k = peek_run st k"
    by (auto simp: recover_interrupted_def recover_as_sweep)
  have "\<exists>s'. peek_run st' rid = Some s' \<and> is_terminal (rn_state s') \<and> (is_terminal (rn_state s) \<longrightarrow> s' = s)"
    if p: "peek_run st rid = Some s" for rid s
  proof (cases "is_terminal (rn_state s)")
    case True
    have "rid \<notin> set (map rn_id ?open)"
      using True p listed_known [OF assms] by auto
    then show ?thesis using st'(3) p True by simp
  next
    case False
    have id: "rn_id s = rid" using p assms by (auto simp: peek_run_files wf_run_def dest: wf_store_get)
    have "s \<in> set (list_states None st)" using p by (rule known_listed)
    then have "rid \<in> set (map rn_id ?open)" using False id by auto
    then show ?thesis using st'(2) False by fastforce
  qed
  moreover have "peek_run st' rid = None" if "peek_run st rid = None" for rid
    using that st'(3) known by metis
  ultimately show ?thesis using st'(1) by blast
qed

lemma recover_wf:
  assumes "wf_store st" and "recover_interrupted clock st = Inr (n, st')"
  shows "wf_store st'"
proof -
  have "case (n, st') of (n, t) \<Rightarrow> wf_store t"
  proof (rule rfold_invariant [where P = "\<lambda>(n, t). wf_store t"])
    show "rfold (interrupt_run clock) (0, st) (list_states None st) = Inr (n, st')"
      using assms(2) by (simp add: recover_interrupted_def)
    show "case (0, st) of (n, t) \<Rightarrow> wf_store t" using assms(1) by simp
    show "case b of (n, t) \<Rightarrow> wf_store t"
      if "case a of (n, t) \<Rightarrow> wf_store t" "interrupt_run clock a s = Inr b" for a b s
      using that by (auto simp: interrupt_run_def split: if_splits dest!: update_state_wf)
  qed
  then show ?thesis by simp
qed

section \<open>A concrete store\<close>

definition empty_store :: run_store where
  "empty_store = \<lparr>store_runs = [], store_frontiers = [], store_tick = 0\<rparr>"

definition sample_created :: "(run_state \<times> run_store) result" where
  "sample_created = create_run sample_env nat_text ''000000000000'' sample_task ''/c/main.cu''
     (Some (RegularFile [1])) ''try'' empty_store"

definition sample_store :: run_store where
  "sample_store = (case sample_created of Inl e \<Rightarrow> empty_store | Inr (s, st) \<Rightarrow> st)"

definition sample_id :: string where
  "sample_id = ''gemm-000000000000''"

lemma empty_store_wf: "wf_store empty_store"
  by (simp add: wf_store_def empty_store_def dict_keys_def)

lemma sample_created_Inr:
  "\<exists>s. sample_created = Inr (s, sample_store) \<and> rn_id s = sample_id"
proof -
  have "\<not> isl sample_created" by code_simp
  then obtain s st where c: "sample_created = Inr (s, st)" by (metis isl_def old.sum.exhaust surj_pair)
  then have "rn_id s = sample_id"
    using create_run_Inr(1) [of sample_env nat_text "''000000000000''" sample_task]
    by (simp add: sample_created_def sample_id_def sample_task_def)
  moreover have "sample_store = st" unfolding sample_store_def c by simp
  ultimately show ?thesis using c by blast
qed

lemma sample_store_wf: "wf_store sample_store"
  using sample_created_Inr create_run_Inr(7) [OF _ empty_store_wf] by (auto simp: sample_created_def)

lemma sample_run_state: "\<exists>s. peek_run sample_store sample_id = Some s \<and> rn_state s = Accepted"
proof -
  obtain s where "sample_created = Inr (s, sample_store)" "rn_id s = sample_id"
    using sample_created_Inr by blast
  with create_run_Inr(2,4) show ?thesis unfolding sample_created_def by (fastforce simp: peek_run_files wf_run_def)
qed

section \<open>Properties\<close>

text \<open>Creating a run never touches an existing one: the new id is unused, the run starts
  accepted with the digest of the snapshot it stores and of its task, its event log records
  the acceptance, and every other run stays as it was.\<close>

lemma create_run_fresh:
  assumes "create_run env clock suffix task candidate content label st = Inr (s, st')" and "wf_store st"
  shows "wf_store st' \<and> dict_get (rn_id s) (store_runs st) = None \<and> rn_state s = Accepted \<and>
    rn_task_sha256 s = task_digest task \<and>
    (\<exists>files. dict_get (rn_id s) (store_runs st') = Some files \<and> rf_state files = s \<and> rf_result files = None \<and>
       wf_run (rn_id s) files \<and>
       snapshot_candidate env (resolve_path env (expanduser env candidate)) content (rn_id s @ ''/candidate'') =
         Inr (rf_candidate files, rn_candidate_sha256 s)) \<and>
    (\<forall>k. k \<noteq> rn_id s \<longrightarrow> dict_get k (store_runs st') = dict_get k (store_runs st))"
  using create_run_Inr [OF assms(1)] assms(2) by blast

lemma create_run_fresh_witness:
  "wf_store sample_store \<and> dict_get sample_id (store_runs empty_store) = None"
proof -
  obtain s where "sample_created = Inr (s, sample_store)" "rn_id s = sample_id"
    using sample_created_Inr by blast
  then have "create_run sample_env nat_text ''000000000000'' sample_task ''/c/main.cu'' (Some (RegularFile [1]))
      ''try'' empty_store = Inr (s, sample_store)" by (simp add: sample_created_def)
  from create_run_fresh [OF this empty_store_wf] \<open>rn_id s = sample_id\<close> show ?thesis by simp
qed

text \<open>C5: Recovery after a restart always succeeds: it marks every open run as terminal and
  counts them, leaves terminal runs exactly as they are, adds no run, and keeps the store
  well formed.\<close>

theorem recovery_closes_open_runs:
  assumes "wf_store st"
  shows "\<exists>st'. recover_interrupted clock st =
       Inr (length (filter (\<lambda>s. \<not> is_terminal (rn_state s)) (list_states None st)), st') \<and> wf_store st' \<and>
     (\<forall>rid s. peek_run st rid = Some s \<longrightarrow>
        (\<exists>s'. peek_run st' rid = Some s' \<and> is_terminal (rn_state s') \<and> (is_terminal (rn_state s) \<longrightarrow> s' = s))) \<and>
     (\<forall>rid. peek_run st rid = None \<longrightarrow> peek_run st' rid = None)"
  using recover_interrupted_closes [OF assms, of clock] recover_wf [OF assms] by metis

theorem recovery_closes_open_runs_witness:
  "\<exists>st' s. recover_interrupted nat_text sample_store = Inr (1, st') \<and> peek_run st' sample_id = Some s \<and> is_terminal (rn_state s)"
proof -
  have "length (filter (\<lambda>s. \<not> is_terminal (rn_state s)) (list_states None sample_store)) = 1" by code_simp
  with recovery_closes_open_runs [OF sample_store_wf, of nat_text] sample_run_state show ?thesis by fastforce
qed

text \<open>C8: An update of a run keeps the store well formed and writes exactly two files of the run:
  the state, which is the changed old one with the time of the update, and the event log,
  which is the old log followed by one event with the time, the given name, and the run id,
  state, stage, job, GPUs and reason of the new state.  The terminal time is set by the first
  update that leaves the run terminal and never moves.  No other run and no frontier changes.\<close>

theorem update_state_sound:
  assumes "wf_store st" and "update_state clock rid event f st = Inr (s, st')"
    and "\<forall>x. rn_id (f x) = rn_id x \<and> rn_terminal_at (f x) = rn_terminal_at x"
  shows "wf_store st' \<and> peek_run st' rid = Some s \<and>
    (\<exists>files. peek_run st rid = Some (rf_state files) \<and> dict_get rid (store_runs st) = Some files \<and>
       dict_get rid (store_runs st') = Some (files\<lparr>rf_state := s, rf_events := rf_events files @
         [\<lparr>ev_at = clock (Suc (store_tick st)), ev_event = event, ev_run_id = rid, ev_state = rn_state s,
           ev_stage_id = rn_stage_id s, ev_broker_job_id = rn_broker_job_id s, ev_gpu_ids = rn_gpu_ids s,
           ev_reason = rn_reason s\<rparr>]\<rparr>) \<and>
       s = (f (rf_state files))\<lparr>rn_updated_at := clock (store_tick st),
         rn_terminal_at := if is_terminal (rn_state s) \<and> rn_terminal_at (rf_state files) \<in> {None, Some []}
           then Some (clock (store_tick st)) else rn_terminal_at (rf_state files)\<rparr>) \<and>
    (\<forall>k. k \<noteq> rid \<longrightarrow> dict_get k (store_runs st') = dict_get k (store_runs st)) \<and>
    store_frontiers st' = store_frontiers st"
proof -
  from assms(2) obtain files where files: "run_dir rid = Inr ()" "dict_get rid (store_runs st) = Some files"
    and s: "s = stamp (clock (store_tick st)) (f (rf_state files))"
    and st': "st' = put_files rid (files\<lparr>rf_state := s, rf_events := rf_events files @
         [\<lparr>ev_at = clock (Suc (store_tick st)), ev_event = event, ev_run_id = rn_id s, ev_state = rn_state s,
           ev_stage_id = rn_stage_id s, ev_broker_job_id = rn_broker_job_id s, ev_gpu_ids = rn_gpu_ids s,
           ev_reason = rn_reason s\<rparr>]\<rparr>) (st\<lparr>store_tick := Suc (Suc (store_tick st))\<rparr>)"
    by (auto simp: update_state_def read_files_def utc_now_def append_event_def Let_def)
  have "rn_id s = rid" using wf_store_get [OF assms(1) files(2)] assms(3) by (simp add: s wf_run_def)
  moreover have "s = (f (rf_state files))\<lparr>rn_updated_at := clock (store_tick st),
         rn_terminal_at := if is_terminal (rn_state s) \<and> rn_terminal_at (rf_state files) \<in> {None, Some []}
           then Some (clock (store_tick st)) else rn_terminal_at (rf_state files)\<rparr>"
    using stamp_written [of "clock (store_tick st)" "f (rf_state files)"] assms(3) by (auto simp: s)
  moreover have "wf_store st'" using update_state_wf [OF assms(2,1)] assms(3) by simp
  ultimately show ?thesis
    using runs.update_Inr(2) [OF assms(2)] files by (auto simp: st' put_files_def peek_run_files)
qed

theorem update_state_sound_witness:
  "\<exists>s st'. update_state nat_text sample_id ''cancelled'' (\<lambda>x. x\<lparr>rn_state := Cancelled\<rparr>) sample_store = Inr (s, st') \<and>
     wf_store st' \<and> peek_run st' sample_id = Some s"
proof -
  obtain old where "peek_run sample_store sample_id = Some old" using sample_run_state by blast
  from update_state_known [OF this, of nat_text "''cancelled''" "\<lambda>x. x\<lparr>rn_state := Cancelled\<rparr>"] obtain s st'
    where u: "update_state nat_text sample_id ''cancelled'' (\<lambda>x. x\<lparr>rn_state := Cancelled\<rparr>) sample_store = Inr (s, st')"
    by blast
  from update_state_sound [OF sample_store_wf u] u show ?thesis by simp
qed

end
