(* ===== verification/Posix_Path.thy ===== *)
theory Posix_Path
  imports Prelude
begin

text \<open>
  \<open>pathlib.PurePosixPath\<close> as far as the program uses it: the parts of a path, its normal form
  and its last component.
\<close>

fun split_on :: "char \<Rightarrow> string \<Rightarrow> string list" where
  "split_on d [] = [[]]"
| "split_on d (c # cs) =
     (if c = d then [] # split_on d cs
      else (case split_on d cs of [] \<Rightarrow> [[c]] | w # ws \<Rightarrow> (c # w) # ws))"

definition path_components :: "string \<Rightarrow> string list" where
  "path_components s = filter (\<lambda>p. p \<noteq> [] \<and> p \<noteq> ''.'') (split_on CHR ''/'' s)"

text \<open>Exactly two slashes at the start are kept, as POSIX allows.\<close>

definition path_anchor :: "string \<Rightarrow> string" where
  "path_anchor s =
     (if has_prefix ''//'' s \<and> \<not> has_prefix ''///'' s then ''//''
      else if has_prefix ''/'' s then ''/'' else [])"

definition path_text :: "string \<Rightarrow> string list \<Rightarrow> string" where
  "path_text anchor components =
     (if anchor = [] \<and> components = [] then ''.'' else anchor @ join ''/'' components)"

definition pure_path :: "string \<Rightarrow> string" where
  "pure_path s = path_text (path_anchor s) (path_components s)"

section \<open>Splitting and joining\<close>

lemma split_on_nonempty [simp]: "split_on d s \<noteq> []"
  by (induction s) (auto split: list.splits)

lemma split_on_word: "d \<notin> set w \<Longrightarrow> split_on d w = [w]"
  by (induction w) auto

lemma split_on_append: "d \<notin> set w \<Longrightarrow> split_on d (w @ d # s) = w # split_on d s"
  by (induction w) auto

lemma split_on_join:
  "ws \<noteq> [] \<Longrightarrow> \<forall>w \<in> set ws. d \<notin> set w \<Longrightarrow> split_on d (join [d] ws) = ws"
proof (induction ws)
  case (Cons w ws)
  then show ?case by (cases ws) (simp_all add: split_on_word split_on_append)
qed simp

lemma split_on_parts: "p \<in> set (split_on d s) \<Longrightarrow> d \<notin> set p"
proof (induction s arbitrary: p)
  case (Cons c s)
  then show ?case by (cases "split_on d s") (auto split: if_splits)
qed simp

definition is_component :: "string \<Rightarrow> bool" where
  "is_component p \<longleftrightarrow> p \<noteq> [] \<and> p \<noteq> ''.'' \<and> CHR ''/'' \<notin> set p"

lemma path_components_are: "\<forall>p \<in> set (path_components s). is_component p"
  by (auto simp: path_components_def is_component_def dest: split_on_parts)

lemma components_of_join:
  assumes "ps \<noteq> []" and "\<forall>p \<in> set ps. is_component p"
  shows "path_components (join ''/'' ps) = ps"
proof -
  have "filter (\<lambda>p. p \<noteq> [] \<and> p \<noteq> ''.'') ps = ps"
    using assms(2) by (simp add: is_component_def filter_id_conv)
  with split_on_join [of ps "CHR ''/''"] assms show ?thesis by (simp add: path_components_def is_component_def)
qed

end
