(* ===== verification/Runner.thy ===== *)
theory Runner
  imports Run_Store_Facts Posix_Path
begin

text \<open>
  \<open>src/kernel_infra/runner.py\<close> and \<open>src/kernel_infra/broker.py\<close>: the staged execution of a
  run.  What the operating system and the judge decide is an argument: per stage a
  \<open>process_run\<close> says which lines the process wrote to stderr and how it ended.  The
  asynchronous tasks of one run are sequential, so a run is a function of these
  arguments and of the store.
\<close>

section \<open>What a broker client prints\<close>

text \<open>
  \<open>re.search\<close> for a literal prefix followed by one or more characters of a class: the
  first occurrence of the prefix that such a character follows.
\<close>

fun search_after :: "string \<Rightarrow> (char \<Rightarrow> bool) \<Rightarrow> string \<Rightarrow> string option" where
  "search_after prefix P [] = None"
| "search_after prefix P (c # cs) =
     (if has_prefix prefix (c # cs) \<and> takeWhile P (drop (length prefix) (c # cs)) \<noteq> []
      then Some (takeWhile P (drop (length prefix) (c # cs)))
      else search_after prefix P cs)"

definition accepted_job :: "string \<Rightarrow> string option" where
  "accepted_job line = search_after ''[gpu-run] accepted job '' (\<lambda>c. \<not> py_isspace c) line"

definition is_digit :: "char \<Rightarrow> bool" where
  "is_digit c \<longleftrightarrow> (let n = of_char c :: nat in 48 \<le> n \<and> n \<le> 57)"

definition gpu_ids_text :: "string \<Rightarrow> string option" where
  "gpu_ids_text line = search_after ''[gpu-run] running on physical GPUs '' (\<lambda>c. is_digit c \<or> c = CHR '','') line"

definition digits_value :: "string \<Rightarrow> int" where
  "digits_value s = foldl (\<lambda>n c. n * 10 + (int (of_char c) - 48)) 0 s"

text \<open>\<open>int(value)\<close> on a piece of the id list, which the expression limits to digits.\<close>

definition int_of_digits :: "string \<Rightarrow> int result" where
  "int_of_digits s =
     (if s = [] then Inl (ValueError (''invalid literal for int() with base 10: '' @ repr_str s))
      else Inr (digits_value s))"

definition parse_gpu_ids :: "string \<Rightarrow> int list result" where
  "parse_gpu_ids text = rtraverse int_of_digits (split_on CHR '','' text)"

definition handle_line :: "clock \<Rightarrow> string \<Rightarrow> run_store \<Rightarrow> string \<Rightarrow> run_store result" where
  "handle_line clock rid st line =
     (let text = py_strip line in
      case accepted_job text of
        Some job \<Rightarrow> rbind (update_state clock rid ''broker_accepted''
            (\<lambda>s. s\<lparr>rn_state := Queued, rn_broker_job_id := Some job\<rparr>) st) (\<lambda>(s, st'). Inr st')
      | None \<Rightarrow>
          if is_substring ''[gpu-run] queued '' text
          then rbind (update_state clock rid ''broker_queued'' (\<lambda>s. s\<lparr>rn_state := Queued\<rparr>) st)
                 (\<lambda>(s, st'). Inr st')
          else (case gpu_ids_text text of
              None \<Rightarrow> Inr st
            | Some ids_text \<Rightarrow> rbind (parse_gpu_ids ids_text) (\<lambda>ids.
                rbind (update_state clock rid ''broker_started''
                  (\<lambda>s. s\<lparr>rn_state := Running, rn_gpu_ids := ids\<rparr>) st) (\<lambda>(s, st'). Inr st'))))"

text \<open>A line that raises stops the pump: what it wrote before stays.\<close>

fun pump_lines :: "clock \<Rightarrow> string \<Rightarrow> string list \<Rightarrow> run_store \<Rightarrow> exn option \<times> run_store" where
  "pump_lines clock rid [] st = (None, st)"
| "pump_lines clock rid (line # lines) st =
     (case handle_line clock rid st line of
        Inl e \<Rightarrow> (Some e, st)
      | Inr st' \<Rightarrow> pump_lines clock rid lines st')"

section \<open>The command of a stage\<close>

definition stage_environment :: "string \<Rightarrow> string \<Rightarrow> stage_spec \<Rightarrow> (string \<times> string) list" where
  "stage_environment rid dir stage =
     (let stage_dir = dir @ ''/stages/'' @ st_id stage in
      [(''PYTHONUNBUFFERED'', ''1''),
       (''KERNELINFRA_RUN_ID'', rid),
       (''KERNELINFRA_RUN_DIR'', dir),
       (''KERNELINFRA_TASK'', dir @ ''/task.json''),
       (''KERNELINFRA_CANDIDATE_DIR'', dir @ ''/candidate''),
       (''KERNELINFRA_STAGE_ID'', st_id stage),
       (''KERNELINFRA_STAGE_KIND'', kind_name (st_kind stage)),
       (''KERNELINFRA_STAGE_DIR'', stage_dir),
       (''KERNELINFRA_RESULT'', stage_dir @ ''/result.json'')])"

definition broker_command ::
  "py_env \<Rightarrow> string \<Rightarrow> string \<Rightarrow> task_spec \<Rightarrow> stage_spec \<Rightarrow> resource_spec \<Rightarrow> string \<Rightarrow> (string \<times> string) list \<Rightarrow> string list" where
  "broker_command env gpu_run socket task stage r label environment =
     [gpu_run, ''--socket'', socket,
      ''--label'', take 160 (''ki:'' @ task_id task @ '':'' @ st_id stage @ '':'' @ label),
      ''--mode'', mode_name (rs_mode r),
      ''--gpu-count'', int_text (rs_gpu_count r),
      ''--estimate'', (case rs_estimate_s r of None \<Rightarrow> ''unknown'' | Some x \<Rightarrow> float_text env x),
      ''--run-timeout'', float_text env (rs_run_timeout_s r)] @
     (case rs_queue_timeout_s r of None \<Rightarrow> [] | Some x \<Rightarrow> [''--queue-timeout'', float_text env x]) @
     (case rs_allowed_gpu_ids r of None \<Rightarrow> []
      | Some ids \<Rightarrow> [''--allowed-gpus'', join '','' (map int_text ids)]) @
     concat (map (\<lambda>(k, v). [''--env'', k @ ''='' @ v]) environment) @
     [''--''] @ st_command stage"

section \<open>One stage\<close>

datatype process_end =
    Exited int json_file
  | CancelledWaiting
  | SpawnFailed exn
  | CancelledRunning

record process_run =
  pr_lines :: "string list"
  pr_end :: process_end

datatype stage_outcome =
    StageDone "stage_result option" int "string option"
  | StageRaised exn
  | StageCancelled

definition stage_submitted :: "stage_spec \<Rightarrow> nat \<Rightarrow> run_state \<Rightarrow> run_state" where
  "stage_submitted stage index s =
     s\<lparr>rn_state := Submitting, rn_stage_id := Some (st_id stage), rn_stage_kind := Some (st_kind stage),
       rn_stage_index := Some index, rn_broker_job_id := None, rn_gpu_ids := [], rn_reason := None\<rparr>"

text \<open>The stage directory is made first; the start time is read after it.\<close>

definition make_stage_dir :: "clock \<Rightarrow> string \<Rightarrow> string \<Rightarrow> run_store \<Rightarrow> (string \<times> run_store) result" where
  "make_stage_dir clock rid sid st = rbind (read_files rid st) (\<lambda>files.
     if sid \<in> set (rf_stage_dirs files) then Inl (FileExistsError sid)
     else Inr (utc_now clock (put_files rid (files\<lparr>rf_stage_dirs := rf_stage_dirs files @ [sid]\<rparr>) st)))"

definition write_receipt ::
  "clock \<Rightarrow> string \<Rightarrow> stage_spec \<Rightarrow> string \<Rightarrow> int \<Rightarrow> bool \<Rightarrow> string option \<Rightarrow> run_store \<Rightarrow> run_store result" where
  "write_receipt clock rid stage started code accepted error st =
     rbind (read_files rid st) (\<lambda>files.
     case utc_now clock st of (now, st1) \<Rightarrow>
     Inr (put_files rid (files\<lparr>rf_receipts := dict_set (st_id stage)
       \<lparr>sc_run_id = rid, sc_stage_id = st_id stage, sc_stage_kind = st_kind stage,
        sc_execution = st_execution stage, sc_judge_identity = st_judge_identity stage,
        sc_started_at = started, sc_finished_at = now, sc_exit_code = code,
        sc_broker_job_id = rn_broker_job_id (rf_state files), sc_gpu_ids = rn_gpu_ids (rf_state files),
        sc_judge_result_valid = accepted, sc_error = error\<rparr> (rf_receipts files)\<rparr>) st1))"

text \<open>
  After the process exited: the result file is read, the receipt written, and the stage is
  recorded as finished with the reason a result was refused.
\<close>

definition finish_stage ::
  "py_env \<Rightarrow> clock \<Rightarrow> task_spec \<Rightarrow> string \<Rightarrow> stage_spec \<Rightarrow> string \<Rightarrow> int \<Rightarrow> json_file \<Rightarrow> run_store \<Rightarrow> stage_outcome \<times> run_store" where
  "finish_stage env clock task rid stage started code file st =
     (let path = rid @ ''/stages/'' @ st_id stage @ ''/result.json'' in
      case (case load_stage_result env file path task of
              Inr r \<Rightarrow> Inr (Some r, None)
            | Inl e \<Rightarrow> if is_contract_error e then Inr (None, Some (exn_message e)) else Inl e) of
        Inl e \<Rightarrow> (StageRaised e, st)
      | Inr (r, error) \<Rightarrow>
          (case write_receipt clock rid stage started code (r \<noteq> None) error st of
             Inl e \<Rightarrow> (StageRaised e, st)
           | Inr st1 \<Rightarrow>
               (case update_state clock rid ''stage_finished''
                       (\<lambda>s. s\<lparr>rn_state := StageFinished, rn_reason := error\<rparr>) st1 of
                  Inl e \<Rightarrow> (StageRaised e, st1)
                | Inr (s, st') \<Rightarrow> (StageDone r code error, st'))))"

definition run_process ::
  "py_env \<Rightarrow> clock \<Rightarrow> task_spec \<Rightarrow> string \<Rightarrow> stage_spec \<Rightarrow> string \<Rightarrow> process_run \<Rightarrow> run_store \<Rightarrow> stage_outcome \<times> run_store" where
  "run_process env clock task rid stage started p st =
     (let (raised, st1) = (if st_execution stage = Broker then pump_lines clock rid (pr_lines p) st else (None, st)) in
      case pr_end p of
        SpawnFailed e \<Rightarrow> (StageRaised e, st)
      | CancelledWaiting \<Rightarrow> (StageCancelled, st)
      | CancelledRunning \<Rightarrow> (StageCancelled, st1)
      | Exited code file \<Rightarrow>
          (case raised of
             Some e \<Rightarrow> (StageRaised e, st1)
           | None \<Rightarrow> finish_stage env clock task rid stage started code file st1))"

definition run_stage ::
  "py_env \<Rightarrow> clock \<Rightarrow> task_spec \<Rightarrow> string \<Rightarrow> nat \<Rightarrow> stage_spec \<Rightarrow> process_run \<Rightarrow> run_store \<Rightarrow> stage_outcome \<times> run_store" where
  "run_stage env clock task rid index stage p st =
     (case rbind (make_stage_dir clock rid (st_id stage) st) (\<lambda>(started, st0).
             rbind (update_state clock rid ''stage_submitted'' (stage_submitted stage index) st0)
               (\<lambda>(s, st1). Inr (started, st1))) of
        Inl e \<Rightarrow> (StageRaised e, st)
      | Inr (started, st1) \<Rightarrow>
          if st_execution stage = Broker then run_process env clock task rid stage started p st1
          else
            (case update_state clock rid (execution_name (st_execution stage) @ ''_waiting'')
                    (\<lambda>s. s\<lparr>rn_state := WaitingLocal\<rparr>) st1 of
               Inl e \<Rightarrow> (StageRaised e, st1)
             | Inr (s, st2) \<Rightarrow>
                 if pr_end p = CancelledWaiting then (StageCancelled, st2)
                 else
                   (case update_state clock rid (execution_name (st_execution stage) @ ''_started'')
                           (\<lambda>s. s\<lparr>rn_state := Running\<rparr>) st2 of
                      Inl e \<Rightarrow> (StageRaised e, st2)
                    | Inr (s, st3) \<Rightarrow> run_process env clock task rid stage started p st3)))"

section \<open>All stages\<close>

datatype stages_end =
    StagesDone "string option"
  | StagesRaised exn
  | StagesCancelled

text \<open>
  The loop of \<open>_run\<close>: it stops at the first stage without a result, with a non-zero exit
  after a passed report, or with a report other than passed.
\<close>

definition no_result_reason :: "stage_spec \<Rightarrow> string option \<Rightarrow> string" where
  "no_result_reason stage error =
     (case error of Some (c # m) \<Rightarrow> c # m | _ \<Rightarrow> ''stage '' @ st_id stage @ '' produced no result'')"

definition failed_reason :: "stage_spec \<Rightarrow> stage_result \<Rightarrow> string" where
  "failed_reason stage r =
     (case sr_summary r of Some (c # m) \<Rightarrow> c # m | _ \<Rightarrow> ''stage '' @ st_id stage @ '' failed'')"

fun run_stages ::
  "py_env \<Rightarrow> clock \<Rightarrow> task_spec \<Rightarrow> string \<Rightarrow> (nat \<Rightarrow> process_run) \<Rightarrow> nat \<Rightarrow> stage_spec list \<Rightarrow> run_store \<Rightarrow>
     stages_end \<times> staged list \<times> run_store" where
  "run_stages env clock task rid processes index [] st = (StagesDone None, [], st)"
| "run_stages env clock task rid processes index (stage # rest) st =
     (case run_stage env clock task rid index stage (processes index) st of
        (StageRaised e, st') \<Rightarrow> (StagesRaised e, [], st')
      | (StageCancelled, st') \<Rightarrow> (StagesCancelled, [], st')
      | (StageDone None code error, st') \<Rightarrow> (StagesDone (Some (no_result_reason stage error)), [], st')
      | (StageDone (Some r) code error, st') \<Rightarrow>
          if code \<noteq> 0 \<and> sr_status r = Passed
          then (StagesDone (Some (''stage '' @ st_id stage @ '' exited '' @ int_text code @ '' after reporting passed'')),
                [(st_id stage, st_kind stage, r)], st')
          else if sr_status r \<noteq> Passed
          then (StagesDone (Some (failed_reason stage r)), [(st_id stage, st_kind stage, r)], st')
          else (case run_stages env clock task rid processes (Suc index) rest st' of
              (e, results, st'') \<Rightarrow> (e, (st_id stage, st_kind stage, r) # results, st'')))"

section \<open>A whole run\<close>

definition settled :: "run_lifecycle \<Rightarrow> string option \<Rightarrow> run_state \<Rightarrow> run_state" where
  "settled outcome reason s = s\<lparr>rn_state := outcome, rn_reason := reason\<rparr>"

definition completed_state :: "run_lifecycle \<Rightarrow> string option \<Rightarrow> run_state \<Rightarrow> run_state" where
  "completed_state outcome reason s =
     (settled outcome reason s)\<lparr>rn_stage_id := None, rn_stage_kind := None, rn_stage_index := None\<rparr>"

text \<open>
  The two handlers write a result that is never eligible.  The write of a result or of a
  state raises only for a run that does not exist, which \<open>run\<close> excludes at its start.
\<close>

definition close_run ::
  "clock \<Rightarrow> task_spec \<Rightarrow> run_request \<Rightarrow> staged list \<Rightarrow> run_lifecycle \<Rightarrow> string \<Rightarrow> run_store \<Rightarrow> run_store result" where
  "close_run clock task request stages outcome reason st =
     (let rid = rq_run_id request;
          final = (aggregate_run_result task rid (rq_task_sha256 request) (rq_candidate_sha256 request) stages
            (Some reason))\<lparr>rr_outcome := outcome, rr_frontier_eligible := False\<rparr>
      in rbind (write_result rid final st) (\<lambda>st1.
         rbind (update_state clock rid (lifecycle_name outcome) (settled outcome (Some reason)) st1)
           (\<lambda>(s, st2). Inr st2)))"

text \<open>\<open>stop\<close> is the entry of \<open>_stop_reasons\<close> when the run was cancelled.\<close>

definition cancel_reason :: "run_lifecycle \<Rightarrow> string" where
  "cancel_reason stop =
     (if stop = Cancelled then ''run cancelled by request''
      else ''kernel-infrad stopped before the run became terminal'')"

definition complete_run ::
  "py_env \<Rightarrow> clock \<Rightarrow> task_spec \<Rightarrow> run_request \<Rightarrow> staged list \<Rightarrow> string option \<Rightarrow> run_store \<Rightarrow> exn option \<times> run_store" where
  "complete_run env clock task request stages reason st =
     (let rid = rq_run_id request;
          final = aggregate_run_result task rid (rq_task_sha256 request) (rq_candidate_sha256 request) stages reason
      in case write_result rid final st of
           Inl e \<Rightarrow> (Some e, st)
         | Inr st1 \<Rightarrow>
             (case write_frontier env clock task st1 of
                Inl e \<Rightarrow> (Some e, st1)
              | Inr (projection, st2) \<Rightarrow>
                  (case update_state clock rid (lifecycle_name (rr_outcome final))
                          (completed_state (rr_outcome final) reason) st2 of
                     Inl e \<Rightarrow> (Some e, st2)
                   | Inr (s, st3) \<Rightarrow> (None, st3))))"

definition run ::
  "py_env \<Rightarrow> clock \<Rightarrow> task_spec \<Rightarrow> string \<Rightarrow> (nat \<Rightarrow> process_run) \<Rightarrow> run_lifecycle option \<Rightarrow> run_store \<Rightarrow> run_store result" where
  "run env clock task rid processes stop st =
     rbind (read_request rid st) (\<lambda>request.
     case run_stages env clock task rid processes 0 (task_stages task) st of
       (StagesDone reason, stages, st1) \<Rightarrow>
         (case complete_run env clock task request stages reason st1 of
            (None, st2) \<Rightarrow> Inr st2
          | (Some e, st2) \<Rightarrow> close_run clock task request stages InfraError (exn_described e) st2)
     | (StagesCancelled, stages, st1) \<Rightarrow>
         (let outcome = (case stop of None \<Rightarrow> Interrupted | Some s \<Rightarrow> s) in
          close_run clock task request stages outcome (cancel_reason outcome) st1)
     | (StagesRaised e, stages, st1) \<Rightarrow>
         close_run clock task request stages InfraError (exn_described e) st1)"

section \<open>Submitting, and recovery at startup\<close>

text \<open>The probe of the broker client: \<open>Inl\<close> when it cannot run, otherwise its exit code and output.\<close>

definition word_char :: "char \<Rightarrow> bool" where
  "word_char c \<longleftrightarrow> (let n = of_char c :: nat in
     48 \<le> n \<and> n \<le> 57 \<or> 65 \<le> n \<and> n \<le> 90 \<or> 97 \<le> n \<and> n \<le> 122 \<or> n = 95 \<or> n = 170 \<or> n = 181 \<or> n = 186 \<or>
     n \<in> {178, 179, 185, 188, 189, 190} \<or> 192 \<le> n \<and> n \<noteq> 215 \<and> n \<noteq> 247)"

definition word_or_dash :: "char \<Rightarrow> bool" where
  "word_or_dash c \<longleftrightarrow> word_char c \<or> c = CHR ''-''"

fun has_flag :: "string \<Rightarrow> bool \<Rightarrow> string \<Rightarrow> bool" where
  "has_flag flag glued [] = False"
| "has_flag flag glued (c # cs) =
     (\<not> glued \<and> has_prefix flag (c # cs) \<and>
        (case drop (length flag) (c # cs) of [] \<Rightarrow> True | d # ds \<Rightarrow> \<not> word_or_dash d) \<or>
      has_flag flag (word_or_dash c) cs)"

definition check_scoped_client :: "string + int \<times> string \<Rightarrow> unit result" where
  "check_scoped_client probe =
     (case probe of
        Inl e \<Rightarrow> Inl (ContractError (''cannot verify scoped GPU requests with configured gpu-run: '' @ e))
      | Inr (code, out) \<Rightarrow>
          if code \<noteq> 0 \<or> \<not> has_flag ''--allowed-gpus'' False out
          then Inl (ContractError ''configured gpu-run does not support --allowed-gpus'')
          else Inr ())"

definition scoped :: "task_spec \<Rightarrow> bool" where
  "scoped task \<longleftrightarrow> list_ex (\<lambda>s. case st_resources s of None \<Rightarrow> False | Some r \<Rightarrow> rs_allowed_gpu_ids r \<noteq> None) (task_stages task)"

definition submit ::
  "py_env \<Rightarrow> clock \<Rightarrow> (string + int \<times> string) \<Rightarrow> string \<Rightarrow> task_spec \<Rightarrow> string \<Rightarrow> node option \<Rightarrow> string option \<Rightarrow>
     run_store \<Rightarrow> (run_state \<times> run_store) result" where
  "submit env clock probe suffix task candidate content label st =
     (let chosen = (case label of Some (c # l) \<Rightarrow> c # l
            | _ \<Rightarrow> if path_name candidate \<noteq> [] then path_name candidate else task_id task);
          effective = py_strip chosen
      in if effective = [] then Inl (ValueError ''label must not be empty'')
         else rbind (if scoped task then check_scoped_client probe else Inr ()) (\<lambda>_.
              create_run env clock suffix task candidate content effective st))"

text \<open>
  Startup: every open run with a broker job has the job cancelled first; the answer of the
  broker, or its failure, is an argument.
\<close>

definition reconcile ::
  "clock \<Rightarrow> (string \<Rightarrow> bool result) \<Rightarrow> run_store \<Rightarrow> run_state \<Rightarrow> run_store result" where
  "reconcile clock cancel_job st s =
     (case rn_broker_job_id s of
        None \<Rightarrow> Inr st
      | Some job \<Rightarrow>
          if job = [] then Inr st
          else rbind (cancel_job job) (\<lambda>cancelled.
               rbind (update_state clock (rn_id s) ''recovery_broker_reconciled''
                 (\<lambda>x. x\<lparr>rn_reason := Some (''startup reconciled broker job '' @ job @ ''; active_cancelled=''
                    @ (if cancelled then ''true'' else ''false''))\<rparr>) st) (\<lambda>(x, st'). Inr st')))"

definition recover_runs :: "clock \<Rightarrow> (string \<Rightarrow> bool result) \<Rightarrow> run_store \<Rightarrow> (nat \<times> run_store) result" where
  "recover_runs clock cancel_job st =
     rbind (rfold (reconcile clock cancel_job) st
              (filter (\<lambda>s. \<not> is_terminal (rn_state s)) (list_states None st)))
       (recover_interrupted clock)"

text \<open>What \<open>cancel_broker_job\<close> makes of the broker's response.\<close>

definition cancel_response :: "(py_float \<Rightarrow> string) \<Rightarrow> json result \<Rightarrow> bool result" where
  "cancel_response fr response =
     rbind response (\<lambda>v. case v of
       JObj d \<Rightarrow>
         (if py_eq (dget ''type'' d) (JStr ''cancelled'')
          then (case dget ''ok'' d of JBool ok \<Rightarrow> Inr ok
                | _ \<Rightarrow> Inl (RuntimeError (''invalid broker cancel response: '' @ py_repr fr v)))
          else Inl (RuntimeError (''invalid broker cancel response: '' @ py_repr fr v)))
     | _ \<Rightarrow> Inl (RuntimeError ''broker returned a non-object payload''))"

end
