(* ===== verification/Runner_Facts.thy ===== *)
theory Runner_Facts
  imports Runner
begin

text \<open>
  Every execution of a run drives the stored state along the lifecycle relation to a
  terminal state, writes one result whose outcome is that state, and leaves every other
  run alone.
\<close>

section \<open>The lifecycle relation\<close>

definition busy :: "run_lifecycle set" where
  "busy = {Submitting, Queued, Running}"

inductive lifecycle_step :: "run_lifecycle \<Rightarrow> run_lifecycle \<Rightarrow> bool" where
  submit_first: "lifecycle_step Accepted Submitting"
| submit_next: "lifecycle_step StageFinished Submitting"
| wait_local: "lifecycle_step Submitting WaitingLocal"
| start_local: "lifecycle_step WaitingLocal Running"
| broker: "s \<in> busy \<Longrightarrow> t \<in> {Queued, Running} \<Longrightarrow> lifecycle_step s t"
| finish: "s \<in> busy \<Longrightarrow> lifecycle_step s StageFinished"
| settle: "\<not> is_terminal s \<Longrightarrow> is_terminal t \<Longrightarrow> lifecycle_step s t"

inductive_cases from_terminal: "lifecycle_step s t"

lemma terminal_absorbing: "lifecycle_step s t \<Longrightarrow> \<not> is_terminal s"
  by (erule from_terminal) (auto simp: busy_def)

lemma chain_append:
  "successively P (x # xs) \<Longrightarrow> successively P (last (x # xs) # ys) \<Longrightarrow> successively P (x # xs @ ys)"
  by (induction xs arbitrary: x) (auto simp: successively_Cons)

section \<open>Progress of one run\<close>

definition run_at :: "string \<Rightarrow> run_store \<Rightarrow> run_lifecycle \<Rightarrow> bool" where
  "run_at rid st l \<longleftrightarrow> (\<exists>s. peek_run st rid = Some s \<and> rn_state s = l)"

definition files_of :: "run_store \<Rightarrow> string \<Rightarrow> run_files option" where
  "files_of st rid = dict_get rid (store_runs st)"

definition advances :: "string \<Rightarrow> run_store \<Rightarrow> run_store \<Rightarrow> bool" where
  "advances rid st st' \<longleftrightarrow>
     (\<exists>files files' more. files_of st rid = Some files \<and> files_of st' rid = Some files' \<and>
        rf_request files' = rf_request files \<and> rf_candidate files' = rf_candidate files \<and>
        rn_task_sha256 (rf_state files') = rn_task_sha256 (rf_state files) \<and>
        rn_task_id (rf_state files') = rn_task_id (rf_state files) \<and>
        rf_events files' = rf_events files @ more \<and>
        successively lifecycle_step (rn_state (rf_state files) # map ev_state more) \<and>
        rn_state (rf_state files') = last (rn_state (rf_state files) # map ev_state more) \<and>
        rn_service_deployment_ids (rf_state files') = rn_service_deployment_ids (rf_state files)) \<and>
     (\<forall>k. k \<noteq> rid \<longrightarrow> files_of st' k = files_of st k) \<and>
     (wf_store st \<longrightarrow> wf_store st')"

lemma advances_refl: "files_of st rid \<noteq> None \<Longrightarrow> advances rid st st"
  by (auto simp: advances_def intro!: exI [of _ "[]"])

lemma advances_trans:
  assumes "advances rid a b" and "advances rid b c"
  shows "advances rid a c"
proof -
  from assms(1) obtain f g m where m: "files_of a rid = Some f" "files_of b rid = Some g"
    "rf_request g = rf_request f" "rf_candidate g = rf_candidate f"
    "rn_task_sha256 (rf_state g) = rn_task_sha256 (rf_state f)" "rn_task_id (rf_state g) = rn_task_id (rf_state f)"
    "rf_events g = rf_events f @ m" "successively lifecycle_step (rn_state (rf_state f) # map ev_state m)"
    "rn_state (rf_state g) = last (rn_state (rf_state f) # map ev_state m)"
    "rn_service_deployment_ids (rf_state g) = rn_service_deployment_ids (rf_state f)"
    by (auto simp: advances_def)
  from assms(2) m(2) obtain h n where n: "files_of c rid = Some h"
    "rf_request h = rf_request g" "rf_candidate h = rf_candidate g"
    "rn_task_sha256 (rf_state h) = rn_task_sha256 (rf_state g)" "rn_task_id (rf_state h) = rn_task_id (rf_state g)"
    "rf_events h = rf_events g @ n" "successively lifecycle_step (rn_state (rf_state g) # map ev_state n)"
    "rn_state (rf_state h) = last (rn_state (rf_state g) # map ev_state n)"
    "rn_service_deployment_ids (rf_state h) = rn_service_deployment_ids (rf_state g)"
    by (auto simp: advances_def)
  have "successively lifecycle_step (rn_state (rf_state f) # map ev_state m @ map ev_state n)"
    using m(8,9) n(7) by (intro chain_append) simp_all
  moreover have "rn_state (rf_state h) = last (rn_state (rf_state f) # map ev_state (m @ n))"
    using m(9) n(8) by simp
  ultimately show ?thesis
    using assms m n unfolding advances_def by (intro conjI exI [of _ f] exI [of _ h] exI [of _ "m @ n"]) auto
qed

text \<open>A change of a run's state keeps its identity.\<close>

definition keeps_identity :: "(run_state \<Rightarrow> run_state) \<Rightarrow> bool" where
  "keeps_identity f \<longleftrightarrow> (\<forall>x. rn_id (f x) = rn_id x \<and> rn_task_sha256 (f x) = rn_task_sha256 x \<and>
     rn_task_id (f x) = rn_task_id x \<and> rn_service_deployment_ids (f x) = rn_service_deployment_ids x)"

lemma stamp_task [simp]: "rn_task_sha256 (stamp now s) = rn_task_sha256 s" "rn_task_id (stamp now s) = rn_task_id s"
  "rn_reason (stamp now s) = rn_reason s" "rn_service_deployment_ids (stamp now s) = rn_service_deployment_ids s"
  by (simp_all add: stamp_def Let_def)

lemma update_advances:
  assumes "run_at rid st l" and "\<And>x. rn_state x = l \<Longrightarrow> rn_state (f x) = l'" and "lifecycle_step l l'"
    and "keeps_identity f"
  shows "\<exists>s st'. update_state clock rid event f st = Inr (s, st') \<and> advances rid st st' \<and> run_at rid st' l' \<and>
    peek_run st' rid = Some s \<and> (\<forall>x. peek_run st rid = Some x \<longrightarrow> rn_reason s = rn_reason (f x)) \<and>
    (\<forall>files. files_of st rid = Some files \<longrightarrow> (\<exists>files'. files_of st' rid = Some files' \<and> rf_result files' = rf_result files))"
proof -
  from assms(1) obtain files where files: "run_dir rid = Inr ()" "files_of st rid = Some files"
    "rn_state (rf_state files) = l"
    by (auto simp: run_at_def peek_run_files files_of_def)
  define s where "s = stamp (clock (store_tick st)) (f (rf_state files))"
  from files obtain st' ev where st': "update_state clock rid event f st = Inr (s, st')"
    "store_runs st' = dict_set rid (files\<lparr>rf_state := s, rf_events := rf_events files @ [ev]\<rparr>) (store_runs st)"
    and ev: "ev_state ev = rn_state s"
    by (simp add: update_state_def read_files_def utc_now_def append_event_def Let_def put_files_def files_of_def s_def)
  have sl: "rn_state s = l'" using assms(2) files(3) by (simp add: s_def)
  have wf: "wf_store st \<longrightarrow> wf_store st'"
    using update_state_wf [OF st'(1)] assms(4) by (simp add: keeps_identity_def)
  have "advances rid st st'"
    unfolding advances_def
  proof (intro conjI exI)
    show "files_of st rid = Some files" by fact
    show "files_of st' rid = Some (files\<lparr>rf_state := s, rf_events := rf_events files @ [ev]\<rparr>)"
      by (simp add: files_of_def st')
    show "successively lifecycle_step (rn_state (rf_state files) # map ev_state [ev])"
      using assms(3) files(3) sl ev by simp
  qed (use assms(4) ev wf in \<open>auto simp: s_def keeps_identity_def files_of_def st'\<close>)
  moreover have "peek_run st' rid = Some s" using files(1) st' by (simp add: peek_run_files)
  ultimately show ?thesis
    using st' sl files by (auto simp: run_at_def peek_run_files files_of_def s_def)
qed

lemma run_at_files: "run_at rid st l \<Longrightarrow> files_of st rid \<noteq> None"
  by (auto simp: run_at_def peek_run_files files_of_def)

lemma keeps_identity_intros [simp]:
  "keeps_identity (\<lambda>s. s\<lparr>rn_state := Queued, rn_broker_job_id := Some job\<rparr>)"
  "keeps_identity (\<lambda>s. s\<lparr>rn_state := l\<rparr>)"
  "keeps_identity (\<lambda>s. s\<lparr>rn_state := Running, rn_gpu_ids := ids\<rparr>)"
  "keeps_identity (\<lambda>s. s\<lparr>rn_state := StageFinished, rn_reason := e\<rparr>)"
  "keeps_identity (stage_submitted stage i)" "keeps_identity (settled l r)" "keeps_identity (completed_state l r')"
  by (simp_all add: keeps_identity_def stage_submitted_def settled_def completed_state_def)

section \<open>Stages\<close>

lemma handle_line_advances:
  assumes "run_at rid st l" and "l \<in> busy" and "handle_line clock rid st line = Inr st'"
  shows "advances rid st st' \<and> (\<exists>l' \<in> busy. run_at rid st' l')"
proof -
  have upd: "advances rid st st1 \<and> run_at rid st1 l'"
    if "update_state clock rid event f st = Inr (s, st1)" "l' \<in> {Queued, Running}"
      "\<And>x. rn_state (f x) = l'" "keeps_identity f" for event f s st1 l'
    using update_advances [OF assms(1), of f l' clock event] that lifecycle_step.broker [OF assms(2) that(2)] by auto
  have b: "Queued \<in> busy" "Running \<in> busy" by (simp_all add: busy_def)
  show ?thesis
  proof (cases "accepted_job (py_strip line)")
    case (Some job)
    with assms(3) obtain s where "update_state clock rid ''broker_accepted''
        (\<lambda>s. s\<lparr>rn_state := Queued, rn_broker_job_id := Some job\<rparr>) st = Inr (s, st')"
      by (auto simp: handle_line_def Let_def)
    from upd [OF this, of Queued] b show ?thesis by auto
  next
    case None
    show ?thesis
    proof (cases "is_substring ''[gpu-run] queued '' (py_strip line)")
      case True
      with None assms(3) obtain s where "update_state clock rid ''broker_queued'' (\<lambda>s. s\<lparr>rn_state := Queued\<rparr>) st = Inr (s, st')"
        by (auto simp: handle_line_def Let_def)
      from upd [OF this, of Queued] b show ?thesis by auto
    next
      case False
      show ?thesis
      proof (cases "gpu_ids_text (py_strip line)")
        case None': None
        with None False assms have "st' = st" by (simp add: handle_line_def Let_def)
        with assms advances_refl [OF run_at_files] show ?thesis by blast
      next
        case (Some t)
        with None False assms(3) obtain s ids where "update_state clock rid ''broker_started''
            (\<lambda>s. s\<lparr>rn_state := Running, rn_gpu_ids := ids\<rparr>) st = Inr (s, st')"
          by (auto simp: handle_line_def Let_def)
        from upd [OF this, of Running] b show ?thesis by auto
      qed
    qed
  qed
qed

lemma pump_lines_advances:
  assumes "run_at rid st l" and "l \<in> busy" and "pump_lines clock rid lines st = (raised, st')"
  shows "advances rid st st' \<and> (\<exists>l' \<in> busy. run_at rid st' l')"
  using assms
proof (induction lines arbitrary: st l)
  case Nil
  then show ?case using advances_refl run_at_files by auto
next
  case (Cons line lines)
  show ?case
  proof (cases "handle_line clock rid st line")
    case (Inl e)
    with Cons.prems show ?thesis using advances_refl run_at_files by auto
  next
    case (Inr st1)
    from handle_line_advances [OF Cons.prems(1,2) Inr] obtain l1 where
      l1: "advances rid st st1" "l1 \<in> busy" "run_at rid st1 l1" by blast
    have "advances rid st1 st' \<and> (\<exists>l' \<in> busy. run_at rid st' l')"
      using Cons.IH [OF l1(3,2)] Cons.prems(3) Inr by simp
    with l1(1) show ?thesis by (blast intro: advances_trans)
  qed
qed

text \<open>A stage leaves the run open, and finished when it produced an outcome.\<close>

definition stage_left :: "string \<Rightarrow> run_store \<Rightarrow> stage_outcome \<Rightarrow> run_store \<Rightarrow> bool" where
  "stage_left rid st out st' \<longleftrightarrow> advances rid st st' \<and>
     (\<exists>l. run_at rid st' l \<and> \<not> is_terminal l \<and> (\<forall>r c e. out = StageDone r c e \<longrightarrow> l = StageFinished))"

lemma stage_left_trans: "advances rid st st1 \<Longrightarrow> stage_left rid st1 out st' \<Longrightarrow> stage_left rid st out st'"
  unfolding stage_left_def by (blast intro: advances_trans)

lemma stage_left_here:
  "run_at rid st l \<Longrightarrow> \<not> is_terminal l \<Longrightarrow> out = StageCancelled \<or> (\<exists>e. out = StageRaised e) \<Longrightarrow> stage_left rid st out st"
  unfolding stage_left_def using advances_refl run_at_files by blast

lemma busy_open: "l \<in> busy \<Longrightarrow> \<not> is_terminal l"
  by (auto simp: busy_def)

text \<open>A write to the run's other files leaves its state and its events alone.\<close>

definition same_state :: "run_files \<Rightarrow> run_files \<Rightarrow> bool" where
  "same_state f g \<longleftrightarrow> rf_state g = rf_state f \<and> rf_events g = rf_events f \<and> rf_request g = rf_request f \<and>
     rf_candidate g = rf_candidate f"

lemma side_write_advances:
  assumes "run_at rid st l" and "files_of st rid = Some files" and "same_state files new"
    and "store_runs st' = dict_set rid new (store_runs st)"
  shows "advances rid st st'" and "run_at rid st' l" and "files_of st' rid = Some new"
proof -
  from assms(1,2) have files: "run_dir rid = Inr ()" "rn_state (rf_state files) = l"
    by (auto simp: run_at_def peek_run_files files_of_def)
  have wf: "wf_store st'" if "wf_store st"
  proof (rule wf_store_set [OF that _ assms(4)])
    have "wf_run rid files" using that assms(2) by (simp add: files_of_def wf_store_get)
    then show "wf_run rid new" using assms(3) by (simp add: wf_run_def same_state_def)
  qed
  show new: "files_of st' rid = Some new" using assms(4) by (simp add: files_of_def)
  then show "run_at rid st' l" using files assms(3) by (simp add: run_at_def peek_run_files files_of_def same_state_def)
  show "advances rid st st'"
    unfolding advances_def
  proof (intro conjI exI)
    show "rf_events new = rf_events files @ []" using assms(3) by (simp add: same_state_def)
  qed (use assms new wf in \<open>auto simp: same_state_def files_of_def\<close>)
qed

lemma write_receipt_advances:
  assumes "run_at rid st l"
  shows "\<exists>st'. write_receipt clock rid stage started code accepted error st = Inr st' \<and> advances rid st st' \<and>
    run_at rid st' l"
proof -
  from assms obtain files where files: "run_dir rid = Inr ()" "files_of st rid = Some files"
    by (auto simp: run_at_def peek_run_files files_of_def)
  then obtain st' receipt where st': "write_receipt clock rid stage started code accepted error st = Inr st'"
    "store_runs st' = dict_set rid (files\<lparr>rf_receipts := dict_set (st_id stage) receipt (rf_receipts files)\<rparr>) (store_runs st)"
    by (simp add: write_receipt_def read_files_def files_of_def utc_now_def put_files_def)
  from side_write_advances [OF assms files(2) _ st'(2)] st'(1) show ?thesis by (simp add: same_state_def)
qed

lemma finish_stage_left:
  assumes "run_at rid st l" and "l \<in> busy" and "finish_stage env clock task rid stage started code file st = (out, st')"
  shows "stage_left rid st out st'"
proof -
  let ?loaded = "load_stage_result env file (rid @ ''/stages/'' @ st_id stage @ ''/result.json'') task"
  let ?finish = "\<lambda>r error. (case write_receipt clock rid stage started code (r \<noteq> None) error st of
         Inl e \<Rightarrow> (StageRaised e, st)
       | Inr st1 \<Rightarrow>
           (case update_state clock rid ''stage_finished''
                   (\<lambda>s. s\<lparr>rn_state := StageFinished, rn_reason := error\<rparr>) st1 of
              Inl e \<Rightarrow> (StageRaised e, st1)
            | Inr (s, st') \<Rightarrow> (StageDone r code error, st')))"
  have fin: "stage_left rid st out st'" if "?finish r error = (out, st')" for r :: "stage_result option" and error
  proof -
    obtain st1 where st1: "write_receipt clock rid stage started code (r \<noteq> None) error st = Inr st1"
      "advances rid st st1" "run_at rid st1 l"
      using write_receipt_advances [OF assms(1)] by blast
    obtain s st2 where "update_state clock rid ''stage_finished'' (\<lambda>s. s\<lparr>rn_state := StageFinished, rn_reason := error\<rparr>) st1
        = Inr (s, st2)" "advances rid st1 st2" "run_at rid st2 StageFinished"
      using update_advances [OF st1(3), of "\<lambda>s. s\<lparr>rn_state := StageFinished, rn_reason := error\<rparr>" StageFinished
          clock "''stage_finished''"] lifecycle_step.finish [OF assms(2)] by auto
    with that st1 show ?thesis by (auto simp: stage_left_def intro: advances_trans)
  qed
  show ?thesis
  proof (cases ?loaded)
    case (Inr r)
    with assms(3) fin [of "Some r" None] show ?thesis by (simp add: finish_stage_def)
  next
    case (Inl e)
    show ?thesis
    proof (cases "is_contract_error e")
      case True
      with Inl assms(3) fin [of None "Some (exn_message e)"] show ?thesis by (simp add: finish_stage_def)
    next
      case False
      with Inl assms(3) stage_left_here [OF assms(1) busy_open [OF assms(2)]] show ?thesis
        by (auto simp: finish_stage_def Let_def)
    qed
  qed
qed

lemma run_process_left:
  assumes "run_at rid st l" and "l \<in> busy" and "run_process env clock task rid stage started p st = (out, st')"
  shows "stage_left rid st out st'"
proof -
  obtain raised st1 where st1:
    "(if st_execution stage = Broker then pump_lines clock rid (pr_lines p) st else (None, st)) = (raised, st1)"
    by (metis surj_pair)
  then obtain l1 where l1: "advances rid st st1" "l1 \<in> busy" "run_at rid st1 l1"
    using pump_lines_advances [OF assms(1,2), of clock "pr_lines p" raised st1] assms(1,2)
      advances_refl [OF run_at_files [OF assms(1)]]
    by (cases "st_execution stage = Broker") auto
  note here = stage_left_here [OF assms(1) busy_open [OF assms(2)]]
  note later = stage_left_trans [OF l1(1) stage_left_here [OF l1(3) busy_open [OF l1(2)]]]
  show ?thesis
  proof (cases "pr_end p")
    case (Exited code content)
    show ?thesis
    proof (cases raised)
      case None
      with Exited st1 assms(3) have "finish_stage env clock task rid stage started code content st1 = (out, st')"
        by (simp add: run_process_def)
      from stage_left_trans [OF l1(1) finish_stage_left [OF l1(3,2) this]] show ?thesis .
    next
      case (Some e)
      with Exited st1 assms(3) later show ?thesis by (auto simp: run_process_def)
    qed
  qed (use st1 assms(3) here later in \<open>auto simp: run_process_def\<close>)
qed

lemma make_stage_dir_advances:
  assumes "run_at rid st l" and "make_stage_dir clock rid sid st = Inr (started, st')"
  shows "advances rid st st' \<and> run_at rid st' l"
proof -
  from assms obtain files where files: "files_of st rid = Some files"
    "store_runs st' = dict_set rid (files\<lparr>rf_stage_dirs := rf_stage_dirs files @ [sid]\<rparr>) (store_runs st)"
    by (auto simp: run_at_def peek_run_files files_of_def make_stage_dir_def read_files_def put_files_def utc_now_def)
  from side_write_advances [OF assms(1) files(1) _ files(2)] show ?thesis by (simp add: same_state_def)
qed

lemma run_stage_left:
  assumes "run_at rid st l" and "l \<in> {Accepted, StageFinished}"
    and "run_stage env clock task rid index stage p st = (out, st')"
  shows "stage_left rid st out st'"
proof -
  have open_l: "\<not> is_terminal l" and to_sub: "lifecycle_step l Submitting"
    using assms(2) by (auto intro: lifecycle_step.intros)
  show ?thesis
  proof (cases "make_stage_dir clock rid (st_id stage) st")
    case (Inl e)
    with assms(3) stage_left_here [OF assms(1) open_l] show ?thesis by (auto simp: run_stage_def)
  next
    case (Inr made)
    obtain started st0 where made: "made = (started, st0)" by (cases made)
    note Inr = Inr [unfolded made]
    note st0 = make_stage_dir_advances [OF assms(1) Inr]
    obtain s st1 where st1: "update_state clock rid ''stage_submitted'' (stage_submitted stage index) st0 = Inr (s, st1)"
      "advances rid st0 st1" "run_at rid st1 Submitting"
      using update_advances [OF conjunct2 [OF st0], of "stage_submitted stage index" Submitting clock "''stage_submitted''"] to_sub
      by (auto simp: stage_submitted_def [of stage index])
    have adv1: "advances rid st st1" using st0 st1 by (blast intro: advances_trans)
    show ?thesis
    proof (cases "st_execution stage = Broker")
      case True
      with Inr st1 assms(3) have "run_process env clock task rid stage started p st1 = (out, st')"
        by (simp add: run_stage_def)
      from stage_left_trans [OF adv1 run_process_left [OF st1(3) _ this]] show ?thesis by (simp add: busy_def)
    next
      case False
      obtain s2 st2 where st2: "update_state clock rid (execution_name (st_execution stage) @ ''_waiting'')
          (\<lambda>s. s\<lparr>rn_state := WaitingLocal\<rparr>) st1 = Inr (s2, st2)" "advances rid st1 st2" "run_at rid st2 WaitingLocal"
        using update_advances [OF st1(3), of "\<lambda>s. s\<lparr>rn_state := WaitingLocal\<rparr>" WaitingLocal clock "execution_name (st_execution stage) @ ''_waiting''"] lifecycle_step.wait_local by auto
      obtain s3 st3 where st3: "update_state clock rid (execution_name (st_execution stage) @ ''_started'')
          (\<lambda>s. s\<lparr>rn_state := Running\<rparr>) st2 = Inr (s3, st3)" "advances rid st2 st3" "run_at rid st3 Running"
        using update_advances [OF st2(3), of "\<lambda>s. s\<lparr>rn_state := Running\<rparr>" Running clock "execution_name (st_execution stage) @ ''_started''"] lifecycle_step.start_local by auto
      have adv2: "advances rid st st2" and adv3: "advances rid st st3"
        using adv1 st2(2) st3(2) by (blast intro: advances_trans)+
      show ?thesis
      proof (cases "pr_end p = CancelledWaiting")
        case True
        with False Inr st1 st2 assms(3) have "out = StageCancelled" "st' = st2"
          by (simp_all add: run_stage_def)
        with stage_left_trans [OF adv2 stage_left_here [OF st2(3)]] show ?thesis by simp
      next
        case notw: False
        with False Inr st1 st2 st3 assms(3) have "run_process env clock task rid stage started p st3 = (out, st')"
          by (simp add: run_stage_def)
        from stage_left_trans [OF adv3 run_process_left [OF st3(3) _ this]] show ?thesis by (simp add: busy_def)
      qed
    qed
  qed
qed

lemma run_stages_left:
  assumes "run_at rid st l" and "l \<in> {Accepted, StageFinished}"
    and "run_stages env clock task rid ps index stages st = (e, results, st')"
  shows "advances rid st st' \<and> (\<exists>l'. run_at rid st' l' \<and> \<not> is_terminal l')"
  using assms
proof (induction stages arbitrary: st st' l index e results)
  case Nil
  then show ?case using advances_refl [OF run_at_files [OF Nil(1)]] by auto
next
  case (Cons stage stages)
  obtain out st1 where out: "run_stage env clock task rid index stage (ps index) st = (out, st1)"
    by (metis surj_pair)
  note left = run_stage_left [OF Cons.prems(1,2) out]
  from left obtain l1 where l1: "advances rid st st1" "run_at rid st1 l1" "\<not> is_terminal l1" by (auto simp: stage_left_def)
  show ?case
  proof (cases "\<exists>r. out = StageDone (Some r) 0 None \<and> sr_status r = Passed \<or> (\<exists>c e. out = StageDone (Some r) c e)")
    case False
    with out Cons.prems(3) have "st' = st1" by (auto split: stage_outcome.splits option.splits)
    with l1 show ?thesis by blast
  next
    case True
    then obtain r c err where o: "out = StageDone (Some r) c err" by blast
    then have at: "run_at rid st1 StageFinished" using left by (auto simp: stage_left_def)
    show ?thesis
    proof (cases "c = 0 \<and> sr_status r = Passed")
      case False
      with o out Cons.prems(3) have "st' = st1" by (auto split: if_splits)
      with l1 show ?thesis by blast
    next
      case True
      obtain e2 rs st2 where rec: "run_stages env clock task rid ps (Suc index) stages st1 = (e2, rs, st2)"
        by (metis surj_pair)
      with o out True Cons.prems(3) have "st' = st2" by simp
      have "advances rid st1 st2 \<and> (\<exists>l'. run_at rid st2 l' \<and> \<not> is_terminal l')"
        by (rule Cons.IH [OF at _ rec]) simp
      with l1(1) \<open>st' = st2\<close> show ?thesis by (blast intro: advances_trans)
    qed
  qed
qed

section \<open>Closing a run\<close>

text \<open>A settled run: terminal, with a result that says the same.\<close>

definition settled_run :: "string \<Rightarrow> run_store \<Rightarrow> run_lifecycle \<Rightarrow> run_result \<Rightarrow> bool" where
  "settled_run rid st l r \<longleftrightarrow> is_terminal l \<and> rr_outcome r = l \<and>
     (\<exists>s files. peek_run st rid = Some s \<and> rn_state s = l \<and> rn_reason s = rr_terminal_reason r \<and>
        files_of st rid = Some files \<and> rf_result files = Some r)"

lemma write_result_advances:
  assumes "run_at rid st l"
  shows "\<exists>st' files. write_result rid r st = Inr st' \<and> advances rid st st' \<and> run_at rid st' l \<and>
    files_of st' rid = Some files \<and> rf_result files = Some r"
proof -
  from assms obtain files where files: "run_dir rid = Inr ()" "files_of st rid = Some files"
    "rn_state (rf_state files) = l"
    by (auto simp: run_at_def peek_run_files files_of_def)
  define new where "new = files\<lparr>rf_result := Some r\<rparr>"
  obtain st' where st': "write_result rid r st = Inr st'" "store_runs st' = dict_set rid new (store_runs st)"
    using files by (simp add: write_result_def read_files_def put_files_def files_of_def new_def)
  have "same_state files new" "rf_result new = Some r" by (simp_all add: same_state_def new_def)
  with side_write_advances [OF assms files(2) _ st'(2)] st'(1) show ?thesis by blast
qed

lemma write_frontier_runs: "write_frontier env clock task st = Inr (p, st') \<Longrightarrow> store_runs st' = store_runs st"
  by (auto simp: write_frontier_def utc_now_def split: prod.splits)

lemma same_runs:
  assumes "store_runs st' = store_runs st" and "run_at rid st l"
  shows "advances rid st st'" and "run_at rid st' l" and "files_of st' = files_of st"
proof -
  have p: "peek_run st' = peek_run st" and f: "files_of st' = files_of st"
    using assms(1) by (auto simp: fun_eq_iff peek_run_def read_state_def read_files_def files_of_def)
  have w: "wf_store st' = wf_store st" using assms(1) by (simp add: wf_store_def)
  show "files_of st' = files_of st" by (rule f)
  show "run_at rid st' l" using assms(2) by (simp add: run_at_def p)
  show "advances rid st st'"
    using advances_refl [OF run_at_files [OF assms(2)]] by (simp add: advances_def f w)
qed

lemma settling_update:
  assumes "run_at rid st l" and "\<not> is_terminal l" and "is_terminal l'"
    and "\<And>x. rn_state (f x) = l'" and "\<And>x. rn_reason (f x) = rr_terminal_reason r" and "keeps_identity f"
    and "files_of st rid = Some files" and "rf_result files = Some r" and "rr_outcome r = l'"
  shows "\<exists>s st'. update_state clock rid event f st = Inr (s, st') \<and> advances rid st st' \<and> settled_run rid st' l' r"
proof -
  obtain s st' where st': "update_state clock rid event f st = Inr (s, st')" "advances rid st st'"
    "run_at rid st' l'" "peek_run st' rid = Some s"
    "\<forall>x. peek_run st rid = Some x \<longrightarrow> rn_reason s = rn_reason (f x)"
    "\<forall>files. files_of st rid = Some files \<longrightarrow> (\<exists>files'. files_of st' rid = Some files' \<and> rf_result files' = rf_result files)"
    using update_advances [OF assms(1), of f l' clock event] assms(2-4,6) lifecycle_step.settle by blast
  obtain x where "peek_run st rid = Some x" using assms(1) by (auto simp: run_at_def)
  with st'(5) assms(5) have "rn_reason s = rr_terminal_reason r" by simp
  moreover have "rn_state s = l'" using st'(3,4) by (simp add: run_at_def)
  moreover obtain files' where "files_of st' rid = Some files'" "rf_result files' = Some r"
    using st'(6) assms(7,8) by auto
  ultimately show ?thesis using st' assms(3,9) by (auto simp: settled_run_def)
qed

lemma close_run_settles:
  assumes "run_at rid st l" and "\<not> is_terminal l" and "is_terminal outcome" and "rq_run_id request = rid"
  shows "\<exists>st' r. close_run clock task request stages outcome reason st = Inr st' \<and> advances rid st st' \<and>
    settled_run rid st' outcome r \<and> \<not> rr_frontier_eligible r \<and> rr_terminal_reason r = Some reason"
proof -
  define r where "r = (aggregate_run_result task rid (rq_task_sha256 request) (rq_candidate_sha256 request) stages
      (Some reason))\<lparr>rr_outcome := outcome, rr_frontier_eligible := False\<rparr>"
  have reason: "rr_terminal_reason r = Some reason" by (simp add: r_def aggregate_run_result_def Let_def)
  have out: "rr_outcome r = outcome" by (simp add: r_def)
  obtain st1 files where st1: "write_result rid r st = Inr st1" "advances rid st st1" "run_at rid st1 l"
    "files_of st1 rid = Some files" "rf_result files = Some r"
    using write_result_advances [OF assms(1)] by blast
  obtain s st2 where st2: "update_state clock rid (lifecycle_name outcome) (settled outcome (Some reason)) st1 = Inr (s, st2)"
    "advances rid st1 st2" "settled_run rid st2 outcome r"
    using settling_update [OF st1(3) assms(2,3) _ _ _ st1(4,5), of "settled outcome (Some reason)" clock "lifecycle_name outcome"]
    by (auto simp: settled_def reason out)
  have "close_run clock task request stages outcome reason st = Inr st2"
    using st1(1) st2(1) assms(4) by (simp add: close_run_def Let_def r_def)
  moreover have "\<not> rr_frontier_eligible r" by (simp add: r_def)
  ultimately show ?thesis using st1(2) st2(2,3) reason by (blast intro: advances_trans)
qed

lemma aggregate_outcome_terminal: "is_terminal (rr_outcome (aggregate_run_result task rid t c stages reason))"
  by (simp add: aggregate_run_result_def Let_def)

lemma eligible_completed:
  "rr_frontier_eligible (aggregate_run_result task rid t c stages reason) \<Longrightarrow>
     rr_outcome (aggregate_run_result task rid t c stages reason) = Completed"
  by (simp add: aggregate_run_result_def Let_def)

lemma complete_run_settles:
  assumes "run_at rid st l" and "\<not> is_terminal l" and "rq_run_id request = rid"
    and "complete_run env clock task request stages reason st = (raised, st')"
    and "r = aggregate_run_result task rid (rq_task_sha256 request) (rq_candidate_sha256 request) stages reason"
  shows "advances rid st st' \<and>
    (raised = None \<longrightarrow> settled_run rid st' (rr_outcome r) r) \<and>
    (raised \<noteq> None \<longrightarrow> run_at rid st' l)"
proof -
  obtain st1 files where st1: "write_result rid r st = Inr st1" "advances rid st st1" "run_at rid st1 l"
    "files_of st1 rid = Some files" "rf_result files = Some r"
    using write_result_advances [OF assms(1)] by blast
  show ?thesis
  proof (cases "write_frontier env clock task st1")
    case (Inl e)
    with st1 assms(3,4,5) have "raised = Some e" "st' = st1" by (simp_all add: complete_run_def Let_def)
    with st1 show ?thesis by simp
  next
    case (Inr pf)
    obtain p st2 where pf: "pf = (p, st2)" by (cases pf)
    note same = same_runs [OF write_frontier_runs [OF Inr [unfolded pf]] st1(3)]
    have reason: "rr_terminal_reason r = reason" by (simp add: assms(5) aggregate_run_result_def Let_def)
    have f2: "files_of st2 rid = Some files" using same(3) st1(4) by simp
    obtain s st3 where st3: "update_state clock rid (lifecycle_name (rr_outcome r)) (completed_state (rr_outcome r) reason) st2
        = Inr (s, st3)" "advances rid st2 st3" "settled_run rid st3 (rr_outcome r) r"
      using settling_update [OF same(2) assms(2) _ _ _ _ f2 st1(5), of "rr_outcome r" "completed_state (rr_outcome r) reason"
          clock "lifecycle_name (rr_outcome r)"] aggregate_outcome_terminal [of task rid] assms(5) reason
      by (auto simp: completed_state_def settled_def)
    have "raised = None" "st' = st3"
      using assms(3,4) st1(1) Inr pf st3(1) by (simp_all add: complete_run_def Let_def flip: assms(5))
    with st1(2) same(1) st3 show ?thesis by (blast intro: advances_trans)
  qed
qed

lemma run_settles:
  assumes "run_at rid st Accepted" and "wf_store st" and "stop \<in> {None, Some Cancelled, Some Interrupted}"
  shows "\<exists>st' l r. run env clock task rid ps stop st = Inr st' \<and> advances rid st st' \<and> settled_run rid st' l r \<and>
    (rr_frontier_eligible r \<longrightarrow> l = Completed)"
proof -
  from assms(1) obtain files where files: "run_dir rid = Inr ()" "files_of st rid = Some files"
    by (auto simp: run_at_def peek_run_files files_of_def)
  let ?rq = "rf_request files"
  have rq: "read_request rid st = Inr ?rq" using files by (simp add: read_request_def files_of_def)
  have rid: "rq_run_id ?rq = rid"
    using wf_store_get [OF assms(2)] files(2) by (auto simp: files_of_def wf_run_def)
  obtain e stages st1 where st: "run_stages env clock task rid ps 0 (task_stages task) st = (e, stages, st1)"
    by (metis surj_pair)
  obtain l where l: "advances rid st st1" "run_at rid st1 l" "\<not> is_terminal l"
    using run_stages_left [OF assms(1) _ st] by blast
  have closed: "\<exists>st' l r. close_run clock task ?rq stages outcome reason st2 = Inr st' \<and> advances rid st st' \<and>
      settled_run rid st' l r \<and> (rr_frontier_eligible r \<longrightarrow> l = Completed)"
    if "advances rid st st2" "run_at rid st2 l" "is_terminal outcome" for outcome reason st2
    using close_run_settles [OF that(2) l(3) that(3) rid, of clock task stages reason] that(1)
    by (blast intro: advances_trans)
  show ?thesis
  proof (cases e)
    case (StagesRaised x)
    with closed [OF l(1,2), of InfraError "exn_described x"] rq st show ?thesis by (simp add: run_def)
  next
    case StagesCancelled
    let ?o = "case stop of None \<Rightarrow> Interrupted | Some s \<Rightarrow> s"
    have "is_terminal ?o" using assms(3) by auto
    from closed [OF l(1,2) this, of "cancel_reason ?o"] StagesCancelled rq st show ?thesis
      by (simp add: run_def Let_def)
  next
    case (StagesDone reason)
    obtain raised st2 where c: "complete_run env clock task ?rq stages reason st1 = (raised, st2)" by (metis surj_pair)
    note settles = complete_run_settles [OF l(2,3) rid c refl]
    show ?thesis
    proof (cases raised)
      case None
      with settles rq st c StagesDone l(1) show ?thesis
        using eligible_completed by (auto simp: run_def intro!: exI intro: advances_trans)
    next
      case (Some x)
      with settles l(1) have "advances rid st st2" "run_at rid st2 l" by (auto intro: advances_trans)
      from closed [OF this, of InfraError "exn_described x"] Some rq st c StagesDone show ?thesis
        by (simp add: run_def)
    qed
  qed
qed

end
