(* ===== verification/Runner_Outcomes.thy ===== *)
theory Runner_Outcomes
  imports Runner_Facts
begin

text \<open>
  What a run ends with: the results it stores never make the frontier reduction raise, a
  run whose stages all pass completes, and the exit code of the last stage does not count.
\<close>

section \<open>Stage directories\<close>

definition dirs_of :: "run_store \<Rightarrow> string \<Rightarrow> string list option" where
  "dirs_of st rid = map_option rf_stage_dirs (files_of st rid)"

lemma update_dirs: "update_state clock rid event f st = Inr (s, st') \<Longrightarrow> dirs_of st' k = dirs_of st k"
  by (auto simp: update_state_def read_files_def utc_now_def append_event_def Let_def put_files_def
      dirs_of_def files_of_def)

lemma handle_line_dirs: "handle_line clock rid st line = Inr st' \<Longrightarrow> dirs_of st' k = dirs_of st k"
  by (auto simp: handle_line_def Let_def split: option.splits if_splits dest: update_dirs)

lemma pump_lines_dirs: "pump_lines clock rid lines st = (e, st') \<Longrightarrow> dirs_of st' k = dirs_of st k"
  by (induction lines arbitrary: st) (auto split: sum.splits dest: handle_line_dirs)

lemma write_receipt_dirs: "write_receipt clock rid stage started c v e st = Inr st' \<Longrightarrow> dirs_of st' k = dirs_of st k"
  by (auto simp: write_receipt_def read_files_def utc_now_def put_files_def dirs_of_def files_of_def)

lemma finish_stage_dirs:
  "finish_stage env clock task rid stage started c f st = (out, st') \<Longrightarrow> dirs_of st' k = dirs_of st k"
  by (auto simp: finish_stage_def Let_def split: sum.splits if_splits
      dest!: update_dirs [where k = k] write_receipt_dirs [where k = k])

lemma run_process_dirs:
  "run_process env clock task rid stage started p st = (out, st') \<Longrightarrow> dirs_of st' k = dirs_of st k"
  by (auto simp: run_process_def split: process_end.splits option.splits prod.splits if_splits
      dest!: pump_lines_dirs [where k = k] finish_stage_dirs [where k = k])

lemma make_stage_dir_dirs:
  assumes "dirs_of st rid = Some ds" and "sid \<notin> set ds" and "run_at rid st l"
  shows "\<exists>started st'. make_stage_dir clock rid sid st = Inr (started, st') \<and> dirs_of st' rid = Some (ds @ [sid])"
proof -
  from assms obtain files where "run_dir rid = Inr ()" "dict_get rid (store_runs st) = Some files" "rf_stage_dirs files = ds"
    by (auto simp: run_at_def peek_run_files dirs_of_def files_of_def)
  then show ?thesis
    using assms(2) by (simp add: make_stage_dir_def read_files_def put_files_def dirs_of_def files_of_def utc_now_def)
qed

section \<open>Passing stages\<close>

definition line_ok :: "string \<Rightarrow> bool" where
  "line_ok line \<longleftrightarrow> (\<forall>t. gpu_ids_text (py_strip line) = Some t \<longrightarrow> (\<exists>ids. parse_gpu_ids t = Inr ids))"

lemma update_total:
  assumes "run_at rid st l"
  shows "\<exists>s st'. update_state clock rid event f st = Inr (s, st')"
proof -
  from assms obtain s where "peek_run st rid = Some s" by (auto simp: run_at_def)
  from update_state_known [OF this, of clock event f] show ?thesis by blast
qed

lemma handle_line_total:
  assumes "run_at rid st l" and "line_ok line"
  shows "\<exists>st'. handle_line clock rid st line = Inr st'"
proof -
  have "\<exists>s st'. update_state clock rid event f st = Inr (s, st')" for event f
    by (rule update_total [OF assms(1)])
  with assms(2) show ?thesis
    by (fastforce simp: handle_line_def Let_def line_ok_def split: option.splits)
qed

lemma pump_lines_total:
  assumes "run_at rid st l" and "l \<in> busy" and "list_all line_ok lines"
  shows "\<exists>st'. pump_lines clock rid lines st = (None, st')"
  using assms
proof (induction lines arbitrary: st l)
  case Nil
  then show ?case by simp
next
  case (Cons line lines)
  obtain st1 where st1: "handle_line clock rid st line = Inr st1"
    using handle_line_total [OF Cons.prems(1)] Cons.prems(3) by auto
  obtain l1 where "run_at rid st1 l1" "l1 \<in> busy" using handle_line_advances [OF Cons.prems(1,2) st1] by blast
  from Cons.IH [OF this] Cons.prems(3) st1 show ?case by simp
qed

definition stage_path :: "string \<Rightarrow> stage_spec \<Rightarrow> string" where
  "stage_path rid stage = rid @ ''/stages/'' @ st_id stage @ ''/result.json''"

text \<open>The process exits with \<open>code\<close> and its judge left a result that reads as \<open>r\<close>.\<close>

definition reports :: "py_env \<Rightarrow> task_spec \<Rightarrow> string \<Rightarrow> stage_spec \<Rightarrow> process_run \<Rightarrow> int \<Rightarrow> stage_result \<Rightarrow> bool" where
  "reports env task rid stage p code r \<longleftrightarrow> list_all line_ok (pr_lines p) \<and>
     (\<exists>content. pr_end p = Exited code content \<and> (\<forall>v. content = FileParsed v \<longrightarrow> wf_json v) \<and>
        load_stage_result env content (stage_path rid stage) task = Inr r)"

lemma run_process_reports:
  assumes "run_at rid st l" and "l \<in> busy" and "reports env task rid stage p code r"
  shows "\<exists>st'. run_process env clock task rid stage started p st = (StageDone (Some r) code None, st')"
proof -
  from assms(3) obtain content where f: "pr_end p = Exited code content"
    "load_stage_result env content (stage_path rid stage) task = Inr r" by (auto simp: reports_def)
  obtain st1 where st1:
    "(if st_execution stage = Broker then pump_lines clock rid (pr_lines p) st else (None, st)) = (None, st1)"
    using pump_lines_total [OF assms(1,2), of "pr_lines p" clock] assms(3)
    by (cases "st_execution stage = Broker") (auto simp: reports_def)
  then obtain l1 where l1: "l1 \<in> busy" "run_at rid st1 l1"
    using pump_lines_advances [OF assms(1,2), of clock "pr_lines p" None st1] assms(1,2)
    by (cases "st_execution stage = Broker") auto
  obtain st2 where st2: "write_receipt clock rid stage started code True None st1 = Inr st2" "run_at rid st2 l1"
    using write_receipt_advances [OF l1(2)] by blast
  obtain s st3 where "update_state clock rid ''stage_finished'' (\<lambda>s. s\<lparr>rn_state := StageFinished, rn_reason := None\<rparr>) st2
      = Inr (s, st3)"
    using update_total [OF st2(2)] by blast
  with st1 st2 f show ?thesis by (simp add: run_process_def finish_stage_def stage_path_def)
qed

lemma run_stage_reports:
  assumes "run_at rid st l" and "l \<in> {Accepted, StageFinished}" and "dirs_of st rid = Some ds"
    and "st_id stage \<notin> set ds" and "reports env task rid stage p code r"
  shows "\<exists>st'. run_stage env clock task rid index stage p st = (StageDone (Some r) code None, st') \<and>
    run_at rid st' StageFinished \<and> dirs_of st' rid = Some (ds @ [st_id stage])"
proof -
  obtain started st0 where st0: "make_stage_dir clock rid (st_id stage) st = Inr (started, st0)"
    "dirs_of st0 rid = Some (ds @ [st_id stage])"
    using make_stage_dir_dirs [OF assms(3,4,1)] by blast
  have at0: "run_at rid st0 l" using make_stage_dir_advances [OF assms(1) st0(1)] by blast
  have sub: "lifecycle_step l Submitting" using assms(2) by (auto intro: lifecycle_step.intros)
  obtain s st1 where st1: "update_state clock rid ''stage_submitted'' (stage_submitted stage index) st0 = Inr (s, st1)"
    "run_at rid st1 Submitting"
    using update_advances [OF at0 _ sub, of "stage_submitted stage index" clock "''stage_submitted''"]
    by (auto simp: stage_submitted_def [of stage index])
  have nowait: "pr_end p \<noteq> CancelledWaiting" using assms(5) by (auto simp: reports_def)
  obtain st' where st': "run_stage env clock task rid index stage p st = (StageDone (Some r) code None, st')"
    and dirs: "dirs_of st' rid = Some (ds @ [st_id stage])"
  proof (cases "st_execution stage = Broker")
    case True
    obtain st' where "run_process env clock task rid stage started p st1 = (StageDone (Some r) code None, st')"
      using run_process_reports [OF st1(2) _ assms(5)] by (auto simp: busy_def)
    with True st0 st1 that show ?thesis
      using run_process_dirs update_dirs [OF st1(1)] by (simp add: run_stage_def)
  next
    case False
    obtain s2 st2 where st2: "update_state clock rid (execution_name (st_execution stage) @ ''_waiting'')
        (\<lambda>s. s\<lparr>rn_state := WaitingLocal\<rparr>) st1 = Inr (s2, st2)" "run_at rid st2 WaitingLocal"
      using update_advances [OF st1(2), of "\<lambda>s. s\<lparr>rn_state := WaitingLocal\<rparr>" WaitingLocal clock
          "execution_name (st_execution stage) @ ''_waiting''"] lifecycle_step.wait_local by auto
    obtain s3 st3 where st3: "update_state clock rid (execution_name (st_execution stage) @ ''_started'')
        (\<lambda>s. s\<lparr>rn_state := Running\<rparr>) st2 = Inr (s3, st3)" "run_at rid st3 Running"
      using update_advances [OF st2(2), of "\<lambda>s. s\<lparr>rn_state := Running\<rparr>" Running clock
          "execution_name (st_execution stage) @ ''_started''"] lifecycle_step.start_local by auto
    obtain st' where "run_process env clock task rid stage started p st3 = (StageDone (Some r) code None, st')"
      using run_process_reports [OF st3(2) _ assms(5)] by (auto simp: busy_def)
    with False st0 st1 st2 st3 nowait that show ?thesis
      using run_process_dirs update_dirs [OF st1(1)] update_dirs [OF st2(1)] update_dirs [OF st3(1)]
      by (simp add: run_stage_def)
  qed
  moreover have "run_at rid st' StageFinished"
    using run_stage_left [OF assms(1,2) st'] by (auto simp: stage_left_def)
  ultimately show ?thesis by blast
qed

text \<open>Every stage reports passed; all but the last exit with 0.\<close>

definition all_pass ::
  "py_env \<Rightarrow> task_spec \<Rightarrow> string \<Rightarrow> (nat \<Rightarrow> process_run) \<Rightarrow> nat \<Rightarrow> stage_spec list \<Rightarrow> int \<Rightarrow> stage_result list \<Rightarrow> bool" where
  "all_pass env task rid ps index stages code rs \<longleftrightarrow> length rs = length stages \<and>
     (\<forall>i < length stages. sr_status (rs ! i) = Passed \<and>
        reports env task rid (stages ! i) (ps (index + i)) (if Suc i = length stages then code else 0) (rs ! i))"

definition last_exit_reason :: "stage_spec list \<Rightarrow> int \<Rightarrow> string option" where
  "last_exit_reason stages code =
     (if stages = [] \<or> code = 0 then None
      else Some (''stage '' @ st_id (last stages) @ '' exited '' @ int_text code @ '' after reporting passed''))"

definition staged_of :: "stage_spec list \<Rightarrow> stage_result list \<Rightarrow> staged list" where
  "staged_of stages rs = map2 (\<lambda>s r. (st_id s, st_kind s, r)) stages rs"

lemma all_pass_Cons:
  assumes "all_pass env task rid ps index (stage # stages) code rs"
  obtains r rest where "rs = r # rest" and "sr_status r = Passed"
    and "reports env task rid stage (ps index) (if stages = [] then code else 0) r"
    and "all_pass env task rid ps (Suc index) stages code rest"
proof -
  from assms obtain r rest where rs: "rs = r # rest" by (cases rs) (auto simp: all_pass_def)
  have h: "sr_status (rs ! i) = Passed \<and> reports env task rid ((stage # stages) ! i) (ps (index + i))
      (if Suc i = Suc (length stages) then code else 0) (rs ! i)" if "i < Suc (length stages)" for i
    using assms that by (simp add: all_pass_def)
  have "all_pass env task rid ps (Suc index) stages code rest"
    unfolding all_pass_def
  proof (intro conjI allI impI)
    show "length rest = length stages" using assms rs by (simp add: all_pass_def)
    fix i assume "i < length stages"
    with h [of "Suc i"] show "sr_status (rest ! i) = Passed"
      "reports env task rid (stages ! i) (ps (Suc index + i)) (if Suc i = length stages then code else 0) (rest ! i)"
      by (simp_all add: rs)
  qed
  with h [of 0] rs that show ?thesis by (cases stages) auto
qed

lemma run_stages_pass:
  assumes "run_at rid st l" and "l \<in> {Accepted, StageFinished}" and "dirs_of st rid = Some ds"
    and "distinct (ds @ map st_id stages)" and "all_pass env task rid ps index stages code rs"
  shows "\<exists>st'. run_stages env clock task rid ps index stages st =
    (StagesDone (last_exit_reason stages code), staged_of stages rs, st')"
  using assms
proof (induction stages arbitrary: st l ds index rs)
  case Nil
  then show ?case by (simp add: last_exit_reason_def staged_of_def)
next
  case (Cons stage stages)
  from Cons.prems(5) obtain r rest where rs: "rs = r # rest" "sr_status r = Passed"
    "reports env task rid stage (ps index) (if stages = [] then code else 0) r"
    "all_pass env task rid ps (Suc index) stages code rest" by (rule all_pass_Cons)
  obtain st1 where st1: "run_stage env clock task rid index stage (ps index) st =
      (StageDone (Some r) (if stages = [] then code else 0) None, st1)"
    "run_at rid st1 StageFinished" "dirs_of st1 rid = Some (ds @ [st_id stage])"
    using run_stage_reports [OF Cons.prems(1-3) _ rs(3), of clock index] Cons.prems(4) by auto
  show ?case
  proof (cases "stages = [] \<and> code \<noteq> 0")
    case True
    then show ?thesis using st1 rs Cons.prems(5)
      by (simp add: last_exit_reason_def staged_of_def all_pass_def)
  next
    case False
    have "\<exists>st'. run_stages env clock task rid ps (Suc index) stages st1 =
        (StagesDone (last_exit_reason stages code), staged_of stages rest, st')"
      using st1(2) _ st1(3) _ rs(4) by (rule Cons.IH) (use Cons.prems(4) in auto)
    then show ?thesis using st1 rs False
      by (cases "stages = []") (auto simp: last_exit_reason_def staged_of_def)
  qed
qed

lemma reports_wf: "reports env task rid stage p code r \<Longrightarrow> wf_stage_result task r"
proof -
  assume "reports env task rid stage p code r"
  then obtain content where c: "\<forall>v. content = FileParsed v \<longrightarrow> wf_json v"
    "load_stage_result env content (stage_path rid stage) task = Inr r" by (auto simp: reports_def)
  then obtain v where "content = FileParsed v" "validate_stage_result env v task = Inr r"
    by (auto simp: load_stage_result_def split: json_file.splits)
  with c(1) validate_stage_result_Inr show ?thesis by blast
qed

lemma staged_of_wf:
  assumes "all_pass env task rid ps index stages code rs"
  shows "wf_staged task (staged_of stages rs)" and "all_stages_passed (staged_of stages rs)"
    and "length (staged_of stages rs) = length stages"
proof -
  have h: "wf_stage_result task (rs ! i) \<and> sr_status (rs ! i) = Passed" if "i < length stages" for i
    using assms that reports_wf unfolding all_pass_def by blast
  have l: "length rs = length stages" using assms by (simp add: all_pass_def)
  show "wf_staged task (staged_of stages rs)" "all_stages_passed (staged_of stages rs)"
    "length (staged_of stages rs) = length stages"
    using h l by (auto simp: wf_staged_def all_stages_passed_def staged_of_def list_all_length)
qed

section \<open>Results that the reduction accepts\<close>

definition sound_results :: "task_spec \<Rightarrow> run_store \<Rightarrow> bool" where
  "sound_results task st \<longleftrightarrow> (\<forall>rid files r. files_of st rid = Some files \<longrightarrow> rf_result files = Some r \<longrightarrow>
     rn_task_sha256 (rf_state files) = task_digest task \<longrightarrow> wf_candidate task (rid, r))"

lemma select_candidates_all:
  "(\<And>rid r. (rid, digest, Some r) \<in> set stored \<Longrightarrow> P (rid, r)) \<Longrightarrow> list_all P (select_candidates digest stored)"
proof (induction digest stored rule: select_candidates.induct)
  case (2 digest rid sha content rest)
  then show ?case by (auto split: option.splits)
qed simp

text \<open>The finished runs of a task, in the order of acceptance, and the projection of a reduction.\<close>

definition finished_runs :: "task_spec \<Rightarrow> run_store \<Rightarrow> candidate list" where
  "finished_runs task st = concat (map
     (\<lambda>s. case Option.bind (dict_get (rn_id s) (store_runs st)) rf_result of None \<Rightarrow> [] | Some r \<Rightarrow> [(rn_id s, r)])
     (filter (\<lambda>s. rn_task_sha256 s = task_digest task) (list_states (Some (task_id task)) st)))"

definition projection_of :: "task_spec \<Rightarrow> string \<Rightarrow> frontier_state \<Rightarrow> frontier_projection" where
  "projection_of task now fr =
     \<lparr>fp_task_id = task_id task, fp_task_sha256 = task_digest task, fp_generated_at = now,
      fp_relative_noise_floor = cmp_relative_noise_floor (task_comparison task),
      fp_cells = fr_cells fr, fp_decisions = fr_decisions fr\<rparr>"

lemma selected_finished:
  "select_candidates (task_digest task) (stored_results (task_id task) st) = finished_runs task st"
proof -
  have "select_candidates digest (map (\<lambda>s. (rn_id s, rn_task_sha256 s, results s)) ss) =
      concat (map (\<lambda>s. case results s of None \<Rightarrow> [] | Some r \<Rightarrow> [(rn_id s, r)]) (filter (\<lambda>s. rn_task_sha256 s = digest) ss))"
    for digest results ss
    by (induction ss) (auto split: option.splits)
  then show ?thesis by (simp add: stored_results_def finished_runs_def)
qed

lemma finished_runs_sound:
  assumes "wf_store st" and "sound_results task st"
  shows "list_all (wf_candidate task) (finished_runs task st)"
  unfolding selected_finished [symmetric]
proof (rule select_candidates_all)
  fix rid r assume "(rid, task_digest task, Some r) \<in> set (stored_results (task_id task) st)"
  then obtain s where s: "s \<in> set (list_states (Some (task_id task)) st)" "rid = rn_id s"
    "rn_task_sha256 s = task_digest task" "Option.bind (dict_get rid (store_runs st)) rf_result = Some r"
    by (auto simp: stored_results_def)
  from s(1) obtain k files where k: "(k, files) \<in> set (store_runs st)" "s = rf_state files"
    by (auto simp: set_list_states)
  with assms(1) have "wf_run k files" by (auto simp: wf_store_def list_all_iff)
  with s k have "k = rid" by (simp add: wf_run_def)
  then have "files_of st rid = Some files"
    using assms(1) k(1) by (simp add: files_of_def wf_store_def dict_get_mem_iff)
  with s k assms(2) show "wf_candidate task (rid, r)" by (simp add: sound_results_def files_of_def)
qed

lemma write_frontier_total:
  assumes "wf_task task" and "wf_store st" and "sound_results task st"
  shows "\<exists>p st'. write_frontier env clock task st = Inr (p, st')"
  using reduce_candidates_total [OF assms(1) finished_runs_sound [OF assms(2,3)]]
  by (auto simp: write_frontier_def utc_now_def rebuild_frontier_def selected_finished)

lemma advances_sound:
  assumes "advances rid st st'" and "sound_results task st"
    and "\<And>files r. files_of st' rid = Some files \<Longrightarrow> rf_result files = Some r \<Longrightarrow> wf_candidate task (rid, r)"
  shows "sound_results task st'"
  using assms unfolding sound_results_def advances_def by metis

lemma run_completes:
  assumes "wf_task task" and "wf_store st" and "sound_results task st" and "run_at rid st Accepted"
    and "dirs_of st rid = Some []" and "all_pass env task rid ps 0 (task_stages task) code rs"
  shows "\<exists>st' s r. run env clock task rid ps stop st = Inr st' \<and> peek_run st' rid = Some s \<and>
     rn_state s = Completed \<and> rn_reason s = last_exit_reason (task_stages task) code \<and>
     map_option rf_result (files_of st' rid) = Some (Some r) \<and>
     (\<exists>tsha csha. r = aggregate_run_result task rid tsha csha (staged_of (task_stages task) rs)
        (last_exit_reason (task_stages task) code))"
proof -
  let ?staged = "staged_of (task_stages task) rs" and ?reason = "last_exit_reason (task_stages task) code"
  note staged = staged_of_wf [OF assms(6)]
  have nonempty: "?staged \<noteq> []" using staged(3) assms(1) by (auto simp: wf_task_def)
  obtain files where files: "run_dir rid = Inr ()" "files_of st rid = Some files"
    using assms(4) by (auto simp: run_at_def peek_run_files files_of_def)
  let ?rq = "rf_request files"
  have rq: "read_request rid st = Inr ?rq" using files by (simp add: read_request_def files_of_def)
  have rid: "rq_run_id ?rq = rid" using wf_store_get [OF assms(2)] files(2) by (auto simp: files_of_def wf_run_def)
  obtain st1 where st1: "run_stages env clock task rid ps 0 (task_stages task) st = (StagesDone ?reason, ?staged, st1)"
    using run_stages_pass [OF assms(4) _ assms(5) _ assms(6)] assms(1) by (auto simp: wf_task_def)
  obtain l where l: "advances rid st st1" "run_at rid st1 l" "\<not> is_terminal l"
    using run_stages_left [OF assms(4) _ st1] by blast
  define r where "r = aggregate_run_result task rid (rq_task_sha256 ?rq) (rq_candidate_sha256 ?rq) ?staged ?reason"
  have wfc: "wf_candidate task (rid, r)"
    using staged(1) by (intro aggregated_wf) (auto simp: aggregated_def r_def)
  have outcome: "rr_outcome r = Completed"
    using staged nonempty result_outcome [of task rid "rq_task_sha256 ?rq" "rq_candidate_sha256 ?rq" ?staged ?reason]
    by (simp add: r_def)
  obtain st2 files2 where st2: "write_result rid r st1 = Inr st2" "advances rid st1 st2" "run_at rid st2 l"
    "files_of st2 rid = Some files2" "rf_result files2 = Some r"
    using write_result_advances [OF l(2)] by blast
  have adv: "advances rid st st2" using l(1) st2(2) by (rule advances_trans)
  have "sound_results task st2"
    using adv assms(3) by (rule advances_sound) (use st2 wfc in auto)
  moreover have "wf_store st2" using adv assms(2) by (simp add: advances_def)
  ultimately obtain p st3 where st3: "write_frontier env clock task st2 = Inr (p, st3)"
    using write_frontier_total [OF assms(1)] by blast
  note same = same_runs [OF write_frontier_runs [OF st3] st2(3)]
  obtain s st4 where upd: "update_state clock rid (lifecycle_name (rr_outcome r)) (completed_state (rr_outcome r) ?reason) st3 = Inr (s, st4)"
    using update_total [OF same(2)] by blast
  have c: "complete_run env clock task ?rq ?staged ?reason st1 = (None, st4)"
    using st2(1) st3 upd rid by (simp add: complete_run_def Let_def flip: r_def)
  from complete_run_settles [OF l(2,3) rid c r_def] have "settled_run rid st4 Completed r" by (simp add: outcome)
  moreover have "run env clock task rid ps stop st = Inr st4" using rq st1 c by (simp add: run_def)
  moreover have "rr_terminal_reason r = ?reason" by (simp add: r_def aggregate_run_result_def Let_def)
  ultimately show ?thesis by (auto simp: settled_run_def r_def)
qed

section \<open>Concrete runs\<close>

definition sample_process :: "int \<Rightarrow> process_run" where
  "sample_process code = \<lparr>pr_lines = [], pr_end = Exited code (FileParsed (sample_report []))\<rparr>"

definition sample_processes :: "nat \<Rightarrow> process_run" where
  "sample_processes i = sample_process (if i = 1 then 3 else 0)"

lemma sample_store_sound:
  "sound_results sample_task sample_store" "dirs_of sample_store sample_id = Some []" "run_at sample_id sample_store Accepted"
proof -
  obtain s where c: "sample_created = Inr (s, sample_store)" "rn_id s = sample_id"
    using sample_created_Inr by blast
  then have cr: "create_run sample_env nat_text ''000000000000'' sample_task ''/c/main.cu'' (Some (RegularFile [1]))
      ''try'' empty_store = Inr (s, sample_store)" by (simp add: sample_created_def)
  have none: "rf_result files = None" if "files_of sample_store k = Some files" for k files
    using that create_run_Inr(4,6) [OF cr] by (cases "k = rn_id s") (auto simp: files_of_def empty_store_def)
  then show "sound_results sample_task sample_store" by (auto simp: sound_results_def)
  show "run_at sample_id sample_store Accepted" using sample_run_state by (auto simp: run_at_def)
  show "dirs_of sample_store sample_id = Some []" by code_simp
qed

lemma sample_all_pass:
  "all_pass sample_env sample_task sample_id sample_processes 0 (task_stages sample_task) 3 [sample_result [], sample_result []]"
proof -
  have v: "validate_stage_result sample_env (sample_report []) sample_task = Inr (sample_result [])"
    by (simp add: validate_stage_result_def sample_report_def sample_result_def STAGE_RESULT_FIELDS_def
        dict_keys_def dict_has_def lookup_named_def member_named_def STATUSES_def VALIDITIES_def
        optional_field_def Let_def)
  have "wf_json (sample_report [])" by (simp add: sample_report_def)
  with v have r: "reports sample_env sample_task sample_id stage (sample_process c) c (sample_result [])" for stage c
    by (simp add: reports_def sample_process_def load_stage_result_def)
  have l: "length (task_stages sample_task) = 2" by (simp add: sample_task_def)
  have "sr_status (sample_result []) = Passed" by (simp add: sample_result_def)
  then show ?thesis
    unfolding all_pass_def l using r by (auto simp: less_2_cases_iff sample_processes_def)
qed

section \<open>Properties\<close>

text \<open>C1: However the processes of its stages end, an accepted run ends in exactly one terminal
  state: it moves along the lifecycle relation (submitted, queued or waiting, running, finished,
  per stage), stores one result whose outcome and reason are those of the state, is eligible for
  the frontier only when it completed, and changes no other run.\<close>

theorem run_reaches_terminal:
  assumes "run_at rid st Accepted" and "wf_store st" and "stop \<in> {None, Some Cancelled, Some Interrupted}"
  shows "\<exists>st' l r. run env clock task rid ps stop st = Inr st' \<and> advances rid st st' \<and> settled_run rid st' l r \<and>
    (rr_frontier_eligible r \<longrightarrow> l = Completed)"
  using assms by (rule run_settles)

theorem run_reaches_terminal_witness:
  "\<exists>st' l r. run sample_env nat_text sample_task sample_id (\<lambda>i. \<lparr>pr_lines = [], pr_end = CancelledRunning\<rparr>)
     (Some Cancelled) sample_store = Inr st' \<and> advances sample_id sample_store st' \<and> settled_run sample_id st' l r"
  using run_reaches_terminal [OF sample_store_sound(3) sample_store_wf, of "Some Cancelled" sample_env nat_text sample_task
      "\<lambda>i. \<lparr>pr_lines = [], pr_end = CancelledRunning\<rparr>"] by blast

text \<open>C15: A run whose stages all report passed ends completed, with the aggregate of their
  reports as its result, and the frontier reduction it triggers does not raise.  The exit code of
  the last stage does not change that: when it is not 0 the run still completes, and only its
  reason records the exit.\<close>

theorem passing_run_completes:
  assumes "wf_task task" and "wf_store st" and "sound_results task st" and "run_at rid st Accepted"
    and "dirs_of st rid = Some []" and "all_pass env task rid ps 0 (task_stages task) code rs"
  shows "\<exists>st' s r. run env clock task rid ps stop st = Inr st' \<and> peek_run st' rid = Some s \<and>
     rn_state s = Completed \<and> rn_reason s = last_exit_reason (task_stages task) code \<and>
     map_option rf_result (files_of st' rid) = Some (Some r) \<and>
     (\<exists>tsha csha. r = aggregate_run_result task rid tsha csha (staged_of (task_stages task) rs)
        (last_exit_reason (task_stages task) code))"
  using assms by (rule run_completes)

theorem passing_run_completes_witness:
  "\<exists>st' s. run sample_env nat_text sample_task sample_id sample_processes None sample_store = Inr st' \<and>
     peek_run st' sample_id = Some s \<and> rn_state s = Completed \<and>
     rn_reason s = Some ''stage bench exited 3 after reporting passed''"
proof -
  have "last_exit_reason (task_stages sample_task) 3 = Some ''stage bench exited 3 after reporting passed''"
    by code_simp
  with passing_run_completes [OF sample_task_wf sample_store_wf sample_store_sound(1,3,2) sample_all_pass,
      of nat_text None] show ?thesis by auto
qed

text \<open>C18: When every result in the store for the digest of a task is a sound aggregate, the
  frontier projection of the task is always written: the file of the task holds what the
  reduction computes from the results of exactly the runs of the task with its digest, in the
  order of acceptance, with the task's ids, its noise floor and the time.  The files of other
  tasks, and all runs, stay as they are.\<close>

theorem frontier_write_total:
  assumes "wf_task task" and "wf_store st" and "sound_results task st"
  shows "\<exists>fr st'.
    reduce_candidates env task (finished_runs task st) = Inr fr \<and> frontier_inv task (finished_runs task st) fr \<and>
    write_frontier env clock task st = Inr (projection_of task (clock (store_tick st)) fr, st') \<and>
    map_of (store_frontiers st') (frontier_path task) = Some (projection_of task (clock (store_tick st)) fr) \<and>
    (\<forall>path. path \<noteq> frontier_path task \<longrightarrow> map_of (store_frontiers st') path = map_of (store_frontiers st) path) \<and>
    store_runs st' = store_runs st"
proof -
  obtain fr where fr: "reduce_candidates env task (finished_runs task st) = Inr fr"
    and inv: "frontier_inv task (finished_runs task st) fr"
    using reduce_candidates_total [OF assms(1) finished_runs_sound [OF assms(2,3)]] by blast
  have "map_of (filter (\<lambda>(p, f). p \<noteq> path) ps) k = map_of ps k" if "k \<noteq> path" for path k and ps :: "(string list \<times> frontier_projection) list"
    using that by (induction ps) auto
  with fr inv show ?thesis
    by (simp add: write_frontier_def utc_now_def rebuild_frontier_def selected_finished projection_of_def)
qed

theorem frontier_write_total_witness:
  "\<exists>p st'. write_frontier sample_env nat_text sample_task sample_store = Inr (p, st') \<and>
     map_of (store_frontiers st') (frontier_path sample_task) = Some p"
  using frontier_write_total [OF sample_task_wf sample_store_wf sample_store_sound(1), of sample_env nat_text] by blast

end
