(* ===== verification/Diagnosis.thy ===== *)
theory Diagnosis
  imports Run_Store_Facts
begin

text \<open>
  \<open>src/kernel_infra/diagnostics.py\<close>: the read-only correlation of run progress with the
  state of the broker.  States, requests and the broker snapshot are JSON objects, since
  the code trusts none of their fields.  Reading an ISO timestamp is an argument: it gives
  the instant in microseconds, or nothing for a text that is no timezone-aware timestamp.
\<close>

section \<open>Instants and numbers\<close>

type_synonym instants = "string \<Rightarrow> int option"

definition parse_timestamp :: "instants \<Rightarrow> json \<Rightarrow> int option" where
  "parse_timestamp instant_of v = (case v of JStr (c # s) \<Rightarrow> instant_of (c # s) | _ \<Rightarrow> None)"

text \<open>\<open>round(x, 3)\<close>: the exact decimal rounding, half to even, read back as a double.\<close>

fun round3 :: "py_float \<Rightarrow> py_float" where
  "round3 (Fin q) = to_double (of_int (rne (q * 1000)) / 1000)"
| "round3 x = x"

definition flt_max0 :: "py_float \<Rightarrow> py_float" where
  "flt_max0 x = (if flt_less (Fin 0) x then x else Fin 0)"

definition seconds_since :: "instants \<Rightarrow> json \<Rightarrow> int \<Rightarrow> py_float option" where
  "seconds_since instant_of v now =
     (case parse_timestamp instant_of v of
        None \<Rightarrow> None
      | Some t \<Rightarrow> Some (round3 (flt_max0 (to_double (of_int (now - t) / 1000000)))))"

text \<open>\<open>_number\<close>: testing a huge integer for finiteness overflows.\<close>

definition number_of :: "json \<Rightarrow> py_float option result" where
  "number_of v =
     (if \<not> is_number v then Inr None
      else rbind (py_float_of v) (\<lambda>x.
        Inr (if flt_isfinite x \<and> flt_le (Fin 0) x then Some x else None)))"

section \<open>Looking at one run\<close>

datatype run_verdict =
    DTerminal | DUnknown | DLongWait | DWaiting | DRunning | DProgressing | DSuspectedStall

fun verdict_name :: "run_verdict \<Rightarrow> string" where
  "verdict_name DTerminal = ''terminal''"
| "verdict_name DUnknown = ''unknown''"
| "verdict_name DLongWait = ''long_wait''"
| "verdict_name DWaiting = ''waiting''"
| "verdict_name DRunning = ''running''"
| "verdict_name DProgressing = ''progressing''"
| "verdict_name DSuspectedStall = ''suspected_stall''"

definition ATTENTION_DIAGNOSES :: "run_verdict list" where
  "ATTENTION_DIAGNOSES = [DLongWait, DSuspectedStall]"

text \<open>\<open>value in frozenset\<close> for strings: an unhashable value raises.\<close>

definition hashed_in :: "string list \<Rightarrow> json \<Rightarrow> bool result" where
  "hashed_in names v =
     (case v of
        JStr s \<Rightarrow> Inr (s \<in> set names)
      | JList xs \<Rightarrow> Inl (TypeError ''unhashable type: list'')
      | JObj d \<Rightarrow> Inl (TypeError ''unhashable type: dict'')
      | _ \<Rightarrow> Inr False)"

definition current_stage :: "jdict \<Rightarrow> jdict \<Rightarrow> jdict option" where
  "current_stage state request =
     (case (dget ''stage_index'' state, dget ''stages'' request) of
        (JInt index, JList stages) \<Rightarrow>
          if index < 0 \<or> int (length stages) \<le> index then None
          else (case stages ! nat index of JObj d \<Rightarrow> Some d | _ \<Rightarrow> None)
      | _ \<Rightarrow> None)"

datatype job_location = LRunning | LQueue | LRecent

fun location_name :: "job_location \<Rightarrow> string" where
  "location_name LRunning = ''running''"
| "location_name LQueue = ''queue''"
| "location_name LRecent = ''recent''"

definition JOB_FIELDS :: "string list" where
  "JOB_FIELDS = [''job_id'', ''state'', ''label'', ''mode'', ''gpu_count'', ''gpu_ids'', ''allowed_gpu_ids'',
     ''submitted_at'', ''started_at'', ''wait_seconds'', ''run_seconds'', ''position'', ''eta_seconds'', ''reason'']"

definition job_view :: "jdict option \<Rightarrow> job_location \<Rightarrow> json" where
  "job_view job location =
     (case job of
        None \<Rightarrow> JNull
      | Some j \<Rightarrow> JObj ((''location'', JStr (location_name location)) # map (\<lambda>k. (k, dget k j)) JOB_FIELDS))"

record run_diagnosis =
  dg_run_id :: json
  dg_task_id :: json
  dg_state :: json
  dg_stage_id :: json
  dg_stage_kind :: json
  dg_execution :: json
  dg_broker_job_id :: json
  dg_gpu_ids :: json
  dg_accepted_at :: json
  dg_updated_at :: json
  dg_no_progress :: "py_float option"
  dg_verdict :: run_verdict
  dg_reason :: json
  dg_observation :: json

record broker_jobs =
  bj_running :: "jdict dict"
  bj_queued :: "jdict dict"
  bj_recent :: "jdict dict"

definition diagnosed :: "run_verdict \<Rightarrow> string \<Rightarrow> run_diagnosis \<Rightarrow> run_diagnosis" where
  "diagnosed v reason d = d\<lparr>dg_verdict := v, dg_reason := JStr reason\<rparr>"

text \<open>Where the job is: the running jobs first, then the queue, then the recent ones.\<close>

definition locate_job :: "broker_jobs \<Rightarrow> string \<Rightarrow> jdict option \<times> job_location" where
  "locate_job jobs job_id =
     (case dict_get job_id (bj_running jobs) of
        Some j \<Rightarrow> (Some j, LRunning)
      | None \<Rightarrow>
          (case dict_get job_id (bj_queued jobs) of
             Some j \<Rightarrow> (Some j, LQueue)
           | None \<Rightarrow> (dict_get job_id (bj_recent jobs), LRecent)))"

definition text_or :: "py_env \<Rightarrow> string \<Rightarrow> string \<Rightarrow> jdict \<Rightarrow> string" where
  "text_or env k fallback job =
     (case dict_get k job of None \<Rightarrow> fallback | Some v \<Rightarrow> py_str (float_text env) v)"

definition classify_local ::
  "py_env \<Rightarrow> py_float \<Rightarrow> string \<Rightarrow> jdict \<Rightarrow> py_float \<Rightarrow> run_diagnosis \<Rightarrow> run_diagnosis" where
  "classify_local env attention execution state idle d =
     (if py_eq (dget ''state'' state) (JStr ''waiting_local'')
      then if flt_le attention idle
           then diagnosed DLongWait (execution @ '' stage has waited '' @ float_general env idle
                  @ ''s without a lifecycle transition'') d
           else diagnosed DWaiting (execution @ '' stage is waiting for local capacity'') d
      else diagnosed DRunning (execution @ '' stage is active; lifecycle age alone cannot prove a stall'') d)"

definition classify_queued ::
  "py_env \<Rightarrow> py_float \<Rightarrow> jdict \<Rightarrow> jdict \<Rightarrow> run_diagnosis \<Rightarrow> run_diagnosis result" where
  "classify_queued env attention resources job d =
     rbind (number_of (dget ''wait_seconds'' job)) (\<lambda>wait.
     case wait of
       None \<Rightarrow> Inr (diagnosed DUnknown ''broker queue observation has no numeric wait_seconds'' d)
     | Some wait_s \<Rightarrow>
         rbind (number_of (dget ''queue_timeout_s'' resources)) (\<lambda>timeout.
         Inr (if (case timeout of None \<Rightarrow> False | Some t \<Rightarrow> flt_less (flt_add t (Fin 5)) wait_s)
              then diagnosed DSuspectedStall (''broker job remains queued at '' @ float_general env wait_s
                     @ ''s beyond declared queue timeout '' @ float_general env (the timeout) @ ''s'') d
              else if flt_le attention wait_s
              then diagnosed DLongWait (''broker job has waited '' @ float_general env wait_s
                     @ ''s at queue position '' @ text_or env ''position'' ''unknown'' job) d
              else diagnosed DWaiting (''broker job is queued at position ''
                     @ text_or env ''position'' ''unknown'' job) d)))"

definition classify_running ::
  "py_env \<Rightarrow> py_float \<Rightarrow> jdict \<Rightarrow> jdict \<Rightarrow> jdict \<Rightarrow> py_float \<Rightarrow> run_diagnosis \<Rightarrow> run_diagnosis result" where
  "classify_running env attention state resources job idle d =
     rbind (number_of (dget ''run_seconds'' job)) (\<lambda>run.
     let observed = dget ''gpu_ids'' job in
     case run of
       None \<Rightarrow> Inr (diagnosed DUnknown ''broker running observation lacks duration or GPU assignment'' d)
     | Some run_s \<Rightarrow>
         if \<not> is_list observed
         then Inr (diagnosed DUnknown ''broker running observation lacks duration or GPU assignment'' d)
         else
         rbind (number_of (dget ''run_timeout_s'' resources)) (\<lambda>timeout.
         let state_ids = (case dict_get ''gpu_ids'' state of None \<Rightarrow> JList [] | Some v \<Rightarrow> v);
             is_running = py_eq (dget ''state'' state) (JStr ''running'')
         in Inr (if (case timeout of None \<Rightarrow> False | Some t \<Rightarrow> flt_less (flt_add t (Fin 5)) run_s)
                 then diagnosed DSuspectedStall (''broker job remains running at '' @ float_general env run_s
                        @ ''s beyond declared run timeout '' @ float_general env (the timeout) @ ''s'') d
                 else if py_truthy state_ids \<and> \<not> py_eq state_ids observed
                 then diagnosed DSuspectedStall ''run GPU assignment disagrees with the live broker job'' d
                 else if \<not> is_running \<and> flt_le attention idle
                 then diagnosed DSuspectedStall (''broker job is running but run lifecycle has not caught up for ''
                        @ float_general env idle @ ''s'') d
                 else if \<not> is_running
                 then diagnosed DProgressing ''broker job has started and run lifecycle is catching up'' d
                 else diagnosed DRunning (''broker job is running on GPUs ''
                        @ py_str (float_text env) observed) d)))"

definition classify_recent ::
  "py_env \<Rightarrow> py_float \<Rightarrow> jdict \<Rightarrow> py_float \<Rightarrow> run_diagnosis \<Rightarrow> run_diagnosis" where
  "classify_recent env attention job idle d =
     (if flt_le attention idle
      then diagnosed DSuspectedStall (''broker job is already '' @ text_or env ''state'' ''terminal'' job
             @ '' but the run has not advanced for '' @ float_general env idle @ ''s'') d
      else diagnosed DProgressing ''broker job is terminal and run aggregation is catching up'' d)"

definition classify_absent :: "py_env \<Rightarrow> py_float \<Rightarrow> py_float \<Rightarrow> run_diagnosis \<Rightarrow> run_diagnosis" where
  "classify_absent env attention idle d =
     (if flt_le attention idle
      then diagnosed DSuspectedStall (''run references a broker job absent from the live broker for ''
             @ float_general env idle @ ''s'') d
      else diagnosed DProgressing ''broker job transition is not yet reflected in the snapshot'' d)"

definition initial_diagnosis :: "jdict \<Rightarrow> py_float option \<Rightarrow> run_diagnosis" where
  "initial_diagnosis state idle =
     \<lparr>dg_run_id = dget ''run_id'' state, dg_task_id = dget ''task_id'' state, dg_state = dget ''state'' state,
      dg_stage_id = dget ''stage_id'' state, dg_stage_kind = dget ''stage_kind'' state, dg_execution = JNull,
      dg_broker_job_id = dget ''broker_job_id'' state,
      dg_gpu_ids = (case dict_get ''gpu_ids'' state of None \<Rightarrow> JList [] | Some v \<Rightarrow> v),
      dg_accepted_at = dget ''accepted_at'' state, dg_updated_at = dget ''updated_at'' state,
      dg_no_progress = idle, dg_verdict = DProgressing,
      dg_reason = JStr ''run has recent lifecycle progress'', dg_observation = JNull\<rparr>"

text \<open>The part that consults the broker, once its observation is usable.\<close>

definition classify_broker ::
  "py_env \<Rightarrow> broker_jobs \<Rightarrow> py_float \<Rightarrow> jdict \<Rightarrow> jdict option \<Rightarrow> py_float \<Rightarrow> run_diagnosis \<Rightarrow> run_diagnosis result" where
  "classify_broker env jobs attention state stage idle d =
     (let job_id = dget ''broker_job_id'' state in
      if \<not> py_truthy job_id
      then Inr (if flt_le attention idle
                then diagnosed DSuspectedStall (''run has not acquired a broker job and has no lifecycle progress for ''
                       @ float_general env idle @ ''s'') d
                else d)
      else
        let (job, location) = locate_job jobs (py_str (float_text env) job_id);
            d1 = d\<lparr>dg_observation := job_view job location\<rparr>;
            resources = (case stage of None \<Rightarrow> [] | Some s \<Rightarrow> (case dget ''resources'' s of JObj r \<Rightarrow> r | _ \<Rightarrow> []))
        in case (location, job) of
             (LQueue, Some j) \<Rightarrow> classify_queued env attention resources j d1
           | (LRunning, Some j) \<Rightarrow> classify_running env attention state resources j idle d1
           | (LRecent, Some j) \<Rightarrow> Inr (classify_recent env attention j idle d1)
           | (_, None) \<Rightarrow> Inr (classify_absent env attention idle d1))"

definition classify_run ::
  "py_env \<Rightarrow> instants \<Rightarrow> broker_jobs \<Rightarrow> bool \<Rightarrow> int \<Rightarrow> py_float \<Rightarrow> jdict \<Rightarrow> jdict option \<Rightarrow> string option \<Rightarrow>
     run_diagnosis result" where
  "classify_run env instant_of jobs broker_unknown now attention state request request_error =
     (let idle_opt = seconds_since instant_of (dget ''updated_at'' state) now;
          d0 = initial_diagnosis state idle_opt in
     rbind (hashed_in (map lifecycle_name TERMINAL_STATES) (dget ''state'' state)) (\<lambda>terminal.
     if terminal
     then Inr (d0\<lparr>dg_verdict := DTerminal,
            dg_reason := (if py_truthy (dget ''reason'' state) then dget ''reason'' state
              else JStr ''run is terminal'')\<rparr>)
     else case idle_opt of
       None \<Rightarrow> Inr (diagnosed DUnknown ''run updated_at is missing or invalid'' d0)
     | Some idle \<Rightarrow>
         (case (request_error, request) of
            (Some e, _) \<Rightarrow> Inr (diagnosed DUnknown
                (if e = [] then ''run request is unavailable'' else e) d0)
          | (None, None) \<Rightarrow> Inr (diagnosed DUnknown ''run request is unavailable'' d0)
          | (None, Some req) \<Rightarrow>
              let stage = current_stage state req;
                  execution = (case stage of None \<Rightarrow> JNull | Some s \<Rightarrow> dget ''execution'' s);
                  d1 = d0\<lparr>dg_execution := execution\<rparr>
              in rbind (hashed_in [''local'', ''service''] execution) (\<lambda>here.
                 if here
                 then Inr (classify_local env attention (py_str (float_text env) execution) state idle d1)
                 else if broker_unknown \<and>
                   (py_eq execution (JStr ''broker'') \<or> py_truthy (dget ''broker_job_id'' state))
                 then Inr (diagnosed DUnknown ''live broker observation is unavailable'' d1)
                 else classify_broker env jobs attention state stage idle d1))))"

section \<open>The broker snapshot\<close>

fun objects_in :: "json \<Rightarrow> jdict list" where
  "objects_in (JList xs) = concat (map (\<lambda>v. case v of JObj d \<Rightarrow> [d] | _ \<Rightarrow> []) xs)"
| "objects_in _ = []"

fun all_objects :: "json \<Rightarrow> bool" where
  "all_objects (JList xs) = list_all is_obj xs"
| "all_objects _ = False"

definition GPU_STATES :: "string list" where
  "GPU_STATES = [''idle'', ''shared'', ''exclusive'', ''foreign'', ''locked'']"

fun is_int :: "json \<Rightarrow> bool" where
  "is_int (JInt i) = True"
| "is_int _ = False"

definition gpu_ok :: "jdict \<Rightarrow> bool" where
  "gpu_ok gpu \<longleftrightarrow> list_ex (\<lambda>s. py_eq (dget ''state'' gpu) (JStr s)) GPU_STATES \<and> is_int (dget ''gpu_id'' gpu)"

definition job_ok :: "string \<Rightarrow> jdict \<Rightarrow> bool result" where
  "job_ok field job =
     (case dget ''job_id'' job of
        JStr (c # s) \<Rightarrow> rbind (number_of (dget field job)) (\<lambda>n. Inr (n \<noteq> None))
      | _ \<Rightarrow> Inr False)"

text \<open>\<open>any(not ok(x) for x in xs)\<close>: the tests stop at the first failure.\<close>

fun all_ok :: "('a \<Rightarrow> bool result) \<Rightarrow> 'a list \<Rightarrow> bool result" where
  "all_ok ok [] = Inr True"
| "all_ok ok (x # xs) = rbind (ok x) (\<lambda>b. if b then all_ok ok xs else Inr False)"

record broker_view =
  bv_gpus :: "jdict list"
  bv_running :: "jdict list"
  bv_queue :: "jdict list"
  bv_recent :: "jdict list"
  bv_unknown :: bool
  bv_fresh :: bool

definition broker_view_of :: "instants \<Rightarrow> jdict option \<Rightarrow> string option \<Rightarrow> broker_view result" where
  "broker_view_of instant_of broker broker_error =
     (let snapshot = (case broker of None \<Rightarrow> [] | Some b \<Rightarrow> b);
          gpus = objects_in (dget ''gpus'' snapshot);
          running = objects_in (dget ''running'' snapshot);
          queue = objects_in (dget ''queue'' snapshot);
          raw_recent = (case dict_get ''recent'' snapshot of None \<Rightarrow> JList [] | Some v \<Rightarrow> v);
          recent = objects_in raw_recent;
          items_valid = (all_objects (dget ''gpus'' snapshot) \<and> all_objects (dget ''running'' snapshot) \<and>
            all_objects (dget ''queue'' snapshot) \<and> all_objects raw_recent);
          basic = (broker = None \<or> broker_error \<noteq> None \<or> py_truthy (dget ''probe_error'' snapshot) \<or>
            \<not> py_truthy (dget ''broker_version'' snapshot) \<or> \<not> py_truthy (dget ''instance_id'' snapshot) \<or>
            gpus = [] \<or> \<not> items_valid)
      in rbind (all_ok (\<lambda>(field, job). job_ok field job)
              (map (Pair ''run_seconds'') running @ map (Pair ''wait_seconds'') queue)) (\<lambda>jobs_valid.
         rbind (if parse_timestamp instant_of (dget ''gpu_observed_at'' snapshot) = None then Inr None
                else number_of (dget ''gpu_observation_age_seconds'' snapshot)) (\<lambda>age.
         let fresh = (age \<noteq> None) in
         Inr \<lparr>bv_gpus = gpus, bv_running = running, bv_queue = queue, bv_recent = recent,
              bv_unknown = (basic \<or> \<not> list_all gpu_ok gpus \<or> \<not> jobs_valid \<or> \<not> fresh),
              bv_fresh = fresh\<rparr>)))"

definition index_jobs :: "py_env \<Rightarrow> jdict list \<Rightarrow> jdict dict" where
  "index_jobs env jobs =
     foldl (\<lambda>d job. if py_truthy (dget ''job_id'' job)
        then dict_set (py_str (float_text env) (dget ''job_id'' job)) job d else d) [] jobs"

section \<open>The diagnosis\<close>

datatype node_verdict = VUnknown | VAttention | VOk

record diagnosis =
  di_verdict :: node_verdict
  di_runs :: "run_diagnosis list"
  di_broker_known :: bool
  di_broker_error :: "string option"
  di_running_jobs :: json
  di_queued_jobs :: json
  di_services :: "jdict list"
  di_gpu_states :: "(string \<times> nat) list"
  di_run_counts :: "(string \<times> nat) list"
  di_running_count :: nat
  di_queued_count :: nat
  di_active_services :: nat
  di_broker_fields :: jdict
  di_gpus :: "jdict list"

text \<open>\<open>dict(sorted(Counter(names).items()))\<close>.\<close>

definition sorted_counts :: "string list \<Rightarrow> (string \<times> nat) list" where
  "sorted_counts names = map (\<lambda>name. (name, count_list names name)) (sort (remdups names))"

definition BROKER_FIELDS :: "string list" where
  "BROKER_FIELDS = [''version'', ''broker_version'', ''instance_id'', ''updated_at'', ''gpu_observed_at'',
     ''gpu_observation_age_seconds'', ''probe_error'', ''shared_capacity'']"

definition SERVICE_FIELDS :: "string list" where
  "SERVICE_FIELDS = [''deployment_id'', ''service_id'', ''state'', ''broker_job_id'', ''gpu_ids'',
     ''active_consumer_count'', ''updated_at'', ''reason'']"

definition long_queue :: "py_float \<Rightarrow> jdict \<Rightarrow> bool result" where
  "long_queue attention job = rbind (number_of (dget ''wait_seconds'' job)) (\<lambda>w.
     Inr (flt_le attention (case w of None \<Rightarrow> Fin 0 | Some x \<Rightarrow> x)))"

definition effective_broker_error :: "jdict option \<Rightarrow> string option \<Rightarrow> broker_view \<Rightarrow> string option" where
  "effective_broker_error broker broker_error view =
     (case broker of
        Some b \<Rightarrow>
          if bv_unknown view \<and> \<not> py_truthy (dget ''probe_error'' b) \<and> broker_error = None
          then Some (if \<not> bv_fresh view then ''broker GPU probe freshness is unavailable''
                     else ''broker status is incomplete or malformed'')
          else broker_error
      | None \<Rightarrow> broker_error)"

definition node_verdict_of :: "py_float \<Rightarrow> broker_view \<Rightarrow> run_diagnosis list \<Rightarrow> node_verdict result" where
  "node_verdict_of attention view runs =
     (if bv_unknown view \<or> DUnknown \<in> set (map dg_verdict runs) then Inr VUnknown
      else if list_ex (\<lambda>v. v \<in> set (map dg_verdict runs)) ATTENTION_DIAGNOSES then Inr VAttention
      else rbind (all_ok (\<lambda>job. rbind (long_queue attention job) (\<lambda>b. Inr (\<not> b))) (bv_queue view)) (\<lambda>calm.
           Inr (if calm then VOk else VAttention)))"

definition build_diagnosis ::
  "py_env \<Rightarrow> instants \<Rightarrow> string \<Rightarrow> py_float \<Rightarrow> jdict list \<Rightarrow> jdict dict \<Rightarrow> string dict \<Rightarrow> jdict option \<Rightarrow>
     string option \<Rightarrow> jdict list \<Rightarrow> diagnosis result" where
  "build_diagnosis env instant_of observed_at attention states requests errors broker broker_error services =
     (case parse_timestamp instant_of (JStr observed_at) of
        None \<Rightarrow> Inl (ValueError ''observed_at must be a timezone-aware timestamp'')
      | Some now \<Rightarrow>
     rbind (number_of (JFloat attention)) (\<lambda>valid.
     if valid = None then Inl (ValueError ''attention_after_s must be finite and non-negative'')
     else
     rbind (broker_view_of instant_of broker broker_error) (\<lambda>view.
     let jobs = \<lparr>bj_running = index_jobs env (bv_running view), bj_queued = index_jobs env (bv_queue view),
           bj_recent = index_jobs env (bv_recent view)\<rparr> in
     rbind (rtraverse (\<lambda>state.
         let rid = py_str (float_text env) (dget ''run_id'' state) in
         classify_run env instant_of jobs (bv_unknown view) now attention state (dict_get rid requests)
           (dict_get rid errors)) states) (\<lambda>runs.
     rbind (node_verdict_of attention view runs) (\<lambda>verdict.
     Inr \<lparr>di_verdict = verdict, di_runs = runs, di_broker_known = (\<not> bv_unknown view),
          di_broker_error = effective_broker_error broker broker_error view,
          di_running_jobs = JList (map (\<lambda>j. job_view (Some j) LRunning) (bv_running view)),
          di_queued_jobs = JList (map (\<lambda>j. job_view (Some j) LQueue) (bv_queue view)),
          di_services = map (\<lambda>s. map (\<lambda>k. (k, dget k s)) SERVICE_FIELDS) services,
          di_gpu_states = sorted_counts (map (\<lambda>g. py_str (float_text env)
            (case dict_get ''state'' g of None \<Rightarrow> JStr ''unknown'' | Some v \<Rightarrow> v)) (bv_gpus view)),
          di_run_counts = sorted_counts (map (\<lambda>d. verdict_name (dg_verdict d)) runs),
          di_running_count = length (bv_running view), di_queued_count = length (bv_queue view),
          di_active_services = length services,
          di_broker_fields = map (\<lambda>k. (k, dget k (case broker of None \<Rightarrow> [] | Some b \<Rightarrow> b))) BROKER_FIELDS,
          di_gpus = bv_gpus view\<rparr>)))))"

end
