(* ===== verification/Diagnosis_Facts.thy ===== *)
theory Diagnosis_Facts
  imports Diagnosis
begin

text \<open>
  The diagnosis is conservative: it reports a run as stalled only on evidence, it reports
  nothing about a broker run when the broker cannot be trusted, and the node is in order
  only if every run and every queued job is.
\<close>

section \<open>Single runs\<close>

lemma diagnosed_simps [simp]:
  "dg_verdict (diagnosed v r d) = v" "dg_no_progress (diagnosed v r d) = dg_no_progress d"
  "dg_state (diagnosed v r d) = dg_state d" "dg_execution (diagnosed v r d) = dg_execution d"
  by (simp_all add: diagnosed_def)

definition state_terminal :: "jdict \<Rightarrow> bool" where
  "state_terminal state \<longleftrightarrow> hashed_in (map lifecycle_name TERMINAL_STATES) (dget ''state'' state) = Inr True"

text \<open>Time limits exceeded, or GPUs that differ, as the broker reports them for a job.\<close>

definition over_limit :: "string \<Rightarrow> jdict \<Rightarrow> string \<Rightarrow> jdict \<Rightarrow> bool" where
  "over_limit measured job limit resources \<longleftrightarrow>
     (\<exists>x t. number_of (dget measured job) = Inr (Some x) \<and> number_of (dget limit resources) = Inr (Some t) \<and>
        flt_less (flt_add t (Fin 5)) x)"

definition stage_resources :: "jdict option \<Rightarrow> jdict" where
  "stage_resources stage = (case stage of None \<Rightarrow> [] | Some s \<Rightarrow> (case dget ''resources'' s of JObj r \<Rightarrow> r | _ \<Rightarrow> []))"

definition stall_evidence :: "py_env \<Rightarrow> broker_jobs \<Rightarrow> py_float \<Rightarrow> jdict \<Rightarrow> jdict option \<Rightarrow> py_float \<Rightarrow> bool" where
  "stall_evidence env jobs attention state stage idle \<longleftrightarrow>
     flt_le attention idle \<or>
     (case locate_job jobs (py_str (float_text env) (dget ''broker_job_id'' state)) of
        (Some job, LQueue) \<Rightarrow> over_limit ''wait_seconds'' job ''queue_timeout_s'' (stage_resources stage)
      | (Some job, LRunning) \<Rightarrow> over_limit ''run_seconds'' job ''run_timeout_s'' (stage_resources stage) \<or>
          (let ids = (case dict_get ''gpu_ids'' state of None \<Rightarrow> JList [] | Some v \<Rightarrow> v)
           in py_truthy ids \<and> \<not> py_eq ids (dget ''gpu_ids'' job))
      | _ \<Rightarrow> False)"

lemma classify_queued_stall:
  assumes "classify_queued env attention resources job d = Inr d'"
  shows "(dg_verdict d' = DSuspectedStall \<longrightarrow> over_limit ''wait_seconds'' job ''queue_timeout_s'' resources) \<and>
    dg_verdict d' \<noteq> DTerminal"
proof -
  from assms obtain wait where w: "number_of (dget ''wait_seconds'' job) = Inr wait"
    by (auto simp: classify_queued_def)
  show ?thesis
  proof (cases wait)
    case None
    with w assms show ?thesis by (auto simp: classify_queued_def)
  next
    case (Some x)
    with w assms obtain timeout where t: "number_of (dget ''queue_timeout_s'' resources) = Inr timeout"
      by (auto simp: classify_queued_def)
    show ?thesis
    proof (cases "case timeout of None \<Rightarrow> False | Some t \<Rightarrow> flt_less (flt_add t (Fin 5)) x")
      case True
      with w Some t assms show ?thesis
        by (cases timeout) (auto simp: over_limit_def classify_queued_def)
    next
      case False
      with w Some t assms show ?thesis unfolding classify_queued_def by (auto split: if_splits)
    qed
  qed
qed

lemma classify_running_stall:
  assumes "classify_running env attention state resources job idle d = Inr d'"
  shows "(dg_verdict d' = DSuspectedStall \<longrightarrow>
      over_limit ''run_seconds'' job ''run_timeout_s'' resources \<or> flt_le attention idle \<or>
      (let ids = (case dict_get ''gpu_ids'' state of None \<Rightarrow> JList [] | Some v \<Rightarrow> v)
       in py_truthy ids \<and> \<not> py_eq ids (dget ''gpu_ids'' job))) \<and>
    dg_verdict d' \<noteq> DTerminal"
proof -
  from assms obtain run where run: "number_of (dget ''run_seconds'' job) = Inr run"
    by (auto simp: classify_running_def)
  show ?thesis
  proof (cases run)
    case None
    with run assms show ?thesis by (auto simp: classify_running_def Let_def)
  next
    case (Some x)
    show ?thesis
    proof (cases "is_list (dget ''gpu_ids'' job)")
      case False
      with run Some assms show ?thesis by (auto simp: classify_running_def Let_def)
    next
      case True
      with run Some assms obtain timeout where t: "number_of (dget ''run_timeout_s'' resources) = Inr timeout"
        by (auto simp: classify_running_def Let_def)
      show ?thesis
      proof (cases "case timeout of None \<Rightarrow> False | Some t \<Rightarrow> flt_less (flt_add t (Fin 5)) x")
        case True
        with run Some t \<open>is_list _\<close> assms show ?thesis
          by (cases timeout) (auto simp: over_limit_def classify_running_def Let_def)
      next
        case False
        with run Some t \<open>is_list _\<close> assms show ?thesis
          unfolding classify_running_def Let_def by (auto split: if_splits)
      qed
    qed
  qed
qed

lemma classify_broker_stall:
  assumes "classify_broker env jobs attention state stage idle d = Inr d'" and "dg_verdict d = DProgressing"
  shows "(dg_verdict d' = DSuspectedStall \<longrightarrow> stall_evidence env jobs attention state stage idle) \<and>
    dg_verdict d' \<noteq> DTerminal"
proof (cases "py_truthy (dget ''broker_job_id'' state)")
  case False
  with assms show ?thesis by (auto simp: classify_broker_def Let_def stall_evidence_def split: if_splits)
next
  case True
  obtain job location where loc: "locate_job jobs (py_str (float_text env) (dget ''broker_job_id'' state)) = (job, location)"
    by (metis surj_pair)
  show ?thesis
  proof (cases job)
    case None
    with True loc assms show ?thesis
      by (cases location) (auto simp: classify_broker_def Let_def stall_evidence_def classify_absent_def split: if_splits)
  next
    case (Some j)
    show ?thesis
    proof (cases location)
      case LRunning
      with True loc Some assms(1) have "classify_running env attention state (stage_resources stage) j idle
          (d\<lparr>dg_observation := job_view job location\<rparr>) = Inr d'"
        by (simp add: classify_broker_def Let_def stage_resources_def)
      from classify_running_stall [OF this] loc Some LRunning show ?thesis
        by (auto simp: stall_evidence_def Let_def)
    next
      case LQueue
      with True loc Some assms(1) have "classify_queued env attention (stage_resources stage) j
          (d\<lparr>dg_observation := job_view job location\<rparr>) = Inr d'"
        by (simp add: classify_broker_def Let_def stage_resources_def)
      from classify_queued_stall [OF this] loc Some LQueue show ?thesis
        by (auto simp: stall_evidence_def)
    next
      case LRecent
      with True loc Some assms show ?thesis
        by (auto simp: classify_broker_def Let_def stall_evidence_def classify_recent_def split: if_splits)
    qed
  qed
qed

lemma verdict_unless_terminal: "dg_verdict (initial_diagnosis state idle) = DProgressing"
  "dg_no_progress (initial_diagnosis state idle) = idle"
  by (simp_all add: initial_diagnosis_def)

lemma classify_local_verdict:
  "dg_verdict (classify_local env attention e state idle d) \<in> {DLongWait, DWaiting, DRunning}"
  by (simp add: classify_local_def)

text \<open>A run that is open, dated and has its request, as the classification sees it.\<close>

definition stage_execution :: "jdict option \<Rightarrow> json" where
  "stage_execution stage = (case stage of None \<Rightarrow> JNull | Some s \<Rightarrow> dget ''execution'' s)"

lemma classify_run_open:
  assumes "classify_run env instant_of jobs unknown now attention state request err = Inr d"
    and "\<not> state_terminal state"
  shows "dg_verdict d = DUnknown \<or>
    (\<exists>idle req d0. seconds_since instant_of (dget ''updated_at'' state) now = Some idle \<and>
       err = None \<and> request = Some req \<and> dg_verdict d0 = DProgressing \<and>
       (let stage = current_stage state req in
          hashed_in [''local'', ''service''] (stage_execution stage) = Inr True \<and> dg_verdict d \<in> {DLongWait, DWaiting, DRunning} \<or>
          hashed_in [''local'', ''service''] (stage_execution stage) = Inr False \<and>
          \<not> (unknown \<and> (py_eq (stage_execution stage) (JStr ''broker'') \<or> py_truthy (dget ''broker_job_id'' state))) \<and>
          classify_broker env jobs attention state stage idle d0 = Inr d))"
proof -
  from assms have nt: "hashed_in (map lifecycle_name TERMINAL_STATES) (dget ''state'' state) = Inr False"
    by (auto simp: classify_run_def Let_def state_terminal_def)
  show ?thesis
  proof (cases "seconds_since instant_of (dget ''updated_at'' state) now")
    case None
    with nt assms(1) show ?thesis by (auto simp: classify_run_def Let_def)
  next
    case (Some idle)
    show ?thesis
    proof (cases err)
      case e: (Some e)
      with nt Some assms(1) show ?thesis by (auto simp: classify_run_def Let_def)
    next
      case e: None
      show ?thesis
      proof (cases request)
        case r: None
        with nt Some e assms(1) show ?thesis by (auto simp: classify_run_def Let_def)
      next
        case r: (Some req)
        let ?stage = "current_stage state req"
        let ?d1 = "(initial_diagnosis state (Some idle))\<lparr>dg_execution := stage_execution ?stage\<rparr>"
        have d1: "dg_verdict ?d1 = DProgressing" by (simp add: initial_diagnosis_def)
        let ?tail = "\<lambda>here. if here
            then Inr (classify_local env attention (py_str (float_text env) (stage_execution ?stage)) state idle ?d1)
            else if unknown \<and> (py_eq (stage_execution ?stage) (JStr ''broker'') \<or> py_truthy (dget ''broker_job_id'' state))
            then Inr (diagnosed DUnknown ''live broker observation is unavailable'' ?d1)
            else classify_broker env jobs attention state ?stage idle ?d1"
        have "rbind (hashed_in [''local'', ''service''] (stage_execution ?stage)) ?tail = Inr d"
          using nt Some e r assms(1) by (simp only: classify_run_def Let_def stage_execution_def rbind.simps
              option.case prod.case if_False)
        then obtain here where here:
          "hashed_in [''local'', ''service''] (stage_execution ?stage) = Inr here" "?tail here = Inr d"
          by (simp only: rbind_eq_Inr_iff) blast
        show ?thesis
        proof (cases here)
          case True
          with here have "d = classify_local env attention (py_str (float_text env) (stage_execution ?stage)) state idle ?d1"
            by simp
          then have "dg_verdict d \<in> {DLongWait, DWaiting, DRunning}"
            by (simp only: classify_local_verdict)
          with here True Some e r d1 show ?thesis unfolding Let_def
            by (intro disjI2 exI [of _ idle] exI [of _ req] exI [of _ ?d1]) simp
        next
          case False
          show ?thesis
          proof (cases "unknown \<and> (py_eq (stage_execution ?stage) (JStr ''broker'') \<or> py_truthy (dget ''broker_job_id'' state))")
            case True
            with here False have "dg_verdict d = DUnknown" by auto
            then show ?thesis by simp
          next
            case known: False
            have "classify_broker env jobs attention state ?stage idle ?d1 = Inr d"
              using here(2) by (simp only: False known if_False)
            with here False known Some e r d1 show ?thesis unfolding Let_def
              by (intro disjI2 exI [of _ idle] exI [of _ req] exI [of _ ?d1]) simp
          qed
        qed
      qed
    qed
  qed
qed

lemma classify_run_terminal:
  assumes "classify_run env instant_of jobs unknown now attention state request err = Inr d"
  shows "dg_verdict d = DTerminal \<longleftrightarrow> state_terminal state"
proof (cases "state_terminal state")
  case True
  with assms show ?thesis by (auto simp: classify_run_def Let_def state_terminal_def)
next
  case False
  from classify_run_open [OF assms False] have "dg_verdict d \<noteq> DTerminal"
    using classify_broker_stall by (auto simp: Let_def)
  with False show ?thesis by simp
qed

lemma classify_run_stall:
  assumes "classify_run env instant_of jobs unknown now attention state request err = Inr d"
    and "dg_verdict d = DSuspectedStall"
  shows "\<exists>idle req. seconds_since instant_of (dget ''updated_at'' state) now = Some idle \<and> request = Some req \<and>
    hashed_in [''local'', ''service''] (stage_execution (current_stage state req)) = Inr False \<and>
    \<not> (unknown \<and> (py_eq (stage_execution (current_stage state req)) (JStr ''broker'') \<or>
                    py_truthy (dget ''broker_job_id'' state))) \<and>
    stall_evidence env jobs attention state (current_stage state req) idle"
proof -
  have "\<not> state_terminal state" using classify_run_terminal [OF assms(1)] assms(2) by simp
  from classify_run_open [OF assms(1) this] assms(2) obtain idle req d0 where
    "seconds_since instant_of (dget ''updated_at'' state) now = Some idle" "request = Some req"
    "dg_verdict d0 = DProgressing"
    "hashed_in [''local'', ''service''] (stage_execution (current_stage state req)) = Inr False"
    "\<not> (unknown \<and> (py_eq (stage_execution (current_stage state req)) (JStr ''broker'') \<or> py_truthy (dget ''broker_job_id'' state)))"
    "classify_broker env jobs attention state (current_stage state req) idle d0 = Inr d"
    by (auto simp: Let_def)
  with classify_broker_stall assms(2) show ?thesis by blast
qed

section \<open>The node\<close>

lemma all_ok_True: "all_ok ok xs = Inr True \<longleftrightarrow> (\<forall>x \<in> set xs. ok x = Inr True)"
  by (induction xs) auto

text \<open>A diagnosis is of the run it was made for.\<close>

definition same_run :: "run_diagnosis \<Rightarrow> run_diagnosis \<Rightarrow> bool" where
  "same_run d d' \<longleftrightarrow> dg_run_id d' = dg_run_id d \<and> dg_state d' = dg_state d"

definition keeps_run :: "run_diagnosis \<Rightarrow> run_diagnosis result \<Rightarrow> bool" where
  "keeps_run d r \<longleftrightarrow> (\<forall>d'. r = Inr d' \<longrightarrow> same_run d d')"

named_theorems keeps_intros \<open>which steps keep the run of a diagnosis\<close>

lemma same_run_refl [keeps_intros]: "same_run d d"
  by (simp add: same_run_def)

lemma same_run_diagnosed [keeps_intros]: "same_run d (diagnosed v reason d)"
  by (simp add: same_run_def diagnosed_def)

lemma same_run_if [keeps_intros]: "same_run d x \<Longrightarrow> same_run d y \<Longrightarrow> same_run d (if c then x else y)"
  by simp

lemma keeps_Inr [keeps_intros]: "same_run d x \<Longrightarrow> keeps_run d (Inr x)"
  by (simp add: keeps_run_def)

lemma keeps_rbind [keeps_intros]: "(\<And>x. keeps_run d (f x)) \<Longrightarrow> keeps_run d (rbind m f)"
  unfolding keeps_run_def rbind_eq_Inr_iff by blast

lemma keeps_if [keeps_intros]: "keeps_run d r \<Longrightarrow> keeps_run d r' \<Longrightarrow> keeps_run d (if c then r else r')"
  by simp

lemma keeps_option [keeps_intros]:
  "keeps_run d r \<Longrightarrow> (\<And>x. keeps_run d (g x)) \<Longrightarrow> keeps_run d (case opt of None \<Rightarrow> r | Some x \<Rightarrow> g x)"
  by (cases opt) simp_all

lemma classify_local_same [keeps_intros]: "same_run d (classify_local env attention execution state idle d)"
  unfolding classify_local_def by (rule keeps_intros)+

lemma classify_queued_same [keeps_intros]: "keeps_run d (classify_queued env attention resources job d)"
  unfolding classify_queued_def Let_def by (rule keeps_intros)+

lemma classify_running_same [keeps_intros]: "keeps_run d (classify_running env attention state resources job idle d)"
  unfolding classify_running_def Let_def by (rule keeps_intros)+

lemma classify_recent_same [keeps_intros]: "same_run d (classify_recent env attention job idle d)"
  unfolding classify_recent_def by (rule keeps_intros)+

lemma classify_absent_same [keeps_intros]: "same_run d (classify_absent env attention idle d)"
  unfolding classify_absent_def by (rule keeps_intros)+

lemma keeps_run_of: "keeps_run d r \<Longrightarrow> dg_run_id d = dg_run_id d0 \<Longrightarrow> dg_state d = dg_state d0 \<Longrightarrow> keeps_run d0 r"
  unfolding keeps_run_def same_run_def by (erule all_forward) (erule imp_forward, assumption, elim conjE, intro conjI; rule trans)

lemma classify_broker_same_run [keeps_intros]: "keeps_run d (classify_broker env jobs attention state stage idle d)"
proof (cases "py_truthy (dget ''broker_job_id'' state)")
  case False
  then show ?thesis unfolding classify_broker_def Let_def by (simp only: if_True simp_thms if_P) (rule keeps_intros)+
next
  case True
  obtain job location where l: "locate_job jobs (py_str (float_text env) (dget ''broker_job_id'' state)) = (job, location)" by fastforce
  let ?d1 = "d\<lparr>dg_observation := job_view job location\<rparr>"
  have "keeps_run ?d1 (classify_broker env jobs attention state stage idle d)"
    unfolding classify_broker_def Let_def l prod.case
    by (insert True, cases job; cases location; simp only: option.case job_location.case prod.case if_False simp_thms; (rule keeps_intros)+)
  then show ?thesis by (rule keeps_run_of) simp_all
qed

lemma classify_run_of:
  assumes "classify_run env instant_of jobs unknown now attention state request request_error = Inr d"
  shows "dg_run_id d = dget ''run_id'' state \<and> dg_state d = dget ''state'' state"
proof -
  define d0 where "d0 = initial_diagnosis state (seconds_since instant_of (dget ''updated_at'' state) now)"
  have terminal: "same_run d (d\<lparr>dg_verdict := v, dg_reason := r\<rparr>)" for d v r by (simp add: same_run_def)
  have executing: "keeps_run d r" if "keeps_run (d\<lparr>dg_execution := x\<rparr>) r" for d x r
    using that by (rule keeps_run_of) simp_all
  have local: "same_run d r" if "same_run (d\<lparr>dg_execution := x\<rparr>) r" for d x r
    using that by (simp add: same_run_def)
  have "keeps_run d0 (classify_run env instant_of jobs unknown now attention state request request_error)"
  proof (cases request_error)
    case None
    show ?thesis
    proof (cases request)
      case (Some req)
      let ?x = "case current_stage state req of None \<Rightarrow> JNull | Some s \<Rightarrow> dget ''execution'' s"
      show ?thesis
        unfolding classify_run_def Let_def d0_def [symmetric] None Some option.case prod.case
        by (intro keeps_rbind keeps_if terminal keeps_option keeps_Inr same_run_diagnosed
            local [where x = ?x, OF classify_local_same] local [where x = ?x, OF same_run_diagnosed]
            executing [where x = ?x, OF classify_broker_same_run])
    qed (simp only: classify_run_def Let_def d0_def [symmetric] None option.case prod.case,
        intro keeps_rbind keeps_if terminal keeps_option keeps_Inr same_run_diagnosed)
  qed (simp only: classify_run_def Let_def d0_def [symmetric] option.case prod.case,
      intro keeps_rbind keeps_if terminal keeps_option keeps_Inr same_run_diagnosed)
  with assms have "same_run d0 d" by (simp add: keeps_run_def)
  then show ?thesis by (simp add: same_run_def d0_def initial_diagnosis_def)
qed

lemma build_diagnosis_Inr:
  assumes "build_diagnosis env instant_of ts attention states requests errors broker broker_error services = Inr di"
  obtains now view runs where "parse_timestamp instant_of (JStr ts) = Some now"
    and "broker_view_of instant_of broker broker_error = Inr view"
    and "rtraverse (\<lambda>state. let rid = py_str (float_text env) (dget ''run_id'' state) in
         classify_run env instant_of \<lparr>bj_running = index_jobs env (bv_running view),
           bj_queued = index_jobs env (bv_queue view), bj_recent = index_jobs env (bv_recent view)\<rparr>
           (bv_unknown view) now attention state (dict_get rid requests) (dict_get rid errors)) states = Inr runs"
    and "node_verdict_of attention view runs = Inr (di_verdict di)" and "di_runs di = runs"
    and "di_broker_known di = (\<not> bv_unknown view)"
  using assms by (auto simp: build_diagnosis_def Let_def split: if_splits)

definition calm :: "run_diagnosis \<Rightarrow> bool" where
  "calm d \<longleftrightarrow> dg_verdict d \<in> {DTerminal, DWaiting, DRunning, DProgressing}"

text \<open>
  A snapshot a diagnosis can rest on: the broker names itself and reports no error, its lists
  hold nothing but objects, every GPU has a known state and an index, every running and every
  queued job an id and its duration, and the GPUs were observed at a known time and age.
\<close>

definition timed_job :: "string \<Rightarrow> jdict \<Rightarrow> bool" where
  "timed_job field job \<longleftrightarrow> (\<exists>i. i \<noteq> [] \<and> dget ''job_id'' job = JStr i) \<and>
     (\<exists>x. number_of (dget field job) = Inr (Some x))"

definition known_gpu :: "jdict \<Rightarrow> bool" where
  "known_gpu gpu \<longleftrightarrow>
     (\<exists>s \<in> {''idle'', ''shared'', ''exclusive'', ''foreign'', ''locked''}. dget ''state'' gpu = JStr s) \<and>
     (\<exists>i. dget ''gpu_id'' gpu = JInt i)"

definition trustworthy :: "instants \<Rightarrow> jdict \<Rightarrow> bool" where
  "trustworthy instant_of b \<longleftrightarrow>
     \<not> py_truthy (dget ''probe_error'' b) \<and> py_truthy (dget ''broker_version'' b) \<and> py_truthy (dget ''instance_id'' b) \<and>
     (\<exists>gpus. dget ''gpus'' b = JList (map JObj gpus) \<and> gpus \<noteq> [] \<and> list_all known_gpu gpus) \<and>
     (\<exists>jobs. dget ''running'' b = JList (map JObj jobs) \<and> list_all (timed_job ''run_seconds'') jobs) \<and>
     (\<exists>jobs. dget ''queue'' b = JList (map JObj jobs) \<and> list_all (timed_job ''wait_seconds'') jobs) \<and>
     (dict_get ''recent'' b = None \<or> (\<exists>jobs. dict_get ''recent'' b = Some (JList (map JObj jobs)))) \<and>
     (\<exists>t. parse_timestamp instant_of (dget ''gpu_observed_at'' b) = Some t) \<and>
     (\<exists>age. number_of (dget ''gpu_observation_age_seconds'' b) = Inr (Some age))"

lemma objects_in_map [simp]: "objects_in (JList (map JObj xs)) = xs"
  by (induction xs) auto

lemma map_JObj: "map JObj xs = map JObj ys \<longleftrightarrow> xs = ys"
  by (rule inj_map_eq_map) (simp add: inj_def)

lemma all_objects_iff: "all_objects v \<longleftrightarrow> (\<exists>xs. v = JList (map JObj xs))"
proof
  assume "all_objects v"
  then obtain vs where vs: "v = JList vs" "list_all is_obj vs" by (cases v) auto
  then have "vs = map JObj (objects_in v)"
    unfolding vs(1)
  proof (induction vs)
    case (Cons x vs)
    then show ?case by (cases x) auto
  qed simp
  with vs(1) show "\<exists>xs. v = JList (map JObj xs)" by blast
qed (auto simp: list_all_iff)

lemma job_ok_iff: "job_ok field job = Inr True \<longleftrightarrow> timed_job field job"
proof (cases "dget ''job_id'' job")
  case (JStr s)
  then show ?thesis by (cases s) (auto simp: job_ok_def timed_job_def)
qed (simp_all add: job_ok_def timed_job_def)

lemma gpu_ok_iff: "gpu_ok gpu \<longleftrightarrow> known_gpu gpu"
  by (cases "dget ''gpu_id'' gpu") (auto simp: gpu_ok_def known_gpu_def GPU_STATES_def)

lemma broker_view_trustworthy:
  assumes "broker_view_of instant_of broker broker_error = Inr view"
  shows "\<not> bv_unknown view \<longleftrightarrow> broker_error = None \<and> (\<exists>b. broker = Some b \<and> trustworthy instant_of b)"
proof (cases broker)
  case None
  with assms show ?thesis by (auto simp: broker_view_of_def Let_def)
next
  case (Some b)
  let ?recent = "case dict_get ''recent'' b of None \<Rightarrow> JList [] | Some v \<Rightarrow> v"
  have recent: "all_objects ?recent \<longleftrightarrow> dict_get ''recent'' b = None \<or> (\<exists>jobs. dict_get ''recent'' b = Some (JList (map JObj jobs)))"
    by (cases "dict_get ''recent'' b") (auto simp: all_objects_iff)
  from assms obtain jobs_valid age where v:
    "all_ok (\<lambda>(field, job). job_ok field job) (map (Pair ''run_seconds'') (objects_in (dget ''running'' b)) @
       map (Pair ''wait_seconds'') (objects_in (dget ''queue'' b))) = Inr jobs_valid"
    "(if parse_timestamp instant_of (dget ''gpu_observed_at'' b) = None then Inr None
      else number_of (dget ''gpu_observation_age_seconds'' b)) = Inr age"
    by (auto simp: broker_view_of_def Let_def Some rbind_eq_Inr_iff)
  have unknown: "bv_unknown view \<longleftrightarrow> broker_error \<noteq> None \<or> py_truthy (dget ''probe_error'' b) \<or>
       \<not> py_truthy (dget ''broker_version'' b) \<or> \<not> py_truthy (dget ''instance_id'' b) \<or> objects_in (dget ''gpus'' b) = [] \<or>
       \<not> (all_objects (dget ''gpus'' b) \<and> all_objects (dget ''running'' b) \<and> all_objects (dget ''queue'' b) \<and> all_objects ?recent) \<or>
       \<not> list_all gpu_ok (objects_in (dget ''gpus'' b)) \<or> \<not> jobs_valid \<or> age = None"
    using assms v unfolding broker_view_of_def Let_def Some option.case by auto
  have jobs: "jobs_valid \<longleftrightarrow> list_all (timed_job ''run_seconds'') (objects_in (dget ''running'' b)) \<and>
      list_all (timed_job ''wait_seconds'') (objects_in (dget ''queue'' b))"
    using v(1) all_ok_True [of "\<lambda>(field, job). job_ok field job" "map (Pair ''run_seconds'') (objects_in (dget ''running'' b)) @
       map (Pair ''wait_seconds'') (objects_in (dget ''queue'' b))"]
    by (cases jobs_valid) (auto simp: list_all_iff ball_Un job_ok_iff)
  have age: "age \<noteq> None \<longleftrightarrow> (\<exists>t. parse_timestamp instant_of (dget ''gpu_observed_at'' b) = Some t) \<and>
      (\<exists>age. number_of (dget ''gpu_observation_age_seconds'' b) = Inr (Some age))"
    using v(2) by (cases "parse_timestamp instant_of (dget ''gpu_observed_at'' b)") auto
  have gpus: "list_all gpu_ok gs \<longleftrightarrow> list_all known_gpu gs" for gs by (simp add: list_all_iff gpu_ok_iff)
  show ?thesis
    unfolding unknown jobs gpus recent all_objects_iff trustworthy_def Some using age by (auto simp: map_JObj simp del: objects_in.simps)
qed

lemma node_verdict_ok_iff:
  assumes "node_verdict_of attention view runs = Inr verdict"
  shows "verdict = VOk \<longleftrightarrow> \<not> bv_unknown view \<and> list_all calm runs \<and>
    (\<forall>j \<in> set (bv_queue view). long_queue attention j = Inr False)"
proof -
  have calm: "list_all calm runs \<longleftrightarrow> DUnknown \<notin> set (map dg_verdict runs) \<and>
      \<not> list_ex (\<lambda>v. v \<in> set (map dg_verdict runs)) ATTENTION_DIAGNOSES"
    unfolding list_all_iff calm_def ATTENTION_DIAGNOSES_def
    by (auto simp: image_iff) (metis run_verdict.exhaust)+
  have queue: "all_ok (\<lambda>job. rbind (long_queue attention job) (\<lambda>b. Inr (\<not> b))) (bv_queue view) = Inr True \<longleftrightarrow>
      (\<forall>j \<in> set (bv_queue view). long_queue attention j = Inr False)"
    by (auto simp: all_ok_True rbind_eq_Inr_iff) (metis (full_types))?
  show ?thesis
    using assms unfolding node_verdict_of_def calm queue [symmetric] by (auto split: if_splits)
qed

section \<open>Concrete observations\<close>

lemma zero_double [simp]: "to_double 0 = Fin 0"
  by (simp add: to_double_def Let_def max_double_def)

lemma rne_zero [simp]: "rne 0 = 0"
  using rne_of_int [of 0] by simp

definition sample_instants :: instants where
  "sample_instants s = (if s = ''t0'' then Some 0 else if s = ''t9'' then Some 9000000 else None)"

definition sample_broker :: jdict where
  "sample_broker = [(''gpus'', JList [JObj [(''gpu_id'', JInt 0), (''state'', JStr ''idle'')]]), (''running'', JList []),
     (''queue'', JList []), (''broker_version'', JStr ''0.6''), (''instance_id'', JStr ''i''),
     (''gpu_observed_at'', JStr ''t0''), (''gpu_observation_age_seconds'', JFloat (Fin 0))]"

definition sample_run_state :: jdict where
  "sample_run_state = [(''run_id'', JStr ''r''), (''state'', JStr ''queued''), (''stage_index'', JInt 0),
     (''broker_job_id'', JStr ''j''), (''updated_at'', JStr ''t0'')]"

definition sample_request :: jdict where
  "sample_request = [(''stages'', JList [JObj [(''execution'', JStr ''broker'')]])]"

section \<open>Properties\<close>

text \<open>C17: A run is diagnosed as stalled only on evidence: its last update can be dated, its
  current stage is not executed locally, the broker can be trusted when it matters, and either
  nothing happened for the attention threshold, or the job the broker reports exceeds its
  declared time limit by five seconds, or runs on other GPUs than recorded.\<close>

theorem stall_needs_evidence:
  assumes "classify_run env instant_of jobs unknown now attention state request err = Inr d"
    and "dg_verdict d = DSuspectedStall"
  shows "\<exists>idle req. seconds_since instant_of (dget ''updated_at'' state) now = Some idle \<and> request = Some req \<and>
    hashed_in [''local'', ''service''] (stage_execution (current_stage state req)) = Inr False \<and>
    \<not> (unknown \<and> (py_eq (stage_execution (current_stage state req)) (JStr ''broker'') \<or>
                    py_truthy (dget ''broker_job_id'' state))) \<and>
    stall_evidence env jobs attention state (current_stage state req) idle"
  using assms by (rule classify_run_stall)

theorem stall_needs_evidence_witness:
  "stall_evidence sample_env \<lparr>bj_running = [], bj_queued = [], bj_recent = []\<rparr> (Fin 0) sample_run_state
     (current_stage sample_run_state sample_request) (Fin 0)"
proof -
  have s: "seconds_since sample_instants (JStr ''t0'') 0 = Some (Fin 0)"
    by (simp add: seconds_since_def parse_timestamp_def sample_instants_def flt_max0_def)
  have st: "dget ''updated_at'' sample_run_state = JStr ''t0''" "dget ''state'' sample_run_state = JStr ''queued''"
    "dget ''broker_job_id'' sample_run_state = JStr ''j''"
    "current_stage sample_run_state sample_request = Some [(''execution'', JStr ''broker'')]"
    by (simp_all add: sample_run_state_def sample_request_def current_stage_def)
  have "\<exists>d. classify_run sample_env sample_instants \<lparr>bj_running = [], bj_queued = [], bj_recent = []\<rparr> False 0 (Fin 0)
      sample_run_state (Some sample_request) None = Inr d \<and> dg_verdict d = DSuspectedStall"
    by (simp add: classify_run_def s st Let_def hashed_in_def TERMINAL_STATES_def classify_broker_def
        locate_job_def classify_absent_def flt_le_def py_str_def)
  then show ?thesis using stall_needs_evidence s st(1) by fastforce
qed

text \<open>When the broker cannot be trusted, nothing is claimed about an open run that depends
  on it: a run whose stage executes on the broker, or that has a broker job and is not in a local
  or service stage, is diagnosed as unknown.\<close>

lemma untrusted_broker_run_unknown:
  assumes "classify_run env instant_of jobs True now attention state (Some req) err = Inr d"
    and "\<not> state_terminal state"
    and "hashed_in [''local'', ''service''] (stage_execution (current_stage state req)) \<noteq> Inr True"
    and "py_eq (stage_execution (current_stage state req)) (JStr ''broker'') \<or> py_truthy (dget ''broker_job_id'' state)"
  shows "dg_verdict d = DUnknown"
  using classify_run_open [OF assms(1,2)] assms(3,4) by (auto simp: Let_def)

lemma untrusted_broker_run_unknown_witness:
  "\<exists>d. classify_run sample_env sample_instants \<lparr>bj_running = [], bj_queued = [], bj_recent = []\<rparr> True 0 (Fin 0)
     sample_run_state (Some sample_request) None = Inr d \<and> dg_verdict d = DUnknown"
proof -
  have st: "dget ''updated_at'' sample_run_state = JStr ''t0''" "dget ''state'' sample_run_state = JStr ''queued''"
    "dget ''broker_job_id'' sample_run_state = JStr ''j''"
    "current_stage sample_run_state sample_request = Some [(''execution'', JStr ''broker'')]"
    by (simp_all add: sample_run_state_def sample_request_def current_stage_def)
  have "\<exists>d. classify_run sample_env sample_instants \<lparr>bj_running = [], bj_queued = [], bj_recent = []\<rparr> True 0 (Fin 0)
      sample_run_state (Some sample_request) None = Inr d"
    by (simp add: classify_run_def st Let_def hashed_in_def TERMINAL_STATES_def seconds_since_def
        parse_timestamp_def sample_instants_def)
  then obtain d where d: "classify_run sample_env sample_instants \<lparr>bj_running = [], bj_queued = [], bj_recent = []\<rparr>
      True 0 (Fin 0) sample_run_state (Some sample_request) None = Inr d" by blast
  have "dg_verdict d = DUnknown"
    by (rule untrusted_broker_run_unknown [OF d])
      (simp_all add: st state_terminal_def hashed_in_def TERMINAL_STATES_def stage_execution_def)
  with d show ?thesis by blast
qed

text \<open>C16: Every run listed gets exactly one diagnosis, of its own id and state.  The broker counts
  as known exactly when it answered without error and its snapshot is trustworthy: it names its
  version and instance, every list holds objects, there is a GPU and each has a known state
  and an index, every job an id and a duration, and the GPU observation has a time and an age.
  The node is reported in order exactly when, besides, every run is diagnosed as terminal,
  waiting, running or progressing, and no queued job has waited for the attention threshold.\<close>

theorem node_ok_is_calm:
  assumes "build_diagnosis env instant_of ts attention states requests errors broker broker_error services = Inr di"
  shows "list_all2 (\<lambda>state d. dg_run_id d = dget ''run_id'' state \<and> dg_state d = dget ''state'' state) states (di_runs di) \<and>
    (di_broker_known di \<longleftrightarrow> broker_error = None \<and> (\<exists>b. broker = Some b \<and> trustworthy instant_of b)) \<and>
    (di_verdict di = VOk \<longleftrightarrow> broker_error = None \<and> list_all calm (di_runs di) \<and>
       (\<exists>b. broker = Some b \<and> trustworthy instant_of b \<and>
          (\<forall>j \<in> set (objects_in (dget ''queue'' b)). \<exists>w. number_of (dget ''wait_seconds'' j) = Inr (Some w) \<and>
             \<not> flt_le attention w)))"
proof -
  from assms obtain now view runs where "parse_timestamp instant_of (JStr ts) = Some now"
    and view: "broker_view_of instant_of broker broker_error = Inr view"
    and runs: "rtraverse (\<lambda>state. let rid = py_str (float_text env) (dget ''run_id'' state) in
         classify_run env instant_of \<lparr>bj_running = index_jobs env (bv_running view),
           bj_queued = index_jobs env (bv_queue view), bj_recent = index_jobs env (bv_recent view)\<rparr>
           (bv_unknown view) now attention state (dict_get rid requests) (dict_get rid errors)) states = Inr runs"
    and verdict: "node_verdict_of attention view runs = Inr (di_verdict di)"
    and di: "di_runs di = runs" "di_broker_known di = (\<not> bv_unknown view)"
    by (rule build_diagnosis_Inr)
  note known = broker_view_trustworthy [OF view]
  have "list_all2 (\<lambda>state d. dg_run_id d = dget ''run_id'' state \<and> dg_state d = dget ''state'' state) states runs"
    using runs unfolding rtraverse_eq_Inr_iff Let_def by (rule list_all2_mono) (rule classify_run_of)
  moreover have "(\<forall>j \<in> set (bv_queue view). long_queue attention j = Inr False) \<longleftrightarrow>
      (\<forall>j \<in> set (objects_in (dget ''queue'' b)). \<exists>w. number_of (dget ''wait_seconds'' j) = Inr (Some w) \<and> \<not> flt_le attention w)"
    if b: "broker = Some b" "trustworthy instant_of b" for b
  proof -
    obtain jobs where q: "dget ''queue'' b = JList (map JObj jobs)" "list_all (timed_job ''wait_seconds'') jobs"
      using b(2) by (auto simp: trustworthy_def)
    have "bv_queue view = objects_in (dget ''queue'' b)" using view b(1) by (auto simp: broker_view_of_def Let_def)
    then have "bv_queue view = jobs" by (simp only: q(1) objects_in_map)
    then show ?thesis using q by (simp only: objects_in_map) (force simp: list_all_iff timed_job_def long_queue_def)
  qed
  ultimately show ?thesis unfolding di node_verdict_ok_iff [OF verdict] using known by auto
qed

theorem node_ok_is_calm_witness:
  "\<exists>di. build_diagnosis sample_env sample_instants ''t9'' (Fin 1) [] [] [] (Some sample_broker) None [] = Inr di \<and>
     di_broker_known di \<and> list_all calm (di_runs di) \<and> trustworthy sample_instants sample_broker"
proof -
  have "\<exists>di. build_diagnosis sample_env sample_instants ''t9'' (Fin 1) [] [] [] (Some sample_broker) None [] = Inr di \<and>
      di_verdict di = VOk"
    by (simp add: build_diagnosis_def parse_timestamp_def sample_instants_def number_of_def flt_le_def
        broker_view_of_def sample_broker_def Let_def gpu_ok_def GPU_STATES_def node_verdict_of_def
        ATTENTION_DIAGNOSES_def)
  with node_ok_is_calm show ?thesis by fastforce
qed

end
