(* ===== verification/Service_Contract.thy ===== *)
theory Service_Contract
  imports Service_Url
begin

text \<open>
  \<open>src/kernel_infra/service_contracts.py\<close>: the launch contract of a managed evaluator
  service, the checks in the order of the code, and the invariant of what they accept.
\<close>

section \<open>Primitive checks\<close>

definition SERVICE_SCHEMA :: string where
  "SERVICE_SCHEMA = ''kernelinfra.service.v1''"

definition service_text :: "json \<Rightarrow> string \<Rightarrow> string result" where
  "service_text value loc =
     (case value of
        JStr s \<Rightarrow> if py_strip s = [] then Inl (ContractError (loc @ '' must be non-empty text'')) else Inr (py_strip s)
      | _ \<Rightarrow> Inl (ContractError (loc @ '' must be non-empty text'')))"

definition resolved_path :: "py_env \<Rightarrow> json \<Rightarrow> string \<Rightarrow> string \<Rightarrow> string result" where
  "resolved_path env value loc base =
     rbind (service_text value loc) (\<lambda>text.
     let path = expanduser env text in
     Inr (resolve_path env (if path_is_absolute path then path else path_join base path)))"

text \<open>A number that may be absent or \<open>null\<close>.\<close>

definition optional_positive :: "json \<Rightarrow> string \<Rightarrow> py_float option result" where
  "optional_positive value loc =
     (if value = JNull then Inr None else rbind (positive_number value loc) (\<lambda>x. Inr (Some x)))"

section \<open>The specification\<close>

record service_resources =
  vr_gpu_count :: int
  vr_estimate_s :: "py_float option"
  vr_queue_timeout_s :: "py_float option"
  vr_run_timeout_s :: py_float

record service_spec =
  ms_service_id :: string
  ms_description :: string
  ms_owner :: string
  ms_service_url :: string
  ms_source_root :: string
  ms_identity_prefix :: string
  ms_cwd :: string
  ms_command :: "string list"
  ms_env :: "string dict"
  ms_resources :: service_resources
  ms_readiness_timeout_s :: py_float
  ms_idle_grace_s :: "py_float option"
  ms_raw :: json
  ms_digest :: string
  ms_source_path :: string

definition service_identifier :: "json \<Rightarrow> string result" where
  "service_identifier value =
     rbind (service_text value ''service.service_id'') (\<lambda>sid.
     if is_identifier sid then Inr sid
     else Inl (ContractError (''service.service_id must match '' @ repr_str ID_PATTERN)))"

text \<open>The identities the admission fixes later must not be declared in advance.\<close>

definition parse_identity_prefix :: "json \<Rightarrow> string result" where
  "parse_identity_prefix value =
     rbind (service_text value ''service.identity_prefix'') (\<lambda>prefix.
     if is_substring ''admission@sha256:'' prefix \<or> is_substring ''executable@sha256:'' prefix
     then Inl (ContractError ''service.identity_prefix must not predeclare dynamic admission identity'')
     else Inr prefix)"

text \<open>A \<open>ValueError\<close> of the URL check becomes a contract error; it raises nothing else.\<close>

definition parse_service_url :: "py_env \<Rightarrow> json \<Rightarrow> string result" where
  "parse_service_url env value =
     rbind (service_text value ''service.service_url'') (\<lambda>text.
     case normalize_loopback_url env text of
       Inl (ValueError m) \<Rightarrow> Inl (ContractError m)
     | r \<Rightarrow> r)"

definition env_entry :: "string \<times> json \<Rightarrow> bool" where
  "env_entry item \<longleftrightarrow> fst item \<noteq> [] \<and> is_str (snd item) \<and> CHR ''='' \<notin> set (fst item)"

definition str_of_json :: "json \<Rightarrow> string" where
  "str_of_json v = (case v of JStr s \<Rightarrow> s | _ \<Rightarrow> [])"

definition parse_launch_env :: "jdict \<Rightarrow> string dict result" where
  "parse_launch_env launch =
     (case (case dict_get ''env'' launch of None \<Rightarrow> JObj [] | Some v \<Rightarrow> v) of
        JObj items \<Rightarrow>
          if list_all env_entry items then Inr (map (\<lambda>(k, v). (k, str_of_json v)) items)
          else Inl (ContractError ''service.launch.env must map valid names to strings'')
      | _ \<Rightarrow> Inl (ContractError ''service.launch.env must map valid names to strings''))"

definition parse_launch :: "json \<Rightarrow> (jdict \<times> string list \<times> string dict) result" where
  "parse_launch value =
     rbind (expect_object value ''service.launch'') (\<lambda>launch.
     rbind (strict_keys launch [''cwd'', ''command''] [''env''] ''service.launch'') (\<lambda>_.
     rbind (parse_command (dget ''command'' launch) ''service.launch.command'') (\<lambda>command.
     rbind (parse_launch_env launch) (\<lambda>environment.
     Inr (launch, command, environment)))))"

definition service_gpu_count :: "json \<Rightarrow> int result" where
  "service_gpu_count value =
     (case value of
        JInt i \<Rightarrow> if i < 1 then Inl (ContractError ''service.resources.gpu_count must be a positive integer'') else Inr i
      | _ \<Rightarrow> Inl (ContractError ''service.resources.gpu_count must be a positive integer''))"

text \<open>The checks that come before the paths and the remaining numbers are read.\<close>

definition parse_service_resources :: "json \<Rightarrow> (jdict \<times> int \<times> py_float option \<times> py_float option) result" where
  "parse_service_resources value =
     rbind (expect_object value ''service.resources'') (\<lambda>resources.
     rbind (strict_keys resources [''gpu_count'', ''run_timeout_s''] [''estimate_s'', ''queue_timeout_s'']
              ''service.resources'') (\<lambda>_.
     rbind (service_gpu_count (dget ''gpu_count'' resources)) (\<lambda>gpu_count.
     rbind (optional_positive (dget ''estimate_s'' resources) ''estimate_s'') (\<lambda>estimate.
     rbind (optional_positive (dget ''queue_timeout_s'' resources) ''queue_timeout_s'') (\<lambda>queue_timeout.
     Inr (resources, gpu_count, estimate, queue_timeout))))))"

definition parse_service :: "py_env \<Rightarrow> json \<Rightarrow> string \<Rightarrow> service_spec result" where
  "parse_service env value source =
     rbind (expect_object value ''service'') (\<lambda>raw.
     rbind (strict_keys raw
              [''schema'', ''service_id'', ''owner'', ''service_url'', ''source_root'', ''identity_prefix'',
               ''launch'', ''resources'']
              [''description'', ''readiness_timeout_s'', ''idle_grace_s''] ''service'') (\<lambda>_.
     if \<not> py_eq (dget ''schema'' raw) (JStr SERVICE_SCHEMA)
     then Inl (ContractError (''service.schema must be '' @ repr_str SERVICE_SCHEMA))
     else
     rbind (service_identifier (dget ''service_id'' raw)) (\<lambda>sid.
     rbind (service_text (dget ''owner'' raw) ''service.owner'') (\<lambda>owner.
     rbind (parse_identity_prefix (dget ''identity_prefix'' raw)) (\<lambda>prefix.
     rbind (parse_service_url env (dget ''service_url'' raw)) (\<lambda>url.
     rbind (parse_launch (dget ''launch'' raw)) (\<lambda>(launch, command, environment).
     rbind (parse_service_resources (dget ''resources'' raw)) (\<lambda>(resources, gpu_count, estimate, queue_timeout).
     let base = path_parent source in
     rbind (resolved_path env (dget ''source_root'' raw) ''service.source_root'' base) (\<lambda>source_root.
     rbind (resolved_path env (dget ''cwd'' launch) ''service.launch.cwd'' base) (\<lambda>cwd.
     rbind (positive_number (dget ''run_timeout_s'' resources) ''run_timeout_s'') (\<lambda>run_timeout.
     rbind (positive_number
              (case dict_get ''readiness_timeout_s'' raw of None \<Rightarrow> JFloat (Fin 300) | Some v \<Rightarrow> v)
              ''readiness_timeout_s'') (\<lambda>readiness.
     rbind (optional_positive (dget ''idle_grace_s'' raw) ''idle_grace_s'') (\<lambda>idle_grace.
     Inr \<lparr>ms_service_id = sid,
          ms_description = py_strip (py_str (float_text env)
            (case dict_get ''description'' raw of None \<Rightarrow> JStr [] | Some v \<Rightarrow> v)),
          ms_owner = owner, ms_service_url = url, ms_source_root = source_root,
          ms_identity_prefix = py_rstrip_char CHR ''+'' prefix, ms_cwd = cwd, ms_command = command,
          ms_env = environment,
          ms_resources = \<lparr>vr_gpu_count = gpu_count, vr_estimate_s = estimate,
            vr_queue_timeout_s = queue_timeout, vr_run_timeout_s = run_timeout\<rparr>,
          ms_readiness_timeout_s = readiness, ms_idle_grace_s = idle_grace,
          ms_raw = value, ms_digest = digest_json env value, ms_source_path = source\<rparr>)))))))))))))"

definition load_service_spec :: "py_env \<Rightarrow> json_file \<Rightarrow> string \<Rightarrow> service_spec result" where
  "load_service_spec env content path =
     (let source = resolve_path env (expanduser env path) in
      case content of
        FileMissing \<Rightarrow> Inl (ContractError (''service spec not found: '' @ source))
      | FileMalformed e \<Rightarrow> Inl (ContractError (''invalid service spec JSON at '' @ source @ '': '' @ e))
      | FileParsed raw \<Rightarrow> parse_service env raw source)"

section \<open>The invariant of accepted specifications\<close>

definition wf_service_resources :: "service_resources \<Rightarrow> bool" where
  "wf_service_resources r \<longleftrightarrow> 1 \<le> vr_gpu_count r \<and> opt_all pos_float (vr_estimate_s r) \<and>
     opt_all pos_float (vr_queue_timeout_s r) \<and> pos_float (vr_run_timeout_s r)"

definition wf_service :: "py_env \<Rightarrow> service_spec \<Rightarrow> bool" where
  "wf_service env s \<longleftrightarrow> is_identifier (ms_service_id s) \<and> stripped (ms_owner s) \<and>
     (\<exists>host port. service_address env (ms_service_url s) = Some (host, port) \<and> host \<in> set LOOPBACK_HOSTS \<and>
        0 \<le> port \<and> port \<le> 65535) \<and>
     \<not> is_substring ''admission@sha256:'' (ms_identity_prefix s) \<and>
     \<not> is_substring ''executable@sha256:'' (ms_identity_prefix s) \<and>
     wf_command (ms_command s) \<and> list_all (\<lambda>(k, v). k \<noteq> [] \<and> CHR ''='' \<notin> set k) (ms_env s) \<and>
     wf_service_resources (ms_resources s) \<and> pos_float (ms_readiness_timeout_s s) \<and>
     opt_all pos_float (ms_idle_grace_s s)"

named_theorems service_elims \<open>what an accepted service field satisfies\<close>

lemma service_text_Inr [service_elims]: "service_text v loc = Inr s \<Longrightarrow> stripped s"
  by (auto simp: service_text_def stripped_def split: json.splits if_splits)

lemma optional_positive_Inr [service_elims]: "optional_positive v loc = Inr x \<Longrightarrow> opt_all pos_float x"
  by (auto simp: optional_positive_def split: if_splits dest: positive_number_Inr)

lemma service_identifier_Inr [service_elims]: "service_identifier v = Inr s \<Longrightarrow> is_identifier s"
  by (auto simp: service_identifier_def)

lemma is_substring_rstrip:
  assumes "is_substring p (py_rstrip_char d s)"
  shows "is_substring p s"
proof -
  have prefix_app: "has_prefix p u \<Longrightarrow> has_prefix p (u @ w)" for u w
    by (simp add: has_prefix_def) (metis length_take min.absorb_iff2 min.commute nat_le_linear take_all take_append append_Nil2 diff_is_0_eq take_0)
  have app: "is_substring p u \<Longrightarrow> is_substring p (u @ w)" for u w
  proof (induction u)
    case Nil
    then have "p = []" by simp
    then show ?case by (cases w) (simp_all add: has_prefix_def)
  next
    case (Cons c u)
    then show ?case using prefix_app [of "c # u" w] by auto
  qed
  have "s = py_rstrip_char d s @ rev (takeWhile (\<lambda>c. c = d) (rev s))"
    unfolding py_rstrip_char_def by (metis rev_append rev_rev_ident takeWhile_dropWhile_id)
  with app [OF assms] show ?thesis by metis
qed

lemma parse_identity_prefix_Inr [service_elims]:
  "parse_identity_prefix v = Inr s \<Longrightarrow> \<not> is_substring ''admission@sha256:'' s \<and> \<not> is_substring ''executable@sha256:'' s"
  by (auto simp: parse_identity_prefix_def)

lemma parse_service_url_Inr [service_elims]:
  assumes "parse_service_url env v = Inr url"
  shows "\<exists>host port. service_address env url = Some (host, port) \<and> host \<in> set LOOPBACK_HOSTS \<and> 0 \<le> port \<and> port \<le> 65535"
proof -
  from assms obtain s where t: "(case normalize_loopback_url env s of
      Inl (ValueError m) \<Rightarrow> Inl (ContractError m) | r \<Rightarrow> r) = Inr url" by (auto simp: parse_service_url_def)
  then have "normalize_loopback_url env s = Inr url"
    by (cases "normalize_loopback_url env s") (auto split: exn.splits)
  then show ?thesis by (rule normalize_loopback_url_Inr(3))
qed

lemma parse_launch_Inr [service_elims]:
  assumes "parse_launch v = Inr (launch, command, environment)"
  shows "wf_command command \<and> list_all (\<lambda>(k, v). k \<noteq> [] \<and> CHR ''='' \<notin> set k) environment"
proof -
  from assms have "parse_launch_env launch = Inr environment"
    and "parse_command (dget ''command'' launch) ''service.launch.command'' = Inr command"
    by (auto simp: parse_launch_def)
  moreover from this(1) obtain items where "list_all env_entry items"
    "environment = map (\<lambda>(k, v). (k, str_of_json v)) items"
    by (auto simp: parse_launch_env_def)
  ultimately show ?thesis by (auto simp: list_all_iff env_entry_def dest: parse_command_Inr)
qed

lemma parse_service_resources_Inr [service_elims]:
  "parse_service_resources v = Inr (d, n, e, q) \<Longrightarrow> 1 \<le> n \<and> opt_all pos_float e \<and> opt_all pos_float q"
  by (auto simp: parse_service_resources_def service_gpu_count_def dest!: optional_positive_Inr)

lemma parse_service_Inr:
  assumes "parse_service env raw src = Inr s"
  shows "wf_service env s" and "ms_raw s = raw" and "ms_digest s = digest_json env raw"
    and "ms_source_path s = src"
proof -
  from assms obtain d sid owner prefix url launch command environment resources n e q sroot cwd rt ready idle where
    p: "service_identifier (dget ''service_id'' d) = Inr sid" "service_text (dget ''owner'' d) ''service.owner'' = Inr owner"
      "parse_identity_prefix (dget ''identity_prefix'' d) = Inr prefix"
      "parse_service_url env (dget ''service_url'' d) = Inr url"
      "parse_launch (dget ''launch'' d) = Inr (launch, command, environment)"
      "parse_service_resources (dget ''resources'' d) = Inr (resources, n, e, q)"
      "positive_number (dget ''run_timeout_s'' resources) ''run_timeout_s'' = Inr rt"
      "positive_number (case dict_get ''readiness_timeout_s'' d of None \<Rightarrow> JFloat (Fin 300) | Some v \<Rightarrow> v)
         ''readiness_timeout_s'' = Inr ready"
      "optional_positive (dget ''idle_grace_s'' d) ''idle_grace_s'' = Inr idle"
    and s: "ms_service_id s = sid" "ms_owner s = owner" "ms_service_url s = url"
      "ms_identity_prefix s = py_rstrip_char CHR ''+'' prefix" "ms_command s = command" "ms_env s = environment"
      "ms_resources s = \<lparr>vr_gpu_count = n, vr_estimate_s = e, vr_queue_timeout_s = q, vr_run_timeout_s = rt\<rparr>"
      "ms_readiness_timeout_s s = ready" "ms_idle_grace_s s = idle" "ms_raw s = raw"
      "ms_digest s = digest_json env raw" "ms_source_path s = src"
    by (auto simp: parse_service_def Let_def)
  show "wf_service env s"
    using service_identifier_Inr [OF p(1)] service_text_Inr [OF p(2)] parse_identity_prefix_Inr [OF p(3)]
      parse_service_url_Inr [OF p(4)] parse_launch_Inr [OF p(5)] parse_service_resources_Inr [OF p(6)]
      positive_number_Inr [OF p(7)] positive_number_Inr [OF p(8)] optional_positive_Inr [OF p(9)]
      is_substring_rstrip
    unfolding wf_service_def wf_service_resources_def s by auto
  show "ms_raw s = raw" "ms_digest s = digest_json env raw" "ms_source_path s = src" by (rule s)+
qed

section \<open>A concrete service\<close>

definition sample_service_document :: json where
  "sample_service_document = JObj [
     (''schema'', JStr ''kernelinfra.service.v1''), (''service_id'', JStr ''evaluator''), (''owner'', JStr ''team''),
     (''service_url'', JStr ''http://127.0.0.1:8000/''), (''source_root'', JStr ''/src''),
     (''identity_prefix'', JStr ''eval-v1+''),
     (''launch'', JObj [(''cwd'', JStr ''/src''), (''command'', JList [JStr ''serve''])]),
     (''resources'', JObj [(''gpu_count'', JInt 2), (''run_timeout_s'', JFloat (Fin 3600))]),
     (''idle_grace_s'', JFloat (Fin 60))]"

definition sample_service :: service_spec where
  "sample_service = \<lparr>ms_service_id = ''evaluator'', ms_description = [], ms_owner = ''team'',
     ms_service_url = ''http://127.0.0.1:8000'', ms_source_root = ''/src'', ms_identity_prefix = ''eval-v1'',
     ms_cwd = ''/src'', ms_command = [''serve''], ms_env = [],
     ms_resources = \<lparr>vr_gpu_count = 2, vr_estimate_s = None, vr_queue_timeout_s = None, vr_run_timeout_s = Fin 3600\<rparr>,
     ms_readiness_timeout_s = Fin 300, ms_idle_grace_s = Some (Fin 60), ms_raw = sample_service_document,
     ms_digest = digest_json sample_env sample_service_document, ms_source_path = ''/svc.json''\<rparr>"

lemma sample_service_fields:
  "expect_object sample_service_document ''service'' = Inr (case sample_service_document of JObj d \<Rightarrow> d | _ \<Rightarrow> [])"
  by (simp add: sample_service_document_def)

lemma sample_service_parses: "parse_service sample_env sample_service_document ''/svc.json'' = Inr sample_service"
proof -
  define d where "d = (case sample_service_document of JObj d \<Rightarrow> d | _ \<Rightarrow> [])"
  define launch where "launch = [(''cwd'', JStr ''/src''), (''command'', JList [JStr ''serve''])]"
  define resources where "resources = [(''gpu_count'', JInt 2), (''run_timeout_s'', JFloat (Fin 3600))]"
  have k: "strict_keys d [''schema'', ''service_id'', ''owner'', ''service_url'', ''source_root'', ''identity_prefix'',
      ''launch'', ''resources''] [''description'', ''readiness_timeout_s'', ''idle_grace_s''] ''service'' = Inr ()"
    unfolding d_def by code_simp
  have g: "dget ''schema'' d = JStr SERVICE_SCHEMA" "dget ''launch'' d = JObj launch" "dget ''resources'' d = JObj resources"
    "dict_get ''description'' d = None" "dict_get ''readiness_timeout_s'' d = None"
    unfolding d_def launch_def resources_def by code_simp+
  have p: "service_identifier (dget ''service_id'' d) = Inr ''evaluator''"
    "service_text (dget ''owner'' d) ''service.owner'' = Inr ''team''"
    "parse_identity_prefix (dget ''identity_prefix'' d) = Inr ''eval-v1+''"
    "parse_service_url sample_env (dget ''service_url'' d) = Inr ''http://127.0.0.1:8000''"
    "parse_launch (JObj launch) = Inr (launch, [''serve''], [])"
    "parse_service_resources (JObj resources) = Inr (resources, 2, None, None)"
    "resolved_path sample_env (dget ''source_root'' d) ''service.source_root'' (path_parent ''/svc.json'') = Inr ''/src''"
    "resolved_path sample_env (dget ''cwd'' launch) ''service.launch.cwd'' (path_parent ''/svc.json'') = Inr ''/src''"
    "positive_number (dget ''run_timeout_s'' resources) ''run_timeout_s'' = Inr (Fin 3600)"
    "positive_number (JFloat (Fin 300)) ''readiness_timeout_s'' = Inr (Fin 300)"
    "optional_positive (dget ''idle_grace_s'' d) ''idle_grace_s'' = Inr (Some (Fin 60))"
    "py_rstrip_char CHR ''+'' ''eval-v1+'' = ''eval-v1''"
    unfolding d_def launch_def resources_def by code_simp+
  have s: "py_strip (py_str (float_text sample_env) (JStr [])) = []" by (simp add: py_str_def)
  have e: "expect_object sample_service_document ''service'' = Inr d"
    unfolding d_def by (rule sample_service_fields)
  show ?thesis
    unfolding parse_service_def e rbind.simps k g p Let_def option.case s case_prod_conv
    by (simp add: sample_service_def)
qed

section \<open>Properties\<close>

text \<open>An accepted service contract names a loopback address, a non-empty command, an
  environment without empty or malformed names, positive resources and timeouts, an identity
  prefix without the digests the admission adds later, and carries the raw document and its
  digest.\<close>

lemma accepted_service_well_formed:
  assumes "parse_service env raw src = Inr s"
  shows "wf_service env s \<and> ms_raw s = raw \<and> ms_digest s = digest_json env raw \<and> ms_source_path s = src"
  using parse_service_Inr [OF assms] by blast

lemma accepted_service_well_formed_witness: "wf_service sample_env sample_service"
  using accepted_service_well_formed [OF sample_service_parses] by blast

end
