(* ===== verification/Service_Store.thy ===== *)
theory Service_Store
  imports Service_Contract Run_Store_Facts
begin

text \<open>
  \<open>src/kernel_infra/service_store.py\<close>: the deployment history of managed services, one
  record of files per deployment.  The store provides the ledger interface like the run
  store, so an update touches one deployment and recovery closes what it lists.
\<close>

section \<open>State\<close>

datatype service_lifecycle =
    SvcAccepted | SvcStarting | SvcReady | SvcStopping | SvcStopped | SvcFailed | SvcInterrupted

fun service_lifecycle_name :: "service_lifecycle \<Rightarrow> string" where
  "service_lifecycle_name SvcAccepted = ''accepted''"
| "service_lifecycle_name SvcStarting = ''starting''"
| "service_lifecycle_name SvcReady = ''ready''"
| "service_lifecycle_name SvcStopping = ''stopping''"
| "service_lifecycle_name SvcStopped = ''stopped''"
| "service_lifecycle_name SvcFailed = ''failed''"
| "service_lifecycle_name SvcInterrupted = ''interrupted''"

definition SERVICE_TERMINAL_STATES :: "service_lifecycle list" where
  "SERVICE_TERMINAL_STATES = [SvcStopped, SvcFailed, SvcInterrupted]"

definition service_terminal :: "service_lifecycle \<Rightarrow> bool" where
  "service_terminal s \<longleftrightarrow> s \<in> set SERVICE_TERMINAL_STATES"

lemma service_terminal_simps [simp]:
  "service_terminal SvcStopped" "service_terminal SvcFailed" "service_terminal SvcInterrupted"
  "\<not> service_terminal SvcAccepted" "\<not> service_terminal SvcStarting" "\<not> service_terminal SvcReady"
  "\<not> service_terminal SvcStopping"
  by (simp_all add: service_terminal_def SERVICE_TERMINAL_STATES_def)

record service_state =
  sv_deployment_id :: string
  sv_service_id :: string
  sv_service_sha256 :: string
  sv_state :: service_lifecycle
  sv_broker_job_id :: "string option"
  sv_gpu_ids :: "int list"
  sv_service_url :: string
  sv_service_identity :: "string option"
  sv_admission_receipt :: string
  sv_deployment_receipt :: string
  sv_accepted_at :: string
  sv_updated_at :: string
  sv_ready_at :: "string option"
  sv_terminal_at :: "string option"
  sv_reason :: "string option"
  sv_idle_grace_s :: "py_float option"
  sv_idle_since :: "string option"
  sv_deployment_dir :: string

record service_event =
  se_at :: string
  se_event :: string
  se_deployment_id :: string
  se_service_id :: string
  se_state :: service_lifecycle
  se_broker_job_id :: "string option"
  se_gpu_ids :: "int list"
  se_reason :: "string option"

record service_request =
  sq_deployment_id :: string
  sq_service_id :: string
  sq_service_sha256 :: string
  sq_service_source :: string
  sq_accepted_at :: string
  sq_owner :: string
  sq_service_url :: string
  sq_source_root :: string
  sq_identity_prefix :: string
  sq_cwd :: string
  sq_command :: "string list"
  sq_env_keys :: "string list"
  sq_resources :: service_resources
  sq_readiness_timeout_s :: py_float
  sq_idle_grace_s :: "py_float option"

record service_files =
  vf_spec :: json
  vf_request :: service_request
  vf_state :: service_state
  vf_events :: "service_event list"
  vf_receipt :: "json option"

record service_store =
  svc_deployments :: "service_files dict"
  svc_tick :: nat

definition service_now :: "clock \<Rightarrow> service_store \<Rightarrow> string \<times> service_store" where
  "service_now clock st = (clock (svc_tick st), st\<lparr>svc_tick := Suc (svc_tick st)\<rparr>)"

section \<open>Operations\<close>

definition deployment_dir :: "string \<Rightarrow> unit result" where
  "deployment_dir did =
     (if did = [] \<or> CHR ''/'' \<in> set did \<or> did \<in> {''.'', ''..''}
      then Inl (ValueError (''invalid deployment id: '' @ repr_str did)) else Inr ())"

definition append_service_event ::
  "clock \<Rightarrow> string \<Rightarrow> service_state \<Rightarrow> service_event list \<Rightarrow> service_store \<Rightarrow> service_event list \<times> service_store" where
  "append_service_event clock event s events st =
     (case service_now clock st of (now, st') \<Rightarrow>
        (events @ [\<lparr>se_at = now, se_event = event, se_deployment_id = sv_deployment_id s,
           se_service_id = sv_service_id s, se_state = sv_state s, se_broker_job_id = sv_broker_job_id s,
           se_gpu_ids = sv_gpu_ids s, se_reason = sv_reason s\<rparr>], st'))"

definition initial_service_request :: "service_spec \<Rightarrow> string \<Rightarrow> string \<Rightarrow> service_request" where
  "initial_service_request spec did now =
     \<lparr>sq_deployment_id = did, sq_service_id = ms_service_id spec, sq_service_sha256 = ms_digest spec,
      sq_service_source = ms_source_path spec, sq_accepted_at = now, sq_owner = ms_owner spec,
      sq_service_url = ms_service_url spec, sq_source_root = ms_source_root spec,
      sq_identity_prefix = ms_identity_prefix spec, sq_cwd = ms_cwd spec, sq_command = ms_command spec,
      sq_env_keys = sort (dict_keys (ms_env spec)), sq_resources = ms_resources spec,
      sq_readiness_timeout_s = ms_readiness_timeout_s spec, sq_idle_grace_s = ms_idle_grace_s spec\<rparr>"

definition initial_service_state :: "service_spec \<Rightarrow> string \<Rightarrow> string \<Rightarrow> string \<Rightarrow> service_state" where
  "initial_service_state spec did dir now =
     \<lparr>sv_deployment_id = did, sv_service_id = ms_service_id spec, sv_service_sha256 = ms_digest spec,
      sv_state = SvcAccepted, sv_broker_job_id = None, sv_gpu_ids = [], sv_service_url = ms_service_url spec,
      sv_service_identity = None, sv_admission_receipt = dir @ ''/admission.json'',
      sv_deployment_receipt = dir @ ''/deployment.json'', sv_accepted_at = now, sv_updated_at = now,
      sv_ready_at = None, sv_terminal_at = None, sv_reason = None, sv_idle_grace_s = ms_idle_grace_s spec,
      sv_idle_since = None, sv_deployment_dir = dir\<rparr>"

text \<open>\<open>home\<close> is the deployments directory; the suffix is the random part of the id.\<close>

definition create_deployment ::
  "clock \<Rightarrow> string \<Rightarrow> string \<Rightarrow> service_spec \<Rightarrow> service_store \<Rightarrow> (service_state \<times> service_store) result" where
  "create_deployment clock home suffix spec st =
     (let did = ms_service_id spec @ ''-'' @ suffix in
     rbind (deployment_dir did) (\<lambda>_.
     if dict_has did (svc_deployments st) then Inl (FileExistsError did)
     else case service_now clock st of (now, st1) \<Rightarrow>
     let state = initial_service_state spec did (home @ ''/'' @ did) now in
     case append_service_event clock ''accepted'' state [] st1 of (events, st2) \<Rightarrow>
     Inr (state, st2\<lparr>svc_deployments := dict_set did
       \<lparr>vf_spec = ms_raw spec, vf_request = initial_service_request spec did now, vf_state = state,
        vf_events = events, vf_receipt = None\<rparr> (svc_deployments st2)\<rparr>)))"

definition service_read_files :: "string \<Rightarrow> service_store \<Rightarrow> service_files result" where
  "service_read_files did st = rbind (deployment_dir did) (\<lambda>_.
     case dict_get did (svc_deployments st) of
       None \<Rightarrow> Inl (KeyError (''service deployment not found: '' @ did))
     | Some files \<Rightarrow> Inr files)"

definition service_read_state :: "string \<Rightarrow> service_store \<Rightarrow> service_state result" where
  "service_read_state did st = rbind (service_read_files did st) (\<lambda>files. Inr (vf_state files))"

text \<open>Ready and terminal times are written by the first update that leaves the state so.\<close>

definition service_stamp :: "string \<Rightarrow> service_state \<Rightarrow> service_state" where
  "service_stamp now s =
     (let s1 = s\<lparr>sv_updated_at := now\<rparr>;
          s2 = (if sv_state s1 = SvcReady \<and> sv_ready_at s1 \<in> {None, Some []} then s1\<lparr>sv_ready_at := Some now\<rparr> else s1)
      in if service_terminal (sv_state s2) \<and> sv_terminal_at s2 \<in> {None, Some []}
         then s2\<lparr>sv_terminal_at := Some now\<rparr> else s2)"

definition put_service :: "string \<Rightarrow> service_files \<Rightarrow> service_store \<Rightarrow> service_store" where
  "put_service did files st = st\<lparr>svc_deployments := dict_set did files (svc_deployments st)\<rparr>"

definition service_update_state ::
  "clock \<Rightarrow> string \<Rightarrow> string \<Rightarrow> (service_state \<Rightarrow> service_state) \<Rightarrow> service_store \<Rightarrow> (service_state \<times> service_store) result" where
  "service_update_state clock did event changes st =
     rbind (service_read_files did st) (\<lambda>files.
     case service_now clock st of (now, st1) \<Rightarrow>
     let s = service_stamp now (changes (vf_state files)) in
     case append_service_event clock event s (vf_events files) st1 of (events, st2) \<Rightarrow>
     Inr (s, put_service did (files\<lparr>vf_state := s, vf_events := events\<rparr>) st2))"

definition write_deployment_receipt :: "string \<Rightarrow> json \<Rightarrow> service_store \<Rightarrow> service_store result" where
  "write_deployment_receipt did receipt st = rbind (service_read_files did st) (\<lambda>files.
     Inr (put_service did (files\<lparr>vf_receipt := Some receipt\<rparr>) st))"

definition service_list_states :: "string option \<Rightarrow> service_store \<Rightarrow> service_state list" where
  "service_list_states sid st =
     sort_key sv_accepted_at
       (filter (\<lambda>s. case sid of None \<Rightarrow> True | Some t \<Rightarrow> sv_service_id s = t)
          (map (\<lambda>(did, files). vf_state files) (sort_key fst (svc_deployments st))))"

section \<open>The ledger interface\<close>

definition peek_service :: "service_store \<Rightarrow> string \<Rightarrow> service_state option" where
  "peek_service st did = (case service_read_state did st of Inl e \<Rightarrow> None | Inr s \<Rightarrow> Some s)"

lemma peek_service_files:
  "peek_service st did = Some s \<longleftrightarrow> deployment_dir did = Inr () \<and>
     (\<exists>files. dict_get did (svc_deployments st) = Some files \<and> vf_state files = s)"
  by (auto simp: peek_service_def service_read_state_def service_read_files_def deployment_dir_def
      split: option.splits sum.splits if_splits)

lemma peek_service_None:
  "peek_service st did = None \<longleftrightarrow> deployment_dir did \<noteq> Inr () \<or> dict_get did (svc_deployments st) = None"
  by (auto simp: peek_service_def service_read_state_def service_read_files_def deployment_dir_def
      split: option.splits sum.splits if_splits)

lemma service_read_state_peek: "service_read_state did st = Inr s \<longleftrightarrow> peek_service st did = Some s"
  by (auto simp: peek_service_def split: sum.splits)

lemma service_update_known:
  assumes "peek_service st did = Some s"
  shows "\<exists>st'. service_update_state clock did event f st = Inr (service_stamp (clock (svc_tick st)) (f s), st') \<and>
     peek_service st' did = Some (service_stamp (clock (svc_tick st)) (f s)) \<and>
     (\<forall>k. k \<noteq> did \<longrightarrow> peek_service st' k = peek_service st k)"
proof -
  from assms obtain files where "deployment_dir did = Inr ()" "dict_get did (svc_deployments st) = Some files"
    "vf_state files = s" by (auto simp: peek_service_files)
  then show ?thesis
    by (simp add: service_update_state_def service_read_files_def service_now_def append_service_event_def Let_def
        put_service_def peek_service_def service_read_state_def)
qed

lemma service_update_unknown:
  "peek_service st did = None \<Longrightarrow> \<exists>e. service_update_state clock did event f st = Inl e"
  by (cases "deployment_dir did") (auto simp: peek_service_None service_update_state_def service_read_files_def)

lemma service_stamp_simps [simp]:
  "sv_state (service_stamp now s) = sv_state s" "sv_deployment_id (service_stamp now s) = sv_deployment_id s"
  "sv_service_id (service_stamp now s) = sv_service_id s" "sv_reason (service_stamp now s) = sv_reason s"
  "sv_service_sha256 (service_stamp now s) = sv_service_sha256 s" "sv_idle_since (service_stamp now s) = sv_idle_since s"
  "sv_broker_job_id (service_stamp now s) = sv_broker_job_id s" "sv_gpu_ids (service_stamp now s) = sv_gpu_ids s"
  "sv_deployment_receipt (service_stamp now s) = sv_deployment_receipt s"
  "sv_service_identity (service_stamp now s) = sv_service_identity s"
  by (simp_all add: service_stamp_def Let_def)

definition service_interrupted_reason :: string where
  "service_interrupted_reason = ''kernel-infrad restarted before service deployment stopped''"

definition interrupt_service :: "service_state \<Rightarrow> service_state" where
  "interrupt_service s = s\<lparr>sv_state := SvcInterrupted, sv_reason := Some service_interrupted_reason\<rparr>"

interpretation services: closing_ledger peek_service "service_update_state clock"
    "\<lambda>st. service_stamp (clock (svc_tick st))" "\<lambda>s. service_terminal (sv_state s)" interrupt_service
  for clock
proof
  show "\<exists>s'. service_update_state clock k event f s = Inr (service_stamp (clock (svc_tick s)) (f x), s') \<and>
      peek_service s' k = Some (service_stamp (clock (svc_tick s)) (f x)) \<and>
      (\<forall>k'. k' \<noteq> k \<longrightarrow> peek_service s' k' = peek_service s k')" if "peek_service s k = Some x" for s k x event f
    using that by (rule service_update_known)
  show "\<exists>e. service_update_state clock k event f s = Inl e" if "peek_service s k = None" for s k event f
    using that by (rule service_update_unknown)
qed (simp_all add: interrupt_service_def)

section \<open>The invariant\<close>

text \<open>
  Ready and terminal states carry their times, and a deployment known to be ready was so at
  some time; the last event is the state's.
\<close>

definition wf_service_files :: "string \<Rightarrow> service_files \<Rightarrow> bool" where
  "wf_service_files did files \<longleftrightarrow> deployment_dir did = Inr () \<and> sv_deployment_id (vf_state files) = did \<and>
     sq_deployment_id (vf_request files) = did \<and>
     vf_events files \<noteq> [] \<and> se_state (last (vf_events files)) = sv_state (vf_state files) \<and>
     list_all (\<lambda>e. se_deployment_id e = did) (vf_events files) \<and>
     (sv_state (vf_state files) = SvcReady \<longrightarrow> sv_ready_at (vf_state files) \<noteq> None) \<and>
     (service_terminal (sv_state (vf_state files)) \<longrightarrow> sv_terminal_at (vf_state files) \<noteq> None)"

definition wf_services :: "service_store \<Rightarrow> bool" where
  "wf_services st \<longleftrightarrow> distinct (dict_keys (svc_deployments st)) \<and>
     list_all (\<lambda>(did, files). wf_service_files did files) (svc_deployments st)"

lemma wf_services_get: "wf_services st \<Longrightarrow> dict_get did (svc_deployments st) = Some files \<Longrightarrow> wf_service_files did files"
  by (auto simp: wf_services_def list_all_iff dest!: dict_get_mem)

lemma wf_services_set:
  assumes "wf_services st" and "wf_service_files did files"
    and "svc_deployments st' = dict_set did files (svc_deployments st)"
  shows "wf_services st'"
  using assms set_dict_set [of did files "svc_deployments st"]
  by (auto simp: wf_services_def list_all_iff distinct_dict_set)

lemma service_update_wf:
  assumes "service_update_state clock did event f st = Inr (s, st')" and "wf_services st"
    and "\<And>x. sv_deployment_id (f x) = sv_deployment_id x"
  shows "wf_services st'"
proof -
  from assms(1) obtain files events where files: "dict_get did (svc_deployments st) = Some files"
    and s: "s = service_stamp (clock (svc_tick st)) (f (vf_state files))"
    and ev: "events = fst (append_service_event clock event s (vf_events files) (st\<lparr>svc_tick := Suc (svc_tick st)\<rparr>))"
    and st': "svc_deployments st' = dict_set did (files\<lparr>vf_state := s, vf_events := events\<rparr>) (svc_deployments st)"
    by (auto simp: service_update_state_def service_read_files_def service_now_def append_service_event_def Let_def
        put_service_def)
  have "wf_service_files did files" using assms(2) files by (rule wf_services_get)
  then have "wf_service_files did (files\<lparr>vf_state := s, vf_events := events\<rparr>)"
    by (auto simp: wf_service_files_def ev append_service_event_def service_now_def s assms(3))
      (auto simp: service_stamp_def Let_def assms(3))
  from wf_services_set [OF assms(2) this st'] show ?thesis .
qed

lemma create_deployment_Inr:
  assumes "create_deployment clock home suffix spec st = Inr (s, st')"
  shows "sv_deployment_id s = ms_service_id spec @ ''-'' @ suffix" and "sv_state s = SvcAccepted"
    and "sv_service_id s = ms_service_id spec" and "sv_service_sha256 s = ms_digest spec"
    and "peek_service st (sv_deployment_id s) = None" and "peek_service st' (sv_deployment_id s) = Some s"
    and "k \<noteq> sv_deployment_id s \<Longrightarrow> peek_service st' k = peek_service st k"
    and "wf_services st \<Longrightarrow> wf_services st'"
proof -
  let ?did = "ms_service_id spec @ ''-'' @ suffix"
  define files where "files = \<lparr>vf_spec = ms_raw spec, vf_request = initial_service_request spec ?did (clock (svc_tick st)),
    vf_state = s, vf_events = fst (append_service_event clock ''accepted'' s [] (st\<lparr>svc_tick := Suc (svc_tick st)\<rparr>)),
    vf_receipt = None\<rparr>"
  from assms have dir: "deployment_dir ?did = Inr ()" and new: "\<not> dict_has ?did (svc_deployments st)"
    and s: "s = initial_service_state spec ?did (home @ ''/'' @ ?did) (clock (svc_tick st))"
    and st': "svc_deployments st' = dict_set ?did files (svc_deployments st)"
    by (auto simp: create_deployment_def Let_def service_now_def append_service_event_def files_def)
  have files: "vf_state files = s" "sq_deployment_id (vf_request files) = ?did"
      "vf_events files = fst (append_service_event clock ''accepted'' s [] (st\<lparr>svc_tick := Suc (svc_tick st)\<rparr>))"
    by (simp_all add: files_def initial_service_request_def)
  have id: "sv_deployment_id s = ?did" and acc: "sv_state s = SvcAccepted"
    using s by (simp_all add: initial_service_state_def)
  show "sv_deployment_id s = ?did" "sv_state s = SvcAccepted" by fact+
  show "sv_service_id s = ms_service_id spec" "sv_service_sha256 s = ms_digest spec"
    using s by (simp_all add: initial_service_state_def)
  show "peek_service st (sv_deployment_id s) = None" using new by (simp add: id peek_service_None dict_has_get)
  show "peek_service st' (sv_deployment_id s) = Some s" using dir files(1) st' by (simp add: id peek_service_files)
  show "k \<noteq> sv_deployment_id s \<Longrightarrow> peek_service st' k = peek_service st k"
    using st' by (simp add: id peek_service_def service_read_state_def service_read_files_def)
  have "wf_service_files ?did files"
    using dir files id acc by (simp add: wf_service_files_def append_service_event_def service_now_def)
  then show "wf_services st \<Longrightarrow> wf_services st'" using wf_services_set [OF _ _ st'] by simp
qed

section \<open>Listing\<close>

lemma set_service_list:
  "set (service_list_states sid st) = {vf_state files | did files. (did, files) \<in> set (svc_deployments st) \<and>
     (case sid of None \<Rightarrow> True | Some t \<Rightarrow> sv_service_id (vf_state files) = t)}"
  unfolding service_list_states_def by (force simp: image_iff)

lemma service_listed_known:
  assumes "wf_services st" and "s \<in> set (service_list_states sid st)"
  shows "peek_service st (sv_deployment_id s) = Some s"
proof -
  from assms(2) obtain did files where f: "(did, files) \<in> set (svc_deployments st)" "s = vf_state files"
    by (auto simp: set_service_list)
  with assms(1) have "wf_service_files did files" by (auto simp: wf_services_def list_all_iff)
  moreover have "dict_get did (svc_deployments st) = Some files"
    using assms(1) f(1) by (simp add: wf_services_def dict_get_mem_iff)
  ultimately show ?thesis using f(2) by (auto simp: peek_service_files wf_service_files_def)
qed

lemma service_known_listed:
  "peek_service st did = Some s \<Longrightarrow> (case sid of None \<Rightarrow> True | Some t \<Rightarrow> sv_service_id s = t) \<Longrightarrow>
     s \<in> set (service_list_states sid st)"
  by (auto simp: peek_service_files set_service_list dest!: dict_get_mem)

lemma distinct_service_list:
  assumes "wf_services st"
  shows "distinct (map sv_deployment_id (service_list_states sid st))"
proof -
  let ?l = "sort_key fst (svc_deployments st)"
  have mem: "sv_deployment_id (vf_state files) = did" if "(did, files) \<in> set (svc_deployments st)" for did files
    using assms that by (auto simp: wf_services_def list_all_iff wf_service_files_def)
  have "map sv_deployment_id (map (\<lambda>(did, files). vf_state files) ?l) = map fst ?l"
    unfolding map_map by (rule map_cong [OF refl]) (auto dest: mem)
  moreover have "distinct (map fst ?l)"
    using assms by (simp add: wf_services_def dict_keys_def distinct_map)
  ultimately have "distinct (map sv_deployment_id (map (\<lambda>(did, files). vf_state files) ?l))" by metis
  then show ?thesis
    unfolding service_list_states_def distinct_map_sort_key by (rule distinct_map_filter)
qed

end
