(* ===== verification/Service_Binding.thy ===== *)
theory Service_Binding
  imports Service_Store
begin

text \<open>
  \<open>src/kernel_infra/service_binding.py\<close>: a task template with one service stage is bound to
  a ready deployment.  The placeholder of the judge identity and the one of the receipt
  option are replaced, the deployment id is added to the stage, and the result is parsed as
  a task.
\<close>

section \<open>Text\<close>

text \<open>\<open>str.find\<close> as a split around the first occurrence, \<open>str.count\<close> and \<open>str.replace\<close> of a
  non-empty text.\<close>

fun split_at_sub :: "string \<Rightarrow> string \<Rightarrow> (string \<times> string) option" where
  "split_at_sub p [] = (if p = [] then Some ([], []) else None)"
| "split_at_sub p (c # cs) =
     (if has_prefix p (c # cs) then Some ([], drop (length p) (c # cs))
      else map_option (apfst (Cons c)) (split_at_sub p cs))"

lemma split_at_sub_Some: "split_at_sub p s = Some (a, b) \<Longrightarrow> s = a @ p @ b"
proof (induction s arbitrary: a)
  case (Cons c cs)
  show ?case
  proof (cases "has_prefix p (c # cs)")
    case True
    with Cons.prems have ab: "a = []" "b = drop (length p) (c # cs)" by auto
    have "take (length p) (c # cs) = p" using True by (simp add: has_prefix_def)
    then have "c # cs = p @ drop (length p) (c # cs)" by (metis append_take_drop_id)
    with ab show ?thesis by simp
  next
    case False
    with Cons show ?thesis by (auto simp: apfst_def map_prod_def split: prod.splits)
  qed
qed (auto split: if_splits)

lemma split_at_sub_None: "split_at_sub p s = None \<longleftrightarrow> \<not> is_substring p s"
  by (induction s) (auto split: if_splits)

function count_sub :: "string \<Rightarrow> string \<Rightarrow> nat" where
  "count_sub p s =
     (case split_at_sub p s of
        None \<Rightarrow> 0
      | Some (a, b) \<Rightarrow> if p = [] then 0 else Suc (count_sub p b))"
  by pat_completeness auto
termination by (relation "measure (\<lambda>(p, s). length s)") (auto dest!: split_at_sub_Some)

function replace_sub :: "string \<Rightarrow> string \<Rightarrow> string \<Rightarrow> string" where
  "replace_sub p new s =
     (case split_at_sub p s of
        None \<Rightarrow> s
      | Some (a, b) \<Rightarrow> if p = [] then s else a @ new @ replace_sub p new b)"
  by pat_completeness auto
termination by (relation "measure (\<lambda>(p, new, s). length s)") (auto dest!: split_at_sub_Some)

declare count_sub.simps [simp del] replace_sub.simps [simp del]

lemma replace_one:
  assumes "count_sub p s = 1" and "p \<noteq> []"
  obtains a b where "s = a @ p @ b" and "replace_sub p new s = a @ new @ b"
proof -
  from assms obtain a b where ab: "split_at_sub p s = Some (a, b)" "count_sub p b = 0"
    by (subst (asm) count_sub.simps) (auto split: option.splits)
  then have "split_at_sub p b = None" using assms(2)
    by (subst (asm) count_sub.simps) (auto split: option.splits)
  then have "replace_sub p new b = b" by (subst replace_sub.simps) simp
  with ab(1) assms(2) have "replace_sub p new s = a @ new @ b" by (subst replace_sub.simps) simp
  with split_at_sub_Some [OF ab(1)] show ?thesis using that by blast
qed

text \<open>\<open>json.dumps(value, ensure_ascii=False)\<close> in insertion order.\<close>

primrec json_dumps :: "(py_float \<Rightarrow> string) \<Rightarrow> json \<Rightarrow> string" where
  "json_dumps fr JNull = ''null''"
| "json_dumps fr (JBool b) = (if b then ''true'' else ''false'')"
| "json_dumps fr (JInt i) = int_text i"
| "json_dumps fr (JFloat x) = json_float fr x"
| "json_dumps fr (JStr s) = json_quote s"
| "json_dumps fr (JList xs) = ''['' @ join '', '' (map (json_dumps fr) xs) @ '']''"
| "json_dumps fr (JObj kvs) =
     [CHR 0x7B] @ join '', '' (map (\<lambda>p. json_quote (fst p) @ '': '' @ snd p)
       (map (map_prod id (json_dumps fr)) kvs)) @ [CHR 0x7D]"

section \<open>The binding\<close>

definition SERVICE_IDENTITY_TOKEN :: string where
  "SERVICE_IDENTITY_TOKEN = ''${KERNELINFRA_SERVICE_IDENTITY}''"

definition DEPLOYMENT_RECEIPT_TOKEN :: string where
  "DEPLOYMENT_RECEIPT_TOKEN = ''${KERNELINFRA_DEPLOYMENT_RECEIPT}''"

definition BINDING_SCHEMA :: string where
  "BINDING_SCHEMA = ''kernelinfra.service-task-binding.v1''"

definition reject :: "bool \<Rightarrow> string \<Rightarrow> unit result" where
  "reject b message = (if b then Inl (ContractError message) else Inr ())"

definition is_service_stage :: "json \<Rightarrow> bool" where
  "is_service_stage v \<longleftrightarrow> (case v of JObj d \<Rightarrow> dget ''execution'' d = JStr ''service'' | _ \<Rightarrow> False)"

text \<open>The indices of a list whose elements satisfy a test.\<close>

definition indices :: "('a \<Rightarrow> bool) \<Rightarrow> 'a list \<Rightarrow> nat list" where
  "indices P xs = filter (\<lambda>i. P (xs ! i)) [0..<length xs]"

definition load_template :: "json_file \<Rightarrow> string \<Rightarrow> jdict result" where
  "load_template content template =
     (case content of
        FileMissing \<Rightarrow> Inl (ContractError (''task template not found: '' @ template))
      | FileMalformed e \<Rightarrow> Inl (ContractError (''invalid task template JSON at '' @ template @ '': '' @ e))
      | FileParsed (JObj raw) \<Rightarrow> Inr raw
      | FileParsed _ \<Rightarrow> Inl (ContractError ''task template must be an object''))"

definition template_stages :: "jdict \<Rightarrow> json list result" where
  "template_stages raw =
     (case dget ''stages'' raw of
        JList stages \<Rightarrow> Inr stages
      | _ \<Rightarrow> Inl (ContractError ''task template stages must be a list''))"

definition template_judge :: "jdict \<Rightarrow> jdict result" where
  "template_judge stage =
     (case dget ''judge'' stage of
        JObj judge \<Rightarrow> Inr judge
      | _ \<Rightarrow> Inl (ContractError ''selected service stage judge must be an object''))"

definition template_identity :: "jdict \<Rightarrow> string result" where
  "template_identity judge =
     (case dget ''identity'' judge of
        JStr identity \<Rightarrow>
          if count_sub SERVICE_IDENTITY_TOKEN identity \<noteq> 1
          then Inl (ContractError ''selected judge identity must contain exactly one service identity token'')
          else Inr identity
      | _ \<Rightarrow> Inl (ContractError ''selected judge identity must contain exactly one service identity token''))"

definition template_command :: "jdict \<Rightarrow> string list result" where
  "template_command judge =
     (case dget ''command'' judge of
        JList items \<Rightarrow>
          if \<not> list_all is_str items
          then Inl (ContractError ''selected service stage command must be a string list'')
          else Inr (map str_of_json items)
      | _ \<Rightarrow> Inl (ContractError ''selected service stage command must be a string list''))"

text \<open>The position of the receipt option, which must be the only one and have its token.\<close>

definition receipt_option :: "string list \<Rightarrow> nat result" where
  "receipt_option command =
     (case indices (\<lambda>item. item = ''--deployment-receipt'') command of
        [i] \<Rightarrow>
          if i + 1 \<ge> length command \<or> command ! (i + 1) \<noteq> DEPLOYMENT_RECEIPT_TOKEN
          then Inl (ContractError ''--deployment-receipt must be followed by the deployment receipt token'')
          else Inr i
      | _ \<Rightarrow> Inl (ContractError ''selected service stage must have one --deployment-receipt option''))"

definition bound_identity :: "string \<Rightarrow> string \<Rightarrow> string \<Rightarrow> string" where
  "bound_identity service_identity did receipt_sha =
     service_identity @ ''+deployment:'' @ did @ ''+deployment-receipt@sha256:'' @ receipt_sha"

definition bind_stage :: "string \<Rightarrow> string list \<Rightarrow> string \<Rightarrow> jdict \<Rightarrow> jdict \<Rightarrow> jdict" where
  "bind_stage identity command did judge stage =
     dict_set ''service_deployment'' (JStr did)
       (dict_set ''judge''
         (JObj (dict_set ''command'' (JList (map JStr command)) (dict_set ''identity'' (JStr identity) judge))) stage)"

definition binding_body ::
  "py_env \<Rightarrow> string \<Rightarrow> service_state \<Rightarrow> string \<Rightarrow> string \<Rightarrow> string \<Rightarrow> string \<Rightarrow> string \<Rightarrow> string \<Rightarrow> string \<Rightarrow> string \<Rightarrow>
   task_spec \<Rightarrow> json \<Rightarrow> jdict" where
  "binding_body env now s identity receipt_path receipt_sha template file_sha json_sha output binding_output task stage_id =
     [(''schema'', JStr BINDING_SCHEMA), (''bound_at'', JStr now), (''deployment_id'', JStr (sv_deployment_id s)),
      (''service_id'', JStr (sv_service_id s)), (''service_sha256'', JStr (sv_service_sha256 s)),
      (''service_identity'', JStr identity), (''deployment_receipt'', JStr receipt_path),
      (''deployment_receipt_sha256'', JStr receipt_sha), (''template'', JStr template),
      (''template_file_sha256'', JStr file_sha), (''template_json_sha256'', JStr json_sha),
      (''output'', JStr output), (''binding_output'', JStr binding_output), (''task_id'', JStr (task_id task)),
      (''task_sha256'', JStr (task_digest task)), (''stage_id'', stage_id)]"

text \<open>
  The body after the template was read and its paths were resolved.  \<open>file_sha\<close> is the hash
  of the bytes of the template.
\<close>

definition bind_template ::
  "py_env \<Rightarrow> string \<Rightarrow> string \<Rightarrow> string \<Rightarrow> string \<Rightarrow> string \<Rightarrow> service_state \<Rightarrow> jdict \<Rightarrow> jdict \<Rightarrow> (jdict \<times> jdict) result" where
  "bind_template env now file_sha template output binding_output s receipt raw =
     rbind (template_stages raw) (\<lambda>stages.
     case indices is_service_stage stages of
       [i] \<Rightarrow>
     (case stages ! i of
       JObj stage \<Rightarrow>
     rbind (template_judge stage) (\<lambda>judge.
     rbind (template_identity judge) (\<lambda>identity.
     rbind (template_command judge) (\<lambda>command.
     rbind (receipt_option command) (\<lambda>k.
     let receipt_path = resolve_path env (sv_deployment_receipt s) in
     rbind (dindex ''service_identity'' receipt) (\<lambda>identity_value.
     let service_identity = py_str (float_text env) identity_value;
         receipt_sha = digest_json env (JObj receipt);
         bound = bound_identity service_identity (sv_deployment_id s) receipt_sha;
         stage' = bind_stage (replace_sub SERVICE_IDENTITY_TOKEN bound identity) (command[k + 1 := receipt_path])
                    (sv_deployment_id s) judge stage;
         raw' = dict_set ''stages'' (JList (stages[i := JObj stage'])) raw;
         encoded = json_dumps (float_text env) (JObj raw')
     in
     rbind (reject (is_substring SERVICE_IDENTITY_TOKEN encoded \<or> is_substring DEPLOYMENT_RECEIPT_TOKEN encoded)
              ''task template contains an unconsumed service token'') (\<lambda>_.
     rbind (parse_task env (JObj raw') output) (\<lambda>task.
     let binding = binding_body env now s service_identity receipt_path receipt_sha template file_sha
           (digest_json env (JObj raw)) output binding_output task (dget ''id'' stage)
     in Inr (raw', dict_set ''binding_sha256'' (JStr (digest_json env (JObj binding))) binding))))))))
     | _ \<Rightarrow> Inl (ContractError ''task template must contain exactly one service stage''))
     | _ \<Rightarrow> Inl (ContractError ''task template must contain exactly one service stage''))"

definition materialize_service_task ::
  "py_env \<Rightarrow> string \<Rightarrow> string \<Rightarrow> json_file \<Rightarrow> string \<Rightarrow> string \<Rightarrow> string \<Rightarrow> service_state \<Rightarrow> jdict \<Rightarrow> (jdict \<times> jdict) result" where
  "materialize_service_task env now file_sha content template_path output_path binding_path s receipt =
     (let template = resolve_path env (expanduser env template_path);
          output = resolve_path env (expanduser env output_path);
          binding_output = resolve_path env (expanduser env binding_path)
      in rbind (reject (path_parent output \<noteq> path_parent template \<or> path_parent binding_output \<noteq> path_parent template)
              ''task template, output, and binding receipt must share one directory'') (\<lambda>_.
         rbind (load_template content template) (\<lambda>raw.
         bind_template env now file_sha template output binding_output s receipt raw)))"

end
