(* ===== verification/Py_Builtins.thy ===== *)
theory Py_Builtins
  imports Json
begin

text \<open>
  Builtins of Python on values that come from JSON, with the exceptions they raise:
  iteration, length, indexing, \<open>int\<close>, \<open>float\<close>, and the lines of a text.
\<close>

section \<open>Containers and integers\<close>

fun json_type_name :: "json \<Rightarrow> string" where
  "json_type_name JNull = ''NoneType''"
| "json_type_name (JBool b) = ''bool''"
| "json_type_name (JInt i) = ''int''"
| "json_type_name (JFloat x) = ''float''"
| "json_type_name (JStr s) = ''str''"
| "json_type_name (JList xs) = ''list''"
| "json_type_name (JObj d) = ''dict''"

text \<open>\<open>value.get(...)\<close> on a value that is no dictionary.\<close>

definition as_dict :: "json \<Rightarrow> jdict result" where
  "as_dict v = (case v of JObj d \<Rightarrow> Inr d
     | _ \<Rightarrow> Inl (AttributeError (repr_str (json_type_name v) @ '' object has no attribute '' @ repr_str ''get'')))"

definition decimal_char :: "char \<Rightarrow> bool" where
  "decimal_char c \<longleftrightarrow> (let n = of_char c :: nat in 48 \<le> n \<and> n \<le> 57)"

definition dget_or :: "string \<Rightarrow> json \<Rightarrow> jdict \<Rightarrow> json" where
  "dget_or k default_value d = (case dict_get k d of None \<Rightarrow> default_value | Some v \<Rightarrow> v)"

definition py_iter :: "json \<Rightarrow> json list result" where
  "py_iter v =
     (case v of
        JList xs \<Rightarrow> Inr xs
      | JStr s \<Rightarrow> Inr (map (\<lambda>c. JStr [c]) s)
      | JObj d \<Rightarrow> Inr (map JStr (dict_keys d))
      | _ \<Rightarrow> Inl (TypeError (repr_str (json_type_name v) @ '' object is not iterable'')))"

definition py_len :: "json \<Rightarrow> int result" where
  "py_len v =
     (case v of
        JList xs \<Rightarrow> Inr (int (length xs))
      | JStr s \<Rightarrow> Inr (int (length s))
      | JObj d \<Rightarrow> Inr (int (length d))
      | _ \<Rightarrow> Inl (TypeError (''object of type '' @ repr_str (json_type_name v) @ '' has no len()'')))"

definition hashable :: "json \<Rightarrow> unit result" where
  "hashable v =
     (if is_list v \<or> is_obj v then Inl (TypeError (''unhashable type: '' @ repr_str (json_type_name v))) else Inr ())"

text \<open>\<open>set(value)\<close>, as the list of its elements.\<close>

definition py_set :: "json \<Rightarrow> json list result" where
  "py_set v = rbind (py_iter v) (\<lambda>xs. rbind (rtraverse hashable xs) (\<lambda>_. Inr xs))"

text \<open>\<open>int(value)\<close>: digits with single underscores between them, in blanks, after a sign.\<close>

fun digit_groups :: "string \<Rightarrow> bool" where
  "digit_groups [] = False"
| "digit_groups [c] = decimal_char c"
| "digit_groups (c # d # cs) =
     (decimal_char c \<and> (if d = CHR ''_'' then digit_groups cs else digit_groups (d # cs)))"

definition digits_number :: "string \<Rightarrow> int" where
  "digits_number s = foldl (\<lambda>n c. n * 10 + (int (of_char c) - 48)) 0 (filter decimal_char s)"

definition int_of_text :: "string \<Rightarrow> int option" where
  "int_of_text s =
     (let t = py_strip s;
          u = (case t of c # cs \<Rightarrow> if c \<in> {CHR ''+'', CHR ''-''} then cs else t | [] \<Rightarrow> t)
      in if \<not> digit_groups u then None
         else Some (if t \<noteq> [] \<and> hd t = CHR ''-'' then - digits_number u else digits_number u))"

definition py_int :: "py_env \<Rightarrow> json \<Rightarrow> int result" where
  "py_int env v =
     (case v of
        JInt i \<Rightarrow> Inr i
      | JBool b \<Rightarrow> Inr (if b then 1 else 0)
      | JFloat (Fin q) \<Rightarrow> Inr (if 0 \<le> q then \<lfloor>q\<rfloor> else \<lceil>q\<rceil>)
      | JFloat NaN \<Rightarrow> Inl (ValueError ''cannot convert float NaN to integer'')
      | JFloat x \<Rightarrow> Inl (OverflowError ''cannot convert float infinity to integer'')
      | JStr s \<Rightarrow> (case int_of_text s of Some i \<Rightarrow> Inr i
          | None \<Rightarrow> Inl (ValueError (''invalid literal for int() with base 10: '' @ repr_str s)))
      | _ \<Rightarrow> Inl (TypeError (''int() argument must be a string, a bytes-like object or a real number, not ''
               @ repr_str (json_type_name v))))"

text \<open>\<open>value[key]\<close> with a string key.\<close>

definition py_index :: "string \<Rightarrow> json \<Rightarrow> json result" where
  "py_index k v =
     (case v of
        JObj d \<Rightarrow> dindex k d
      | JList xs \<Rightarrow> Inl (TypeError ''list indices must be integers or slices, not str'')
      | JStr s \<Rightarrow> Inl (TypeError (''string indices must be integers, not '' @ repr_str ''str''))
      | _ \<Rightarrow> Inl (TypeError (repr_str (json_type_name v) @ '' object is not subscriptable'')))"

section \<open>Floats\<close>

text \<open>\<open>float(value)\<close>.\<close>

definition float_call :: "py_env \<Rightarrow> json \<Rightarrow> py_float result" where
  "float_call env v =
     (case v of
        JInt i \<Rightarrow> float_of_int i
      | JFloat x \<Rightarrow> Inr x
      | JBool b \<Rightarrow> Inr (Fin (if b then 1 else 0))
      | JStr s \<Rightarrow> (case float_of_text env s of Some x \<Rightarrow> Inr x
          | None \<Rightarrow> Inl (ValueError (''could not convert string to float: '' @ repr_str s)))
      | _ \<Rightarrow> Inl (TypeError (''float() argument must be a string or a real number, not ''
               @ repr_str (json_type_name v))))"

section \<open>Lines\<close>

text \<open>\<open>str.splitlines()\<close>: its line boundaries below code point 256; a carriage return and a line feed are one.\<close>

definition line_break :: "char \<Rightarrow> bool" where
  "line_break c \<longleftrightarrow> (of_char c :: nat) \<in> {10, 11, 12, 13, 28, 29, 30, 133}"

fun splitlines_from :: "string \<Rightarrow> string \<Rightarrow> string list" where
  "splitlines_from line [] = (if line = [] then [] else [line])"
| "splitlines_from line (c # cs) =
     (if line_break c
      then line # (case cs of
             d # ds \<Rightarrow> if (of_char c :: nat) = 13 \<and> (of_char d :: nat) = 10 then splitlines_from [] ds else splitlines_from [] cs
           | [] \<Rightarrow> splitlines_from [] cs)
      else splitlines_from (line @ [c]) cs)"

definition splitlines :: "string \<Rightarrow> string list" where
  "splitlines s = splitlines_from [] s"

lemma splitlines_from_break:
  assumes "list_all (\<lambda>c. \<not> line_break c) a"
  shows "splitlines_from line (a @ CHR 0x0A # rest) = (line @ a) # splitlines_from [] rest"
  using assms
proof (induction a arbitrary: line)
  case Nil
  have "line_break (CHR 0x0A)" by (simp add: line_break_def)
  then show ?case by (cases rest) simp_all
qed simp

lemma splitlines_from_plain: "list_all (\<lambda>c. \<not> line_break c) a \<Longrightarrow> splitlines_from line a = (if line @ a = [] then [] else [line @ a])"
  by (induction a arbitrary: line) auto

end
