(* ===== verification/Attestation.thy ===== *)
theory Attestation
  imports Service_Contract Run_Store_Facts Py_Builtins
begin

text \<open>
  \<open>src/kernel_infra/service_attestation.py\<close> and the queries of \<open>broker.py\<close>: the broker's
  admission receipt, the deployment receipt built from it, and its verification against
  the live broker, the service and the source checkout.  What the outside answers is the
  record \<open>outside\<close>: broker responses by socket and request, service documents by URL, and
  what git says about a directory.
\<close>

section \<open>The outside\<close>

record peer =
  peer_pid :: json
  peer_uid :: json
  peer_gid :: json

record git_answers =
  git_is_dir :: bool
  git_commit :: "string result"
  git_tree :: "string result"
  git_status :: "string result"

record outside =
  out_broker :: "string \<Rightarrow> jdict \<Rightarrow> (json \<times> peer) result"
  out_document :: "string \<Rightarrow> json result"
  out_git :: "string \<Rightarrow> git_answers"

definition peer_field :: "string \<Rightarrow> peer \<Rightarrow> json" where
  "peer_field key p = (if key = ''pid'' then peer_pid p else if key = ''uid'' then peer_uid p else peer_gid p)"

definition PEER_KEYS :: "string list" where
  "PEER_KEYS = [''pid'', ''uid'', ''gid'']"

definition real_path :: "py_env \<Rightarrow> string \<Rightarrow> string" where
  "real_path env p = resolve_path env (expanduser env p)"

section \<open>Broker queries\<close>

definition broker_request :: "py_env \<Rightarrow> outside \<Rightarrow> string \<Rightarrow> jdict \<Rightarrow> (jdict \<times> peer) result" where
  "broker_request env out socket request =
     rbind (out_broker out (real_path env socket) request) (\<lambda>(value, p).
     case value of
       JObj d \<Rightarrow> Inr (d, p)
     | _ \<Rightarrow> Inl (RuntimeError ''broker returned a non-object payload''))"

definition query_broker :: "py_env \<Rightarrow> outside \<Rightarrow> string \<Rightarrow> jdict result" where
  "query_broker env out socket =
     rbind (broker_request env out socket [(''op'', JStr ''status'')]) (\<lambda>(value, p).
     case dget ''snapshot'' value of
       JObj snapshot \<Rightarrow>
         Inr (dict_update snapshot (map (\<lambda>k. (''_kernelinfra_peer_'' @ k, peer_field k p)) PEER_KEYS))
     | _ \<Rightarrow> Inl (RuntimeError ''broker returned an invalid status payload''))"

section \<open>The admission receipt\<close>

definition BROKER_ADMISSION_SCHEMA :: string where
  "BROKER_ADMISSION_SCHEMA = ''gpuq.admission-receipt.v1''"

definition ADMISSION_FIELDS :: "string list" where
  "ADMISSION_FIELDS = [''schema'', ''job_id'', ''broker_version'', ''broker_instance_id'', ''submitted_at'',
     ''started_at'', ''owner'', ''label'', ''mode'', ''gpu_count'', ''gpu_ids'', ''cwd'', ''argv_count'',
     ''argv_sha256'', ''env_keys'', ''env_sha256'', ''launch_spec_sha256'', ''resolved_executable'',
     ''executable_sha256'', ''effective_env_sha256'', ''receipt_sha256'']"

definition ADMISSION_TEXTS :: "string list" where
  "ADMISSION_TEXTS = [''job_id'', ''broker_version'', ''broker_instance_id'', ''submitted_at'', ''started_at'',
     ''owner'', ''label'', ''cwd'', ''resolved_executable'']"

definition ADMISSION_DIGESTS :: "string list" where
  "ADMISSION_DIGESTS = [''argv_sha256'', ''env_sha256'', ''launch_spec_sha256'', ''executable_sha256'',
     ''effective_env_sha256'', ''receipt_sha256'']"

fun nonempty_str :: "json \<Rightarrow> bool" where
  "nonempty_str (JStr s) = (s \<noteq> [])"
| "nonempty_str _ = False"

fun positive_json_int :: "json \<Rightarrow> bool" where
  "positive_json_int (JInt i) = (1 \<le> i)"
| "positive_json_int _ = False"

fun json_items :: "json \<Rightarrow> json list" where
  "json_items (JList xs) = xs"
| "json_items _ = []"

text \<open>A list of distinct non-negative integers with at least one member.\<close>

definition gpu_index_list :: "json \<Rightarrow> bool" where
  "gpu_index_list v \<longleftrightarrow> is_list v \<and> json_items v \<noteq> [] \<and> list_all nonneg_index (json_items v)"

text \<open>
  \<open>int(text, 16)\<close> returns for blanks around a sign, a prefix and digits with single
  underscores between them.
\<close>

definition hex_char :: "char \<Rightarrow> bool" where
  "hex_char c \<longleftrightarrow> (let n = of_char c :: nat in
     48 \<le> n \<and> n \<le> 57 \<or> 65 \<le> n \<and> n \<le> 70 \<or> 97 \<le> n \<and> n \<le> 102)"

fun hex_groups :: "string \<Rightarrow> bool" where
  "hex_groups [] = False"
| "hex_groups [c] = hex_char c"
| "hex_groups (c # d # cs) =
     (hex_char c \<and> (if d = CHR ''_'' then hex_groups cs else hex_groups (d # cs)))"

definition int16_text :: "string \<Rightarrow> bool" where
  "int16_text s =
     (let t = py_strip s;
          t = (case t of c # cs \<Rightarrow> if c \<in> {CHR ''+'', CHR ''-''} then cs else t | [] \<Rightarrow> t)
      in case t of
           z # x # cs \<Rightarrow>
             if z = CHR ''0'' \<and> x \<in> {CHR ''x'', CHR ''X''}
             then (case cs of u # ds \<Rightarrow> if u = CHR ''_'' then hex_groups ds else hex_groups cs | [] \<Rightarrow> False)
             else hex_groups t
         | _ \<Rightarrow> hex_groups t)"

definition sha256_field :: "json \<Rightarrow> string \<Rightarrow> unit result" where
  "sha256_field value loc =
     (case value of
        JStr s \<Rightarrow> if length s = 64 \<and> int16_text s then Inr () else Inl (RuntimeError (loc @ '' must be a SHA-256 hex digest''))
      | _ \<Rightarrow> Inl (RuntimeError (loc @ '' must be a SHA-256 hex digest'')))"

text \<open>A check that raises a \<open>RuntimeError\<close>.\<close>

definition ensure :: "bool \<Rightarrow> string \<Rightarrow> unit result" where
  "ensure b message = (if b then Inr () else Inl (RuntimeError message))"

definition admission_scope_ok :: "json \<Rightarrow> json list \<Rightarrow> bool" where
  "admission_scope_ok allowed gpu_ids \<longleftrightarrow> allowed = JNull \<or>
     gpu_index_list allowed \<and> distinct (json_items allowed) \<and> set gpu_ids \<subseteq> set (json_items allowed)"

definition env_keys_ok :: "json \<Rightarrow> bool" where
  "env_keys_ok v \<longleftrightarrow> is_list v \<and> list_all is_str (json_items v)"

definition admission_body :: "jdict \<Rightarrow> jdict" where
  "admission_body d = filter (\<lambda>(k, v). k \<noteq> ''receipt_sha256'') d"

definition validate_admission :: "py_env \<Rightarrow> json \<Rightarrow> jdict result" where
  "validate_admission env value =
     (case value of
        JObj d \<Rightarrow>
     rbind (ensure (list_all (\<lambda>k. dict_has k d) ADMISSION_FIELDS \<and>
              list_all (\<lambda>k. k \<in> set ADMISSION_FIELDS \<or> k = ''allowed_gpu_ids'') (dict_keys d) \<and>
              py_eq (dget ''schema'' d) (JStr BROKER_ADMISSION_SCHEMA)) ''invalid broker admission receipt'') (\<lambda>_.
     rbind (ensure (py_eq (dget ''mode'' d) (JStr ''exclusive'')) ''service broker admission must be exclusive'') (\<lambda>_.
     rbind (rtraverse (\<lambda>k. ensure (nonempty_str (dget k d)) (''broker admission '' @ k @ '' must be non-empty text''))
              ADMISSION_TEXTS) (\<lambda>_.
     rbind (rtraverse (\<lambda>k. ensure (positive_json_int (dget k d)) (''broker admission '' @ k @ '' must be positive''))
              [''gpu_count'', ''argv_count'']) (\<lambda>_.
     rbind (ensure (path_is_absolute (str_of_json (dget ''cwd'' d)) \<and>
              path_is_absolute (str_of_json (dget ''resolved_executable'' d)))
              ''broker admission paths must be absolute'') (\<lambda>_.
     let gpu_ids = json_items (dget ''gpu_ids'' d) in
     rbind (ensure (gpu_index_list (dget ''gpu_ids'' d)) ''broker admission receipt has invalid GPU ids'') (\<lambda>_.
     rbind (ensure (dget ''gpu_count'' d = JInt (int (length gpu_ids)))
              ''broker admission GPU count disagrees with allocation'') (\<lambda>_.
     rbind (ensure (distinct gpu_ids) ''broker admission GPU ids must be unique'') (\<lambda>_.
     rbind (ensure (admission_scope_ok (dget ''allowed_gpu_ids'' d) gpu_ids)
              ''broker admission allocation violates GPU scope'') (\<lambda>_.
     rbind (ensure (nonempty_str (dget ''started_at'' d)) ''broker admission receipt is not a started job'') (\<lambda>_.
     rbind (ensure (env_keys_ok (dget ''env_keys'' d)) ''broker admission receipt has invalid environment keys'') (\<lambda>_.
     let keys = map str_of_json (json_items (dget ''env_keys'' d)) in
     rbind (ensure (keys = sort (remdups keys)) ''broker admission environment keys must be unique and sorted'') (\<lambda>_.
     rbind (rtraverse (\<lambda>k. sha256_field (dget k d) (''broker admission '' @ k)) ADMISSION_DIGESTS) (\<lambda>_.
     rbind (ensure (JStr (digest_json env (JObj (admission_body d))) = dget ''receipt_sha256'' d)
              ''broker admission receipt digest disagrees with content'') (\<lambda>_.
     Inr d))))))))))))))
      | _ \<Rightarrow> Inl (RuntimeError ''invalid broker admission receipt''))"

definition file_error :: "json_file \<Rightarrow> string \<Rightarrow> string" where
  "file_error content path =
     (case content of
        FileMissing \<Rightarrow> ''[Errno 2] No such file or directory: '' @ repr_str path
      | FileMalformed e \<Rightarrow> e
      | FileParsed v \<Rightarrow> [])"

definition load_admission :: "py_env \<Rightarrow> json_file \<Rightarrow> string \<Rightarrow> jdict result" where
  "load_admission env content path =
     (case content of
        FileParsed value \<Rightarrow> validate_admission env value
      | _ \<Rightarrow> Inl (RuntimeError (''cannot load broker admission receipt '' @ path @ '': '' @ file_error content path)))"

definition query_admission :: "py_env \<Rightarrow> outside \<Rightarrow> string \<Rightarrow> string \<Rightarrow> (jdict \<times> peer) result" where
  "query_admission env out socket job =
     rbind (broker_request env out socket [(''op'', JStr ''receipt''), (''job_id'', JStr job)]) (\<lambda>(value, p).
     if dget ''ok'' value \<noteq> JBool True \<or> \<not> is_obj (dget ''receipt'' value)
     then Inl (RuntimeError (''broker has no live admission receipt for '' @ job))
     else rbind (validate_admission env (dget ''receipt'' value)) (\<lambda>d. Inr (d, p)))"

section \<open>The live job, the service and the source\<close>

definition running_job :: "jdict \<Rightarrow> string \<Rightarrow> jdict result" where
  "running_job snapshot job_id =
     (case dget ''running'' snapshot of
        JList running \<Rightarrow>
     rbind (rtraverse as_dict running) (\<lambda>jobs.
     case filter (\<lambda>job. py_eq (dget ''job_id'' job) (JStr job_id)) jobs of
       [job] \<Rightarrow>
         if \<not> py_eq (dget ''mode'' job) (JStr ''exclusive'')
         then Inl (RuntimeError ''evaluator service must hold an exclusive broker allocation'')
         else if json_items (dget ''gpu_ids'' job) = []
         then Inl (RuntimeError ''evaluator service has no broker GPU allocation'')
         else Inr job
     | _ \<Rightarrow> Inl (RuntimeError (''broker job is not uniquely running: '' @ job_id)))
      | _ \<Rightarrow> Inl (RuntimeError ''broker snapshot has no running list''))"

definition request_document :: "outside \<Rightarrow> string \<Rightarrow> jdict result" where
  "request_document out url =
     rbind (out_document out url) (\<lambda>v. case v of
       JObj d \<Rightarrow> Inr d
     | _ \<Rightarrow> Inl (RuntimeError (''service endpoint returned a non-object: '' @ url)))"

definition worker_healthy :: "json \<Rightarrow> bool" where
  "worker_healthy w \<longleftrightarrow> (case w of JObj d \<Rightarrow> dget ''healthy'' d = JBool True | _ \<Rightarrow> False)"

definition service_documents :: "py_env \<Rightarrow> outside \<Rightarrow> string \<Rightarrow> (jdict \<times> jdict) result" where
  "service_documents env out url =
     rbind (request_document out (url @ ''/health'')) (\<lambda>health.
     rbind (ensure (py_eq (dget ''status'' health) (JStr ''ok''))
              (''service health is not ok: '' @ py_repr (float_text env) (JObj health))) (\<lambda>_.
     rbind (ensure (json_items (dget ''workers'' health) \<noteq> [] \<and>
              list_all worker_healthy (json_items (dget ''workers'' health)))
              (''service has no fully healthy worker set: '' @ py_repr (float_text env) (JObj health))) (\<lambda>_.
     rbind (request_document out (url @ ''/'')) (\<lambda>page. Inr (health, page)))))"

definition broker_version_of :: "jdict \<Rightarrow> json" where
  "broker_version_of snapshot =
     (case dict_get ''broker_version'' snapshot of None \<Rightarrow> dget ''version'' snapshot | Some v \<Rightarrow> v)"

definition git_source_identity :: "py_env \<Rightarrow> outside \<Rightarrow> string \<Rightarrow> jdict result" where
  "git_source_identity env out source_root =
     (let checkout = real_path env source_root; git = out_git out checkout in
      rbind (ensure (git_is_dir git) (''service source root is not a directory: '' @ checkout)) (\<lambda>_.
      rbind (git_commit git) (\<lambda>commit.
      rbind (git_tree git) (\<lambda>tree.
      rbind (git_status git) (\<lambda>changes.
      rbind (ensure (changes = []) (''service source checkout is dirty: '' @ checkout)) (\<lambda>_.
      Inr [(''source_root'', JStr checkout), (''source_commit'', JStr commit), (''source_tree'', JStr tree),
           (''source_dirty'', JBool False)]))))))"

definition JOB_KEYS :: "string list" where
  "JOB_KEYS = [''job_id'', ''submitted_at'', ''started_at'', ''owner'', ''label'', ''mode'', ''gpu_count'', ''gpu_ids'']"

definition check_live_job :: "jdict \<Rightarrow> jdict \<Rightarrow> jdict \<Rightarrow> peer \<Rightarrow> unit result" where
  "check_live_job admission snapshot job p =
     rbind (ensure (py_eq (dget ''broker_version'' admission) (broker_version_of snapshot))
              ''broker admission version disagrees with live broker'') (\<lambda>_.
     rbind (ensure (py_eq (dget ''broker_instance_id'' admission) (dget ''instance_id'' snapshot))
              ''broker admission instance disagrees with live broker'') (\<lambda>_.
     rbind (rtraverse (\<lambda>k. ensure (py_eq (peer_field k p) (dget (''_kernelinfra_peer_'' @ k) snapshot))
              (''broker admission peer disagrees with status peer: '' @ k)) PEER_KEYS) (\<lambda>_.
     rbind (rtraverse (\<lambda>k. ensure (py_eq (dget k admission) (dget k job))
              (''broker admission disagrees with live job: '' @ k)) JOB_KEYS) (\<lambda>_. Inr ()))))"

section \<open>The deployment receipt\<close>

definition DEPLOYMENT_SCHEMA :: string where
  "DEPLOYMENT_SCHEMA = ''kernelinfra.service-deployment.v2''"

definition identity_binds :: "string \<Rightarrow> string \<Rightarrow> bool" where
  "identity_binds identity part \<longleftrightarrow> is_substring part identity"

definition deployment_document ::
  "py_env \<Rightarrow> string \<Rightarrow> string \<Rightarrow> string \<Rightarrow> string \<Rightarrow> string \<Rightarrow> jdict \<Rightarrow> jdict \<Rightarrow> jdict \<Rightarrow> jdict \<Rightarrow> jdict \<Rightarrow> jdict \<Rightarrow> jdict" where
  "deployment_document env now url identity socket job_id page health admission source snapshot job =
     [(''schema'', JStr DEPLOYMENT_SCHEMA), (''attested_at'', JStr now), (''service_url'', JStr url),
      (''service_identity'', JStr identity), (''service_root'', JObj page), (''service_health'', JObj health),
      (''broker_admission_receipt'', JObj admission)] @ source @
     [(''broker_socket'', JStr (real_path env socket)), (''broker_version'', broker_version_of snapshot),
      (''broker_instance_id'', dget ''instance_id'' snapshot),
      (''broker_peer_pid'', dget ''_kernelinfra_peer_pid'' snapshot),
      (''broker_peer_uid'', dget ''_kernelinfra_peer_uid'' snapshot),
      (''broker_peer_gid'', dget ''_kernelinfra_peer_gid'' snapshot),
      (''broker_job_id'', JStr job_id), (''broker_job_submitted_at'', dget ''submitted_at'' job),
      (''broker_job_started_at'', dget ''started_at'' job), (''broker_label'', dget ''label'' job),
      (''broker_owner'', dget ''owner'' job), (''broker_mode'', dget ''mode'' job),
      (''broker_gpu_ids'', dget ''gpu_ids'' job)]"

definition root_commit_ok :: "jdict \<Rightarrow> string \<Rightarrow> bool" where
  "root_commit_ok page identity \<longleftrightarrow>
     (case dget ''commit'' page of JStr commit \<Rightarrow> commit = [] \<or> identity_binds identity commit | _ \<Rightarrow> True)"

definition build_service_receipt ::
  "py_env \<Rightarrow> outside \<Rightarrow> string \<Rightarrow> string \<Rightarrow> string \<Rightarrow> json_file \<Rightarrow> string \<Rightarrow> string \<Rightarrow> string \<Rightarrow> string \<Rightarrow> jdict result" where
  "build_service_receipt env out now socket job_id admission_file admission_path service_url identity source_root =
     (if job_id = [] then Inl (ValueError ''broker job id is required'')
      else if identity = [] then Inl (ValueError ''service identity is required'')
      else
     rbind (normalize_loopback_url env service_url) (\<lambda>url.
     rbind (query_broker env out socket) (\<lambda>snapshot.
     rbind (running_job snapshot job_id) (\<lambda>job.
     rbind (load_admission env admission_file (real_path env admission_path)) (\<lambda>admission.
     rbind (query_admission env out socket job_id) (\<lambda>(live, p).
     rbind (ensure (py_eq (JObj live) (JObj admission))
              ''saved broker admission receipt differs from live broker'') (\<lambda>_.
     rbind (check_live_job admission snapshot job p) (\<lambda>_.
     rbind (rtraverse (\<lambda>k. ensure (identity_binds identity (py_str (float_text env) (dget k admission)))
              (''service identity does not bind broker admission '' @ k))
              [''launch_spec_sha256'', ''executable_sha256'']) (\<lambda>_.
     rbind (service_documents env out url) (\<lambda>(health, page).
     rbind (git_source_identity env out source_root) (\<lambda>source.
     rbind (ensure (identity_binds identity (str_of_json (dget ''source_commit'' source)))
              ''service identity does not bind the attested source commit'') (\<lambda>_.
     rbind (ensure (root_commit_ok page identity)
              ''service identity does not bind the reported service commit'') (\<lambda>_.
     Inr (deployment_document env now url identity socket job_id page health admission source snapshot job))))))))))))))"

definition RECEIPT_FIELDS :: "string list" where
  "RECEIPT_FIELDS = [''schema'', ''attested_at'', ''service_url'', ''service_identity'', ''service_root'',
     ''service_health'', ''broker_admission_receipt'', ''source_root'', ''source_commit'', ''source_tree'',
     ''source_dirty'', ''broker_socket'', ''broker_version'', ''broker_instance_id'', ''broker_peer_pid'',
     ''broker_peer_uid'', ''broker_peer_gid'', ''broker_job_id'', ''broker_job_submitted_at'',
     ''broker_job_started_at'', ''broker_label'', ''broker_owner'', ''broker_mode'', ''broker_gpu_ids'']"

definition same_keys :: "jdict \<Rightarrow> string list \<Rightarrow> bool" where
  "same_keys d names \<longleftrightarrow> list_all (\<lambda>k. k \<in> set names) (dict_keys d) \<and> list_all (\<lambda>k. dict_has k d) names"

definition load_service_receipt :: "py_env \<Rightarrow> json_file \<Rightarrow> string \<Rightarrow> jdict result" where
  "load_service_receipt env content path =
     (case content of
        FileParsed value \<Rightarrow>
     (case value of
        JObj d \<Rightarrow>
     rbind (ensure (same_keys d RECEIPT_FIELDS \<and> py_eq (dget ''schema'' d) (JStr DEPLOYMENT_SCHEMA))
              ''invalid service deployment receipt'') (\<lambda>_.
     rbind (ensure (dget ''source_dirty'' d = JBool False)
              ''service deployment receipt has a dirty source checkout'') (\<lambda>_.
     rbind (validate_admission env (dget ''broker_admission_receipt'' d)) (\<lambda>admission.
     rbind (normalize_loopback_url env (py_str (float_text env) (dget ''service_url'' d))) (\<lambda>_.
     Inr (dict_set ''broker_admission_receipt'' (JObj admission) d)))))
      | _ \<Rightarrow> Inl (RuntimeError ''invalid service deployment receipt''))
      | _ \<Rightarrow> Inl (RuntimeError (''cannot load deployment receipt '' @ path @ '': '' @ file_error content path)))"

definition RECEIPT_JOB_KEYS :: "(string \<times> string) list" where
  "RECEIPT_JOB_KEYS = [(''broker_job_submitted_at'', ''submitted_at''), (''broker_job_started_at'', ''started_at''),
     (''broker_label'', ''label''), (''broker_owner'', ''owner''), (''broker_mode'', ''mode''),
     (''broker_gpu_ids'', ''gpu_ids'')]"

text \<open>The verification is applied to receipts that have every field: \<open>receipt[k]\<close> does not raise.\<close>

definition verify_service_receipt :: "py_env \<Rightarrow> outside \<Rightarrow> jdict \<Rightarrow> jdict result" where
  "verify_service_receipt env out receipt =
     (let str = py_str (float_text env) in
     rbind (git_source_identity env out (str (dget ''source_root'' receipt))) (\<lambda>source.
     rbind (rtraverse (\<lambda>k. ensure (py_eq (dget k source) (dget k receipt))
              (''service source identity changed after attestation: '' @ k))
              [''source_root'', ''source_commit'', ''source_tree'', ''source_dirty'']) (\<lambda>_.
     rbind (query_broker env out (str (dget ''broker_socket'' receipt))) (\<lambda>snapshot.
     rbind (ensure (py_eq (dget ''instance_id'' snapshot) (dget ''broker_instance_id'' receipt))
              ''broker instance changed after deployment attestation'') (\<lambda>_.
     rbind (ensure (py_eq (broker_version_of snapshot) (dget ''broker_version'' receipt))
              ''broker version changed after deployment attestation'') (\<lambda>_.
     rbind (rtraverse (\<lambda>k. ensure (py_eq (dget (''_kernelinfra_peer_'' @ k) snapshot) (dget (''broker_peer_'' @ k) receipt))
              (''broker peer changed after deployment attestation: '' @ k)) PEER_KEYS) (\<lambda>_.
     rbind (running_job snapshot (str (dget ''broker_job_id'' receipt))) (\<lambda>job.
     rbind (query_admission env out (str (dget ''broker_socket'' receipt)) (str (dget ''broker_job_id'' receipt)))
       (\<lambda>(live, p).
     rbind (ensure (py_eq (JObj live) (dget ''broker_admission_receipt'' receipt))
              ''broker admission receipt changed after attestation'') (\<lambda>_.
     rbind (check_live_job live snapshot job p) (\<lambda>_.
     rbind (rtraverse (\<lambda>(rk, jk). ensure (py_eq (dget rk receipt) (dget jk job))
              (''broker deployment field changed: '' @ rk)) RECEIPT_JOB_KEYS) (\<lambda>_.
     rbind (service_documents env out (str (dget ''service_url'' receipt))) (\<lambda>(health, page).
     rbind (ensure (py_eq (JObj page) (dget ''service_root'' receipt))
              ''service root identity changed after attestation'') (\<lambda>_.
     Inr [(''broker'', JObj snapshot), (''job'', JObj job), (''admission'', JObj live),
          (''health'', JObj health), (''root'', JObj page)]))))))))))))))"

end
