(* ===== verification/Attestation_Facts.thy ===== *)
theory Attestation_Facts
  imports Attestation
begin

text \<open>
  What an accepted admission receipt says, that a deployment receipt verifies against the
  world it was built in, and what a verified one says about the live broker.
\<close>

section \<open>Accepted admissions\<close>

lemma ensure_Inr [simp]: "ensure b m = Inr u \<longleftrightarrow> b"
  by (simp add: ensure_def)

lemma ensure_Inl [simp]: "ensure b m = Inl e \<longleftrightarrow> \<not> b \<and> e = RuntimeError m"
  by (auto simp: ensure_def)

lemma rtraverse_ensure: "rtraverse (\<lambda>k. ensure (P k) (m k)) ks = Inr us \<Longrightarrow> k \<in> set ks \<Longrightarrow> P k"
  by (induction ks arbitrary: us) auto

lemma rtraverse_ensure_ex: "(\<exists>us. rtraverse (\<lambda>k. ensure (P k) (m k)) ks = Inr us) \<longleftrightarrow> (\<forall>k \<in> set ks. P k)"
  by (induction ks) auto

definition sound_admission :: "py_env \<Rightarrow> jdict \<Rightarrow> bool" where
  "sound_admission env d \<longleftrightarrow>
     dget ''mode'' d = JStr ''exclusive'' \<and> (\<forall>k \<in> set ADMISSION_TEXTS. nonempty_str (dget k d)) \<and>
     gpu_index_list (dget ''gpu_ids'' d) \<and> distinct (json_items (dget ''gpu_ids'' d)) \<and>
     dget ''gpu_count'' d = JInt (int (length (json_items (dget ''gpu_ids'' d)))) \<and>
     admission_scope_ok (dget ''allowed_gpu_ids'' d) (json_items (dget ''gpu_ids'' d)) \<and>
     path_is_absolute (str_of_json (dget ''cwd'' d)) \<and> path_is_absolute (str_of_json (dget ''resolved_executable'' d)) \<and>
     dget ''receipt_sha256'' d = JStr (digest_json env (JObj (admission_body d)))"

lemma validate_admission_Inr:
  assumes "validate_admission env v = Inr d"
  shows "v = JObj d" and "sound_admission env d"
proof -
  from assms obtain e where v: "v = JObj e" by (auto simp: validate_admission_def split: json.splits)
  from assms [unfolded validate_admission_def v json.case Let_def rbind_eq_Inr_iff] obtain us where
    c: "py_eq (dget ''mode'' e) (JStr ''exclusive'')"
       "rtraverse (\<lambda>k. ensure (nonempty_str (dget k e)) (''broker admission '' @ k @ '' must be non-empty text''))
          ADMISSION_TEXTS = Inr us"
       "path_is_absolute (str_of_json (dget ''cwd'' e)) \<and> path_is_absolute (str_of_json (dget ''resolved_executable'' e))"
       "gpu_index_list (dget ''gpu_ids'' e)"
       "dget ''gpu_count'' e = JInt (int (length (json_items (dget ''gpu_ids'' e))))"
       "distinct (json_items (dget ''gpu_ids'' e))"
       "admission_scope_ok (dget ''allowed_gpu_ids'' e) (json_items (dget ''gpu_ids'' e))"
       "JStr (digest_json env (JObj (admission_body e))) = dget ''receipt_sha256'' e" "d = e"
    by (auto simp only: ensure_Inr sum.inject)
  show "v = JObj d" using v c(9) by simp
  show "sound_admission env d"
    unfolding sound_admission_def c(9)
    using c(1,3-8) rtraverse_ensure [OF c(2)] by (simp add: ADMISSION_TEXTS_def)
qed

lemma load_admission_Inr:
  "load_admission env content path = Inr d \<Longrightarrow> content = FileParsed (JObj d) \<and> sound_admission env d"
  by (auto simp: load_admission_def split: json_file.splits dest: validate_admission_Inr)

lemma query_admission_Inr: "query_admission env out socket job = Inr (d, p) \<Longrightarrow> sound_admission env d"
  by (auto simp: query_admission_def dest: validate_admission_Inr(2))

section \<open>Live jobs\<close>

definition live_job :: "jdict \<Rightarrow> string \<Rightarrow> jdict \<Rightarrow> bool" where
  "live_job snapshot job_id job \<longleftrightarrow>
     (\<exists>before later. dget ''running'' snapshot = JList (map JObj (before @ job # later)) \<and>
        dget ''job_id'' job = JStr job_id \<and>
        (\<forall>j \<in> set before \<union> set later. dget ''job_id'' j \<noteq> JStr job_id)) \<and>
     dget ''mode'' job = JStr ''exclusive'' \<and> json_items (dget ''gpu_ids'' job) \<noteq> []"

lemma rtraverse_as_dict: "rtraverse as_dict vs = Inr ds \<Longrightarrow> vs = map JObj ds"
proof (induction vs arbitrary: ds)
  case (Cons v vs)
  then show ?case by (auto simp: as_dict_def split: json.splits)
qed simp

lemma filter_eq_single:
  "filter P xs = [y] \<Longrightarrow> \<exists>us vs. xs = us @ y # vs \<and> P y \<and> (\<forall>x \<in> set us \<union> set vs. \<not> P x)"
proof -
  assume f: "filter P xs = [y]"
  then obtain us vs where "xs = us @ y # vs" "\<forall>u \<in> set us. \<not> P u" "P y" "filter P vs = []"
    by (auto simp: filter_eq_Cons_iff)
  then show ?thesis by (intro exI [of _ us] exI [of _ vs]) (auto simp: filter_empty_conv)
qed

lemma case_single_eq_Inr_iff [simp]:
  "(case xs of [x] \<Rightarrow> f x | _ \<Rightarrow> Inl e) = Inr z \<longleftrightarrow> (\<exists>x. xs = [x] \<and> f x = Inr z)"
  by (auto split: list.splits)

lemma running_job_Inr: "running_job snapshot job_id = Inr job \<Longrightarrow> live_job snapshot job_id job"
proof -
  assume r: "running_job snapshot job_id = Inr job"
  then obtain running jobs where jobs: "dget ''running'' snapshot = JList running" "rtraverse as_dict running = Inr jobs"
    "filter (\<lambda>job. py_eq (dget ''job_id'' job) (JStr job_id)) jobs = [job]"
    "dget ''mode'' job = JStr ''exclusive''" "json_items (dget ''gpu_ids'' job) \<noteq> []"
    by (auto simp: running_job_def)
  obtain us vs where split: "jobs = us @ job # vs" "dget ''job_id'' job = JStr job_id"
    "\<forall>j \<in> set us \<union> set vs. dget ''job_id'' j \<noteq> JStr job_id"
    using filter_eq_single [OF jobs(3)] by auto
  have "dget ''running'' snapshot = JList (map JObj (us @ job # vs))"
    using jobs(1) rtraverse_as_dict [OF jobs(2)] split(1) by simp
  with split(2,3) jobs(4,5) show ?thesis unfolding live_job_def by blast
qed

section \<open>A deployment receipt verifies where it was built\<close>

definition settled_path :: "py_env \<Rightarrow> string \<Rightarrow> bool" where
  "settled_path env p \<longleftrightarrow> real_path env p = p"

lemmas receipt_lookups = deployment_document_def dget_def dict_get_def

lemma source_identity_Inr:
  assumes "git_source_identity env out r = Inr source"
  shows "\<exists>commit tree. source = [(''source_root'', JStr (real_path env r)), (''source_commit'', JStr commit),
      (''source_tree'', JStr tree), (''source_dirty'', JBool False)]"
    and "settled_path env (real_path env r) \<Longrightarrow> git_source_identity env out (real_path env r) = Inr source"
  using assms by (auto simp: git_source_identity_def Let_def settled_path_def)

lemma ensure_True [simp]: "ensure True m = Inr ()"
  by (simp add: ensure_def)

lemma py_eq_JObj [simp]: "py_eq (JObj d) (JObj d)"
  by (rule py_eq_refl) simp

lemma rtraverse_ensure_all:
  "(\<And>k. k \<in> set ks \<Longrightarrow> P k) \<Longrightarrow> \<exists>us. rtraverse (\<lambda>k. ensure (P k) (m k)) ks = Inr us"
  by (simp add: rtraverse_ensure_ex)

lemma normalize_idem: "normalize_loopback_url env v = Inr url \<Longrightarrow> normalize_loopback_url env url = Inr url"
proof -
  assume n: "normalize_loopback_url env v = Inr url"
  then have "url = py_rstrip_char CHR ''/'' v" by (rule normalize_loopback_url_Inr(1))
  then have "py_rstrip_char CHR ''/'' url = url" by (simp add: py_rstrip_char_def)
  with n \<open>url = py_rstrip_char CHR ''/'' v\<close> show ?thesis by (simp add: normalize_loopback_url_def Let_def)
qed

lemma build_receipt_Inr:
  assumes "build_service_receipt env out now socket job_id file path service_url identity source_root = Inr r"
  obtains url snapshot job admission live p health page source where
    "normalize_loopback_url env service_url = Inr url" "query_broker env out socket = Inr snapshot"
    "running_job snapshot job_id = Inr job" "load_admission env file (real_path env path) = Inr admission"
    "query_admission env out socket job_id = Inr (live, p)" "py_eq (JObj live) (JObj admission)"
    "check_live_job admission snapshot job p = Inr ()" "service_documents env out url = Inr (health, page)"
    "git_source_identity env out source_root = Inr source"
    "identity_binds identity (str_of_json (dget ''source_commit'' source))"
    "\<forall>k \<in> {''launch_spec_sha256'', ''executable_sha256''}. identity_binds identity (py_str (float_text env) (dget k admission))"
    "r = deployment_document env now url identity socket job_id page health admission source snapshot job"
proof -
  from assms [unfolded build_service_receipt_def if_Inl_eq_Inr_iff rbind_eq_Inr_iff]
  obtain url snapshot job admission lp us where b:
    "normalize_loopback_url env service_url = Inr url" "query_broker env out socket = Inr snapshot"
    "running_job snapshot job_id = Inr job" "load_admission env file (real_path env path) = Inr admission"
    "query_admission env out socket job_id = Inr lp"
    "(case lp of (live, p) \<Rightarrow>
     rbind (ensure (py_eq (JObj live) (JObj admission))
              ''saved broker admission receipt differs from live broker'') (\<lambda>_.
     rbind (check_live_job admission snapshot job p) (\<lambda>_.
     rbind (rtraverse (\<lambda>k. ensure (identity_binds identity (py_str (float_text env) (dget k admission)))
              (''service identity does not bind broker admission '' @ k))
              [''launch_spec_sha256'', ''executable_sha256'']) (\<lambda>_.
     rbind (service_documents env out url) (\<lambda>(health, root).
     rbind (git_source_identity env out source_root) (\<lambda>source.
     rbind (ensure (identity_binds identity (str_of_json (dget ''source_commit'' source)))
              ''service identity does not bind the attested source commit'') (\<lambda>_.
     rbind (ensure (root_commit_ok root identity)
              ''service identity does not bind the reported service commit'') (\<lambda>_.
     Inr (deployment_document env now url identity socket job_id root health admission source snapshot job))))))))) = Inr r"
    by blast
  obtain live p where lp: "lp = (live, p)" by (cases lp)
  from b(6) obtain health page source where
    "py_eq (JObj live) (JObj admission)" "check_live_job admission snapshot job p = Inr ()"
    "service_documents env out url = Inr (health, page)" "git_source_identity env out source_root = Inr source"
    "identity_binds identity (str_of_json (dget ''source_commit'' source))"
    "identity_binds identity (py_str (float_text env) (dget ''launch_spec_sha256'' admission))"
    "identity_binds identity (py_str (float_text env) (dget ''executable_sha256'' admission))"
    "r = deployment_document env now url identity socket job_id page health admission source snapshot job"
    by (auto simp: lp)
  with b(1-5) lp that show ?thesis by blast
qed

text \<open>Equal dictionaries have equal entries.\<close>

lemma map_of_sort_key: "map_of (sort_key fst xs) k = map_of xs k"
proof -
  have hd_filter: "map_of ys k = (case filter (\<lambda>p. fst p = k) ys of [] \<Rightarrow> None | p # ps \<Rightarrow> Some (snd p))" for ys
    by (induction ys) auto
  have "filter (\<lambda>p. fst p = k) (sort_key fst xs) = filter (\<lambda>p. fst p = k) xs"
    using sort_key_stable [of fst k xs] by (simp add: eq_commute)
  then show ?thesis by (simp add: hd_filter)
qed

lemma py_norm_dget: "py_norm (JObj a) = py_norm (JObj b) \<Longrightarrow> py_norm (dget k a) = py_norm (dget k b)"
proof -
  assume "py_norm (JObj a) = py_norm (JObj b)"
  then have "sort_key fst (map (map_prod id py_norm) a) = sort_key fst (map (map_prod id py_norm) b)" by simp
  then have "map_of (map (map_prod id py_norm) a) k = map_of (map (map_prod id py_norm) b) k"
    using map_of_sort_key [of "map (map_prod id py_norm) a" k] map_of_sort_key [of "map (map_prod id py_norm) b" k] by simp
  moreover have "map_of (map (map_prod id py_norm) d) k = map_option py_norm (dict_get k d)" for d
    by (induction d) auto
  ultimately show ?thesis by (auto simp: dget_def split: option.splits)
qed

lemma py_eq_dget:
  assumes "py_eq (JObj a) (JObj b)" and "py_eq (dget k b) x"
  shows "py_eq (dget k a) x"
proof -
  have "py_norm (dget k a) = py_norm (dget k b)"
    by (rule py_norm_dget) (use assms(1) in \<open>simp only: py_eq_def\<close>)
  then have "dget k a = JFloat NaN \<longleftrightarrow> dget k b = JFloat NaN"
    using py_norm_eq_NaN [of "dget k a"] py_norm_eq_NaN [of "dget k b"] by simp
  with \<open>py_norm (dget k a) = py_norm (dget k b)\<close> show ?thesis using assms(2) by (simp add: py_eq_def)
qed

lemma check_live_job_eq:
  assumes "py_eq (JObj live) (JObj admission)" and "check_live_job admission snapshot job p = Inr ()"
  shows "check_live_job live snapshot job p = Inr ()"
proof -
  from assms(2) obtain us vs where c:
    "py_eq (dget ''broker_version'' admission) (broker_version_of snapshot)"
    "py_eq (dget ''broker_instance_id'' admission) (dget ''instance_id'' snapshot)"
    "rtraverse (\<lambda>k. ensure (py_eq (peer_field k p) (dget (''_kernelinfra_peer_'' @ k) snapshot))
              (''broker admission peer disagrees with status peer: '' @ k)) PEER_KEYS = Inr us"
    "rtraverse (\<lambda>k. ensure (py_eq (dget k admission) (dget k job))
              (''broker admission disagrees with live job: '' @ k)) JOB_KEYS = Inr vs"
    by (auto simp: check_live_job_def)
  have "\<exists>ws. rtraverse (\<lambda>k. ensure (py_eq (dget k live) (dget k job))
              (''broker admission disagrees with live job: '' @ k)) JOB_KEYS = Inr ws"
    by (rule rtraverse_ensure_all) (rule py_eq_dget [OF assms(1) rtraverse_ensure [OF c(4)]])
  then show ?thesis
    using py_eq_dget [OF assms(1) c(1)] py_eq_dget [OF assms(1) c(2)] c(3) by (auto simp: check_live_job_def)
qed

lemma settled_request:
  "settled_path env (real_path env p) \<Longrightarrow> broker_request env out (real_path env p) q = broker_request env out p q"
  by (simp add: broker_request_def settled_path_def)

text \<open>The fields of the receipt that the verification reads, when none is a NaN.\<close>

definition readable_job :: "jdict \<Rightarrow> jdict \<Rightarrow> bool" where
  "readable_job snapshot job \<longleftrightarrow>
     (\<forall>k \<in> {''submitted_at'', ''started_at'', ''label'', ''owner'', ''mode'', ''gpu_ids''}. dget k job \<noteq> JFloat NaN) \<and>
     dget ''instance_id'' snapshot \<noteq> JFloat NaN \<and> broker_version_of snapshot \<noteq> JFloat NaN \<and>
     (\<forall>k \<in> set PEER_KEYS. dget (''_kernelinfra_peer_'' @ k) snapshot \<noteq> JFloat NaN)"

lemma checked_readable:
  assumes "check_live_job admission snapshot job p = Inr ()"
  shows "readable_job snapshot job"
proof -
  have nan: "py_eq a b \<Longrightarrow> b \<noteq> JFloat NaN" for a b by (metis py_eq_def py_norm_eq_NaN)
  from assms obtain us vs where c:
    "py_eq (dget ''broker_version'' admission) (broker_version_of snapshot)"
    "py_eq (dget ''broker_instance_id'' admission) (dget ''instance_id'' snapshot)"
    "rtraverse (\<lambda>k. ensure (py_eq (peer_field k p) (dget (''_kernelinfra_peer_'' @ k) snapshot))
              (''broker admission peer disagrees with status peer: '' @ k)) PEER_KEYS = Inr us"
    "rtraverse (\<lambda>k. ensure (py_eq (dget k admission) (dget k job))
              (''broker admission disagrees with live job: '' @ k)) JOB_KEYS = Inr vs"
    by (auto simp: check_live_job_def)
  have "dget k job \<noteq> JFloat NaN" if "k \<in> set JOB_KEYS" for k
    using nan [OF rtraverse_ensure [OF c(4) that]] .
  moreover have "dget (''_kernelinfra_peer_'' @ k) snapshot \<noteq> JFloat NaN" if "k \<in> set PEER_KEYS" for k
    using nan [OF rtraverse_ensure [OF c(3) that]] .
  ultimately show ?thesis using nan [OF c(1)] nan [OF c(2)] by (auto simp: readable_job_def JOB_KEYS_def)
qed

lemma document_fields:
  assumes "source = [(''source_root'', JStr sr), (''source_commit'', JStr commit), (''source_tree'', JStr tree),
      (''source_dirty'', JBool False)]"
    and "r = deployment_document env now url identity socket job_id page health admission source snapshot job"
  shows "dget ''source_root'' r = JStr sr" "dget ''source_commit'' r = JStr commit" "dget ''source_tree'' r = JStr tree"
    "dget ''source_dirty'' r = JBool False" "dget ''broker_socket'' r = JStr (real_path env socket)"
    "dget ''broker_instance_id'' r = dget ''instance_id'' snapshot" "dget ''broker_version'' r = broker_version_of snapshot"
    "dget ''broker_job_id'' r = JStr job_id" "dget ''broker_admission_receipt'' r = JObj admission"
    "dget ''service_url'' r = JStr url" "dget ''service_root'' r = JObj page" "dget ''schema'' r = JStr DEPLOYMENT_SCHEMA"
    "dget ''broker_peer_pid'' r = dget ''_kernelinfra_peer_pid'' snapshot"
    "dget ''broker_peer_uid'' r = dget ''_kernelinfra_peer_uid'' snapshot"
    "dget ''broker_peer_gid'' r = dget ''_kernelinfra_peer_gid'' snapshot"
    "dget ''broker_job_submitted_at'' r = dget ''submitted_at'' job" "dget ''broker_job_started_at'' r = dget ''started_at'' job"
    "dget ''broker_label'' r = dget ''label'' job" "dget ''broker_owner'' r = dget ''owner'' job"
    "dget ''broker_mode'' r = dget ''mode'' job" "dget ''broker_gpu_ids'' r = dget ''gpu_ids'' job"
    "dget ''service_identity'' r = JStr identity"
  unfolding assms deployment_document_def by (simp_all add: dget_def)

lemma dict_set_same: "dict_get k d = Some v \<Longrightarrow> dict_set k v d = d"
  by (simp add: dict_set_def dict_get_def AList.update_triv)

lemma document_keys:
  assumes "source = [(''source_root'', JStr sr), (''source_commit'', JStr commit), (''source_tree'', JStr tree),
      (''source_dirty'', JBool False)]"
  shows "dict_keys (deployment_document env now url identity socket job_id page health admission source snapshot job) =
     RECEIPT_FIELDS"
  unfolding assms deployment_document_def RECEIPT_FIELDS_def by (simp add: dict_keys_def)

lemma same_keys_self: "dict_keys d = names \<Longrightarrow> same_keys d names"
  by (auto simp: same_keys_def list_all_iff dict_has_def dict_keys_def)

lemma built_receipt_loads:
  assumes "build_service_receipt env out now socket job_id content path service_url identity source_root = Inr r"
  shows "load_service_receipt env (FileParsed (JObj r)) p = Inr r"
  using assms
proof (rule build_receipt_Inr)
  fix url snapshot job admission live q health page source
  assume url: "normalize_loopback_url env service_url = Inr url"
    and adm: "load_admission env content (real_path env path) = Inr admission"
    and src: "git_source_identity env out source_root = Inr source"
    and r: "r = deployment_document env now url identity socket job_id page health admission source snapshot job"
  from source_identity_Inr(1) [OF src] obtain commit tree where
    s: "source = [(''source_root'', JStr (real_path env source_root)), (''source_commit'', JStr commit),
      (''source_tree'', JStr tree), (''source_dirty'', JBool False)]" by blast
  note f = document_fields [OF s r]
  have keys: "same_keys r RECEIPT_FIELDS" unfolding r by (rule same_keys_self [OF document_keys [OF s]])
  have "validate_admission env (JObj admission) = Inr admission"
    using adm load_admission_Inr [OF adm] by (simp add: load_admission_def)
  moreover have "dict_get ''broker_admission_receipt'' r = Some (JObj admission)"
    using f(9) by (simp add: dget_def split: option.splits)
  moreover have "py_str (float_text env) (JStr url) = url" by (simp add: py_str_def)
  ultimately show ?thesis
    using keys normalize_idem [OF url] by (simp add: load_service_receipt_def f dict_set_same)
qed

lemma document_peers:
  assumes "source = [(''source_root'', JStr sr), (''source_commit'', JStr commit), (''source_tree'', JStr tree),
      (''source_dirty'', JBool False)]"
    and "r = deployment_document env now url identity socket job_id page health admission source snapshot job"
    and "k \<in> set PEER_KEYS"
  shows "dget (''broker_peer_'' @ k) r = dget (''_kernelinfra_peer_'' @ k) snapshot"
  using document_fields [OF assms(1,2)] assms(3) by (auto simp: PEER_KEYS_def)

lemma document_job:
  assumes "source = [(''source_root'', JStr sr), (''source_commit'', JStr commit), (''source_tree'', JStr tree),
      (''source_dirty'', JBool False)]"
    and "r = deployment_document env now url identity socket job_id page health admission source snapshot job"
    and "(rk, jk) \<in> set RECEIPT_JOB_KEYS"
  shows "dget rk r = dget jk job"
  using document_fields [OF assms(1,2)] assms(3) by (auto simp: RECEIPT_JOB_KEYS_def)

lemma same_source_fields:
  assumes "source = [(''source_root'', JStr sr), (''source_commit'', JStr commit), (''source_tree'', JStr tree),
      (''source_dirty'', JBool False)]"
    and "dget ''source_root'' r = JStr sr" "dget ''source_commit'' r = JStr commit" "dget ''source_tree'' r = JStr tree"
      "dget ''source_dirty'' r = JBool False"
    and "k \<in> set [''source_root'', ''source_commit'', ''source_tree'', ''source_dirty'']"
  shows "py_eq (dget k source) (dget k r)"
proof -
  have s: "dget ''source_root'' source = JStr sr" "dget ''source_commit'' source = JStr commit"
    "dget ''source_tree'' source = JStr tree" "dget ''source_dirty'' source = JBool False"
    unfolding assms(1) by (simp_all add: dget_def)
  have refl: "py_eq (JStr t) (JStr t)" "py_eq (JBool b) (JBool b)" for t b by (simp_all add: py_eq_refl)
  from assms(6) show ?thesis unfolding list.set insert_iff empty_iff
    by (elim disjE) (simp_all only: s assms(2-5) refl HOL.simp_thms)
qed

lemma built_receipt_verifies:
  assumes "build_service_receipt env out now socket job_id content path service_url identity source_root = Inr r"
    and "settled_path env (real_path env socket)" and "settled_path env (real_path env source_root)"
  shows "\<exists>observed. verify_service_receipt env out r = Inr observed"
  using assms(1)
proof (rule build_receipt_Inr)
  fix url snapshot job admission live p health page source
  assume q: "query_broker env out socket = Inr snapshot" and run: "running_job snapshot job_id = Inr job"
    and adm: "query_admission env out socket job_id = Inr (live, p)" and eq: "py_eq (JObj live) (JObj admission)"
    and chk: "check_live_job admission snapshot job p = Inr ()"
    and doc: "service_documents env out url = Inr (health, page)"
    and src: "git_source_identity env out source_root = Inr source"
    and r: "r = deployment_document env now url identity socket job_id page health admission source snapshot job"
  from source_identity_Inr(1) [OF src] obtain commit tree where
    s: "source = [(''source_root'', JStr (real_path env source_root)), (''source_commit'', JStr commit),
      (''source_tree'', JStr tree), (''source_dirty'', JBool False)]" by blast
  note f = document_fields [OF s r] and rd = checked_readable [OF chk]
  have strs: "py_str (float_text env) (JStr t) = t" for t by (simp add: py_str_def)
  have git: "git_source_identity env out (real_path env source_root) = Inr source"
    by (rule source_identity_Inr(2) [OF src assms(3)])
  have q': "query_broker env out (real_path env socket) = Inr snapshot"
    using q by (simp add: query_broker_def settled_request [OF assms(2)])
  have adm': "query_admission env out (real_path env socket) job_id = Inr (live, p)"
    using adm by (simp add: query_admission_def settled_request [OF assms(2)])
  obtain us where same_source: "rtraverse (\<lambda>k. ensure (py_eq (dget k source) (dget k r))
              (''service source identity changed after attestation: '' @ k))
              [''source_root'', ''source_commit'', ''source_tree'', ''source_dirty''] = Inr us"
    using rtraverse_ensure_all [of _ "\<lambda>k. py_eq (dget k source) (dget k r)"
        "\<lambda>k. ''service source identity changed after attestation: '' @ k"] same_source_fields [OF s f(1-4)]
    by blast
  obtain vs where same_peer: "rtraverse (\<lambda>k. ensure (py_eq (dget (''_kernelinfra_peer_'' @ k) snapshot) (dget (''broker_peer_'' @ k) r))
              (''broker peer changed after deployment attestation: '' @ k)) PEER_KEYS = Inr vs"
  proof -
    have "py_eq (dget (''_kernelinfra_peer_'' @ k) snapshot) (dget (''broker_peer_'' @ k) r)" if "k \<in> set PEER_KEYS" for k
      using rd that unfolding document_peers [OF s r that] readable_job_def by (intro py_eq_refl) blast
    then show thesis using that
        rtraverse_ensure_all [of PEER_KEYS "\<lambda>k. py_eq (dget (''_kernelinfra_peer_'' @ k) snapshot) (dget (''broker_peer_'' @ k) r)"
        "\<lambda>k. ''broker peer changed after deployment attestation: '' @ k"] by blast
  qed
  obtain ws where same_job: "rtraverse (\<lambda>(rk, jk). ensure (py_eq (dget rk r) (dget jk job))
              (''broker deployment field changed: '' @ rk)) RECEIPT_JOB_KEYS = Inr ws"
  proof -
    have "py_eq (dget rk r) (dget jk job)" if "(rk, jk) \<in> set RECEIPT_JOB_KEYS" for rk jk
    proof -
      have "dget jk job \<noteq> JFloat NaN" using rd that by (auto simp: RECEIPT_JOB_KEYS_def readable_job_def)
      then show ?thesis using document_job [OF s r that] by (simp add: py_eq_refl)
    qed
    then have "\<exists>ws. rtraverse (\<lambda>x. ensure (py_eq (dget (fst x) r) (dget (snd x) job))
              (''broker deployment field changed: '' @ fst x)) RECEIPT_JOB_KEYS = Inr ws"
      by (intro rtraverse_ensure_all) (metis prod.collapse)
    then show thesis using that unfolding case_prod_unfold by blast
  qed
  have same: "py_eq (dget ''instance_id'' snapshot) (dget ''instance_id'' snapshot)"
    "py_eq (broker_version_of snapshot) (broker_version_of snapshot)"
    using rd by (auto simp: readable_job_def intro: py_eq_refl)
  show ?thesis
    by (simp only: verify_service_receipt_def Let_def f strs git q' adm' run eq check_live_job_eq [OF eq chk] doc
        same same_source same_peer same_job rbind.simps prod.case ensure_True py_eq_JObj) blast
qed

text \<open>The answers of the broker that the two queries read.\<close>

definition broker_status :: "py_env \<Rightarrow> outside \<Rightarrow> string \<Rightarrow> jdict \<Rightarrow> peer \<Rightarrow> bool" where
  "broker_status env out socket snapshot p \<longleftrightarrow> (\<exists>answer.
     out_broker out (real_path env socket) [(''op'', JStr ''status'')] = Inr (JObj answer, p) \<and>
     dget ''snapshot'' answer = JObj snapshot)"

definition broker_admission :: "py_env \<Rightarrow> outside \<Rightarrow> string \<Rightarrow> string \<Rightarrow> jdict \<Rightarrow> peer \<Rightarrow> bool" where
  "broker_admission env out socket job_id live p \<longleftrightarrow> (\<exists>answer.
     out_broker out (real_path env socket) [(''op'', JStr ''receipt''), (''job_id'', JStr job_id)] = Inr (JObj answer, p) \<and>
     dget ''ok'' answer = JBool True \<and> dget ''receipt'' answer = JObj live)"

lemma broker_request_Inr: "broker_request env out socket q = Inr (d, p) \<Longrightarrow> out_broker out (real_path env socket) q = Inr (JObj d, p)"
  unfolding broker_request_def rbind_eq_Inr_iff by (auto split: json.splits)

lemma query_broker_status:
  assumes "query_broker env out socket = Inr snapshot"
  shows "\<exists>base p. broker_status env out socket base p \<and> (\<forall>k. \<not> has_prefix ''_kernelinfra_peer_'' k \<longrightarrow> dict_get k snapshot = dict_get k base) \<and>
    (\<forall>k \<in> set PEER_KEYS. dget (''_kernelinfra_peer_'' @ k) snapshot = peer_field k p)"
proof -
  from assms obtain answer p base where q: "broker_request env out socket [(''op'', JStr ''status'')] = Inr (answer, p)"
    "dget ''snapshot'' answer = JObj base"
    "snapshot = dict_update base (map (\<lambda>k. (''_kernelinfra_peer_'' @ k, peer_field k p)) PEER_KEYS)"
    unfolding query_broker_def rbind_eq_Inr_iff by (auto split: json.splits)
  have "broker_status env out socket base p" using broker_request_Inr [OF q(1)] q(2) by (auto simp: broker_status_def)
  moreover have "dict_get k snapshot = dict_get k base" if "\<not> has_prefix ''_kernelinfra_peer_'' k" for k
    using that by (auto simp: q(3) PEER_KEYS_def has_prefix_def)
  moreover have "\<forall>k \<in> set PEER_KEYS. dget (''_kernelinfra_peer_'' @ k) snapshot = peer_field k p"
    by (simp add: q(3) PEER_KEYS_def dget_def)
  ultimately show ?thesis by blast
qed

lemma query_admission_answer: "query_admission env out socket job = Inr (d, p) \<Longrightarrow> broker_admission env out socket job d p"
proof -
  assume "query_admission env out socket job = Inr (d, p)"
  then obtain answer where a: "broker_request env out socket [(''op'', JStr ''receipt''), (''job_id'', JStr job)] = Inr (answer, p)"
    "dget ''ok'' answer = JBool True" "validate_admission env (dget ''receipt'' answer) = Inr d"
    unfolding query_admission_def rbind_eq_Inr_iff by (auto simp: rbind_eq_Inr_iff split: if_splits)
  from broker_request_Inr [OF a(1)] a(2) validate_admission_Inr(1) [OF a(3)] show ?thesis by (auto simp: broker_admission_def)
qed

text \<open>What a verification observed: the broker, its job and admission, the source and the service.\<close>

definition agrees_with_broker :: "jdict \<Rightarrow> jdict \<Rightarrow> peer \<Rightarrow> jdict \<Rightarrow> jdict \<Rightarrow> peer \<Rightarrow> bool" where
  "agrees_with_broker r snapshot sp job live p \<longleftrightarrow>
     py_eq (JObj live) (dget ''broker_admission_receipt'' r) \<and>
     (\<forall>k \<in> set JOB_KEYS. py_eq (dget k live) (dget k job)) \<and>
     (\<forall>(rk, jk) \<in> set RECEIPT_JOB_KEYS. py_eq (dget rk r) (dget jk job)) \<and>
     py_eq (dget ''broker_version'' live) (broker_version_of snapshot) \<and> py_eq (broker_version_of snapshot) (dget ''broker_version'' r) \<and>
     py_eq (dget ''broker_instance_id'' live) (dget ''instance_id'' snapshot) \<and>
     py_eq (dget ''instance_id'' snapshot) (dget ''broker_instance_id'' r) \<and>
     (\<forall>k \<in> set PEER_KEYS. py_eq (peer_field k p) (peer_field k sp) \<and> py_eq (peer_field k sp) (dget (''broker_peer_'' @ k) r))"

definition agrees_with_service :: "py_env \<Rightarrow> outside \<Rightarrow> jdict \<Rightarrow> bool" where
  "agrees_with_service env out r \<longleftrightarrow> (\<exists>source health page.
     git_source_identity env out (py_str (float_text env) (dget ''source_root'' r)) = Inr source \<and>
     (\<forall>k \<in> {''source_root'', ''source_commit'', ''source_tree'', ''source_dirty''}. py_eq (dget k source) (dget k r)) \<and>
     service_documents env out (py_str (float_text env) (dget ''service_url'' r)) = Inr (health, page) \<and>
     py_eq (JObj page) (dget ''service_root'' r))"

lemma verified_live:
  assumes "verify_service_receipt env out r = Inr observed"
  shows "\<exists>snapshot sp job live p.
    broker_status env out (py_str (float_text env) (dget ''broker_socket'' r)) snapshot sp \<and>
    live_job snapshot (py_str (float_text env) (dget ''broker_job_id'' r)) job \<and>
    broker_admission env out (py_str (float_text env) (dget ''broker_socket'' r))
      (py_str (float_text env) (dget ''broker_job_id'' r)) live p \<and>
    sound_admission env live \<and> agrees_with_broker r snapshot sp job live p \<and>
    dget ''job'' observed = JObj job \<and> dget ''admission'' observed = JObj live"
    and "agrees_with_service env out r"
proof -
  let ?str = "py_str (float_text env)"
  from assms obtain source us1 snapshot us2 job live p us3 us4 health page where v:
    "git_source_identity env out (?str (dget ''source_root'' r)) = Inr source"
    "rtraverse (\<lambda>k. ensure (py_eq (dget k source) (dget k r)) (''service source identity changed after attestation: '' @ k))
       [''source_root'', ''source_commit'', ''source_tree'', ''source_dirty''] = Inr us1"
    "query_broker env out (?str (dget ''broker_socket'' r)) = Inr snapshot"
    "py_eq (dget ''instance_id'' snapshot) (dget ''broker_instance_id'' r)"
    "py_eq (broker_version_of snapshot) (dget ''broker_version'' r)"
    "rtraverse (\<lambda>k. ensure (py_eq (dget (''_kernelinfra_peer_'' @ k) snapshot) (dget (''broker_peer_'' @ k) r))
       (''broker peer changed after deployment attestation: '' @ k)) PEER_KEYS = Inr us2"
    "running_job snapshot (?str (dget ''broker_job_id'' r)) = Inr job"
    "query_admission env out (?str (dget ''broker_socket'' r)) (?str (dget ''broker_job_id'' r)) = Inr (live, p)"
    "py_eq (JObj live) (dget ''broker_admission_receipt'' r)" "check_live_job live snapshot job p = Inr us3"
    "rtraverse (\<lambda>(rk, jk). ensure (py_eq (dget rk r) (dget jk job))
       (''broker deployment field changed: '' @ rk)) RECEIPT_JOB_KEYS = Inr us4"
    "service_documents env out (?str (dget ''service_url'' r)) = Inr (health, page)" "py_eq (JObj page) (dget ''service_root'' r)"
    "observed = [(''broker'', JObj snapshot), (''job'', JObj job), (''admission'', JObj live), (''health'', JObj health), (''root'', JObj page)]"
    unfolding verify_service_receipt_def Let_def rbind_eq_Inr_iff split_paired_Ex prod.case ensure_Inr sum.inject by blast
  obtain base sp where b: "broker_status env out (?str (dget ''broker_socket'' r)) base sp"
    "\<forall>k. \<not> has_prefix ''_kernelinfra_peer_'' k \<longrightarrow> dict_get k snapshot = dict_get k base"
    "\<forall>k \<in> set PEER_KEYS. dget (''_kernelinfra_peer_'' @ k) snapshot = peer_field k sp"
    using query_broker_status [OF v(3)] by blast
  have same: "dget ''running'' snapshot = dget ''running'' base" "dget ''instance_id'' snapshot = dget ''instance_id'' base"
    "broker_version_of snapshot = broker_version_of base"
    using b(2) by (simp_all add: dget_def broker_version_of_def has_prefix_def split: option.split)
  from v(10) obtain us5 us6 where c: "py_eq (dget ''broker_version'' live) (broker_version_of snapshot)"
    "py_eq (dget ''broker_instance_id'' live) (dget ''instance_id'' snapshot)"
    "rtraverse (\<lambda>k. ensure (py_eq (peer_field k p) (dget (''_kernelinfra_peer_'' @ k) snapshot))
       (''broker admission peer disagrees with status peer: '' @ k)) PEER_KEYS = Inr us5"
    "rtraverse (\<lambda>k. ensure (py_eq (dget k live) (dget k job)) (''broker admission disagrees with live job: '' @ k)) JOB_KEYS = Inr us6"
    unfolding check_live_job_def rbind_eq_Inr_iff ensure_Inr by blast
  have job: "live_job base (?str (dget ''broker_job_id'' r)) job"
    using running_job_Inr [OF v(7)] unfolding live_job_def same .
  have jobs: "\<forall>(rk, jk) \<in> set RECEIPT_JOB_KEYS. py_eq (dget rk r) (dget jk job)"
    using v(11) by (simp add: RECEIPT_JOB_KEYS_def)
  have "agrees_with_broker r base sp job live p"
    unfolding agrees_with_broker_def
    using v(4,5,9) jobs c(1,2) rtraverse_ensure [OF c(4)] rtraverse_ensure [OF c(3)] rtraverse_ensure [OF v(6)] b(3)
    by (simp add: same)
  with b(1) job query_admission_answer [OF v(8)] query_admission_Inr [OF v(8)] show "\<exists>snapshot sp job live p.
    broker_status env out (?str (dget ''broker_socket'' r)) snapshot sp \<and> live_job snapshot (?str (dget ''broker_job_id'' r)) job \<and>
    broker_admission env out (?str (dget ''broker_socket'' r)) (?str (dget ''broker_job_id'' r)) live p \<and>
    sound_admission env live \<and> agrees_with_broker r snapshot sp job live p \<and>
    dget ''job'' observed = JObj job \<and> dget ''admission'' observed = JObj live" unfolding v(14) by (force simp: dget_def)
  show "agrees_with_service env out r"
    unfolding agrees_with_service_def using v(1,12,13) rtraverse_ensure [OF v(2)] by force
qed

section \<open>A concrete world\<close>

definition zeros :: string where
  "zeros = replicate 64 (CHR ''0'')"

definition attest_env :: py_env where
  "attest_env = sample_env\<lparr>sha256 := (\<lambda>bytes. zeros)\<rparr>"

definition sample_admission :: jdict where
  "sample_admission = [(''schema'', JStr ''gpuq.admission-receipt.v1''), (''job_id'', JStr ''j1''),
     (''broker_version'', JStr ''0.6''), (''broker_instance_id'', JStr ''b''), (''submitted_at'', JStr ''t1''),
     (''started_at'', JStr ''t2''), (''owner'', JStr ''team''), (''label'', JStr ''l''), (''mode'', JStr ''exclusive''),
     (''gpu_count'', JInt 2), (''gpu_ids'', JList [JInt 0, JInt 3]), (''cwd'', JStr ''/src''), (''argv_count'', JInt 1),
     (''argv_sha256'', JStr zeros), (''env_keys'', JList []), (''env_sha256'', JStr zeros),
     (''launch_spec_sha256'', JStr zeros), (''resolved_executable'', JStr ''/bin/serve''),
     (''executable_sha256'', JStr zeros), (''effective_env_sha256'', JStr zeros), (''receipt_sha256'', JStr zeros)]"

definition sample_job :: jdict where
  "sample_job = [(''job_id'', JStr ''j1''), (''submitted_at'', JStr ''t1''), (''started_at'', JStr ''t2''),
     (''owner'', JStr ''team''), (''label'', JStr ''l''), (''mode'', JStr ''exclusive''), (''gpu_count'', JInt 2),
     (''gpu_ids'', JList [JInt 0, JInt 3])]"

definition sample_peer :: peer where
  "sample_peer = \<lparr>peer_pid = JInt 7, peer_uid = JInt 1, peer_gid = JInt 1\<rparr>"

definition sample_outside :: outside where
  "sample_outside = \<lparr>
     out_broker = (\<lambda>socket request. if dget ''op'' request = JStr ''status''
       then Inr (JObj [(''snapshot'', JObj [(''broker_version'', JStr ''0.6''), (''instance_id'', JStr ''b''),
              (''running'', JList [JObj sample_job])])], sample_peer)
       else Inr (JObj [(''ok'', JBool True), (''receipt'', JObj sample_admission)], sample_peer)),
     out_document = (\<lambda>url. Inr (JObj [(''status'', JStr ''ok''), (''workers'', JList [JObj [(''healthy'', JBool True)]])])),
     out_git = (\<lambda>path. \<lparr>git_is_dir = True, git_commit = Inr ''c1'', git_tree = Inr ''t1'', git_status = Inr []\<rparr>)\<rparr>"

definition sample_identity :: string where
  "sample_identity = ''eval-v1+c1+'' @ zeros"

definition sample_snapshot :: jdict where
  "sample_snapshot = [(''broker_version'', JStr ''0.6''), (''instance_id'', JStr ''b''),
     (''running'', JList [JObj sample_job]), (''_kernelinfra_peer_pid'', JInt 7),
     (''_kernelinfra_peer_uid'', JInt 1), (''_kernelinfra_peer_gid'', JInt 1)]"

lemma sample_digest: "digest_json attest_env v = zeros"
  by (simp add: digest_json_def attest_env_def)

lemma sample_admission_valid: "validate_admission attest_env (JObj sample_admission) = Inr sample_admission"
proof -
  define d where "d = sample_admission"
  have c: "list_all (\<lambda>k. dict_has k d) ADMISSION_FIELDS \<and>
      list_all (\<lambda>k. k \<in> set ADMISSION_FIELDS \<or> k = ''allowed_gpu_ids'') (dict_keys d) \<and>
      py_eq (dget ''schema'' d) (JStr BROKER_ADMISSION_SCHEMA)"
    "py_eq (dget ''mode'' d) (JStr ''exclusive'')"
    "rtraverse (\<lambda>k. ensure (nonempty_str (dget k d)) (''broker admission '' @ k @ '' must be non-empty text''))
       ADMISSION_TEXTS = Inr (replicate 9 ())"
    "rtraverse (\<lambda>k. ensure (positive_json_int (dget k d)) (''broker admission '' @ k @ '' must be positive''))
       [''gpu_count'', ''argv_count''] = Inr [(), ()]"
    "path_is_absolute (str_of_json (dget ''cwd'' d)) \<and> path_is_absolute (str_of_json (dget ''resolved_executable'' d))"
    "gpu_index_list (dget ''gpu_ids'' d)"
    "dget ''gpu_count'' d = JInt (int (length (json_items (dget ''gpu_ids'' d))))"
    "distinct (json_items (dget ''gpu_ids'' d))"
    "admission_scope_ok (dget ''allowed_gpu_ids'' d) (json_items (dget ''gpu_ids'' d))"
    "nonempty_str (dget ''started_at'' d)" "env_keys_ok (dget ''env_keys'' d)"
    "(map str_of_json (json_items (dget ''env_keys'' d)) = sort (remdups (map str_of_json (json_items (dget ''env_keys'' d))))) = True"
    "rtraverse (\<lambda>k. sha256_field (dget k d) (''broker admission '' @ k)) ADMISSION_DIGESTS = Inr (replicate 6 ())"
    "JStr zeros = dget ''receipt_sha256'' d"
    unfolding d_def by code_simp+
  have "validate_admission attest_env (JObj d) = Inr d"
    unfolding validate_admission_def json.case Let_def sample_digest
    by (simp only: c simp_thms rbind.simps ensure_True)
  then show ?thesis by (simp only: d_def)
qed


lemma sample_query: "query_admission attest_env sample_outside ''/s'' ''j1'' = Inr (sample_admission, sample_peer)"
proof -
  have "broker_request attest_env sample_outside ''/s'' [(''op'', JStr ''receipt''), (''job_id'', JStr ''j1'')] =
      Inr ([(''ok'', JBool True), (''receipt'', JObj sample_admission)], sample_peer)"
    by (simp add: broker_request_def sample_outside_def dget_def)
  then show ?thesis
    by (simp add: query_admission_def dget_def sample_admission_valid)
qed

lemma sample_load: "load_admission attest_env (FileParsed (JObj sample_admission)) p = Inr sample_admission"
  by (simp add: load_admission_def sample_admission_valid)

definition sample_health :: jdict where
  "sample_health = [(''status'', JStr ''ok''), (''workers'', JList [JObj [(''healthy'', JBool True)]])]"

definition sample_source :: jdict where
  "sample_source = [(''source_root'', JStr ''/src''), (''source_commit'', JStr ''c1''), (''source_tree'', JStr ''t1''),
     (''source_dirty'', JBool False)]"

definition sample_receipt :: jdict where
  "sample_receipt = deployment_document attest_env ''now'' ''http://localhost:8000'' sample_identity ''/s'' ''j1''
     sample_health sample_health sample_admission sample_source sample_snapshot sample_job"

lemma sample_live: "check_live_job sample_admission sample_snapshot sample_job sample_peer = Inr ()"
  by code_simp

text \<open>The sample service is attested under any identity that names its commit and its digests.\<close>

lemma sample_built:
  assumes "list_all (\<lambda>k. identity_binds identity (py_str (float_text attest_env) (dget k sample_admission)))
      [''launch_spec_sha256'', ''executable_sha256'']"
    and "identity_binds identity ''c1''" and "root_commit_ok sample_health identity" and "identity \<noteq> []"
  shows "build_service_receipt attest_env sample_outside ''now'' ''/s'' ''j1'' (FileParsed (JObj sample_admission)) ''/a''
     ''http://localhost:8000'' identity ''/src'' =
     Inr (deployment_document attest_env ''now'' ''http://localhost:8000'' identity ''/s'' ''j1''
       sample_health sample_health sample_admission sample_source sample_snapshot sample_job)"
proof -
  have c: "normalize_loopback_url attest_env ''http://localhost:8000'' = Inr ''http://localhost:8000''"
    "query_broker attest_env sample_outside ''/s'' = Inr sample_snapshot"
    "running_job sample_snapshot ''j1'' = Inr sample_job"
    "py_eq (JObj sample_admission) (JObj sample_admission)"
    "service_documents attest_env sample_outside ''http://localhost:8000'' = Inr (sample_health, sample_health)"
    "git_source_identity attest_env sample_outside ''/src'' = Inr sample_source"
    "str_of_json (dget ''source_commit'' sample_source) = ''c1''" "(''j1'' = []) = False"
    by code_simp+
  obtain us where us: "rtraverse (\<lambda>k. ensure (identity_binds identity (py_str (float_text attest_env) (dget k sample_admission)))
       (''service identity does not bind broker admission '' @ k)) [''launch_spec_sha256'', ''executable_sha256''] = Inr us"
    using rtraverse_ensure_all [of "[''launch_spec_sha256'', ''executable_sha256'']"
        "\<lambda>k. identity_binds identity (py_str (float_text attest_env) (dget k sample_admission))"
        "\<lambda>k. ''service identity does not bind broker admission '' @ k"] assms(1) unfolding list_all_iff by blast
  have ne: "(identity = []) = False" using assms(4) by simp
  show ?thesis
    unfolding build_service_receipt_def
    by (simp only: c us ne assms(2,3) sample_load sample_query sample_live ensure_True rbind.simps prod.case if_False)
qed

lemma sample_receipt_built:
  "build_service_receipt attest_env sample_outside ''now'' ''/s'' ''j1'' (FileParsed (JObj sample_admission)) ''/a''
     ''http://localhost:8000'' sample_identity ''/src'' = Inr sample_receipt"
proof -
  have "list_all (\<lambda>k. identity_binds sample_identity (py_str (float_text attest_env) (dget k sample_admission)))
      [''launch_spec_sha256'', ''executable_sha256'']"
    "identity_binds sample_identity ''c1''" "root_commit_ok sample_health sample_identity" "sample_identity \<noteq> []"
    by code_simp+
  from sample_built [OF this] show ?thesis by (simp only: sample_receipt_def)
qed

section \<open>Properties\<close>

text \<open>An admission receipt the service layer accepts, whatever the broker or the launcher
  wrote, is an object that admits an exclusive job: its texts are non-empty, its GPU ids are
  distinct non-negative integers of the stated number within the allowed ones, its paths are
  absolute, and its digest is the digest of the rest.\<close>

lemma accepted_admission_sound:
  assumes "validate_admission env v = Inr d"
  shows "v = JObj d \<and> sound_admission env d"
  using validate_admission_Inr [OF assms] by simp

lemma accepted_admission_sound_witness:
  "sound_admission attest_env sample_admission"
  using accepted_admission_sound [OF sample_admission_valid] by simp

text \<open>C25: A deployment receipt is accepted where it was built: written to a file it loads as
  the same receipt, and while the broker, the service and the checkout answer as they did
  during the attestation its verification succeeds.  Resolving the resolved paths of the
  broker socket and of the checkout again must not change them.\<close>

theorem attested_service_verifies:
  assumes "build_service_receipt env out now socket job_id content path service_url identity source_root = Inr r"
    and "real_path env (real_path env socket) = real_path env socket"
    and "real_path env (real_path env source_root) = real_path env source_root"
  shows "load_service_receipt env (FileParsed (JObj r)) p = Inr r \<and>
    (\<exists>observed. verify_service_receipt env out r = Inr observed)"
  using built_receipt_loads [OF assms(1)] built_receipt_verifies [OF assms(1)] assms(2,3)
  by (simp add: settled_path_def)

theorem attested_service_verifies_witness:
  "load_service_receipt attest_env (FileParsed (JObj sample_receipt)) ''/r'' = Inr sample_receipt \<and>
   (\<exists>observed. verify_service_receipt attest_env sample_outside sample_receipt = Inr observed)"
  by (rule attested_service_verifies [OF sample_receipt_built])
    (simp_all add: real_path_def attest_env_def sample_env_def)

text \<open>C26: A receipt that verifies describes what is live now.  The broker at its socket, asked for
  its status, runs exactly one job with the receipt's job id, and that job is exclusive and
  has GPUs; asked for the admission of this job, it answers with a sound admission equal to
  the one in the receipt.  Receipt, admission and job agree on every field they share, among
  them the GPUs, and both answers come from the broker instance, version and process the
  receipt names.  The source checkout and the page of the service are those of the receipt.\<close>

theorem verified_receipt_is_live:
  assumes "verify_service_receipt env out r = Inr observed"
  shows "(\<exists>snapshot sp job live p.
    broker_status env out (py_str (float_text env) (dget ''broker_socket'' r)) snapshot sp \<and>
    live_job snapshot (py_str (float_text env) (dget ''broker_job_id'' r)) job \<and>
    broker_admission env out (py_str (float_text env) (dget ''broker_socket'' r))
      (py_str (float_text env) (dget ''broker_job_id'' r)) live p \<and>
    sound_admission env live \<and> agrees_with_broker r snapshot sp job live p \<and>
    dget ''job'' observed = JObj job \<and> dget ''admission'' observed = JObj live) \<and>
    agrees_with_service env out r"
  using verified_live [OF assms] by blast

lemma sample_receipt_verifies: "\<exists>observed. verify_service_receipt attest_env sample_outside sample_receipt = Inr observed"
  by (rule built_receipt_verifies [OF sample_receipt_built])
    (simp_all add: settled_path_def real_path_def attest_env_def sample_env_def)

theorem verified_receipt_is_live_witness:
  "\<exists>snapshot sp job live p. broker_status attest_env sample_outside
     (py_str (float_text attest_env) (dget ''broker_socket'' sample_receipt)) snapshot sp \<and>
     live_job snapshot (py_str (float_text attest_env) (dget ''broker_job_id'' sample_receipt)) job \<and>
     agrees_with_broker sample_receipt snapshot sp job live p"
proof -
  obtain observed where "verify_service_receipt attest_env sample_outside sample_receipt = Inr observed"
    using sample_receipt_verifies by blast
  from verified_receipt_is_live [OF this] show ?thesis by blast
qed

text \<open>The digest test of the admission is a number test: a text that is no digest passes.\<close>

lemma non_hex_digest_accepted:
  "sha256_field (JStr (''0x'' @ replicate 62 (CHR ''0''))) loc = Inr () \<and> \<not> hex_char (CHR ''x'')"
proof -
  have "length (''0x'' @ replicate 62 (CHR ''0'')) = 64 \<and> int16_text (''0x'' @ replicate 62 (CHR ''0'')) \<and>
      \<not> hex_char (CHR ''x'')" by code_simp
  then show ?thesis by (simp add: sha256_field_def)
qed

end
