(* ===== verification/Service_Binding_Facts.thy ===== *)
theory Service_Binding_Facts
  imports Service_Binding Attestation_Facts
begin

text \<open>What a bound task says: its service stage names the deployment, carries the digest of the
  receipt in its judge identity, and hands the receipt to the judge.\<close>

section \<open>Parsed service stages\<close>

lemma rtraverse_enumerate:
  assumes "rtraverse (\<lambda>(i, v). f v i) (List.enumerate 0 items) = Inr ys"
  shows "length ys = length items" and "i < length items \<Longrightarrow> f (items ! i) i = Inr (ys ! i)"
proof -
  from assms have l: "list_all2 (\<lambda>x y. (case x of (i, v) \<Rightarrow> f v i) = Inr y) (List.enumerate 0 items) ys"
    by (simp add: rtraverse_eq_Inr_iff)
  from list_all2_lengthD [OF l] show "length ys = length items" by simp
  show "f (items ! i) i = Inr (ys ! i)" if "i < length items"
    using list_all2_nthD [OF l, of i] that by (simp add: nth_enumerate_eq)
qed

lemma parse_task_stage:
  assumes "parse_task env (JObj raw) src = Inr t" and "dget ''stages'' raw = JList items"
  shows "length (task_stages t) = length items"
    and "i < length items \<Longrightarrow> parse_stage env (items ! i) i (path_parent src) = Inr (task_stages t ! i)"
proof -
  from assms have p: "parse_stages env (JList items) (path_parent src) = Inr (task_stages t)"
    by (auto simp: parse_task_def Let_def)
  then have r: "rtraverse (\<lambda>(i, v). parse_stage env v i (path_parent src)) (List.enumerate 0 items) = Inr (task_stages t)"
    by (simp add: parse_stages_def)
  show "length (task_stages t) = length items" by (rule rtraverse_enumerate(1) [OF r])
  show "parse_stage env (items ! i) i (path_parent src) = Inr (task_stages t ! i)" if "i < length items"
    using rtraverse_enumerate(2) [OF r that] .
qed

lemma text_field_JStr: "text_field (JStr t) loc = Inr s \<Longrightarrow> s = py_strip t"
  by (auto simp: text_field_def split: if_splits)

lemma identifier_field_JStr: "identifier_field (JStr t) loc = Inr s \<Longrightarrow> s = py_strip t"
  by (auto simp: identifier_field_def split: if_splits dest: text_field_JStr)

lemma parse_command_strings: "parse_command (JList (map JStr cmd)) loc = Inr c \<Longrightarrow> c = cmd"
  by (auto simp: parse_command_def comp_def split: if_splits)

lemma parse_judge_strings:
  assumes "parse_judge env (JObj judge) dir loc = Inr (identity, cwd, command)"
    and "dget ''identity'' judge = JStr text" and "dget ''command'' judge = JList (map JStr cmd)"
  shows "identity = py_strip text" and "command = cmd"
  using assms by (auto simp: parse_judge_def Let_def dest: text_field_JStr parse_command_strings)

lemma parse_service_stage:
  assumes "parse_stage env (JObj d) i dir = Inr s"
    and "dict_get ''execution'' d = Some (JStr ''service'')" and "dict_get ''service_deployment'' d = Some (JStr did)"
    and "dget ''judge'' d = JObj judge" and "dget ''identity'' judge = JStr text"
    and "dget ''command'' judge = JList (map JStr cmd)"
  shows "st_execution s = Service \<and> st_service_deployment_id s = Some (py_strip did) \<and>
    st_judge_identity s = py_strip text \<and> st_command s = cmd"
proof -
  have "py_strip ''service'' = ''service''" by code_simp
  then have tf: "text_field (JStr ''service'') loc = Inr ''service''" for loc by (simp add: text_field_def)
  have member: "member_named execution_name EXECUTIONS ''service'' = Some Service" by code_simp
  let ?loc = "''task.stages['' @ nat_text i @ '']''"
  from assms(1) obtain identity cwd command dep where p:
    "parse_judge env (JObj judge) dir (?loc @ ''.judge'') = Inr (identity, cwd, command)"
    "parse_deployment d Service ?loc = Inr dep" "st_execution s = Service" "st_judge_identity s = identity"
    "st_command s = command" "st_service_deployment_id s = dep"
    unfolding parse_stage_def Let_def expect_object.simps rbind.simps assms(2-4) option.case tf member
    by (auto split: if_splits)
  have "dep = Some (py_strip did)"
    using p(2) assms(3) by (auto simp: parse_deployment_def dest: identifier_field_JStr)
  with p(3-6) parse_judge_strings [OF p(1) assms(5,6)] show ?thesis by simp
qed

section \<open>The bound task\<close>

lemma indices_single: "indices P xs = [i] \<Longrightarrow> i < length xs \<and> P (xs ! i)"
proof -
  assume "indices P xs = [i]"
  then have "i \<in> set (indices P xs)" by simp
  then show ?thesis by (auto simp: indices_def)
qed

lemma reject_Inr [simp]: "reject b m = Inr u \<longleftrightarrow> \<not> b"
  by (simp add: reject_def)

lemma receipt_option_Inr:
  "receipt_option command = Inr k \<Longrightarrow> Suc k < length command \<and> command ! k = ''--deployment-receipt'' \<and>
     command ! Suc k = DEPLOYMENT_RECEIPT_TOKEN"
  by (auto simp: receipt_option_def dest: indices_single)

lemma template_identity_Inr:
  "template_identity judge = Inr t \<Longrightarrow> count_sub SERVICE_IDENTITY_TOKEN t = 1"
  by (auto simp: template_identity_def split: json.splits if_splits)

lemma bind_template_Inr:
  assumes "bind_template env now file_sha template output binding_output s receipt raw = Inr (raw', binding)"
  obtains stages i stage judge identity command k v task where
    "dget ''stages'' raw = JList stages" "indices is_service_stage stages = [i]" "stages ! i = JObj stage"
    "template_judge stage = Inr judge" "template_identity judge = Inr identity" "template_command judge = Inr command"
    "receipt_option command = Inr k" "dict_get ''service_identity'' receipt = Some v"
    "raw' = dict_set ''stages'' (JList (stages[i := JObj (bind_stage
        (replace_sub SERVICE_IDENTITY_TOKEN (bound_identity (py_str (float_text env) v) (sv_deployment_id s)
            (digest_json env (JObj receipt))) identity)
        (command[k + 1 := resolve_path env (sv_deployment_receipt s)]) (sv_deployment_id s) judge stage)])) raw"
    "parse_task env (JObj raw') output = Inr task" "dget ''task_sha256'' binding = JStr (task_digest task)"
  using assms unfolding bind_template_def template_stages_def Let_def
  by (auto simp: binding_body_def dget_def)

lemma identity_token_nonempty: "SERVICE_IDENTITY_TOKEN \<noteq> []"
  by (simp add: SERVICE_IDENTITY_TOKEN_def)

text \<open>
  A service stage of a template and the stage it becomes: the token in the judge identity and
  the one after the receipt option are replaced, the deployment is named, and every other
  field of the stage and of its judge is the same.
\<close>

definition stage_bound :: "string \<Rightarrow> string \<Rightarrow> string \<Rightarrow> jdict \<Rightarrow> jdict \<Rightarrow> bool" where
  "stage_bound bound path did stage stage' \<longleftrightarrow> (\<exists>judge judge' before later command k.
     dget ''execution'' stage = JStr ''service'' \<and>
     dget ''judge'' stage = JObj judge \<and> dict_get ''judge'' stage' = Some (JObj judge') \<and>
     dict_get ''service_deployment'' stage' = Some (JStr did) \<and>
     (\<forall>f. f \<notin> {''judge'', ''service_deployment''} \<longrightarrow> dict_get f stage' = dict_get f stage) \<and>
     dget ''identity'' judge = JStr (before @ SERVICE_IDENTITY_TOKEN @ later) \<and>
     dict_get ''identity'' judge' = Some (JStr (before @ bound @ later)) \<and>
     dget ''command'' judge = JList (map JStr command) \<and> Suc k < length command \<and>
     command ! k = ''--deployment-receipt'' \<and> command ! Suc k = DEPLOYMENT_RECEIPT_TOKEN \<and>
     dict_get ''command'' judge' = Some (JList (map JStr (command[Suc k := path]))) \<and>
     (\<forall>f. f \<notin> {''identity'', ''command''} \<longrightarrow> dict_get f judge' = dict_get f judge))"

lemma template_command_Inr: "template_command judge = Inr command \<Longrightarrow> dget ''command'' judge = JList (map JStr command)"
proof -
  assume t: "template_command judge = Inr command"
  then obtain items where items: "dget ''command'' judge = JList items" "list_all is_str items" "command = map str_of_json items"
    by (auto simp: template_command_def split: json.splits if_splits)
  have "map (JStr \<circ> str_of_json) items = items"
  proof (rule map_idI)
    fix x assume "x \<in> set items"
    with items(2) have "is_str x" by (simp add: list_all_iff)
    then show "(JStr \<circ> str_of_json) x = x" by (cases x) (simp_all add: str_of_json_def)
  qed
  with items show ?thesis by simp
qed

lemma template_judge_Inr: "template_judge stage = Inr judge \<Longrightarrow> dget ''judge'' stage = JObj judge"
  by (auto simp: template_judge_def split: json.splits)

lemma template_identity_text: "template_identity judge = Inr t \<Longrightarrow> dget ''identity'' judge = JStr t"
  by (auto simp: template_identity_def split: json.splits if_splits)

lemma bound_stage:
  assumes "bind_template env now file_sha template output binding_output s receipt raw = Inr (raw', binding)"
  shows "\<exists>task stages stage stage' i v before later.
    dget ''stages'' raw = JList stages \<and> i < length stages \<and> stages ! i = JObj stage \<and>
    dget ''stages'' raw' = JList (stages[i := JObj stage']) \<and> (\<forall>k. k \<noteq> ''stages'' \<longrightarrow> dict_get k raw' = dict_get k raw) \<and>
    stage_bound (bound_identity (py_str (float_text env) v) (sv_deployment_id s) (digest_json env (JObj receipt)))
      (resolve_path env (sv_deployment_receipt s)) (sv_deployment_id s) stage stage' \<and>
    parse_task env (JObj raw') output = Inr task \<and> i < length (task_stages task) \<and>
    st_execution (task_stages task ! i) = Service \<and>
    st_service_deployment_id (task_stages task ! i) = Some (py_strip (sv_deployment_id s)) \<and>
    dict_get ''service_identity'' receipt = Some v \<and>
    st_judge_identity (task_stages task ! i) = py_strip (before @ bound_identity (py_str (float_text env) v)
      (sv_deployment_id s) (digest_json env (JObj receipt)) @ later) \<and>
    (\<exists>k. Suc k < length (st_command (task_stages task ! i)) \<and>
       st_command (task_stages task ! i) ! k = ''--deployment-receipt'' \<and>
       st_command (task_stages task ! i) ! Suc k = resolve_path env (sv_deployment_receipt s)) \<and>
    dget ''task_sha256'' binding = JStr (task_digest task)"
  using assms
proof (rule bind_template_Inr)
  fix stages i stage judge identity command k v task
  assume b: "dget ''stages'' raw = JList stages" "indices is_service_stage stages = [i]" "stages ! i = JObj stage"
    "template_judge stage = Inr judge" "template_identity judge = Inr identity" "template_command judge = Inr command"
    "receipt_option command = Inr k" "dict_get ''service_identity'' receipt = Some v"
    and raw': "raw' = dict_set ''stages'' (JList (stages[i := JObj (bind_stage
        (replace_sub SERVICE_IDENTITY_TOKEN (bound_identity (py_str (float_text env) v) (sv_deployment_id s)
            (digest_json env (JObj receipt))) identity)
        (command[k + 1 := resolve_path env (sv_deployment_receipt s)]) (sv_deployment_id s) judge stage)])) raw"
    and task: "parse_task env (JObj raw') output = Inr task" "dget ''task_sha256'' binding = JStr (task_digest task)"
  define bound where "bound = bound_identity (py_str (float_text env) v) (sv_deployment_id s) (digest_json env (JObj receipt))"
  define cmd where "cmd = command[k + 1 := resolve_path env (sv_deployment_receipt s)]"
  define ident where "ident = replace_sub SERVICE_IDENTITY_TOKEN bound identity"
  define judge' where "judge' = dict_set ''command'' (JList (map JStr cmd)) (dict_set ''identity'' (JStr ident) judge)"
  define d where "d = bind_stage ident cmd (sv_deployment_id s) judge stage"
  define items where "items = stages[i := JObj d]"
  obtain before later where split: "identity = before @ SERVICE_IDENTITY_TOKEN @ later" "ident = before @ bound @ later"
    unfolding ident_def using replace_one [OF template_identity_Inr [OF b(5)] identity_token_nonempty] by metis
  have i: "i < length stages" "dget ''execution'' stage = JStr ''service''"
    using indices_single [OF b(2)] by (auto simp: is_service_stage_def b(3))
  have "dget ''stages'' raw' = JList items"
    by (simp add: raw' items_def d_def ident_def bound_def cmd_def dget_def)
  note st = parse_task_stage [OF task(1) this]
  have il: "i < length items" "items ! i = JObj d" using i(1) by (simp_all add: items_def)
  have fields: "dict_get ''execution'' d = Some (JStr ''service'')"
    "dict_get ''service_deployment'' d = Some (JStr (sv_deployment_id s))" "dget ''judge'' d = JObj judge'"
    using i(2) by (auto simp: d_def bind_stage_def judge'_def dget_def split: option.splits)
  have judge: "dget ''identity'' judge' = JStr ident" "dget ''command'' judge' = JList (map JStr cmd)"
    by (simp_all add: judge'_def dget_def)
  have ps: "parse_stage env (JObj d) i (path_parent output) = Inr (task_stages task ! i)"
    using st(2) [OF il(1)] unfolding il(2) .
  note stage = parse_service_stage [OF ps fields judge]
  have k: "Suc k < length cmd" "cmd ! k = ''--deployment-receipt''" "cmd ! Suc k = resolve_path env (sv_deployment_receipt s)"
    using receipt_option_Inr [OF b(7)] by (simp_all add: cmd_def)
  have "stage_bound bound (resolve_path env (sv_deployment_receipt s)) (sv_deployment_id s) stage d"
    unfolding stage_bound_def
    using i(2) template_judge_Inr [OF b(4)] template_identity_text [OF b(5)] template_command_Inr [OF b(6)]
      receipt_option_Inr [OF b(7)] split
    by (intro exI [of _ judge] exI [of _ judge'] exI [of _ before] exI [of _ later] exI [of _ command] exI [of _ k] conjI)
      (simp_all add: d_def bind_stage_def judge'_def cmd_def)
  moreover have "dget ''stages'' raw' = JList (stages[i := JObj d])" "\<forall>k. k \<noteq> ''stages'' \<longrightarrow> dict_get k raw' = dict_get k raw"
    by (simp_all add: raw' d_def ident_def bound_def cmd_def dget_def)
  ultimately show ?thesis
    using task stage k b(1,3,8) i(1) il(1) st(1) unfolding split(2) bound_def
    by (intro exI [of _ task] exI [of _ stages] exI [of _ stage] exI [of _ d] exI [of _ i] exI [of _ v] exI [of _ before]
        exI [of _ later] conjI exI [of _ k]) simp_all
qed

section \<open>A sample binding\<close>

definition sample_judge :: jdict where
  "sample_judge = [(''identity'', JStr (''e+'' @ SERVICE_IDENTITY_TOKEN)), (''cwd'', JStr ''/j''),
     (''command'', JList [JStr ''run'', JStr ''--deployment-receipt'', JStr DEPLOYMENT_RECEIPT_TOKEN])]"

definition sample_stage :: jdict where
  "sample_stage = [(''id'', JStr ''judge''), (''kind'', JStr ''judge''), (''execution'', JStr ''service''),
     (''judge'', JObj sample_judge)]"

definition sample_template :: jdict where
  "sample_template = [(''schema'', JStr TASK_SCHEMA), (''task_id'', JStr ''t''), (''workloads'', JList [JStr ''w'']),
     (''comparison'', JObj [(''primary_workloads'', JList [JStr ''w'']), (''relative_noise_floor'', JFloat (Fin 0))]),
     (''stages'', JList [JObj sample_stage])]"

definition sample_deployment :: service_state where
  "sample_deployment = \<lparr>sv_deployment_id = ''svc-1'', sv_service_id = ''svc'', sv_service_sha256 = ''d'',
     sv_state = SvcReady, sv_broker_job_id = Some ''j1'', sv_gpu_ids = [0, 3], sv_service_url = ''http://localhost:8000'',
     sv_service_identity = Some ''id'', sv_admission_receipt = ''/d/admission.json'',
     sv_deployment_receipt = ''/d/deployment.json'', sv_accepted_at = ''t0'', sv_updated_at = ''t1'',
     sv_ready_at = Some ''t1'', sv_terminal_at = None, sv_reason = None, sv_idle_grace_s = None, sv_idle_since = None,
     sv_deployment_dir = ''/d''\<rparr>"

definition sample_identity_text :: string where
  "sample_identity_text = ''e+'' @ bound_identity ''id'' ''svc-1'' zeros"

definition sample_bound :: jdict where
  "sample_bound = dict_set ''stages'' (JList [JObj (bind_stage sample_identity_text
     [''run'', ''--deployment-receipt'', ''/d/deployment.json''] ''svc-1'' sample_judge sample_stage)]) sample_template"

lemma sample_bound_parses: "\<exists>t. parse_task attest_env (JObj sample_bound) ''/w/o.json'' = Inr t"
proof -
  have "case parse_task attest_env (JObj sample_bound) ''/w/o.json'' of Inl e \<Rightarrow> False | Inr t \<Rightarrow> True" by code_simp
  then show ?thesis by (simp split: sum.splits)
qed

lemma not_substring_head:
  assumes "list_all (\<lambda>c. c \<noteq> x) s"
  shows "\<not> is_substring (x # p) s"
  using assms by (induction s) (auto simp: has_prefix_def)

lemma sample_bound_consumed:
  "reject (is_substring SERVICE_IDENTITY_TOKEN (json_dumps (float_text attest_env) (JObj sample_bound)) \<or>
     is_substring DEPLOYMENT_RECEIPT_TOKEN (json_dumps (float_text attest_env) (JObj sample_bound)))
     ''task template contains an unconsumed service token'' = Inr ()"
proof -
  have "list_all (\<lambda>c. c \<noteq> CHR ''$'') (json_dumps (float_text attest_env) (JObj sample_bound))" by code_simp
  from not_substring_head [OF this] show ?thesis
    by (simp only: SERVICE_IDENTITY_TOKEN_def DEPLOYMENT_RECEIPT_TOKEN_def reject_def HOL.simp_thms if_False)
qed

lemma sample_binding:
  "\<exists>binding. materialize_service_task attest_env ''now'' ''f'' (FileParsed (JObj sample_template)) ''/w/t.json''
     ''/w/o.json'' ''/w/b.json'' sample_deployment [(''service_identity'', JStr ''id'')] = Inr (sample_bound, binding)"
proof -
  have c: "template_stages sample_template = Inr [JObj sample_stage]" "indices is_service_stage [JObj sample_stage] = [0]"
    "template_judge sample_stage = Inr sample_judge" "template_identity sample_judge = Inr (''e+'' @ SERVICE_IDENTITY_TOKEN)"
    "template_command sample_judge = Inr [''run'', ''--deployment-receipt'', DEPLOYMENT_RECEIPT_TOKEN]"
    "receipt_option [''run'', ''--deployment-receipt'', DEPLOYMENT_RECEIPT_TOKEN] = Inr 1"
    "resolve_path attest_env (sv_deployment_receipt sample_deployment) = ''/d/deployment.json''"
    "dindex ''service_identity'' [(''service_identity'', JStr ''id'')] = Inr (JStr ''id'')"
    "py_str (float_text attest_env) (JStr ''id'') = ''id''" "sv_deployment_id sample_deployment = ''svc-1''"
    "replace_sub SERVICE_IDENTITY_TOKEN (bound_identity ''id'' ''svc-1'' zeros) (''e+'' @ SERVICE_IDENTITY_TOKEN) =
       sample_identity_text"
    "[''run'', ''--deployment-receipt'', DEPLOYMENT_RECEIPT_TOKEN][1 + 1 := ''/d/deployment.json''] =
       [''run'', ''--deployment-receipt'', ''/d/deployment.json'']"
    by code_simp+
  have paths: "resolve_path attest_env (expanduser attest_env p) = p" for p by (simp add: attest_env_def sample_env_def)
  have parents: "reject (path_parent ''/w/o.json'' \<noteq> path_parent ''/w/t.json'' \<or> path_parent ''/w/b.json'' \<noteq> path_parent ''/w/t.json'')
    ''task template, output, and binding receipt must share one directory'' = Inr ()" by code_simp
  have stages: "dict_set ''stages'' (JList ([JObj sample_stage][0 := JObj (bind_stage sample_identity_text
       [''run'', ''--deployment-receipt'', ''/d/deployment.json''] ''svc-1'' sample_judge sample_stage)])) sample_template =
     sample_bound" by (simp add: sample_bound_def)
  obtain t where t: "parse_task attest_env (JObj sample_bound) ''/w/o.json'' = Inr t" using sample_bound_parses by blast
  have "\<exists>binding. bind_template attest_env ''now'' ''f'' ''/w/t.json'' ''/w/o.json'' ''/w/b.json'' sample_deployment
      [(''service_identity'', JStr ''id'')] sample_template = Inr (sample_bound, binding)"
    unfolding bind_template_def
    by (simp only: c sample_bound_consumed sample_digest stages t Let_def rbind.simps list.case json.case nth_Cons_0 sum.inject prod.inject
        HOL.simp_thms)
  then show ?thesis
    by (simp only: materialize_service_task_def paths parents load_template_def json_file.case json.case Let_def rbind.simps)
qed

section \<open>Properties\<close>

text \<open>C24: A task bound to a deployment parses, and one of its stages runs on that deployment:
  it has service execution, names the deployment, its judge identity holds the identity of the
  service with the deployment id and the digest of the deployment receipt, and its command
  hands over the path of the receipt.  The binding document carries the digest of this task.
  It is the service stage of the template at the same place; there, the two tokens are
  replaced and the deployment is named, and nothing else of the stage, of its judge or of the
  template has changed.\<close>

theorem bound_task_pins_service:
  assumes "materialize_service_task env now file_sha content template output binding_path s receipt = Inr (raw', binding)"
  shows "\<exists>raw stages stage stage' task i v before later. content = FileParsed (JObj raw) \<and>
      dget ''stages'' raw = JList stages \<and> i < length stages \<and> stages ! i = JObj stage \<and>
      dget ''stages'' raw' = JList (stages[i := JObj stage']) \<and> (\<forall>k. k \<noteq> ''stages'' \<longrightarrow> dict_get k raw' = dict_get k raw) \<and>
      stage_bound (bound_identity (py_str (float_text env) v) (sv_deployment_id s) (digest_json env (JObj receipt)))
        (resolve_path env (sv_deployment_receipt s)) (sv_deployment_id s) stage stage' \<and>
      parse_task env (JObj raw') (resolve_path env (expanduser env output)) = Inr task \<and>
      i < length (task_stages task) \<and> st_execution (task_stages task ! i) = Service \<and>
      st_service_deployment_id (task_stages task ! i) = Some (py_strip (sv_deployment_id s)) \<and>
      dict_get ''service_identity'' receipt = Some v \<and>
      st_judge_identity (task_stages task ! i) = py_strip (before @ bound_identity (py_str (float_text env) v)
        (sv_deployment_id s) (digest_json env (JObj receipt)) @ later) \<and>
      (\<exists>k. Suc k < length (st_command (task_stages task ! i)) \<and>
         st_command (task_stages task ! i) ! k = ''--deployment-receipt'' \<and>
         st_command (task_stages task ! i) ! Suc k = resolve_path env (sv_deployment_receipt s)) \<and>
      dget ''task_sha256'' binding = JStr (task_digest task)"
proof -
  from assms obtain raw where raw: "load_template content (resolve_path env (expanduser env template)) = Inr raw"
    "bind_template env now file_sha (resolve_path env (expanduser env template)) (resolve_path env (expanduser env output))
       (resolve_path env (expanduser env binding_path)) s receipt raw = Inr (raw', binding)"
    by (auto simp: materialize_service_task_def Let_def)
  have "content = FileParsed (JObj raw)" using raw(1) by (auto simp: load_template_def split: json_file.splits json.splits)
  with bound_stage [OF raw(2)] show ?thesis by blast
qed

theorem bound_task_pins_service_witness:
  "\<exists>task i. parse_task attest_env (JObj sample_bound) ''/w/o.json'' = Inr task \<and> i < length (task_stages task) \<and>
     st_service_deployment_id (task_stages task ! i) = Some ''svc-1''"
proof -
  obtain binding where b: "materialize_service_task attest_env ''now'' ''f'' (FileParsed (JObj sample_template)) ''/w/t.json''
     ''/w/o.json'' ''/w/b.json'' sample_deployment [(''service_identity'', JStr ''id'')] = Inr (sample_bound, binding)"
    using sample_binding by blast
  have "py_strip (sv_deployment_id sample_deployment) = ''svc-1''" by code_simp
  moreover have "resolve_path attest_env (expanduser attest_env ''/w/o.json'') = ''/w/o.json''"
    by (simp add: attest_env_def sample_env_def)
  ultimately show ?thesis using bound_task_pins_service [OF b] by metis
qed

end
