(* ===== verification/Services.thy ===== *)
theory Services
  imports Service_Binding Attestation Runner
begin

text \<open>
  \<open>src/kernel_infra/services.py\<close>: the manager of broker-held services.  Its methods are
  coroutines of one event loop; each definition below is the code between two \<open>await\<close>s, so
  it runs without interleaving.  What a coroutine keeps across an \<open>await\<close> is its entry in
  \<open>mg_tasks\<close> or \<open>mg_pending\<close>.  \<open>Service_Lifecycle\<close> composes the sections.
\<close>

section \<open>Probes\<close>

text \<open>\<open>re.fullmatch\<close> of \<open>(\d+)\.(\d+)(?:\.\d+)?(?:\.dev\d+)?\<close> with its two groups.\<close>

definition span_digits :: "string \<Rightarrow> string \<times> string" where
  "span_digits s = (takeWhile is_digit s, dropWhile is_digit s)"

definition dev_suffix :: "string \<Rightarrow> bool" where
  "dev_suffix s \<longleftrightarrow> s = [] \<or> has_prefix ''.dev'' s \<and> drop 4 s \<noteq> [] \<and> list_all is_digit (drop 4 s)"

definition version_suffix :: "string \<Rightarrow> bool" where
  "version_suffix s \<longleftrightarrow> dev_suffix s \<or>
     (case s of c # cs \<Rightarrow> c = CHR ''.'' \<and> fst (span_digits cs) \<noteq> [] \<and> dev_suffix (snd (span_digits cs)) | [] \<Rightarrow> False)"

definition version_groups :: "string \<Rightarrow> (int \<times> int) option" where
  "version_groups s =
     (case span_digits s of (major, rest) \<Rightarrow>
        (case rest of
           c # cs \<Rightarrow>
             (case span_digits cs of (minor, tail) \<Rightarrow>
                if major \<noteq> [] \<and> c = CHR ''.'' \<and> minor \<noteq> [] \<and> version_suffix tail
                then Some (digits_value major, digits_value minor) else None)
         | [] \<Rightarrow> None))"

definition old_version :: "int \<times> int \<Rightarrow> bool" where
  "old_version v \<longleftrightarrow> fst v < 0 \<or> fst v = 0 \<and> snd v < 6"

definition validate_managed_broker :: "py_env \<Rightarrow> jdict \<Rightarrow> unit result" where
  "validate_managed_broker env snapshot =
     (let version = dget ''broker_version'' snapshot;
          text = (if py_truthy version then py_str (float_text env) version else [])
      in case version_groups text of
        None \<Rightarrow> Inl (RuntimeError ''managed services require a broker declaring version 0.6 or newer'')
      | Some v \<Rightarrow>
          if old_version v
          then Inl (RuntimeError ''managed services require a broker declaring version 0.6 or newer'')
          else if \<not> nonempty_str (dget ''instance_id'' snapshot)
          then Inl (RuntimeError ''managed services require a broker instance identity'')
          else if py_truthy (dget ''probe_error'' snapshot)
          then Inl (RuntimeError (''managed service broker probe failed: ''
                 @ py_str (float_text env) (dget ''probe_error'' snapshot)))
          else Inr ())"

text \<open>The help text of the client: \<open>Inl\<close> when it cannot run, else exit code, output and errors.\<close>

definition last_1000 :: "string \<Rightarrow> string" where
  "last_1000 s = drop (length s - 1000) s"

definition validate_managed_gpu_run :: "string + int \<times> string \<times> string \<Rightarrow> unit result" where
  "validate_managed_gpu_run probe =
     (case probe of
        Inl e \<Rightarrow> Inl (RuntimeError (''cannot inspect managed gpu-run client: '' @ e))
      | Inr (code, out, err) \<Rightarrow>
          (let detail = py_strip (last_1000 err) in
           if code \<noteq> 0
           then Inl (RuntimeError (''managed gpu-run client does not accept unknown estimates''
                  @ (if detail \<noteq> [] then '': '' @ detail else [])))
           else if \<not> is_substring ''--receipt-out'' out
           then Inl (RuntimeError ''managed gpu-run client does not support admission receipt output'')
           else Inr ()))"

section \<open>The manager\<close>

text \<open>
  The coroutine \<open>_run\<close> of a deployment: not begun, waiting for the process to be spawned,
  waiting for the process or the attestation (with the admission once it was read), serving,
  or closing, with the failure it noted.  \<open>Finished\<close> is a cancelled coroutine that did not
  reach the end of its \<open>finally\<close>.  A process is alive until its exit code is known.
\<close>

datatype service_phase =
    NotStarted
  | Spawning
  | Attesting "jdict option"
  | Serving
  | Closing "string option"
  | Finished

datatype service_process = NoProcess | Alive | Dead int

datatype idle_watch = NoWatch | Watching "py_float option"

record service_task =
  tk_spec :: service_spec
  tk_phase :: service_phase
  tk_process :: service_process
  tk_cancelled :: bool
  tk_idle :: idle_watch

record manager =
  mg_services :: service_store
  mg_runs :: run_store
  mg_tasks :: "service_task dict"
  mg_stop_reasons :: "string dict"
  mg_pending :: "(string \<times> string) list"

definition dict_del :: "string \<Rightarrow> 'a dict \<Rightarrow> 'a dict" where
  "dict_del k d = filter (\<lambda>(k', v). k' \<noteq> k) d"

lemma dict_get_del [simp, dict_simps]: "dict_get k (dict_del k' d) = (if k = k' then None else dict_get k d)"
  by (induction d) (auto simp: dict_del_def)

definition new_task :: "service_spec \<Rightarrow> service_task" where
  "new_task spec = \<lparr>tk_spec = spec, tk_phase = NotStarted, tk_process = NoProcess, tk_cancelled = False,
     tk_idle = NoWatch\<rparr>"

definition set_task :: "string \<Rightarrow> service_task \<Rightarrow> manager \<Rightarrow> manager" where
  "set_task did t m = m\<lparr>mg_tasks := dict_set did t (mg_tasks m)\<rparr>"

definition update_service ::
  "clock \<Rightarrow> string \<Rightarrow> string \<Rightarrow> (service_state \<Rightarrow> service_state) \<Rightarrow> manager \<Rightarrow> manager result" where
  "update_service clock did event f m =
     rbind (service_update_state clock did event f (mg_services m)) (\<lambda>(s, st). Inr (m\<lparr>mg_services := st\<rparr>))"

section \<open>Consumers and status\<close>

definition is_consumer :: "string \<Rightarrow> run_state \<Rightarrow> bool" where
  "is_consumer did s \<longleftrightarrow> \<not> is_terminal (rn_state s) \<and> did \<in> set (rn_service_deployment_ids s)"

text \<open>The daemon gives the manager its run store.\<close>

definition active_consumers :: "string \<Rightarrow> manager \<Rightarrow> string list" where
  "active_consumers did m = map rn_id (filter (is_consumer did) (list_states None (mg_runs m)))"

record service_status =
  ss_state :: service_state
  ss_consumers :: "string list"
  ss_consumer_count :: nat

definition service_status :: "string \<Rightarrow> manager \<Rightarrow> service_status result" where
  "service_status did m =
     rbind (service_read_state did (mg_services m)) (\<lambda>s.
     let consumers = active_consumers did m in
     Inr \<lparr>ss_state = s, ss_consumers = consumers, ss_consumer_count = length consumers\<rparr>)"

definition list_statuses :: "string option \<Rightarrow> manager \<Rightarrow> service_status list result" where
  "list_statuses sid m =
     rtraverse (\<lambda>s. service_status (sv_deployment_id s) m) (service_list_states sid (mg_services m))"

definition assert_task_deployments_ready :: "task_spec \<Rightarrow> manager \<Rightarrow> unit result" where
  "assert_task_deployments_ready task m =
     rbind (rtraverse (\<lambda>did.
       rbind (service_read_state did (mg_services m)) (\<lambda>s.
       if sv_state s \<noteq> SvcReady
       then Inl (ValueError (''task service deployment is not ready: '' @ did @ '' state=''
              @ service_lifecycle_name (sv_state s)))
       else Inr ())) (task_deployments task)) (\<lambda>_. Inr ())"

section \<open>Starting\<close>

text \<open>
  What the preflight asks: which directories exist, whether the endpoint accepts a
  connection, what the broker and the client answer.
\<close>

record preflight_world =
  pw_is_dir :: "string \<Rightarrow> bool"
  pw_in_use :: "string \<Rightarrow> bool"
  pw_broker :: "jdict result"
  pw_client :: "string + int \<times> string \<times> string"

definition open_service :: "service_state \<Rightarrow> bool" where
  "open_service s \<longleftrightarrow> \<not> service_terminal (sv_state s)"

definition preflight :: "py_env \<Rightarrow> preflight_world \<Rightarrow> service_spec \<Rightarrow> manager \<Rightarrow> jdict result" where
  "preflight env w spec m =
     (if \<not> pw_is_dir w (ms_cwd spec)
      then Inl (ValueError (''service launch cwd is not a directory: '' @ ms_cwd spec))
      else if \<not> pw_is_dir w (ms_source_root spec)
      then Inl (ValueError (''service source root is not a directory: '' @ ms_source_root spec))
      else let active = filter open_service (service_list_states (Some (ms_service_id spec)) (mg_services m)) in
        if active \<noteq> []
        then Inl (ValueError (''service '' @ repr_str (ms_service_id spec) @ '' already has active deployment ''
               @ sv_deployment_id (last active)))
        else if pw_in_use w (ms_service_url spec)
        then Inl (ValueError (''service endpoint is already in use before launch: '' @ ms_service_url spec))
        else rbind (pw_broker w) (\<lambda>broker.
             rbind (validate_managed_broker env broker) (\<lambda>_.
             rbind (validate_managed_gpu_run (pw_client w)) (\<lambda>_. Inr broker))))"

definition preflight_document :: "string \<Rightarrow> string \<Rightarrow> string \<Rightarrow> service_spec \<Rightarrow> jdict \<Rightarrow> jdict" where
  "preflight_document now socket gpu_run spec broker =
     [(''schema'', JStr ''kernelinfra.service-preflight.v1''), (''checked_at'', JStr now),
      (''service_id'', JStr (ms_service_id spec)), (''service_sha256'', JStr (ms_digest spec)),
      (''broker_socket'', JStr socket), (''broker_version'', dget ''broker_version'' broker),
      (''broker_instance_id'', dget ''instance_id'' broker), (''gpu_run'', JStr gpu_run),
      (''estimate_unknown'', JBool True), (''admission_receipt_output'', JBool True)]"

definition start_service ::
  "py_env \<Rightarrow> clock \<Rightarrow> string \<Rightarrow> string \<Rightarrow> preflight_world \<Rightarrow> service_spec \<Rightarrow> manager \<Rightarrow> (service_state \<times> manager) result" where
  "start_service env clock home suffix w spec m =
     rbind (preflight env w spec m) (\<lambda>_.
     rbind (create_deployment clock home suffix spec (mg_services m)) (\<lambda>(s, st).
     Inr (s, set_task (sv_deployment_id s) (new_task spec) (m\<lparr>mg_services := st\<rparr>))))"

definition service_command :: "py_env \<Rightarrow> string \<Rightarrow> string \<Rightarrow> string \<Rightarrow> string \<Rightarrow> service_spec \<Rightarrow> string list" where
  "service_command env gpu_run socket admission_path did spec =
     (let r = ms_resources spec in
      [gpu_run, ''--socket'', socket,
       ''--label'', take 160 (''ki-service:'' @ ms_service_id spec @ '':'' @ did),
       ''--mode'', ''exclusive'', ''--gpu-count'', int_text (vr_gpu_count r), ''--owner'', ms_owner spec,
       ''--estimate'', (case vr_estimate_s r of None \<Rightarrow> ''unknown'' | Some x \<Rightarrow> float_text env x),
       ''--run-timeout'', float_text env (vr_run_timeout_s r), ''--receipt-out'', admission_path] @
      (case vr_queue_timeout_s r of None \<Rightarrow> [] | Some x \<Rightarrow> [''--queue-timeout'', float_text env x]) @
      concat (map (\<lambda>(k, v). [''--env'', k @ ''='' @ v]) (sort_key fst (ms_env spec))) @
      [''--''] @ ms_command spec)"

section \<open>The coroutine of a deployment\<close>

text \<open>Its first section; then the process is being spawned.\<close>

definition begin_run :: "clock \<Rightarrow> string \<Rightarrow> service_task \<Rightarrow> manager \<Rightarrow> manager result" where
  "begin_run clock did t m =
     rbind (update_service clock did ''starting'' (\<lambda>s. s\<lparr>sv_state := SvcStarting\<rparr>) m) (\<lambda>m1.
     Inr (set_task did (t\<lparr>tk_phase := Spawning\<rparr>) m1))"

definition spawned :: "string \<Rightarrow> service_task \<Rightarrow> manager \<Rightarrow> manager" where
  "spawned did t m = set_task did (t\<lparr>tk_phase := Attesting None, tk_process := Alive\<rparr>) m"

text \<open>
  The handlers of \<open>_run\<close>: a cancellation notes no failure, any other exception is described;
  the process is interrupted, and the coroutine goes on to its \<open>finally\<close>.
\<close>

definition run_raises :: "string \<Rightarrow> service_task \<Rightarrow> exn option \<Rightarrow> manager \<Rightarrow> manager" where
  "run_raises did t e m = set_task did (t\<lparr>tk_phase := Closing (map_option exn_described e)\<rparr>) m"

definition exited_early :: "string \<Rightarrow> service_task \<Rightarrow> int \<Rightarrow> manager \<Rightarrow> manager" where
  "exited_early did t code m =
     set_task did (t\<lparr>tk_phase := Closing (Some (''service gpu-run exited before readiness: '' @ int_text code))\<rparr>) m"

definition process_exits :: "string \<Rightarrow> service_task \<Rightarrow> int \<Rightarrow> manager \<Rightarrow> manager" where
  "process_exits did t code m = set_task did (t\<lparr>tk_process := Dead code\<rparr>) m"

definition exit_code_text :: "service_process \<Rightarrow> string" where
  "exit_code_text p = (case p of Dead code \<Rightarrow> int_text code | _ \<Rightarrow> ''None'')"

text \<open>The end of \<open>finally\<close>.\<close>

definition close_service :: "clock \<Rightarrow> string \<Rightarrow> service_task \<Rightarrow> string option \<Rightarrow> manager \<Rightarrow> manager result" where
  "close_service clock did t failure m =
     rbind (case dict_get did (mg_stop_reasons m) of
              Some reason \<Rightarrow>
                update_service clock did ''stopped'' (\<lambda>s. s\<lparr>sv_state := SvcStopped, sv_reason := Some reason\<rparr>) m
            | None \<Rightarrow>
                (let why = (case failure of Some f \<Rightarrow> f
                     | None \<Rightarrow> ''service gpu-run exited unexpectedly: '' @ exit_code_text (tk_process t))
                 in update_service clock did ''failed'' (\<lambda>s. s\<lparr>sv_state := SvcFailed, sv_reason := Some why\<rparr>) m))
       (\<lambda>m1. Inr (m1\<lparr>mg_tasks := dict_del did (mg_tasks m1), mg_stop_reasons := dict_del did (mg_stop_reasons m1)\<rparr>))"

section \<open>Attestation\<close>

text \<open>The ids as the integers they are equal to.\<close>

fun gpu_id_value :: "json \<Rightarrow> int" where
  "gpu_id_value (JInt i) = i"
| "gpu_id_value (JBool b) = (if b then 1 else 0)"
| "gpu_id_value (JFloat (Fin q)) = \<lfloor>q\<rfloor>"
| "gpu_id_value _ = 0"

definition gpu_id_values :: "json \<Rightarrow> int list" where
  "gpu_id_values v = map gpu_id_value (json_items v)"

text \<open>The admission file appeared and was loaded.\<close>

definition admission_read :: "clock \<Rightarrow> string \<Rightarrow> service_task \<Rightarrow> jdict \<Rightarrow> manager \<Rightarrow> manager result" where
  "admission_read clock did t admission m =
     rbind (update_service clock did ''broker_started''
       (\<lambda>s. s\<lparr>sv_broker_job_id := Some (str_of_json (dget ''job_id'' admission)),
              sv_gpu_ids := gpu_id_values (dget ''gpu_ids'' admission)\<rparr>) m) (\<lambda>m1.
     Inr (set_task did (t\<lparr>tk_phase := Attesting (Some admission)\<rparr>) m1))"

definition admission_identity :: "py_env \<Rightarrow> service_spec \<Rightarrow> jdict \<Rightarrow> string" where
  "admission_identity env spec admission =
     ms_identity_prefix spec
       @ ''+admission@sha256:'' @ py_str (float_text env) (dget ''launch_spec_sha256'' admission)
       @ ''+executable@sha256:'' @ py_str (float_text env) (dget ''executable_sha256'' admission)"

definition attest_service ::
  "py_env \<Rightarrow> outside \<Rightarrow> string \<Rightarrow> string \<Rightarrow> json_file \<Rightarrow> string \<Rightarrow> service_spec \<Rightarrow> jdict \<Rightarrow> jdict result" where
  "attest_service env out now socket content path spec admission =
     build_service_receipt env out now socket (str_of_json (dget ''job_id'' admission)) content path
       (ms_service_url spec) (admission_identity env spec admission) (ms_source_root spec)"

text \<open>The attestation returned: the receipt is written and the deployment becomes ready.\<close>

definition become_ready :: "clock \<Rightarrow> string \<Rightarrow> service_task \<Rightarrow> string \<Rightarrow> jdict \<Rightarrow> manager \<Rightarrow> manager result" where
  "become_ready clock did t identity receipt m =
     rbind (write_deployment_receipt did (JObj receipt) (mg_services m)) (\<lambda>st.
     rbind (update_service clock did ''ready''
       (\<lambda>s. s\<lparr>sv_state := SvcReady, sv_service_identity := Some identity,
              sv_broker_job_id := Some (str_of_json (dget ''broker_job_id'' receipt)),
              sv_gpu_ids := gpu_id_values (dget ''broker_gpu_ids'' receipt), sv_reason := None\<rparr>)
       (m\<lparr>mg_services := st\<rparr>)) (\<lambda>m1.
     Inr (set_task did (t\<lparr>tk_phase := Serving,
            tk_idle := (if ms_idle_grace_s (tk_spec t) = None then NoWatch else Watching None)\<rparr>) m1)))"

text \<open>A line of the client's stderr.  A malformed id list ends the pump without a change.\<close>

definition service_line :: "clock \<Rightarrow> string \<Rightarrow> string \<Rightarrow> manager \<Rightarrow> manager result" where
  "service_line clock did line m =
     (let text = py_strip line in
      case accepted_job text of
        Some job \<Rightarrow> update_service clock did ''broker_accepted'' (\<lambda>s. s\<lparr>sv_broker_job_id := Some job\<rparr>) m
      | None \<Rightarrow>
          (case gpu_ids_text text of
             None \<Rightarrow> Inr m
           | Some ids_text \<Rightarrow> rbind (parse_gpu_ids ids_text) (\<lambda>ids.
               update_service clock did ''broker_running'' (\<lambda>s. s\<lparr>sv_gpu_ids := ids\<rparr>) m)))"

section \<open>Stopping\<close>

text \<open>
  The first section of \<open>stop\<close>: an alive process is interrupted, otherwise the coroutine is
  cancelled.  The second runs when the coroutine has ended.
\<close>

definition signal_task :: "service_task \<Rightarrow> service_task" where
  "signal_task t = (if tk_process t = Alive \<or> tk_phase t = Finished then t else t\<lparr>tk_cancelled := True\<rparr>)"

definition stop_request :: "clock \<Rightarrow> string \<Rightarrow> string \<Rightarrow> manager \<Rightarrow> (bool \<times> manager) result" where
  "stop_request clock did reason m =
     rbind (service_read_state did (mg_services m)) (\<lambda>s.
     if service_terminal (sv_state s) then Inr (False, m)
     else
       let consumers = active_consumers did m in
       if consumers \<noteq> []
       then Inl (ValueError (''service deployment has active consumers: '' @ join '','' consumers))
       else
         rbind (update_service clock did ''stop_requested'' (\<lambda>x. x\<lparr>sv_state := SvcStopping, sv_reason := Some reason\<rparr>)
                  (m\<lparr>mg_stop_reasons := dict_set did reason (mg_stop_reasons m)\<rparr>)) (\<lambda>m1.
         let m2 = (case dict_get did (mg_tasks m1) of None \<Rightarrow> m1 | Some t \<Rightarrow> set_task did (signal_task t) m1)
         in Inr (True, m2\<lparr>mg_pending := (did, reason) # mg_pending m2\<rparr>)))"

definition stop_finish :: "clock \<Rightarrow> string \<Rightarrow> string \<Rightarrow> manager \<Rightarrow> manager result" where
  "stop_finish clock did reason m =
     (let m0 = m\<lparr>mg_pending := remove1 (did, reason) (mg_pending m)\<rparr> in
      rbind (service_read_state did (mg_services m0)) (\<lambda>s.
      if service_terminal (sv_state s) then Inr m0
      else
        rbind (update_service clock did ''stopped'' (\<lambda>x. x\<lparr>sv_state := SvcStopped, sv_reason := Some reason\<rparr>) m0)
          (\<lambda>m1. Inr (m1\<lparr>mg_tasks := dict_del did (mg_tasks m1),
                        mg_stop_reasons := dict_del did (mg_stop_reasons m1)\<rparr>))))"

text \<open>At shutdown every coroutine that has not ended is asked to stop; refusals are ignored.\<close>

definition close_manager :: "clock \<Rightarrow> manager \<Rightarrow> manager" where
  "close_manager clock m =
     foldl (\<lambda>acc did. case stop_request clock did ''kernel-infrad shutting down'' acc of Inl e \<Rightarrow> acc | Inr (b, m') \<Rightarrow> m') m
       (dict_keys (filter (\<lambda>(did, t). tk_phase t \<noteq> Finished) (mg_tasks m)))"

section \<open>The idle watcher\<close>

text \<open>One turn of its loop at monotonic time \<open>moment\<close>; \<open>since\<close> is its local start of idleness.\<close>

definition set_watch :: "string \<Rightarrow> idle_watch \<Rightarrow> manager \<Rightarrow> manager" where
  "set_watch did w m =
     (case dict_get did (mg_tasks m) of None \<Rightarrow> m | Some t \<Rightarrow> set_task did (t\<lparr>tk_idle := w\<rparr>) m)"

definition idle_stop :: "py_env \<Rightarrow> clock \<Rightarrow> string \<Rightarrow> py_float \<Rightarrow> manager \<Rightarrow> manager result" where
  "idle_stop env clock did grace m =
     rbind (service_read_state did (mg_services m)) (\<lambda>current.
     if sv_state current = SvcReady \<and> active_consumers did m = []
     then let reason = ''idle grace elapsed with zero consumers: '' @ float_general env grace @ ''s'' in
       update_service clock did ''idle_stop_requested'' (\<lambda>x. x\<lparr>sv_state := SvcStopping, sv_reason := Some reason\<rparr>)
         (m\<lparr>mg_stop_reasons := dict_set did reason (mg_stop_reasons m)\<rparr>)
     else Inr m)"

definition idle_turn ::
  "py_env \<Rightarrow> clock \<Rightarrow> string \<Rightarrow> py_float \<Rightarrow> py_float \<Rightarrow> py_float option \<Rightarrow> manager \<Rightarrow> manager result" where
  "idle_turn env clock did grace moment since m =
     rbind (service_read_state did (mg_services m)) (\<lambda>s.
     if sv_state s \<noteq> SvcReady then Inr (set_watch did NoWatch m)
     else if active_consumers did m \<noteq> []
     then rbind (if sv_idle_since s \<noteq> None
                 then update_service clock did ''idle_cleared'' (\<lambda>x. x\<lparr>sv_idle_since := None\<rparr>) m
                 else Inr m) (\<lambda>m1. Inr (set_watch did (Watching None) m1))
     else (case since of
        None \<Rightarrow>
          rbind (if sv_idle_since s = None
                 then (case service_now clock (mg_services m) of (now, st) \<Rightarrow>
                   update_service clock did ''idle_started'' (\<lambda>x. x\<lparr>sv_idle_since := Some now\<rparr>) (m\<lparr>mg_services := st\<rparr>))
                 else Inr m) (\<lambda>m1. Inr (set_watch did (Watching (Some moment)) m1))
      | Some started \<Rightarrow>
          if flt_le grace (flt_sub moment started)
          then rbind (idle_stop env clock did grace m) (\<lambda>m1. Inr (set_watch did NoWatch m1))
          else Inr m))"

section \<open>Startup\<close>

text \<open>The broker job of each open deployment is cancelled first, then the deployment is closed.\<close>

definition reconcile_service ::
  "clock \<Rightarrow> (string \<Rightarrow> bool result) \<Rightarrow> service_state \<Rightarrow> service_store \<Rightarrow> service_store result" where
  "reconcile_service clock cancel s st =
     (case sv_broker_job_id s of
        None \<Rightarrow> Inr st
      | Some job \<Rightarrow>
          if job = [] then Inr st
          else rbind (cancel job) (\<lambda>cancelled.
               rbind (service_update_state clock (sv_deployment_id s) ''recovery_broker_reconciled''
                 (\<lambda>x. x\<lparr>sv_reason := Some (''startup reconciled broker job '' @ job @ ''; cancelled=''
                    @ (if cancelled then ''true'' else ''false''))\<rparr>) st) (\<lambda>(x, st'). Inr st')))"

definition recover_service ::
  "clock \<Rightarrow> (string \<Rightarrow> bool result) \<Rightarrow> service_store \<Rightarrow> service_state \<Rightarrow> service_store result" where
  "recover_service clock cancel st s =
     rbind (reconcile_service clock cancel s st) (\<lambda>st1.
     rbind (service_update_state clock (sv_deployment_id s) ''interrupted'' interrupt_service st1) (\<lambda>(x, st2). Inr st2))"

definition recover_services :: "clock \<Rightarrow> (string \<Rightarrow> bool result) \<Rightarrow> service_store \<Rightarrow> (nat \<times> service_store) result" where
  "recover_services clock cancel st =
     (let active = filter open_service (service_list_states None st) in
      rbind (rfold (recover_service clock cancel) st active) (\<lambda>st'. Inr (length active, st')))"

section \<open>Binding a task\<close>

text \<open>
  \<open>bind_task\<close> before and after the verification of the receipt, which runs in a thread while
  the event loop goes on.
\<close>

definition bind_begin ::
  "py_env \<Rightarrow> string \<Rightarrow> string \<Rightarrow> (string \<Rightarrow> bool) \<Rightarrow> string \<Rightarrow> manager \<Rightarrow> (service_state \<times> jdict) result" where
  "bind_begin env output_path binding_path path_exists did m =
     (let output = resolve_path env (expanduser env output_path);
          binding_output = resolve_path env (expanduser env binding_path)
      in if output = binding_output then Inl (ValueError ''task output and binding receipt paths must differ'')
         else if path_exists output then Inl (ValueError (''refusing to overwrite task output: '' @ output))
         else if path_exists binding_output
         then Inl (ValueError (''refusing to overwrite task binding receipt: '' @ binding_output))
         else rbind (service_read_files did (mg_services m)) (\<lambda>files.
           let s = vf_state files in
           if sv_state s \<noteq> SvcReady
           then Inl (ValueError (''service deployment is not ready: '' @ did @ '' state=''
                  @ service_lifecycle_name (sv_state s)))
           else rbind (load_service_receipt env
                  (case vf_receipt files of None \<Rightarrow> FileMissing | Some v \<Rightarrow> FileParsed v)
                  (resolve_path env (sv_deployment_receipt s))) (\<lambda>receipt. Inr (s, receipt))))"

definition same_deployment :: "service_state \<Rightarrow> service_state \<Rightarrow> bool" where
  "same_deployment current s \<longleftrightarrow>
     sv_service_sha256 current = sv_service_sha256 s \<and> sv_service_identity current = sv_service_identity s \<and>
     sv_deployment_receipt current = sv_deployment_receipt s \<and> sv_broker_job_id current = sv_broker_job_id s \<and>
     sv_gpu_ids current = sv_gpu_ids s"

definition bind_finish ::
  "py_env \<Rightarrow> outside \<Rightarrow> string \<Rightarrow> string \<Rightarrow> json_file \<Rightarrow> string \<Rightarrow> string \<Rightarrow> string \<Rightarrow> string \<Rightarrow> service_state \<Rightarrow> jdict \<Rightarrow>
   manager \<Rightarrow> (jdict \<times> jdict) result" where
  "bind_finish env out now file_sha content template_path output_path binding_path did s receipt m =
     rbind (verify_service_receipt env out receipt) (\<lambda>_.
     rbind (service_read_state did (mg_services m)) (\<lambda>current.
     if sv_state current \<noteq> SvcReady \<or> \<not> same_deployment current s
     then Inl (RuntimeError ''service deployment changed during task binding'')
     else materialize_service_task env now file_sha content template_path
            (resolve_path env (expanduser env output_path)) (resolve_path env (expanduser env binding_path)) s receipt))"

end
