(* ===== verification/Service_Lifecycle.thy ===== *)
theory Service_Lifecycle
  imports Services
begin

text \<open>
  The sections of the service manager composed as the event loop composes them, in any
  order its coroutines allow, together with the submission of runs and the updates the
  runner makes of them.  The invariant of the manager, and the lifecycle that every
  deployment follows.
\<close>

section \<open>Steps of the event loop\<close>

text \<open>What an update of a run keeps: its id, its deployments, and that it has ended.\<close>

definition run_update :: "(run_state \<Rightarrow> run_state) \<Rightarrow> bool" where
  "run_update f \<longleftrightarrow> (\<forall>x. rn_id (f x) = rn_id x \<and> rn_service_deployment_ids (f x) = rn_service_deployment_ids x \<and>
     (is_terminal (rn_state x) \<longrightarrow> is_terminal (rn_state (f x))))"

definition interruptible :: "service_phase \<Rightarrow> bool" where
  "interruptible p \<longleftrightarrow> (case p of Spawning \<Rightarrow> True | Attesting a \<Rightarrow> True | Serving \<Rightarrow> True | _ \<Rightarrow> False)"

definition unfinishable :: "service_phase \<Rightarrow> bool" where
  "unfinishable p \<longleftrightarrow> (case p of NotStarted \<Rightarrow> True | Closing f \<Rightarrow> True | _ \<Rightarrow> False)"

definition task_ended :: "string \<Rightarrow> manager \<Rightarrow> bool" where
  "task_ended did m \<longleftrightarrow> (case dict_get did (mg_tasks m) of None \<Rightarrow> True | Some t \<Rightarrow> tk_phase t = Finished)"

inductive manager_step :: "py_env \<Rightarrow> clock \<Rightarrow> string \<Rightarrow> manager \<Rightarrow> manager \<Rightarrow> bool"
  for env clock home where
  start: "start_service env clock home suffix w spec m = Inr (s, m') \<Longrightarrow> manager_step env clock home m m'"
| begins: "dict_get did (mg_tasks m) = Some t \<Longrightarrow> tk_phase t = NotStarted \<Longrightarrow> \<not> tk_cancelled t \<Longrightarrow>
    begin_run clock did t m = Inr m' \<Longrightarrow> manager_step env clock home m m'"
| dropped: "dict_get did (mg_tasks m) = Some t \<Longrightarrow> unfinishable (tk_phase t) \<Longrightarrow> tk_cancelled t \<Longrightarrow>
    manager_step env clock home m (set_task did (t\<lparr>tk_phase := Finished\<rparr>) m)"
| spawns: "dict_get did (mg_tasks m) = Some t \<Longrightarrow> tk_phase t = Spawning \<Longrightarrow> \<not> tk_cancelled t \<Longrightarrow>
    manager_step env clock home m (spawned did t m)"
| spawn_fails: "dict_get did (mg_tasks m) = Some t \<Longrightarrow> tk_phase t = Spawning \<Longrightarrow>
    manager_step env clock home m (run_raises did t (Some e) m)"
| interrupted: "dict_get did (mg_tasks m) = Some t \<Longrightarrow> interruptible (tk_phase t) \<Longrightarrow> tk_cancelled t \<Longrightarrow>
    manager_step env clock home m (run_raises did (t\<lparr>tk_process := p\<rparr>) None m)"
| admitted: "dict_get did (mg_tasks m) = Some t \<Longrightarrow> tk_phase t = Attesting None \<Longrightarrow>
    load_admission env content path = Inr admission \<Longrightarrow> admission_read clock did t admission m = Inr m' \<Longrightarrow>
    manager_step env clock home m m'"
| attest_raises: "dict_get did (mg_tasks m) = Some t \<Longrightarrow> tk_phase t = Attesting a \<Longrightarrow> \<not> tk_cancelled t \<Longrightarrow>
    manager_step env clock home m (run_raises did t (Some e) m)"
| exits_early: "dict_get did (mg_tasks m) = Some t \<Longrightarrow> tk_phase t = Attesting a \<Longrightarrow> \<not> tk_cancelled t \<Longrightarrow>
    tk_process t = Dead code \<Longrightarrow> manager_step env clock home m (exited_early did t code m)"
| ready: "dict_get did (mg_tasks m) = Some t \<Longrightarrow> tk_phase t = Attesting (Some admission) \<Longrightarrow> \<not> tk_cancelled t \<Longrightarrow>
    attest_service env out now socket content path (tk_spec t) admission = Inr receipt \<Longrightarrow>
    become_ready clock did t (admission_identity env (tk_spec t) admission) receipt m = Inr m' \<Longrightarrow>
    manager_step env clock home m m'"
| served: "dict_get did (mg_tasks m) = Some t \<Longrightarrow> tk_phase t = Serving \<Longrightarrow> \<not> tk_cancelled t \<Longrightarrow>
    tk_process t = Dead code \<Longrightarrow> manager_step env clock home m (run_raises did t None m)"
| exits: "dict_get did (mg_tasks m) = Some t \<Longrightarrow> tk_process t = Alive \<Longrightarrow>
    manager_step env clock home m (process_exits did t code m)"
| line: "dict_get did (mg_tasks m) = Some t \<Longrightarrow> tk_process t \<noteq> NoProcess \<Longrightarrow>
    service_line clock did text m = Inr m' \<Longrightarrow> manager_step env clock home m m'"
| closes: "dict_get did (mg_tasks m) = Some t \<Longrightarrow> tk_phase t = Closing failure \<Longrightarrow> tk_process t \<noteq> Alive \<Longrightarrow>
    close_service clock did t failure m = Inr m' \<Longrightarrow> manager_step env clock home m m'"
| stop: "stop_request clock did reason m = Inr (b, m') \<Longrightarrow> manager_step env clock home m m'"
| stop_ends: "(did, reason) \<in> set (mg_pending m) \<Longrightarrow> task_ended did m \<Longrightarrow>
    stop_finish clock did reason m = Inr m' \<Longrightarrow> manager_step env clock home m m'"
| idle: "dict_get did (mg_tasks m) = Some t \<Longrightarrow> tk_idle t = Watching since \<Longrightarrow>
    ms_idle_grace_s (tk_spec t) = Some grace \<Longrightarrow> idle_turn env clock did grace moment since m = Inr m' \<Longrightarrow>
    manager_step env clock home m m'"
| submits: "assert_task_deployments_ready task m = Inr () \<Longrightarrow>
    submit env clock probe suffix task candidate content label (mg_runs m) = Inr (r, runs) \<Longrightarrow>
    manager_step env clock home m (m\<lparr>mg_runs := runs\<rparr>)"
| run_moves: "update_state clock rid event f (mg_runs m) = Inr (r, runs) \<Longrightarrow> run_update f \<Longrightarrow>
    manager_step env clock home m (m\<lparr>mg_runs := runs\<rparr>)"

text \<open>After startup no coroutine exists and every deployment has ended.\<close>

definition started_manager :: "manager \<Rightarrow> bool" where
  "started_manager m \<longleftrightarrow> wf_services (mg_services m) \<and> mg_tasks m = [] \<and> mg_stop_reasons m = [] \<and> mg_pending m = [] \<and>
     (\<forall>did s. peek_service (mg_services m) did = Some s \<longrightarrow> \<not> open_service s)"

inductive manager_reachable :: "py_env \<Rightarrow> clock \<Rightarrow> string \<Rightarrow> manager \<Rightarrow> bool" for env clock home where
  initial: "started_manager m \<Longrightarrow> manager_reachable env clock home m"
| step: "manager_reachable env clock home m \<Longrightarrow> manager_step env clock home m m' \<Longrightarrow> manager_reachable env clock home m'"

section \<open>The abstract lifecycle\<close>

fun service_moves :: "service_lifecycle \<Rightarrow> service_lifecycle \<Rightarrow> bool" where
  "service_moves SvcAccepted y \<longleftrightarrow> y \<in> {SvcStarting, SvcStopping}"
| "service_moves SvcStarting y \<longleftrightarrow> y \<in> {SvcReady, SvcStopping, SvcFailed}"
| "service_moves SvcReady y \<longleftrightarrow> y \<in> {SvcStopping, SvcStopped, SvcFailed}"
| "service_moves SvcStopping y \<longleftrightarrow> y \<in> {SvcStopped, SvcReady}"
| "service_moves _ y \<longleftrightarrow> False"

definition lifecycle_of :: "string \<Rightarrow> manager \<Rightarrow> service_lifecycle option" where
  "lifecycle_of did m = map_option sv_state (peek_service (mg_services m) did)"

definition abstract_move :: "service_lifecycle option \<Rightarrow> service_lifecycle option \<Rightarrow> bool" where
  "abstract_move a b \<longleftrightarrow> a = b \<or> a = None \<and> b = Some SvcAccepted \<or> (\<exists>x y. a = Some x \<and> b = Some y \<and> service_moves x y)"

section \<open>The invariant\<close>

text \<open>
  For one deployment: its lifecycle state, its coroutine, whether a stop reason is noted,
  whether a \<open>stop\<close> waits for the coroutine, whether no open run uses it.
\<close>

definition task_inv :: "service_task \<Rightarrow> service_lifecycle \<Rightarrow> bool \<Rightarrow> bool" where
  "task_inv t x pending \<longleftrightarrow> (tk_cancelled t \<longrightarrow> pending) \<and>
     (case tk_phase t of
        NotStarted \<Rightarrow> tk_process t = NoProcess \<and> (x = SvcAccepted \<and> \<not> tk_cancelled t \<or> x = SvcStopping \<and> tk_cancelled t)
      | Spawning \<Rightarrow> x \<in> {SvcStarting, SvcStopping}
      | Attesting a \<Rightarrow> x \<in> {SvcStarting, SvcStopping}
      | Serving \<Rightarrow> x \<in> {SvcReady, SvcStopping}
      | Closing f \<Rightarrow> x \<in> {SvcStarting, SvcReady, SvcStopping}
      | Finished \<Rightarrow> tk_cancelled t)"

definition deployment_inv ::
  "service_lifecycle option \<Rightarrow> service_task option \<Rightarrow> bool \<Rightarrow> bool \<Rightarrow> bool \<Rightarrow> bool" where
  "deployment_inv state task stopping pending unused \<longleftrightarrow>
     (case state of
        None \<Rightarrow> task = None \<and> \<not> stopping \<and> \<not> pending
      | Some x \<Rightarrow>
          (service_terminal x \<longleftrightarrow> task = None) \<and> (stopping \<longrightarrow> x \<in> {SvcStopping, SvcReady}) \<and>
          (x = SvcStopping \<longrightarrow> stopping \<and> unused) \<and> (pending \<and> \<not> service_terminal x \<longrightarrow> stopping) \<and>
          (\<forall>t. task = Some t \<longrightarrow> task_inv t x pending))"

definition manager_inv :: "manager \<Rightarrow> bool" where
  "manager_inv m \<longleftrightarrow> (\<forall>did. deployment_inv (lifecycle_of did m) (dict_get did (mg_tasks m))
     (dict_get did (mg_stop_reasons m) \<noteq> None) (\<exists>reason. (did, reason) \<in> set (mg_pending m))
     (active_consumers did m = []))"

lemmas inv_defs = deployment_inv_def task_inv_def

section \<open>What the sections change\<close>

lemma update_service_Inr:
  assumes "update_service clock did event f m = Inr m'"
  shows "\<exists>s st. peek_service (mg_services m) did = Some s \<and> m' = m\<lparr>mg_services := st\<rparr> \<and>
    peek_service st did = Some (service_stamp (clock (svc_tick (mg_services m))) (f s)) \<and>
    (\<forall>k. k \<noteq> did \<longrightarrow> peek_service st k = peek_service (mg_services m) k)"
proof -
  from assms obtain s' st where u: "service_update_state clock did event f (mg_services m) = Inr (s', st)"
    "m' = m\<lparr>mg_services := st\<rparr>" by (auto simp: update_service_def)
  from services.update_Inr [OF u(1)] u(2) show ?thesis by blast
qed

lemma update_service_wf:
  "update_service clock did event f m = Inr m' \<Longrightarrow> wf_services (mg_services m) \<Longrightarrow>
    (\<And>x. sv_deployment_id (f x) = sv_deployment_id x) \<Longrightarrow> wf_services (mg_services m')"
  by (auto simp: update_service_def dest: service_update_wf)

lemma consumers_none:
  "active_consumers did m = [] \<longleftrightarrow> (\<forall>p \<in> set (store_runs (mg_runs m)). \<not> is_consumer did (rf_state (snd p)))"
  by (auto simp: active_consumers_def list_states_def filter_empty_conv)

lemma consumers_same: "mg_runs m' = mg_runs m \<Longrightarrow> active_consumers did m' = active_consumers did m"
  by (simp add: active_consumers_def)

text \<open>What every step from a state of the invariant does.\<close>

definition sound_step :: "manager \<Rightarrow> manager \<Rightarrow> bool" where
  "sound_step m m' \<longleftrightarrow> manager_inv m' \<and> (\<forall>did. abstract_move (lifecycle_of did m) (lifecycle_of did m')) \<and>
     (\<forall>did s s'. peek_service (mg_services m) did = Some s \<longrightarrow> peek_service (mg_services m') did = Some s' \<longrightarrow>
        sv_service_id s' = sv_service_id s)"

text \<open>A section touches one deployment; then that deployment is all there is to look at.\<close>

definition deployment_sound :: "string \<Rightarrow> manager \<Rightarrow> bool" where
  "deployment_sound did m \<longleftrightarrow> deployment_inv (lifecycle_of did m) (dict_get did (mg_tasks m))
     (dict_get did (mg_stop_reasons m) \<noteq> None) (\<exists>reason. (did, reason) \<in> set (mg_pending m))
     (active_consumers did m = [])"

lemma manager_inv_sound: "manager_inv m \<longleftrightarrow> (\<forall>did. deployment_sound did m)"
  by (simp add: manager_inv_def deployment_sound_def)

lemma sound_local:
  assumes "manager_inv m" and "mg_runs m' = mg_runs m"
    and "\<And>k. k \<noteq> did \<Longrightarrow> peek_service (mg_services m') k = peek_service (mg_services m) k \<and>
      dict_get k (mg_tasks m') = dict_get k (mg_tasks m) \<and>
      dict_get k (mg_stop_reasons m') = dict_get k (mg_stop_reasons m) \<and>
      ((\<exists>reason. (k, reason) \<in> set (mg_pending m')) \<longleftrightarrow> (\<exists>reason. (k, reason) \<in> set (mg_pending m)))"
    and "deployment_sound did m \<Longrightarrow> deployment_sound did m'"
    and "deployment_sound did m \<Longrightarrow> abstract_move (lifecycle_of did m) (lifecycle_of did m')"
    and "\<And>s s'. peek_service (mg_services m) did = Some s \<Longrightarrow> peek_service (mg_services m') did = Some s' \<Longrightarrow>
      sv_service_id s' = sv_service_id s"
  shows "sound_step m m'"
proof -
  note same = consumers_same [OF assms(2)]
  have others: "deployment_sound k m' \<longleftrightarrow> deployment_sound k m" "lifecycle_of k m' = lifecycle_of k m" if "k \<noteq> did" for k
    using assms(3) [OF that] same by (simp_all add: deployment_sound_def lifecycle_of_def)
  have inv: "deployment_sound k m" for k using assms(1) by (simp add: manager_inv_sound)
  have "deployment_sound k m'" for k
    using others(1) [of k] inv [of k] assms(4) by (cases "k = did") simp_all
  moreover have "abstract_move (lifecycle_of k m) (lifecycle_of k m')" for k
    using others(2) [of k] assms(5) [OF inv] by (cases "k = did") (simp_all add: abstract_move_def)
  moreover have "sv_service_id s' = sv_service_id s"
    if "peek_service (mg_services m) k = Some s" "peek_service (mg_services m') k = Some s'" for k s s'
  proof (cases "k = did")
    case True
    show ?thesis using that unfolding True by (rule assms(6))
  next
    case False
    then have "peek_service (mg_services m') k = peek_service (mg_services m) k" using assms(3) by blast
    with that show ?thesis by simp
  qed
  ultimately show ?thesis by (simp add: sound_step_def manager_inv_sound)
qed

text \<open>A section that updates the record of the deployment, and one that only moves the coroutine.\<close>

lemma sound_update:
  assumes inv: "manager_inv m" and u: "update_service clock did event f m0 = Inr m1"
    and m0: "mg_services m0 = mg_services m" "mg_runs m' = mg_runs m" "mg_services m' = mg_services m1"
    and f: "\<And>x. sv_service_id (f x) = sv_service_id x"
    and others: "\<And>k. k \<noteq> did \<Longrightarrow> dict_get k (mg_tasks m') = dict_get k (mg_tasks m) \<and>
      dict_get k (mg_stop_reasons m') = dict_get k (mg_stop_reasons m) \<and>
      ((\<exists>reason. (k, reason) \<in> set (mg_pending m')) \<longleftrightarrow> (\<exists>reason. (k, reason) \<in> set (mg_pending m)))"
    and here: "\<And>s. peek_service (mg_services m) did = Some s \<Longrightarrow>
      deployment_inv (Some (sv_state s)) (dict_get did (mg_tasks m)) (dict_get did (mg_stop_reasons m) \<noteq> None)
        (\<exists>reason. (did, reason) \<in> set (mg_pending m)) (active_consumers did m = []) \<Longrightarrow>
      deployment_inv (Some (sv_state (f s))) (dict_get did (mg_tasks m')) (dict_get did (mg_stop_reasons m') \<noteq> None)
        (\<exists>reason. (did, reason) \<in> set (mg_pending m')) (active_consumers did m = []) \<and>
      (sv_state (f s) = sv_state s \<or> service_moves (sv_state s) (sv_state (f s)))"
  shows "sound_step m m'"
proof -
  from u obtain s st where s: "peek_service (mg_services m0) did = Some s" "m1 = m0\<lparr>mg_services := st\<rparr>"
    "peek_service st did = Some (service_stamp (clock (svc_tick (mg_services m0))) (f s))"
    "\<And>k. k \<noteq> did \<Longrightarrow> peek_service st k = peek_service (mg_services m0) k"
    using update_service_Inr [OF u] by blast
  have m': "mg_services m' = st" using s(2) m0(3) by simp
  have l: "lifecycle_of did m = Some (sv_state s)" "lifecycle_of did m' = Some (sv_state (f s))"
    using s(1,3) m0(1) m' by (simp_all add: lifecycle_of_def)
  show ?thesis
  proof (rule sound_local [OF inv m0(2)])
    show "peek_service (mg_services m') k = peek_service (mg_services m) k \<and>
      dict_get k (mg_tasks m') = dict_get k (mg_tasks m) \<and>
      dict_get k (mg_stop_reasons m') = dict_get k (mg_stop_reasons m) \<and>
      ((\<exists>reason. (k, reason) \<in> set (mg_pending m')) \<longleftrightarrow> (\<exists>reason. (k, reason) \<in> set (mg_pending m)))" if "k \<noteq> did" for k
      using s(4) [OF that] others [OF that] m' m0(1) by simp
    show "deployment_sound did m'" if "deployment_sound did m"
      using here [of s] that s(1) m0(1) consumers_same [OF m0(2)] by (simp add: deployment_sound_def l)
    show "abstract_move (lifecycle_of did m) (lifecycle_of did m')" if "deployment_sound did m"
      using here [of s] that s(1) m0(1) by (auto simp: deployment_sound_def l abstract_move_def)
    show "sv_service_id s'' = sv_service_id s'" if "peek_service (mg_services m) did = Some s'"
      "peek_service (mg_services m') did = Some s''" for s' s''
    proof -
      have "s' = s" "s'' = service_stamp (clock (svc_tick (mg_services m0))) (f s)"
        using that s(1,3) m0(1) m' by simp_all
      then show ?thesis by (simp add: f)
    qed
  qed
qed

lemma sound_task:
  assumes "manager_inv m" and "dict_get did (mg_tasks m) = Some t"
    and "\<And>x. task_inv t x (\<exists>reason. (did, reason) \<in> set (mg_pending m)) \<Longrightarrow>
      task_inv t' x (\<exists>reason. (did, reason) \<in> set (mg_pending m))"
  shows "sound_step m (set_task did t' m)"
proof (rule sound_local [where did = did, OF assms(1)])
  show "deployment_sound did m \<Longrightarrow> deployment_sound did (set_task did t' m)"
    using assms(2,3) consumers_same [of "set_task did t' m" m did]
    by (auto simp: deployment_sound_def set_task_def lifecycle_of_def deployment_inv_def split: option.splits)
qed (auto simp: set_task_def lifecycle_of_def abstract_move_def)

lemma deployment_inv_unused:
  "deployment_inv st t p q u \<Longrightarrow> (st = Some SvcStopping \<Longrightarrow> u \<Longrightarrow> u') \<Longrightarrow> deployment_inv st t p q u'"
  by (auto simp: deployment_inv_def split: option.splits)

lemma sound_runs:
  assumes "manager_inv m"
    and "\<And>did. lifecycle_of did m = Some SvcStopping \<Longrightarrow> active_consumers did m = [] \<Longrightarrow>
      active_consumers did (m\<lparr>mg_runs := runs\<rparr>) = []"
  shows "sound_step m (m\<lparr>mg_runs := runs\<rparr>)"
proof -
  let ?m = "m\<lparr>mg_runs := runs\<rparr>"
  have "deployment_sound did ?m" for did
  proof -
    have "deployment_inv (lifecycle_of did m) (dict_get did (mg_tasks m)) (dict_get did (mg_stop_reasons m) \<noteq> None)
       (\<exists>reason. (did, reason) \<in> set (mg_pending m)) (active_consumers did m = [])"
      using assms(1) by (simp add: manager_inv_def)
    from deployment_inv_unused [OF this assms(2)] show ?thesis by (simp add: deployment_sound_def lifecycle_of_def)
  qed
  then show ?thesis by (simp add: sound_step_def manager_inv_sound lifecycle_of_def abstract_move_def)
qed

section \<open>Every section is sound\<close>

lemma update_service_fields:
  "update_service clock did event f m = Inr m' \<Longrightarrow> mg_tasks m' = mg_tasks m \<and> mg_runs m' = mg_runs m \<and>
     mg_stop_reasons m' = mg_stop_reasons m \<and> mg_pending m' = mg_pending m"
  by (auto simp: update_service_def)

lemma set_task_fields [simp]:
  "mg_services (set_task did t m) = mg_services m" "mg_runs (set_task did t m) = mg_runs m"
  "mg_stop_reasons (set_task did t m) = mg_stop_reasons m" "mg_pending (set_task did t m) = mg_pending m"
  "dict_get k (mg_tasks (set_task did t m)) = (if k = did then Some t else dict_get k (mg_tasks m))"
  by (simp_all add: set_task_def)

lemma start_sound:
  assumes "manager_inv m" and "start_service env clock home suffix w spec m = Inr (s, m')"
  shows "sound_step m m'"
proof -
  from assms(2) obtain st where c: "create_deployment clock home suffix spec (mg_services m) = Inr (s, st)"
    "m' = set_task (sv_deployment_id s) (new_task spec) (m\<lparr>mg_services := st\<rparr>)"
    by (auto simp: start_service_def)
  note d = create_deployment_Inr [OF c(1)]
  show ?thesis
  proof (rule sound_local [where did = "sv_deployment_id s", OF assms(1)])
    show "deployment_sound (sv_deployment_id s) m'" if "deployment_sound (sv_deployment_id s) m"
      using that d(2,5,6) by (auto simp: deployment_sound_def lifecycle_of_def inv_defs c(2) new_task_def)
  qed (use d in \<open>auto simp: c(2) lifecycle_of_def abstract_move_def\<close>)
qed

lemma begins_sound:
  assumes "manager_inv m" and "dict_get did (mg_tasks m) = Some t" and "tk_phase t = NotStarted"
    and "\<not> tk_cancelled t" and "begin_run clock did t m = Inr m'"
  shows "sound_step m m'"
proof -
  from assms(5) obtain m1 where u: "update_service clock did ''starting'' (\<lambda>s. s\<lparr>sv_state := SvcStarting\<rparr>) m = Inr m1"
    "m' = set_task did (t\<lparr>tk_phase := Spawning\<rparr>) m1" by (auto simp: begin_run_def)
  show ?thesis
    by (rule sound_update [OF assms(1) u(1)]) (use assms(2-4) update_service_fields [OF u(1)] in \<open>auto simp: u(2) inv_defs\<close>)
qed

lemma admitted_sound:
  assumes "manager_inv m" and "dict_get did (mg_tasks m) = Some t" and "tk_phase t = Attesting None"
    and "admission_read clock did t admission m = Inr m'"
  shows "sound_step m m'"
proof -
  from assms(4) obtain m1 where u: "update_service clock did ''broker_started''
       (\<lambda>s. s\<lparr>sv_broker_job_id := Some (str_of_json (dget ''job_id'' admission)),
              sv_gpu_ids := gpu_id_values (dget ''gpu_ids'' admission)\<rparr>) m = Inr m1"
    "m' = set_task did (t\<lparr>tk_phase := Attesting (Some admission)\<rparr>) m1" by (auto simp: admission_read_def)
  show ?thesis
    by (rule sound_update [OF assms(1) u(1)]) (use assms(2,3) update_service_fields [OF u(1)] in \<open>auto simp: u(2) inv_defs\<close>)
qed

lemma peek_after_receipt:
  "write_deployment_receipt did receipt st = Inr st' \<Longrightarrow> peek_service st' k = peek_service st k"
  by (auto simp: write_deployment_receipt_def service_read_files_def put_service_def peek_service_def
      service_read_state_def)

lemma ready_sound:
  assumes "manager_inv m" and "dict_get did (mg_tasks m) = Some t" and "tk_phase t = Attesting (Some admission)"
    and "become_ready clock did t identity receipt m = Inr m'"
  shows "sound_step m m'"
proof -
  from assms(4) obtain st m1 where w: "write_deployment_receipt did (JObj receipt) (mg_services m) = Inr st"
    and u: "update_service clock did ''ready''
       (\<lambda>s. s\<lparr>sv_state := SvcReady, sv_service_identity := Some identity,
              sv_broker_job_id := Some (str_of_json (dget ''broker_job_id'' receipt)),
              sv_gpu_ids := gpu_id_values (dget ''broker_gpu_ids'' receipt), sv_reason := None\<rparr>)
       (m\<lparr>mg_services := st\<rparr>) = Inr m1"
    and m': "m' = set_task did (t\<lparr>tk_phase := Serving,
            tk_idle := (if ms_idle_grace_s (tk_spec t) = None then NoWatch else Watching None)\<rparr>) m1"
    by (auto simp: become_ready_def)
  let ?m = "m\<lparr>mg_services := st\<rparr>"
  note peek = peek_after_receipt [OF w]
  have inv: "manager_inv ?m"
    using assms(1) by (simp add: manager_inv_def lifecycle_of_def peek active_consumers_def)
  have "sound_step ?m m'"
    by (rule sound_update [OF inv u]) (use assms(2,3) update_service_fields [OF u] in \<open>auto simp: m' inv_defs\<close>)
  then show ?thesis by (simp add: sound_step_def lifecycle_of_def peek)
qed

lemma line_sound:
  assumes "manager_inv m" and "service_line clock did text m = Inr m'"
  shows "sound_step m m'"
proof -
  have refl: "sound_step m m" using assms(1) by (simp add: sound_step_def abstract_move_def)
  have upd: "sound_step m m'" if u: "update_service clock did event f m = Inr m'"
    and f: "\<And>x. sv_state (f x) = sv_state x \<and> sv_service_id (f x) = sv_service_id x" for event f
    by (rule sound_update [OF assms(1) u]) (use update_service_fields [OF u] f in auto)
  show ?thesis
    using assms(2) refl by (auto simp: service_line_def Let_def split: option.splits intro: upd)
qed

lemma closes_sound:
  assumes "manager_inv m" and "dict_get did (mg_tasks m) = Some t" and "tk_phase t = Closing failure"
    and "close_service clock did t failure m = Inr m'"
  shows "sound_step m m'"
proof (cases "dict_get did (mg_stop_reasons m)")
  case None
  with assms(4) obtain why m1 where u: "update_service clock did ''failed''
      (\<lambda>s. s\<lparr>sv_state := SvcFailed, sv_reason := Some why\<rparr>) m = Inr m1"
    "m' = m1\<lparr>mg_tasks := dict_del did (mg_tasks m1), mg_stop_reasons := dict_del did (mg_stop_reasons m1)\<rparr>"
    by (auto simp: close_service_def Let_def)
  show ?thesis
    by (rule sound_update [OF assms(1) u(1)])
      (use assms(2,3) None update_service_fields [OF u(1)] in \<open>auto simp: u(2) inv_defs\<close>)
next
  case (Some reason)
  with assms(4) obtain m1 where u: "update_service clock did ''stopped''
      (\<lambda>s. s\<lparr>sv_state := SvcStopped, sv_reason := Some reason\<rparr>) m = Inr m1"
    "m' = m1\<lparr>mg_tasks := dict_del did (mg_tasks m1), mg_stop_reasons := dict_del did (mg_stop_reasons m1)\<rparr>"
    by (auto simp: close_service_def)
  show ?thesis
    by (rule sound_update [OF assms(1) u(1)])
      (use assms(2,3) Some update_service_fields [OF u(1)] in \<open>auto simp: u(2) inv_defs\<close>)
qed

lemma sound_refl: "manager_inv m \<Longrightarrow> sound_step m m"
  by (simp add: sound_step_def abstract_move_def)

lemma read_state_lifecycle: "service_read_state did (mg_services m) = Inr s \<Longrightarrow> lifecycle_of did m = Some (sv_state s)"
  by (simp add: service_read_state_peek lifecycle_of_def)

lemma stop_sound:
  assumes "manager_inv m" and "stop_request clock did reason m = Inr (b, m')"
  shows "sound_step m m'"
proof -
  from assms(2) obtain s where s: "service_read_state did (mg_services m) = Inr s" by (auto simp: stop_request_def)
  then have peek: "peek_service (mg_services m) did = Some s" by (simp add: service_read_state_peek)
  show ?thesis
  proof (cases "service_terminal (sv_state s)")
    case True
    with assms s show ?thesis by (simp add: stop_request_def sound_refl)
  next
    case False
    let ?m = "m\<lparr>mg_stop_reasons := dict_set did reason (mg_stop_reasons m)\<rparr>"
    from assms(2) s False obtain m1 where idle: "active_consumers did m = []"
      and u: "update_service clock did ''stop_requested'' (\<lambda>x. x\<lparr>sv_state := SvcStopping, sv_reason := Some reason\<rparr>) ?m = Inr m1"
      and m': "m' = (case dict_get did (mg_tasks m1) of None \<Rightarrow> m1 | Some t \<Rightarrow> set_task did (signal_task t) m1)
        \<lparr>mg_pending := (did, reason) # mg_pending (case dict_get did (mg_tasks m1) of None \<Rightarrow> m1 | Some t \<Rightarrow> set_task did (signal_task t) m1)\<rparr>"
      by (auto simp: stop_request_def Let_def)
    note fields = update_service_fields [OF u]
    have "deployment_sound did m" using assms(1) by (simp add: manager_inv_sound)
    then obtain t where t: "dict_get did (mg_tasks m) = Some t"
      "task_inv t (sv_state s) (\<exists>reason. (did, reason) \<in> set (mg_pending m))"
      using False peek by (auto simp: deployment_sound_def lifecycle_of_def deployment_inv_def)
    have m'2: "m' = (set_task did (signal_task t) m1)\<lparr>mg_pending := (did, reason) # mg_pending m1\<rparr>"
      using m' t(1) fields by simp
    have ti: "task_inv (signal_task t) SvcStopping True"
      using t(2) by (auto simp: task_inv_def signal_task_def split: service_phase.splits)
    have pend: "(\<exists>r. r = reason \<or> (did, r) \<in> set (mg_pending m)) = True" by blast
    show ?thesis
    proof (rule sound_update [OF assms(1) u])
      fix s' assume s': "peek_service (mg_services m) did = Some s'"
      have "s' = s" using s' peek by simp
      with False have "sv_state s' \<in> {SvcAccepted, SvcStarting, SvcReady, SvcStopping}" by (cases "sv_state s") simp_all
      then have "sv_state s' = SvcStopping \<or> service_moves (sv_state s') SvcStopping" by auto
      then show "deployment_inv (Some (sv_state (s'\<lparr>sv_state := SvcStopping, sv_reason := Some reason\<rparr>)))
          (dict_get did (mg_tasks m')) (dict_get did (mg_stop_reasons m') \<noteq> None)
          (\<exists>reason. (did, reason) \<in> set (mg_pending m')) (active_consumers did m = []) \<and>
        (sv_state (s'\<lparr>sv_state := SvcStopping, sv_reason := Some reason\<rparr>) = sv_state s' \<or>
         service_moves (sv_state s') (sv_state (s'\<lparr>sv_state := SvcStopping, sv_reason := Some reason\<rparr>)))"
        using ti idle fields pend by (auto simp: m'2 deployment_inv_def)
    qed (use fields in \<open>auto simp: m'2\<close>)
  qed
qed

lemma stop_ends_sound:
  assumes "manager_inv m" and "(did, reason) \<in> set (mg_pending m)" and "task_ended did m"
    and "stop_finish clock did reason m = Inr m'"
  shows "sound_step m m'"
proof -
  let ?m = "m\<lparr>mg_pending := remove1 (did, reason) (mg_pending m)\<rparr>"
  from assms(4) obtain s where s: "service_read_state did (mg_services m) = Inr s" by (auto simp: stop_finish_def Let_def)
  then have peek: "peek_service (mg_services m) did = Some s" by (simp add: service_read_state_peek)
  have inv: "deployment_sound did m" using assms(1) by (simp add: manager_inv_sound)
  have others: "(\<exists>r. (k, r) \<in> set (remove1 (did, reason) (mg_pending m))) \<longleftrightarrow> (\<exists>r. (k, r) \<in> set (mg_pending m))"
    if "k \<noteq> did" for k using that by (metis in_set_remove1 prod.inject)
  have sub: "(\<exists>r. (did, r) \<in> set (remove1 (did, reason) (mg_pending m))) \<Longrightarrow> (\<exists>r. (did, r) \<in> set (mg_pending m))"
    using notin_set_remove1 by metis
  show ?thesis
  proof (cases "service_terminal (sv_state s)")
    case True
    with assms(4) s have m': "m' = ?m" by (simp add: stop_finish_def Let_def)
    show ?thesis unfolding m'
    proof (rule sound_local [where did = did, OF assms(1)])
      show "deployment_sound did ?m" if "deployment_sound did m"
        using that True peek sub by (auto simp: deployment_sound_def lifecycle_of_def deployment_inv_def active_consumers_def)
    qed (use others in \<open>auto simp: lifecycle_of_def abstract_move_def\<close>)
  next
    case False
    with assms(4) s obtain m1 where u: "update_service clock did ''stopped''
        (\<lambda>x. x\<lparr>sv_state := SvcStopped, sv_reason := Some reason\<rparr>) ?m = Inr m1"
      and m': "m' = m1\<lparr>mg_tasks := dict_del did (mg_tasks m1), mg_stop_reasons := dict_del did (mg_stop_reasons m1)\<rparr>"
      by (auto simp: stop_finish_def Let_def)
    note fields = update_service_fields [OF u]
    have st: "sv_state s \<in> {SvcStopping, SvcReady}"
      using inv False peek assms(2) by (auto simp: deployment_sound_def lifecycle_of_def deployment_inv_def)
    show ?thesis
    proof (rule sound_update [OF assms(1) u])
      fix s' assume "peek_service (mg_services m) did = Some s'"
      with peek st have "service_moves (sv_state s') SvcStopped" by auto
      then show "deployment_inv (Some (sv_state (s'\<lparr>sv_state := SvcStopped, sv_reason := Some reason\<rparr>)))
          (dict_get did (mg_tasks m')) (dict_get did (mg_stop_reasons m') \<noteq> None)
          (\<exists>reason. (did, reason) \<in> set (mg_pending m')) (active_consumers did m = []) \<and>
        (sv_state (s'\<lparr>sv_state := SvcStopped, sv_reason := Some reason\<rparr>) = sv_state s' \<or>
         service_moves (sv_state s') (sv_state (s'\<lparr>sv_state := SvcStopped, sv_reason := Some reason\<rparr>)))"
        by (simp add: m' deployment_inv_def)
    qed (use fields others in \<open>auto simp: m'\<close>)
  qed
qed

lemma set_watch_sound:
  assumes "manager_inv m"
  shows "sound_step m (set_watch did w m)"
proof (cases "dict_get did (mg_tasks m)")
  case None
  then show ?thesis using assms by (simp add: set_watch_def sound_refl)
next
  case (Some t)
  then have "set_watch did w m = set_task did (t\<lparr>tk_idle := w\<rparr>) m" by (simp add: set_watch_def)
  moreover have "sound_step m (set_task did (t\<lparr>tk_idle := w\<rparr>) m)"
    by (rule sound_task [OF assms Some]) (auto simp: task_inv_def split: service_phase.splits)
  ultimately show ?thesis by simp
qed

text \<open>The watcher's field is not part of the lifecycle, so its write can follow any sound step.\<close>

lemma sound_then_watch:
  assumes "sound_step m m1"
  shows "sound_step m (set_watch did w m1)"
proof -
  have w: "sound_step m1 (set_watch did w m1)"
    using assms by (intro set_watch_sound) (simp add: sound_step_def)
  have "mg_services (set_watch did w m1) = mg_services m1" by (simp add: set_watch_def split: option.splits)
  then show ?thesis using assms w by (simp add: sound_step_def lifecycle_of_def)
qed

lemma idle_stop_sound:
  assumes "manager_inv m" and "idle_stop env clock did grace m = Inr m'"
  shows "sound_step m m'"
proof -
  from assms(2) obtain s where s: "service_read_state did (mg_services m) = Inr s" by (auto simp: idle_stop_def)
  then have peek: "peek_service (mg_services m) did = Some s" by (simp add: service_read_state_peek)
  show ?thesis
  proof (cases "sv_state s = SvcReady \<and> active_consumers did m = []")
    case False
    with assms s have "m' = m" by (auto simp: idle_stop_def)
    then show ?thesis using assms(1) by (simp add: sound_refl)
  next
    case True
    let ?reason = "''idle grace elapsed with zero consumers: '' @ float_general env grace @ ''s''"
    let ?m = "m\<lparr>mg_stop_reasons := dict_set did ?reason (mg_stop_reasons m)\<rparr>"
    from assms(2) s True have u: "update_service clock did ''idle_stop_requested''
        (\<lambda>x. x\<lparr>sv_state := SvcStopping, sv_reason := Some ?reason\<rparr>) ?m = Inr m'"
      by (simp add: idle_stop_def Let_def)
    note fields = update_service_fields [OF u]
    show ?thesis
    proof (rule sound_update [OF assms(1) u])
      fix s' assume "peek_service (mg_services m) did = Some s'"
        "deployment_inv (Some (sv_state s')) (dict_get did (mg_tasks m)) (dict_get did (mg_stop_reasons m) \<noteq> None)
          (\<exists>reason. (did, reason) \<in> set (mg_pending m)) (active_consumers did m = [])"
      with peek True show "deployment_inv (Some (sv_state (s'\<lparr>sv_state := SvcStopping, sv_reason := Some ?reason\<rparr>)))
          (dict_get did (mg_tasks m')) (dict_get did (mg_stop_reasons m') \<noteq> None)
          (\<exists>reason. (did, reason) \<in> set (mg_pending m')) (active_consumers did m = []) \<and>
        (sv_state (s'\<lparr>sv_state := SvcStopping, sv_reason := Some ?reason\<rparr>) = sv_state s' \<or>
         service_moves (sv_state s') (sv_state (s'\<lparr>sv_state := SvcStopping, sv_reason := Some ?reason\<rparr>)))"
        using fields by (auto simp: inv_defs split: service_phase.splits)
    qed (use fields in auto)
  qed
qed

lemma idle_sound:
  assumes "manager_inv m" and "idle_turn env clock did grace moment since m = Inr m'"
  shows "sound_step m m'"
proof -
  have clear: "sound_step m m1" if u: "update_service clock did ''idle_cleared'' (\<lambda>x. x\<lparr>sv_idle_since := None\<rparr>) m = Inr m1" for m1
    by (rule sound_update [OF assms(1) u]) (use update_service_fields [OF u] in auto)
  have mark: "sound_step m m1" if u: "update_service clock did ''idle_started'' (\<lambda>x. x\<lparr>sv_idle_since := Some now\<rparr>)
      (m\<lparr>mg_services := st\<rparr>) = Inr m1" and st: "service_now clock (mg_services m) = (now, st)" for m1 now st
  proof -
    let ?m = "m\<lparr>mg_services := st\<rparr>"
    have peek: "peek_service st k = peek_service (mg_services m) k" for k
      using st by (auto simp: service_now_def peek_service_def service_read_state_def service_read_files_def)
    have "manager_inv ?m" using assms(1) by (simp add: manager_inv_def lifecycle_of_def peek active_consumers_def)
    then have "sound_step ?m m1"
      by (rule sound_update [OF _ u]) (use update_service_fields [OF u] in auto)
    then show ?thesis by (simp add: sound_step_def lifecycle_of_def peek)
  qed
  show ?thesis
    using assms(2) sound_refl [OF assms(1)]
    by (auto simp: idle_turn_def split: option.splits if_splits prod.splits
        intro!: sound_then_watch intro: clear mark idle_stop_sound [OF assms(1)])
qed

section \<open>Runs\<close>

lemma ready_deployments:
  assumes "assert_task_deployments_ready task m = Inr ()" and "did \<in> set (task_deployments task)"
  shows "lifecycle_of did m = Some SvcReady"
proof -
  from assms(1) obtain us where "rtraverse (\<lambda>did.
       rbind (service_read_state did (mg_services m)) (\<lambda>s.
       if sv_state s \<noteq> SvcReady
       then Inl (ValueError (''task service deployment is not ready: '' @ did @ '' state=''
              @ service_lifecycle_name (sv_state s)))
       else Inr ())) (task_deployments task) = Inr us"
    unfolding assert_task_deployments_ready_def rbind_eq_Inr_iff by blast
  from rtraverse_setI [OF this assms(2)] show ?thesis by (auto dest: read_state_lifecycle)
qed

lemma submit_runs:
  assumes "submit env clock probe suffix task candidate content label st = Inr (r, st')"
  shows "rn_service_deployment_ids r = task_deployments task" and "rn_state r = Accepted"
    and "dict_get (rn_id r) (store_runs st) = None"
    and "\<exists>files. rf_state files = r \<and> store_runs st' = dict_set (rn_id r) files (store_runs st)"
proof -
  from assms obtain l where c: "create_run env clock suffix task candidate content l st = Inr (r, st')"
    by (auto simp: submit_def Let_def)
  show "dict_get (rn_id r) (store_runs st) = None" by (rule create_run_Inr(3) [OF c])
  show "rn_state r = Accepted" by (rule create_run_Inr(2) [OF c])
  from c obtain snap d files where r: "r = initial_state task (task_id task @ ''-'' @ suffix) d l (clock (store_tick st))"
    and "rf_state files = r" and "store_runs st' = dict_set (task_id task @ ''-'' @ suffix) files (store_runs st)"
    by (auto simp: create_run_def Let_def utc_now_def append_event_def) (metis run_files.select_convs(4))
  then show "\<exists>files. rf_state files = r \<and> store_runs st' = dict_set (rn_id r) files (store_runs st)"
    by (auto simp: initial_state_def)
  show "rn_service_deployment_ids r = task_deployments task" by (simp add: r initial_state_def)
qed

lemma set_dict_set_sub: "set (dict_set k v d) \<subseteq> insert (k, v) (set d)"
  by (induction d) (auto simp: dict_set_def)

lemma submits_sound:
  assumes "manager_inv m" and "assert_task_deployments_ready task m = Inr ()"
    and "submit env clock probe suffix task candidate content label (mg_runs m) = Inr (r, runs)"
  shows "sound_step m (m\<lparr>mg_runs := runs\<rparr>)"
proof (rule sound_runs [OF assms(1)])
  fix did assume st: "lifecycle_of did m = Some SvcStopping" and none: "active_consumers did m = []"
  obtain files where f: "rf_state files = r" "store_runs runs = dict_set (rn_id r) files (store_runs (mg_runs m))"
    using submit_runs(4) [OF assms(3)] by blast
  have "did \<notin> set (task_deployments task)" using ready_deployments [OF assms(2)] st by fastforce
  then have "\<not> is_consumer did r" by (simp add: is_consumer_def submit_runs(1) [OF assms(3)])
  then show "active_consumers did (m\<lparr>mg_runs := runs\<rparr>) = []"
    using none f set_dict_set_sub [of "rn_id r" files "store_runs (mg_runs m)"] by (auto simp: consumers_none)
qed

lemma run_moves_sound:
  assumes "manager_inv m" and "update_state clock rid event f (mg_runs m) = Inr (r, runs)" and "run_update f"
  shows "sound_step m (m\<lparr>mg_runs := runs\<rparr>)"
proof (rule sound_runs [OF assms(1)])
  fix did assume none: "active_consumers did m = []"
  from assms(2) obtain files files' where f: "dict_get rid (store_runs (mg_runs m)) = Some files"
    "rf_state files' = stamp (clock (store_tick (mg_runs m))) (f (rf_state files))"
    "store_runs runs = dict_set rid files' (store_runs (mg_runs m))"
    by (auto simp: update_state_def read_files_def utc_now_def append_event_def Let_def put_files_def)
      (metis run_files.select_convs(4) run_files.surjective run_files.update_convs(4,5))
  have "\<not> is_consumer did (rf_state files)" using none dict_get_mem [OF f(1)] by (auto simp: consumers_none)
  then have "\<not> is_consumer did (rf_state files')"
    using assms(3) by (auto simp: f(2) is_consumer_def run_update_def stamp_def Let_def)
  then show "active_consumers did (m\<lparr>mg_runs := runs\<rparr>) = []"
    using none f(3) set_dict_set_sub [of rid files' "store_runs (mg_runs m)"] by (auto simp: consumers_none)
qed

section \<open>Every step, and every reachable state\<close>

lemma step_sound: "manager_step env clock home m m' \<Longrightarrow> manager_inv m \<Longrightarrow> sound_step m m'"
proof (induction rule: manager_step.induct)
  case (start w spec m s m' suffix)
  then show ?case by (blast intro: start_sound)
next
  case (begins did m t m')
  then show ?case by (blast intro: begins_sound)
next
  case (dropped did m t)
  show ?case
    by (rule sound_task [OF dropped(4) dropped(1)]) (use dropped(2,3) in \<open>auto simp: task_inv_def split: service_phase.splits\<close>)
next
  case (spawns did m t)
  show ?case unfolding spawned_def
    by (rule sound_task [OF spawns(4) spawns(1)]) (use spawns(2) in \<open>auto simp: task_inv_def\<close>)
next
  case (spawn_fails did m t e)
  show ?case unfolding run_raises_def
    by (rule sound_task [OF spawn_fails(3) spawn_fails(1)]) (use spawn_fails(2) in \<open>auto simp: task_inv_def\<close>)
next
  case (interrupted did m t p)
  show ?case unfolding run_raises_def
    by (rule sound_task [OF interrupted(4) interrupted(1)])
      (use interrupted(2) in \<open>auto simp: task_inv_def interruptible_def split: service_phase.splits\<close>)
next
  case (admitted did m t content path admission m')
  then show ?case by (blast intro: admitted_sound)
next
  case (attest_raises did m t a e)
  show ?case unfolding run_raises_def
    by (rule sound_task [OF attest_raises(4) attest_raises(1)]) (use attest_raises(2) in \<open>auto simp: task_inv_def\<close>)
next
  case (exits_early did m t a code)
  show ?case unfolding exited_early_def
    by (rule sound_task [OF exits_early(5) exits_early(1)]) (use exits_early(2) in \<open>auto simp: task_inv_def\<close>)
next
  case (ready did m t admission out now socket content path receipt m')
  then show ?case by (blast intro: ready_sound)
next
  case (served did m t code)
  show ?case unfolding run_raises_def
    by (rule sound_task [OF served(5) served(1)]) (use served(2) in \<open>auto simp: task_inv_def\<close>)
next
  case (exits did m t code)
  show ?case unfolding process_exits_def
    by (rule sound_task [OF exits(3) exits(1)])
      (use exits(2) in \<open>auto simp: task_inv_def split: service_phase.splits\<close>)
next
  case (line did m t l m')
  then show ?case by (blast intro: line_sound)
next
  case (closes did m t failure m')
  then show ?case by (blast intro: closes_sound)
next
  case (stop did reason m b m')
  then show ?case by (blast intro: stop_sound)
next
  case (stop_ends did reason m m')
  then show ?case by (blast intro: stop_ends_sound)
next
  case (idle did m t since grace moment m')
  then show ?case by (blast intro: idle_sound)
next
  case (submits task m probe suffix candidate content label r runs)
  then show ?case by (blast intro: submits_sound)
next
  case (run_moves rid event f m r runs)
  then show ?case by (blast intro: run_moves_sound)
qed

lemma started_inv: "started_manager m \<Longrightarrow> manager_inv m"
  by (fastforce simp: started_manager_def manager_inv_def deployment_inv_def lifecycle_of_def open_service_def
      split: option.splits)

lemma reachable_inv: "manager_reachable env clock home m \<Longrightarrow> manager_inv m"
  by (induction rule: manager_reachable.induct) (auto dest: started_inv step_sound simp: sound_step_def)

section \<open>One open deployment per service\<close>

text \<open>Every section but \<open>start\<close> keeps the store well formed and creates no deployment.\<close>

definition keeps :: "manager \<Rightarrow> manager \<Rightarrow> bool" where
  "keeps m m' \<longleftrightarrow> (wf_services (mg_services m) \<longrightarrow> wf_services (mg_services m')) \<and>
     (\<forall>k. peek_service (mg_services m') k = None \<longleftrightarrow> peek_service (mg_services m) k = None)"

lemma keeps_same: "mg_services m' = mg_services m \<Longrightarrow> keeps m m'"
  by (simp add: keeps_def)

lemma keeps_trans: "keeps m1 m2 \<Longrightarrow> keeps m2 m3 \<Longrightarrow> keeps m1 m3"
  by (simp add: keeps_def)

lemma keeps_update:
  assumes "update_service clock did event f m = Inr m'"
    and "\<And>x. sv_deployment_id (f x) = sv_deployment_id x"
  shows "keeps m m'"
proof -
  have "peek_service (mg_services m') k = None \<longleftrightarrow> peek_service (mg_services m) k = None" for k
    using update_service_Inr [OF assms(1)] by (cases "k = did") auto
  then show ?thesis using update_service_wf [OF assms(1) _ assms(2)] by (simp add: keeps_def)
qed

lemma keeps_receipt:
  assumes "write_deployment_receipt did receipt (mg_services m) = Inr st"
  shows "keeps m (m\<lparr>mg_services := st\<rparr>)"
proof -
  from assms obtain files where f: "dict_get did (svc_deployments (mg_services m)) = Some files"
    "st = put_service did (files\<lparr>vf_receipt := Some receipt\<rparr>) (mg_services m)"
    by (auto simp: write_deployment_receipt_def service_read_files_def)
  have "wf_services st" if wf: "wf_services (mg_services m)"
  proof (rule wf_services_set [OF wf])
    show "wf_service_files did (files\<lparr>vf_receipt := Some receipt\<rparr>)"
      using wf_services_get [OF wf f(1)] by (simp add: wf_service_files_def)
    show "svc_deployments st = dict_set did (files\<lparr>vf_receipt := Some receipt\<rparr>) (svc_deployments (mg_services m))"
      by (simp add: f(2) put_service_def)
  qed
  then show ?thesis by (simp add: keeps_def peek_after_receipt [OF assms])
qed

lemma keeps_now: "service_now clock (mg_services m) = (now, st) \<Longrightarrow> keeps m (m\<lparr>mg_services := st\<rparr>)"
  by (auto simp: keeps_def service_now_def wf_services_def peek_service_def service_read_state_def service_read_files_def)

lemma keeps_then_same: "keeps m m1 \<Longrightarrow> mg_services m2 = mg_services m1 \<Longrightarrow> keeps m m2"
  by (simp add: keeps_def)

lemma set_watch_services [simp]: "mg_services (set_watch did w m) = mg_services m"
  by (simp add: set_watch_def split: option.splits)

lemma stop_keeps:
  assumes "stop_request clock did reason m = Inr (b, m')"
  shows "keeps m m'"
proof -
  from assms have "m' = m \<or> (\<exists>m1. update_service clock did ''stop_requested''
      (\<lambda>x. x\<lparr>sv_state := SvcStopping, sv_reason := Some reason\<rparr>)
      (m\<lparr>mg_stop_reasons := dict_set did reason (mg_stop_reasons m)\<rparr>) = Inr m1 \<and> mg_services m' = mg_services m1)"
    by (auto simp: stop_request_def Let_def split: if_splits option.splits)
  then show ?thesis
  proof (elim disjE exE conjE)
    assume "m' = m"
    then show ?thesis by (simp add: keeps_same)
  next
    fix m1 assume u: "update_service clock did ''stop_requested''
      (\<lambda>x. x\<lparr>sv_state := SvcStopping, sv_reason := Some reason\<rparr>)
      (m\<lparr>mg_stop_reasons := dict_set did reason (mg_stop_reasons m)\<rparr>) = Inr m1" "mg_services m' = mg_services m1"
    have "keeps (m\<lparr>mg_stop_reasons := dict_set did reason (mg_stop_reasons m)\<rparr>) m1" by (rule keeps_update [OF u(1)]) simp
    then show ?thesis using u(2) by (simp add: keeps_def)
  qed
qed

lemma idle_keeps:
  assumes "idle_turn env clock did grace moment since m = Inr m'"
  shows "keeps m m'"
proof -
  have upd: "keeps m m1" if "update_service clock did event f m0 = Inr m1" "mg_services m0 = mg_services m"
    "\<And>x. sv_deployment_id (f x) = sv_deployment_id x" for event f m0 m1
    using keeps_update [OF that(1,3)] that(2) by (simp add: keeps_def)
  have mark: "keeps m m1" if "update_service clock did event f (m\<lparr>mg_services := st\<rparr>) = Inr m1"
    "service_now clock (mg_services m) = (now, st)" "\<And>x. sv_deployment_id (f x) = sv_deployment_id x" for event f m1 now st
    using keeps_trans [OF keeps_now [OF that(2)] keeps_update [OF that(1,3)]] .
  have stop: "keeps m m1" if "idle_stop env clock did grace m = Inr m1" for m1
    using that by (auto simp: idle_stop_def Let_def keeps_same split: if_splits intro: upd)
  show ?thesis
  proof (cases since)
    case None
    with assms show ?thesis
      by (auto simp: idle_turn_def keeps_same split: if_splits prod.splits
          intro: keeps_then_same [OF upd] keeps_then_same [OF mark])
  next
    case (Some t)
    with assms show ?thesis
      by (auto simp: idle_turn_def keeps_same split: if_splits
          intro: keeps_then_same [OF upd] keeps_then_same [OF stop])
  qed
qed

lemma stop_finish_keeps:
  assumes "stop_finish clock did reason m = Inr m'"
  shows "keeps m m'"
proof -
  let ?m = "m\<lparr>mg_pending := remove1 (did, reason) (mg_pending m)\<rparr>"
  from assms consider "m' = ?m" | m1 where "update_service clock did ''stopped''
      (\<lambda>x. x\<lparr>sv_state := SvcStopped, sv_reason := Some reason\<rparr>) ?m = Inr m1" "mg_services m' = mg_services m1"
    by (auto simp: stop_finish_def Let_def split: if_splits)
  then show ?thesis
  proof cases
    case 1
    then show ?thesis by (simp add: keeps_same)
  next
    case (2 m1)
    have "keeps ?m m1" by (rule keeps_update [OF 2(1)]) simp
    then show ?thesis using 2(2) by (simp add: keeps_def)
  qed
qed

lemma step_keeps:
  "manager_step env clock home m m' \<Longrightarrow>
    (\<exists>w spec suffix s. start_service env clock home suffix w spec m = Inr (s, m')) \<or> keeps m m'"
proof (induction rule: manager_step.induct)
  case (begins did m t m')
  then show ?case by (auto simp: begin_run_def intro: keeps_then_same [OF keeps_update])
next
  case (admitted did m t content path admission m')
  then show ?case by (auto simp: admission_read_def intro: keeps_then_same [OF keeps_update])
next
  case (ready did m t admission out now socket content path receipt m')
  then show ?case
    by (auto simp: become_ready_def
        intro: keeps_then_same [OF keeps_trans [OF keeps_receipt keeps_update]])
next
  case (line did m t l m')
  then show ?case by (auto simp: service_line_def Let_def keeps_same split: option.splits intro: keeps_update)
next
  case (closes did m t failure m')
  then show ?case
    by (auto simp: close_service_def Let_def split: option.splits intro: keeps_then_same [OF keeps_update])
next
  case (stop did reason m b m')
  then show ?case by (blast intro: stop_keeps)
next
  case (stop_ends did reason m m')
  then show ?case by (blast intro: stop_finish_keeps)
next
  case (idle did m t since grace moment m')
  then show ?case by (blast intro: idle_keeps)
qed (auto simp: keeps_same spawned_def run_raises_def exited_early_def process_exits_def)

definition one_open :: "manager \<Rightarrow> bool" where
  "one_open m \<longleftrightarrow> (\<forall>did did' s s'. peek_service (mg_services m) did = Some s \<longrightarrow> peek_service (mg_services m) did' = Some s' \<longrightarrow>
     open_service s \<longrightarrow> open_service s' \<longrightarrow> sv_service_id s = sv_service_id s' \<longrightarrow> did = did')"

lemma sound_step_open:
  assumes "sound_step m m'" and "peek_service (mg_services m) did = Some s" and "peek_service (mg_services m') did = Some s'"
    and "open_service s'"
  shows "open_service s \<and> sv_service_id s' = sv_service_id s"
proof -
  have "abstract_move (Some (sv_state s)) (Some (sv_state s'))"
    using assms(1-3) by (auto simp: sound_step_def lifecycle_of_def dest: spec [of _ did])
  then have "open_service s" using assms(4) by (cases "sv_state s") (auto simp: abstract_move_def open_service_def)
  then show ?thesis using assms(1-3) by (auto simp: sound_step_def)
qed

lemma start_fresh:
  assumes "start_service env clock home suffix w spec m = Inr (s, m')" and "wf_services (mg_services m)"
  shows "wf_services (mg_services m')" and "peek_service (mg_services m) (sv_deployment_id s) = None"
    and "\<And>k. k \<noteq> sv_deployment_id s \<Longrightarrow> peek_service (mg_services m') k = peek_service (mg_services m) k"
    and "peek_service (mg_services m') (sv_deployment_id s) = Some s"
    and "\<And>k x. peek_service (mg_services m) k = Some x \<Longrightarrow> open_service x \<Longrightarrow> sv_service_id x \<noteq> sv_service_id s"
proof -
  from assms(1) obtain broker st where p: "preflight env w spec m = Inr broker"
    and c: "create_deployment clock home suffix spec (mg_services m) = Inr (s, st)" "mg_services m' = st"
    by (auto simp: start_service_def)
  note d = create_deployment_Inr [OF c(1)]
  show "wf_services (mg_services m')" using d(8) assms(2) c(2) by simp
  show "peek_service (mg_services m) (sv_deployment_id s) = None" by (rule d(5))
  show "peek_service (mg_services m') k = peek_service (mg_services m) k" if "k \<noteq> sv_deployment_id s" for k
    using d(7) [OF that] c(2) by simp
  show "peek_service (mg_services m') (sv_deployment_id s) = Some s" using d(6) c(2) by simp
  from p have none: "filter open_service (service_list_states (Some (ms_service_id spec)) (mg_services m)) = []"
    by (auto simp: preflight_def Let_def split: if_splits)
  show "sv_service_id x \<noteq> sv_service_id s" if "peek_service (mg_services m) k = Some x" "open_service x" for k x
    using service_known_listed [OF that(1), of "Some (ms_service_id spec)"] none that(2) d(3)
    by (auto simp: filter_empty_conv)
qed

lemma step_one_open:
  assumes "manager_step env clock home m m'" and "manager_inv m" and "wf_services (mg_services m)" and "one_open m"
  shows "wf_services (mg_services m')" and "one_open m'"
proof -
  note snd = step_sound [OF assms(1,2)]
  consider w spec suffix s where "start_service env clock home suffix w spec m = Inr (s, m')" | "keeps m m'"
    using step_keeps [OF assms(1)] by blast
  then have "wf_services (mg_services m') \<and> one_open m'"
  proof cases
    case 1
    note f = start_fresh [OF 1 assms(3)]
    have "did = did'" if p: "peek_service (mg_services m') did = Some x" "peek_service (mg_services m') did' = Some x'"
      "open_service x" "open_service x'" "sv_service_id x = sv_service_id x'" for did did' x x'
    proof (cases "did = sv_deployment_id s \<or> did' = sv_deployment_id s")
      case True
      then show ?thesis using p f(3) [of did] f(3) [of did'] f(4) f(5) [of did x] f(5) [of did' x'] by fastforce
    next
      case False
      then show ?thesis using p f(3) [of did] f(3) [of did'] assms(4) unfolding one_open_def by (metis (no_types))
    qed
    then show ?thesis using f(1) by (auto simp: one_open_def)
  next
    case 2
    have "did = did'" if p: "peek_service (mg_services m') did = Some x" "peek_service (mg_services m') did' = Some x'"
      "open_service x" "open_service x'" "sv_service_id x = sv_service_id x'" for did did' x x'
    proof -
      have known: "\<exists>y. peek_service (mg_services m) k = Some y" if "peek_service (mg_services m') k = Some z" for k z
      proof -
        have "peek_service (mg_services m') k = None \<longleftrightarrow> peek_service (mg_services m) k = None" using 2 by (simp add: keeps_def)
        with that show ?thesis by (cases "peek_service (mg_services m) k") simp_all
      qed
      obtain y where y: "peek_service (mg_services m) did = Some y" using known [OF p(1)] by blast
      obtain y' where y': "peek_service (mg_services m) did' = Some y'" using known [OF p(2)] by blast
      from sound_step_open [OF snd y p(1,3)] sound_step_open [OF snd y' p(2,4)] p(5) y y' assms(4)
      show ?thesis unfolding one_open_def by metis
    qed
    then show ?thesis using 2 assms(3) by (auto simp: one_open_def keeps_def)
  qed
  then show "wf_services (mg_services m')" "one_open m'" by simp_all
qed

lemma reachable_one_open: "manager_reachable env clock home m \<Longrightarrow> wf_services (mg_services m) \<and> one_open m"
proof (induction rule: manager_reachable.induct)
  case (initial m)
  then show ?case by (auto simp: started_manager_def one_open_def)
next
  case (step m m')
  then show ?case using step_one_open [OF step(2) reachable_inv [OF step(1)]] by blast
qed

end
