(* ===== verification/Service_Stops.thy ===== *)
theory Service_Stops
  imports Service_Lifecycle Attestation_Facts
begin

text \<open>
  What the lifecycle of the services guarantees about stopping, what it does not, and
  recovery after a restart.
\<close>

section \<open>Recovery\<close>

lemma recover_service_known:
  assumes "peek_service st (sv_deployment_id x) = Some y" and "\<And>job. \<exists>b. cancel job = Inr b"
  shows "\<exists>st'. recover_service clock cancel st x = Inr st' \<and>
    (\<exists>z. peek_service st' (sv_deployment_id x) = Some z \<and> sv_state z = SvcInterrupted) \<and>
    (\<forall>k. k \<noteq> sv_deployment_id x \<longrightarrow> peek_service st' k = peek_service st k)"
proof -
  have r: "\<exists>st1 y'. reconcile_service clock cancel x st = Inr st1 \<and> peek_service st1 (sv_deployment_id x) = Some y' \<and>
      (\<forall>k. k \<noteq> sv_deployment_id x \<longrightarrow> peek_service st1 k = peek_service st k)"
  proof (cases "\<exists>job. sv_broker_job_id x = Some job \<and> job \<noteq> []")
    case True
    then obtain job where job: "sv_broker_job_id x = Some job" "job \<noteq> []" by blast
    obtain b where "cancel job = Inr b" using assms(2) by blast
    moreover from service_update_known [OF assms(1), of clock "''recovery_broker_reconciled''"
        "\<lambda>x. x\<lparr>sv_reason := Some (''startup reconciled broker job '' @ job @ ''; cancelled='' @
          (if b then ''true'' else ''false''))\<rparr>"]
    obtain st' z where "service_update_state clock (sv_deployment_id x) ''recovery_broker_reconciled''
        (\<lambda>x. x\<lparr>sv_reason := Some (''startup reconciled broker job '' @ job @ ''; cancelled='' @
          (if b then ''true'' else ''false''))\<rparr>) st = Inr (z, st')"
      "peek_service st' (sv_deployment_id x) = Some z" "\<forall>k. k \<noteq> sv_deployment_id x \<longrightarrow> peek_service st' k = peek_service st k"
      by blast
    ultimately show ?thesis using job by (simp add: reconcile_service_def)
  next
    case False
    then have "reconcile_service clock cancel x st = Inr st" by (auto simp: reconcile_service_def split: option.splits)
    then show ?thesis using assms(1) by blast
  qed
  then obtain st1 y' where s1: "reconcile_service clock cancel x st = Inr st1" "peek_service st1 (sv_deployment_id x) = Some y'"
      "\<forall>k. k \<noteq> sv_deployment_id x \<longrightarrow> peek_service st1 k = peek_service st k" by blast
  from service_update_known [OF s1(2), of clock "''interrupted''" interrupt_service] obtain st2 z where
    "service_update_state clock (sv_deployment_id x) ''interrupted'' interrupt_service st1 = Inr (z, st2)"
    "z = service_stamp (clock (svc_tick st1)) (interrupt_service y')" "peek_service st2 (sv_deployment_id x) = Some z"
    "\<forall>k. k \<noteq> sv_deployment_id x \<longrightarrow> peek_service st2 k = peek_service st1 k" by blast
  moreover have "sv_state (service_stamp n (interrupt_service y')) = SvcInterrupted" for n
    by (simp add: interrupt_service_def)
  ultimately show ?thesis using s1(1,3) by (simp add: recover_service_def)
qed

lemma recover_services_sweep:
  assumes "\<And>x. x \<in> set xs \<Longrightarrow> peek_service st (sv_deployment_id x) \<noteq> None"
    and "distinct (map sv_deployment_id xs)" and "\<And>job. \<exists>b. cancel job = Inr b"
  shows "\<exists>st'. rfold (recover_service clock cancel) st xs = Inr st' \<and>
    (\<forall>x \<in> set xs. \<exists>z. peek_service st' (sv_deployment_id x) = Some z \<and> sv_state z = SvcInterrupted) \<and>
    (\<forall>k. k \<notin> sv_deployment_id ` set xs \<longrightarrow> peek_service st' k = peek_service st k)"
  using assms(1,2)
proof (induction xs arbitrary: st)
  case Nil
  then show ?case by simp
next
  case (Cons x xs)
  obtain y where y: "peek_service st (sv_deployment_id x) = Some y" using Cons.prems(1) [of x] by auto
  obtain st1 z where s1: "recover_service clock cancel st x = Inr st1"
    "peek_service st1 (sv_deployment_id x) = Some z" "sv_state z = SvcInterrupted"
    "\<forall>k. k \<noteq> sv_deployment_id x \<longrightarrow> peek_service st1 k = peek_service st k"
    using recover_service_known [where cancel = cancel and clock = clock, OF y assms(3)] by blast
  have "\<exists>st'. rfold (recover_service clock cancel) st1 xs = Inr st' \<and>
    (\<forall>x \<in> set xs. \<exists>z. peek_service st' (sv_deployment_id x) = Some z \<and> sv_state z = SvcInterrupted) \<and>
    (\<forall>k. k \<notin> sv_deployment_id ` set xs \<longrightarrow> peek_service st' k = peek_service st1 k)"
  proof (rule Cons.IH)
    fix x' assume "x' \<in> set xs"
    then have "sv_deployment_id x' \<noteq> sv_deployment_id x" using Cons.prems(2) by (simp add: image_iff) metis
    with s1(4) Cons.prems(1) [of x'] \<open>x' \<in> set xs\<close> show "peek_service st1 (sv_deployment_id x') \<noteq> None" by simp
  qed (use Cons.prems(2) in simp)
  then obtain st' where "rfold (recover_service clock cancel) st1 xs = Inr st'"
    "\<forall>x \<in> set xs. \<exists>z. peek_service st' (sv_deployment_id x) = Some z \<and> sv_state z = SvcInterrupted"
    "\<forall>k. k \<notin> sv_deployment_id ` set xs \<longrightarrow> peek_service st' k = peek_service st1 k" by blast
  moreover have "peek_service st' (sv_deployment_id x) = Some z"
    using calculation(3) s1(2) Cons.prems(2) by auto
  ultimately show ?case using s1 by auto
qed

lemma recover_service_wf:
  assumes "recover_service clock cancel st x = Inr st'" and "wf_services st"
  shows "wf_services st'"
proof -
  from assms(1) obtain st1 z where r: "reconcile_service clock cancel x st = Inr st1"
    "service_update_state clock (sv_deployment_id x) ''interrupted'' interrupt_service st1 = Inr (z, st')"
    by (auto simp: recover_service_def)
  have "wf_services st1"
    using r(1) assms(2) by (auto simp: reconcile_service_def split: option.splits if_splits dest: service_update_wf)
  then show ?thesis by (rule service_update_wf [OF r(2)]) (simp add: interrupt_service_def)
qed

lemma recovered_services:
  assumes "wf_services st" and "\<And>job. \<exists>b. cancel job = Inr b"
  shows "\<exists>st'. recover_services clock cancel st = Inr (length (filter open_service (service_list_states None st)), st') \<and>
    (\<forall>did s. peek_service st did = Some s \<longrightarrow>
       (if open_service s then \<exists>z. peek_service st' did = Some z \<and> sv_state z = SvcInterrupted
        else peek_service st' did = Some s)) \<and>
    started_manager \<lparr>mg_services = st', mg_runs = runs, mg_tasks = [], mg_stop_reasons = [], mg_pending = []\<rparr>"
proof -
  let ?xs = "filter open_service (service_list_states None st)"
  have known: "peek_service st (sv_deployment_id x) = Some x" if "x \<in> set (service_list_states None st)" for x
    using service_listed_known [OF assms(1) that] .
  have "distinct (map sv_deployment_id ?xs)"
    using distinct_service_list [OF assms(1), of None] by (rule distinct_map_filter)
  from recover_services_sweep [where st = st and xs = ?xs and cancel = cancel and clock = clock, OF _ this assms(2)] known
  obtain st' where st': "rfold (recover_service clock cancel) st ?xs = Inr st'"
    "\<forall>x \<in> set ?xs. \<exists>z. peek_service st' (sv_deployment_id x) = Some z \<and> sv_state z = SvcInterrupted"
    "\<forall>k. k \<notin> sv_deployment_id ` set ?xs \<longrightarrow> peek_service st' k = peek_service st k"
    by fastforce
  have wf: "wf_services st'"
    using st'(1) assms(1) by (rule rfold_invariant) (blast intro: recover_service_wf)
  have here: "if open_service s then \<exists>z. peek_service st' did = Some z \<and> sv_state z = SvcInterrupted
        else peek_service st' did = Some s" if "peek_service st did = Some s" for did s
  proof -
    have id: "sv_deployment_id s = did"
      using that assms(1) by (auto simp: peek_service_files dest!: wf_services_get simp: wf_service_files_def)
    have listed: "s \<in> set (service_list_states None st)" by (rule service_known_listed [OF that]) simp
    show ?thesis
    proof (cases "open_service s")
      case True
      with listed id st'(2) show ?thesis by auto
    next
      case False
      have "did \<notin> sv_deployment_id ` set ?xs" using known that False by fastforce
      then show ?thesis using st'(3) that False by simp
    qed
  qed
  have closed: "\<not> open_service z" if z: "peek_service st' did = Some z" for did z
  proof (cases "peek_service st did")
    case None
    have "did \<notin> sv_deployment_id ` set ?xs" using known None by fastforce
    then show ?thesis using st'(3) None z by simp
  next
    case (Some s)
    with here [OF Some] z show ?thesis by (auto simp: open_service_def split: if_splits)
  qed
  show ?thesis
  proof (intro exI [of _ st'] conjI allI impI)
    show "recover_services clock cancel st = Inr (length ?xs, st')"
      using st'(1) by (simp add: recover_services_def Let_def)
    show "started_manager \<lparr>mg_services = st', mg_runs = runs, mg_tasks = [], mg_stop_reasons = [], mg_pending = []\<rparr>"
      using wf closed by (simp add: started_manager_def)
  qed (rule here)
qed

lemma stop_request_lifecycle:
  assumes "stop_request clock did reason m = Inr (b, m')" and "lifecycle_of did m = Some x" and "\<not> service_terminal x"
  shows "lifecycle_of did m' = Some SvcStopping"
proof -
  from assms obtain m1 where u: "update_service clock did ''stop_requested''
      (\<lambda>x. x\<lparr>sv_state := SvcStopping, sv_reason := Some reason\<rparr>)
      (m\<lparr>mg_stop_reasons := dict_set did reason (mg_stop_reasons m)\<rparr>) = Inr m1" "mg_services m' = mg_services m1"
    by (auto simp: stop_request_def Let_def service_read_state_peek lifecycle_of_def split: if_splits option.splits)
  from update_service_Inr [OF u(1)] u(2) show ?thesis by (auto simp: lifecycle_of_def)
qed

section \<open>A stop that is overtaken\<close>

definition race_clock :: clock where
  "race_clock = (\<lambda>n. ''t'')"

definition race_id :: string where
  "race_id = ''evaluator-1''"

definition race_spec :: service_spec where
  "race_spec = \<lparr>ms_service_id = ''evaluator'', ms_description = [], ms_owner = ''team'',
     ms_service_url = ''http://localhost:8000'', ms_source_root = ''/src'', ms_identity_prefix = ''c1'',
     ms_cwd = ''/src'', ms_command = [''serve''], ms_env = [],
     ms_resources = \<lparr>vr_gpu_count = 2, vr_estimate_s = None, vr_queue_timeout_s = None, vr_run_timeout_s = Fin 3600\<rparr>,
     ms_readiness_timeout_s = Fin 300, ms_idle_grace_s = None, ms_raw = JNull, ms_digest = ''d'',
     ms_source_path = ''/svc.json''\<rparr>"

definition race_world :: preflight_world where
  "race_world = \<lparr>pw_is_dir = (\<lambda>p. True), pw_in_use = (\<lambda>u. False),
     pw_broker = Inr [(''broker_version'', JStr ''0.6''), (''instance_id'', JStr ''b'')],
     pw_client = Inr (0, ''--receipt-out'', [])\<rparr>"

definition race_empty :: manager where
  "race_empty = \<lparr>mg_services = \<lparr>svc_deployments = [], svc_tick = 0\<rparr>, mg_runs = empty_store, mg_tasks = [],
     mg_stop_reasons = [], mg_pending = []\<rparr>"

definition race_task :: task_spec where
  "race_task = sample_task\<lparr>task_stages := [\<lparr>st_id = ''judge'', st_kind = Judge, st_execution = Service,
     st_judge_identity = ''j'', st_cwd = ''/j'', st_command = [''run''], st_resources = None,
     st_service_deployment_id = Some race_id\<rparr>]\<rparr>"

definition race_identity :: string where
  "race_identity = ''c1+admission@sha256:'' @ zeros @ ''+executable@sha256:'' @ zeros"

lemma race_identity: "admission_identity attest_env race_spec sample_admission = race_identity"
  by (simp add: admission_identity_def race_spec_def sample_admission_def race_identity_def py_str_def)

definition race_receipt :: jdict where
  "race_receipt = deployment_document attest_env ''now'' ''http://localhost:8000'' race_identity ''/s'' ''j1''
     sample_health sample_health sample_admission sample_source sample_snapshot sample_job"

lemma race_attested:
  "attest_service attest_env sample_outside ''now'' ''/s'' (FileParsed (JObj sample_admission)) ''/a'' race_spec sample_admission =
     Inr race_receipt"
proof -
  have z: "identity_binds race_identity zeros" by code_simp
  have b: "list_all (\<lambda>k. identity_binds race_identity (py_str (float_text attest_env) (dget k sample_admission)))
      [''launch_spec_sha256'', ''executable_sha256'']" by (simp add: sample_admission_def py_str_def z)
  have b2: "identity_binds race_identity ''c1''" "root_commit_ok sample_health race_identity" "race_identity \<noteq> []"
    by code_simp+
  have c: "str_of_json (dget ''job_id'' sample_admission) = ''j1''" "ms_service_url race_spec = ''http://localhost:8000''"
    "ms_source_root race_spec = ''/src''" by (simp_all add: race_spec_def sample_admission_def str_of_json_def)
  show ?thesis
    unfolding attest_service_def c race_receipt_def race_identity
    by (rule sample_built [OF b b2])
qed

text \<open>The coroutine of a deployment in a phase, not cancelled.\<close>

definition task_in :: "service_phase \<Rightarrow> manager \<Rightarrow> service_task result" where
  "task_in p m = (case dict_get race_id (mg_tasks m) of None \<Rightarrow> Inl (KeyError race_id)
     | Some t \<Rightarrow> if tk_phase t = p \<and> \<not> tk_cancelled t then Inr t else Inl (KeyError race_id))"

lemma task_in_Inr: "task_in p m = Inr t \<Longrightarrow> dict_get race_id (mg_tasks m) = Some t \<and> tk_phase t = p \<and> \<not> tk_cancelled t"
  by (simp add: task_in_def)

text \<open>
  A deployment is stopped by request while its attestation runs, the attestation returns, a
  run is accepted, and then the process ends.
\<close>

definition race_attesting :: "manager result" where
  "race_attesting =
     rbind (start_service attest_env race_clock ''/dep'' ''1'' race_world race_spec race_empty) (\<lambda>(s, m1).
     rbind (task_in NotStarted m1) (\<lambda>t1.
     rbind (begin_run race_clock race_id t1 m1) (\<lambda>m2.
     rbind (task_in Spawning m2) (\<lambda>t2.
     rbind (task_in (Attesting None) (spawned race_id t2 m2)) (\<lambda>t3.
     admission_read race_clock race_id t3 sample_admission (spawned race_id t2 m2))))))"

definition race_submitted :: "manager \<Rightarrow> manager result" where
  "race_submitted m4 =
     rbind (stop_request race_clock race_id ''stop'' m4) (\<lambda>(b, m5).
     rbind (task_in (Attesting (Some sample_admission)) m5) (\<lambda>t5.
     rbind (if tk_spec t5 = race_spec then Inr () else Inl (KeyError race_id)) (\<lambda>_.
     rbind (become_ready race_clock race_id t5 race_identity race_receipt m5) (\<lambda>m6.
     rbind (assert_task_deployments_ready race_task m6) (\<lambda>_.
     rbind (submit attest_env race_clock (Inl []) ''r'' race_task ''/c/main.cu'' (Some (RegularFile [1])) (Some ''try'') (mg_runs m6)) (\<lambda>(r, runs).
     Inr (m6\<lparr>mg_runs := runs\<rparr>)))))))"

definition race_closed :: "manager \<Rightarrow> manager result" where
  "race_closed m7 =
     rbind (task_in Serving m7) (\<lambda>t7.
     rbind (if tk_process t7 = Alive then Inr (process_exits race_id t7 0 m7) else Inl (KeyError race_id)) (\<lambda>m8.
     rbind (task_in Serving m8) (\<lambda>t8.
     rbind (if tk_process t8 = Dead 0 then Inr (run_raises race_id t8 None m8) else Inl (KeyError race_id)) (\<lambda>m9.
     rbind (task_in (Closing None) m9) (\<lambda>t9.
     rbind (if tk_process t9 \<noteq> Alive then close_service race_clock race_id t9 None m9 else Inl (KeyError race_id)) Inr)))))"

definition race :: "manager result" where
  "race = rbind race_attesting (\<lambda>m4. rbind (race_submitted m4) race_closed)"

abbreviation race_reachable :: "manager \<Rightarrow> bool" where
  "race_reachable m \<equiv> manager_reachable attest_env race_clock ''/dep'' m"

lemma race_empty_reachable: "race_reachable race_empty"
proof (rule manager_reachable.initial)
  show "started_manager race_empty"
    by (simp add: started_manager_def race_empty_def wf_services_def dict_keys_def peek_service_def
        service_read_state_def service_read_files_def split: sum.splits)
qed

lemmas race_step = manager_reachable.step

lemma race_attesting_reachable:
  assumes "race_attesting = Inr m4"
  shows "race_reachable m4"
proof -
  from assms obtain s m1 t1 m2 t2 t3 where r:
    "start_service attest_env race_clock ''/dep'' ''1'' race_world race_spec race_empty = Inr (s, m1)"
    "task_in NotStarted m1 = Inr t1" "begin_run race_clock race_id t1 m1 = Inr m2" "task_in Spawning m2 = Inr t2"
    "task_in (Attesting None) (spawned race_id t2 m2) = Inr t3"
    "admission_read race_clock race_id t3 sample_admission (spawned race_id t2 m2) = Inr m4"
    by (auto simp: race_attesting_def)
  have m1: "race_reachable m1" by (rule race_step [OF race_empty_reachable manager_step.start [OF r(1)]])
  have m2: "race_reachable m2" using task_in_Inr [OF r(2)] r(3) by (blast intro: race_step [OF m1] manager_step.begins)
  have m3: "race_reachable (spawned race_id t2 m2)"
    using task_in_Inr [OF r(4)] by (blast intro: race_step [OF m2] manager_step.spawns)
  show ?thesis
    using task_in_Inr [OF r(5)] r(6) sample_load by (blast intro: race_step [OF m3] manager_step.admitted)
qed

lemma race_submitted_reachable:
  assumes "race_reachable m4" and "race_submitted m4 = Inr m7"
  shows "race_reachable m7"
proof -
  from assms(2) obtain b m5 t5 m6 r runs where r:
    "stop_request race_clock race_id ''stop'' m4 = Inr (b, m5)" "task_in (Attesting (Some sample_admission)) m5 = Inr t5"
    "tk_spec t5 = race_spec" "become_ready race_clock race_id t5 race_identity race_receipt m5 = Inr m6"
    "assert_task_deployments_ready race_task m6 = Inr ()"
    "submit attest_env race_clock (Inl []) ''r'' race_task ''/c/main.cu'' (Some (RegularFile [1])) (Some ''try'') (mg_runs m6) = Inr (r, runs)"
    "m7 = m6\<lparr>mg_runs := runs\<rparr>"
    by (auto simp: race_submitted_def)
  have m5: "race_reachable m5" by (rule race_step [OF assms(1) manager_step.stop [OF r(1)]])
  have a: "attest_service attest_env sample_outside ''now'' ''/s'' (FileParsed (JObj sample_admission)) ''/a'' (tk_spec t5) sample_admission =
     Inr race_receipt" using race_attested r(3) by simp
  have i: "become_ready race_clock race_id t5 (admission_identity attest_env (tk_spec t5) sample_admission) race_receipt m5 = Inr m6"
    using r(3,4) by (simp add: race_identity)
  have m6: "race_reachable m6"
    using task_in_Inr [OF r(2)] a i by (blast intro: race_step [OF m5] manager_step.ready)
  show ?thesis unfolding r(7) by (rule race_step [OF m6 manager_step.submits [OF r(5,6)]])
qed

lemma race_closed_reachable:
  assumes "race_reachable m7" and "race_closed m7 = Inr m10"
  shows "race_reachable m10"
proof -
  from assms(2) obtain t7 t8 t9 where r: "task_in Serving m7 = Inr t7" "tk_process t7 = Alive"
    "task_in Serving (process_exits race_id t7 0 m7) = Inr t8" "tk_process t8 = Dead 0"
    "task_in (Closing None) (run_raises race_id t8 None (process_exits race_id t7 0 m7)) = Inr t9" "tk_process t9 \<noteq> Alive"
    "close_service race_clock race_id t9 None (run_raises race_id t8 None (process_exits race_id t7 0 m7)) = Inr m10"
    by (auto simp: race_closed_def split: if_splits)
  have m8: "race_reachable (process_exits race_id t7 0 m7)"
    using task_in_Inr [OF r(1)] r(2) by (blast intro: race_step [OF assms(1)] manager_step.exits)
  have m9: "race_reachable (run_raises race_id t8 None (process_exits race_id t7 0 m7))"
    using task_in_Inr [OF r(3)] r(4) by (blast intro: race_step [OF m8] manager_step.served)
  show ?thesis using task_in_Inr [OF r(5)] r(6,7) by (blast intro: race_step [OF m9] manager_step.closes)
qed

lemma race_attesting_runs: "case race_attesting of Inl e \<Rightarrow> False | Inr m \<Rightarrow>
    lifecycle_of race_id m = Some SvcStarting \<and> \<not> isl (stop_request race_clock race_id ''stop'' m)"
  by code_simp

lemma race_runs: "case race of Inl e \<Rightarrow> False | Inr m \<Rightarrow>
    lifecycle_of race_id m = Some SvcStopped \<and> active_consumers race_id m \<noteq> []"
  by code_simp

lemma race_stopping:
  obtains m4 b m5 where "race_attesting = Inr m4" "race_reachable m4"
    "stop_request race_clock race_id ''stop'' m4 = Inr (b, m5)" "lifecycle_of race_id m4 = Some SvcStarting"
proof -
  from race_attesting_runs obtain m4 where m4: "race_attesting = Inr m4" "lifecycle_of race_id m4 = Some SvcStarting"
    "\<not> isl (stop_request race_clock race_id ''stop'' m4)" by (auto split: sum.splits)
  then obtain p where "stop_request race_clock race_id ''stop'' m4 = Inr p" by (cases "stop_request race_clock race_id ''stop'' m4") auto
  then show ?thesis using that [OF m4(1) race_attesting_reachable [OF m4(1)] _ m4(2)] by (cases p) auto
qed

section \<open>Properties\<close>

text \<open>C22: In every reachable state of the daemon, each step of its event loop either leaves a
  deployment's state alone or moves it along the lifecycle accepted, starting, ready,
  stopping to one of the end states; a deployment that has ended never changes again.\<close>

theorem services_follow_lifecycle:
  assumes "manager_reachable env clock home m" and "manager_step env clock home m m'"
  shows "abstract_move (lifecycle_of did m) (lifecycle_of did m') \<and>
    (\<forall>x. lifecycle_of did m = Some x \<and> service_terminal x \<longrightarrow> lifecycle_of did m' = Some x)"
proof -
  have move: "abstract_move (lifecycle_of did m) (lifecycle_of did m')"
    using step_sound [OF assms(2) reachable_inv [OF assms(1)]] by (simp add: sound_step_def)
  moreover have "service_terminal x \<Longrightarrow> \<not> service_moves x y" for x y by (cases x) simp_all
  ultimately show ?thesis by (auto simp: abstract_move_def)
qed

theorem services_follow_lifecycle_witness:
  "\<exists>m m'. race_reachable m \<and> manager_step attest_env race_clock ''/dep'' m m' \<and>
     abstract_move (lifecycle_of race_id m) (lifecycle_of race_id m')"
proof -
  obtain m4 b m5 where m: "race_reachable m4" "stop_request race_clock race_id ''stop'' m4 = Inr (b, m5)"
    by (rule race_stopping)
  have "manager_step attest_env race_clock ''/dep'' m4 m5" by (rule manager_step.stop [OF m(2)])
  with m(1) services_follow_lifecycle [OF m(1) this, of race_id] show ?thesis by blast
qed

text \<open>In every reachable state a deployment has not ended exactly as long as the daemon
  holds its coroutine, so none is orphaned and none is served after its end; and no service
  has two deployments that have not ended.\<close>

lemma open_deployment_has_coroutine:
  assumes "manager_reachable env clock home m"
  shows "(\<forall>did s. peek_service (mg_services m) did = Some s \<longrightarrow>
      (open_service s \<longleftrightarrow> dict_get did (mg_tasks m) \<noteq> None)) \<and> one_open m"
proof -
  have "open_service s \<longleftrightarrow> dict_get did (mg_tasks m) \<noteq> None" if "peek_service (mg_services m) did = Some s" for did s
    using reachable_inv [OF assms, unfolded manager_inv_def, THEN spec, of did] that
    by (simp add: deployment_inv_def lifecycle_of_def open_service_def)
  then show ?thesis using reachable_one_open [OF assms] by blast
qed

theorem open_deployment_has_coroutine_witness:
  "\<exists>m s. race_reachable m \<and> peek_service (mg_services m) race_id = Some s \<and> dict_get race_id (mg_tasks m) \<noteq> None"
proof -
  obtain m4 where m: "race_reachable m4" "lifecycle_of race_id m4 = Some SvcStarting" by (rule race_stopping)
  then obtain s where s: "peek_service (mg_services m4) race_id = Some s" "open_service s"
    by (auto simp: lifecycle_of_def open_service_def)
  have "open_service s \<longleftrightarrow> dict_get race_id (mg_tasks m4) \<noteq> None"
    using open_deployment_has_coroutine [OF m(1)] s(1) by blast
  with m(1) s show ?thesis by blast
qed

text \<open>In every reachable state a deployment that is stopping has a noted reason and no open
  run uses it: a stop is refused while there are consumers, and a run is accepted only when
  all its deployments are ready.\<close>

lemma stopping_service_unused:
  assumes "manager_reachable env clock home m" and "lifecycle_of did m = Some SvcStopping"
  shows "active_consumers did m = [] \<and> dict_get did (mg_stop_reasons m) \<noteq> None"
  using reachable_inv [OF assms(1)] assms(2) by (auto simp: manager_inv_def deployment_inv_def dest: spec [of _ did])

theorem stopping_service_unused_witness:
  "\<exists>m. race_reachable m \<and> lifecycle_of race_id m = Some SvcStopping \<and> active_consumers race_id m = []"
proof -
  obtain m4 b m5 where m: "race_reachable m4" "stop_request race_clock race_id ''stop'' m4 = Inr (b, m5)"
    "lifecycle_of race_id m4 = Some SvcStarting" by (rule race_stopping)
  have r: "race_reachable m5" by (rule race_step [OF m(1) manager_step.stop [OF m(2)]])
  have "lifecycle_of race_id m5 = Some SvcStopping"
    using stop_request_lifecycle [OF m(2,3)] by simp
  with r stopping_service_unused [OF r this] show ?thesis by blast
qed

text \<open>C23: The refusal does not protect every run: when the attestation returns after a stop was
  requested, the deployment becomes ready again and accepts a run, and is then stopped under
  it.  A state is reachable in which a stopped deployment has an open run.\<close>

theorem stopped_service_has_consumer:
  "\<exists>m. manager_reachable attest_env race_clock ''/dep'' m \<and> lifecycle_of race_id m = Some SvcStopped \<and>
     active_consumers race_id m \<noteq> []"
proof -
  from race_runs obtain m10 where race: "race = Inr m10" and fin: "lifecycle_of race_id m10 = Some SvcStopped"
    "active_consumers race_id m10 \<noteq> []" by (auto split: sum.splits)
  from race obtain m4 m7 where m: "race_attesting = Inr m4" "race_submitted m4 = Inr m7" "race_closed m7 = Inr m10"
    unfolding race_def rbind_eq_Inr_iff by blast
  have "race_reachable m10"
    by (rule race_closed_reachable [OF race_submitted_reachable [OF race_attesting_reachable [OF m(1)] m(2)] m(3)])
  with fin show ?thesis by blast
qed

text \<open>When the broker answers its cancellations, recovery after a restart succeeds: it
  interrupts every deployment that had not ended and counts them, leaves the ended ones as
  they are, and the daemon starts from a state the lifecycle theorems apply to.\<close>

lemma recovery_closes_services:
  assumes "wf_services st" and "\<And>job. \<exists>b. cancel job = Inr b"
  shows "\<exists>st'. recover_services clock cancel st = Inr (length (filter open_service (service_list_states None st)), st') \<and>
    (\<forall>did s. peek_service st did = Some s \<longrightarrow>
       (if open_service s then \<exists>z. peek_service st' did = Some z \<and> sv_state z = SvcInterrupted
        else peek_service st' did = Some s)) \<and>
    started_manager \<lparr>mg_services = st', mg_runs = runs, mg_tasks = [], mg_stop_reasons = [], mg_pending = []\<rparr>"
  by (rule recovered_services [OF assms])

theorem recovery_closes_services_witness:
  "\<exists>m st'. lifecycle_of race_id m = Some SvcStarting \<and>
     recover_services race_clock (\<lambda>job. Inr True) (mg_services m) =
       Inr (length (filter open_service (service_list_states None (mg_services m))), st')"
proof -
  obtain m4 where m: "race_reachable m4" "lifecycle_of race_id m4 = Some SvcStarting" by (rule race_stopping)
  have wf: "wf_services (mg_services m4)" using reachable_one_open [OF m(1)] by simp
  from recovery_closes_services [OF wf, of "\<lambda>job. Inr True" race_clock] m(2) show ?thesis by blast
qed

end
