(* ===== verification/Fleet_Catalog.thy ===== *)
theory Fleet_Catalog
  imports Attestation
begin

text \<open>
  \<open>src/kernel_infra/fleet.py\<close>: the catalog of remote nodes, the endpoint map that redirects
  them, the locators of remote runs, and the commands the fleet sends over \<open>ssh\<close>.
\<close>

section \<open>Texts\<close>

definition FLEET_SCHEMA :: string where
  "FLEET_SCHEMA = ''kernelinfra.fleet.v1''"

definition FLEET_ENDPOINTS_SCHEMA :: string where
  "FLEET_ENDPOINTS_SCHEMA = ''kernelinfra.fleet-endpoints.v1''"

definition lower_alpha :: "char \<Rightarrow> bool" where
  "lower_alpha c \<longleftrightarrow> (let n = of_char c :: nat in 97 \<le> n \<and> n \<le> 122)"

definition upper_alpha :: "char \<Rightarrow> bool" where
  "upper_alpha c \<longleftrightarrow> (let n = of_char c :: nat in 65 \<le> n \<and> n \<le> 90)"

definition alphanumeric :: "char \<Rightarrow> bool" where
  "alphanumeric c \<longleftrightarrow> lower_alpha c \<or> upper_alpha c \<or> decimal_char c"

text \<open>\<open>^[A-Za-z0-9_.@:-]+$\<close>, \<open>^/[A-Za-z0-9_./-]+$\<close> and \<open>^[a-z0-9][a-z0-9._-]{0,127}$\<close>.\<close>

definition is_ssh_host :: "string \<Rightarrow> bool" where
  "is_ssh_host s \<longleftrightarrow> s \<noteq> [] \<and> list_all (\<lambda>c. alphanumeric c \<or> c \<in> set ''_.@:-'') s"

definition is_remote_path :: "string \<Rightarrow> bool" where
  "is_remote_path s \<longleftrightarrow> (case s of c # cs \<Rightarrow> c = CHR ''/'' \<and> cs \<noteq> [] \<and>
     list_all (\<lambda>d. alphanumeric d \<or> d \<in> set ''_./-'') cs | [] \<Rightarrow> False)"

definition is_run_id :: "string \<Rightarrow> bool" where
  "is_run_id s \<longleftrightarrow> s \<noteq> [] \<and> id_start (hd s) \<and> list_all id_char (tl s) \<and> length s \<le> 128"

section \<open>The catalog\<close>

record fleet_node =
  fn_id :: string
  fn_ssh :: string
  fn_kernelctl :: string
  fn_socket :: string
  fn_inbox :: string
  fn_capabilities :: "string list"

record fleet_catalog =
  fc_nodes :: "fleet_node list"
  fc_connect_timeout_s :: py_float
  fc_command_timeout_s :: py_float
  fc_source_path :: string
  fc_digest :: string

record fleet_endpoint =
  fe_id :: string
  fe_ssh :: string
  fe_kernelctl :: string
  fe_socket :: string

record fleet_endpoints =
  fe_nodes :: "fleet_endpoint list"
  fe_source_path :: string

definition contract :: "bool \<Rightarrow> string \<Rightarrow> unit result" where
  "contract b message = (if b then Inr () else Inl (ContractError message))"

lemma contract_Inr [simp]: "contract b m = Inr u \<longleftrightarrow> b"
  by (simp add: contract_def)

definition safe_remote_path :: "json \<Rightarrow> string \<Rightarrow> string result" where
  "safe_remote_path value loc =
     (case value of
        JStr s \<Rightarrow> if is_remote_path s then Inr s
          else Inl (ContractError (loc @ '' must be an absolute remote path without whitespace''))
      | _ \<Rightarrow> Inl (ContractError (loc @ '' must be an absolute remote path without whitespace'')))"

definition identifier_value :: "json \<Rightarrow> bool" where
  "identifier_value v \<longleftrightarrow> (case v of JStr s \<Rightarrow> is_identifier s | _ \<Rightarrow> False)"

definition ssh_value :: "json \<Rightarrow> bool" where
  "ssh_value v \<longleftrightarrow> (case v of JStr s \<Rightarrow> is_ssh_host s | _ \<Rightarrow> False)"

definition load_json_contract :: "json_file \<Rightarrow> string \<Rightarrow> string \<Rightarrow> json result" where
  "load_json_contract content what source =
     (case content of
        FileMissing \<Rightarrow> Inl (ContractError (what @ '' not found: '' @ source))
      | FileMalformed e \<Rightarrow> Inl (ContractError (''invalid '' @ what @ '' JSON at '' @ source @ '': '' @ e))
      | FileParsed v \<Rightarrow> Inr v)"

definition parse_fleet_node :: "nat \<times> json \<Rightarrow> fleet_node result" where
  "parse_fleet_node item =
     (let loc = ''fleet.nodes['' @ nat_text (fst item) @ '']'' in
      case snd item of
        JObj d \<Rightarrow>
     rbind (contract (same_keys d [''id'', ''ssh'', ''kernelctl'', ''socket'', ''inbox'', ''capabilities''])
              (loc @ '' has invalid fields'')) (\<lambda>_.
     rbind (contract (identifier_value (dget ''id'' d)) (loc @ ''.id is invalid'')) (\<lambda>_.
     rbind (contract (ssh_value (dget ''ssh'' d)) (loc @ ''.ssh is unsafe'')) (\<lambda>_.
     let capabilities = json_items (dget ''capabilities'' d) in
     rbind (contract (is_list (dget ''capabilities'' d) \<and> list_all identifier_value capabilities)
              (loc @ ''.capabilities must be identifiers'')) (\<lambda>_.
     rbind (contract (distinct capabilities) (loc @ ''.capabilities must be unique'')) (\<lambda>_.
     rbind (safe_remote_path (dget ''kernelctl'' d) (loc @ ''.kernelctl'')) (\<lambda>kernelctl.
     rbind (safe_remote_path (dget ''socket'' d) (loc @ ''.socket'')) (\<lambda>socket.
     rbind (safe_remote_path (dget ''inbox'' d) (loc @ ''.inbox'')) (\<lambda>inbox.
     Inr \<lparr>fn_id = str_of_json (dget ''id'' d), fn_ssh = str_of_json (dget ''ssh'' d), fn_kernelctl = kernelctl,
          fn_socket = socket, fn_inbox = inbox, fn_capabilities = map str_of_json capabilities\<rparr>))))))))
      | _ \<Rightarrow> Inl (ContractError (loc @ '' has invalid fields'')))"

definition parse_fleet_catalog :: "py_env \<Rightarrow> json \<Rightarrow> string \<Rightarrow> fleet_catalog result" where
  "parse_fleet_catalog env value source =
     (case value of
        JObj raw \<Rightarrow>
     rbind (contract (list_all (\<lambda>k. k \<in> set [''schema'', ''nodes'', ''connect_timeout_s'', ''command_timeout_s''])
              (dict_keys raw)) ''fleet catalog has unexpected fields'') (\<lambda>_.
     rbind (contract (py_eq (dget ''schema'' raw) (JStr FLEET_SCHEMA))
              (''fleet catalog schema must be '' @ repr_str FLEET_SCHEMA)) (\<lambda>_.
     rbind (contract (json_items (dget ''nodes'' raw) \<noteq> []) ''fleet catalog nodes must be a non-empty list'') (\<lambda>_.
     rbind (rtraverse parse_fleet_node (List.enumerate 0 (json_items (dget ''nodes'' raw)))) (\<lambda>nodes.
     rbind (contract (distinct (map fn_id nodes)) ''fleet node ids must be unique'') (\<lambda>_.
     rbind (positive_number (case dict_get ''connect_timeout_s'' raw of None \<Rightarrow> JInt 8 | Some v \<Rightarrow> v) ''connect_timeout_s'')
       (\<lambda>connect.
     rbind (positive_number (case dict_get ''command_timeout_s'' raw of None \<Rightarrow> JInt 30 | Some v \<Rightarrow> v) ''command_timeout_s'')
       (\<lambda>command.
     Inr \<lparr>fc_nodes = nodes, fc_connect_timeout_s = connect, fc_command_timeout_s = command, fc_source_path = source,
          fc_digest = digest_json env value\<rparr>)))))))
      | _ \<Rightarrow> Inl (ContractError ''fleet catalog has unexpected fields''))"

definition load_fleet_catalog :: "py_env \<Rightarrow> json_file \<Rightarrow> string \<Rightarrow> fleet_catalog result" where
  "load_fleet_catalog env content path =
     (let source = resolve_path env (expanduser env path) in
      rbind (load_json_contract content ''fleet catalog'' source) (\<lambda>value. parse_fleet_catalog env value source))"

definition parse_fleet_endpoint :: "string list \<Rightarrow> nat \<times> json \<Rightarrow> fleet_endpoint result" where
  "parse_fleet_endpoint catalog_ids item =
     (let loc = ''fleet_endpoints.nodes['' @ nat_text (fst item) @ '']'' in
      case snd item of
        JObj d \<Rightarrow>
     rbind (contract (same_keys d [''id'', ''ssh'', ''kernelctl'', ''socket'']) (loc @ '' has invalid fields'')) (\<lambda>_.
     rbind (contract (identifier_value (dget ''id'' d)) (loc @ ''.id is invalid'')) (\<lambda>_.
     let node_id = str_of_json (dget ''id'' d) in
     rbind (contract (node_id \<in> set catalog_ids)
              (loc @ ''.id '' @ repr_str node_id @ '' is absent from the historical catalog'')) (\<lambda>_.
     rbind (contract (ssh_value (dget ''ssh'' d)) (loc @ ''.ssh is unsafe'')) (\<lambda>_.
     rbind (safe_remote_path (dget ''kernelctl'' d) (loc @ ''.kernelctl'')) (\<lambda>kernelctl.
     rbind (safe_remote_path (dget ''socket'' d) (loc @ ''.socket'')) (\<lambda>socket.
     Inr \<lparr>fe_id = node_id, fe_ssh = str_of_json (dget ''ssh'' d), fe_kernelctl = kernelctl, fe_socket = socket\<rparr>))))))
      | _ \<Rightarrow> Inl (ContractError (loc @ '' has invalid fields'')))"

definition load_fleet_endpoints :: "py_env \<Rightarrow> json_file \<Rightarrow> string \<Rightarrow> fleet_catalog \<Rightarrow> fleet_endpoints result" where
  "load_fleet_endpoints env content path catalog =
     (let source = resolve_path env (expanduser env path) in
      rbind (load_json_contract content ''fleet endpoint map'' source) (\<lambda>value.
      case value of
        JObj raw \<Rightarrow>
     rbind (contract (same_keys raw [''schema'', ''nodes'']) ''fleet endpoint map has invalid fields'') (\<lambda>_.
     rbind (contract (py_eq (dget ''schema'' raw) (JStr FLEET_ENDPOINTS_SCHEMA))
              (''fleet endpoint map schema must be '' @ repr_str FLEET_ENDPOINTS_SCHEMA)) (\<lambda>_.
     rbind (contract (json_items (dget ''nodes'' raw) \<noteq> []) ''fleet endpoint map nodes must be a non-empty list'') (\<lambda>_.
     rbind (rtraverse (parse_fleet_endpoint (map fn_id (fc_nodes catalog)))
              (List.enumerate 0 (json_items (dget ''nodes'' raw)))) (\<lambda>nodes.
     rbind (contract (distinct (map fe_id nodes)) ''fleet endpoint map node ids must be unique'') (\<lambda>_.
     Inr \<lparr>fe_nodes = nodes, fe_source_path = source\<rparr>)))))
      | _ \<Rightarrow> Inl (ContractError ''fleet endpoint map has invalid fields'')))"

section \<open>Nodes and locators\<close>

definition find_node :: "fleet_catalog \<Rightarrow> string \<Rightarrow> fleet_node result" where
  "find_node catalog node_id =
     (case filter (\<lambda>n. fn_id n = node_id) (fc_nodes catalog) of
        [n] \<Rightarrow> Inr n
      | _ \<Rightarrow> Inl (ContractError (''fleet catalog has no unique node '' @ repr_str node_id)))"

text \<open>A text with exactly one colon, split there.\<close>

definition split_colon :: "string \<Rightarrow> (string \<times> string) option" where
  "split_colon s =
     (case dropWhile (\<lambda>c. c \<noteq> CHR '':'') s of
        [] \<Rightarrow> None
      | c # cs \<Rightarrow> if CHR '':'' \<in> set cs then None else Some (takeWhile (\<lambda>c. c \<noteq> CHR '':'') s, cs))"

definition parse_locator :: "fleet_catalog \<Rightarrow> string \<Rightarrow> (fleet_node \<times> string) result" where
  "parse_locator catalog value =
     (case split_colon value of
        None \<Rightarrow> Inl (ContractError ''fleet locator must be node_id:run_id'')
      | Some (node_id, run_id) \<Rightarrow>
          if \<not> is_identifier node_id \<or> \<not> is_run_id run_id
          then Inl (ContractError ''fleet locator contains an invalid node or run id'')
          else rbind (find_node catalog node_id) (\<lambda>node. Inr (node, run_id)))"

definition endpoint_record :: "string \<Rightarrow> string \<Rightarrow> fleet_node \<Rightarrow> jdict" where
  "endpoint_record owner source node =
     [(''owner'', JStr owner), (''source'', JStr source), (''node_id'', JStr (fn_id node)),
      (''ssh'', JStr (fn_ssh node)), (''kernelctl'', JStr (fn_kernelctl node)), (''socket'', JStr (fn_socket node))]"

definition resolve_fleet_endpoint ::
  "fleet_catalog \<Rightarrow> fleet_node \<Rightarrow> fleet_endpoints option \<Rightarrow> (fleet_node \<times> jdict) result" where
  "resolve_fleet_endpoint catalog node endpoints =
     (case endpoints of
        None \<Rightarrow> Inr (node, endpoint_record ''historical-catalog'' (fc_source_path catalog) node)
      | Some es \<Rightarrow>
          (case filter (\<lambda>e. fe_id e = fn_id node) (fe_nodes es) of
             [e] \<Rightarrow>
               (let effective = \<lparr>fn_id = fn_id node, fn_ssh = fe_ssh e, fn_kernelctl = fe_kernelctl e,
                      fn_socket = fe_socket e, fn_inbox = fn_inbox node, fn_capabilities = fn_capabilities node\<rparr>
                in Inr (effective, endpoint_record ''fleet-endpoints'' (fe_source_path es) effective))
           | _ \<Rightarrow> Inl (ContractError (''fleet endpoint map has no unique endpoint for '' @ repr_str (fn_id node)))))"

section \<open>Commands\<close>

text \<open>\<open>shlex.quote\<close> and \<open>shlex.join\<close>.\<close>

definition shell_safe :: "char \<Rightarrow> bool" where
  "shell_safe c \<longleftrightarrow> alphanumeric c \<or> c \<in> set ''_@%+=:,./-''"

definition shlex_quote :: "string \<Rightarrow> string" where
  "shlex_quote s =
     (if s = [] then [CHR 0x27, CHR 0x27]
      else if list_all shell_safe s then s
      else [CHR 0x27] @ concat (map (\<lambda>c. if c = CHR 0x27
              then [CHR 0x27, CHR 0x22, CHR 0x27, CHR 0x22, CHR 0x27] else [c]) s) @ [CHR 0x27])"

definition shlex_join :: "string list \<Rightarrow> string" where
  "shlex_join args = join '' '' (map shlex_quote args)"

definition ceil_float :: "py_float \<Rightarrow> int" where
  "ceil_float x = (case x of Fin q \<Rightarrow> \<lceil>q\<rceil> | _ \<Rightarrow> 0)"

definition ssh_base :: "fleet_node \<Rightarrow> fleet_catalog \<Rightarrow> string list" where
  "ssh_base node catalog =
     [''ssh'', ''-o'', ''BatchMode=yes'', ''-o'',
      ''ConnectTimeout='' @ int_text (max 1 (ceil_float (fc_connect_timeout_s catalog))), fn_ssh node]"

text \<open>What a remote command gives: it could not run, or its exit code, parsed output and errors.\<close>

type_synonym remote_answer = "exn + (int \<times> json_file \<times> string)"

definition last_2000 :: "string \<Rightarrow> string" where
  "last_2000 s = drop (length s - 2000) s"

definition node_status_command :: "fleet_node \<Rightarrow> fleet_catalog \<Rightarrow> string list" where
  "node_status_command node catalog =
     ssh_base node catalog @ [shlex_join [fn_kernelctl node, ''node-status'', ''--socket'', fn_socket node, ''--json'']]"

definition bundle_command :: "fleet_node \<Rightarrow> fleet_catalog \<Rightarrow> string \<Rightarrow> string \<Rightarrow> string list" where
  "bundle_command node catalog bundle_id label =
     ssh_base node catalog @ [shlex_join [fn_kernelctl node, ''fleet-receive'', ''--socket'', fn_socket node,
       ''--inbox'', fn_inbox node, ''--bundle-id'', bundle_id, ''--label'', label]]"

definition RECEIVE_SCHEMA :: string where
  "RECEIVE_SCHEMA = ''kernelinfra.fleet-receive.v1''"

definition submit_bundle_to_node :: "fleet_node \<Rightarrow> remote_answer \<Rightarrow> jdict result" where
  "submit_bundle_to_node node answer =
     (case answer of
        Inl e \<Rightarrow> Inl (RuntimeError (''fleet transport failed for '' @ fn_id node @ '': '' @ exn_message e))
      | Inr (code, out, err) \<Rightarrow>
          if code \<noteq> 0
          then Inl (RuntimeError (''fleet receive failed on '' @ fn_id node @ '' exit='' @ int_text code @ '': ''
                 @ py_strip (last_2000 err)))
          else (case out of
             FileParsed (JObj response) \<Rightarrow>
               if \<not> py_eq (dget ''schema'' response) (JStr RECEIVE_SCHEMA)
               then Inl (RuntimeError (''fleet receive returned invalid payload on '' @ fn_id node))
               else Inr response
           | FileParsed _ \<Rightarrow> Inl (RuntimeError (''fleet receive returned invalid payload on '' @ fn_id node))
           | _ \<Rightarrow> Inl (RuntimeError (''fleet receive returned invalid JSON on '' @ fn_id node))))"

definition remote_kernelctl_json :: "fleet_node \<Rightarrow> bool \<Rightarrow> int list \<Rightarrow> remote_answer \<Rightarrow> json result" where
  "remote_kernelctl_json node expect_json allowed answer =
     (case answer of
        Inl e \<Rightarrow> Inl (RuntimeError (''remote operation failed for '' @ fn_id node @ '': '' @ exn_message e))
      | Inr (code, out, err) \<Rightarrow>
          if code \<notin> set allowed
          then Inl (RuntimeError (''remote operation failed on '' @ fn_id node @ '' exit='' @ int_text code @ '': ''
                 @ py_strip (last_2000 err)))
          else if \<not> expect_json then Inr (JObj [(''exit_code'', JInt code)])
          else (case out of
             FileParsed v \<Rightarrow> Inr v
           | _ \<Rightarrow> Inl (RuntimeError (''remote operation returned invalid JSON on '' @ fn_id node))))"

definition fetch_artifact_export :: "fleet_node \<Rightarrow> exn + int \<times> string \<Rightarrow> unit result" where
  "fetch_artifact_export node answer =
     (case answer of
        Inl e \<Rightarrow> Inl (RuntimeError (''artifact fetch failed for '' @ fn_id node @ '': '' @ exn_message e))
      | Inr (code, err) \<Rightarrow>
          if code \<noteq> 0
          then Inl (RuntimeError (''artifact export failed on '' @ fn_id node @ '' exit='' @ int_text code @ '': ''
                 @ py_strip (last_2000 err)))
          else Inr ())"

section \<open>Probing\<close>

definition OBSERVATION_SCHEMA :: string where
  "OBSERVATION_SCHEMA = ''kernelinfra.fleet-node-observation.v1''"

definition node_observation :: "fleet_node \<Rightarrow> json \<Rightarrow> exn + jdict \<Rightarrow> jdict" where
  "node_observation node elapsed outcome =
     [(''schema'', JStr OBSERVATION_SCHEMA), (''node_id'', JStr (fn_id node)), (''ssh'', JStr (fn_ssh node)),
      (''status'', JStr (case outcome of Inr s \<Rightarrow> ''ok'' | Inl e \<Rightarrow> ''unknown'')),
      (''capabilities'', JList (map JStr (sort (fn_capabilities node)))), (''elapsed_seconds'', elapsed),
      (''node'', (case outcome of Inr s \<Rightarrow> JObj s | Inl e \<Rightarrow> JNull)),
      (''error'', (case outcome of Inr s \<Rightarrow> JNull | Inl e \<Rightarrow> JStr (exn_described e)))]"

definition probe_outcome :: "remote_answer \<Rightarrow> exn + jdict" where
  "probe_outcome answer =
     (case answer of
        Inl e \<Rightarrow> Inl e
      | Inr (code, out, err) \<Rightarrow>
          if code \<noteq> 0
          then Inl (RuntimeError (''ssh exit '' @ int_text code @ '': '' @ py_strip (drop (length err - 1000) err)))
          else (case out of
             FileParsed (JObj status) \<Rightarrow>
               if py_eq (dget ''schema'' status) (JStr ''kernelinfra.node-status.v1'') then Inr status
               else Inl (RuntimeError ''remote node-status returned an invalid payload'')
           | FileParsed v \<Rightarrow> Inl (RuntimeError ''remote node-status returned an invalid payload'')
           | FileMalformed e \<Rightarrow> Inl (JSONDecodeError e)
           | FileMissing \<Rightarrow> Inl (JSONDecodeError [])))"

definition probe_node :: "fleet_node \<Rightarrow> remote_answer \<Rightarrow> json \<Rightarrow> jdict" where
  "probe_node node answer elapsed = node_observation node elapsed (probe_outcome answer)"

text \<open>One observation per node in catalog order; a probe that raises is an unknown node.\<close>

definition probe_fleet :: "fleet_catalog \<Rightarrow> (fleet_node \<Rightarrow> jdict result) \<Rightarrow> jdict list" where
  "probe_fleet catalog probe =
     map (\<lambda>node. case probe node of Inr v \<Rightarrow> v | Inl e \<Rightarrow> node_observation node (JFloat (Fin 0)) (Inl e)) (fc_nodes catalog)"

end
