(* ===== verification/Fleet_Select.thy ===== *)
theory Fleet_Select
  imports Fleet_Catalog Py_Builtins
begin

text \<open>
  \<open>src/kernel_infra/fleet.py\<close>: which node a candidate goes to.  \<open>select_node\<close> ranks the nodes
  whose observation has no reason against them; \<open>plan_batch_nodes\<close> assigns a batch one
  candidate at a time, each to the node with the least projected rank.  The observations
  are documents of other hosts, so every access can raise.
\<close>

section \<open>Selection\<close>

definition required_deployments :: "task_spec \<Rightarrow> string list" where
  "required_deployments task =
     remdups (concat (map (\<lambda>s. case st_service_deployment_id s of None \<Rightarrow> [] | Some d \<Rightarrow> [d]) (task_stages task)))"

record fleet_request =
  fq_capabilities :: "string list"
  fq_deployments :: "string list"
  fq_min_free_bytes :: int

record node_decision =
  nd_node_id :: string
  nd_reasons :: "string list"

definition nd_eligible :: "node_decision \<Rightarrow> bool" where
  "nd_eligible d \<longleftrightarrow> nd_reasons d = []"

definition missing_reason :: "string \<Rightarrow> string list \<Rightarrow> string list" where
  "missing_reason what missing = (if missing = [] then [] else [what @ join '','' missing])"

text \<open>The dictionary of a probed node, when the probe was ok.\<close>

definition probed_status :: "jdict \<Rightarrow> jdict option" where
  "probed_status observation =
     (if py_eq (dget ''status'' observation) (JStr ''ok'')
      then (case dget ''node'' observation of JObj status \<Rightarrow> Some status | _ \<Rightarrow> None) else None)"

definition node_reasons :: "py_env \<Rightarrow> fleet_request \<Rightarrow> fleet_node \<Rightarrow> jdict \<Rightarrow> string list result" where
  "node_reasons env q node observation =
     (case probed_status observation of
        None \<Rightarrow> Inr [''probe_unknown'']
      | Some status \<Rightarrow>
     rbind (py_set (dget_or ''ready_deployments'' (JList []) status)) (\<lambda>ready.
     rbind (as_dict (dget_or ''disk'' (JObj []) status)) (\<lambda>disk.
     rbind (py_int env (dget_or ''free_bytes'' (JInt 0) disk)) (\<lambda>free.
     rbind (as_dict (dget_or ''broker'' (JObj []) status)) (\<lambda>broker.
     Inr (missing_reason ''missing_capabilities=''
            (sort (remdups (filter (\<lambda>c. c \<notin> set (fn_capabilities node)) (fq_capabilities q)))) @
          missing_reason ''missing_deployments=''
            (sort (remdups (filter (\<lambda>d. JStr d \<notin> set ready) (fq_deployments q)))) @
          (if free < fq_min_free_bytes q then [''insufficient_disk''] else []) @
          (if py_truthy (dget ''probe_error'' broker) then [''broker_probe_error''] else [])))))))"

record node_load =
  nl_queue :: int
  nl_idle :: int
  nl_active :: int

definition idle_gpus :: "json \<Rightarrow> int result" where
  "idle_gpus gpus =
     rbind (py_iter gpus) (\<lambda>xs.
     rbind (rtraverse as_dict xs) (\<lambda>ds.
     Inr (int (length (filter (\<lambda>gpu. dget ''state'' gpu = JStr ''idle'') ds)))))"

definition node_load_of :: "jdict \<Rightarrow> node_load result" where
  "node_load_of status =
     rbind (dindex ''broker'' status) (\<lambda>b.
     rbind (as_dict b) (\<lambda>broker.
     rbind (idle_gpus (dget_or ''gpus'' (JList []) broker)) (\<lambda>idle.
     rbind (py_len (dget_or ''queue'' (JList []) broker)) (\<lambda>queue.
     rbind (py_len (dget_or ''active_runs'' (JList []) status)) (\<lambda>active.
     Inr \<lparr>nl_queue = queue, nl_idle = idle, nl_active = active\<rparr>)))))"

type_synonym node_rank = "int \<times> int \<times> int \<times> string"

definition load_rank :: "node_load \<Rightarrow> fleet_node \<Rightarrow> node_rank" where
  "load_rank l node = (nl_queue l, - nl_idle l, nl_active l, fn_id node)"

definition node_by_id :: "fleet_catalog \<Rightarrow> json \<Rightarrow> fleet_node result" where
  "node_by_id catalog v =
     (case v of
        JStr i \<Rightarrow> (case find (\<lambda>n. fn_id n = i) (rev (fc_nodes catalog)) of None \<Rightarrow> Inl (KeyError i) | Some n \<Rightarrow> Inr n)
      | _ \<Rightarrow> Inl (KeyError []))"

type_synonym ranked_node = "node_rank \<times> fleet_node \<times> jdict"

text \<open>One turn of the loop over the observations.\<close>

definition judge_node ::
  "py_env \<Rightarrow> fleet_catalog \<Rightarrow> fleet_request \<Rightarrow> jdict \<Rightarrow> (node_decision \<times> ranked_node option) result" where
  "judge_node env catalog q observation =
     rbind (dindex ''node_id'' observation) (\<lambda>i.
     rbind (node_by_id catalog i) (\<lambda>node.
     rbind (node_reasons env q node observation) (\<lambda>reasons.
     let decision = \<lparr>nd_node_id = fn_id node, nd_reasons = reasons\<rparr> in
     if reasons \<noteq> [] then Inr (decision, None)
     else case probed_status observation of
       None \<Rightarrow> Inr (decision, None)
     | Some status \<Rightarrow> rbind (node_load_of status) (\<lambda>l. Inr (decision, Some (load_rank l node, node, observation))))))"

text \<open>\<open>min(values, key=...)\<close>: the first of the least.\<close>

fun min_by :: "('a \<Rightarrow> 'b::linorder) \<Rightarrow> 'a \<Rightarrow> 'a list \<Rightarrow> 'a" where
  "min_by key x [] = x"
| "min_by key x (y # ys) = min_by key (if key y < key x then y else x) ys"

datatype selection =
    Selected fleet_node jdict "node_decision list"
  | NoneEligible string "node_decision list"

definition decision_text :: "node_decision \<Rightarrow> string" where
  "decision_text d = nd_node_id d @ '':''
     @ (if join '','' (nd_reasons d) = [] then ''ineligible'' else join '','' (nd_reasons d))"

definition select_node ::
  "py_env \<Rightarrow> fleet_catalog \<Rightarrow> jdict list \<Rightarrow> fleet_request \<Rightarrow> selection result" where
  "select_node env catalog observations q =
     rbind (rtraverse (judge_node env catalog q) observations) (\<lambda>judged.
     let decisions = map fst judged in
     case List.map_filter snd judged of
       [] \<Rightarrow> Inr (NoneEligible (''no eligible fleet node: '' @ join ''; '' (map decision_text decisions)) decisions)
     | e # es \<Rightarrow> (case min_by fst e es of (rank, node, observation) \<Rightarrow> Inr (Selected node observation decisions)))"

section \<open>Batches\<close>

definition MAX_FLEET_BATCH_CANDIDATES :: int where
  "MAX_FLEET_BATCH_CANDIDATES = 64"

definition projected_queue :: "node_load \<Rightarrow> int \<Rightarrow> int" where
  "projected_queue l n = nl_queue l + max 0 (n - nl_idle l)"

definition projected_rank :: "node_load \<Rightarrow> fleet_node \<Rightarrow> nat \<Rightarrow> node_rank" where
  "projected_rank l node before =
     (let n = int before + 1 in
      (projected_queue l n, - max 0 (nl_idle l - n), nl_active l + n, fn_id node))"

record batch_assignment =
  ba_index :: nat
  ba_node :: fleet_node
  ba_observation :: jdict
  ba_projected_rank :: node_rank
  ba_assigned_before :: nat

type_synonym loaded_node = "fleet_node \<times> jdict \<times> node_load"

definition next_rank :: "(string \<Rightarrow> nat) \<Rightarrow> loaded_node \<Rightarrow> node_rank" where
  "next_rank assigned c = (case c of (node, observation, l) \<Rightarrow> projected_rank l node (assigned (fn_id node)))"

fun assign_nodes :: "nat \<Rightarrow> nat \<Rightarrow> (string \<Rightarrow> nat) \<Rightarrow> loaded_node \<Rightarrow> loaded_node list \<Rightarrow> batch_assignment list" where
  "assign_nodes 0 i assigned c cs = []"
| "assign_nodes (Suc n) i assigned c cs =
     (let best = min_by (next_rank assigned) c cs; k = fn_id (fst best) in
      \<lparr>ba_index = i, ba_node = fst best, ba_observation = fst (snd best),
       ba_projected_rank = next_rank assigned best, ba_assigned_before = assigned k\<rparr> #
      assign_nodes n (Suc i) (assigned(k := Suc (assigned k))) c cs)"

definition loaded_node :: "fleet_catalog \<Rightarrow> jdict list \<Rightarrow> string \<Rightarrow> loaded_node result" where
  "loaded_node catalog observations k =
     rbind (node_by_id catalog (JStr k)) (\<lambda>node.
     case find (\<lambda>x. dget ''node_id'' x = JStr k) (rev observations) of
       None \<Rightarrow> Inl (KeyError k)
     | Some observation \<Rightarrow>
         rbind (dindex ''node'' observation) (\<lambda>status.
         case status of
           JObj d \<Rightarrow> rbind (node_load_of d) (\<lambda>l. Inr (node, observation, l))
         | _ \<Rightarrow> Inl (TypeError (repr_str (json_type_name status) @ '' object is not subscriptable''))))"

text \<open>
  The eligible ids are a set in the code; its order does not matter, since a rank ends with
  the id of its node.
\<close>

definition assign_eligible ::
  "fleet_catalog \<Rightarrow> jdict list \<Rightarrow> nat \<Rightarrow> node_decision list \<Rightarrow> (batch_assignment list \<times> node_decision list) result" where
  "assign_eligible catalog observations n decisions =
     rbind (rtraverse (loaded_node catalog observations)
              (remdups (map nd_node_id (filter nd_eligible decisions)))) (\<lambda>candidates.
     case candidates of
       [] \<Rightarrow> Inl (ValueError ''min() iterable argument is empty'')
     | c # cs \<Rightarrow> Inr (assign_nodes n 0 (\<lambda>k. 0) c cs, decisions))"

definition plan_batch_nodes ::
  "py_env \<Rightarrow> fleet_catalog \<Rightarrow> jdict list \<Rightarrow> fleet_request \<Rightarrow> int \<Rightarrow>
   (string \<times> node_decision list + batch_assignment list \<times> node_decision list) result" where
  "plan_batch_nodes env catalog observations q wanted =
     (if wanted < 1 then Inl (ValueError ''fleet batch count must be positive'')
      else if wanted > MAX_FLEET_BATCH_CANDIDATES
      then Inl (ValueError (''fleet batch supports at most '' @ int_text MAX_FLEET_BATCH_CANDIDATES @ '' candidates''))
      else
     rbind (select_node env catalog observations q) (\<lambda>sel.
     case sel of
       NoneEligible message decisions \<Rightarrow> Inr (Inl (message, decisions))
     | Selected node observation decisions \<Rightarrow>
         rbind (assign_eligible catalog observations (nat wanted) decisions) (\<lambda>plan. Inr (Inr plan))))"

end
