(* ===== verification/Fleet_Routes.thy ===== *)
theory Fleet_Routes
  imports Fleet_Select
begin

text \<open>
  \<open>src/kernel_infra/fleet.py\<close>: the receipts of routed runs and the observation of all of them.
  A route receipt carries its own digest and is checked against the catalog; what a remote
  host answers about a run is checked against the receipt.  \<open>fleet_snapshot\<close> validates every
  receipt before it queries any host.  The files are a function from resolved paths, a query
  a function from the node and the arguments.
\<close>

section \<open>Receipts\<close>

definition ROUTE_SCHEMA :: string where
  "ROUTE_SCHEMA = ''kernelinfra.route-receipt.v1''"

type_synonym files = "string \<Rightarrow> json_file"

definition fleet_path :: "py_env \<Rightarrow> string \<Rightarrow> string" where
  "fleet_path env path = resolve_path env (expanduser env path)"

definition without_key :: "string \<Rightarrow> jdict \<Rightarrow> jdict" where
  "without_key k d = filter (\<lambda>p. fst p \<noteq> k) d"

definition rstrip_slash :: "string \<Rightarrow> string" where
  "rstrip_slash s = rev (dropWhile (\<lambda>c. c = CHR ''/'') (rev s))"

definition locator_text :: "py_env \<Rightarrow> json \<Rightarrow> json \<Rightarrow> string" where
  "locator_text env node_id run_id = py_str (float_text env) node_id @ '':'' @ py_str (float_text env) run_id"

text \<open>The digest of the content without the digest itself.\<close>

definition route_digest_ok :: "py_env \<Rightarrow> jdict \<Rightarrow> bool" where
  "route_digest_ok env d \<longleftrightarrow>
     (case dget ''route_receipt_sha256'' d of
        JStr claimed \<Rightarrow> digest_json env (JObj (without_key ''route_receipt_sha256'' d)) = claimed
      | _ \<Rightarrow> False)"

definition check_route :: "py_env \<Rightarrow> fleet_catalog \<Rightarrow> jdict \<Rightarrow> jdict result" where
  "check_route env catalog d =
     rbind (contract (route_digest_ok env d) ''route receipt digest disagrees with content'') (\<lambda>_.
     case (if py_eq (dget ''status'' d) (JStr ''submitted'') then dget ''locator'' d else JNull) of
       JObj locator \<Rightarrow>
     rbind (contract (py_eq (dget ''catalog_sha256'' d) (JStr (fc_digest catalog)))
              ''route receipt catalog digest drift'') (\<lambda>_.
     let run_id = dget ''run_id'' locator in
     rbind (parse_locator catalog (locator_text env (dget ''node_id'' locator) run_id)) (\<lambda>(node, parsed_run).
     rbind (contract (py_eq (JStr (fn_id node)) (dget ''selected_node'' d) \<and> py_eq (JStr parsed_run) run_id)
              ''route receipt locator disagrees with selected node'') (\<lambda>_.
     case dget ''remote'' d of
       JObj remote \<Rightarrow>
         (let bundle_id = dget ''bundle_id'' d;
              expected_dir = rstrip_slash (fn_inbox node) @ ''/'' @ py_str (float_text env) bundle_id in
          rbind (contract (py_eq (dget ''bundle_id'' remote) bundle_id \<and> py_eq (dget ''bundle_dir'' remote) (JStr expected_dir))
                   ''route receipt remote bundle path disagrees with catalog'') (\<lambda>_.
          case dget ''run'' remote of
            JObj run \<Rightarrow>
              rbind (contract (py_eq (dget ''run_id'' run) run_id)
                       ''route receipt remote run disagrees with locator'') (\<lambda>_. Inr d)
          | _ \<Rightarrow> Inl (ContractError ''route receipt remote run disagrees with locator'')))
     | _ \<Rightarrow> Inl (ContractError ''route receipt has no remote receive payload''))))
     | _ \<Rightarrow> Inl (ContractError ''route receipt does not own a submitted locator''))"

definition load_route_receipt :: "py_env \<Rightarrow> files \<Rightarrow> fleet_catalog \<Rightarrow> string \<Rightarrow> jdict result" where
  "load_route_receipt env fs catalog path =
     (let source = fleet_path env path in
      case fs source of
        FileParsed (JObj d) \<Rightarrow>
          if py_eq (dget ''schema'' d) (JStr ROUTE_SCHEMA) then check_route env catalog d
          else Inl (ContractError ''invalid route receipt schema'')
      | FileParsed v \<Rightarrow> Inl (ContractError ''invalid route receipt schema'')
      | content \<Rightarrow> Inl (ContractError (''invalid route receipt '' @ source @ '': '' @ file_error content source)))"

definition route_locator_from_receipt ::
  "py_env \<Rightarrow> files \<Rightarrow> fleet_catalog \<Rightarrow> string \<Rightarrow> (fleet_node \<times> string \<times> jdict) result" where
  "route_locator_from_receipt env fs catalog path =
     rbind (load_route_receipt env fs catalog path) (\<lambda>receipt.
     rbind (dindex ''locator'' receipt) (\<lambda>l.
     rbind (as_dict l) (\<lambda>locator.
     rbind (dindex ''node_id'' locator) (\<lambda>node_id.
     rbind (dindex ''run_id'' locator) (\<lambda>run_id.
     rbind (parse_locator catalog (locator_text env node_id run_id)) (\<lambda>(node, run).
     Inr (node, run, receipt)))))))"

section \<open>Answers about a routed run\<close>

definition check_drift :: "jdict \<Rightarrow> string \<Rightarrow> string \<times> json \<Rightarrow> unit result" where
  "check_drift response operation expected =
     (if py_eq (dget (fst expected) response) (snd expected) then Inr ()
      else Inl (RuntimeError (''remote '' @ operation @ '' '' @ fst expected @ '' drift'')))"

definition validate_route_run_response ::
  "json \<Rightarrow> jdict \<Rightarrow> string \<Rightarrow> string \<Rightarrow> jdict result" where
  "validate_route_run_response value route run_id operation =
     (case value of
        JObj response \<Rightarrow>
     rbind (rtraverse (\<lambda>k. dindex k route) [''task_id'', ''task_sha256'', ''candidate_sha256'']) (\<lambda>pinned.
     rbind (rtraverse (check_drift response operation)
              (zip [''run_id'', ''task_id'', ''task_sha256'', ''candidate_sha256''] (JStr run_id # pinned))) (\<lambda>_.
     rbind (dindex ''remote'' route) (\<lambda>r.
     rbind (as_dict r) (\<lambda>remote.
     rbind (dindex ''run'' remote) (\<lambda>u.
     rbind (as_dict u) (\<lambda>run.
     let expected = dget ''run_dir'' run in
     if expected \<noteq> JNull \<and> \<not> py_eq (dget ''run_dir'' response) expected
     then Inl (RuntimeError (''remote '' @ operation @ '' run_dir drift''))
     else if \<not> nonempty_str (dget ''state'' response)
     then Inl (RuntimeError (''remote '' @ operation @ '' has no lifecycle state''))
     else Inr response))))))
      | _ \<Rightarrow> Inl (RuntimeError (''remote '' @ operation @ '' returned a non-object'')))"

type_synonym remote_query = "fleet_node \<Rightarrow> string list \<Rightarrow> json result"

definition query_route_status :: "remote_query \<Rightarrow> fleet_node \<Rightarrow> string \<Rightarrow> jdict \<Rightarrow> jdict result" where
  "query_route_status query node run_id route =
     rbind (query node [''status'', ''--socket'', fn_socket node, ''--json'', run_id]) (\<lambda>value.
     case value of
       JList [answer] \<Rightarrow> validate_route_run_response answer route run_id ''status''
     | _ \<Rightarrow> Inl (RuntimeError ''remote status did not return one run''))"

definition REMOTE_OBSERVATION_SCHEMA :: string where
  "REMOTE_OBSERVATION_SCHEMA = ''kernelinfra.remote-observation.v2''"

definition locator_object :: "string \<Rightarrow> string \<Rightarrow> json" where
  "locator_object node_id run_id = JObj [(''node_id'', JStr node_id), (''run_id'', JStr run_id)]"

definition opt_text :: "string option \<Rightarrow> json" where
  "opt_text t = (case t of None \<Rightarrow> JNull | Some s \<Rightarrow> JStr s)"

definition remote_observation_receipt ::
  "py_env \<Rightarrow> string \<Rightarrow> fleet_catalog \<Rightarrow> fleet_node \<Rightarrow> string \<Rightarrow> string \<Rightarrow> json \<Rightarrow> string option \<Rightarrow> jdict option \<Rightarrow> jdict" where
  "remote_observation_receipt env now catalog node run_id operation response error endpoint =
     (let e = (case endpoint of None \<Rightarrow> endpoint_record ''historical-catalog'' (fc_source_path catalog) node | Some d \<Rightarrow> d);
          value = [(''schema'', JStr REMOTE_OBSERVATION_SCHEMA), (''observed_at'', JStr now),
            (''catalog'', JStr (fc_source_path catalog)), (''catalog_sha256'', JStr (fc_digest catalog)),
            (''operation'', JStr operation), (''locator'', locator_object (fn_id node) run_id), (''endpoint'', JObj e),
            (''status'', JStr (if error = None then ''ok'' else ''unknown'')), (''response'', response),
            (''error'', opt_text error)]
      in value @ [(''observation_sha256'', JStr (digest_json env (JObj value)))])"

section \<open>Snapshots\<close>

definition FLEET_SNAPSHOT_SCHEMA :: string where
  "FLEET_SNAPSHOT_SCHEMA = ''kernelinfra.fleet-snapshot.v2''"

definition MAX_FLEET_SNAPSHOT_ROUTES :: nat where
  "MAX_FLEET_SNAPSHOT_ROUTES = 256"

record fleet_target =
  ft_source :: string
  ft_node :: fleet_node
  ft_run_id :: string
  ft_route :: jdict
  ft_endpoint :: jdict

definition ft_key :: "fleet_target \<Rightarrow> string \<times> string" where
  "ft_key t = (fn_id (ft_node t), ft_run_id t)"

definition route_target :: "py_env \<Rightarrow> files \<Rightarrow> fleet_catalog \<Rightarrow> fleet_endpoints option \<Rightarrow> string \<Rightarrow> fleet_target result" where
  "route_target env fs catalog endpoints path =
     (let source = fleet_path env path in
      rbind (route_locator_from_receipt env fs catalog source) (\<lambda>(historical, run_id, route).
      rbind (resolve_fleet_endpoint catalog historical endpoints) (\<lambda>(node, endpoint).
      Inr \<lparr>ft_source = source, ft_node = node, ft_run_id = run_id, ft_route = route, ft_endpoint = endpoint\<rparr>)))"

text \<open>The loop over the paths; a target keeps the id of its historical node.\<close>

definition add_target ::
  "py_env \<Rightarrow> files \<Rightarrow> fleet_catalog \<Rightarrow> fleet_endpoints option \<Rightarrow> fleet_target list \<Rightarrow> string \<Rightarrow> fleet_target list result" where
  "add_target env fs catalog endpoints targets path =
     rbind (route_target env fs catalog endpoints path) (\<lambda>t.
     if ft_key t \<in> set (map ft_key targets)
     then Inl (ContractError (''fleet snapshot contains duplicate locator '' @ fn_id (ft_node t) @ '':'' @ ft_run_id t))
     else Inr (targets @ [t]))"

definition snapshot_targets ::
  "py_env \<Rightarrow> files \<Rightarrow> fleet_catalog \<Rightarrow> fleet_endpoints option \<Rightarrow> string list \<Rightarrow> fleet_target list result" where
  "snapshot_targets env fs catalog endpoints paths =
     (if paths = [] then Inl (ContractError ''fleet snapshot requires at least one route receipt'')
      else if length paths > MAX_FLEET_SNAPSHOT_ROUTES
      then Inl (ContractError (''fleet snapshot supports at most '' @ nat_text MAX_FLEET_SNAPSHOT_ROUTES @ '' routes''))
      else rbind (rfold (add_target env fs catalog endpoints) [] paths) (\<lambda>targets. Inr (sort_key ft_key targets)))"

record route_observation =
  ro_route :: string
  ro_route_receipt_sha256 :: json
  ro_node_id :: string
  ro_run_id :: string
  ro_endpoint :: jdict
  ro_outcome :: "string + jdict"

definition ro_key :: "route_observation \<Rightarrow> string \<times> string" where
  "ro_key r = (ro_node_id r, ro_run_id r)"

definition observe :: "remote_query \<Rightarrow> fleet_target \<Rightarrow> route_observation" where
  "observe query t =
     \<lparr>ro_route = ft_source t, ro_route_receipt_sha256 = dget ''route_receipt_sha256'' (ft_route t),
      ro_node_id = fn_id (ft_node t), ro_run_id = ft_run_id t, ro_endpoint = ft_endpoint t,
      ro_outcome = (case query_route_status query (ft_node t) (ft_run_id t) (ft_route t) of
        Inl e \<Rightarrow> Inl (exn_described e) | Inr response \<Rightarrow> Inr response)\<rparr>"

record snapshot_summary =
  ss_total :: nat
  ss_ok :: nat
  ss_unknown :: nat
  ss_terminal :: nat
  ss_nonterminal :: nat
  ss_states :: "nat dict"

text \<open>A checked response has a text as its state.\<close>

definition ok_states :: "route_observation list \<Rightarrow> string list" where
  "ok_states observations =
     concat (map (\<lambda>r. case ro_outcome r of Inr response \<Rightarrow> [str_of_json (dget ''state'' response)] | Inl e \<Rightarrow> [])
       observations)"

definition count_state :: "nat dict \<Rightarrow> string \<Rightarrow> nat dict" where
  "count_state states s = dict_set s ((case dict_get s states of None \<Rightarrow> 0 | Some n \<Rightarrow> n) + 1) states"

definition summarize :: "route_observation list \<Rightarrow> snapshot_summary" where
  "summarize observations =
     (let states = ok_states observations; terminal = filter (\<lambda>s. s \<in> lifecycle_name ` set TERMINAL_STATES) states in
      \<lparr>ss_total = length observations, ss_ok = length states, ss_unknown = length observations - length states,
       ss_terminal = length terminal, ss_nonterminal = length states - length terminal,
       ss_states = sort_key fst (foldl count_state [] states)\<rparr>)"

record fleet_view =
  fv_observed_at :: string
  fv_catalog :: string
  fv_observations :: "route_observation list"
  fv_summary :: snapshot_summary

definition fleet_snapshot ::
  "py_env \<Rightarrow> string \<Rightarrow> files \<Rightarrow> fleet_catalog \<Rightarrow> fleet_endpoints option \<Rightarrow> remote_query \<Rightarrow> string list \<Rightarrow> fleet_view result" where
  "fleet_snapshot env now fs catalog endpoints query paths =
     rbind (snapshot_targets env fs catalog endpoints paths) (\<lambda>targets.
     let observations = sort_key ro_key (map (observe query) targets)
     in Inr \<lparr>fv_observed_at = now, fv_catalog = fc_source_path catalog, fv_observations = observations,
             fv_summary = summarize observations\<rparr>)"

end
