(* ===== verification/Fleet_Select_Facts.thy ===== *)
theory Fleet_Select_Facts
  imports Fleet_Select Attestation_Facts
begin

text \<open>
  The selection is the least-ranked eligible node whatever the order of the observations,
  and a planned batch leaves no projected queue longer than it had to be.
\<close>

section \<open>Least elements\<close>

lemma min_by_least: "min_by key x xs \<in> set (x # xs) \<and> (\<forall>y \<in> set (x # xs). key (min_by key x xs) \<le> key y)"
proof (induction key x xs rule: min_by.induct)
  case (2 key x y ys)
  then show ?case by (cases "key y < key x") (auto intro: order_trans less_imp_le)
qed simp

lemma rtraverse_Inr_map:
  assumes "rtraverse f xs = Inr ys"
  shows "ys = map (\<lambda>x. projr (f x)) xs" and "x \<in> set xs \<Longrightarrow> f x = Inr (projr (f x))"
proof -
  have each: "f x = Inr (projr (f x))" if "x \<in> set xs" for x
    using rtraverse_setI [OF assms that] by auto
  then show "x \<in> set xs \<Longrightarrow> f x = Inr (projr (f x))" .
  have "rtraverse f xs = Inr (map (\<lambda>x. projr (f x)) xs)" by (rule rtraverse_all_Inr) (rule each)
  with assms show "ys = map (\<lambda>x. projr (f x)) xs" by simp
qed

lemma rtraverse_permuted:
  assumes "rtraverse f xs = Inr ys" and "mset xs' = mset xs"
  shows "rtraverse f xs' = Inr (map (\<lambda>x. projr (f x)) xs')" and "mset (map (\<lambda>x. projr (f x)) xs') = mset ys"
proof -
  have "set xs' = set xs" using assms(2) by (metis set_mset_mset)
  then show "rtraverse f xs' = Inr (map (\<lambda>x. projr (f x)) xs')"
    by (intro rtraverse_all_Inr rtraverse_Inr_map(2) [OF assms(1)]) simp
  show "mset (map (\<lambda>x. projr (f x)) xs') = mset ys"
    unfolding rtraverse_Inr_map(1) [OF assms(1)] by (simp add: assms(2))
qed

section \<open>Selection\<close>

lemma judge_node_Some:
  assumes "judge_node env catalog q x = Inr (d, Some (r, node, y))"
  shows "y = x" and "dget ''node_id'' x = JStr (fn_id node)" and "snd (snd (snd r)) = fn_id node"
    and "nd_eligible d" and "nd_node_id d = fn_id node"
proof -
  from assms obtain i node' reasons where j: "dindex ''node_id'' x = Inr i" "node_by_id catalog i = Inr node'"
    "(let decision = \<lparr>nd_node_id = fn_id node', nd_reasons = reasons\<rparr> in
      if reasons \<noteq> [] then Inr (decision, None)
      else case probed_status x of
        None \<Rightarrow> Inr (decision, None)
      | Some status \<Rightarrow> rbind (node_load_of status) (\<lambda>l. Inr (decision, Some (load_rank l node', node', x))))
      = (Inr (d, Some (r, node, y)) :: _ result)"
    unfolding judge_node_def rbind_eq_Inr_iff by blast
  from j(3) have k: "y = x" "node' = node" "d = \<lparr>nd_node_id = fn_id node, nd_reasons = []\<rparr>" "\<exists>l. r = load_rank l node"
    by (auto simp: Let_def split: option.splits if_splits)
  show "y = x" by (rule k(1))
  from j(2) k(2) have "i = JStr (fn_id node)"
    by (auto simp: node_by_id_def find_Some_iff split: json.splits option.splits)
  with j(1) show "dget ''node_id'' x = JStr (fn_id node)" by (simp add: dget_def)
  show "snd (snd (snd r)) = fn_id node" using k(4) by (auto simp: load_rank_def)
  show "nd_eligible d" "nd_node_id d = fn_id node" using k(3) by (simp_all add: nd_eligible_def)
qed

lemma judge_node_decision:
  assumes "judge_node env catalog q x = Inr (d, e)"
  shows "nd_eligible d \<longleftrightarrow> e \<noteq> None"
  using assms
  by (cases "probed_status x") (auto simp: judge_node_def Let_def nd_eligible_def node_reasons_def load_rank_def split: if_splits)

definition ranked :: "(node_decision \<times> ranked_node option) list \<Rightarrow> ranked_node list" where
  "ranked judged = List.map_filter snd judged"

lemma in_ranked: "e \<in> set (ranked judged) \<longleftrightarrow> (\<exists>d. (d, Some e) \<in> set judged)"
  unfolding ranked_def by (induction judged) (auto split: option.splits)

lemma mset_ranked: "mset judged' = mset judged \<Longrightarrow> mset (ranked judged') = mset (ranked judged)"
  by (simp add: ranked_def map_filter_def)

lemma select_node_judged:
  assumes "rtraverse (judge_node env catalog q) xs = Inr judged"
  shows "select_node env catalog xs q =
    (case ranked judged of
       [] \<Rightarrow> Inr (NoneEligible (''no eligible fleet node: '' @ join ''; '' (map decision_text (map fst judged))) (map fst judged))
     | e # es \<Rightarrow> (case min_by fst e es of (r, node, x) \<Rightarrow> Inr (Selected node x (map fst judged))))"
  by (simp add: select_node_def assms Let_def ranked_def)

lemma ranked_unique:
  assumes "rtraverse (judge_node env catalog q) xs = Inr judged" and "distinct (map (dget ''node_id'') xs)"
    and "e1 \<in> set (ranked judged)" and "e2 \<in> set (ranked judged)" and "fst e1 = fst e2"
  shows "e1 = e2"
proof -
  have mem: "\<exists>x d. x \<in> set xs \<and> judge_node env catalog q x = Inr (d, Some e)" if "e \<in> set (ranked judged)" for e
  proof -
    from that [unfolded in_ranked] obtain d where "(d, Some e) \<in> set judged" ..
    from rtraverse_setD [OF assms(1) this] show ?thesis by auto
  qed
  obtain r n1 y1 where e1: "e1 = (r, n1, y1)" by (cases e1)
  obtain n2 y2 where e2: "e2 = (r, n2, y2)" using assms(5) e1 by (cases e2) auto
  obtain x1 d1 where x1: "x1 \<in> set xs" "judge_node env catalog q x1 = Inr (d1, Some (r, n1, y1))"
    using mem [OF assms(3)] e1 by blast
  obtain x2 d2 where x2: "x2 \<in> set xs" "judge_node env catalog q x2 = Inr (d2, Some (r, n2, y2))"
    using mem [OF assms(4)] e2 by blast
  have "dget ''node_id'' x1 = dget ''node_id'' x2"
    using judge_node_Some(2,3) [OF x1(2)] judge_node_Some(2,3) [OF x2(2)] by simp
  then have "x1 = x2" using assms(2) x1(1) x2(1) by (simp add: distinct_map inj_on_def)
  with x1(2) x2(2) e1 e2 show ?thesis by simp
qed

lemma least_ranked:
  assumes "ranked judged = e # es"
  shows "min_by fst e es \<in> set (ranked judged)" and "e' \<in> set (ranked judged) \<Longrightarrow> fst (min_by fst e es) \<le> fst e'"
  using min_by_least [of fst e es] assms by auto

lemma select_node_Selected:
  assumes "select_node env catalog xs q = Inr (Selected node x ds)"
  shows "\<exists>judged r. rtraverse (judge_node env catalog q) xs = Inr judged \<and> ds = map fst judged \<and>
    (r, node, x) \<in> set (ranked judged) \<and> (\<forall>e \<in> set (ranked judged). r \<le> fst e)"
proof -
  from assms obtain judged where j: "rtraverse (judge_node env catalog q) xs = Inr judged"
    unfolding select_node_def rbind_eq_Inr_iff by blast
  from assms [unfolded select_node_judged [OF j]] obtain e es r where e: "ranked judged = e # es"
    "min_by fst e es = (r, node, x)" "ds = map fst judged"
    by (auto split: list.splits prod.splits)
  from least_ranked [OF e(1)] e j show ?thesis
    by (intro exI [of _ judged] exI [of _ r]) (auto simp: e(2))
qed

lemma select_node_permuted:
  assumes "select_node env catalog xs q = Inr (Selected node x ds)" and "mset xs' = mset xs"
    and "distinct (map (dget ''node_id'') xs)"
  shows "\<exists>ds'. select_node env catalog xs' q = Inr (Selected node x ds') \<and> mset ds' = mset ds"
proof -
  from select_node_Selected [OF assms(1)] obtain judged r where j:
    "rtraverse (judge_node env catalog q) xs = Inr judged" "ds = map fst judged"
    "(r, node, x) \<in> set (ranked judged)" "\<forall>e \<in> set (ranked judged). r \<le> fst e" by blast
  define judged' where "judged' = map (\<lambda>x. projr (judge_node env catalog q x)) xs'"
  note p = rtraverse_permuted [OF j(1) assms(2), folded judged'_def]
  have same: "set (ranked judged') = set (ranked judged)"
    using mset_ranked [OF p(2)] by (metis set_mset_mset)
  then obtain e es where e: "ranked judged' = e # es" using j(3) by (cases "ranked judged'") auto
  have "min_by fst e es \<in> set (ranked judged)" using least_ranked(1) [OF e] same by simp
  moreover have "fst (min_by fst e es) = r"
    using least_ranked(2) [OF e, of "(r, node, x)"] j(3,4) same calculation by force
  ultimately have "min_by fst e es = (r, node, x)"
    using ranked_unique [OF j(1) assms(3), of "min_by fst e es" "(r, node, x)"] j(3) by simp
  then have "select_node env catalog xs' q = Inr (Selected node x (map fst judged'))"
    by (simp add: select_node_judged [OF p(1)] e)
  moreover have "mset (map fst judged') = mset ds" using p(2) j(2) by (metis mset_map)
  ultimately show ?thesis by blast
qed

section \<open>Batches\<close>

definition assigned_to :: "string \<Rightarrow> batch_assignment list \<Rightarrow> nat" where
  "assigned_to k assignments = length (filter (\<lambda>a. fn_id (ba_node a) = k) assignments)"

lemma projected_queue_mono: "m \<le> n \<Longrightarrow> projected_queue l m \<le> projected_queue l n"
  by (simp add: projected_queue_def)

lemma assign_nodes_basic:
  "length (assign_nodes n i assigned c cs) = n \<and> map ba_index (assign_nodes n i assigned c cs) = [i..<i + n] \<and>
   (\<forall>a \<in> set (assign_nodes n i assigned c cs). \<exists>x l. (ba_node a, x, l) \<in> set (c # cs) \<and> x = ba_observation a)"
proof (induction n arbitrary: i assigned)
  case (Suc n)
  define b where "b = min_by (next_rank assigned) c cs"
  have "b \<in> set (c # cs)" unfolding b_def using min_by_least [of "next_rank assigned" c cs] by (rule conjunct1)
  moreover obtain node x l where "b = (node, x, l)" by (cases b)
  ultimately have "\<exists>x l. (fst b, x, l) \<in> set (c # cs) \<and> x = fst (snd b)" by auto
  with Suc [of "Suc i"] show ?case by (simp add: Let_def upt_conv_Cons flip: b_def)
qed simp

lemma next_rank_le:
  "next_rank assigned (n1, x1, l1) \<le> next_rank assigned (n2, x2, l2) \<Longrightarrow>
    projected_queue l1 (int (assigned (fn_id n1)) + 1) \<le> projected_queue l2 (int (assigned (fn_id n2)) + 1)"
  by (auto simp: next_rank_def projected_rank_def Let_def less_eq_prod_def)

lemma assign_nodes_balanced:
  assumes "distinct (map (\<lambda>c. fn_id (fst c)) (c # cs))"
    and "(n1, x1, l1) \<in> set (c # cs)" and "(n2, x2, l2) \<in> set (c # cs)"
    and "assigned_to (fn_id n1) (assign_nodes n i assigned c cs) > 0"
  shows "projected_queue l1 (int (assigned (fn_id n1) + assigned_to (fn_id n1) (assign_nodes n i assigned c cs)))
    \<le> projected_queue l2 (int (assigned (fn_id n2) + assigned_to (fn_id n2) (assign_nodes n i assigned c cs)) + 1)"
  using assms(4)
proof (induction n arbitrary: i assigned)
  case 0
  then show ?case by (simp add: assigned_to_def)
next
  case (Suc n)
  obtain nb xb lb where best: "min_by (next_rank assigned) c cs = (nb, xb, lb)" by (cases "min_by (next_rank assigned) c cs")
  define k where "k = fn_id nb"
  define assigned' where "assigned' = assigned(k := Suc (assigned k))"
  define rest where "rest = assign_nodes n (Suc i) assigned' c cs"
  have as: "assign_nodes (Suc n) i assigned c cs =
      \<lparr>ba_index = i, ba_node = nb, ba_observation = xb, ba_projected_rank = next_rank assigned (nb, xb, lb),
       ba_assigned_before = assigned k\<rparr> # rest"
    by (simp add: best Let_def k_def assigned'_def rest_def)
  have total: "assigned j + assigned_to j (assign_nodes (Suc n) i assigned c cs) = assigned' j + assigned_to j rest" for j
    unfolding as by (simp add: assigned_to_def assigned'_def k_def)
  show ?case
  proof (cases "assigned_to (fn_id n1) rest > 0")
    case True
    from Suc.IH [of "Suc i" assigned'] True show ?thesis unfolding total rest_def by simp
  next
    case False
    with Suc.prems have k1: "fn_id n1 = k" unfolding as by (simp add: assigned_to_def k_def split: if_splits)
    have mem: "(nb, xb, lb) \<in> set (c # cs)" using min_by_least [of "next_rank assigned" c cs] best by simp
    have "(n1, x1, l1) = (nb, xb, lb)"
      using assms(1,2) mem k1 unfolding k_def distinct_map inj_on_def by fastforce
    then have "next_rank assigned (n1, x1, l1) \<le> next_rank assigned (n2, x2, l2)"
      using min_by_least [of "next_rank assigned" c cs] best assms(3) by (metis (no_types))
    then have "projected_queue l1 (int (assigned (fn_id n1)) + 1) \<le> projected_queue l2 (int (assigned (fn_id n2)) + 1)"
      by (rule next_rank_le)
    also have "\<dots> \<le> projected_queue l2 (int (assigned' (fn_id n2) + assigned_to (fn_id n2) rest) + 1)"
      by (rule projected_queue_mono) (simp add: assigned'_def)
    finally show ?thesis
      using False k1 unfolding total by (simp add: assigned'_def add.commute)
  qed
qed

lemma loaded_node_id:
  "loaded_node catalog xs k = Inr (node, x, l) \<Longrightarrow> fn_id node = k \<and> x \<in> set xs"
  by (auto simp: loaded_node_def node_by_id_def find_Some_iff split: option.splits) (metis nth_mem length_rev set_rev)

lemma plan_candidates:
  assumes "rtraverse (loaded_node catalog xs) ks = Inr cs"
  shows "map (\<lambda>c. fn_id (fst c)) cs = ks"
proof -
  have "list_all2 (\<lambda>k c. loaded_node catalog xs k = Inr c) ks cs" using assms by (simp add: rtraverse_eq_Inr_iff)
  then show ?thesis by (induction rule: list_all2_induct) (auto dest: loaded_node_id)
qed

section \<open>Properties\<close>

text \<open>A catalog of two nodes: one has a free GPU, the other a longer queue.\<close>

definition sample_node :: "string \<Rightarrow> fleet_node" where
  "sample_node k = \<lparr>fn_id = k, fn_ssh = k, fn_kernelctl = ''/k'', fn_socket = ''/s'', fn_inbox = ''/i'', fn_capabilities = [''c'']\<rparr>"

definition sample_catalog :: fleet_catalog where
  "sample_catalog = \<lparr>fc_nodes = [sample_node ''a'', sample_node ''b''], fc_connect_timeout_s = Fin 8,
     fc_command_timeout_s = Fin 30, fc_source_path = ''/f'', fc_digest = []\<rparr>"

definition sample_observation :: "string \<Rightarrow> nat \<Rightarrow> nat \<Rightarrow> jdict" where
  "sample_observation k queue idle =
     [(''node_id'', JStr k), (''status'', JStr ''ok''),
      (''node'', JObj [(''broker'', JObj [(''queue'', JList (replicate queue JNull)),
         (''gpus'', JList (replicate idle (JObj [(''state'', JStr ''idle'')])))]), (''disk'', JObj [(''free_bytes'', JInt 5)])])]"

definition sample_request :: fleet_request where
  "sample_request = \<lparr>fq_capabilities = [''c''], fq_deployments = [], fq_min_free_bytes = 5\<rparr>"

definition sample_observations :: "jdict list" where
  "sample_observations = [sample_observation ''a'' 0 2, sample_observation ''b'' 0 0]"

text \<open>C27: the order in which the observations arrive does not matter: when they are about distinct
  nodes, any reordering of them gives the same node and the same observation, and the same
  decisions up to order; and the chosen node is the least-ranked of the eligible ones.
\<close>

theorem select_node_order_irrelevant:
  assumes "distinct (map (dget ''node_id'') xs)" and "mset xs' = mset xs"
    and "select_node env catalog xs q = Inr (Selected node x ds)"
  shows "(\<exists>ds'. select_node env catalog xs' q = Inr (Selected node x ds') \<and> mset ds' = mset ds) \<and>
    (\<exists>d r. judge_node env catalog q x = Inr (d, Some (r, node, x)) \<and>
       (\<forall>y \<in> set xs. \<forall>d' r' node'. judge_node env catalog q y = Inr (d', Some (r', node', y)) \<longrightarrow> r \<le> r'))"
proof
  show "\<exists>ds'. select_node env catalog xs' q = Inr (Selected node x ds') \<and> mset ds' = mset ds"
    by (rule select_node_permuted [OF assms(3,2,1)])
  from select_node_Selected [OF assms(3)] obtain judged r where j:
    "rtraverse (judge_node env catalog q) xs = Inr judged" "(r, node, x) \<in> set (ranked judged)"
    "\<forall>e \<in> set (ranked judged). r \<le> fst e" by blast
  from j(2) [unfolded in_ranked] obtain d where d: "(d, Some (r, node, x)) \<in> set judged" ..
  from rtraverse_setD [OF j(1) d] obtain x' where "judge_node env catalog q x' = Inr (d, Some (r, node, x))" ..
  with judge_node_Some(1) [OF this] have "judge_node env catalog q x = Inr (d, Some (r, node, x))" by simp
  moreover have "r \<le> r'" if y: "y \<in> set xs" "judge_node env catalog q y = Inr (d', Some (r', node', y))" for y d' r' node'
  proof -
    from rtraverse_setI [OF j(1) y(1)] y(2) have "(d', Some (r', node', y)) \<in> set judged" by auto
    then have "(r', node', y) \<in> set (ranked judged)" unfolding in_ranked ..
    with j(3) show ?thesis by fastforce
  qed
  ultimately show "\<exists>d r. judge_node env catalog q x = Inr (d, Some (r, node, x)) \<and>
      (\<forall>y \<in> set xs. \<forall>d' r' node'. judge_node env catalog q y = Inr (d', Some (r', node', y)) \<longrightarrow> r \<le> r')" by blast
qed

lemma sample_selected:
  "\<exists>ds. select_node attest_env sample_catalog sample_observations sample_request =
    Inr (Selected (sample_node ''a'') (sample_observation ''a'' 0 2) ds)"
proof -
  have "(case select_node attest_env sample_catalog sample_observations sample_request of
      Inr (Selected node x ds) \<Rightarrow> node = sample_node ''a'' \<and> x = sample_observation ''a'' 0 2 | _ \<Rightarrow> False)"
    by code_simp
  then show ?thesis by (auto split: sum.splits selection.splits)
qed

theorem select_node_order_irrelevant_witness:
  "\<exists>ds. select_node attest_env sample_catalog (rev sample_observations) sample_request =
    Inr (Selected (sample_node ''a'') (sample_observation ''a'' 0 2) ds)"
proof -
  obtain ds where s: "select_node attest_env sample_catalog sample_observations sample_request =
    Inr (Selected (sample_node ''a'') (sample_observation ''a'' 0 2) ds)" using sample_selected ..
  have "distinct (map (dget ''node_id'') sample_observations)" by code_simp
  from select_node_order_irrelevant [OF this _ s, of "rev sample_observations"] show ?thesis by auto
qed

lemma plan_batch_nodes_Inr:
  assumes "plan_batch_nodes env catalog xs q wanted = Inr (Inr (assignments, ds))"
  shows "1 \<le> wanted \<and> wanted \<le> MAX_FLEET_BATCH_CANDIDATES \<and>
    (\<exists>c cs. rtraverse (loaded_node catalog xs) (remdups (map nd_node_id (filter nd_eligible ds))) = Inr (c # cs) \<and>
       assignments = assign_nodes (nat wanted) 0 (\<lambda>k. 0) c cs)"
proof -
  from assms have range: "1 \<le> wanted" "wanted \<le> MAX_FLEET_BATCH_CANDIDATES"
    by (auto simp: plan_batch_nodes_def split: if_splits)
  with assms obtain sel where sel: "select_node env catalog xs q = Inr sel"
    "(case sel of
       NoneEligible message decisions \<Rightarrow> Inr (Inl (message, decisions))
     | Selected node observation decisions \<Rightarrow>
         rbind (assign_eligible catalog xs (nat wanted) decisions) (\<lambda>plan. Inr (Inr plan))) = Inr (Inr (assignments, ds))"
    by (auto simp: plan_batch_nodes_def)
  from sel(2) obtain decisions where "assign_eligible catalog xs (nat wanted) decisions = Inr (assignments, ds)"
    by (cases sel) auto
  then obtain candidates where c:
    "rtraverse (loaded_node catalog xs) (remdups (map nd_node_id (filter nd_eligible decisions))) = Inr candidates"
    "(case candidates of
       [] \<Rightarrow> Inl (ValueError ''min() iterable argument is empty'')
     | c # cs \<Rightarrow> Inr (assign_nodes (nat wanted) 0 (\<lambda>k. 0) c cs, decisions)) = Inr (assignments, ds)"
    unfolding assign_eligible_def rbind_eq_Inr_iff by blast
  from c(2) obtain b bs where "candidates = b # bs" by (cases candidates) auto
  with c range show ?thesis by auto
qed

text \<open>C28: a batch plan gives every candidate, from 1 to 64 of them, one eligible node, in order,
  and is balanced: the queue projected on any node that got work is at most the queue any
  eligible node would have with one more candidate, so no candidate could have been moved to
  a node where it waits less.
\<close>

theorem plan_batch_balanced:
  assumes "plan_batch_nodes env catalog xs q wanted = Inr (Inr (assignments, ds))"
  shows "1 \<le> wanted \<and> wanted \<le> 64 \<and> int (length assignments) = wanted \<and>
    map ba_index assignments = [0..<nat wanted] \<and>
    (\<forall>a \<in> set assignments. \<exists>d \<in> set ds. nd_eligible d \<and> nd_node_id d = fn_id (ba_node a)) \<and>
    (\<forall>d1 \<in> set ds. \<forall>d2 \<in> set ds. \<forall>n1 x1 l1 n2 x2 l2.
       nd_eligible d1 \<and> nd_eligible d2 \<and>
       loaded_node catalog xs (nd_node_id d1) = Inr (n1, x1, l1) \<and> loaded_node catalog xs (nd_node_id d2) = Inr (n2, x2, l2) \<and>
       0 < assigned_to (nd_node_id d1) assignments \<longrightarrow>
       projected_queue l1 (int (assigned_to (nd_node_id d1) assignments))
         \<le> projected_queue l2 (int (assigned_to (nd_node_id d2) assignments) + 1))"
proof -
  define ks where "ks = remdups (map nd_node_id (filter nd_eligible ds))"
  from plan_batch_nodes_Inr [OF assms, folded ks_def] obtain c cs where p: "1 \<le> wanted" "wanted \<le> MAX_FLEET_BATCH_CANDIDATES"
    "rtraverse (loaded_node catalog xs) ks = Inr (c # cs)" "assignments = assign_nodes (nat wanted) 0 (\<lambda>k. 0) c cs" by blast
  note basic = assign_nodes_basic [of "nat wanted" 0 "\<lambda>k. 0" c cs, folded p(4)]
  have ids: "map (\<lambda>c. fn_id (fst c)) (c # cs) = ks" by (rule plan_candidates [OF p(3)])
  have dist: "distinct (map (\<lambda>c. fn_id (fst c)) (c # cs))" unfolding ids by (simp add: ks_def)
  have mem: "(n, x, l) \<in> set (c # cs) \<and> fn_id n = nd_node_id d"
    if "d \<in> set ds" "nd_eligible d" "loaded_node catalog xs (nd_node_id d) = Inr (n, x, l)" for d n x l
  proof -
    have "nd_node_id d \<in> set ks" using that(1,2) by (auto simp: ks_def)
    from rtraverse_setI [OF p(3) this] that(3) show ?thesis using loaded_node_id by fastforce
  qed
  have balanced: "projected_queue l1 (int (assigned_to (nd_node_id d1) assignments))
      \<le> projected_queue l2 (int (assigned_to (nd_node_id d2) assignments) + 1)"
    if "d1 \<in> set ds" "d2 \<in> set ds" "nd_eligible d1" "nd_eligible d2" "loaded_node catalog xs (nd_node_id d1) = Inr (n1, x1, l1)"
      "loaded_node catalog xs (nd_node_id d2) = Inr (n2, x2, l2)" "0 < assigned_to (nd_node_id d1) assignments" for d1 d2 n1 x1 l1 n2 x2 l2
    using assign_nodes_balanced [of c cs n1 x1 l1 n2 x2 l2 "nat wanted" 0 "\<lambda>k. 0", folded p(4)]
      mem [OF that(1,3,5)] mem [OF that(2,4,6)] that(7) dist by simp
  have eligible: "\<exists>d \<in> set ds. nd_eligible d \<and> nd_node_id d = fn_id (ba_node a)" if "a \<in> set assignments" for a
  proof -
    from basic that obtain x l where "(ba_node a, x, l) \<in> set (c # cs)" by blast
    then have "fn_id (ba_node a) \<in> set (map (\<lambda>c. fn_id (fst c)) (c # cs))" by force
    then have "fn_id (ba_node a) \<in> set ks" unfolding ids .
    then show ?thesis by (auto simp: ks_def)
  qed
  show ?thesis using p(1,2) basic eligible balanced by (auto simp: MAX_FLEET_BATCH_CANDIDATES_def)
qed

text \<open>Three candidates: the node with two idle GPUs takes two, the third goes to the other.\<close>

theorem plan_batch_balanced_witness:
  "\<exists>assignments ds. plan_batch_nodes attest_env sample_catalog sample_observations sample_request 3 = Inr (Inr (assignments, ds)) \<and>
    map (\<lambda>a. fn_id (ba_node a)) assignments = [''a'', ''a'', ''b''] \<and> length assignments = 3"
proof -
  have "case plan_batch_nodes attest_env sample_catalog sample_observations sample_request 3 of
      Inr (Inr (assignments, ds)) \<Rightarrow> map (\<lambda>a. fn_id (ba_node a)) assignments = [''a'', ''a'', ''b''] | _ \<Rightarrow> False"
    by code_simp
  then obtain assignments ds where a: "plan_batch_nodes attest_env sample_catalog sample_observations sample_request 3 = Inr (Inr (assignments, ds))"
    "map (\<lambda>a. fn_id (ba_node a)) assignments = [''a'', ''a'', ''b'']" by (auto split: sum.splits)
  from plan_batch_balanced [OF a(1)] a show ?thesis by auto
qed

end
