(* ===== verification/Fleet_Routes_Facts.thy ===== *)
theory Fleet_Routes_Facts
  imports Fleet_Routes Fleet_Select_Facts
begin

text \<open>
  What a route receipt that loads says, and what a fleet snapshot shows: every route once, the
  counts of its summary, and answers that agree with the receipts.
\<close>

section \<open>Routes\<close>

lemma check_route_Inr:
  assumes "check_route env catalog d = Inr d'"
  shows "d' = d" and "route_digest_ok env d"
  using assms by (auto simp: check_route_def Let_def split: json.splits prod.splits)

lemma load_route_receipt_Inr:
  assumes "load_route_receipt env fs catalog path = Inr route"
  shows "fs (fleet_path env path) = FileParsed (JObj route)" and "route_digest_ok env route"
proof -
  from assms obtain d where d: "fs (fleet_path env path) = FileParsed (JObj d)" "check_route env catalog d = Inr route"
    by (auto simp: load_route_receipt_def Let_def split: json_file.splits json.splits if_splits)
  with check_route_Inr [OF d(2)] show "fs (fleet_path env path) = FileParsed (JObj route)" "route_digest_ok env route"
    by simp_all
qed

lemma resolve_keeps_id:
  "resolve_fleet_endpoint catalog node endpoints = Inr (effective, e) \<Longrightarrow> fn_id effective = fn_id node"
  by (auto simp: resolve_fleet_endpoint_def Let_def split: option.splits list.splits)

section \<open>Answers\<close>

lemma validate_route_run_response_Inr:
  assumes "validate_route_run_response value route run_id operation = Inr response"
  shows "value = JObj response" and "py_eq (dget ''run_id'' response) (JStr run_id)"
    and "\<forall>k \<in> {''task_id'', ''task_sha256'', ''candidate_sha256''}. py_eq (dget k response) (dget k route)"
    and "nonempty_str (dget ''state'' response)"
proof -
  from assms obtain d where d: "value = JObj d" by (cases "value") (auto simp: validate_route_run_response_def)
  from assms have "(rbind (rtraverse (\<lambda>k. dindex k route) [''task_id'', ''task_sha256'', ''candidate_sha256'']) (\<lambda>pinned.
     rbind (rtraverse (check_drift d operation)
              (zip [''run_id'', ''task_id'', ''task_sha256'', ''candidate_sha256''] (JStr run_id # pinned))) (\<lambda>_.
     rbind (dindex ''remote'' route) (\<lambda>r.
     rbind (as_dict r) (\<lambda>remote.
     rbind (dindex ''run'' remote) (\<lambda>u.
     rbind (as_dict u) (\<lambda>run.
     if dget ''run_dir'' run \<noteq> JNull \<and> \<not> py_eq (dget ''run_dir'' d) (dget ''run_dir'' run)
     then Inl (RuntimeError (''remote '' @ operation @ '' run_dir drift''))
     else if \<not> nonempty_str (dget ''state'' d)
     then Inl (RuntimeError (''remote '' @ operation @ '' has no lifecycle state''))
     else Inr d))))))) = Inr response"
    by (simp only: d validate_route_run_response_def json.simps Let_def)
  then obtain pinned where p:
    "rtraverse (\<lambda>k. dindex k route) [''task_id'', ''task_sha256'', ''candidate_sha256''] = Inr pinned"
    "\<exists>u. rtraverse (check_drift d operation)
       (zip [''run_id'', ''task_id'', ''task_sha256'', ''candidate_sha256''] (JStr run_id # pinned)) = Inr u"
    "response = d \<and> nonempty_str (dget ''state'' d)"
    unfolding rbind_eq_Inr_iff if_Inl_eq_Inr_iff by blast
  from p(1) obtain t s c where c: "pinned = [t, s, c]" "dget ''task_id'' route = t" "dget ''task_sha256'' route = s"
    "dget ''candidate_sha256'' route = c" by (auto simp: dget_Some)
  from p(2) obtain u where "rtraverse (check_drift d operation)
       (zip [''run_id'', ''task_id'', ''task_sha256'', ''candidate_sha256''] (JStr run_id # pinned)) = Inr u" ..
  then have "py_eq (dget ''run_id'' d) (JStr run_id) \<and> py_eq (dget ''task_id'' d) t \<and> py_eq (dget ''task_sha256'' d) s
      \<and> py_eq (dget ''candidate_sha256'' d) c"
    unfolding c(1) by (simp add: check_drift_def split: if_splits)
  with c p(3) d show "value = JObj response" "py_eq (dget ''run_id'' response) (JStr run_id)"
    "\<forall>k \<in> {''task_id'', ''task_sha256'', ''candidate_sha256''}. py_eq (dget k response) (dget k route)"
    "nonempty_str (dget ''state'' response)" by simp_all
qed

lemma query_route_status_Inr:
  assumes "query_route_status query node run_id route = Inr response"
  shows "\<exists>answer. validate_route_run_response answer route run_id ''status'' = Inr response"
proof -
  from assms obtain v where v: "(case v of
       JList [answer] \<Rightarrow> validate_route_run_response answer route run_id ''status''
     | _ \<Rightarrow> Inl (RuntimeError ''remote status did not return one run'')) = Inr response"
    unfolding query_route_status_def rbind_eq_Inr_iff by blast
  then obtain xs where x: "v = JList xs" by (cases v) auto
  with v show ?thesis by (cases xs; cases "tl xs") auto
qed

section \<open>Targets\<close>

lemma add_target_Inr:
  "add_target env fs catalog endpoints targets path = Inr targets' \<longleftrightarrow>
    (\<exists>t. route_target env fs catalog endpoints path = Inr t \<and> ft_key t \<notin> set (map ft_key targets) \<and> targets' = targets @ [t])"
  by (auto simp: add_target_def)

lemma add_targets_Inr:
  assumes "rfold (add_target env fs catalog endpoints) targets paths = Inr targets'" and "distinct (map ft_key targets)"
  shows "\<exists>ts. rtraverse (route_target env fs catalog endpoints) paths = Inr ts \<and> targets' = targets @ ts \<and>
    distinct (map ft_key targets')"
  using assms
proof (induction paths arbitrary: targets)
  case (Cons path paths)
  from Cons.prems(1) obtain t where t: "route_target env fs catalog endpoints path = Inr t"
    "ft_key t \<notin> set (map ft_key targets)" "rfold (add_target env fs catalog endpoints) (targets @ [t]) paths = Inr targets'"
    by (auto simp: add_target_Inr)
  have "distinct (map ft_key (targets @ [t]))" using Cons.prems(2) t(2) by simp
  from Cons.IH [OF t(3) this] t(1) show ?case by auto
qed simp

lemma route_target_Inr:
  assumes "route_target env fs catalog endpoints path = Inr t"
  shows "ft_source t = fleet_path env path" and "load_route_receipt env fs catalog (fleet_path env path) = Inr (ft_route t)"
  using assms by (auto simp: route_target_def route_locator_from_receipt_def Let_def)

lemma snapshot_targets_Inr:
  assumes "snapshot_targets env fs catalog endpoints paths = Inr targets"
  shows "\<exists>ts. rtraverse (route_target env fs catalog endpoints) paths = Inr ts \<and> mset targets = mset ts \<and>
    distinct (map ft_key targets) \<and> paths \<noteq> [] \<and> length paths \<le> MAX_FLEET_SNAPSHOT_ROUTES"
proof -
  from assms obtain ts where t: "rfold (add_target env fs catalog endpoints) [] paths = Inr ts"
    "targets = sort_key ft_key ts" "paths \<noteq> []" "length paths \<le> MAX_FLEET_SNAPSHOT_ROUTES"
    by (auto simp: snapshot_targets_def split: if_splits)
  from add_targets_Inr [OF t(1)] have ts: "rtraverse (route_target env fs catalog endpoints) paths = Inr ts"
    "distinct (map ft_key ts)" by auto
  have same: "mset targets = mset ts" by (simp add: t(2))
  then have "mset (map ft_key targets) = mset (map ft_key ts)" by simp
  with ts(2) have "distinct (map ft_key targets)" by (metis mset_eq_imp_distinct_iff)
  with ts(1) same t(3,4) show ?thesis by blast
qed

section \<open>Counting\<close>

lemma tally_get:
  "dict_get s (foldl count_state d ss) =
    (if s \<in> set ss then Some ((case dict_get s d of None \<Rightarrow> 0 | Some n \<Rightarrow> n) + count_list ss s) else dict_get s d)"
proof (induction ss arbitrary: d)
  case (Cons x ss)
  show ?case
    unfolding foldl_Cons Cons.IH by (auto simp: count_state_def count_list_0_iff split: option.splits)
qed simp

lemma tally_distinct: "distinct (dict_keys d) \<Longrightarrow> distinct (dict_keys (foldl count_state d ss))"
  by (induction ss arbitrary: d) (auto simp: count_state_def distinct_dict_set)

lemma summary_state:
  "(s, n) \<in> set (ss_states (summarize obs)) \<longleftrightarrow> s \<in> set (ok_states obs) \<and> n = count_list (ok_states obs) s"
proof -
  have "distinct (dict_keys (foldl count_state [] (ok_states obs)))" by (rule tally_distinct) (simp add: dict_keys_def)
  from dict_get_mem_iff [OF this, of s n] show ?thesis
    by (auto simp: summarize_def Let_def tally_get split: if_splits)
qed

section \<open>Snapshots\<close>

definition observed_ok :: "route_observation \<Rightarrow> bool" where
  "observed_ok r \<longleftrightarrow> (case ro_outcome r of Inl e \<Rightarrow> False | Inr response \<Rightarrow> True)"

lemma length_ok_states: "length (ok_states obs) = length (filter observed_ok obs)"
  by (induction obs) (auto simp: ok_states_def observed_ok_def split: sum.splits)

lemma summarize_counts:
  "ss_total (summarize obs) = length obs" "ss_ok (summarize obs) = length (filter observed_ok obs)"
  "ss_ok (summarize obs) + ss_unknown (summarize obs) = ss_total (summarize obs)"
  "ss_terminal (summarize obs) + ss_nonterminal (summarize obs) = ss_ok (summarize obs)"
proof -
  have "length (ok_states obs) \<le> length obs" unfolding length_ok_states by simp
  then show "ss_total (summarize obs) = length obs" "ss_ok (summarize obs) = length (filter observed_ok obs)"
    "ss_ok (summarize obs) + ss_unknown (summarize obs) = ss_total (summarize obs)"
    "ss_terminal (summarize obs) + ss_nonterminal (summarize obs) = ss_ok (summarize obs)"
    by (simp_all add: summarize_def Let_def length_ok_states flip: length_ok_states)
qed

lemma observe_simps [simp]:
  "ro_route (observe query t) = ft_source t" "ro_key (observe query t) = ft_key t" "ro_run_id (observe query t) = ft_run_id t"
  by (simp_all add: observe_def ro_key_def ft_key_def)

lemma observe_ok:
  assumes "ro_outcome (observe query t) = Inr response"
  shows "py_eq (dget ''run_id'' response) (JStr (ft_run_id t)) \<and>
    (\<forall>k \<in> {''task_id'', ''task_sha256'', ''candidate_sha256''}. py_eq (dget k response) (dget k (ft_route t))) \<and>
    nonempty_str (dget ''state'' response)"
proof -
  from assms have "query_route_status query (ft_node t) (ft_run_id t) (ft_route t) = Inr response"
    by (simp add: observe_def split: sum.splits)
  from query_route_status_Inr [OF this] obtain answer where
    "validate_route_run_response answer (ft_route t) (ft_run_id t) ''status'' = Inr response" ..
  from validate_route_run_response_Inr [OF this] show ?thesis by blast
qed

text \<open>C29: a fleet snapshot is complete and honest.  It has exactly one observation per given
  route, 1 to 256 of them, with distinct locators, sorted; its counts add up, and every state
  is counted as often as it was reported; every answer it accepts is about the run, task and
  candidate of a receipt that loads.  Every receipt is validated before any host is asked:
  whether the snapshot is made does not depend on what the hosts answer.
\<close>

theorem fleet_snapshot_complete:
  assumes "fleet_snapshot env now fs catalog endpoints query paths = Inr view"
  shows "1 \<le> length paths \<and> length paths \<le> 256 \<and>
    mset (map ro_route (fv_observations view)) = mset (map (fleet_path env) paths) \<and>
    distinct (map ro_key (fv_observations view)) \<and> sorted (map ro_key (fv_observations view)) \<and>
    ss_total (fv_summary view) = length paths \<and>
    ss_ok (fv_summary view) = length (filter observed_ok (fv_observations view)) \<and>
    ss_ok (fv_summary view) + ss_unknown (fv_summary view) = ss_total (fv_summary view) \<and>
    ss_terminal (fv_summary view) + ss_nonterminal (fv_summary view) = ss_ok (fv_summary view) \<and>
    (\<forall>s n. (s, n) \<in> set (ss_states (fv_summary view)) \<longleftrightarrow>
       s \<in> set (ok_states (fv_observations view)) \<and> n = count_list (ok_states (fv_observations view)) s) \<and>
    (\<forall>r \<in> set (fv_observations view). \<exists>route. load_route_receipt env fs catalog (ro_route r) = Inr route \<and>
       (\<forall>response. ro_outcome r = Inr response \<longrightarrow>
          py_eq (dget ''run_id'' response) (JStr (ro_run_id r)) \<and>
          (\<forall>k \<in> {''task_id'', ''task_sha256'', ''candidate_sha256''}. py_eq (dget k response) (dget k route)))) \<and>
    (\<forall>query'. \<exists>view'. fleet_snapshot env now fs catalog endpoints query' paths = Inr view')"
proof -
  from assms obtain targets where t: "snapshot_targets env fs catalog endpoints paths = Inr targets"
    and view: "view = \<lparr>fv_observed_at = now, fv_catalog = fc_source_path catalog,
      fv_observations = sort_key ro_key (map (observe query) targets),
      fv_summary = summarize (sort_key ro_key (map (observe query) targets))\<rparr>"
    by (auto simp: fleet_snapshot_def Let_def)
  from snapshot_targets_Inr [OF t] obtain ts where ts: "rtraverse (route_target env fs catalog endpoints) paths = Inr ts"
    "mset targets = mset ts" "distinct (map ft_key targets)" "paths \<noteq> []" "length paths \<le> MAX_FLEET_SNAPSHOT_ROUTES" by blast
  define obs where "obs = sort_key ro_key (map (observe query) targets)"
  have same: "mset obs = mset (map (observe query) targets)" by (simp add: obs_def)
  have fields: "fv_observations view = obs" "fv_summary view = summarize obs" by (simp_all add: view obs_def)
  have sources: "map ft_source ts = map (fleet_path env) paths"
  proof -
    have "list_all2 (\<lambda>path t. route_target env fs catalog endpoints path = Inr t) paths ts"
      using ts(1) by (simp add: rtraverse_eq_Inr_iff)
    then show ?thesis by (induction rule: list_all2_induct) (simp_all add: route_target_Inr(1))
  qed
  have "mset (map ro_route obs) = image_mset ro_route (mset (map (observe query) targets))" by (simp add: same)
  also have "\<dots> = image_mset ft_source (mset ts)" by (simp add: ts(2) image_mset.compositionality comp_def)
  also have "\<dots> = mset (map (fleet_path env) paths)" unfolding sources [symmetric] by simp
  finally have routes: "mset (map ro_route obs) = mset (map (fleet_path env) paths)" .
  have "mset (map ro_key obs) = mset (map ft_key targets)"
    by (simp add: same image_mset.compositionality comp_def)
  then have dist: "distinct (map ro_key obs)" using ts(3) by (metis mset_eq_imp_distinct_iff)
  have len: "length obs = length paths" using routes by (metis length_map size_mset)
  have each: "\<exists>route. load_route_receipt env fs catalog (ro_route r) = Inr route \<and>
       (\<forall>response. ro_outcome r = Inr response \<longrightarrow>
          py_eq (dget ''run_id'' response) (JStr (ro_run_id r)) \<and>
          (\<forall>k \<in> {''task_id'', ''task_sha256'', ''candidate_sha256''}. py_eq (dget k response) (dget k route)))"
    if "r \<in> set obs" for r
  proof -
    have "set obs = set (map (observe query) targets)" using same by (metis set_mset_mset)
    moreover have "set targets = set ts" using ts(2) by (metis set_mset_mset)
    ultimately have "r \<in> observe query ` set ts" using that by simp
    then obtain t where r: "r = observe query t" "t \<in> set ts" by blast
    from rtraverse_setD [OF ts(1) r(2)] obtain path where p: "route_target env fs catalog endpoints path = Inr t" ..
    show ?thesis
      using route_target_Inr [OF p] observe_ok [of query t] unfolding r(1) observe_simps by auto
  qed
  show ?thesis
    unfolding fields using ts(4,5) routes dist len each summarize_counts [of obs] summary_state [of _ _ obs]
    by (auto simp: Suc_le_eq MAX_FLEET_SNAPSHOT_ROUTES_def obs_def fleet_snapshot_def t Let_def)
qed

text \<open>One route of the sample catalog, and a host that answers.\<close>

definition sample_route :: jdict where
  "sample_route = [(''schema'', JStr ROUTE_SCHEMA), (''route_receipt_sha256'', JStr zeros), (''status'', JStr ''submitted''),
     (''locator'', JObj [(''node_id'', JStr ''a''), (''run_id'', JStr ''r'')]), (''catalog_sha256'', JStr []),
     (''selected_node'', JStr ''a''), (''bundle_id'', JStr ''b''), (''task_id'', JStr ''t''), (''task_sha256'', JStr ''d''),
     (''candidate_sha256'', JStr ''c''),
     (''remote'', JObj [(''bundle_id'', JStr ''b''), (''bundle_dir'', JStr ''/i/b''), (''run'', JObj [(''run_id'', JStr ''r'')])])]"

definition sample_answer :: jdict where
  "sample_answer = [(''run_id'', JStr ''r''), (''task_id'', JStr ''t''), (''task_sha256'', JStr ''d''),
     (''candidate_sha256'', JStr ''c''), (''state'', JStr ''completed'')]"

theorem fleet_snapshot_complete_witness:
  "\<exists>view. fleet_snapshot attest_env [] (\<lambda>p. FileParsed (JObj sample_route)) sample_catalog None
      (\<lambda>node arguments. Inr (JList [JObj sample_answer])) [''/r''] = Inr view \<and> ss_terminal (fv_summary view) = 1 \<and>
      ss_total (fv_summary view) = 1"
proof -
  have "case fleet_snapshot attest_env [] (\<lambda>p. FileParsed (JObj sample_route)) sample_catalog None
      (\<lambda>node arguments. Inr (JList [JObj sample_answer])) [''/r''] of Inl e \<Rightarrow> False | Inr view \<Rightarrow> ss_terminal (fv_summary view) = 1"
    by code_simp
  then obtain view where v: "fleet_snapshot attest_env [] (\<lambda>p. FileParsed (JObj sample_route)) sample_catalog None
      (\<lambda>node arguments. Inr (JList [JObj sample_answer])) [''/r''] = Inr view" "ss_terminal (fv_summary view) = 1"
    by (auto split: sum.splits)
  from fleet_snapshot_complete [OF v(1)] have "ss_total (fv_summary view) = length [''/r'']" by blast
  with v show ?thesis by auto
qed

end
