(* ===== verification/Byte_Frames.thy ===== *)
theory Byte_Frames
  imports Snapshot
begin

text \<open>
  Facts about the byte strings the digests are taken of: eight-byte lengths and UTF-8 can be
  read back, so a frame of length and data is recovered from the front of a stream.
\<close>

definition lower_hex :: "char \<Rightarrow> bool" where
  "lower_hex c \<longleftrightarrow> (let n = of_char c :: nat in 48 \<le> n \<and> n \<le> 57 \<or> 97 \<le> n \<and> n \<le> 102)"

section \<open>Lengths\<close>

lemma be64_nat: "be64 n = map (\<lambda>i. n div 256 ^ i mod 256) [7, 6, 5, 4, 3, 2, 1, 0]"
  by (simp add: be64_def upt_rec nat_mod_distrib nat_div_distrib nat_power_eq)

lemma digit_step: "(n::nat) div 256 ^ Suc i * 256 + n div 256 ^ i mod 256 = n div 256 ^ i"
  by (simp add: div_mult2_eq mult.commute [of 256] div_mult_mod_eq)

lemma be64_value:
  assumes "n < 2 ^ 64"
  shows "foldl (\<lambda>a d. a * 256 + d) 0 (be64 n) = n"
proof -
  have "n div 256 ^ 7 mod 256 = n div 256 ^ 7" using assms by simp
  with digit_step [of n 0] digit_step [of n 1] digit_step [of n 2] digit_step [of n 3] digit_step [of n 4]
    digit_step [of n 5] digit_step [of n 6]
  show ?thesis by (simp add: be64_nat del: mod_div_trivial)
qed

lemma be64_inj: "m < 2 ^ 64 \<Longrightarrow> n < 2 ^ 64 \<Longrightarrow> be64 m = be64 n \<Longrightarrow> m = n"
  by (metis be64_value)

lemma be64_length: "length (be64 n) = 8"
  by (simp add: be64_def)

lemma framed_append:
  assumes "be64 (length a) @ a @ x = be64 (length b) @ b @ y" and "length a < 2 ^ 64" and "length b < 2 ^ 64"
  shows "a = b \<and> x = y"
proof -
  from assms(1) have "be64 (length a) = be64 (length b)" and r: "a @ x = b @ y"
    by (simp_all add: be64_length append_eq_append_conv)
  from be64_inj [OF assms(2,3) this(1)] r show ?thesis by simp
qed

section \<open>UTF-8\<close>

lemma utf8_char_prefix:
  assumes "utf8_char c @ x = utf8_char d @ y"
  shows "c = d \<and> x = y"
proof -
  have n: "(of_char c :: nat) < 256" "(of_char d :: nat) < 256"
    by (metis of_char_of of_nat_of_char of_char_mod_256 mod_less_divisor zero_less_numeral)+
  have "(of_char c :: nat) = of_char d \<and> x = y"
  proof (cases "(of_char c :: nat) < 128")
    case True
    with assms n show ?thesis by (auto simp: utf8_char_def Let_def split: if_splits)
  next
    case False
    with assms n have d: "\<not> (of_char d :: nat) < 128"
      by (auto simp: utf8_char_def Let_def split: if_splits)
    with assms False have "(of_char c :: nat) div 64 = of_char d div 64" "(of_char c :: nat) mod 64 = of_char d mod 64" "x = y"
      by (simp_all add: utf8_char_def Let_def)
    then show ?thesis by (metis div_mult_mod_eq)
  qed
  then show ?thesis by (simp add: of_char_eq_iff)
qed

lemma utf8_char_nonempty [simp]: "utf8_char c \<noteq> []"
  by (simp add: utf8_char_def Let_def)

lemma utf8_inj: "utf8 s = utf8 t \<Longrightarrow> s = t"
proof (induction s arbitrary: t)
  case Nil
  then show ?case by (cases t) (simp_all add: utf8_def)
next
  case (Cons c s)
  then obtain d t' where t: "t = d # t'" by (cases t) (auto simp: utf8_def)
  from Cons.prems have "utf8_char c @ utf8 s = utf8_char d @ utf8 t'" by (simp add: t utf8_def)
  from utf8_char_prefix [OF this] Cons.IH [of t'] show ?case by (simp add: t)
qed

end
