(* ===== verification/Fleet_Archive.thy ===== *)
theory Fleet_Archive
  imports Byte_Frames Posix_Path Fleet_Routes Diagnosis
begin

text \<open>
  What the two transports of \<open>src/kernel_infra/fleet.py\<close> share: the members of a tar stream as
  \<open>tarfile\<close> yields them, the test of a member's path, the directory a receiver extracts into
  (a tree of \<open>Snapshot\<close>), and the text of the JSON files that are written.  \<open>read\<close> stands for
  decoding the bytes of a file and \<open>json.loads\<close>; it raises a \<open>JSONDecodeError\<close>, or a
  \<open>ValueError\<close> when the bytes are not UTF-8.
\<close>

section \<open>Members\<close>

datatype member_kind = RegularMember | DirectoryMember | OtherMember

record tar_member =
  tm_name :: string
  tm_kind :: member_kind
  tm_bytes :: "nat list"

text \<open>Reading the next member of a stream may raise.\<close>

type_synonym tar_stream = "tar_member result list"

type_synonym json_reader = "nat list \<Rightarrow> json result"

text \<open>\<open>parts\<close> never holds an empty or a single-dot component.\<close>

definition unsafe_path :: "string \<Rightarrow> bool" where
  "unsafe_path name \<longleftrightarrow>
     path_anchor name \<noteq> [] \<or> path_components name = [] \<or> ''..'' \<in> set (path_components name)"

section \<open>Extraction\<close>

text \<open>\<open>target.mkdir(parents=True, exist_ok=True)\<close> below the root of the receiver.\<close>

fun make_directory :: "string list \<Rightarrow> entries \<Rightarrow> entries result" where
  "make_directory [] es = Inr es"
| "make_directory (name # rest) es =
     (case dict_get name es of
        None \<Rightarrow> rbind (make_directory rest []) (\<lambda>sub. Inr (es @ [(name, Directory sub)]))
      | Some (Directory sub) \<Rightarrow> rbind (make_directory rest sub) (\<lambda>sub'. Inr (dict_set name (Directory sub') es))
      | Some _ \<Rightarrow> Inl (if rest = [] then FileExistsError ''File exists'' else OSError ''Not a directory''))"

text \<open>The parent made, the file opened with mode \<open>xb\<close>, its bytes copied.\<close>

fun put_file :: "string list \<Rightarrow> nat list \<Rightarrow> entries \<Rightarrow> entries result" where
  "put_file [] bytes es = Inl (FileExistsError ''File exists'')"
| "put_file [name] bytes es =
     (case dict_get name es of
        None \<Rightarrow> Inr (es @ [(name, RegularFile bytes)])
      | Some _ \<Rightarrow> Inl (FileExistsError ''File exists''))"
| "put_file (name # d # rest) bytes es =
     (case dict_get name es of
        None \<Rightarrow> rbind (put_file (d # rest) bytes []) (\<lambda>sub. Inr (es @ [(name, Directory sub)]))
      | Some (Directory sub) \<Rightarrow>
          rbind (put_file (d # rest) bytes sub) (\<lambda>sub'. Inr (dict_set name (Directory sub') es))
      | Some _ \<Rightarrow> Inl (if rest = [] then FileExistsError ''File exists'' else OSError ''Not a directory''))"

text \<open>A manifest at the root of the receiver, read after the extraction.\<close>

definition read_manifest :: "json_reader \<Rightarrow> string \<Rightarrow> string \<Rightarrow> string \<Rightarrow> entries \<Rightarrow> json result" where
  "read_manifest read what base name es =
     (case dict_get name es of
        None \<Rightarrow> Inl (RuntimeError (''invalid '' @ what @ '': [Errno 2] No such file or directory: ''
          @ repr_str (path_join base name)))
      | Some (RegularFile bytes) \<Rightarrow>
          (case read bytes of
             Inl (JSONDecodeError e) \<Rightarrow> Inl (RuntimeError (''invalid '' @ what @ '': '' @ e))
           | answer \<Rightarrow> answer)
      | Some _ \<Rightarrow> Inl (OSError ''Is a directory''))"

text \<open>Everything below a directory that is not a directory, as \<open>rglob("*")\<close> lists it.\<close>

fun leaf_nodes :: "string list \<Rightarrow> string \<times> node \<Rightarrow> (string list \<times> node) list" where
  "leaf_nodes prefix (name, Directory es) = concat (map (leaf_nodes (prefix @ [name])) es)"
| "leaf_nodes prefix (name, n) = [(prefix @ [name], n)]"

declare leaf_nodes.simps(1) [simp del]

definition leaves :: "entries \<Rightarrow> (string list \<times> node) list" where
  "leaves es = concat (map (leaf_nodes []) es)"

section \<open>Written documents\<close>

text \<open>\<open>json.dumps(value, ensure_ascii=False, indent=2)\<close> at a level of indentation.\<close>

definition new_line :: "nat \<Rightarrow> string" where
  "new_line level = CHR 0x0A # replicate (2 * level) CHR '' ''"

definition json_block :: "char \<Rightarrow> char \<Rightarrow> nat \<Rightarrow> string list \<Rightarrow> string" where
  "json_block l r level items =
     (if items = [] then [l, r]
      else l # new_line (level + 1) @ join ('','' @ new_line (level + 1)) items @ new_line level @ [r])"

primrec json_pretty :: "(py_float \<Rightarrow> string) \<Rightarrow> json \<Rightarrow> nat \<Rightarrow> string" where
  "json_pretty fr JNull = (\<lambda>level. ''null'')"
| "json_pretty fr (JBool b) = (\<lambda>level. if b then ''true'' else ''false'')"
| "json_pretty fr (JInt i) = (\<lambda>level. int_text i)"
| "json_pretty fr (JFloat x) = (\<lambda>level. json_float fr x)"
| "json_pretty fr (JStr s) = (\<lambda>level. json_quote s)"
| "json_pretty fr (JList xs) =
     (\<lambda>level. json_block CHR ''['' CHR '']'' level (map (\<lambda>f. f (level + 1)) (map (json_pretty fr) xs)))"
| "json_pretty fr (JObj kvs) =
     (\<lambda>level. json_block CHR 0x7B CHR 0x7D level
        (map (\<lambda>p. json_quote (fst p) @ '': '' @ snd p (level + 1)) (map (map_prod id (json_pretty fr)) kvs)))"

text \<open>The bytes of a file written by \<open>RunStore.atomic_json\<close>.\<close>

definition json_document :: "py_env \<Rightarrow> json \<Rightarrow> nat list" where
  "json_document env v = utf8 (json_pretty (float_text env) v 0 @ [CHR 0x0A])"

end
