(* ===== verification/Fleet_Artifacts.thy ===== *)
theory Fleet_Artifacts
  imports Fleet_Archive
begin

text \<open>
  \<open>src/kernel_infra/fleet.py\<close>: the export of the files of a terminal run as a tar stream
  behind a manifest, their reception in an empty directory, and the installation of the
  received directory as a mirror that is bound to a route receipt.
\<close>

section \<open>Texts and limits\<close>

definition ARTIFACT_MANIFEST_SCHEMA :: string where
  "ARTIFACT_MANIFEST_SCHEMA = ''kernelinfra.artifact-manifest.v1''"

definition ARTIFACT_MIRROR_SCHEMA :: string where
  "ARTIFACT_MIRROR_SCHEMA = ''kernelinfra.artifact-mirror.v2''"

definition MAX_ARTIFACT_FILES :: nat where
  "MAX_ARTIFACT_FILES = 10000"

definition MAX_ARTIFACT_MANIFEST_BYTES :: nat where
  "MAX_ARTIFACT_MANIFEST_BYTES = 16 * 1024 * 1024"

definition terminal_names :: "string list" where
  "terminal_names = [''completed'', ''rejected'', ''infra_error'', ''cancelled'', ''interrupted'']"

section \<open>Identity of a set of files\<close>

text \<open>Every name and every content is preceded by its length.\<close>

definition artifact_frame :: "string \<times> nat list \<Rightarrow> nat list" where
  "artifact_frame entry =
     (let encoded = utf8 (fst entry) in
      be64 (length encoded) @ encoded @ be64 (length (snd entry)) @ snd entry)"

definition artifact_set_stream :: "(string \<times> nat list) list \<Rightarrow> nat list" where
  "artifact_set_stream files = concat (map artifact_frame (sort_key fst files))"

definition artifact_set_sha256 :: "py_env \<Rightarrow> (string \<times> nat list) list \<Rightarrow> string" where
  "artifact_set_sha256 env files = sha256 env (artifact_set_stream files)"

section \<open>Paths\<close>

definition safe_artifact_relative :: "string \<Rightarrow> string list result" where
  "safe_artifact_relative name =
     (if unsafe_path name then Inl (RuntimeError (''unsafe artifact path: '' @ repr_str name))
      else Inr (path_components name))"

text \<open>\<open>None\<close> for the manifest, otherwise the path below \<open>artifacts\<close>.\<close>

definition safe_artifact_archive_path :: "string \<Rightarrow> string list option result" where
  "safe_artifact_archive_path name =
     rbind (safe_artifact_relative name) (\<lambda>parts.
     if posix_path parts = ''artifact-manifest.json'' then Inr None
     else if hd parts \<noteq> ''artifacts'' \<or> length parts < 2
     then Inl (RuntimeError (''unexpected artifact archive path: '' @ repr_str name))
     else Inr (Some (tl parts)))"

section \<open>The manifest\<close>

definition ARTIFACT_MANIFEST_FIELDS :: "string list" where
  "ARTIFACT_MANIFEST_FIELDS = [''schema'', ''authority'', ''terminal_at'', ''run_id'', ''task_id'', ''task_sha256'',
     ''candidate_sha256'', ''terminal_state'', ''run_dir'', ''total_bytes'', ''files'', ''artifact_set_sha256'']"

definition hex_value :: "nat \<Rightarrow> json \<Rightarrow> bool" where
  "hex_value n v \<longleftrightarrow> (case v of JStr s \<Rightarrow> length s = n \<and> list_all lower_hex s | _ \<Rightarrow> False)"

definition run_id_value :: "json \<Rightarrow> bool" where
  "run_id_value v \<longleftrightarrow> (case v of JStr s \<Rightarrow> is_run_id s | _ \<Rightarrow> False)"

definition absolute_value :: "json \<Rightarrow> bool" where
  "absolute_value v \<longleftrightarrow> (case v of JStr s \<Rightarrow> path_is_absolute s | _ \<Rightarrow> False)"

definition artifact_row :: "json \<Rightarrow> (string \<times> nat) result" where
  "artifact_row v =
     (case v of
        JObj row \<Rightarrow>
     rbind (ensure (same_keys row [''path'', ''size'']) ''artifact manifest file row is invalid'') (\<lambda>_.
     case dget ''path'' row of
        JStr path \<Rightarrow>
     rbind (safe_artifact_relative path) (\<lambda>parts.
     rbind (ensure (posix_path parts = path) ''artifact manifest file path is not normalized'') (\<lambda>_.
     rbind (ensure (nonneg_index (dget ''size'' row)) ''artifact manifest file size is invalid'') (\<lambda>_.
     Inr (path, nat (int_of_json (dget ''size'' row))))))
      | _ \<Rightarrow> Inl (RuntimeError ''artifact manifest file path is invalid''))
      | _ \<Rightarrow> Inl (RuntimeError ''artifact manifest file row is invalid''))"

text \<open>The manifest and its rows.\<close>

definition validate_artifact_manifest :: "json \<Rightarrow> int \<Rightarrow> (jdict \<times> (string \<times> nat) list) result" where
  "validate_artifact_manifest v max_bytes =
     (case v of
        JObj d \<Rightarrow>
     rbind (ensure (same_keys d ARTIFACT_MANIFEST_FIELDS) ''artifact manifest has invalid fields'') (\<lambda>_.
     rbind (ensure (py_eq (dget ''schema'' d) (JStr ARTIFACT_MANIFEST_SCHEMA) \<and> py_eq (dget ''authority'' d) (JStr ''node-run''))
              ''artifact manifest authority drift'') (\<lambda>_.
     rbind (ensure (hex_value 64 (dget ''artifact_set_sha256'' d)) ''artifact manifest set identity is invalid'') (\<lambda>_.
     rbind (ensure (run_id_value (dget ''run_id'' d) \<and> identifier_value (dget ''task_id'' d))
              ''artifact manifest has invalid run/task identity'') (\<lambda>_.
     rbind (rtraverse (\<lambda>name. ensure (hex_value 64 (dget name d)) (''artifact manifest has invalid '' @ name))
              [''task_sha256'', ''candidate_sha256'']) (\<lambda>_.
     rbind (hashed_in terminal_names (dget ''terminal_state'' d)) (\<lambda>terminal.
     rbind (ensure terminal ''artifact manifest is not terminal'') (\<lambda>_.
     rbind (ensure (nonempty_str (dget ''terminal_at'' d)) ''artifact manifest has no terminal timestamp'') (\<lambda>_.
     rbind (ensure (absolute_value (dget ''run_dir'' d)) ''artifact manifest run directory is invalid'') (\<lambda>_.
     rbind (ensure (nonneg_index (dget ''total_bytes'' d) \<and> int_of_json (dget ''total_bytes'' d) \<le> max_bytes)
              ''artifact manifest byte total is invalid'') (\<lambda>_.
     rbind (ensure (is_list (dget ''files'' d) \<and> length (json_items (dget ''files'' d)) \<le> MAX_ARTIFACT_FILES)
              ''artifact manifest file list is invalid'') (\<lambda>_.
     rbind (rtraverse artifact_row (json_items (dget ''files'' d))) (\<lambda>rows.
     rbind (ensure (map fst rows = sort (remdups (map fst rows))) ''artifact manifest paths must be sorted and unique'') (\<lambda>_.
     rbind (ensure (int (sum_list (map snd rows)) = int_of_json (dget ''total_bytes'' d))
              ''artifact manifest byte total disagrees with files'') (\<lambda>_.
     Inr (d, rows)))))))))))))))
      | _ \<Rightarrow> Inl (RuntimeError ''artifact manifest has invalid fields''))"

section \<open>Export\<close>

text \<open>
  \<open>os.walk\<close> without following links: every directory before those below it, in the order of
  its entries.
\<close>

fun node_levels :: "string list \<Rightarrow> string \<times> node \<Rightarrow> (string list \<times> entries) list" where
  "node_levels prefix (name, Directory es) =
     (prefix @ [name], es) # concat (map (node_levels (prefix @ [name])) es)"
| "node_levels prefix _ = []"

definition walk_levels :: "entries \<Rightarrow> (string list \<times> entries) list" where
  "walk_levels es = ([], es) # concat (map (node_levels []) es)"

definition export_file ::
  "string \<Rightarrow> int \<Rightarrow> string list \<Rightarrow> (string \<times> nat list) list \<Rightarrow> string \<times> node \<Rightarrow> (string \<times> nat list) list result" where
  "export_file directory max_bytes prefix files entry =
     (let relative = posix_path (prefix @ [fst entry]) in
      case snd entry of
        RegularFile bytes \<Rightarrow>
          rbind (ensure (int (sum_list (map (length \<circ> snd) files) + length bytes) \<le> max_bytes)
                   ''run artifacts exceed export byte limit'') (\<lambda>_.
          rbind (ensure (length files + 1 \<le> MAX_ARTIFACT_FILES) ''run artifacts exceed export file limit'') (\<lambda>_.
          Inr (files @ [(relative, bytes)])))
      | _ \<Rightarrow> Inl (RuntimeError (''run artifacts contain non-file: '' @ path_join directory relative)))"

definition export_level ::
  "string \<Rightarrow> int \<Rightarrow> (string \<times> nat list) list \<Rightarrow> string list \<times> entries \<Rightarrow> (string \<times> nat list) list result" where
  "export_level directory max_bytes files level =
     rbind (rtraverse (\<lambda>entry. ensure (\<not> is_link (snd entry))
              (''run artifacts contain symlink: '' @ path_join directory (posix_path (fst level @ [fst entry]))))
            (filter (\<lambda>(name, n). walks_as_directory n) (snd level))) (\<lambda>_.
     rfold (export_file directory max_bytes (fst level)) files
       (sort_key fst (filter (\<lambda>(name, n). \<not> walks_as_directory n) (snd level))))"

text \<open>\<open>lookup\<close> is the file system: what a path names, links not followed.\<close>

definition build_artifact_manifest ::
  "py_env \<Rightarrow> (string \<Rightarrow> node option) \<Rightarrow> jdict \<Rightarrow> int \<Rightarrow> (jdict \<times> (string \<times> nat list) list) result" where
  "build_artifact_manifest env lookup run_state max_bytes =
     rbind (ensure (1 \<le> max_bytes) ''artifact export byte limit must be positive'') (\<lambda>_.
     rbind (hashed_in terminal_names (dget ''state'' run_state)) (\<lambda>terminal.
     rbind (ensure terminal ''fleet artifact export requires a terminal run'') (\<lambda>_.
     let source = expanduser env (pure_path (py_str (float_text env) (dget_or ''run_dir'' (JStr []) run_state))) in
     rbind (ensure (\<forall>d \<in> set_option (lookup source). \<not> is_link d)
              (''run artifact directory is a symlink: '' @ source)) (\<lambda>_.
     let directory = resolve_path env source in
     rbind (case lookup directory of
              Some (Directory es) \<Rightarrow> Inr es
            | _ \<Rightarrow> Inl (RuntimeError (''run artifact directory is missing: '' @ directory))) (\<lambda>es.
     rbind (rfold (export_level directory max_bytes) [] (walk_levels es)) (\<lambda>files.
     let rows = map (\<lambda>(relative, bytes). JObj [(''path'', JStr relative), (''size'', JInt (int (length bytes)))])
           (sort_key fst files) in
     rbind (dindex ''run_id'' run_state) (\<lambda>run_id.
     rbind (dindex ''task_id'' run_state) (\<lambda>tid.
     rbind (dindex ''task_sha256'' run_state) (\<lambda>task_sha256.
     rbind (dindex ''candidate_sha256'' run_state) (\<lambda>candidate_sha256.
     rbind (dindex ''state'' run_state) (\<lambda>state.
     Inr ([(''schema'', JStr ARTIFACT_MANIFEST_SCHEMA), (''authority'', JStr ''node-run''),
           (''terminal_at'', dget ''terminal_at'' run_state), (''run_id'', run_id), (''task_id'', tid),
           (''task_sha256'', task_sha256), (''candidate_sha256'', candidate_sha256), (''terminal_state'', state),
           (''run_dir'', JStr directory), (''total_bytes'', JInt (int (sum_list (map (length \<circ> snd) files)))),
           (''files'', JList rows), (''artifact_set_sha256'', JStr (artifact_set_sha256 env files))],
          files))))))))))))"

definition regular_member :: "string \<Rightarrow> nat list \<Rightarrow> tar_member" where
  "regular_member name bytes = \<lparr>tm_name = name, tm_kind = RegularMember, tm_bytes = bytes\<rparr>"

definition write_artifact_export ::
  "py_env \<Rightarrow> (string \<Rightarrow> node option) \<Rightarrow> jdict \<Rightarrow> int \<Rightarrow> (jdict \<times> tar_member list) result" where
  "write_artifact_export env lookup run_state max_bytes =
     rbind (build_artifact_manifest env lookup run_state max_bytes) (\<lambda>(manifest, files).
     Inr (manifest, regular_member ''artifact-manifest.json'' (json_document env (JObj manifest)) #
       map (\<lambda>(relative, bytes). regular_member (''artifacts/'' @ relative) bytes) files))"

section \<open>Reception\<close>

record artifact_intake =
  ai_seen :: "string list"
  ai_bytes :: nat
  ai_count :: nat
  ai_tree :: entries

text \<open>Where a member is written, and the bytes of artifacts received with it.\<close>

definition member_target :: "int \<Rightarrow> artifact_intake \<Rightarrow> nat \<Rightarrow> string list option \<Rightarrow> (string list \<times> nat) result" where
  "member_target max_bytes intake n place =
     (case place of
        None \<Rightarrow>
          rbind (ensure (ai_count intake = 0) ''artifact manifest must be the first member'') (\<lambda>_.
          rbind (ensure (n \<le> MAX_ARTIFACT_MANIFEST_BYTES) ''artifact manifest exceeds byte limit'') (\<lambda>_.
          Inr ([''artifact-manifest.json''], ai_bytes intake)))
      | Some parts \<Rightarrow>
          rbind (ensure (int (ai_bytes intake + n) \<le> max_bytes) ''artifact archive exceeds extracted byte limit'') (\<lambda>_.
          Inr (''artifacts'' # parts, ai_bytes intake + n)))"

definition receive_member :: "int \<Rightarrow> artifact_intake \<Rightarrow> tar_member result \<Rightarrow> artifact_intake result" where
  "receive_member max_bytes intake item =
     rbind item (\<lambda>member.
     let count = ai_count intake + 1; name = tm_name member; size = length (tm_bytes member) in
     rbind (ensure (count \<le> MAX_ARTIFACT_FILES + 1) ''artifact archive exceeds member limit'') (\<lambda>_.
     rbind (safe_artifact_archive_path name) (\<lambda>place.
     rbind (ensure (name \<notin> set (ai_seen intake)) (''duplicate artifact archive path: '' @ name)) (\<lambda>_.
     rbind (ensure (tm_kind member = RegularMember) (''artifact archive contains non-file: '' @ name)) (\<lambda>_.
     rbind (member_target max_bytes intake size place) (\<lambda>(target, total).
     rbind (put_file target (tm_bytes member) (ai_tree intake)) (\<lambda>tree.
     Inr \<lparr>ai_seen = name # ai_seen intake, ai_bytes = total, ai_count = count, ai_tree = tree\<rparr>)))))))"

definition observed_file :: "string \<Rightarrow> string list \<times> node \<Rightarrow> (string \<times> nat list) result" where
  "observed_file base leaf =
     (case snd leaf of
        RegularFile bytes \<Rightarrow> Inr (posix_path (fst leaf), bytes)
      | Symlink d \<Rightarrow> Inl (RuntimeError (''artifact mirror contains symlink: '' @ path_join base (posix_path (fst leaf))))
      | _ \<Rightarrow> Inl (RuntimeError (''artifact mirror contains non-file: '' @ path_join base (posix_path (fst leaf)))))"

definition artifact_directory :: "entries \<Rightarrow> entries" where
  "artifact_directory tree = (case dict_get ''artifacts'' tree of Some (Directory es) \<Rightarrow> es | _ \<Rightarrow> [])"

text \<open>\<open>workspace\<close> is the receiving directory and \<open>present\<close> what it already holds; the result keeps the directory made.\<close>

definition receive_artifact_export ::
  "py_env \<Rightarrow> json_reader \<Rightarrow> string \<Rightarrow> entries \<Rightarrow> tar_stream \<Rightarrow> int \<Rightarrow> (jdict \<times> entries) result" where
  "receive_artifact_export env read workspace present stream max_bytes =
     rbind (ensure (1 \<le> max_bytes) ''artifact receive byte limit must be positive'') (\<lambda>_.
     rbind (ensure (present = []) ''artifact receive workspace must be empty'') (\<lambda>_.
     rbind (rfold (receive_member max_bytes) \<lparr>ai_seen = [], ai_bytes = 0, ai_count = 0, ai_tree = []\<rparr> stream) (\<lambda>intake.
     let tree = ai_tree intake in
     rbind (read_manifest read ''artifact manifest'' workspace ''artifact-manifest.json'' tree) (\<lambda>v.
     rbind (validate_artifact_manifest v max_bytes) (\<lambda>(manifest, rows).
     rbind (rtraverse (observed_file (path_join workspace ''artifacts'')) (leaves (artifact_directory tree))) (\<lambda>observed.
     rbind (ensure (set (map fst observed) = set (map fst rows)) ''artifact archive file set disagrees with manifest'') (\<lambda>_.
     rbind (rtraverse (\<lambda>(relative, bytes). ensure (map_of rows relative = Some (length bytes))
              (''artifact archive size drift: '' @ relative)) observed) (\<lambda>_.
     rbind (ensure (int (ai_bytes intake) = int_of_json (dget ''total_bytes'' manifest))
              ''artifact archive byte total disagrees with manifest'') (\<lambda>_.
     rbind (ensure (py_eq (JStr (artifact_set_sha256 env observed)) (dget ''artifact_set_sha256'' manifest))
              ''artifact archive content drift'') (\<lambda>_.
     Inr (manifest, tree)))))))))))"

section \<open>Installation\<close>

definition route_identity :: "jdict \<Rightarrow> jdict result" where
  "route_identity route =
     rbind (dindex ''locator'' route) (\<lambda>loc.
     rbind (py_index ''run_id'' loc) (\<lambda>run_id.
     rbind (dindex ''task_id'' route) (\<lambda>tid.
     rbind (dindex ''task_sha256'' route) (\<lambda>task_sha256.
     rbind (dindex ''candidate_sha256'' route) (\<lambda>candidate_sha256.
     Inr [(''run_id'', run_id), (''task_id'', tid), (''task_sha256'', task_sha256),
          (''candidate_sha256'', candidate_sha256)])))))"

definition check_route_run_dir :: "jdict \<Rightarrow> jdict \<Rightarrow> unit result" where
  "check_route_run_dir route manifest =
     rbind (dindex ''remote'' route) (\<lambda>remote.
     rbind (py_index ''run'' remote) (\<lambda>run.
     rbind (as_dict run) (\<lambda>run.
     ensure (dget ''run_dir'' run = JNull \<or> py_eq (dget ''run_dir'' manifest) (dget ''run_dir'' run))
       ''artifact manifest run_dir disagrees with route'')))"

definition mirror_endpoint :: "py_env \<Rightarrow> fleet_catalog \<Rightarrow> json \<Rightarrow> jdict option \<Rightarrow> jdict result" where
  "mirror_endpoint env catalog loc endpoint =
     (case endpoint of
        Some e \<Rightarrow> Inr e
      | None \<Rightarrow>
          rbind (py_index ''node_id'' loc) (\<lambda>node_id.
          rbind (case node_id of JStr s \<Rightarrow> find_node catalog s
            | _ \<Rightarrow> Inl (ContractError (''fleet catalog has no unique node '' @ py_repr (float_text env) node_id))) (\<lambda>node.
          rbind (resolve_fleet_endpoint catalog node None) (\<lambda>(_, e). Inr e))))"

definition put_document :: "py_env \<Rightarrow> string \<Rightarrow> json \<Rightarrow> entries \<Rightarrow> entries" where
  "put_document env name v es = dict_set name (RegularFile (json_document env v)) es"

definition mirror_document :: "string \<Rightarrow> json \<Rightarrow> json \<Rightarrow> json \<Rightarrow> jdict" where
  "mirror_document now receipt node_id run_id =
     [(''schema'', JStr ARTIFACT_MIRROR_SCHEMA), (''authority'', JStr ''mirror-only''),
      (''mirrored_at'', JStr now), (''route_receipt_sha256'', receipt),
      (''locator'', JObj [(''node_id'', node_id), (''run_id'', run_id)]),
      (''transport_endpoint'', JStr ''endpoint.json''), (''artifact_manifest'', JStr ''artifact-manifest.json''),
      (''artifact_root'', JStr ''artifacts''), (''validation'', JStr ''passed'')]"

text \<open>
  The staging directory until it is renamed: \<open>catalog_file\<close> is the catalog as it reads now,
  \<open>now\<close> the clock, \<open>late\<close> whether the destination has appeared meanwhile.
\<close>

definition assemble_mirror ::
  "py_env \<Rightarrow> json_reader \<Rightarrow> string \<Rightarrow> tar_stream \<Rightarrow> fleet_catalog \<Rightarrow> jdict \<Rightarrow> int \<Rightarrow> jdict option
     \<Rightarrow> json result \<Rightarrow> string \<Rightarrow> bool \<Rightarrow> string \<Rightarrow> (jdict \<times> entries) result" where
  "assemble_mirror env read staging stream catalog route max_bytes endpoint catalog_file now late destination =
     rbind (receive_artifact_export env read staging [] stream max_bytes) (\<lambda>(manifest, tree).
     rbind (route_identity route) (\<lambda>pairs.
     rbind (rtraverse (\<lambda>(k, v). ensure (py_eq (dget k manifest) v)
              (''artifact manifest '' @ k @ '' disagrees with route'')) pairs) (\<lambda>_.
     rbind (check_route_run_dir route manifest) (\<lambda>_.
     rbind (dindex ''locator'' route) (\<lambda>loc.
     rbind (mirror_endpoint env catalog loc endpoint) (\<lambda>transport.
     rbind catalog_file (\<lambda>catalog_raw.
     rbind (ensure (digest_json env catalog_raw = fc_digest catalog) ''fleet catalog changed during artifact fetch'') (\<lambda>_.
     rbind (dindex ''route_receipt_sha256'' route) (\<lambda>receipt.
     rbind (py_index ''node_id'' loc) (\<lambda>node_id.
     rbind (py_index ''run_id'' loc) (\<lambda>run_id.
     let mirror = mirror_document now receipt node_id run_id in
     rbind (ensure (\<not> late) (''refusing to overwrite artifact mirror: '' @ destination)) (\<lambda>_.
     Inr (mirror, put_document env ''mirror.json'' (JObj mirror)
       (put_document env ''endpoint.json'' (JObj transport)
       (put_document env ''route.json'' (JObj route)
       (put_document env ''catalog.json'' catalog_raw tree))))))))))))))))"

text \<open>
  \<open>siblings\<close> is the directory the mirror is installed in.  The staging directory is made in
  it and removed again unless it was renamed.
\<close>

definition install_artifact_mirror ::
  "py_env \<Rightarrow> json_reader \<Rightarrow> string \<Rightarrow> string \<Rightarrow> tar_stream \<Rightarrow> fleet_catalog \<Rightarrow> jdict \<Rightarrow> int \<Rightarrow> jdict option
     \<Rightarrow> json result \<Rightarrow> string \<Rightarrow> bool \<Rightarrow> entries \<Rightarrow> jdict result \<times> entries" where
  "install_artifact_mirror env read destination staging stream catalog route max_bytes endpoint catalog_file now late siblings =
     (let name = path_name destination in
      if dict_has name siblings
      then (Inl (RuntimeError (''refusing to overwrite artifact mirror: '' @ destination)), siblings)
      else case assemble_mirror env read staging stream catalog route max_bytes endpoint catalog_file now late destination of
             Inl e \<Rightarrow> (Inl e, siblings)
           | Inr (mirror, tree) \<Rightarrow> (Inr mirror, siblings @ [(name, Directory tree)]))"

end
