(* ===== verification/Fleet_Archive_Facts.thy ===== *)
theory Fleet_Archive_Facts
  imports Fleet_Archive "HOL-Library.Sublist"
begin

text \<open>
  Extraction puts exactly the member's file into the tree, and succeeds when the path does not
  collide with one that is there; the paths of a well-formed tree never collide.
\<close>

section \<open>Writing below a directory\<close>

lemma dict_get_split:
  assumes "dict_get k d = Some v"
  shows "\<exists>xs ys. d = xs @ (k, v) # ys \<and> (\<forall>w. dict_set k w d = xs @ (k, w) # ys)"
  using assms
proof (induction d)
  case (Cons p d)
  obtain k' v' where p: "p = (k', v')" by (cases p)
  show ?case
  proof (cases "k' = k")
    case True
    with Cons.prems p have "p # d = [] @ (k, v) # d" "\<forall>w. dict_set k w (p # d) = [] @ (k, w) # d"
      by (simp_all add: dict_set_def)
    then show ?thesis by blast
  next
    case False
    with Cons.prems p have "dict_get k d = Some v" by simp
    from Cons.IH [OF this] obtain xs ys where "d = xs @ (k, v) # ys" "\<forall>w. dict_set k w d = xs @ (k, w) # ys"
      by blast
    with False p have "p # d = (p # xs) @ (k, v) # ys" "\<forall>w. dict_set k w (p # d) = (p # xs) @ (k, w) # ys"
      by (simp_all add: dict_set_def)
    then show ?thesis by blast
  qed
qed simp

definition leaves_below :: "string list \<Rightarrow> entries \<Rightarrow> (string list \<times> node) list" where
  "leaves_below pre es = concat (map (leaf_nodes pre) es)"

lemma leaves_below_simps [simp]:
  "leaves_below pre [] = []"
  "leaves_below pre (e # es) = leaf_nodes pre e @ leaves_below pre es"
  "leaves_below pre (xs @ ys) = leaves_below pre xs @ leaves_below pre ys"
  by (simp_all add: leaves_below_def)

lemma leaf_nodes_Directory [simp]: "leaf_nodes pre (name, Directory es) = leaves_below (pre @ [name]) es"
  by (simp add: leaves_below_def leaf_nodes.simps(1))

lemma leaves_eq: "leaves es = leaves_below [] es"
  by (simp add: leaves_def leaves_below_def)

lemma leaf_nodes_shift: "leaf_nodes (a @ b) e = map (map_prod ((@) a) id) (leaf_nodes b e)"
proof (induction b e rule: leaf_nodes.induct)
  case (1 b name es)
  have "leaves_below (a @ (b @ [name])) es = map (map_prod ((@) a) id) (leaves_below (b @ [name]) es)"
    using 1 by (induction es) auto
  then show ?case by (simp add: id_def)
qed auto

lemma leaves_below_shift: "leaves_below (a @ b) es = map (map_prod ((@) a) id) (leaves_below b es)"
  by (induction es) (auto simp: leaf_nodes_shift)

lemma leaves_below_Cons: "leaves_below [name] es = map (map_prod ((#) name) id) (leaves_below [] es)"
  using leaves_below_shift [of "[name]" "[]" es] by (simp add: map_prod_def)

lemma put_file_leaves:
  "put_file parts bytes es = Inr es' \<Longrightarrow>
     mset (leaves_below pre es') = add_mset (pre @ parts, RegularFile bytes) (mset (leaves_below pre es))"
proof (induction parts bytes es arbitrary: es' pre rule: put_file.induct)
  case (2 name bytes es)
  then show ?case by (auto split: option.splits)
next
  case (3 name d rest bytes es)
  show ?case
  proof (cases "dict_get name es")
    case None
    with "3.prems" obtain sub where "put_file (d # rest) bytes [] = Inr sub" "es' = es @ [(name, Directory sub)]"
      by auto
    with "3.IH"(1) [OF None, of sub "pre @ [name]"] show ?thesis by simp
  next
    case (Some n)
    with "3.prems" obtain sub where n: "n = Directory sub" by (cases n) auto
    with "3.prems" Some obtain sub' where s: "put_file (d # rest) bytes sub = Inr sub'"
      "es' = dict_set name (Directory sub') es" by auto
    from dict_get_split [OF Some] obtain xs ys where
      d: "es = xs @ (name, n) # ys" "\<forall>w. dict_set name w es = xs @ (name, w) # ys" by blast
    from d(2) s(2) have "es' = xs @ (name, Directory sub') # ys" by simp
    with d(1) n "3.IH"(2) [OF Some n s(1), of "pre @ [name]"] show ?thesis by simp
  qed
qed simp

lemma put_file_names: "put_file parts bytes es = Inr es' \<Longrightarrow> set (map fst es') = insert (hd parts) (set (map fst es))"
proof (induction parts bytes es rule: put_file.induct)
  case (2 name bytes es)
  then show ?case by (auto split: option.splits)
next
  case (3 name d rest bytes es)
  show ?case
  proof (cases "dict_get name es")
    case (Some n)
    with "3.prems" obtain sub where n: "n = Directory sub" by (cases n) auto
    with "3.prems" Some obtain sub' where s: "es' = dict_set name (Directory sub') es" by auto
    from dict_get_split [OF Some] obtain xs ys where
      d: "es = xs @ (name, n) # ys" "\<forall>w. dict_set name w es = xs @ (name, w) # ys" by blast
    from d(2) s have "es' = xs @ (name, Directory sub') # ys" by simp
    with d(1) show ?thesis by auto
  qed (use "3.prems" in auto)
qed simp

section \<open>When writing succeeds\<close>

text \<open>Every directory holds something.\<close>

fun full_node :: "node \<Rightarrow> bool" where
  "full_node (Directory es) \<longleftrightarrow> es \<noteq> [] \<and> list_all (\<lambda>(name, n). full_node n) es"
| "full_node _ \<longleftrightarrow> True"

definition full :: "entries \<Rightarrow> bool" where
  "full es \<longleftrightarrow> list_all (\<lambda>(name, n). full_node n) es"

lemma full_node_Directory [simp]: "full_node (Directory es) \<longleftrightarrow> es \<noteq> [] \<and> full es"
  by (simp add: full_def)

declare full_node.simps(1) [simp del]

lemma full_simps [simp]: "full []" "full (e # es) \<longleftrightarrow> full_node (snd e) \<and> full es" "full (xs @ ys) \<longleftrightarrow> full xs \<and> full ys"
  by (auto simp: full_def split: prod.splits)

lemma full_leaf: "full_node (snd e) \<Longrightarrow> \<exists>q n. (pre @ fst e # q, n) \<in> set (leaf_nodes pre e)"
proof (induction pre e rule: leaf_nodes.induct)
  case (1 pre name es)
  then obtain e es' where es: "es = e # es'" by (cases es) auto
  with 1 have "full_node (snd e)" by simp
  from "1.IH" [of e, OF _ this] es obtain q n where "((pre @ [name]) @ fst e # q, n) \<in> set (leaf_nodes (pre @ [name]) e)"
    by auto
  then have "(pre @ name # (fst e # q), n) \<in> set (leaves_below (pre @ [name]) es)" by (simp add: es)
  then show ?case by (metis fst_conv leaf_nodes_Directory)
qed auto

definition clashes :: "string list \<Rightarrow> string list \<Rightarrow> bool" where
  "clashes p q \<longleftrightarrow> prefix p q \<or> prefix q p"

lemma clashes_Cons [simp]: "clashes (a # p) (b # q) \<longleftrightarrow> a = b \<and> clashes p q"
  by (auto simp: clashes_def)

lemma put_file_total:
  assumes "full es" and "parts \<noteq> []" and "\<And>p n. (p, n) \<in> set (leaves es) \<Longrightarrow> \<not> clashes p parts"
  shows "\<exists>es'. put_file parts bytes es = Inr es' \<and> full es' \<and> es' \<noteq> []"
  using assms
proof (induction parts bytes es rule: put_file.induct)
  case (2 name bytes es)
  have "dict_get name es = None"
  proof (rule ccontr)
    assume "dict_get name es \<noteq> None"
    then obtain n where n: "dict_get name es = Some n" by blast
    obtain xs ys where es: "es = xs @ (name, n) # ys" using dict_get_split [OF n] by blast
    with "2.prems"(1) have "full_node n" by simp
    with full_leaf [of "(name, n)" "[]"] obtain q m where "(name # q, m) \<in> set (leaf_nodes [] (name, n))" by auto
    then have "(name # q, m) \<in> set (leaves es)" by (simp add: es leaves_eq)
    from "2.prems"(3) [OF this] show False by (simp add: clashes_def)
  qed
  then show ?case using "2.prems"(1) by simp
next
  case (3 name d rest bytes es)
  show ?case
  proof (cases "dict_get name es")
    case None
    have "\<exists>sub. put_file (d # rest) bytes [] = Inr sub \<and> full sub \<and> sub \<noteq> []"
      by (rule "3.IH"(1) [OF None]) (simp_all add: leaves_eq)
    with None "3.prems"(1) show ?thesis by auto
  next
    case (Some n)
    obtain xs ys where es: "es = xs @ (name, n) # ys" and up: "\<And>w. dict_set name w es = xs @ (name, w) # ys"
      using dict_get_split [OF Some] by blast
    have fn: "full_node n" using "3.prems"(1) by (simp add: es)
    have l: "(q, m) \<in> set (leaf_nodes [] (name, n)) \<Longrightarrow> \<not> clashes q (name # d # rest)" for q m
      using "3.prems"(3) [of q m] by (simp add: es leaves_eq)
    have "\<exists>sub. n = Directory sub"
    proof (rule ccontr)
      assume "\<nexists>sub. n = Directory sub"
      then have "([name], n) \<in> set (leaf_nodes [] (name, n))" by (cases n) auto
      from l [OF this] show False by (simp add: clashes_def)
    qed
    then obtain sub where n: "n = Directory sub" by blast
    have "\<exists>sub'. put_file (d # rest) bytes sub = Inr sub' \<and> full sub' \<and> sub' \<noteq> []"
    proof (rule "3.IH"(2) [OF Some n])
      show "full sub" using fn by (simp add: n)
      fix p m assume "(p, m) \<in> set (leaves sub)"
      then have "(name # p, m) \<in> set (leaf_nodes [] (name, n))"
        by (force simp: n leaves_below_Cons leaves_eq)
      from l [OF this] show "\<not> clashes p (d # rest)" by simp
    qed simp
    with Some n "3.prems"(1) show ?thesis by (auto simp: up) (auto simp: es)
  qed
qed simp

text \<open>Files put one after the other.\<close>

definition put_all :: "(string list \<times> nat list) list \<Rightarrow> entries \<Rightarrow> entries result" where
  "put_all files es = rfold (\<lambda>es (p, b). put_file p b es) es files"

definition no_clash :: "string list list \<Rightarrow> bool" where
  "no_clash ps \<longleftrightarrow> distinct ps \<and> (\<forall>p \<in> set ps. \<forall>q \<in> set ps. clashes p q \<longrightarrow> p = q)"

section \<open>Paths of a tree\<close>

lemma leaf_nodes_path: "(p, n) \<in> set (leaf_nodes pre e) \<Longrightarrow> \<exists>q. p = pre @ fst e # q"
proof (induction pre e arbitrary: p n rule: leaf_nodes.induct)
  case (1 pre name es)
  then obtain e where "e \<in> set es" "(p, n) \<in> set (leaf_nodes (pre @ [name]) e)"
    by (auto simp: leaves_below_def)
  from "1.IH" [OF this] show ?case by auto
qed auto

lemma clashes_append: "clashes (a @ p) (a @ q) \<longleftrightarrow> clashes p q"
  by (simp add: clashes_def)

lemma no_clash_append:
  assumes "no_clash ps" and "no_clash qs" and "\<And>p q. p \<in> set ps \<Longrightarrow> q \<in> set qs \<Longrightarrow> \<not> clashes p q"
  shows "no_clash (ps @ qs)"
proof -
  have c: "clashes p q \<longleftrightarrow> clashes q p" for p q by (auto simp: clashes_def)
  have r: "clashes p p" for p by (simp add: clashes_def)
  have "set ps \<inter> set qs = {}" using assms(3) r by blast
  with assms show ?thesis unfolding no_clash_def by (auto dest: c [THEN iffD1])
qed

lemma leaf_nodes_no_clash: "wf_node (snd e) \<Longrightarrow> no_clash (map fst (leaf_nodes pre e))"
proof (induction pre e rule: leaf_nodes.induct)
  case (1 pre name es)
  from "1.prems" have d: "distinct (map fst es)" and w: "\<And>e. e \<in> set es \<Longrightarrow> wf_node (snd e)"
    by (auto simp: list_all_iff)
  have "no_clash (map fst (leaves_below (pre @ [name]) ds))" if "set ds \<subseteq> set es" "distinct (map fst ds)" for ds
    using that
  proof (induction ds)
    case Nil
    then show ?case by (simp add: no_clash_def)
  next
    case (Cons e ds)
    have "no_clash (map fst (leaf_nodes (pre @ [name]) e) @ map fst (leaves_below (pre @ [name]) ds))"
    proof (rule no_clash_append)
      show "no_clash (map fst (leaf_nodes (pre @ [name]) e))"
        using Cons.prems w by (intro "1.IH") auto
      show "no_clash (map fst (leaves_below (pre @ [name]) ds))" using Cons by simp
      fix p q assume "p \<in> set (map fst (leaf_nodes (pre @ [name]) e))"
        and "q \<in> set (map fst (leaves_below (pre @ [name]) ds))"
      then obtain e' m n where "e' \<in> set ds" and pm: "(p, m) \<in> set (leaf_nodes (pre @ [name]) e)"
        and qn: "(q, n) \<in> set (leaf_nodes (pre @ [name]) e')" by (auto simp: leaves_below_def)
      obtain p' q' where pq: "p = (pre @ [name]) @ fst e # p'" "q = (pre @ [name]) @ fst e' # q'"
        using leaf_nodes_path [OF pm] leaf_nodes_path [OF qn] by blast
      have "fst e \<noteq> fst e'"
      proof
        assume "fst e = fst e'"
        with \<open>e' \<in> set ds\<close> have "fst e \<in> set (map fst ds)" by simp
        with Cons.prems(2) show False by simp
      qed
      then show "\<not> clashes p q" by (simp only: pq clashes_append clashes_Cons) simp
    qed
    then show ?case by simp
  qed
  from this [OF order_refl d] show ?case by simp
qed (auto simp: no_clash_def)

lemma leaves_no_clash: "wf_entries es \<Longrightarrow> no_clash (map fst (leaves es))"
proof -
  assume "wf_entries es"
  then have "wf_node (snd ([], Directory es))" by (simp add: wf_entries_def)
  from leaf_nodes_no_clash [OF this, of "[]"] have n: "no_clash (map fst (leaves_below [[]] es))" by simp
  have "map fst (leaves_below [[]] es) = map ((#) []) (map fst (leaves es))"
    by (simp add: leaves_below_Cons leaves_eq)
  with n have "no_clash (map ((#) []) (map fst (leaves es)))" by simp
  then have "distinct (map fst (leaves es))"
    and "\<forall>p \<in> set (map fst (leaves es)). \<forall>q \<in> set (map fst (leaves es)). clashes ([] # p) ([] # q) \<longrightarrow> [] # p = [] # q"
    unfolding no_clash_def distinct_map [of "(#) []"] set_map [of "(#) []"] by blast+
  then show ?thesis unfolding no_clash_def by simp
qed

end
