(* ===== verification/Fleet_Artifacts_Facts.thy ===== *)
theory Fleet_Artifacts_Facts
  imports Fleet_Artifacts Fleet_Archive_Facts Attestation_Facts Snapshot_Facts
begin

text \<open>
  The identity of an artifact set determines the files; what a receiver accepts is exactly what
  the manifest lists, inside its own directory and within the byte limit; an installed mirror
  is bound to its route, and a failed installation leaves nothing behind.
\<close>

section \<open>The identity of a set of files\<close>

definition frameable :: "string \<times> nat list \<Rightarrow> bool" where
  "frameable entry \<longleftrightarrow> length (utf8 (fst entry)) < 2 ^ 64 \<and> length (snd entry) < 2 ^ 64"

lemma artifact_frame_append:
  assumes "artifact_frame e @ x = artifact_frame e' @ y" and "frameable e" and "frameable e'"
  shows "e = e' \<and> x = y"
proof -
  have f: "be64 (length (utf8 (fst e))) @ utf8 (fst e) @ (be64 (length (snd e)) @ snd e @ x) =
      be64 (length (utf8 (fst e'))) @ utf8 (fst e') @ (be64 (length (snd e')) @ snd e' @ y)"
    using assms(1) by (simp add: artifact_frame_def Let_def)
  from framed_append [OF this] assms(2,3) have u: "utf8 (fst e) = utf8 (fst e')"
    and s: "be64 (length (snd e)) @ snd e @ x = be64 (length (snd e')) @ snd e' @ y"
    by (simp_all add: frameable_def)
  from framed_append [OF s] assms(2,3) utf8_inj [OF u] show ?thesis by (simp add: frameable_def prod_eq_iff)
qed

lemma artifact_frame_nonempty [simp]: "artifact_frame e \<noteq> []"
proof -
  have "length (artifact_frame e) \<ge> 8" by (simp add: artifact_frame_def Let_def be64_length)
  then show ?thesis by auto
qed

lemma artifact_frames_inj:
  "concat (map artifact_frame fs) = concat (map artifact_frame gs) \<Longrightarrow> list_all frameable fs \<Longrightarrow> list_all frameable gs \<Longrightarrow> fs = gs"
proof (induction fs arbitrary: gs)
  case Nil
  then show ?case by (cases gs) auto
next
  case (Cons f fs)
  then obtain g gs' where gs: "gs = g # gs'" by (cases gs) auto
  with Cons.prems have "artifact_frame f @ concat (map artifact_frame fs) = artifact_frame g @ concat (map artifact_frame gs')"
    by simp
  from artifact_frame_append [OF this] Cons.prems gs have "f = g" "concat (map artifact_frame fs) = concat (map artifact_frame gs')"
    by simp_all
  with Cons gs show ?case by simp
qed

lemma artifact_set_stream_inj:
  assumes "artifact_set_stream fs = artifact_set_stream gs" and "list_all frameable fs" and "list_all frameable gs"
  shows "mset fs = mset gs"
proof -
  have "sort_key fst fs = sort_key fst gs"
    using assms by (intro artifact_frames_inj) (simp_all add: artifact_set_stream_def list_all_iff)
  then show ?thesis by (metis mset_sort)
qed

section \<open>Paths\<close>

definition safe_component :: "string \<Rightarrow> bool" where
  "safe_component p \<longleftrightarrow> is_component p \<and> p \<noteq> ''..''"

lemma safe_parts:
  "\<not> unsafe_path name \<Longrightarrow> path_components name \<noteq> [] \<and> list_all safe_component (path_components name)"
  using path_components_are [of name] by (auto simp: unsafe_path_def safe_component_def list_all_iff)

lemma has_prefix_Cons: "has_prefix (d # p) (c # s) \<longleftrightarrow> c = d \<and> has_prefix p s"
  by (auto simp: has_prefix_def)

lemma join_hd: "ps \<noteq> [] \<Longrightarrow> hd ps \<noteq> [] \<Longrightarrow> join ''/'' ps \<noteq> [] \<and> hd (join ''/'' ps) = hd (hd ps)"
  by (cases ps rule: list.exhaust; cases "tl ps") auto

lemma safe_join:
  assumes "ps \<noteq> []" and "list_all safe_component ps"
  shows "\<not> unsafe_path (join ''/'' ps) \<and> path_components (join ''/'' ps) = ps"
proof -
  have c: "path_components (join ''/'' ps) = ps"
    using assms by (intro components_of_join) (auto simp: list_all_iff safe_component_def)
  from assms obtain q qs where ps: "ps = q # qs" and q: "is_component q" "q \<noteq> []" "CHR ''/'' \<notin> set q"
    by (cases ps) (auto simp: safe_component_def is_component_def)
  have "hd q \<noteq> CHR ''/''" using q(2,3) by (metis hd_in_set)
  with join_hd [of ps] ps q(2) have "hd (join ''/'' ps) \<noteq> CHR ''/''" "join ''/'' ps \<noteq> []" by simp_all
  then have "path_anchor (join ''/'' ps) = []"
    by (cases "join ''/'' ps") (auto simp: path_anchor_def has_prefix_Cons)
  with c assms show ?thesis by (auto simp: unsafe_path_def list_all_iff safe_component_def)
qed

lemma posix_path_inj:
  assumes "posix_path p = posix_path q" and "p \<noteq> []" "q \<noteq> []" and "list_all safe_component p" "list_all safe_component q"
  shows "p = q"
proof -
  have "p = path_components (posix_path p)" using safe_join [OF assms(2,4)] unfolding posix_path_def by (rule conjE) (rule sym)
  also have "\<dots> = path_components (posix_path q)" by (simp only: assms(1))
  also have "\<dots> = q" using safe_join [OF assms(3,5)] unfolding posix_path_def by (rule conjunct2)
  finally show ?thesis .
qed

lemma archive_path_artifact:
  assumes "safe_artifact_archive_path name = Inr (Some parts)"
  shows "parts \<noteq> [] \<and> list_all safe_component parts"
proof -
  from assms have s: "\<not> unsafe_path name" and t: "parts = tl (path_components name)" and l: "\<not> length (path_components name) < 2"
    by (auto simp: safe_artifact_archive_path_def safe_artifact_relative_def split: if_splits)
  from safe_parts [OF s] t l show ?thesis by (cases "path_components name") auto
qed

section \<open>The received tree\<close>

text \<open>What has been extracted after some members.\<close>

definition received_path :: "string list \<Rightarrow> bool" where
  "received_path p \<longleftrightarrow> p = [''artifact-manifest.json''] \<or>
     (\<exists>q. p = ''artifacts'' # q \<and> q \<noteq> [] \<and> list_all safe_component q)"

definition intake_holds :: "artifact_intake \<Rightarrow> bool" where
  "intake_holds intake \<longleftrightarrow>
     wf_entries (ai_tree intake) \<and>
     set (map fst (ai_tree intake)) \<subseteq> {''artifact-manifest.json'', ''artifacts''} \<and>
     (\<forall>l \<in> set (leaves (ai_tree intake)). received_path (fst l))"

lemma wf_entries_simps:
  "wf_entries es \<longleftrightarrow> distinct (map fst es) \<and> (\<forall>e \<in> set es. wf_node (snd e))"
  by (auto simp: wf_entries_def list_all_iff)

lemma put_file_wf: "put_file parts bytes es = Inr es' \<Longrightarrow> wf_entries es \<Longrightarrow> wf_entries es'"
proof (induction parts bytes es arbitrary: es' rule: put_file.induct)
  case (2 name bytes es)
  then show ?case by (auto simp: wf_entries_simps dict_get_def map_of_eq_None_iff split: option.splits)
next
  case (3 name d rest bytes es)
  show ?case
  proof (cases "dict_get name es")
    case None
    with "3.prems"(1) obtain sub where s: "put_file (d # rest) bytes [] = Inr sub" "es' = es @ [(name, Directory sub)]"
      by auto
    have "wf_entries sub" using s(1) by (rule "3.IH"(1) [OF None]) (simp add: wf_entries_def)
    with None s(2) "3.prems"(2) show ?thesis
      by (auto simp: wf_entries_simps dict_get_def map_of_eq_None_iff list_all_iff)
  next
    case (Some n)
    with "3.prems" obtain sub where n: "n = Directory sub" by (cases n) auto
    with "3.prems" Some obtain sub' where s: "put_file (d # rest) bytes sub = Inr sub'"
      "es' = dict_set name (Directory sub') es" by auto
    obtain xs ys where es: "es = xs @ (name, n) # ys" and up: "\<And>w. dict_set name w es = xs @ (name, w) # ys"
      using dict_get_split [OF Some] by blast
    have "wf_entries sub" using "3.prems"(2) es n by (simp add: wf_entries_simps list_all_iff split_beta)
    from "3.IH"(2) [OF Some n s(1) this] have "wf_entries sub'" .
    moreover have "es' = xs @ (name, Directory sub') # ys" using s(2) up by simp
    ultimately show ?thesis using "3.prems"(2) es by (simp add: wf_entries_simps list_all_iff split_beta)
  qed
qed simp

lemma receive_member_Inr:
  assumes "receive_member max_bytes intake item = Inr intake'"
  shows "\<exists>member place target total tree. item = Inr member \<and>
    safe_artifact_archive_path (tm_name member) = Inr place \<and> tm_kind member = RegularMember \<and>
    member_target max_bytes intake (length (tm_bytes member)) place = Inr (target, total) \<and>
    put_file target (tm_bytes member) (ai_tree intake) = Inr tree \<and>
    intake' = \<lparr>ai_seen = tm_name member # ai_seen intake, ai_bytes = total, ai_count = ai_count intake + 1, ai_tree = tree\<rparr>"
  using assms unfolding receive_member_def Let_def rbind_eq_Inr_iff sum.inject split_paired_Ex prod.case ensure_Inr
  by (elim exE conjE) (intro exI conjI, assumption+, rule sym, assumption)

lemma receive_member_holds:
  assumes "receive_member max_bytes intake item = Inr intake'" and "intake_holds intake"
  shows "intake_holds intake'"
proof -
  obtain member :: tar_member and place target total tree where
    place: "safe_artifact_archive_path (tm_name member) = Inr place"
    and target: "member_target max_bytes intake (length (tm_bytes member)) place = Inr (target, total)"
    and tree: "put_file target (tm_bytes member) (ai_tree intake) = Inr tree"
    and i': "intake' = \<lparr>ai_seen = tm_name member # ai_seen intake, ai_bytes = total, ai_count = ai_count intake + 1, ai_tree = tree\<rparr>"
    using receive_member_Inr [OF assms(1)] by blast
  have t: "received_path target"
  proof (cases place)
    case (Some parts)
    with archive_path_artifact place have "parts \<noteq> [] \<and> list_all safe_component parts" by blast
    with Some target show ?thesis by (auto simp: member_target_def received_path_def)
  qed (use target in \<open>auto simp: member_target_def received_path_def\<close>)
  have l: "set (leaves tree) = insert (target, RegularFile (tm_bytes member)) (set (leaves (ai_tree intake)))"
    using put_file_leaves [OF tree, of "[]", THEN arg_cong [where f = set_mset]] by (simp add: leaves_eq)
  have n: "set (map fst tree) = insert (hd target) (set (map fst (ai_tree intake)))"
    using tree by (rule put_file_names)
  have h: "hd target \<in> {''artifact-manifest.json'', ''artifacts''}" using t by (auto simp: received_path_def)
  have w: "wf_entries tree" using assms(2) by (intro put_file_wf [OF tree]) (simp add: intake_holds_def)
  have a: "set (map fst (ai_tree intake)) \<subseteq> {''artifact-manifest.json'', ''artifacts''}"
    "\<forall>x \<in> set (leaves (ai_tree intake)). received_path (fst x)"
    using assms(2) unfolding intake_holds_def by blast+
  have "set (map fst tree) \<subseteq> {''artifact-manifest.json'', ''artifacts''}"
    unfolding n using h a(1) by (rule insert_subsetI)
  moreover have "\<forall>x \<in> set (leaves tree). received_path (fst x)"
    unfolding l using t a(2) by (simp only: ball_simps fst_conv)
  ultimately show ?thesis using w unfolding intake_holds_def i' artifact_intake.select_convs by (intro conjI)
qed

section \<open>What is accepted\<close>

text \<open>
  The files below a directory are those the manifest lists, with their sizes, identity and
  total, and every path stays below it.
\<close>

definition mirrors :: "py_env \<Rightarrow> int \<Rightarrow> jdict \<Rightarrow> entries \<Rightarrow> bool" where
  "mirrors env max_bytes manifest es \<longleftrightarrow>
     (\<exists>files rows.
        leaves es = map (\<lambda>(p, b). (p, RegularFile b)) files \<and>
        (\<forall>(p, b) \<in> set files. p \<noteq> [] \<and> list_all safe_component p) \<and>
        rtraverse artifact_row (json_items (dget ''files'' manifest)) = Inr rows \<and>
        mset (map (\<lambda>(p, b). (posix_path p, length b)) files) = mset rows \<and>
        dget ''total_bytes'' manifest = JInt (int (sum_list (map (length \<circ> snd) files))) \<and>
        int (sum_list (map (length \<circ> snd) files)) \<le> max_bytes \<and>
        dget ''artifact_set_sha256'' manifest = JStr (artifact_set_sha256 env (map (map_prod posix_path id) files)))"

lemma receive_export_Inr:
  assumes "receive_artifact_export env read workspace present stream max_bytes = Inr (manifest, tree)"
  shows "\<exists>intake v rows observed.
    present = [] \<and>
    rfold (receive_member max_bytes) \<lparr>ai_seen = [], ai_bytes = 0, ai_count = 0, ai_tree = []\<rparr> stream = Inr intake \<and>
    tree = ai_tree intake \<and>
    read_manifest read ''artifact manifest'' workspace ''artifact-manifest.json'' tree = Inr v \<and>
    validate_artifact_manifest v max_bytes = Inr (manifest, rows) \<and>
    rtraverse (observed_file (path_join workspace ''artifacts'')) (leaves (artifact_directory tree)) = Inr observed \<and>
    set (map fst observed) = set (map fst rows) \<and>
    (\<forall>(relative, bytes) \<in> set observed. map_of rows relative = Some (length bytes)) \<and>
    dget ''artifact_set_sha256'' manifest = JStr (artifact_set_sha256 env observed)"
proof -
  from assms obtain intake v rows observed us where c: "present = []"
    "rfold (receive_member max_bytes) \<lparr>ai_seen = [], ai_bytes = 0, ai_count = 0, ai_tree = []\<rparr> stream = Inr intake"
    "tree = ai_tree intake"
    "read_manifest read ''artifact manifest'' workspace ''artifact-manifest.json'' tree = Inr v"
    "validate_artifact_manifest v max_bytes = Inr (manifest, rows)"
    "rtraverse (observed_file (path_join workspace ''artifacts'')) (leaves (artifact_directory tree)) = Inr observed"
    "set (map fst observed) = set (map fst rows)"
    "rtraverse (\<lambda>(relative, bytes). ensure (map_of rows relative = Some (length bytes))
              (''artifact archive size drift: '' @ relative)) observed = Inr us"
    "dget ''artifact_set_sha256'' manifest = JStr (artifact_set_sha256 env observed)"
    unfolding receive_artifact_export_def Let_def rbind_eq_Inr_iff sum.inject split_paired_Ex prod.case ensure_Inr
      prod.inject py_eq_JStr_left by blast
  from c(8) have "\<forall>(relative, bytes) \<in> set observed. map_of rows relative = Some (length bytes)"
    by (auto simp: rtraverse_eq_Inr_iff list_all2_conv_all_nth in_set_conv_nth split: prod.splits)
  with c show ?thesis by blast
qed

lemma validate_Inr:
  assumes "validate_artifact_manifest v max_bytes = Inr (manifest, rows)"
  shows "v = JObj manifest \<and> rtraverse artifact_row (json_items (dget ''files'' manifest)) = Inr rows \<and>
    distinct (map fst rows) \<and> dget ''total_bytes'' manifest = JInt (int (sum_list (map snd rows))) \<and>
    int (sum_list (map snd rows)) \<le> max_bytes"
proof -
  obtain d where v: "v = JObj d" using assms by (cases v) (auto simp: validate_artifact_manifest_def)
  from assms have "nonneg_index (dget ''total_bytes'' d) \<and> int_of_json (dget ''total_bytes'' d) \<le> max_bytes"
    "rtraverse artifact_row (json_items (dget ''files'' d)) = Inr rows"
    "map fst rows = sort (remdups (map fst rows))"
    "int (sum_list (map snd rows)) = int_of_json (dget ''total_bytes'' d)" "manifest = d"
    unfolding v validate_artifact_manifest_def json.case rbind_eq_Inr_iff sum.inject prod.inject ensure_Inr by blast+
  moreover from this(3) have "distinct (map fst rows)" by (metis distinct_remdups distinct_sort)
  ultimately show ?thesis using v by (auto simp: nonneg_index_iff)
qed

lemma observed_Inr:
  "rtraverse (observed_file base) ls = Inr observed \<Longrightarrow>
     \<exists>files. ls = map (\<lambda>(p, b). (p, RegularFile b)) files \<and> observed = map (map_prod posix_path id) files"
proof (induction ls arbitrary: observed)
  case Nil
  then show ?case by auto
next
  case (Cons l ls)
  then obtain o1 os where o: "observed_file base l = Inr o1" "rtraverse (observed_file base) ls = Inr os" "observed = o1 # os"
    by auto
  from Cons.IH [OF o(2)] obtain files where f: "ls = map (\<lambda>(p, b). (p, RegularFile b)) files"
    "os = map (map_prod posix_path id) files" by blast
  from o(1) obtain b where "snd l = RegularFile b" "o1 = (posix_path (fst l), b)"
    by (cases "snd l") (auto simp: observed_file_def)
  with f o(3) have "l # ls = map (\<lambda>(p, b). (p, RegularFile b)) ((fst l, b) # files)"
    "observed = map (map_prod posix_path id) ((fst l, b) # files)" by (auto simp: prod_eq_iff)
  then show ?case by (intro exI [of _ "(fst l, b) # files"] conjI)
qed

lemma artifact_leaf:
  assumes "wf_entries tree" and "(p, n) \<in> set (leaves (artifact_directory tree))"
  shows "wf_entries (artifact_directory tree) \<and> (''artifacts'' # p, n) \<in> set (leaves tree)"
proof -
  obtain es where g: "dict_get ''artifacts'' tree = Some (Directory es)" and a: "artifact_directory tree = es"
    using assms(2) by (auto simp: artifact_directory_def leaves_eq split: option.splits node.splits)
  obtain xs ys where t: "tree = xs @ (''artifacts'', Directory es) # ys" using dict_get_split [OF g] by blast
  have "wf_entries es" using assms(1) by (simp add: t wf_entries_simps list_all_iff split_beta)
  moreover have "(''artifacts'' # p, n) \<in> set (leaves_below [''artifacts''] es)"
    using assms(2) by (force simp: a leaves_eq leaves_below_Cons)
  moreover have "leaves tree = leaves_below [] xs @ leaves_below [''artifacts''] es @ leaves_below [] ys"
    by (simp add: t leaves_eq leaves_below_def)
  ultimately show ?thesis unfolding a by (simp only: set_append Un_iff simp_thms)
qed

lemma mset_of_lookups:
  assumes "distinct (map fst xs)" and "set (map fst xs) = set (map fst rows)" and "distinct (map fst rows)"
    and "\<forall>(k, v) \<in> set xs. map_of rows k = Some (f v)"
  shows "mset (map (\<lambda>(k, v). (k, f v)) xs) = mset rows"
proof -
  have k: "map fst (map (\<lambda>(k, v). (k, f v)) xs) = map fst xs" by (simp add: split_beta)
  have "set (map (\<lambda>(k, v). (k, f v)) xs) \<subseteq> set rows"
    using assms(4) by (auto dest: map_of_SomeD)
  moreover have "set rows \<subseteq> set (map (\<lambda>(k, v). (k, f v)) xs)"
  proof
    fix r assume r: "r \<in> set rows"
    then have "fst r \<in> set (map fst xs)" using assms(2) by simp
    then obtain v where v: "(fst r, v) \<in> set xs" by auto
    with assms(4) have "map_of rows (fst r) = Some (f v)" by blast
    moreover have "map_of rows (fst r) = Some (snd r)" using r assms(3) by (simp add: map_of_eq_Some_iff)
    ultimately show "r \<in> set (map (\<lambda>(k, v). (k, f v)) xs)" using v by (force simp: prod_eq_iff)
  qed
  moreover have "distinct rows" using assms(3) unfolding distinct_map by blast
  moreover have "distinct (map (\<lambda>(k, v). (k, f v)) xs)"
    using assms(1) unfolding k [symmetric] distinct_map [of fst] by blast
  ultimately show ?thesis by (simp only: set_eq_iff_mset_eq_distinct [symmetric])
qed

lemma received_mirrors:
  assumes "receive_artifact_export env read workspace present stream max_bytes = Inr (manifest, tree)"
  shows "mirrors env max_bytes manifest (artifact_directory tree) \<and>
    wf_entries tree \<and> set (map fst tree) \<subseteq> {''artifact-manifest.json'', ''artifacts''}"
proof -
  obtain intake v rows observed where
    fold: "rfold (receive_member max_bytes) \<lparr>ai_seen = [], ai_bytes = 0, ai_count = 0, ai_tree = []\<rparr> stream = Inr intake"
    and tree: "tree = ai_tree intake"
    and valid: "validate_artifact_manifest v max_bytes = Inr (manifest, rows)"
    and obs: "rtraverse (observed_file (path_join workspace ''artifacts'')) (leaves (artifact_directory tree)) = Inr observed"
    and names: "set (map fst observed) = set (map fst rows)"
    and sizes: "\<forall>(relative, bytes) \<in> set observed. map_of rows relative = Some (length bytes)"
    and digest: "dget ''artifact_set_sha256'' manifest = JStr (artifact_set_sha256 env observed)"
    using receive_export_Inr [OF assms] by blast
  have "intake_holds intake"
    using fold
  proof (rule rfold_invariant)
    show "intake_holds \<lparr>ai_seen = [], ai_bytes = 0, ai_count = 0, ai_tree = []\<rparr>"
      by (simp add: intake_holds_def wf_entries_def leaves_eq)
  qed (rule receive_member_holds)
  then have w: "wf_entries tree" and top: "set (map fst tree) \<subseteq> {''artifact-manifest.json'', ''artifacts''}"
    and r: "\<forall>l \<in> set (leaves tree). received_path (fst l)"
    unfolding intake_holds_def tree by blast+
  obtain files where files: "leaves (artifact_directory tree) = map (\<lambda>(p, b). (p, RegularFile b)) files"
    and observed: "observed = map (map_prod posix_path id) files"
    using observed_Inr [OF obs] by blast
  have safe: "p \<noteq> [] \<and> list_all safe_component p" if "(p, b) \<in> set files" for p b
  proof -
    have "(p, RegularFile b) \<in> set (leaves (artifact_directory tree))" using that by (force simp: files)
    with artifact_leaf [OF w] have "(''artifacts'' # p, RegularFile b) \<in> set (leaves tree)" by blast
    with r have "received_path (''artifacts'' # p)" by fastforce
    then show ?thesis by (auto simp: received_path_def)
  qed
  have d: "distinct (map fst observed)"
  proof (cases "files = []")
    case False
    then obtain p b where "(p, RegularFile b) \<in> set (leaves (artifact_directory tree))"
      by (cases files) (auto simp: files)
    with artifact_leaf [OF w] have "wf_entries (artifact_directory tree)" by blast
    from leaves_no_clash [OF this] have "distinct (map fst files)" by (simp add: files no_clash_def split_beta comp_def)
    moreover have "inj_on posix_path (set (map fst files))"
      using safe by (intro inj_onI posix_path_inj) auto
    ultimately have "distinct (map posix_path (map fst files))" unfolding distinct_map [of posix_path] by (rule conjI)
    moreover have "map fst observed = map posix_path (map fst files)" by (simp add: observed)
    ultimately show ?thesis by (simp only:)
  qed (simp add: observed)
  note val = validate_Inr [OF valid]
  have m: "mset (map (\<lambda>(k, b). (k, length b)) observed) = mset rows"
    using d names val sizes by (intro mset_of_lookups) blast+
  have e: "map (\<lambda>(k, b). (k, length b)) observed = map (\<lambda>(p, b). (posix_path p, length b)) files"
    by (simp add: observed comp_def split_beta)
  have "sum_list (map snd rows) = sum_list (map snd (map (\<lambda>(k, b). (k, length b)) observed))"
    by (simp only: sum_mset_sum_list [symmetric] mset_map [of snd] m)
  also have "\<dots> = sum_list (map (length \<circ> snd) files)" by (simp add: observed comp_def split_beta)
  finally have s: "sum_list (map snd rows) = sum_list (map (length \<circ> snd) files)" .
  have "mirrors env max_bytes manifest (artifact_directory tree)"
    unfolding mirrors_def
    using files safe val m [unfolded e] digest [unfolded observed] unfolding s by blast
  with w top show ?thesis by blast
qed

end
