(* ===== verification/Fleet_Artifacts_Transfer.thy ===== *)
theory Fleet_Artifacts_Transfer
  imports Fleet_Artifacts_Facts
begin

text \<open>
  The export and the reception of the files of a run are inverse to each other: what a node
  writes is accepted, and the received files are those of the run directory.
\<close>

section \<open>The exported files\<close>

fun node_bytes :: "node \<Rightarrow> nat list" where
  "node_bytes (RegularFile b) = b"
| "node_bytes _ = []"

definition regular :: "node \<Rightarrow> bool" where
  "regular n \<longleftrightarrow> (\<exists>b. n = RegularFile b)"

definition exported :: "string list \<times> node \<Rightarrow> string \<times> nat list" where
  "exported l = (posix_path (fst l), node_bytes (snd l))"

definition in_limits :: "int \<Rightarrow> (string \<times> nat list) list \<Rightarrow> bool" where
  "in_limits max_bytes files \<longleftrightarrow> int (sum_list (map (length \<circ> snd) files)) \<le> max_bytes \<and> length files \<le> MAX_ARTIFACT_FILES"

definition level_leaves :: "string list \<times> entries \<Rightarrow> (string list \<times> node) list" where
  "level_leaves level = map (\<lambda>e. (fst level @ [fst e], snd e)) (sort_key fst (filter (\<lambda>(name, n). \<not> walks_as_directory n) (snd level)))"

lemma export_file_Inr:
  "export_file directory max_bytes pre files e = Inr files' \<Longrightarrow>
     \<exists>b. snd e = RegularFile b \<and> files' = files @ [(posix_path (pre @ [fst e]), b)] \<and> in_limits max_bytes files'"
  by (cases "snd e") (auto simp: export_file_def Let_def in_limits_def)

lemma export_files_Inr:
  "rfold (export_file directory max_bytes pre) files es = Inr files' \<Longrightarrow>
     files' = files @ map exported (map (\<lambda>e. (pre @ [fst e], snd e)) es) \<and> (\<forall>e \<in> set es. regular (snd e)) \<and>
     (in_limits max_bytes files \<longrightarrow> in_limits max_bytes files')"
proof (induction es arbitrary: files)
  case (Cons e es)
  obtain mid where m: "export_file directory max_bytes pre files e = Inr mid"
    and r: "rfold (export_file directory max_bytes pre) mid es = Inr files'"
    using Cons.prems unfolding rfold.simps rbind_eq_Inr_iff by blast
  from export_file_Inr [OF m] Cons.IH [OF r] show ?case by (auto simp: exported_def regular_def)
qed simp

lemma export_levels_Inr:
  "rfold (export_level directory max_bytes) files levels = Inr files' \<Longrightarrow>
     files' = files @ map exported (concat (map level_leaves levels)) \<and>
     (\<forall>level \<in> set levels. \<forall>e \<in> set (snd level). if walks_as_directory (snd e) then \<not> is_link (snd e) else regular (snd e)) \<and>
     (in_limits max_bytes files \<longrightarrow> in_limits max_bytes files')"
proof (induction levels arbitrary: files)
  case (Cons level levels)
  let ?plain = "sort_key fst (filter (\<lambda>(name, n). \<not> walks_as_directory n) (snd level))"
  obtain mid us where u: "rtraverse (\<lambda>entry. ensure (\<not> is_link (snd entry))
              (''run artifacts contain symlink: '' @ path_join directory (posix_path (fst level @ [fst entry]))))
            (filter (\<lambda>(name, n). walks_as_directory n) (snd level)) = Inr us"
    and m: "rfold (export_file directory max_bytes (fst level)) files ?plain = Inr mid"
    and r: "rfold (export_level directory max_bytes) mid levels = Inr files'"
    using Cons.prems unfolding rfold.simps export_level_def rbind_eq_Inr_iff by blast
  have links: "\<not> is_link (snd e)" if "e \<in> set (snd level)" "walks_as_directory (snd e)" for e
    using rtraverse_ensure [OF u, of e] that by (auto simp: split_beta)
  have "map (\<lambda>e. (fst level @ [fst e], snd e)) ?plain = level_leaves level" by (simp add: level_leaves_def)
  with export_files_Inr [OF m] Cons.IH [OF r] links show ?case by (auto simp: split_beta)
qed simp

definition links_checked :: "string list \<times> entries \<Rightarrow> bool" where
  "links_checked level \<longleftrightarrow> (\<forall>x \<in> set (snd level). walks_as_directory (snd x) \<longrightarrow> \<not> is_link (snd x))"

lemma levels_below:
  assumes "\<And>x. x \<in> set xs \<Longrightarrow> walks_as_directory (snd x) \<Longrightarrow> \<not> is_link (snd x)"
    and "\<And>x sub. x \<in> set xs \<Longrightarrow> snd x = Directory sub \<Longrightarrow>
      mset (concat (map level_leaves (node_levels pre x))) = mset (leaf_nodes pre x)"
  shows "mset (concat (map level_leaves ((pre, xs) # concat (map (node_levels pre) xs)))) = mset (leaves_below pre xs)"
proof -
  have "mset (concat (map level_leaves (concat (map (node_levels pre) xs)))) +
      mset (map (\<lambda>e. (pre @ [fst e], snd e)) (filter (\<lambda>(name, n). \<not> walks_as_directory n) xs)) = mset (leaves_below pre xs)"
    using assms
  proof (induction xs)
    case (Cons x xs)
    obtain k n where x: "x = (k, n)" by (cases x)
    have ih: "mset (concat (map level_leaves (concat (map (node_levels pre) xs)))) +
      mset (map (\<lambda>e. (pre @ [fst e], snd e)) (filter (\<lambda>(name, n). \<not> walks_as_directory n) xs)) = mset (leaves_below pre xs)"
      by (rule Cons.IH) (use Cons.prems in auto)
    have "mset (concat (map level_leaves (node_levels pre x))) +
        mset (map (\<lambda>e. (pre @ [fst e], snd e)) (filter (\<lambda>(name, n). \<not> walks_as_directory n) [x])) = mset (leaf_nodes pre x)"
    proof (cases n)
      case (Directory sub)
      from Cons.prems(2) [of x sub] show ?thesis by (simp add: x Directory)
    next
      case (Symlink d)
      with Cons.prems(1) [of x] x have "\<not> d" by auto
      with x Symlink show ?thesis by simp
    qed (simp_all add: x)
    with ih show ?case by (simp add: union_ac split: if_splits prod.splits)
  qed simp
  moreover have "mset (level_leaves (pre, xs)) = mset (map (\<lambda>e. (pre @ [fst e], snd e)) (filter (\<lambda>(name, n). \<not> walks_as_directory n) xs))"
    by (simp add: level_leaves_def)
  ultimately show ?thesis by (simp add: union_ac)
qed

lemma levels_leaves:
  "\<forall>level \<in> set (node_levels pre e). links_checked level \<Longrightarrow> snd e = Directory es \<Longrightarrow>
     mset (concat (map level_leaves (node_levels pre e))) = mset (leaf_nodes pre e)"
proof (induction pre e arbitrary: es rule: node_levels.induct)
  case (1 pre name ds)
  have "mset (concat (map level_leaves ((pre @ [name], ds) # concat (map (node_levels (pre @ [name])) ds)))) =
      mset (leaves_below (pre @ [name]) ds)"
  proof (rule levels_below)
    fix x assume "x \<in> set ds" "walks_as_directory (snd x)"
    then show "\<not> is_link (snd x)" using "1.prems"(1) by (auto simp: links_checked_def)
  next
    fix x sub assume x: "x \<in> set ds" "snd x = Directory sub"
    with "1.prems"(1) have "\<forall>level \<in> set (node_levels (pre @ [name]) x). links_checked level" by auto
    from "1.IH" [OF x(1) this x(2)]
    show "mset (concat (map level_leaves (node_levels (pre @ [name]) x))) = mset (leaf_nodes (pre @ [name]) x)" .
  qed
  then show ?case by (simp only: node_levels.simps leaf_nodes_Directory)
qed simp_all

lemma walk_leaves:
  assumes "rfold (export_level directory max_bytes) [] (walk_levels es) = Inr files" and "1 \<le> max_bytes"
  shows "\<exists>ls. files = map exported ls \<and> mset ls = mset (leaves es) \<and> list_all (regular \<circ> snd) ls \<and> in_limits max_bytes files"
proof -
  let ?ls = "concat (map level_leaves (walk_levels es))"
  note x = export_levels_Inr [OF assms(1)]
  have ok: "\<forall>level \<in> set (walk_levels es). \<forall>e \<in> set (snd level). if walks_as_directory (snd e) then \<not> is_link (snd e) else regular (snd e)"
    using x by blast
  then have c: "\<forall>level \<in> set (walk_levels es). links_checked level" by (auto simp: links_checked_def split: if_splits)
  have "mset ?ls = mset (leaves_below [] es)"
    unfolding walk_levels_def
  proof (rule levels_below)
    fix e assume "e \<in> set es" "walks_as_directory (snd e)"
    then show "\<not> is_link (snd e)" using c by (auto simp: walk_levels_def links_checked_def)
  next
    fix e sub assume "e \<in> set es" "snd e = Directory sub"
    then show "mset (concat (map level_leaves (node_levels [] e))) = mset (leaf_nodes [] e)"
      using c by (intro levels_leaves) (auto simp: walk_levels_def)
  qed
  moreover have "list_all (regular \<circ> snd) ?ls"
    using ok by (auto simp: list_all_iff level_leaves_def split: if_splits) fastforce
  moreover have "in_limits max_bytes []" using assms(2) by (simp add: in_limits_def)
  with x have "in_limits max_bytes files" by blast
  ultimately show ?thesis using x by (intro exI [of _ ?ls]) (simp add: leaves_eq)
qed

section \<open>The received members\<close>

definition member_name :: "string list \<Rightarrow> string" where
  "member_name p = ''artifacts/'' @ posix_path p"

definition received_leaves :: "nat list \<Rightarrow> (string list \<times> node) list \<Rightarrow> (string list \<times> node) multiset" where
  "received_leaves doc ls = add_mset ([''artifact-manifest.json''], RegularFile doc) (mset (map (map_prod ((#) ''artifacts'') id) ls))"

definition carrying :: "nat list \<Rightarrow> (string list \<times> node) list \<Rightarrow> artifact_intake \<Rightarrow> bool" where
  "carrying doc ls intake \<longleftrightarrow>
     set (ai_seen intake) = insert ''artifact-manifest.json'' (member_name ` fst ` set ls) \<and>
     ai_bytes intake = sum_list (map (length \<circ> node_bytes \<circ> snd) ls) \<and>
     ai_count intake = 1 + length ls \<and> full (ai_tree intake) \<and>
     mset (leaves (ai_tree intake)) = received_leaves doc ls"

definition safe_parts_list :: "string list \<Rightarrow> bool" where
  "safe_parts_list p \<longleftrightarrow> p \<noteq> [] \<and> list_all safe_component p"

lemma artifacts_component: "safe_component ''artifacts''"
  by (simp add: safe_component_def is_component_def)

lemma member_name_join: "safe_parts_list p \<Longrightarrow> member_name p = join ''/'' (''artifacts'' # p)"
  by (cases p) (simp_all add: member_name_def posix_path_def safe_parts_list_def)

lemma member_name_path:
  assumes "safe_parts_list p"
  shows "safe_artifact_archive_path (member_name p) = Inr (Some p) \<and> member_name p \<noteq> ''artifact-manifest.json''"
proof -
  have s: "\<not> unsafe_path (member_name p) \<and> path_components (member_name p) = ''artifacts'' # p"
    unfolding member_name_join [OF assms]
    using assms artifacts_component by (intro safe_join) (auto simp: safe_parts_list_def)
  have n: "member_name p \<noteq> ''artifact-manifest.json''" by (simp add: member_name_def)
  have "posix_path (''artifacts'' # p) = member_name p" by (simp add: member_name_join [OF assms] posix_path_def)
  with s n assms show ?thesis
    by (simp add: safe_artifact_archive_path_def safe_artifact_relative_def safe_parts_list_def Suc_le_eq)
qed

lemma member_name_inj: "member_name p = member_name q \<Longrightarrow> safe_parts_list p \<Longrightarrow> safe_parts_list q \<Longrightarrow> p = q"
  by (rule posix_path_inj) (auto simp: member_name_def safe_parts_list_def)

lemma receive_step:
  assumes c: "carrying doc ls intake" and l: "regular (snd l)" "safe_parts_list (fst l)"
    and ls: "\<And>x. x \<in> set ls \<Longrightarrow> safe_parts_list (fst x) \<and> \<not> clashes (fst x) (fst l)"
    and bound: "int (sum_list (map (length \<circ> node_bytes \<circ> snd) (ls @ [l]))) \<le> max_bytes"
      "length (ls @ [l]) \<le> MAX_ARTIFACT_FILES"
  shows "\<exists>intake'. receive_member max_bytes intake (Inr (regular_member (member_name (fst l)) (node_bytes (snd l)))) = Inr intake' \<and>
    carrying doc (ls @ [l]) intake'"
proof -
  have nc: "\<not> clashes q (''artifacts'' # fst l)" if "(q, n) \<in> set (leaves (ai_tree intake))" for q n
  proof -
    have "(q, n) \<in># received_leaves doc ls" using that c by (simp add: carrying_def flip: set_mset_mset)
    then consider "q = [''artifact-manifest.json'']" | x where "x \<in> set ls" "q = ''artifacts'' # fst x"
      by (auto simp: received_leaves_def)
    then show ?thesis
    proof cases
      case 1
      then show ?thesis by (simp add: clashes_def)
    next
      case 2
      with ls show ?thesis by simp
    qed
  qed
  have full: "full (ai_tree intake)" using c by (simp add: carrying_def)
  have "\<exists>tree. put_file (''artifacts'' # fst l) (node_bytes (snd l)) (ai_tree intake) = Inr tree \<and> full tree \<and> tree \<noteq> []"
    using full by (rule put_file_total) (use nc in simp_all)
  then obtain tree where
    tree: "put_file (''artifacts'' # fst l) (node_bytes (snd l)) (ai_tree intake) = Inr tree" "full tree" by blast
  have new: "member_name (fst l) \<notin> set (ai_seen intake)"
  proof
    assume "member_name (fst l) \<in> set (ai_seen intake)"
    with c member_name_path [OF l(2)] obtain x where x: "x \<in> set ls" "member_name (fst l) = member_name (fst x)"
      by (auto simp: carrying_def)
    with ls member_name_inj l(2) have "fst l = fst x" by blast
    with ls [OF x(1)] show False by (simp add: clashes_def)
  qed
  have t: "member_target max_bytes intake (length (node_bytes (snd l))) (Some (fst l)) =
      Inr (''artifacts'' # fst l, ai_bytes intake + length (node_bytes (snd l)))"
    using c bound(1) by (simp add: member_target_def carrying_def)
  let ?intake = "\<lparr>ai_seen = member_name (fst l) # ai_seen intake, ai_bytes = ai_bytes intake + length (node_bytes (snd l)),
    ai_count = ai_count intake + 1, ai_tree = tree\<rparr>"
  have "receive_member max_bytes intake (Inr (regular_member (member_name (fst l)) (node_bytes (snd l)))) = Inr ?intake"
    using c bound(2) new member_name_path [OF l(2)]
    by (simp add: receive_member_def regular_member_def Let_def t tree carrying_def)
  moreover have "carrying doc (ls @ [l]) ?intake"
  proof -
    obtain b where "snd l = RegularFile b" using l(1) by (auto simp: regular_def)
    then have "map_prod ((#) ''artifacts'') id l = (''artifacts'' # fst l, RegularFile (node_bytes (snd l)))"
      by (cases l) simp
    with put_file_leaves [OF tree(1), of "[]"] c tree(2) show ?thesis
      by (simp add: carrying_def received_leaves_def leaves_eq insert_commute)
  qed
  ultimately show ?thesis by blast
qed

lemma receive_steps:
  assumes "carrying doc ls intake" and "list_all (regular \<circ> snd) (ls @ rest)"
    and "list_all (safe_parts_list \<circ> fst) (ls @ rest)" and "no_clash (map fst (ls @ rest))"
    and "int (sum_list (map (length \<circ> node_bytes \<circ> snd) (ls @ rest))) \<le> max_bytes" and "length (ls @ rest) \<le> MAX_ARTIFACT_FILES"
  shows "\<exists>intake'. rfold (receive_member max_bytes) intake
      (map (\<lambda>l. Inr (regular_member (member_name (fst l)) (node_bytes (snd l)))) rest) = Inr intake' \<and>
    carrying doc (ls @ rest) intake'"
  using assms
proof (induction rest arbitrary: ls intake)
  case (Cons l rest)
  have "\<exists>mid. receive_member max_bytes intake (Inr (regular_member (member_name (fst l)) (node_bytes (snd l)))) = Inr mid \<and>
    carrying doc (ls @ [l]) mid"
  proof (rule receive_step [OF Cons.prems(1)])
    fix x assume x: "x \<in> set ls"
    then have m: "fst x \<in> set (map fst (ls @ l # rest))" "fst l \<in> set (map fst (ls @ l # rest))" by simp_all
    have "distinct (map fst (ls @ l # rest))" using Cons.prems(4) unfolding no_clash_def by (rule conjunct1)
    then have "fst l \<notin> fst ` set ls" by auto
    with x have "fst x \<noteq> fst l" by (metis image_eqI)
    with m Cons.prems(4) have "\<not> clashes (fst x) (fst l)" unfolding no_clash_def by blast
    moreover have "safe_parts_list (fst x)" using Cons.prems(3) x by (simp add: list_all_iff)
    ultimately show "safe_parts_list (fst x) \<and> \<not> clashes (fst x) (fst l)" by blast
  qed (use Cons.prems(2,3,5,6) in \<open>simp_all add: comp_def\<close>)
  then obtain mid where m: "receive_member max_bytes intake (Inr (regular_member (member_name (fst l)) (node_bytes (snd l)))) = Inr mid"
    "carrying doc (ls @ [l]) mid" by blast
  have "\<exists>intake'. rfold (receive_member max_bytes) mid
      (map (\<lambda>l. Inr (regular_member (member_name (fst l)) (node_bytes (snd l)))) rest) = Inr intake' \<and>
    carrying doc ((ls @ [l]) @ rest) intake'"
    using m(2) Cons.prems(2-6) by (intro Cons.IH) simp_all
  with m(1) show ?case by simp
qed simp

section \<open>The whole transfer\<close>

text \<open>A tree whose names can be components of a path, and a run state the receiver can check.\<close>

definition named :: "entries \<Rightarrow> bool" where
  "named es \<longleftrightarrow> list_all (\<lambda>(p, n). list_all safe_component p) (leaves es)"

definition checkable_run :: "jdict \<Rightarrow> bool" where
  "checkable_run d \<longleftrightarrow> run_id_value (dget ''run_id'' d) \<and> identifier_value (dget ''task_id'' d) \<and>
     hex_value 64 (dget ''task_sha256'' d) \<and> hex_value 64 (dget ''candidate_sha256'' d) \<and> nonempty_str (dget ''terminal_at'' d)"

definition run_directory :: "py_env \<Rightarrow> jdict \<Rightarrow> string" where
  "run_directory env d = resolve_path env (expanduser env (pure_path (py_str (float_text env) (dget_or ''run_dir'' (JStr []) d))))"

definition file_rows :: "(string \<times> nat list) list \<Rightarrow> json list" where
  "file_rows files = map (\<lambda>(relative, bytes). JObj [(''path'', JStr relative), (''size'', JInt (int (length bytes)))]) (sort_key fst files)"

definition export_document :: "py_env \<Rightarrow> jdict \<Rightarrow> (string \<times> nat list) list \<Rightarrow> jdict" where
  "export_document env d files =
     [(''schema'', JStr ARTIFACT_MANIFEST_SCHEMA), (''authority'', JStr ''node-run''), (''terminal_at'', dget ''terminal_at'' d),
      (''run_id'', dget ''run_id'' d), (''task_id'', dget ''task_id'' d), (''task_sha256'', dget ''task_sha256'' d),
      (''candidate_sha256'', dget ''candidate_sha256'' d), (''terminal_state'', dget ''state'' d),
      (''run_dir'', JStr (run_directory env d)), (''total_bytes'', JInt (int (sum_list (map (length \<circ> snd) files)))),
      (''files'', JList (file_rows files)), (''artifact_set_sha256'', JStr (artifact_set_sha256 env files))]"

lemma dindex_Inr: "dindex k d = Inr v \<longleftrightarrow> dict_get k d = Some v"
  by (auto simp: dindex_def split: option.splits)

lemma export_Inr:
  assumes "write_artifact_export env lookup d max_bytes = Inr (manifest, members)"
    and "lookup (run_directory env d) = Some (Directory es)"
  shows "\<exists>ls. manifest = export_document env d (map exported ls) \<and> mset ls = mset (leaves es) \<and>
    list_all (regular \<circ> snd) ls \<and> in_limits max_bytes (map exported ls) \<and> 1 \<le> max_bytes \<and>
    hashed_in terminal_names (dget ''state'' d) = Inr True \<and>
    members = regular_member ''artifact-manifest.json'' (json_document env (JObj manifest)) #
      map (\<lambda>l. regular_member (member_name (fst l)) (node_bytes (snd l))) ls"
proof -
  obtain files where b: "build_artifact_manifest env lookup d max_bytes = Inr (manifest, files)"
    and m: "members = regular_member ''artifact-manifest.json'' (json_document env (JObj manifest)) #
       map (\<lambda>(relative, bytes). regular_member (''artifacts/'' @ relative) bytes) files"
    using assms(1) unfolding write_artifact_export_def rbind_eq_Inr_iff split_paired_Ex prod.case sum.inject prod.inject
    by blast
  obtain run_id tid ts cs st where one: "1 \<le> max_bytes" and ended: "hashed_in terminal_names (dget ''state'' d) = Inr True"
    and fold: "rfold (export_level (run_directory env d) max_bytes) [] (walk_levels es) = Inr files"
    and fields: "dict_get ''run_id'' d = Some run_id" "dict_get ''task_id'' d = Some tid" "dict_get ''task_sha256'' d = Some ts"
      "dict_get ''candidate_sha256'' d = Some cs" "dict_get ''state'' d = Some st"
    and man: "manifest = [(''schema'', JStr ARTIFACT_MANIFEST_SCHEMA), (''authority'', JStr ''node-run''),
           (''terminal_at'', dget ''terminal_at'' d), (''run_id'', run_id), (''task_id'', tid),
           (''task_sha256'', ts), (''candidate_sha256'', cs), (''terminal_state'', st),
           (''run_dir'', JStr (run_directory env d)), (''total_bytes'', JInt (int (sum_list (map (length \<circ> snd) files)))),
           (''files'', JList (file_rows files)), (''artifact_set_sha256'', JStr (artifact_set_sha256 env files))]"
    using b assms(2)
    unfolding build_artifact_manifest_def Let_def rbind_eq_Inr_iff sum.inject prod.inject ensure_Inr dindex_Inr
      run_directory_def [symmetric] file_rows_def [symmetric]
    by auto
  obtain ls where ls: "files = map exported ls" "mset ls = mset (leaves es)" "list_all (regular \<circ> snd) ls"
    "in_limits max_bytes files" using walk_leaves [OF fold one] by blast
  have "manifest = export_document env d files" using fields by (simp add: man export_document_def dget_def)
  with m one ended ls show ?thesis
    by (intro exI [of _ ls]) (simp add: comp_def split_beta exported_def member_name_def)
qed

end
