(* ===== verification/Fleet_Artifacts_Roundtrip.thy ===== *)
theory Fleet_Artifacts_Roundtrip
  imports Fleet_Artifacts_Transfer Result_Facts
begin

text \<open>
  The manifest an export writes passes the validation of the receiver, and the received
  directory holds the files of the run directory; what an installed mirror is made of.
\<close>

section \<open>The manifest of an export is valid\<close>

lemma export_document_fields:
  "dget ''schema'' (export_document env d files) = JStr ARTIFACT_MANIFEST_SCHEMA"
  "dget ''authority'' (export_document env d files) = JStr ''node-run''"
  "dget ''terminal_at'' (export_document env d files) = dget ''terminal_at'' d"
  "dget ''run_id'' (export_document env d files) = dget ''run_id'' d"
  "dget ''task_id'' (export_document env d files) = dget ''task_id'' d"
  "dget ''task_sha256'' (export_document env d files) = dget ''task_sha256'' d"
  "dget ''candidate_sha256'' (export_document env d files) = dget ''candidate_sha256'' d"
  "dget ''terminal_state'' (export_document env d files) = dget ''state'' d"
  "dget ''run_dir'' (export_document env d files) = JStr (run_directory env d)"
  "dget ''total_bytes'' (export_document env d files) = JInt (int (sum_list (map (length \<circ> snd) files)))"
  "dget ''files'' (export_document env d files) = JList (file_rows files)"
  "dget ''artifact_set_sha256'' (export_document env d files) = JStr (artifact_set_sha256 env files)"
  by (simp_all add: export_document_def dget_def)

lemma export_document_keys: "same_keys (export_document env d files) ARTIFACT_MANIFEST_FIELDS"
  by (simp add: same_keys_def export_document_def ARTIFACT_MANIFEST_FIELDS_def dict_keys_def dict_has_def)

lemma artifact_row_file:
  assumes "safe_parts_list p"
  shows "artifact_row (JObj [(''path'', JStr (posix_path p)), (''size'', JInt (int n))]) = Inr (posix_path p, n)"
proof -
  have "\<not> unsafe_path (posix_path p) \<and> path_components (posix_path p) = p"
    using assms unfolding posix_path_def safe_parts_list_def by (intro safe_join) blast+
  then show ?thesis
    by (simp add: artifact_row_def safe_artifact_relative_def same_keys_def dict_keys_def dict_has_def dget_def)
qed

lemma file_rows_parse:
  assumes "\<forall>f \<in> set files. \<exists>p. safe_parts_list p \<and> fst f = posix_path p"
  shows "rtraverse artifact_row (file_rows files) = Inr (map (\<lambda>(r, b). (r, length b)) (sort_key fst files))"
proof -
  have "rtraverse artifact_row (map (\<lambda>(relative, bytes). JObj [(''path'', JStr relative), (''size'', JInt (int (length bytes)))]) fs)
      = Inr (map (\<lambda>(r, b). (r, length b)) fs)" if "set fs \<subseteq> set files" for fs
    using that
  proof (induction fs)
    case (Cons f fs)
    obtain r b where f: "f = (r, b)" by (cases f)
    with Cons.prems assms obtain p where "safe_parts_list p" "r = posix_path p" by auto
    with artifact_row_file [of p "length b"] Cons f show ?case by simp
  qed simp
  from this [of "sort_key fst files"] show ?thesis by (simp add: file_rows_def)
qed

lemma export_valid:
  assumes "checkable_run d" and "hashed_in terminal_names (dget ''state'' d) = Inr True"
    and "hex_value 64 (JStr (artifact_set_sha256 env files))" and "path_is_absolute (run_directory env d)"
    and "in_limits max_bytes files" and "distinct (map fst files)"
    and "\<forall>f \<in> set files. \<exists>p. safe_parts_list p \<and> fst f = posix_path p"
  shows "validate_artifact_manifest (JObj (export_document env d files)) max_bytes =
     Inr (export_document env d files, map (\<lambda>(r, b). (r, length b)) (sort_key fst files))"
proof -
  let ?rows = "map (\<lambda>(r, b). (r, length b)) (sort_key fst files)"
  have fst_rows: "map fst ?rows = sort (map fst files)" by (simp add: comp_def split_beta flip: sort_key_fst_map)
  have sorted: "map fst ?rows = sort (remdups (map fst ?rows))"
    unfolding fst_rows using assms(6) by (simp add: distinct_remdups_id sorted_sort_id)
  have "sum_list (map snd ?rows) = sum_list (map (length \<circ> snd) (sort_key fst files))" by (simp add: comp_def split_beta)
  also have "\<dots> = sum_list (map (length \<circ> snd) files)"
    by (metis mset_map mset_sort sum_mset_sum_list)
  finally have total: "sum_list (map snd ?rows) = sum_list (map (length \<circ> snd) files)" .
  have len: "length (file_rows files) \<le> MAX_ARTIFACT_FILES" using assms(5) by (simp add: file_rows_def in_limits_def)
  note rows = file_rows_parse [OF assms(7)]
  have shas: "rtraverse (\<lambda>name. ensure (hex_value 64 (dget name (export_document env d files))) (''artifact manifest has invalid '' @ name))
      [''task_sha256'', ''candidate_sha256''] = Inr [(), ()]"
    using assms(1) by (simp add: export_document_fields checkable_run_def)
  show ?thesis
    unfolding validate_artifact_manifest_def json.case shas rbind.simps
    using assms(1-5) sorted
    by (simp add: rows total len export_document_keys export_document_fields checkable_run_def absolute_value_def in_limits_def
        del: map_map list.map_comp)
qed

section \<open>The received files\<close>

lemma leaves_nonempty: "l \<in> set (leaves es) \<Longrightarrow> fst l \<noteq> []"
proof -
  assume "l \<in> set (leaves es)"
  then obtain e where "(fst l, snd l) \<in> set (leaf_nodes [] e)" by (auto simp: leaves_def)
  from leaf_nodes_path [OF this] show ?thesis by auto
qed

lemma dict_get_leaf:
  assumes "wf_entries es" and "([name], RegularFile b) \<in> set (leaves es)"
  shows "dict_get name es = Some (RegularFile b)"
proof -
  obtain e where e: "e \<in> set es" "([name], RegularFile b) \<in> set (leaf_nodes [] e)"
    using assms(2) by (auto simp: leaves_def)
  from leaf_nodes_path [OF e(2)] have "fst e = name" by simp
  moreover have "snd e = RegularFile b"
  proof (cases "snd e")
    case (Directory sub)
    then have "e = (fst e, Directory sub)" by (cases e) simp
    with e(2) have "([name], RegularFile b) \<in> set (leaf_nodes [] (fst e, Directory sub))" by simp
    then obtain x where "([name], RegularFile b) \<in> set (leaf_nodes [fst e] x)"
      unfolding leaf_nodes_Directory by (auto simp: leaves_below_def)
    from leaf_nodes_path [OF this] show ?thesis by simp
  qed (use e(2) in \<open>cases e; simp\<close>)+
  ultimately have "(name, RegularFile b) \<in> set es" using e(1) by (cases e) simp
  with assms(1) show ?thesis by (simp add: wf_entries_simps dict_get_def)
qed

lemma artifact_leaves:
  assumes "wf_entries tree" and "mset (leaves tree) = received_leaves doc ls" and "\<And>l. l \<in> set ls \<Longrightarrow> fst l \<noteq> []"
    and "distinct ls"
  shows "mset (leaves (artifact_directory tree)) = mset ls"
proof -
  have s: "(q, n) \<in> set (leaves tree) \<longleftrightarrow> (q, n) \<in># received_leaves doc ls" for q n
    by (simp add: assms(2) [symmetric])
  have "set (leaves (artifact_directory tree)) \<subseteq> set ls"
  proof
    fix l assume "l \<in> set (leaves (artifact_directory tree))"
    with artifact_leaf [OF assms(1), of "fst l" "snd l"] have "(''artifacts'' # fst l, snd l) \<in> set (leaves tree)" by simp
    with s have "(''artifacts'' # fst l, snd l) \<in># received_leaves doc ls" by blast
    then show "l \<in> set ls" by (auto simp: received_leaves_def prod_eq_iff map_prod_def split_beta)
  qed
  moreover have "set ls \<subseteq> set (leaves (artifact_directory tree))"
  proof
    fix l assume l: "l \<in> set ls"
    then have "map_prod ((#) ''artifacts'') id l \<in># received_leaves doc ls" by (simp add: received_leaves_def)
    moreover have "map_prod ((#) ''artifacts'') id l = (''artifacts'' # fst l, snd l)" by (cases l) simp
    ultimately have "(''artifacts'' # fst l, snd l) \<in># received_leaves doc ls" by simp
    with s have "(''artifacts'' # fst l, snd l) \<in> set (leaves tree)" by blast
    then obtain e where e: "e \<in> set tree" "(''artifacts'' # fst l, snd l) \<in> set (leaf_nodes [] e)" by (auto simp: leaves_def)
    from leaf_nodes_path [OF e(2)] have name: "fst e = ''artifacts''" by simp
    obtain sub where sub: "snd e = Directory sub"
      using e(2) assms(3) [OF l] by (cases e; cases "snd e") auto
    then have "e = (''artifacts'', Directory sub)" using name by (cases e) simp
    with e(1) have "(''artifacts'', Directory sub) \<in> set tree" by simp
    with assms(1) have "artifact_directory tree = sub"
      by (simp add: artifact_directory_def wf_entries_simps dict_get_def)
    moreover have "(''artifacts'' # fst l, snd l) \<in> set (leaves_below [''artifacts''] sub)"
      using e(2) unfolding \<open>e = (''artifacts'', Directory sub)\<close> leaf_nodes_Directory by simp
    ultimately show "l \<in> set (leaves (artifact_directory tree))"
      by (auto simp: leaves_below_Cons leaves_eq prod_eq_iff)
  qed
  moreover have "distinct (leaves (artifact_directory tree))"
  proof (cases "leaves (artifact_directory tree)")
    case (Cons l rest)
    with artifact_leaf [OF assms(1), of "fst l" "snd l"] have "wf_entries (artifact_directory tree)" by simp
    from leaves_no_clash [OF this] show ?thesis unfolding no_clash_def distinct_map by blast
  qed simp
  ultimately show ?thesis using assms(4) by (simp only: set_eq_iff_mset_eq_distinct [symmetric])
qed

lemma observed_all:
  assumes "list_all (regular \<circ> snd) ls"
  shows "rtraverse (observed_file base) ls = Inr (map exported ls)"
proof (rule rtraverse_all_Inr)
  fix l assume "l \<in> set ls"
  with assms obtain b where "snd l = RegularFile b" by (auto simp: list_all_iff regular_def)
  then show "observed_file base l = Inr (exported l)" by (simp add: observed_file_def exported_def)
qed

lemma received_wf:
  assumes "rfold (receive_member max_bytes) \<lparr>ai_seen = [], ai_bytes = 0, ai_count = 0, ai_tree = []\<rparr> stream = Inr intake"
  shows "intake_holds intake"
  using assms
proof (rule rfold_invariant)
  show "intake_holds \<lparr>ai_seen = [], ai_bytes = 0, ai_count = 0, ai_tree = []\<rparr>"
    by (simp add: intake_holds_def wf_entries_def leaves_eq)
qed (rule receive_member_holds)

text \<open>What the receiver relies on: the digest is 64 hexadecimal digits, resolved paths are absolute.\<close>

definition transport_env :: "py_env \<Rightarrow> bool" where
  "transport_env env \<longleftrightarrow> (\<forall>bytes. hex_value 64 (JStr (sha256 env bytes))) \<and> (\<forall>p. path_is_absolute (resolve_path env p))"

lemma export_received:
  assumes exp: "write_artifact_export env lookup d max_bytes = Inr (manifest, members)"
    and dir: "lookup (run_directory env d) = Some (Directory es)" "wf_entries es" "named es"
    and run: "checkable_run d" and env: "transport_env env"
    and small: "length (json_document env (JObj manifest)) \<le> MAX_ARTIFACT_MANIFEST_BYTES"
    and read: "read (json_document env (JObj manifest)) = Inr (JObj manifest)"
  shows "\<exists>tree. receive_artifact_export env read workspace [] (map Inr members) max_bytes = Inr (manifest, tree) \<and>
    mset (leaves (artifact_directory tree)) = mset (leaves es)"
proof -
  let ?doc = "json_document env (JObj manifest)"
  obtain ls where man: "manifest = export_document env d (map exported ls)" and ls: "mset ls = mset (leaves es)"
    and reg: "list_all (regular \<circ> snd) ls" and lim: "in_limits max_bytes (map exported ls)" and one: "1 \<le> max_bytes"
    and ended: "hashed_in terminal_names (dget ''state'' d) = Inr True"
    and members: "members = regular_member ''artifact-manifest.json'' ?doc #
      map (\<lambda>l. regular_member (member_name (fst l)) (node_bytes (snd l))) ls"
    using export_Inr [OF exp dir(1)] by blast
  have set: "set ls = set (leaves es)" using ls by (metis set_mset_mset)
  have safe: "list_all (safe_parts_list \<circ> fst) ls"
    using dir(3) leaves_nonempty unfolding named_def list_all_iff set safe_parts_list_def comp_def by (auto simp: list_all_iff)
  have nc: "no_clash (map fst ls)"
  proof -
    have "mset (map fst ls) = mset (map fst (leaves es))" by (simp only: mset_map ls)
    then have "distinct (map fst ls)" "set (map fst ls) = set (map fst (leaves es))"
      using leaves_no_clash [OF dir(2)] unfolding no_clash_def by (metis mset_eq_imp_distinct_iff, metis set_mset_mset)
    with leaves_no_clash [OF dir(2)] show ?thesis unfolding no_clash_def by simp
  qed
  have dls: "distinct ls" using nc unfolding no_clash_def distinct_map by blast
  let ?start = "\<lparr>ai_seen = [], ai_bytes = 0, ai_count = 0, ai_tree = []\<rparr> :: artifact_intake"
  let ?first = "\<lparr>ai_seen = [''artifact-manifest.json''], ai_bytes = 0, ai_count = 1,
    ai_tree = [(''artifact-manifest.json'', RegularFile ?doc)]\<rparr>"
  have path: "safe_artifact_archive_path ''artifact-manifest.json'' = Inr None"
    by code_simp
  have first: "receive_member max_bytes ?start (Inr (regular_member ''artifact-manifest.json'' ?doc)) = Inr ?first"
    using small by (simp add: receive_member_def regular_member_def path member_target_def Let_def)
  have c0: "carrying ?doc [] ?first" by (simp add: carrying_def received_leaves_def leaves_def)
  have sums: "int (sum_list (map (length \<circ> node_bytes \<circ> snd) ls)) \<le> max_bytes" "length ls \<le> MAX_ARTIFACT_FILES"
    using lim by (simp_all add: in_limits_def comp_def exported_def)
  have "\<exists>intake. rfold (receive_member max_bytes) ?first
      (map (\<lambda>l. Inr (regular_member (member_name (fst l)) (node_bytes (snd l)))) ls) = Inr intake \<and> carrying ?doc ([] @ ls) intake"
    using reg safe nc sums by (intro receive_steps [OF c0]) simp_all
  then obtain intake where fold1: "rfold (receive_member max_bytes) ?first
      (map (\<lambda>l. Inr (regular_member (member_name (fst l)) (node_bytes (snd l)))) ls) = Inr intake" and c: "carrying ?doc ls intake"
    by auto
  have fold: "rfold (receive_member max_bytes) ?start (map Inr members) = Inr intake"
    using first fold1 by (simp add: members comp_def)
  let ?tree = "ai_tree intake"
  have w: "wf_entries ?tree" using received_wf [OF fold] by (simp add: intake_holds_def)
  have lv: "mset (leaves ?tree) = received_leaves ?doc ls" using c by (simp add: carrying_def)
  then have "([''artifact-manifest.json''], RegularFile ?doc) \<in> set (leaves ?tree)"
    by (metis received_leaves_def set_mset_mset union_single_eq_member)
  from dict_get_leaf [OF w this] read have rd: "read_manifest read ''artifact manifest'' workspace ''artifact-manifest.json'' ?tree = Inr (JObj manifest)"
    by (simp add: read_manifest_def)
  have al: "mset (leaves (artifact_directory ?tree)) = mset ls"
    using safe dls by (intro artifact_leaves [OF w lv]) (auto simp: list_all_iff safe_parts_list_def)
  let ?files = "map exported (leaves (artifact_directory ?tree))"
  have mf: "mset ?files = mset (map exported ls)" by (simp only: mset_map al)
  have df: "distinct (map fst (map exported ls))"
  proof -
    have "inj_on posix_path (set (map fst ls))"
      using safe by (intro inj_onI posix_path_inj) (auto simp: list_all_iff safe_parts_list_def)
    moreover have "distinct (map fst ls)" using nc unfolding no_clash_def by (rule conjunct1)
    ultimately have "distinct (map posix_path (map fst ls))" unfolding distinct_map [of posix_path] by (intro conjI)
    moreover have "map fst (map exported ls) = map posix_path (map fst ls)" by (simp add: exported_def)
    ultimately show ?thesis by (simp only:)
  qed
  have digest: "artifact_set_sha256 env ?files = artifact_set_sha256 env (map exported ls)"
    using sort_key_mset [OF mf [symmetric] df] by (simp only: artifact_set_sha256_def artifact_set_stream_def)
  let ?rows = "map (\<lambda>(r, b). (r, length b)) (sort_key fst (map exported ls))"
  have paths: "\<forall>f \<in> set (map exported ls). \<exists>p. safe_parts_list p \<and> fst f = posix_path p"
    using safe by (auto simp: exported_def list_all_iff)
  have valid: "validate_artifact_manifest (JObj manifest) max_bytes = Inr (manifest, ?rows)"
    unfolding man using env by (intro export_valid [OF run ended _ _ lim df paths])
      (simp_all add: transport_env_def artifact_set_sha256_def run_directory_def)
  have obs: "rtraverse (observed_file (path_join workspace ''artifacts'')) (leaves (artifact_directory ?tree)) = Inr ?files"
    using reg by (intro observed_all) (metis al list_all_iff set_mset_mset)
  have names: "set (map fst ?files) = set (map fst ?rows)"
  proof -
    have "set ?files = set (sort_key fst (map exported ls))" using mf by (metis set_mset_mset set_sort)
    moreover have "set (map fst ?rows) = fst ` set (sort_key fst (map exported ls))"
      unfolding set_map image_image split_beta fst_conv ..
    ultimately show ?thesis by (simp only: set_map)
  qed
  have drows: "distinct (map fst ?rows)"
  proof -
    have "map fst ?rows = map fst (sort_key fst (map exported ls))" by (simp add: comp_def split_beta)
    with df show ?thesis by (simp only: sort_key_fst_map distinct_sort)
  qed
  have sizes: "rtraverse (\<lambda>(relative, bytes). ensure (map_of ?rows relative = Some (length bytes)) (m relative)) ?files
      = Inr (map (\<lambda>_. ()) ?files)" for m
  proof (rule rtraverse_all_Inr)
    fix f assume "f \<in> set ?files"
    then have "f \<in> set_mset (mset (map exported ls))" unfolding mf [symmetric] by simp
    then have "f \<in> set (sort_key fst (map exported ls))" by simp
    then have "(fst f, length (snd f)) \<in> set ?rows" by (force simp: split_beta)
    with drows have "map_of ?rows (fst f) = Some (length (snd f))" by simp
    then show "(case f of (relative, bytes) \<Rightarrow> ensure (map_of ?rows relative = Some (length bytes)) (m relative)) = Inr ()"
      by (cases f) simp
  qed
  have total: "int (ai_bytes intake) = int_of_json (dget ''total_bytes'' manifest)"
    using c by (simp add: man export_document_fields carrying_def comp_def exported_def)
  have dig: "dget ''artifact_set_sha256'' manifest = JStr (artifact_set_sha256 env ?files)"
    by (simp add: man export_document_fields digest)
  have "receive_artifact_export env read workspace [] (map Inr members) max_bytes = Inr (manifest, ?tree)"
    unfolding receive_artifact_export_def
    using one names total by (simp only: fold rd valid obs sizes dig Let_def rbind.simps prod.case ensure_True py_eq_JStr simp_thms)
  with al ls show ?thesis by (intro exI [of _ ?tree]) simp
qed

section \<open>Installation\<close>

lemma put_document_other: "dict_get k (put_document env name v es) = (if k = name then Some (RegularFile (json_document env v)) else dict_get k es)"
  by (simp add: put_document_def)

lemma artifact_directory_put: "name \<noteq> ''artifacts'' \<Longrightarrow> artifact_directory (put_document env name v es) = artifact_directory es"
  by (simp add: artifact_directory_def put_document_other)

text \<open>The manifest a directory of artifacts holds, as its file reads.\<close>

definition manifest_stored :: "json_reader \<Rightarrow> entries \<Rightarrow> jdict \<Rightarrow> bool" where
  "manifest_stored read tree manifest \<longleftrightarrow>
     (\<exists>bytes. dict_get ''artifact-manifest.json'' tree = Some (RegularFile bytes) \<and> read bytes = Inr (JObj manifest))"

lemma read_manifest_Inr:
  "read_manifest read what base name es = Inr v \<Longrightarrow> \<exists>bytes. dict_get name es = Some (RegularFile bytes) \<and> read bytes = Inr v"
  unfolding read_manifest_def
  by (cases "dict_get name es"; cases "the (dict_get name es)"; cases "read (case the (dict_get name es) of RegularFile bytes \<Rightarrow> bytes | _ \<Rightarrow> [])")
    (auto split: exn.splits)

lemma received_manifest_stored:
  assumes "receive_artifact_export env read workspace present stream max_bytes = Inr (manifest, tree)"
  shows "manifest_stored read tree manifest"
proof -
  obtain v rows where "read_manifest read ''artifact manifest'' workspace ''artifact-manifest.json'' tree = Inr v"
    "validate_artifact_manifest v max_bytes = Inr (manifest, rows)"
    using receive_export_Inr [OF assms] by blast
  with read_manifest_Inr validate_Inr show ?thesis unfolding manifest_stored_def by metis
qed

text \<open>A manifest and a route are of the same run, task and candidate, and of the same directory of the run if the route names one.\<close>

definition agrees_with_route :: "jdict \<Rightarrow> jdict \<Rightarrow> bool" where
  "agrees_with_route manifest route \<longleftrightarrow> (\<exists>loc remote run.
     dget ''locator'' route = JObj loc \<and> py_eq (dget ''run_id'' manifest) (dget ''run_id'' loc) \<and>
     py_eq (dget ''task_id'' manifest) (dget ''task_id'' route) \<and>
     py_eq (dget ''task_sha256'' manifest) (dget ''task_sha256'' route) \<and>
     py_eq (dget ''candidate_sha256'' manifest) (dget ''candidate_sha256'' route) \<and>
     dget ''remote'' route = JObj remote \<and> dget ''run'' remote = JObj run \<and>
     (dget ''run_dir'' run = JNull \<or> py_eq (dget ''run_dir'' manifest) (dget ''run_dir'' run)))"

lemma py_index_dget: "py_index k v = Inr x \<Longrightarrow> \<exists>d. v = JObj d \<and> dget k d = x"
  by (auto simp: py_index_def dindex_def dget_def split: json.splits option.splits)

lemma dindex_dget: "dindex k d = Inr x \<Longrightarrow> dget k d = x"
  by (simp add: dindex_def dget_def split: option.splits)

lemma route_agrees:
  assumes "route_identity route = Inr pairs" and "\<forall>(k, v) \<in> set pairs. py_eq (dget k manifest) v"
    and "check_route_run_dir route manifest = Inr ()"
  shows "agrees_with_route manifest route"
proof -
  from assms(1) obtain loc run_id tid task_sha256 candidate_sha256 where r: "dindex ''locator'' route = Inr loc"
    "py_index ''run_id'' loc = Inr run_id" "dindex ''task_id'' route = Inr tid" "dindex ''task_sha256'' route = Inr task_sha256"
    "dindex ''candidate_sha256'' route = Inr candidate_sha256"
    and pairs: "[(''run_id'', run_id), (''task_id'', tid), (''task_sha256'', task_sha256), (''candidate_sha256'', candidate_sha256)] = pairs"
    unfolding route_identity_def rbind_eq_Inr_iff sum.inject by blast
  from assms(2) have p: "py_eq (dget ''run_id'' manifest) run_id" "py_eq (dget ''task_id'' manifest) tid"
    "py_eq (dget ''task_sha256'' manifest) task_sha256" "py_eq (dget ''candidate_sha256'' manifest) candidate_sha256"
    unfolding pairs [symmetric] by simp_all
  from assms(3) obtain remote v run where d: "dindex ''remote'' route = Inr remote" "py_index ''run'' remote = Inr v"
    "as_dict v = Inr run" "dget ''run_dir'' run = JNull \<or> py_eq (dget ''run_dir'' manifest) (dget ''run_dir'' run)"
    unfolding check_route_run_dir_def rbind_eq_Inr_iff ensure_Inr by blast
  have "v = JObj run" using d(3) by (cases v) (auto simp: as_dict_def)
  with py_index_dget [OF r(2)] py_index_dget [OF d(2)] p d(4) r(3-5) [THEN dindex_dget] dindex_dget [OF r(1)] dindex_dget [OF d(1)]
  show ?thesis unfolding agrees_with_route_def by metis
qed

text \<open>The mirror record is of the route and of the run it is about.\<close>

definition records_route :: "jdict \<Rightarrow> jdict \<Rightarrow> bool" where
  "records_route mirror route \<longleftrightarrow> (\<exists>loc. dget ''locator'' route = JObj loc \<and>
     dget ''route_receipt_sha256'' mirror = dget ''route_receipt_sha256'' route \<and>
     dget ''locator'' mirror = JObj [(''node_id'', dget ''node_id'' loc), (''run_id'', dget ''run_id'' loc)])"

text \<open>An installed tree has the received directory and four documents.\<close>

definition installed_beside :: "py_env \<Rightarrow> entries \<Rightarrow> json \<Rightarrow> jdict \<Rightarrow> jdict \<Rightarrow> bool" where
  "installed_beside env tree catalog_raw route mirror \<longleftrightarrow>
     set (dict_keys tree) \<subseteq> {''artifact-manifest.json'', ''artifacts'', ''catalog.json'', ''route.json'', ''endpoint.json'', ''mirror.json''} \<and>
     dict_get ''catalog.json'' tree = Some (RegularFile (json_document env catalog_raw)) \<and>
     dict_get ''route.json'' tree = Some (RegularFile (json_document env (JObj route))) \<and>
     dict_get ''mirror.json'' tree = Some (RegularFile (json_document env (JObj mirror))) \<and>
     dict_has ''endpoint.json'' tree"

lemma dict_keys_put: "set (dict_keys (put_document env name v es)) = insert name (set (dict_keys es))"
  by (auto simp: put_document_def dict_keys_set)

lemma assemble_mirror_Inr:
  assumes "assemble_mirror env read staging stream catalog route max_bytes endpoint catalog_file now late destination = Inr (mirror, tree)"
  shows "\<exists>manifest catalog_raw. mirrors env max_bytes manifest (artifact_directory tree) \<and> manifest_stored read tree manifest \<and>
    agrees_with_route manifest route \<and> \<not> late \<and> catalog_file = Inr catalog_raw \<and> digest_json env catalog_raw = fc_digest catalog \<and>
    installed_beside env tree catalog_raw route mirror \<and> records_route mirror route"
proof -
  obtain manifest received pairs us receipt transport catalog_raw loc node_id run_id u where
    r: "receive_artifact_export env read staging [] stream max_bytes = Inr (manifest, received)"
    and p: "route_identity route = Inr pairs"
    and q: "rtraverse (\<lambda>(k, v). ensure (py_eq (dget k manifest) v)
              (''artifact manifest '' @ k @ '' disagrees with route'')) pairs = Inr us"
    and c: "check_route_run_dir route manifest = Inr u" and late: "\<not> late"
    and l: "dindex ''locator'' route = Inr loc" "py_index ''node_id'' loc = Inr node_id" "py_index ''run_id'' loc = Inr run_id"
      "dindex ''route_receipt_sha256'' route = Inr receipt"
    and k: "catalog_file = Inr catalog_raw" "digest_json env catalog_raw = fc_digest catalog"
    and m: "mirror = mirror_document now receipt node_id run_id"
    and t: "tree = put_document env ''mirror.json'' (JObj mirror) (put_document env ''endpoint.json'' (JObj transport)
       (put_document env ''route.json'' (JObj route) (put_document env ''catalog.json'' catalog_raw received)))"
    using assms unfolding assemble_mirror_def Let_def rbind_eq_Inr_iff sum.inject split_paired_Ex prod.case ensure_Inr
      prod.inject by blast
  have "\<forall>(k, v) \<in> set pairs. py_eq (dget k manifest) v"
    using q by (auto simp: rtraverse_eq_Inr_iff list_all2_conv_all_nth in_set_conv_nth split: prod.splits)
  with p c have a: "agrees_with_route manifest route" by (intro route_agrees) simp_all
  have d: "artifact_directory tree = artifact_directory received"
    "dict_get ''artifact-manifest.json'' tree = dict_get ''artifact-manifest.json'' received"
    by (simp_all add: t put_document_other artifact_directory_put)
  have s: "manifest_stored read tree manifest"
    using received_manifest_stored [OF r] unfolding manifest_stored_def d(2) .
  have b: "installed_beside env tree catalog_raw route mirror"
    unfolding installed_beside_def using received_mirrors [OF r]
    by (auto simp: t dict_keys_put put_document_other dict_has_get) (auto simp: dict_keys_def)
  have w: "records_route mirror route"
    using py_index_dget [OF l(2)] py_index_dget [OF l(3)] dindex_dget [OF l(1)] dindex_dget [OF l(4)]
    unfolding records_route_def m by (auto simp: mirror_document_def dget_def)
  show ?thesis
    using received_mirrors [OF r] s a late k b w unfolding d(1) by blast
qed

end
