(* ===== verification/Fleet_Artifacts_Claims.thy ===== *)
theory Fleet_Artifacts_Claims
  imports Fleet_Artifacts_Roundtrip
begin

text \<open>
  The properties of the artifact transport: export and reception are inverse, an installed
  mirror is bound to its route and to the manifest, and the identity of a set of files
  determines the files.
\<close>

section \<open>A concrete run\<close>

definition transfer_env :: py_env where
  "transfer_env = attest_env\<lparr>resolve_path := (\<lambda>p. if path_is_absolute p then p else ''/'' @ p)\<rparr>"

definition sample_terminal_run :: jdict where
  "sample_terminal_run = [(''state'', JStr ''completed''), (''run_id'', JStr ''r1''), (''task_id'', JStr ''gemm''),
     (''task_sha256'', JStr zeros), (''candidate_sha256'', JStr zeros), (''terminal_at'', JStr ''now''), (''run_dir'', JStr ''/run'')]"

definition sample_run_tree :: entries where
  "sample_run_tree = [(''stages'', Directory [(''log'', RegularFile [3]), (''empty'', Directory [])]), (''result'', RegularFile [1, 2])]"

definition sample_lookup :: "string \<Rightarrow> node option" where
  "sample_lookup p = (if p = ''/run'' then Some (Directory sample_run_tree) else None)"

definition sample_files :: "(string \<times> nat list) list" where
  "sample_files = [(''result'', [1, 2]), (''stages/log'', [3])]"

definition sample_manifest :: jdict where
  "sample_manifest = export_document transfer_env sample_terminal_run sample_files"

definition sample_members :: "tar_member list" where
  "sample_members = regular_member ''artifact-manifest.json'' (json_document transfer_env (JObj sample_manifest)) #
     map (\<lambda>(relative, bytes). regular_member (''artifacts/'' @ relative) bytes) sample_files"

definition sample_reader :: json_reader where
  "sample_reader bytes = Inr (JObj sample_manifest)"

definition mirrored_locator :: json where
  "mirrored_locator = JObj [(''node_id'', JStr ''n1''), (''run_id'', JStr ''r1'')]"

definition mirrored_route :: jdict where
  "mirrored_route = [(''locator'', mirrored_locator), (''task_id'', JStr ''gemm''), (''task_sha256'', JStr zeros),
     (''candidate_sha256'', JStr zeros), (''remote'', JObj [(''run'', JObj [])]), (''route_receipt_sha256'', JStr zeros)]"

definition route_catalog :: fleet_catalog where
  "route_catalog = \<lparr>fc_nodes = [], fc_connect_timeout_s = Fin 8, fc_command_timeout_s = Fin 30, fc_source_path = ''/f'',
     fc_digest = zeros\<rparr>"

lemma sample_run_facts:
  "run_directory transfer_env sample_terminal_run = ''/run''"
  "wf_entries sample_run_tree" "named sample_run_tree" "checkable_run sample_terminal_run"
  by code_simp+

lemma sample_walk: "rfold (export_level ''/run'' 100) [] (walk_levels sample_run_tree) = Inr sample_files"
  by code_simp

lemma sample_export_ok:
  "write_artifact_export transfer_env sample_lookup sample_terminal_run 100 = Inr (sample_manifest, sample_members)"
proof -
  have "resolve_path transfer_env (expanduser transfer_env (pure_path (py_str (float_text transfer_env)
      (dget_or ''run_dir'' (JStr []) sample_terminal_run)))) = ''/run''"
    and s: "expanduser transfer_env (pure_path (py_str (float_text transfer_env) (dget_or ''run_dir'' (JStr []) sample_terminal_run))) = ''/run''"
    by code_simp+
  then have d: "resolve_path transfer_env ''/run'' = ''/run''" by simp
  have t: "hashed_in terminal_names (dget ''state'' sample_terminal_run) = Inr True" by code_simp
  have "build_artifact_manifest transfer_env sample_lookup sample_terminal_run 100 = Inr (sample_manifest, sample_files)"
    unfolding build_artifact_manifest_def Let_def s d t
    by (simp add: sample_walk sample_lookup_def)
      (simp add: sample_manifest_def export_document_def file_rows_def sample_run_facts(1) [unfolded sample_terminal_run_def]
        dindex_def dget_def sample_terminal_run_def)
  then show ?thesis by (simp add: write_artifact_export_def sample_members_def)
qed

lemma sample_terminal_fields:
  "dget ''terminal_at'' sample_terminal_run = JStr ''now''" "dget ''run_id'' sample_terminal_run = JStr ''r1''"
  "dget ''task_id'' sample_terminal_run = JStr ''gemm''" "dget ''task_sha256'' sample_terminal_run = JStr zeros"
  "dget ''candidate_sha256'' sample_terminal_run = JStr zeros" "dget ''state'' sample_terminal_run = JStr ''completed''"
  by (simp_all add: sample_terminal_run_def dget_def)

lemma sample_export_small:
  "length (json_document transfer_env (JObj sample_manifest)) \<le> MAX_ARTIFACT_MANIFEST_BYTES"
proof -
  have l: "length (utf8 s) \<le> 2 * length s" for s
    by (induction s) (simp_all add: utf8_def utf8_char_def Let_def)
  have z: "length (concat (map json_escape zeros)) = 64" by code_simp
  have d: "artifact_set_sha256 transfer_env files = zeros" for files
    by (simp add: artifact_set_sha256_def transfer_env_def attest_env_def)
  have "length (json_pretty (float_text transfer_env) (JObj sample_manifest) 0) \<le> 1200"
    by (simp add: sample_manifest_def export_document_def file_rows_def sample_files_def json_block_def new_line_def
        json_quote_def z json_escape_def sample_terminal_fields ARTIFACT_MANIFEST_SCHEMA_def d sample_run_facts(1)
        int_text_def nat_text.simps)
  with l [of "json_pretty (float_text transfer_env) (JObj sample_manifest) 0 @ [CHR 0x0A]"] show ?thesis
    by (simp add: MAX_ARTIFACT_MANIFEST_BYTES_def json_document_def)
qed

lemma transfer_env_ok: "transport_env transfer_env"
proof -
  have "hex_value 64 (JStr zeros)" by code_simp
  then show ?thesis
    by (auto simp: transport_env_def transfer_env_def attest_env_def path_is_absolute_def has_prefix_def)
qed

section \<open>Properties\<close>

text \<open>C35: What a node exports for a terminal run is accepted by the receiver, which keeps the
  manifest and holds exactly the files of the run directory, path by path and byte by byte,
  whatever the shape of the directory.\<close>

theorem artifact_export_roundtrip:
  assumes "write_artifact_export env lookup d max_bytes = Inr (manifest, members)"
    and "lookup (run_directory env d) = Some (Directory es)" and "wf_entries es" and "named es"
    and "checkable_run d" and "transport_env env"
    and "length (json_document env (JObj manifest)) \<le> MAX_ARTIFACT_MANIFEST_BYTES"
    and "read (json_document env (JObj manifest)) = Inr (JObj manifest)"
  shows "\<exists>tree. receive_artifact_export env read workspace [] (map Inr members) max_bytes = Inr (manifest, tree) \<and>
    mset (leaves (artifact_directory tree)) = mset (leaves es)"
  using assms by (rule export_received)

theorem artifact_export_roundtrip_witness:
  "\<exists>tree. receive_artifact_export transfer_env sample_reader ''/w'' [] (map Inr sample_members) 100 = Inr (sample_manifest, tree) \<and>
    mset (leaves (artifact_directory tree)) = {#([''result''], RegularFile [1, 2]), ([''stages'', ''log''], RegularFile [3])#}"
proof -
  have e: "write_artifact_export transfer_env sample_lookup sample_terminal_run 100 = Inr (sample_manifest, sample_members)"
    using sample_export_ok by simp
  have l: "sample_lookup (run_directory transfer_env sample_terminal_run) = Some (Directory sample_run_tree)"
    by (simp add: sample_run_facts sample_lookup_def)
  have r: "sample_reader (json_document transfer_env (JObj sample_manifest)) = Inr (JObj sample_manifest)"
    by (simp add: sample_reader_def)
  have m: "mset (leaves sample_run_tree) = {#([''result''], RegularFile [1, 2]), ([''stages'', ''log''], RegularFile [3])#}"
    by (simp add: leaves_eq sample_run_tree_def)
  show ?thesis
    using artifact_export_roundtrip [where read = sample_reader and workspace = "''/w''", OF e l sample_run_facts(2-4) transfer_env_ok sample_export_small r]
    unfolding m .
qed

text \<open>C36: Installing a mirror either fails and leaves the destination's directory as it was, or
  adds one new entry: its manifest file reads as a manifest that lists exactly the artifacts
  beside it, with their sizes and their identity, inside the directory and within the byte limit,
  and that agrees with the route on run, task, candidate and run directory; the catalog is the one
  the route was resolved against, the files beside are the route and the mirror record, and the
  record names the receipt, the node and the run of the route.\<close>

theorem installed_mirror_bound:
  "case install_artifact_mirror env read destination staging stream catalog route max_bytes endpoint catalog_file now late siblings of
     (Inl e, after) \<Rightarrow> after = siblings
   | (Inr mirror, after) \<Rightarrow>
       \<exists>tree manifest catalog_raw. after = siblings @ [(path_name destination, Directory tree)] \<and>
         \<not> dict_has (path_name destination) siblings \<and>
         manifest_stored read tree manifest \<and> mirrors env max_bytes manifest (artifact_directory tree) \<and>
         agrees_with_route manifest route \<and>
         catalog_file = Inr catalog_raw \<and> digest_json env catalog_raw = fc_digest catalog \<and>
         installed_beside env tree catalog_raw route mirror \<and> records_route mirror route"
proof (cases "dict_has (path_name destination) siblings")
  case False
  show ?thesis
  proof (cases "assemble_mirror env read staging stream catalog route max_bytes endpoint catalog_file now late destination")
    case (Inr mt)
    obtain mirror tree where mt: "mt = (mirror, tree)" by (cases mt)
    from assemble_mirror_Inr [OF Inr [unfolded mt]] show ?thesis
      unfolding install_artifact_mirror_def Let_def Inr mt using False by simp blast
  qed (simp add: install_artifact_mirror_def False)
qed (simp add: install_artifact_mirror_def)

lemma sample_mirror_installed:
  "\<exists>mirror tree. install_artifact_mirror transfer_env sample_reader ''/m/r1'' ''/m/s'' (map Inr sample_members) route_catalog
     mirrored_route 100 (Some []) (Inr JNull) ''now'' False [] = (Inr mirror, [(''r1'', Directory tree)])"
proof -
  have e: "write_artifact_export transfer_env sample_lookup sample_terminal_run 100 = Inr (sample_manifest, sample_members)"
    using sample_export_ok by simp
  have l: "sample_lookup (run_directory transfer_env sample_terminal_run) = Some (Directory sample_run_tree)"
    by (simp add: sample_run_facts sample_lookup_def)
  have r: "sample_reader (json_document transfer_env (JObj sample_manifest)) = Inr (JObj sample_manifest)"
    by (simp add: sample_reader_def)
  obtain tree where tree: "receive_artifact_export transfer_env sample_reader ''/m/s'' [] (map Inr sample_members) 100 =
      Inr (sample_manifest, tree)"
    using export_received [where read = sample_reader and workspace = "''/m/s''",
        OF e l sample_run_facts(2-4) transfer_env_ok sample_export_small r] by blast
  have n: "path_name ''/m/r1'' = ''r1''" by code_simp
  have i: "route_identity mirrored_route = Inr [(''run_id'', JStr ''r1''), (''task_id'', JStr ''gemm''), (''task_sha256'', JStr zeros),
      (''candidate_sha256'', JStr zeros)]" "dindex ''locator'' mirrored_route = Inr mirrored_locator"
    "py_index ''node_id'' mirrored_locator = Inr (JStr ''n1'')" "py_index ''run_id'' mirrored_locator = Inr (JStr ''r1'')"
    "dindex ''route_receipt_sha256'' mirrored_route = Inr (JStr zeros)"
    by (simp_all add: route_identity_def mirrored_route_def mirrored_locator_def dindex_def py_index_def)
  have f: "dget ''run_id'' sample_manifest = JStr ''r1''" "dget ''task_id'' sample_manifest = JStr ''gemm''"
    "dget ''task_sha256'' sample_manifest = JStr zeros" "dget ''candidate_sha256'' sample_manifest = JStr zeros"
    by (simp_all add: sample_manifest_def export_document_def dget_def sample_terminal_run_def)
  have c: "check_route_run_dir mirrored_route sample_manifest = Inr ()"
    by (simp add: check_route_run_dir_def mirrored_route_def dindex_def py_index_def as_dict_def dget_def)
  have d: "digest_json transfer_env v = fc_digest route_catalog" for v
    by (simp add: digest_json_def transfer_env_def attest_env_def route_catalog_def)
  show ?thesis
    by (simp add: install_artifact_mirror_def assemble_mirror_def n tree i f c d mirror_endpoint_def Let_def dict_has_def)
qed

theorem installed_mirror_bound_witness:
  "\<exists>mirror tree manifest. install_artifact_mirror transfer_env sample_reader ''/m/r1'' ''/m/s'' (map Inr sample_members) route_catalog
       mirrored_route 100 (Some []) (Inr JNull) ''now'' False [] = (Inr mirror, [(''r1'', Directory tree)]) \<and>
     manifest_stored sample_reader tree manifest \<and> agrees_with_route manifest mirrored_route"
proof -
  obtain mirror tree where m: "install_artifact_mirror transfer_env sample_reader ''/m/r1'' ''/m/s'' (map Inr sample_members) route_catalog
     mirrored_route 100 (Some []) (Inr JNull) ''now'' False [] = (Inr mirror, [(''r1'', Directory tree)])"
    using sample_mirror_installed by blast
  from installed_mirror_bound [where env = transfer_env and read = sample_reader and destination = "''/m/r1''" and staging = "''/m/s''"
      and stream = "map Inr sample_members" and catalog = route_catalog and route = mirrored_route and max_bytes = 100
      and endpoint = "Some []" and catalog_file = "Inr JNull" and now = "''now''" and late = False and siblings = "[]"]
  obtain manifest where "manifest_stored sample_reader tree manifest" "agrees_with_route manifest mirrored_route"
    unfolding m prod.case sum.case by auto
  with m show ?thesis by blast
qed

text \<open>C37: The identity of an artifact set determines the set: equal streams under the hash
  come from the same paths with the same bytes.  Unlike the digest of a candidate, it frames
  the contents.\<close>

theorem artifact_set_identifies_files:
  assumes "artifact_set_stream fs = artifact_set_stream gs"
    and "list_all frameable fs" and "list_all frameable gs"
  shows "mset fs = mset gs"
  using assms by (rule artifact_set_stream_inj)

theorem artifact_set_identifies_files_witness:
  "mset [(''a'', [1, 2]), (''b'', [3])] = mset [(''b'', [3]), (''a'', [1 :: nat, 2])]"
  using artifact_set_identifies_files [of "[(''a'', [1, 2]), (''b'', [3])]" "[(''b'', [3]), (''a'', [1, 2])]"]
  by (simp add: artifact_set_stream_def frameable_def utf8_def utf8_char_def Let_def)

end
