(* ===== verification/Fleet_Bundle.thy ===== *)
theory Fleet_Bundle
  imports Fleet_Artifacts
begin

text \<open>
  \<open>src/kernel_infra/fleet.py\<close>: the bundle of a task and a candidate, its content address, and
  its reception in the inbox of a node.
\<close>

definition BUNDLE_SCHEMA :: string where
  "BUNDLE_SCHEMA = ''kernelinfra.fleet-bundle.v1''"

definition MAX_BUNDLE_BYTES :: nat where
  "MAX_BUNDLE_BYTES = 256 * 1024 * 1024"

section \<open>Creation\<close>

text \<open>Every judge runs in a directory named absolutely, so that the task means the same elsewhere.\<close>

definition relocatable_stage :: "nat \<times> json \<Rightarrow> unit result" where
  "relocatable_stage item =
     (let message = ''fleet task stage '' @ nat_text (fst item) @ '' judge.cwd must be an absolute remote path'' in
      case snd item of
        JObj stage \<Rightarrow>
          rbind (as_dict (dget_or ''judge'' (JObj []) stage)) (\<lambda>judge.
          contract (absolute_value (dget ''cwd'' judge)) message)
      | _ \<Rightarrow> Inl (ContractError message))"

definition fleet_task_is_relocatable :: "json \<Rightarrow> unit result" where
  "fleet_task_is_relocatable raw =
     rbind (py_index ''stages'' raw) (\<lambda>stages.
     rbind (py_iter stages) (\<lambda>items.
     rbind (rtraverse relocatable_stage (List.enumerate 0 items)) (\<lambda>_. Inr ())))"

text \<open>\<open>json.dumps\<close> of the identity: its two values are hexadecimal, so escaping makes no difference.\<close>

definition bundle_address :: "py_env \<Rightarrow> string \<Rightarrow> string \<Rightarrow> string" where
  "bundle_address env task_sha256 candidate_sha256 =
     take 32 (digest_json env (JObj [(''task_sha256'', JStr task_sha256), (''candidate_sha256'', JStr candidate_sha256)]))"

definition bundle_manifest :: "py_env \<Rightarrow> task_spec \<Rightarrow> string \<Rightarrow> jdict" where
  "bundle_manifest env task candidate_sha256 =
     [(''schema'', JStr BUNDLE_SCHEMA), (''bundle_id'', JStr (bundle_address env (task_digest task) candidate_sha256)),
      (''task_id'', JStr (task_id task)), (''task_sha256'', JStr (task_digest task)),
      (''candidate_sha256'', JStr candidate_sha256)]"

text \<open>The members \<open>tarfile.add\<close> makes of the paths below a directory, sorted.\<close>

fun node_members :: "string list \<Rightarrow> string \<times> node \<Rightarrow> (string list \<times> member_kind \<times> nat list) list" where
  "node_members prefix (name, Directory es) =
     (prefix @ [name], DirectoryMember, []) # concat (map (node_members (prefix @ [name])) es)"
| "node_members prefix (name, RegularFile bytes) = [(prefix @ [name], RegularMember, bytes)]"
| "node_members prefix (name, n) = [(prefix @ [name], OtherMember, [])]"

definition archive_members :: "entries \<Rightarrow> tar_member list" where
  "archive_members es =
     map (\<lambda>(path, kind, bytes). \<lparr>tm_name = posix_path path, tm_kind = kind, tm_bytes = bytes\<rparr>)
       (sort_key fst (concat (map (node_members []) es)))"

definition bundle_payload :: "py_env \<Rightarrow> task_spec \<Rightarrow> entries \<Rightarrow> jdict \<Rightarrow> entries" where
  "bundle_payload env task candidate manifest =
     [(''task.json'', RegularFile (json_document env (task_raw task))), (''candidate'', Directory candidate),
      (''manifest.json'', RegularFile (json_document env (JObj manifest)))]"

definition create_fleet_bundle ::
  "py_env \<Rightarrow> json_file \<Rightarrow> string \<Rightarrow> string \<Rightarrow> node option \<Rightarrow> string
     \<Rightarrow> (task_spec \<times> jdict \<times> tar_member list) result" where
  "create_fleet_bundle env task_content task_path source content workspace =
     rbind (load_task env task_content task_path) (\<lambda>task.
     rbind (fleet_task_is_relocatable (task_raw task)) (\<lambda>_.
     rbind (snapshot_candidate env source content (path_join workspace ''payload/candidate'')) (\<lambda>(candidate, candidate_sha256).
     let manifest = bundle_manifest env task candidate_sha256 in
     Inr (task, manifest, archive_members (bundle_payload env task candidate manifest)))))"

section \<open>Reception\<close>

definition safe_archive_path :: "string \<Rightarrow> string list result" where
  "safe_archive_path name =
     (let parts = path_components name in
      if unsafe_path name then Inl (RuntimeError (''unsafe fleet archive path: '' @ repr_str name))
      else if hd parts \<notin> {''manifest.json'', ''task.json'', ''candidate''}
      then Inl (RuntimeError (''unexpected fleet archive path: '' @ repr_str name))
      else if hd parts \<in> {''manifest.json'', ''task.json''} \<and> length parts \<noteq> 1
      then Inl (RuntimeError (''invalid fleet archive root file: '' @ repr_str name))
      else Inr parts)"

record bundle_intake =
  bi_seen :: "string list"
  bi_total :: nat
  bi_tree :: entries

definition bundle_member :: "bundle_intake \<Rightarrow> tar_member result \<Rightarrow> bundle_intake result" where
  "bundle_member intake item =
     rbind item (\<lambda>member.
     rbind (safe_archive_path (tm_name member)) (\<lambda>parts.
     let normalized = posix_path parts in
     rbind (ensure (normalized \<notin> set (bi_seen intake)) (''duplicate fleet archive path: '' @ normalized)) (\<lambda>_.
     let seen = normalized # bi_seen intake in
     if tm_kind member = DirectoryMember
     then rbind (make_directory parts (bi_tree intake)) (\<lambda>tree. Inr (intake\<lparr>bi_seen := seen, bi_tree := tree\<rparr>))
     else
     rbind (ensure (tm_kind member = RegularMember) (''fleet archive contains non-file: '' @ normalized)) (\<lambda>_.
     let total = bi_total intake + length (tm_bytes member) in
     rbind (ensure (total \<le> MAX_BUNDLE_BYTES) ''fleet bundle exceeds maximum extracted bytes'') (\<lambda>_.
     rbind (put_file parts (tm_bytes member) (bi_tree intake)) (\<lambda>tree.
     Inr \<lparr>bi_seen = seen, bi_total = total, bi_tree = tree\<rparr>))))))"

definition is_bundle_id :: "string \<Rightarrow> bool" where
  "is_bundle_id s \<longleftrightarrow> length s = 32 \<and> list_all lower_hex s"

text \<open>\<open>load_task\<close> of a file of a directory; bytes that are not UTF-8 raise before the contract is read.\<close>

definition load_task_file :: "py_env \<Rightarrow> json_reader \<Rightarrow> string \<Rightarrow> entries \<Rightarrow> task_spec result" where
  "load_task_file env read base es =
     (let path = path_join base ''task.json'' in
      case dict_get ''task.json'' es of
        None \<Rightarrow> load_task env FileMissing path
      | Some (RegularFile bytes) \<Rightarrow>
          (case read bytes of
             Inr v \<Rightarrow> load_task env (FileParsed v) path
           | Inl (JSONDecodeError e) \<Rightarrow> load_task env (FileMalformed e) path
           | Inl e \<Rightarrow> Inl e)
      | Some _ \<Rightarrow> Inl (OSError ''Is a directory''))"

definition BUNDLE_FIELDS :: "string list" where
  "BUNDLE_FIELDS = [''schema'', ''bundle_id'', ''task_id'', ''task_sha256'', ''candidate_sha256'']"

text \<open>The checks of an extracted bundle: its manifest, the digest of its task and that of its candidate.\<close>

definition check_bundle :: "py_env \<Rightarrow> json_reader \<Rightarrow> string \<Rightarrow> string \<Rightarrow> entries \<Rightarrow> (jdict \<times> task_spec \<times> string) result" where
  "check_bundle env read staging expected tree =
     rbind (read_manifest read ''fleet bundle manifest'' staging ''manifest.json'' tree) (\<lambda>v.
     rbind (case v of JObj d \<Rightarrow> if same_keys d BUNDLE_FIELDS then Inr d
                        else Inl (RuntimeError ''fleet bundle manifest has invalid fields'')
            | _ \<Rightarrow> Inl (RuntimeError ''fleet bundle manifest has invalid fields'')) (\<lambda>manifest.
     rbind (ensure (py_eq (dget ''schema'' manifest) (JStr BUNDLE_SCHEMA)) ''fleet bundle manifest schema drift'') (\<lambda>_.
     rbind (ensure (py_eq (dget ''bundle_id'' manifest) (JStr expected)) ''fleet bundle id disagrees with expected id'') (\<lambda>_.
     rbind (load_task_file env read staging tree) (\<lambda>task.
     rbind (case dict_get ''candidate'' tree of Some (Directory es) \<Rightarrow> Inr es
            | _ \<Rightarrow> Inl (RuntimeError ''fleet bundle candidate directory is missing'')) (\<lambda>es.
     rbind (hash_snapshot env (path_join staging ''candidate'') es) (\<lambda>candidate_sha256.
     rbind (ensure (py_eq (JStr (task_digest task)) (dget ''task_sha256'' manifest)) ''fleet bundle task digest drift'') (\<lambda>_.
     rbind (ensure (py_eq (JStr (task_id task)) (dget ''task_id'' manifest)) ''fleet bundle task id drift'') (\<lambda>_.
     rbind (ensure (py_eq (JStr candidate_sha256) (dget ''candidate_sha256'' manifest)) ''fleet bundle candidate digest drift'') (\<lambda>_.
     rbind (ensure (bundle_address env (task_digest task) candidate_sha256 = expected)
              ''fleet bundle content address drift'') (\<lambda>_.
     Inr (manifest, task, candidate_sha256))))))))))))"

text \<open>A bundle already present under the address is compared with the one received.\<close>

definition check_existing :: "py_env \<Rightarrow> json_reader \<Rightarrow> string \<Rightarrow> entries \<Rightarrow> jdict \<Rightarrow> task_spec \<Rightarrow> string \<Rightarrow> unit result" where
  "check_existing env read target es manifest task candidate_sha256 =
     rbind (case dict_get ''manifest.json'' es of
              Some (RegularFile bytes) \<Rightarrow> read bytes
            | None \<Rightarrow> Inl (OSError ''No such file or directory'')
            | _ \<Rightarrow> Inl (OSError ''Is a directory'')) (\<lambda>existing.
     rbind (ensure (py_eq existing (JObj manifest)) ''existing fleet bundle manifest disagrees'') (\<lambda>_.
     rbind (load_task_file env read target es) (\<lambda>existing_task.
     rbind (ensure (task_digest existing_task = task_digest task) ''existing fleet bundle content drift'') (\<lambda>_.
     rbind (hash_snapshot env (path_join target ''candidate'')
              (case dict_get ''candidate'' es of Some (Directory c) \<Rightarrow> c | _ \<Rightarrow> [])) (\<lambda>existing_sha256.
     ensure (existing_sha256 = candidate_sha256) ''existing fleet bundle content drift'')))))"

text \<open>
  \<open>inbox\<close> is the content of the directory \<open>root\<close>; the staging directory made in it is
  renamed to the address of the bundle or removed.  The result tells whether the bundle was
  already there.
\<close>

definition receive_fleet_bundle ::
  "py_env \<Rightarrow> json_reader \<Rightarrow> string \<Rightarrow> string \<Rightarrow> entries \<Rightarrow> tar_stream \<Rightarrow> string
     \<Rightarrow> (jdict \<times> bool) result \<times> entries" where
  "receive_fleet_bundle env read root_dir staging inbox stream expected =
     (let target = path_join root_dir expected in
      case rbind (ensure (is_bundle_id expected) ''invalid expected fleet bundle id'') (\<lambda>_.
           rbind (rfold bundle_member \<lparr>bi_seen = [], bi_total = 0, bi_tree = []\<rparr> stream) (\<lambda>intake.
           rbind (check_bundle env read (path_join root_dir staging) expected (bi_tree intake)) (\<lambda>(manifest, task, candidate_sha256).
           Inr (bi_tree intake, manifest, task, candidate_sha256)))) of
        Inl e \<Rightarrow> (Inl e, inbox)
      | Inr (tree, manifest, task, candidate_sha256) \<Rightarrow>
          (case dict_get expected inbox of
             None \<Rightarrow> (Inr (manifest, False), inbox @ [(expected, Directory tree)])
           | Some (Directory es) \<Rightarrow>
               (rbind (check_existing env read target es manifest task candidate_sha256) (\<lambda>_. Inr (manifest, True)), inbox)
           | Some _ \<Rightarrow> (Inl (OSError ''Not a directory''), inbox)))"

end
