(* ===== verification/Fleet_Bundle_Facts.thy ===== *)
theory Fleet_Bundle_Facts
  imports Fleet_Bundle Fleet_Artifacts_Transfer
begin

text \<open>
  What a node keeps of a received bundle is bound to the address it is stored under, stays
  inside its directory and within the byte limit; otherwise the inbox is as it was.
\<close>

section \<open>Directories\<close>

lemma make_directory_leaves:
  "make_directory parts es = Inr es' \<Longrightarrow> mset (leaves_below pre es') = mset (leaves_below pre es)"
proof (induction parts es arbitrary: es' pre rule: make_directory.induct)
  case (2 name rest es)
  show ?case
  proof (cases "dict_get name es")
    case None
    with "2.prems" obtain sub where "make_directory rest [] = Inr sub" "es' = es @ [(name, Directory sub)]" by auto
    with "2.IH"(1) [OF None, of sub "pre @ [name]"] show ?thesis by simp
  next
    case (Some n)
    with "2.prems" obtain sub where n: "n = Directory sub" by (cases n) auto
    with "2.prems" Some obtain sub' where s: "make_directory rest sub = Inr sub'" "es' = dict_set name (Directory sub') es" by auto
    obtain xs ys where es: "es = xs @ (name, n) # ys" and up: "\<And>w. dict_set name w es = xs @ (name, w) # ys"
      using dict_get_split [OF Some] by blast
    from "2.IH"(2) [OF Some n s(1), of "pre @ [name]"] show ?thesis by (simp add: s(2) up) (simp add: es n)
  qed
qed simp

lemma make_directory_wf: "make_directory parts es = Inr es' \<Longrightarrow> wf_entries es \<Longrightarrow> wf_entries es'"
proof (induction parts es arbitrary: es' rule: make_directory.induct)
  case (2 name rest es)
  show ?case
  proof (cases "dict_get name es")
    case None
    with "2.prems"(1) obtain sub where s: "make_directory rest [] = Inr sub" "es' = es @ [(name, Directory sub)]" by auto
    have "wf_entries sub" using s(1) by (rule "2.IH"(1) [OF None]) (simp add: wf_entries_def)
    with None s(2) "2.prems"(2) show ?thesis
      by (auto simp: wf_entries_simps dict_get_def map_of_eq_None_iff list_all_iff)
  next
    case (Some n)
    with "2.prems" obtain sub where n: "n = Directory sub" by (cases n) auto
    with "2.prems" Some obtain sub' where s: "make_directory rest sub = Inr sub'" "es' = dict_set name (Directory sub') es" by auto
    obtain xs ys where es: "es = xs @ (name, n) # ys" and up: "\<And>w. dict_set name w es = xs @ (name, w) # ys"
      using dict_get_split [OF Some] by blast
    have "wf_entries sub" using "2.prems"(2) es n by (simp add: wf_entries_simps list_all_iff split_beta)
    from "2.IH"(2) [OF Some n s(1) this] have "wf_entries sub'" .
    moreover have "es' = xs @ (name, Directory sub') # ys" using s(2) up by simp
    ultimately show ?thesis using "2.prems"(2) es by (simp add: wf_entries_simps list_all_iff split_beta)
  qed
qed simp

lemma make_directory_names:
  "make_directory parts es = Inr es' \<Longrightarrow> parts \<noteq> [] \<Longrightarrow> set (map fst es') = insert (hd parts) (set (map fst es))"
proof (cases parts)
  case (Cons name rest)
  assume m: "make_directory parts es = Inr es'"
  show ?thesis
  proof (cases "dict_get name es")
    case None
    with m Cons show ?thesis by auto
  next
    case (Some n)
    with m Cons obtain sub where n: "n = Directory sub" by (cases n) auto
    with m Cons Some obtain sub' where s: "es' = dict_set name (Directory sub') es" by auto
    obtain xs ys where es: "es = xs @ (name, n) # ys" and up: "\<And>w. dict_set name w es = xs @ (name, w) # ys"
      using dict_get_split [OF Some] by blast
    show ?thesis unfolding s up using es Cons by auto
  qed
qed simp

section \<open>The extracted tree\<close>

definition bundle_names :: "string set" where
  "bundle_names = {''manifest.json'', ''task.json'', ''candidate''}"

definition tree_bytes :: "entries \<Rightarrow> nat" where
  "tree_bytes es = sum_list (map (length \<circ> node_bytes \<circ> snd) (leaves es))"

definition safe_leaf :: "string list \<times> node \<Rightarrow> bool" where
  "safe_leaf l \<longleftrightarrow> safe_parts_list (fst l) \<and> regular (snd l)"

definition bundle_holds :: "bundle_intake \<Rightarrow> bool" where
  "bundle_holds intake \<longleftrightarrow>
     wf_entries (bi_tree intake) \<and> set (map fst (bi_tree intake)) \<subseteq> bundle_names \<and>
     (\<forall>l \<in> set (leaves (bi_tree intake)). safe_leaf l) \<and>
     tree_bytes (bi_tree intake) = bi_total intake \<and> bi_total intake \<le> MAX_BUNDLE_BYTES"

lemma safe_archive_path_Inr:
  assumes "safe_archive_path name = Inr parts"
  shows "safe_parts_list parts \<and> hd parts \<in> bundle_names"
proof -
  from assms have "\<not> unsafe_path name" "parts = path_components name" "hd parts \<in> bundle_names"
    by (auto simp: safe_archive_path_def Let_def bundle_names_def split: if_splits)
  with safe_parts [of name] show ?thesis by (simp add: safe_parts_list_def)
qed

lemma tree_bytes_mset: "mset (leaves es) = mset (leaves es') \<Longrightarrow> tree_bytes es = tree_bytes es'"
  unfolding tree_bytes_def by (simp only: sum_mset_sum_list [symmetric] mset_map)

lemma bundle_member_cases:
  assumes "bundle_member intake item = Inr intake'"
  obtains (directory) parts tree where "safe_parts_list parts" "hd parts \<in> bundle_names"
      "make_directory parts (bi_tree intake) = Inr tree" "bi_tree intake' = tree" "bi_total intake' = bi_total intake"
  | (plain) parts bytes tree where "safe_parts_list parts" "hd parts \<in> bundle_names"
      "put_file parts bytes (bi_tree intake) = Inr tree" "bi_tree intake' = tree"
      "bi_total intake' = bi_total intake + length bytes" "bi_total intake + length bytes \<le> MAX_BUNDLE_BYTES"
proof -
  obtain member parts where item: "item = Inr member" and p: "safe_archive_path (tm_name member) = Inr parts"
    using assms unfolding bundle_member_def rbind_eq_Inr_iff by blast
  note s = safe_archive_path_Inr [OF p]
  show ?thesis
  proof (cases "tm_kind member = DirectoryMember")
    case True
    with assms obtain tree where "make_directory parts (bi_tree intake) = Inr tree"
      "intake' = intake\<lparr>bi_seen := posix_path parts # bi_seen intake, bi_tree := tree\<rparr>"
      by (auto simp: bundle_member_def item p Let_def)
    with s show ?thesis by (intro directory [of parts tree]) simp_all
  next
    case False
    with assms obtain tree where "put_file parts (tm_bytes member) (bi_tree intake) = Inr tree"
      "bi_total intake + length (tm_bytes member) \<le> MAX_BUNDLE_BYTES"
      "intake' = \<lparr>bi_seen = posix_path parts # bi_seen intake, bi_total = bi_total intake + length (tm_bytes member), bi_tree = tree\<rparr>"
      by (auto simp: bundle_member_def item p Let_def)
    with s show ?thesis by (intro plain [of parts "tm_bytes member" tree]) simp_all
  qed
qed

lemma bundle_member_holds:
  assumes "bundle_member intake item = Inr intake'" and h: "bundle_holds intake"
  shows "bundle_holds intake'"
  using assms(1)
proof (cases rule: bundle_member_cases)
  case (directory parts tree)
  have l: "mset (leaves tree) = mset (leaves (bi_tree intake))"
    using make_directory_leaves [OF directory(3), of "[]"] by (simp add: leaves_eq)
  then have "set (leaves tree) = set (leaves (bi_tree intake))" by (metis set_mset_mset)
  moreover have "set (map fst tree) = insert (hd parts) (set (map fst (bi_tree intake)))"
    using directory(1) by (intro make_directory_names [OF directory(3)]) (simp add: safe_parts_list_def)
  moreover have "wf_entries tree" using h by (intro make_directory_wf [OF directory(3)]) (simp add: bundle_holds_def)
  moreover note tree_bytes_mset [OF l]
  ultimately show ?thesis using h directory unfolding bundle_holds_def by simp
next
  case (plain parts bytes tree)
  have l: "mset (leaves tree) = add_mset (parts, RegularFile bytes) (mset (leaves (bi_tree intake)))"
    using put_file_leaves [OF plain(3), of "[]"] by (simp add: leaves_eq)
  then have "set (leaves tree) = insert (parts, RegularFile bytes) (set (leaves (bi_tree intake)))"
    by (metis set_mset_add_mset_insert set_mset_mset)
  moreover have "safe_leaf (parts, RegularFile bytes)" using plain(1) by (simp add: safe_leaf_def regular_def)
  moreover have "set (map fst tree) = insert (hd parts) (set (map fst (bi_tree intake)))"
    using plain(3) by (rule put_file_names)
  moreover have "wf_entries tree" using h by (intro put_file_wf [OF plain(3)]) (simp add: bundle_holds_def)
  moreover have "tree_bytes tree = tree_bytes (bi_tree intake) + length bytes"
    unfolding tree_bytes_def by (simp only: sum_mset_sum_list [symmetric] mset_map l) simp
  ultimately show ?thesis using h plain unfolding bundle_holds_def by simp
qed

lemma bundle_stream_holds:
  assumes "rfold bundle_member \<lparr>bi_seen = [], bi_total = 0, bi_tree = []\<rparr> stream = Inr intake"
  shows "bundle_holds intake"
  using assms
proof (rule rfold_invariant)
  show "bundle_holds \<lparr>bi_seen = [], bi_total = 0, bi_tree = []\<rparr>"
    by (simp add: bundle_holds_def wf_entries_def leaves_eq tree_bytes_def)
qed (rule bundle_member_holds)

section \<open>Content addresses\<close>

text \<open>A directory that holds a task and a candidate whose digests give the address.\<close>

definition addressed :: "py_env \<Rightarrow> json_reader \<Rightarrow> string \<Rightarrow> string \<Rightarrow> entries \<Rightarrow> bool" where
  "addressed env read base address es \<longleftrightarrow>
     (\<exists>task candidate_sha256. load_task_file env read base es = Inr task \<and>
        hash_snapshot env (path_join base ''candidate'')
          (case dict_get ''candidate'' es of Some (Directory c) \<Rightarrow> c | _ \<Rightarrow> []) = Inr candidate_sha256 \<and>
        bundle_address env (task_digest task) candidate_sha256 = address)"

lemma check_bundle_Inr:
  assumes "check_bundle env read staging expected tree = Inr (manifest, task, candidate_sha256)"
  shows "load_task_file env read staging tree = Inr task \<and>
    (\<exists>es. dict_get ''candidate'' tree = Some (Directory es) \<and>
       hash_snapshot env (path_join staging ''candidate'') es = Inr candidate_sha256) \<and>
    bundle_address env (task_digest task) candidate_sha256 = expected"
proof -
  obtain es where "load_task_file env read staging tree = Inr task"
    "(case dict_get ''candidate'' tree of Some (Directory es) \<Rightarrow> Inr es
            | _ \<Rightarrow> Inl (RuntimeError ''fleet bundle candidate directory is missing'')) = Inr es"
    "hash_snapshot env (path_join staging ''candidate'') es = Inr candidate_sha256"
    "bundle_address env (task_digest task) candidate_sha256 = expected"
    using assms unfolding check_bundle_def rbind_eq_Inr_iff sum.inject prod.inject ensure_Inr by blast
  moreover have "dict_get ''candidate'' tree = Some (Directory es)"
  proof (cases "dict_get ''candidate'' tree")
    case (Some n)
    with calculation(2) show ?thesis by (cases n) simp_all
  qed (use calculation(2) in simp)
  ultimately show ?thesis by blast
qed

lemma check_existing_Inr:
  assumes "check_existing env read target es manifest task candidate_sha256 = Inr u"
  shows "\<exists>old. load_task_file env read target es = Inr old \<and> task_digest old = task_digest task \<and>
    hash_snapshot env (path_join target ''candidate'')
      (case dict_get ''candidate'' es of Some (Directory c) \<Rightarrow> c | _ \<Rightarrow> []) = Inr candidate_sha256"
  using assms unfolding check_existing_def rbind_eq_Inr_iff ensure_Inr by blast

section \<open>Property\<close>

text \<open>C38: Receiving a bundle leaves the inbox as it was, or adds one directory under the expected
  address: its task and its candidate have digests that give the address, it holds nothing
  but regular files below the manifest, the task and the candidate, and no more bytes than
  the limit.  A bundle is answered as already present only when the directory under the
  address still gives the address.\<close>

theorem received_bundle_addressed:
  "case receive_fleet_bundle env read root_dir staging inbox stream expected of
     (Inl e, after) \<Rightarrow> after = inbox
   | (Inr (manifest, True), after) \<Rightarrow> after = inbox \<and>
       (\<exists>es. dict_get expected inbox = Some (Directory es) \<and> addressed env read (path_join root_dir expected) expected es)
   | (Inr (manifest, False), after) \<Rightarrow>
       \<exists>tree. after = inbox @ [(expected, Directory tree)] \<and> \<not> dict_has expected inbox \<and> is_bundle_id expected \<and>
         addressed env read (path_join root_dir staging) expected tree \<and> wf_entries tree \<and>
         set (map fst tree) \<subseteq> bundle_names \<and> list_all safe_leaf (leaves tree) \<and> tree_bytes tree \<le> MAX_BUNDLE_BYTES"
proof -
  let ?checked = "rbind (ensure (is_bundle_id expected) ''invalid expected fleet bundle id'') (\<lambda>_.
           rbind (rfold bundle_member \<lparr>bi_seen = [], bi_total = 0, bi_tree = []\<rparr> stream) (\<lambda>intake.
           rbind (check_bundle env read (path_join root_dir staging) expected (bi_tree intake)) (\<lambda>(manifest, task, candidate_sha256).
           Inr (bi_tree intake, manifest, task, candidate_sha256))))"
  show ?thesis
  proof (cases ?checked)
    case (Inl e)
    then show ?thesis unfolding receive_fleet_bundle_def Let_def by simp
  next
    case (Inr x)
    obtain tree manifest task c where x: "x = (tree, manifest, task, c)" by (cases x)
    obtain intake where valid: "is_bundle_id expected"
      and fold: "rfold bundle_member \<lparr>bi_seen = [], bi_total = 0, bi_tree = []\<rparr> stream = Inr intake"
      and tree: "tree = bi_tree intake"
      and check: "check_bundle env read (path_join root_dir staging) expected tree = Inr (manifest, task, c)"
      using Inr unfolding x rbind_eq_Inr_iff split_paired_Ex prod.case sum.inject prod.inject ensure_Inr by blast
    note b = check_bundle_Inr [OF check]
    have new: "addressed env read (path_join root_dir staging) expected tree"
      using b by (auto simp: addressed_def)
    have holds: "wf_entries tree" "set (map fst tree) \<subseteq> bundle_names" "list_all safe_leaf (leaves tree)"
      "tree_bytes tree \<le> MAX_BUNDLE_BYTES"
      using bundle_stream_holds [OF fold] by (simp_all add: bundle_holds_def tree list_all_iff)
    show ?thesis
    proof (cases "dict_get expected inbox")
      case None
      with new holds valid show ?thesis
        unfolding receive_fleet_bundle_def Let_def Inr x by (simp add: dict_has_get)
    next
      case (Some n)
      show ?thesis
      proof (cases n)
        case (Directory es)
        show ?thesis
        proof (cases "check_existing env read (path_join root_dir expected) es manifest task c")
          case (Inr u)
          with check_existing_Inr [OF this] b have "addressed env read (path_join root_dir expected) expected es"
            unfolding addressed_def by metis
          with Inr Some Directory show ?thesis
            unfolding receive_fleet_bundle_def Let_def \<open>?checked = Inr x\<close> x by simp
        qed (simp add: receive_fleet_bundle_def Let_def \<open>?checked = Inr x\<close> x Some Directory)
      qed (simp_all add: receive_fleet_bundle_def Let_def \<open>?checked = Inr x\<close> x Some)
    qed
  qed
qed

end
