(* ===== verification/Fleet_Bundle_Roundtrip.thy ===== *)
theory Fleet_Bundle_Roundtrip
  imports Fleet_Bundle_Facts Fleet_Artifacts_Roundtrip
begin

text \<open>
  A bundle received in an inbox holds the tree that was packed: the members of an archive
  rebuild the directory they were made of, and the digests do not depend on where it lies.
\<close>

section \<open>Trees that can be shipped\<close>

fun sound_node :: "node \<Rightarrow> bool" where
  "sound_node (RegularFile bytes) = True"
| "sound_node (Directory es) \<longleftrightarrow> distinct (map fst es) \<and> list_all (\<lambda>(name, n). safe_component name \<and> sound_node n) es"
| "sound_node _ = False"

definition sound :: "entries \<Rightarrow> bool" where
  "sound es \<longleftrightarrow> sound_node (Directory es)"

lemma sound_iff: "sound es \<longleftrightarrow> distinct (map fst es) \<and> (\<forall>e \<in> set es. safe_component (fst e) \<and> sound_node (snd e))"
  by (auto simp: sound_def list_all_iff)

lemma sound_node_Directory [simp]: "sound_node (Directory es) \<longleftrightarrow> sound es"
  by (simp add: sound_def)

declare sound_node.simps(2) [simp del]

fun safely_named :: "node \<Rightarrow> bool" where
  "safely_named (Directory es) \<longleftrightarrow> list_all (\<lambda>(name, n). safe_component name \<and> safely_named n) es"
| "safely_named _ = True"

lemma copied_sound:
  "clean es \<Longrightarrow> wf_entries es \<Longrightarrow> safely_named (Directory es) \<Longrightarrow> sound (copied es)"
proof (induction "size_list (size_prod (\<lambda>x. 0) size) es" arbitrary: es rule: less_induct)
  case less
  note lvl = less.prems(1) [unfolded level_clean [of es]]
  let ?d = "\<lambda>e. case e of (name, Directory sub) \<Rightarrow> (name, Directory (copied sub)) | _ \<Rightarrow> e"
  have names: "map fst (map ?d ds) = map fst ds" for ds
    by (induction ds) (auto split: prod.splits node.splits)
  have "distinct (map fst (visible es))"
    using less.prems(2) by (auto simp: wf_entries_simps visible_def intro: distinct_map_filter)
  moreover have "mset (map fst (walk_files es @ walk_directories es)) = mset (map fst (visible es))"
    by (simp only: mset_map visible_mset)
  ultimately have "distinct (map fst (walk_files es @ walk_directories es))" by (metis mset_eq_imp_distinct_iff)
  moreover have "mset (map fst (copied es)) = mset (map fst (walk_files es @ walk_directories es))"
    unfolding copied.simps [of es] map_append names mset_append by (simp only: mset_map mset_sort)
  ultimately have "distinct (map fst (copied es))" by (metis mset_eq_imp_distinct_iff)
  moreover have "safe_component (fst e) \<and> sound_node (snd e)" if e: "e \<in> set (copied es)" for e
  proof -
    from e consider "e \<in> set (walk_files es)" | x where "x \<in> set (walk_directories es)" "e = ?d x"
      by (subst (asm) copied.simps) auto
    then show ?thesis
    proof cases
      case 1
      moreover from 1 have "safe_component (fst e)" using less.prems(3) by (auto simp: set_walk_files list_all_iff)
      moreover from 1 lvl obtain b where "snd e = RegularFile b" by blast
      ultimately show ?thesis by simp
    next
      case 2
      have "\<not> is_link (snd x)" "walks_as_directory (snd x)" using 2(1) lvl by (auto simp: set_walk_directories)
      then obtain sub where "snd x = Directory sub" by (cases "snd x") auto
      then have x: "x = (fst x, Directory sub)" by (cases x) simp
      with 2(1) have m: "(fst x, Directory sub) \<in> set (walk_directories es)" by simp
      then have xe: "(fst x, Directory sub) \<in> set es" by (auto simp: set_walk_directories)
      have "sound (copied sub)"
      proof (rule less.hyps [OF walk_directories_smaller [OF m]])
        show "clean sub" using lvl m by fastforce
        show "wf_entries sub" using less.prems(2) xe by (fastforce simp: wf_entries_simps list_all_iff)
        show "safely_named (Directory sub)" using less.prems(3) xe by (fastforce simp: list_all_iff)
      qed
      moreover have "safe_component (fst x)" using less.prems(3) xe by (fastforce simp: list_all_iff)
      moreover have "e = (fst x, Directory (copied sub))" unfolding 2(2) by (subst x) simp
      ultimately show ?thesis by simp
    qed
  qed
  ultimately show ?case by (simp add: sound_iff)
qed

section \<open>Members\<close>

type_synonym member_row = "string list \<times> member_kind \<times> nat list"

definition members_below :: "string list \<Rightarrow> entries \<Rightarrow> member_row list" where
  "members_below pre es = concat (map (node_members pre) es)"

lemma members_below_simps [simp]:
  "members_below pre [] = []"
  "members_below pre (e # es) = node_members pre e @ members_below pre es"
  "members_below pre (xs @ ys) = members_below pre xs @ members_below pre ys"
  by (simp_all add: members_below_def)

lemma node_members_Directory [simp]:
  "node_members pre (name, Directory es) = (pre @ [name], DirectoryMember, []) # members_below (pre @ [name]) es"
  by (simp add: members_below_def)

declare node_members.simps(1) [simp del]

lemma node_members_path: "m \<in> set (node_members pre e) \<Longrightarrow> \<exists>q. fst m = pre @ fst e # q"
proof (induction pre e rule: node_members.induct)
  case (1 pre name es)
  then consider "m = (pre @ [name], DirectoryMember, [])" | e where "e \<in> set es" "m \<in> set (node_members (pre @ [name]) e)"
    by (auto simp: members_below_def)
  then show ?case
  proof cases
    case 2
    from "1.IH" [OF this] show ?thesis by auto
  qed simp
qed auto

lemma node_members_shift: "node_members (a @ b) e = map (map_prod ((@) a) id) (node_members b e)"
proof (induction b e rule: node_members.induct)
  case (1 b name es)
  have "members_below (a @ (b @ [name])) es = map (map_prod ((@) a) id) (members_below (b @ [name]) es)"
    using 1 by (induction es) auto
  then show ?case by (simp add: id_def)
qed auto

lemma members_below_Cons: "members_below [name] es = map (map_prod ((#) name) id) (members_below [] es)"
  using node_members_shift [of "[name]" "[]"] by (induction es) (simp_all add: map_prod_def)

lemma members_head: "(p, k, c) \<in> set (members_below [] ds) \<Longrightarrow> \<exists>name q. p = name # q \<and> name \<in> set (map fst ds)"
proof -
  assume "(p, k, c) \<in> set (members_below [] ds)"
  then obtain e where e: "e \<in> set ds" "(p, k, c) \<in> set (node_members [] e)" by (auto simp: members_below_def)
  from node_members_path [OF e(2)] e(1) show ?thesis by auto
qed

text \<open>The members under one name.\<close>

lemma members_at:
  assumes "distinct (map fst es)" and "dict_get name es = Some n"
  shows "(name # q, k, c) \<in> set (members_below [] es) \<longleftrightarrow> (name # q, k, c) \<in> set (node_members [] (name, n))"
proof -
  obtain xs ys where es: "es = xs @ (name, n) # ys" using dict_get_split [OF assms(2)] by blast
  have "(name # q, k, c) \<notin> set (members_below [] ds)" if "name \<notin> set (map fst ds)" for ds
    using that members_head by blast
  with assms(1) show ?thesis by (simp add: es)
qed

lemma cons_image: "(name # q, x) \<in> map_prod ((#) name) id ` S \<longleftrightarrow> (q, x) \<in> S"
  by force

lemma members_directory:
  assumes "distinct (map fst es)" and "dict_get name es = Some (Directory sub)"
  shows "(name # q, k, c) \<in> set (members_below [] es) \<longleftrightarrow> q = [] \<and> k = DirectoryMember \<and> c = [] \<or> (q, k, c) \<in> set (members_below [] sub)"
  unfolding members_at [OF assms] by (auto simp: members_below_Cons cons_image)

lemma members_absent: "dict_get name es = None \<Longrightarrow> (name # q, k, c) \<notin> set (members_below [] es)"
  using members_head by (fastforce simp: dict_get_def map_of_eq_None_iff)

lemma members_nonempty: "([], k, c) \<notin> set (members_below [] es)"
  using node_members_path by (fastforce simp: members_below_def)

text \<open>What a name stands for, read off its members.\<close>

lemma dict_get_member:
  assumes "distinct (map fst es)" and "([name], k, c) \<in> set (members_below [] es)"
  shows "k = RegularMember \<Longrightarrow> dict_get name es = Some (RegularFile c)"
    and "k = DirectoryMember \<Longrightarrow> \<exists>sub. dict_get name es = Some (Directory sub)"
proof -
  obtain n where n: "dict_get name es = Some n" using members_absent assms(2) by fastforce
  with assms have "([name], k, c) \<in> set (node_members [] (name, n))" using members_at by blast
  then have "k = RegularMember \<and> n = RegularFile c \<or> k = DirectoryMember \<and> (\<exists>sub. n = Directory sub) \<or> k = OtherMember"
    by (cases n) (auto simp: members_below_Cons members_nonempty)
  then show "k = RegularMember \<Longrightarrow> dict_get name es = Some (RegularFile c)"
    "k = DirectoryMember \<Longrightarrow> \<exists>sub. dict_get name es = Some (Directory sub)" using n by auto
qed

lemma dict_set_members:
  assumes "distinct (map fst es)" and "dict_get name es = Some (Directory sub)"
    and "set (members_below [] sub') = insert m (set (members_below [] sub))"
  shows "set (members_below [] (dict_set name (Directory sub') es)) = insert (map_prod ((#) name) id m) (set (members_below [] es))"
proof -
  obtain xs ys where es: "es = xs @ (name, Directory sub) # ys" and up: "\<And>w. dict_set name w es = xs @ (name, w) # ys"
    using dict_get_split [OF assms(2)] by blast
  show ?thesis unfolding up unfolding es by (auto simp: members_below_Cons assms(3))
qed

section \<open>Rebuilding a tree\<close>

text \<open>A member whose directories are there and whose path is free.\<close>

definition ready :: "string list \<Rightarrow> entries \<Rightarrow> bool" where
  "ready parts es \<longleftrightarrow> wf_entries es \<and> parts \<noteq> [] \<and> parts \<notin> fst ` set (members_below [] es) \<and>
     (\<forall>q. q \<noteq> [] \<and> strict_prefix q parts \<longrightarrow> (q, DirectoryMember, []) \<in> set (members_below [] es))"

lemma ready_absent: "ready [name] es \<Longrightarrow> dict_get name es = None"
proof (rule ccontr)
  assume r: "ready [name] es" and "dict_get name es \<noteq> None"
  then obtain n where n: "dict_get name es = Some n" by blast
  have "\<exists>k c. ([name], k, c) \<in> set (node_members [] (name, n))" by (cases n) auto
  moreover have "distinct (map fst es)" using r by (simp add: ready_def wf_entries_simps)
  ultimately obtain k c where "([name], k, c) \<in> set (members_below [] es)" using members_at [OF _ n] by blast
  then have "[name] \<in> fst ` set (members_below [] es)" by (metis fst_conv image_eqI)
  with r show False by (simp add: ready_def)
qed

lemma ready_below:
  assumes "ready (name # d # rest) es"
  shows "\<exists>sub. dict_get name es = Some (Directory sub) \<and> ready (d # rest) sub"
proof -
  have w: "distinct (map fst es)" using assms by (simp add: ready_def wf_entries_simps)
  have "strict_prefix [name] (name # d # rest)" by (simp add: strict_prefix_def)
  with assms have "([name], DirectoryMember, []) \<in> set (members_below [] es)" by (auto simp: ready_def)
  with dict_get_member(2) [OF w this] obtain sub where sub: "dict_get name es = Some (Directory sub)" by blast
  note at = members_directory [OF w sub]
  have "wf_entries sub" using assms dict_get_split [OF sub] by (auto simp: ready_def wf_entries_simps list_all_iff)
  moreover have "d # rest \<notin> fst ` set (members_below [] sub)"
  proof
    assume "d # rest \<in> fst ` set (members_below [] sub)"
    then obtain k c where "(d # rest, k, c) \<in> set (members_below [] sub)" by force
    then have "(name # d # rest, k, c) \<in> set (members_below [] es)" using at by blast
    with assms show False by (force simp: ready_def)
  qed
  moreover have "(q, DirectoryMember, []) \<in> set (members_below [] sub)" if "q \<noteq> []" "strict_prefix q (d # rest)" for q
  proof -
    have "strict_prefix (name # q) (name # d # rest)" using that(2) by (simp add: strict_prefix_def)
    with assms have "(name # q, DirectoryMember, []) \<in> set (members_below [] es)" by (simp add: ready_def)
    with at that(1) show ?thesis by simp
  qed
  ultimately show ?thesis using sub by (auto simp: ready_def)
qed

lemma put_file_members:
  "ready parts es \<Longrightarrow> \<exists>es'. put_file parts bytes es = Inr es' \<and>
     set (members_below [] es') = insert (parts, RegularMember, bytes) (set (members_below [] es))"
proof (induction parts bytes es rule: put_file.induct)
  case (1 bytes es)
  then show ?case by (simp add: ready_def)
next
  case (2 name bytes es)
  from ready_absent [OF this] show ?case by simp
next
  case (3 name d rest bytes es)
  obtain sub where sub: "dict_get name es = Some (Directory sub)" and r: "ready (d # rest) sub"
    using ready_below [OF "3.prems"] by blast
  obtain sub' where s: "put_file (d # rest) bytes sub = Inr sub'"
    "set (members_below [] sub') = insert (d # rest, RegularMember, bytes) (set (members_below [] sub))"
    using "3.IH"(2) [OF sub refl r] by blast
  have "distinct (map fst es)" using "3.prems" by (simp add: ready_def wf_entries_simps)
  from dict_set_members [OF this sub s(2)] s(1) sub show ?case by simp
qed

lemma make_directory_members:
  "ready parts es \<Longrightarrow> \<exists>es'. make_directory parts es = Inr es' \<and>
     set (members_below [] es') = insert (parts, DirectoryMember, []) (set (members_below [] es))"
proof (induction parts es rule: make_directory.induct)
  case (1 es)
  then show ?case by (simp add: ready_def)
next
  case (2 name rest es)
  show ?case
  proof (cases rest)
    case Nil
    with ready_absent 2 show ?thesis by simp
  next
    case (Cons d more_parts)
    obtain sub where sub: "dict_get name es = Some (Directory sub)" and r: "ready rest sub"
      using ready_below "2.prems" Cons by blast
    obtain sub' where s: "make_directory rest sub = Inr sub'"
      "set (members_below [] sub') = insert (rest, DirectoryMember, []) (set (members_below [] sub))"
      using "2.IH"(2) [OF sub refl r] by blast
    have "distinct (map fst es)" using "2.prems" by (simp add: ready_def wf_entries_simps)
    from dict_set_members [OF this sub s(2)] s(1) sub show ?thesis by simp
  qed
qed

definition row_member :: "member_row \<Rightarrow> tar_member" where
  "row_member row = (case row of (path, kind, bytes) \<Rightarrow> \<lparr>tm_name = posix_path path, tm_kind = kind, tm_bytes = bytes\<rparr>)"

definition plain_row :: "member_row \<Rightarrow> bool" where
  "plain_row row = (case row of (path, kind, bytes) \<Rightarrow>
     safe_archive_path (posix_path path) = Inr path \<and> (kind = DirectoryMember \<and> bytes = [] \<or> kind = RegularMember))"

definition row_bytes :: "member_row list \<Rightarrow> nat" where
  "row_bytes rows = sum_list (map (\<lambda>(path, kind, bytes). length bytes) rows)"

definition rebuilt :: "member_row list \<Rightarrow> bundle_intake \<Rightarrow> bool" where
  "rebuilt rows intake \<longleftrightarrow> set (bi_seen intake) = (posix_path \<circ> fst) ` set rows \<and> bi_total intake = row_bytes rows \<and>
     wf_entries (bi_tree intake) \<and> set (members_below [] (bi_tree intake)) = set rows"

lemma rebuild_row:
  assumes "rebuilt rows intake" and "plain_row row" and "ready (fst row) (bi_tree intake)"
    and "posix_path (fst row) \<notin> (posix_path \<circ> fst) ` set rows" and "row_bytes (rows @ [row]) \<le> MAX_BUNDLE_BYTES"
  shows "\<exists>intake'. bundle_member intake (Inr (row_member row)) = Inr intake' \<and> rebuilt (rows @ [row]) intake'"
proof -
  obtain path kind bytes where row: "row = (path, kind, bytes)" by (cases row)
  have p: "safe_archive_path (posix_path path) = Inr path" using assms(2) by (simp add: plain_row_def row)
  have r: "ready path (bi_tree intake)" using assms(3) by (simp add: row)
  have new: "posix_path path \<notin> set (bi_seen intake)" using assms(1,4) by (simp add: rebuilt_def row)
  show ?thesis
  proof (cases "kind = DirectoryMember")
    case True
    then have b: "bytes = []" using assms(2) by (simp add: plain_row_def row)
    obtain tree where t: "make_directory path (bi_tree intake) = Inr tree"
      "set (members_below [] tree) = insert (path, DirectoryMember, []) (set (members_below [] (bi_tree intake)))"
      using make_directory_members [OF r] by blast
    have "wf_entries tree" using assms(1) by (intro make_directory_wf [OF t(1)]) (simp add: rebuilt_def)
    with t assms(1,4) True b show ?thesis
      by (simp add: bundle_member_def row_member_def row p new Let_def rebuilt_def row_bytes_def)
  next
    case False
    then have k: "kind = RegularMember" using assms(2) by (simp add: plain_row_def row)
    obtain tree where t: "put_file path bytes (bi_tree intake) = Inr tree"
      "set (members_below [] tree) = insert (path, RegularMember, bytes) (set (members_below [] (bi_tree intake)))"
      using put_file_members [OF r] by blast
    have "wf_entries tree" using assms(1) by (intro put_file_wf [OF t(1)]) (simp add: rebuilt_def)
    with t assms(1,4,5) k show ?thesis
      by (simp add: bundle_member_def row_member_def row p new Let_def rebuilt_def row_bytes_def)
  qed
qed

lemma strict_prefix_less: "strict_prefix (q :: string list) p \<Longrightarrow> q < p"
proof -
  have "(q :: string list) < q @ x # xs" for q x xs by (induction q) simp_all
  moreover assume "strict_prefix q p"
  then obtain x xs where "p = q @ x # xs" by (metis neq_Nil_conv prefixE self_append_conv strict_prefix_def)
  ultimately show ?thesis by simp
qed

definition closed_rows :: "member_row list \<Rightarrow> bool" where
  "closed_rows rows \<longleftrightarrow> (\<forall>row \<in> set rows. \<forall>q. q \<noteq> [] \<and> strict_prefix q (fst row) \<longrightarrow> (q, DirectoryMember, []) \<in> set rows)"

lemma rebuild_rows:
  assumes "rebuilt done_rows intake" and "sorted (map fst (done_rows @ rows))" and "distinct (map fst (done_rows @ rows))"
    and "closed_rows (done_rows @ rows)" and "\<forall>row \<in> set (done_rows @ rows). plain_row row \<and> fst row \<noteq> []"
    and "row_bytes (done_rows @ rows) \<le> MAX_BUNDLE_BYTES"
  shows "\<exists>intake'. rfold bundle_member intake (map (\<lambda>row. Inr (row_member row)) rows) = Inr intake' \<and> rebuilt (done_rows @ rows) intake'"
  using assms
proof (induction rows arbitrary: done_rows intake)
  case (Cons row rows)
  let ?all = "done_rows @ row # rows"
  have plain: "plain_row x \<and> fst x \<noteq> []" if "x \<in> set ?all" for x using Cons.prems(5) that by blast
  have fresh: "fst row \<notin> fst ` set done_rows" using Cons.prems(3) by auto
  have ready: "ready (fst row) (bi_tree intake)"
    unfolding ready_def
  proof (intro conjI allI impI)
    show "wf_entries (bi_tree intake)" using Cons.prems(1) by (simp add: rebuilt_def)
    show "fst row \<noteq> []" using plain by simp
    show "fst row \<notin> fst ` set (members_below [] (bi_tree intake))" using Cons.prems(1) fresh by (simp add: rebuilt_def)
    fix q assume q: "q \<noteq> [] \<and> strict_prefix q (fst row)"
    have "(q, DirectoryMember, []) \<in> set ?all" using Cons.prems(4) q unfolding closed_rows_def by simp
    moreover have "fst row \<le> fst x" if "x \<in> set (row # rows)" for x
      using Cons.prems(2) that by (auto simp: sorted_append)
    moreover have "q < fst row" using q by (intro strict_prefix_less) blast
    ultimately have "(q, DirectoryMember, []) \<in> set done_rows" by fastforce
    then show "(q, DirectoryMember, []) \<in> set (members_below [] (bi_tree intake))" using Cons.prems(1) by (simp add: rebuilt_def)
  qed
  have unseen: "posix_path (fst row) \<notin> (posix_path \<circ> fst) ` set done_rows"
  proof
    assume "posix_path (fst row) \<in> (posix_path \<circ> fst) ` set done_rows"
    then obtain x where x: "x \<in> set done_rows" "posix_path (fst row) = posix_path (fst x)" by auto
    have "safe_archive_path (posix_path (fst y)) = Inr (fst y)" if "y \<in> set ?all" for y
      using plain [OF that] by (auto simp: plain_row_def)
    with x have "fst row = fst x" by (metis in_set_conv_decomp Un_iff set_append sum.inject(2))
    with fresh x(1) show False by simp
  qed
  have bound: "row_bytes (done_rows @ [row]) \<le> MAX_BUNDLE_BYTES" using Cons.prems(6) by (simp add: row_bytes_def)
  have "plain_row row" using plain [of row] by simp
  then obtain mid where m: "bundle_member intake (Inr (row_member row)) = Inr mid" "rebuilt (done_rows @ [row]) mid"
    using rebuild_row [OF Cons.prems(1) _ ready unseen bound] by blast
  have "\<exists>intake'. rfold bundle_member mid (map (\<lambda>row. Inr (row_member row)) rows) = Inr intake' \<and> rebuilt ((done_rows @ [row]) @ rows) intake'"
    using m(2) Cons.prems(2-6) by (intro Cons.IH) simp_all
  with m(1) show ?case by simp
qed simp

section \<open>The members of a tree\<close>

lemma members_closed:
  "wf_entries es \<Longrightarrow> (p, k, c) \<in> set (members_below [] es) \<Longrightarrow> q \<noteq> [] \<Longrightarrow> strict_prefix q p \<Longrightarrow>
     (q, DirectoryMember, []) \<in> set (members_below [] es)"
proof (induction q arbitrary: es p)
  case (Cons name q)
  obtain p' where p: "p = name # p'" "strict_prefix q p'"
    using Cons.prems(4) by (cases p) (auto simp: strict_prefix_def)
  have w: "distinct (map fst es)" using Cons.prems(1) by (simp add: wf_entries_simps)
  obtain n where n: "dict_get name es = Some n" using members_absent Cons.prems(2) p(1) by fastforce
  have "(p, k, c) \<in> set (node_members [] (name, n))" using Cons.prems(2) members_at [OF w n] p(1) by blast
  then obtain sub where sub: "n = Directory sub" using p by (cases n) auto
  note at = members_directory [OF w n [unfolded sub]]
  show ?case
  proof (cases "q = []")
    case True
    with at show ?thesis by simp
  next
    case False
    have "wf_entries sub" using Cons.prems(1) dict_get_split [OF n] by (auto simp: sub wf_entries_simps list_all_iff)
    moreover have "(p', k, c) \<in> set (members_below [] sub)" using at Cons.prems(2) p by auto
    ultimately have "(q, DirectoryMember, []) \<in> set (members_below [] sub)" using Cons.IH False p(2) by blast
    with at show ?thesis by simp
  qed
qed simp

lemma node_members_distinct: "wf_node (snd e) \<Longrightarrow> distinct (map fst (node_members pre e))"
proof (induction pre e rule: node_members.induct)
  case (1 pre name es)
  from "1.prems" have d: "distinct (map fst es)" and w: "\<And>e. e \<in> set es \<Longrightarrow> wf_node (snd e)"
    by (auto simp: list_all_iff)
  let ?P = "pre @ [name]"
  have "distinct (map fst (members_below ?P ds))" if "set ds \<subseteq> set es" "distinct (map fst ds)" for ds
    using that
  proof (induction ds)
    case (Cons e ds)
    have "set (map fst (node_members ?P e)) \<inter> set (map fst (members_below ?P ds)) = {}"
    proof (rule ccontr)
      assume "\<not> ?thesis"
      then obtain x where x: "x \<in> fst ` set (node_members ?P e)" "x \<in> fst ` set (members_below ?P ds)" by auto
      obtain m where m: "m \<in> set (node_members ?P e)" "x = fst m" using x(1) by (rule imageE)
      obtain m' where m': "m' \<in> set (members_below ?P ds)" "x = fst m'" using x(2) by (rule imageE)
      obtain e' where e': "e' \<in> set ds" "m' \<in> set (node_members ?P e')"
        using m'(1) unfolding members_below_def set_concat set_map by blast
      have eq: "fst m = fst m'" using m(2) m'(2) by simp
      obtain q q' where "fst m = ?P @ fst e # q" "fst m' = ?P @ fst e' # q'"
        using node_members_path [OF m(1)] node_members_path [OF e'(2)] by blast
      with eq have "fst e = fst e'" by simp
      with e'(1) have "fst e \<in> set (map fst ds)" by simp
      with Cons.prems(2) show False by simp
    qed
    moreover have "distinct (map fst (node_members ?P e))" using Cons.prems w by (intro "1.IH") auto
    moreover have "distinct (map fst (members_below ?P ds))" using Cons by simp
    ultimately show ?case by (simp del: set_map)
  qed simp
  from this [OF order_refl d] have "distinct (map fst (members_below ?P es))" .
  moreover have "?P \<notin> fst ` set (members_below ?P es)"
    using node_members_path by (fastforce simp: members_below_def)
  ultimately show ?case by simp
qed auto

lemma members_distinct:
  assumes "wf_entries es"
  shows "distinct (map fst (members_below [] es))"
proof -
  have "distinct (map fst (node_members [] ([], Directory es)))"
    using assms by (intro node_members_distinct) (simp add: wf_entries_def)
  then have "distinct (map fst (members_below [[]] es))" by simp
  moreover have "map fst (members_below [[]] es) = map ((#) []) (map fst (members_below [] es))"
    by (simp add: members_below_Cons)
  ultimately show ?thesis by (metis distinct_map)
qed

lemma sound_wf: "sound_node n \<Longrightarrow> wf_node n"
proof (induction n rule: sound_node.induct)
  case (2 es)
  then show ?case by (fastforce simp: sound_iff list_all_iff)
qed simp_all

lemma sound_rows:
  "sound es \<Longrightarrow> (p, k, c) \<in> set (members_below [] es) \<Longrightarrow>
     safe_parts_list p \<and> (k = DirectoryMember \<and> c = [] \<or> k = RegularMember)"
proof (induction p arbitrary: es)
  case Nil
  then show ?case using members_nonempty by blast
next
  case (Cons name p)
  have w: "distinct (map fst es)" using Cons.prems(1) by (simp add: sound_iff)
  obtain n where n: "dict_get name es = Some n" using members_absent Cons.prems(2) by fastforce
  then have ne: "(name, n) \<in> set es" by (simp add: dict_get_def map_of_SomeD)
  with Cons.prems(1) have s: "safe_component name" "sound_node n" by (auto simp: sound_iff)
  have m: "(name # p, k, c) \<in> set (node_members [] (name, n))" using Cons.prems(2) members_at [OF w n] by blast
  show ?case
  proof (cases n)
    case (Directory sub)
    with members_directory [OF w n [unfolded Directory]] Cons.prems(2)
    consider "p = []" "k = DirectoryMember" "c = []" | "(p, k, c) \<in> set (members_below [] sub)" by blast
    then show ?thesis
    proof cases
      case 2
      with Cons.IH s Directory have "safe_parts_list p \<and> (k = DirectoryMember \<and> c = [] \<or> k = RegularMember)" by simp
      with s(1) show ?thesis by (simp add: safe_parts_list_def)
    qed (use s(1) in \<open>simp add: safe_parts_list_def\<close>)
  qed (use m s in \<open>simp_all add: safe_parts_list_def\<close>)
qed

end
