(* ===== verification/Fleet_Bundle_Claims.thy ===== *)
theory Fleet_Bundle_Claims
  imports Fleet_Bundle_Roundtrip Fleet_Bundle_Facts Fleet_Artifacts_Claims
begin

text \<open>
  A bundle that is created is accepted under its address, the second time as already present.
  Because the digest of a candidate does not frame the contents, a different candidate can
  have the same address, and is then answered with the stored one.
\<close>

section \<open>Digests of rebuilt trees\<close>

definition row_files :: "member_row list \<Rightarrow> (string list \<times> node) list" where
  "row_files rows = map (\<lambda>(p, k, b). (p, RegularFile b)) (filter (\<lambda>(p, k, b). k = RegularMember) rows)"

lemma row_files_simps [simp]:
  "row_files [] = []" "row_files (xs @ ys) = row_files xs @ row_files ys"
  "row_files ((p, k, b) # rows) = (if k = RegularMember then (p, RegularFile b) # row_files rows else row_files rows)"
  by (simp_all add: row_files_def)

definition no_other :: "member_row list \<Rightarrow> bool" where
  "no_other rows \<longleftrightarrow> (\<forall>(p, k, b) \<in> set rows. k \<noteq> OtherMember)"

lemma node_files_rows: "no_other (node_members pre e) \<Longrightarrow> node_files pre e = row_files (node_members pre e)"
proof (induction pre e rule: node_members.induct)
  case (1 pre name es)
  have "concat (map (node_files (pre @ [name])) ds) = row_files (members_below (pre @ [name]) ds)" if "set ds \<subseteq> set es" for ds
    using that
  proof (induction ds)
    case (Cons d ds)
    have "no_other (node_members (pre @ [name]) d)"
      using "1.prems" Cons.prems by (auto simp: no_other_def members_below_def)
    with "1.IH" [of d] Cons show ?case by simp
  qed simp
  from this [OF order_refl] show ?case by simp
qed (auto simp: no_other_def)

lemma snapshot_files_rows: "no_other (members_below [] es) \<Longrightarrow> snapshot_files es = sort_key fst (row_files (members_below [] es))"
proof -
  assume o: "no_other (members_below [] es)"
  have "concat (map (node_files []) ds) = row_files (members_below [] ds)" if "set ds \<subseteq> set es" for ds
    using that
  proof (induction ds)
    case (Cons d ds)
    have "no_other (node_members [] d)" using o Cons.prems by (auto simp: no_other_def members_below_def)
    with node_files_rows [of "[]" d] Cons show ?case by simp
  qed simp
  from this [OF order_refl] show ?thesis by (simp add: snapshot_files_def)
qed

lemma row_files_distinct: "distinct (map fst rows) \<Longrightarrow> distinct (map fst (row_files rows))"
proof (induction rows)
  case (Cons row rows)
  have "set (map fst (row_files rows)) \<subseteq> set (map fst rows)" by (force simp: row_files_def)
  with Cons show ?case by (cases row) auto
qed simp

lemma snapshot_files_cong:
  assumes "set (members_below [] es) = set (members_below [] ds)" and "wf_entries es" and "wf_entries ds"
    and "no_other (members_below [] ds)"
  shows "snapshot_files es = snapshot_files ds"
proof -
  have d: "distinct (map fst (members_below [] es))" "distinct (map fst (members_below [] ds))"
    by (rule members_distinct [OF assms(2)], rule members_distinct [OF assms(3)])
  then have "mset (members_below [] es) = mset (members_below [] ds)"
    using assms(1) by (simp only: set_eq_iff_mset_eq_distinct [symmetric] distinct_map)
  then have "mset (row_files (members_below [] es)) = mset (row_files (members_below [] ds))"
    unfolding row_files_def by (simp only: mset_map mset_filter)
  moreover have "no_other (members_below [] es)" using assms(1,4) by (simp add: no_other_def)
  ultimately show ?thesis
    using row_files_distinct [OF d(1)] by (simp only: snapshot_files_rows assms(4) sort_key_mset)
qed

lemma hash_snapshot_cong:
  assumes "snapshot_files es = snapshot_files ds" and "list_all (regular \<circ> snd) (snapshot_files ds)"
  shows "hash_snapshot env base es = hash_snapshot env base' ds"
proof -
  have "rfold (hash_step base) acc fs = rfold (hash_step base') acc fs" if "list_all (regular \<circ> snd) fs" for acc fs
    using that
  proof (induction fs arbitrary: acc)
    case (Cons f fs)
    then obtain b where "snd f = RegularFile b" by (auto simp: regular_def)
    with Cons show ?case by (simp add: hash_step_def)
  qed simp
  with assms show ?thesis by (simp add: hash_snapshot_def snapshot_stream_def)
qed

section \<open>Tasks that mean the same elsewhere\<close>

definition keeps_absolute :: "py_env \<Rightarrow> bool" where
  "keeps_absolute env \<longleftrightarrow> (\<forall>p. path_is_absolute p \<longrightarrow> path_is_absolute (expanduser env p))"

lemma absolute_iff: "path_is_absolute p \<longleftrightarrow> (\<exists>q. p = CHR ''/'' # q)"
  by (cases p) (auto simp: path_is_absolute_def has_prefix_def)

lemma absolute_strip: "path_is_absolute p \<Longrightarrow> path_is_absolute (py_strip p)"
proof -
  assume "path_is_absolute p"
  then obtain q where p: "p = CHR ''/'' # q" by (auto simp: absolute_iff)
  have n: "\<not> py_isspace (CHR ''/'')" by (simp add: py_isspace_def)
  then have l: "py_lstrip p = p" by (simp add: p py_lstrip_def)
  have "dropWhile py_isspace (rev p) \<noteq> []" using n by (simp add: p dropWhile_eq_Nil_conv)
  then have ne: "py_rstrip p \<noteq> []" by (simp add: py_rstrip_def)
  then have "hd (py_rstrip p) = CHR ''/''" using py_rstrip_hd [OF ne] by (simp add: p)
  with ne show ?thesis by (cases "py_rstrip p") (auto simp: py_strip_def l absolute_iff)
qed

lemma parse_judge_anywhere:
  assumes "absolute_value (dget ''cwd'' judge)" and "keeps_absolute env"
  shows "parse_judge env (JObj judge) d loc = parse_judge env (JObj judge) d' loc"
proof -
  obtain s where s: "dget ''cwd'' judge = JStr s" "path_is_absolute s"
    using assms(1) by (cases "dget ''cwd'' judge") (simp_all add: absolute_value_def)
  have "path_is_absolute (expanduser env (py_strip s))" using s(2) assms(2) absolute_strip by (simp add: keeps_absolute_def)
  then show ?thesis by (simp add: parse_judge_def s text_field_def Let_def)
qed

lemma parse_stage_anywhere:
  assumes "relocatable_stage (i, v) = Inr u" and "keeps_absolute env"
  shows "parse_stage env v j d = parse_stage env v j d'"
proof -
  obtain raw judge where v: "v = JObj raw" and j: "as_dict (dget_or ''judge'' (JObj []) raw) = Inr judge"
    and a: "absolute_value (dget ''cwd'' judge)"
    using assms(1) by (cases v) (auto simp: relocatable_stage_def Let_def)
  have "dget ''judge'' raw = JObj judge"
  proof (cases "dict_get ''judge'' raw")
    case None
    with j a show ?thesis by (simp add: dget_or_def as_dict_def dget_def absolute_value_def)
  next
    case (Some x)
    with j show ?thesis by (cases x) (simp_all add: dget_or_def as_dict_def dget_def)
  qed
  note j = this
  show ?thesis
    unfolding parse_stage_def v expect_object.simps rbind.simps j parse_judge_anywhere [OF a assms(2), of d _ d'] ..
qed

lemma parse_task_anywhere:
  assumes "parse_task env raw src = Inr task" and "fleet_task_is_relocatable raw = Inr u" and "keeps_absolute env"
  shows "parse_task env raw src' = Inr (task\<lparr>task_source_path := src'\<rparr>)"
proof -
  obtain d where raw: "raw = JObj d" using assms(1) by (cases raw) (auto simp: parse_task_def)
  obtain stages where ps: "parse_stages env (dget ''stages'' d) (path_parent src) = Inr stages"
    using assms(1) by (auto simp: parse_task_def raw split: if_splits)
  then obtain items where items: "dget ''stages'' d = JList items"
    by (cases "dget ''stages'' d") (auto simp: parse_stages_def)
  obtain us where r: "rtraverse relocatable_stage (List.enumerate 0 items) = Inr us"
    using assms(2) items by (auto simp: fleet_task_is_relocatable_def raw py_index_def dindex_def dget_def py_iter_def split: option.splits)
  have "rtraverse (\<lambda>(i, v). parse_stage env v i (path_parent src)) (List.enumerate 0 items) =
      rtraverse (\<lambda>(i, v). parse_stage env v i (path_parent src')) (List.enumerate 0 items)"
  proof (rule rtraverse_cong [OF refl])
    fix x assume x: "x \<in> set (List.enumerate 0 items)"
    obtain i v where iv: "x = (i, v)" by (cases x)
    from rtraverse_setI [OF r x] obtain w where "relocatable_stage (i, v) = Inr w" by (auto simp: iv)
    from parse_stage_anywhere [OF this assms(3)] show "(case x of (i, v) \<Rightarrow> parse_stage env v i (path_parent src)) =
        (case x of (i, v) \<Rightarrow> parse_stage env v i (path_parent src'))" by (simp add: iv)
  qed
  then have "parse_stages env (dget ''stages'' d) (path_parent src) = parse_stages env (dget ''stages'' d) (path_parent src')"
    by (simp add: parse_stages_def items)
  with assms(1) show ?thesis by (auto simp: parse_task_def raw Let_def split: if_splits)
qed

section \<open>The payload\<close>

lemma bundle_component: "safe_component ''manifest.json''" "safe_component ''task.json''" "safe_component ''candidate''"
  by (simp_all add: safe_component_def is_component_def)

lemma payload_sound: "sound candidate \<Longrightarrow> sound (bundle_payload env task candidate manifest)"
  by (simp add: sound_iff bundle_payload_def bundle_component)

lemma payload_rows:
  assumes "sound candidate" and m: "(p, k, c) \<in> set (members_below [] (bundle_payload env task candidate manifest))"
  shows "plain_row (p, k, c)"
proof -
  let ?P = "bundle_payload env task candidate manifest"
  have s: "safe_parts_list p" and kind: "k = DirectoryMember \<and> c = [] \<or> k = RegularMember"
    using sound_rows [OF payload_sound [OF assms(1)] m] by blast+
  obtain name q where p: "p = name # q" and name: "name \<in> set (map fst ?P)" using members_head [OF m] by blast
  have nm: "name \<in> {''manifest.json'', ''task.json'', ''candidate''}" using name by (auto simp: bundle_payload_def)
  have w: "distinct (map fst ?P)" by (simp add: bundle_payload_def)
  have "q = []" if n: "name \<in> {''manifest.json'', ''task.json''}"
  proof -
    obtain b where b: "dict_get name ?P = Some (RegularFile b)" using n by (auto simp: bundle_payload_def)
    from members_at [OF w b] m show ?thesis by (simp add: p)
  qed
  moreover have "\<not> unsafe_path (posix_path p) \<and> path_components (posix_path p) = p"
    using s unfolding posix_path_def safe_parts_list_def by (intro safe_join) blast+
  ultimately have "safe_archive_path (posix_path p) = Inr p"
    using nm by (auto simp: safe_archive_path_def Let_def p)
  with kind show ?thesis by (simp add: plain_row_def)
qed

definition payload_size :: "tar_member list \<Rightarrow> nat" where
  "payload_size members = sum_list (map (length \<circ> tm_bytes) members)"

lemma archive_rows: "archive_members es = map row_member (sort_key fst (members_below [] es))"
  by (simp add: archive_members_def row_member_def members_below_def)

lemma payload_rebuilt:
  assumes "sound candidate" and "payload_size (archive_members (bundle_payload env task candidate manifest)) \<le> MAX_BUNDLE_BYTES"
  shows "\<exists>intake. rfold bundle_member \<lparr>bi_seen = [], bi_total = 0, bi_tree = []\<rparr>
      (map Inr (archive_members (bundle_payload env task candidate manifest))) = Inr intake \<and>
    wf_entries (bi_tree intake) \<and>
    set (members_below [] (bi_tree intake)) = set (members_below [] (bundle_payload env task candidate manifest))"
proof -
  let ?P = "bundle_payload env task candidate manifest"
  let ?rows = "sort_key fst (members_below [] ?P)"
  let ?start = "\<lparr>bi_seen = [], bi_total = 0, bi_tree = []\<rparr> :: bundle_intake"
  have w: "wf_entries ?P"
    using sound_wf [of "Directory ?P"] payload_sound [OF assms(1)] by (simp add: wf_entries_def)
  have "row_bytes rows = payload_size (map row_member rows)" for rows
    by (induction rows) (auto simp: row_bytes_def payload_size_def row_member_def)
  then have bytes: "row_bytes ?rows \<le> MAX_BUNDLE_BYTES" using assms(2) by (simp add: archive_rows)
  have "\<exists>intake. rfold bundle_member ?start (map (\<lambda>row. Inr (row_member row)) ?rows) = Inr intake \<and> rebuilt ([] @ ?rows) intake"
  proof (rule rebuild_rows)
    show "rebuilt [] ?start" by (simp add: rebuilt_def row_bytes_def wf_entries_def)
    show "sorted (map fst ([] @ ?rows))" by simp
    show "distinct (map fst ([] @ ?rows))" using members_distinct [OF w] by (simp add: sort_key_fst_map)
    show "closed_rows ([] @ ?rows)" using members_closed [OF w] by (auto simp: closed_rows_def)
    show "\<forall>row \<in> set ([] @ ?rows). plain_row row \<and> fst row \<noteq> []"
      using payload_rows [OF assms(1)] members_nonempty by fastforce
    show "row_bytes ([] @ ?rows) \<le> MAX_BUNDLE_BYTES" using bytes by simp
  qed
  then show ?thesis by (auto simp: archive_rows comp_def rebuilt_def)
qed

text \<open>What a receiver needs of the world for a bundle that was created.\<close>

definition delivers :: "py_env \<Rightarrow> json_reader \<Rightarrow> task_spec \<Rightarrow> jdict \<Rightarrow> tar_member list \<Rightarrow> bool" where
  "delivers env read task manifest members \<longleftrightarrow>
     read (json_document env (task_raw task)) = Inr (task_raw task) \<and>
     read (json_document env (JObj manifest)) = Inr (JObj manifest) \<and> payload_size members \<le> MAX_BUNDLE_BYTES"

definition manifest_address :: "jdict \<Rightarrow> string" where
  "manifest_address manifest = str_of_json (dget ''bundle_id'' manifest)"

lemma bundle_manifest_fields:
  "dget ''schema'' (bundle_manifest env task c) = JStr BUNDLE_SCHEMA"
  "dget ''bundle_id'' (bundle_manifest env task c) = JStr (bundle_address env (task_digest task) c)"
  "dget ''task_id'' (bundle_manifest env task c) = JStr (task_id task)"
  "dget ''task_sha256'' (bundle_manifest env task c) = JStr (task_digest task)"
  "dget ''candidate_sha256'' (bundle_manifest env task c) = JStr c"
  "same_keys (bundle_manifest env task c) BUNDLE_FIELDS"
  by (simp_all add: bundle_manifest_def dget_def same_keys_def BUNDLE_FIELDS_def dict_keys_def dict_has_def)

lemma address_is_id: "transport_env env \<Longrightarrow> is_bundle_id (bundle_address env a b)"
  by (auto simp: transport_env_def is_bundle_id_def bundle_address_def digest_json_def hex_value_def list_all_iff
      dest: in_set_takeD)

lemma bundle_extracted:
  assumes create: "create_fleet_bundle env content path source (Some (Directory es)) workspace = Inr (task, manifest, members)"
    and es: "wf_entries es" "safely_named (Directory es)"
    and env: "keeps_absolute env" and del: "delivers env read task manifest members"
  shows "\<exists>intake kept c. manifest = bundle_manifest env task c \<and>
    rfold bundle_member \<lparr>bi_seen = [], bi_total = 0, bi_tree = []\<rparr> (map Inr members) = Inr intake \<and>
    dict_get ''candidate'' (bi_tree intake) = Some (Directory kept) \<and>
    snapshot_files kept = as_nodes (sort_key fst (kept_files es)) \<and>
    (\<forall>base. \<exists>t. task_digest t = task_digest task \<and>
       check_bundle env read base (manifest_address manifest) (bi_tree intake) = Inr (manifest, t, c)) \<and>
    (\<forall>target t. task_digest t = task_digest task \<longrightarrow> check_existing env read target (bi_tree intake) manifest t c = Inr ())"
proof -
  obtain cand c where load: "load_task env content path = Inr task"
    and rel: "fleet_task_is_relocatable (task_raw task) = Inr ()"
    and snap: "snapshot_candidate env source (Some (Directory es)) (path_join workspace ''payload/candidate'') = Inr (cand, c)"
    and man: "manifest = bundle_manifest env task c"
    and members: "members = archive_members (bundle_payload env task cand manifest)"
    using create unfolding create_fleet_bundle_def Let_def rbind_eq_Inr_iff split_paired_Ex prod.case sum.inject prod.inject
    by auto
  have clean: "clean es"
  proof (rule ccontr)
    assume "\<not> clean es"
    with snapshot_not_clean [of es] snap show False by (metis sum.distinct(1))
  qed
  have cand: "cand = copied es" and c: "c = sha256 env (frames (sort_key fst (kept_files es)))"
    using snapshot_clean [OF clean es(1), of env source "path_join workspace ''payload/candidate''"] snap by simp_all
  have sound: "sound cand" unfolding cand using clean es by (rule copied_sound)
  let ?P = "bundle_payload env task cand manifest"
  obtain intake where fold: "rfold bundle_member \<lparr>bi_seen = [], bi_total = 0, bi_tree = []\<rparr> (map Inr members) = Inr intake"
    and w: "wf_entries (bi_tree intake)" and rows: "set (members_below [] (bi_tree intake)) = set (members_below [] ?P)"
    using payload_rebuilt [OF sound, of env task manifest] del unfolding members delivers_def by blast
  let ?tree = "bi_tree intake"
  have wt: "distinct (map fst ?tree)" using w by (simp add: wf_entries_simps)
  have "([''task.json''], RegularMember, json_document env (task_raw task)) \<in> set (members_below [] ?tree)"
    "([''manifest.json''], RegularMember, json_document env (JObj manifest)) \<in> set (members_below [] ?tree)"
    "([''candidate''], DirectoryMember, []) \<in> set (members_below [] ?tree)"
    unfolding rows by (simp_all add: bundle_payload_def)
  then obtain kept where tj: "dict_get ''task.json'' ?tree = Some (RegularFile (json_document env (task_raw task)))"
    and mj: "dict_get ''manifest.json'' ?tree = Some (RegularFile (json_document env (JObj manifest)))"
    and kept: "dict_get ''candidate'' ?tree = Some (Directory kept)"
    using dict_get_member [OF wt] by blast
  have "(q, k, b) \<in> set (members_below [] kept) \<longleftrightarrow> (q, k, b) \<in> set (members_below [] cand)" for q k b
  proof (cases "q = []")
    case False
    have wp: "distinct (map fst ?P)" and gp: "dict_get ''candidate'' ?P = Some (Directory cand)"
      by (simp_all add: bundle_payload_def)
    have "(q, k, b) \<in> set (members_below [] kept) \<longleftrightarrow> (''candidate'' # q, k, b) \<in> set (members_below [] ?tree)"
      unfolding members_directory [OF wt kept] using False by blast
    also have "\<dots> \<longleftrightarrow> (q, k, b) \<in> set (members_below [] cand)"
      unfolding rows members_directory [OF wp gp] using False by blast
    finally show ?thesis .
  qed (simp add: members_nonempty)
  then have "set (members_below [] kept) = set (members_below [] cand)" by auto
  moreover have "wf_entries kept" using w dict_get_split [OF kept] by (auto simp: wf_entries_simps list_all_iff)
  moreover have "wf_entries cand" using sound_wf [of "Directory cand"] sound by (simp add: wf_entries_def)
  moreover have "no_other (members_below [] cand)" using sound_rows [OF sound] by (fastforce simp: no_other_def)
  ultimately have "snapshot_files kept = snapshot_files cand" by (intro snapshot_files_cong)
  also have sf: "\<dots> = as_nodes (sort_key fst (kept_files es))" unfolding cand using clean es(1) by (rule snapshot_files_copied)
  finally have files: "snapshot_files kept = as_nodes (sort_key fst (kept_files es))" .
  have hash: "hash_snapshot env base kept = Inr c" for base
    by (simp add: hash_snapshot_def snapshot_stream_def files hash_steps c)
  obtain raw src where "parse_task env raw src = Inr task"
    using load by (cases content) (auto simp: load_task_def Let_def)
  moreover from parse_task_Inr [OF this] have "raw = task_raw task" by simp
  ultimately have "parse_task env (task_raw task) src' = Inr (task\<lparr>task_source_path := src'\<rparr>)" for src'
    using parse_task_anywhere rel env by blast
  then have "\<exists>t. load_task env (FileParsed (task_raw task)) p = Inr t \<and> task_digest t = task_digest task \<and> task_id t = task_id task" for p
    by (simp add: load_task_def Let_def)
  then have lt: "\<exists>t. load_task_file env read base ?tree = Inr t \<and> task_digest t = task_digest task \<and> task_id t = task_id task" for base
    using del by (simp add: load_task_file_def Let_def tj delivers_def)
  have check: "\<exists>t. task_digest t = task_digest task \<and> check_bundle env read base (manifest_address manifest) ?tree = Inr (manifest, t, c)" for base
  proof -
    obtain t where t: "load_task_file env read base ?tree = Inr t" "task_digest t = task_digest task" "task_id t = task_id task"
      using lt by blast
    have "check_bundle env read base (manifest_address manifest) ?tree = Inr (manifest, t, c)"
      using del by (simp add: check_bundle_def read_manifest_def mj delivers_def t kept hash man bundle_manifest_fields manifest_address_def str_of_json_def)
    with t(2) show ?thesis by blast
  qed
  have existing: "check_existing env read target ?tree manifest t c = Inr ()" if "task_digest t = task_digest task" for target t
  proof -
    obtain old where "load_task_file env read target ?tree = Inr old" "task_digest old = task_digest task"
      using lt by blast
    with del that show ?thesis by (simp add: check_existing_def mj delivers_def kept hash py_eq_refl)
  qed
  show ?thesis using man fold kept files check existing by blast
qed

lemma receive_fresh:
  assumes "rfold bundle_member \<lparr>bi_seen = [], bi_total = 0, bi_tree = []\<rparr> stream = Inr intake" and "is_bundle_id address"
    and "check_bundle env read (path_join root_dir staging) address (bi_tree intake) = Inr (manifest, t, c)"
    and "dict_get address inbox = None"
  shows "receive_fleet_bundle env read root_dir staging inbox stream address =
    (Inr (manifest, False), inbox @ [(address, Directory (bi_tree intake))])"
  using assms by (simp add: receive_fleet_bundle_def Let_def)

lemma receive_present:
  assumes "rfold bundle_member \<lparr>bi_seen = [], bi_total = 0, bi_tree = []\<rparr> stream = Inr intake" and "is_bundle_id address"
    and "check_bundle env read (path_join root_dir staging) address (bi_tree intake) = Inr (manifest, t, c)"
    and "dict_get address inbox = Some (Directory old)"
    and "check_existing env read (path_join root_dir address) old manifest t c = Inr ()"
  shows "receive_fleet_bundle env read root_dir staging inbox stream address = (Inr (manifest, True), inbox)"
  using assms by (simp add: receive_fleet_bundle_def Let_def)

lemma dict_get_last: "dict_get k d = None \<Longrightarrow> dict_get k (d @ [(k, v)]) = Some v"
  by (induction d) (auto split: if_splits)

section \<open>Twins\<close>

text \<open>Two candidates with the same digest: the second holds the frame of the file it lacks.\<close>

definition twin_one :: entries where
  "twin_one = [(''a'', RegularFile []), (''b'', RegularFile [])]"

definition twin_two :: entries where
  "twin_two = [(''a'', RegularFile (file_frame [''b''] []))]"

definition twin_digest :: "py_env \<Rightarrow> string" where
  "twin_digest env = sha256 env (frames [([''a''], []), ([''b''], [])])"

lemma twin_facts:
  "wf_entries twin_one" "wf_entries twin_two" "clean twin_one" "clean twin_two"
  "safely_named (Directory twin_one)" "safely_named (Directory twin_two)"
  "copied twin_one = twin_one" "copied twin_two = twin_two"
  "sort_key fst (kept_files twin_one) = [([''a''], []), ([''b''], [])]"
  "sort_key fst (kept_files twin_two) = [([''a''], file_frame [''b''] [])]"
proof -
  show "wf_entries twin_one" "wf_entries twin_two" "clean twin_one" "clean twin_two"
    by (simp_all add: twin_one_def twin_two_def wf_entries_def clean_def)
  show "safely_named (Directory twin_one)" "safely_named (Directory twin_two)"
    by (simp_all add: twin_one_def twin_two_def safe_component_def is_component_def)
  show "copied twin_one = twin_one" "copied twin_two = twin_two"
    by (subst copied.simps, simp add: twin_one_def twin_two_def walk_files_def walk_directories_def visible_def IGNORED_NAMES_def)+
  show "sort_key fst (kept_files twin_one) = [([''a''], []), ([''b''], [])]"
    "sort_key fst (kept_files twin_two) = [([''a''], file_frame [''b''] [])]"
    by (simp_all add: twin_one_def twin_two_def kept_files_def IGNORED_NAMES_def)
qed

lemma twin_snapshots:
  "snapshot_candidate env src (Some (Directory twin_one)) dst = Inr (twin_one, twin_digest env)"
  "snapshot_candidate env src (Some (Directory twin_two)) dst = Inr (twin_two, twin_digest env)"
proof -
  have "frames [([''a''], file_frame [''b''] [])] = frames [([''a''], []), ([''b''], [])]"
    by (simp add: frames_def file_frame_def [of "[''a'']"] Let_def)
  then show "snapshot_candidate env src (Some (Directory twin_one)) dst = Inr (twin_one, twin_digest env)"
    "snapshot_candidate env src (Some (Directory twin_two)) dst = Inr (twin_two, twin_digest env)"
    using snapshot_clean [OF twin_facts(3,1), of env src dst] snapshot_clean [OF twin_facts(4,2), of env src dst]
    by (simp_all add: twin_facts(7-10) twin_digest_def)
qed

lemma payload_size_rows: "payload_size (archive_members es) = row_bytes (members_below [] es)"
proof -
  have "payload_size (map row_member rows) = row_bytes rows" for rows
    by (induction rows) (auto simp: row_bytes_def payload_size_def row_member_def)
  then have "payload_size (archive_members es) = row_bytes (sort_key fst (members_below [] es))"
    by (simp add: archive_rows)
  also have "\<dots> = row_bytes (members_below [] es)"
    unfolding row_bytes_def by (simp only: sum_mset_sum_list [symmetric] mset_map mset_sort)
  finally show ?thesis .
qed

lemma twin_create:
  assumes "load_task env content path = Inr task" and "fleet_task_is_relocatable (task_raw task) = Inr ()"
    and "read (json_document env (task_raw task)) = Inr (task_raw task)"
    and "read (json_document env (JObj (bundle_manifest env task (twin_digest env)))) = Inr (JObj (bundle_manifest env task (twin_digest env)))"
    and "length (json_document env (task_raw task)) +
      length (json_document env (JObj (bundle_manifest env task (twin_digest env)))) + 16 \<le> MAX_BUNDLE_BYTES"
    and "twin \<in> {twin_one, twin_two}"
  shows "\<exists>members. create_fleet_bundle env content path src (Some (Directory twin)) ws =
      Inr (task, bundle_manifest env task (twin_digest env), members) \<and>
    delivers env read task (bundle_manifest env task (twin_digest env)) members"
proof -
  let ?m = "bundle_manifest env task (twin_digest env)"
  have c: "create_fleet_bundle env content path src (Some (Directory twin)) ws =
      Inr (task, ?m, archive_members (bundle_payload env task twin ?m))"
    using assms(1,2,6) by (auto simp: create_fleet_bundle_def twin_snapshots Let_def)
  have l: "length (file_frame [''b''] []) = 9"
    by (simp add: file_frame_def Let_def be64_length posix_path_def utf8_def utf8_char_def)
  have "payload_size (archive_members (bundle_payload env task twin ?m)) \<le> MAX_BUNDLE_BYTES"
    using assms(5,6) l by (auto simp: payload_size_rows bundle_payload_def row_bytes_def twin_one_def twin_two_def)
  with c assms(3,4) show ?thesis by (simp add: delivers_def)
qed

section \<open>A concrete bundle\<close>

definition moved_task :: task_spec where
  "moved_task = sample_task\<lparr>task_raw := task_document sample_task, task_digest := zeros, task_source_path := ''/t.json''\<rparr>"

definition moved_manifest :: jdict where
  "moved_manifest = bundle_manifest transfer_env moved_task zeros"

definition moved_reader :: json_reader where
  "moved_reader bytes = Inr (if bytes = json_document transfer_env (JObj moved_manifest) then JObj moved_manifest
     else task_document sample_task)"

lemma digest_zeros: "sha256 transfer_env bytes = zeros"
  by (simp add: transfer_env_def attest_env_def)

lemma moved_load: "load_task transfer_env (FileParsed (task_document sample_task)) ''/t.json'' = Inr moved_task"
proof -
  have "expanduser transfer_env p = p" for p by (simp add: transfer_env_def attest_env_def sample_env_def)
  moreover have "resolve_path transfer_env ''/t.json'' = ''/t.json''" "resolve_path transfer_env ''/judge'' = ''/judge''"
    by (simp_all add: transfer_env_def path_is_absolute_def has_prefix_def)
  ultimately have "list_all (\<lambda>s. settled_cwd transfer_env (st_cwd s)) (task_stages sample_task)"
    "resolve_path transfer_env (expanduser transfer_env ''/t.json'') = ''/t.json''"
    by (simp_all add: sample_task_def settled_cwd_def path_is_absolute_def has_prefix_def stripped_def
        py_strip_def py_lstrip_def py_rstrip_def py_isspace_def)
  from parse_task_document [OF sample_task_wf this(1)] this(2) show ?thesis
    by (simp add: load_task_def moved_task_def digest_json_def digest_zeros)
qed

lemma moved_facts:
  "task_raw moved_task = task_document sample_task" "task_digest moved_task = zeros" "task_id moved_task = ''gemm''"
  "keeps_absolute transfer_env" "twin_digest transfer_env = zeros"
  by (simp_all add: moved_task_def sample_task_def keeps_absolute_def twin_digest_def digest_zeros)
    (simp add: transfer_env_def attest_env_def sample_env_def)

lemma moved_relocatable: "fleet_task_is_relocatable (task_raw moved_task) = Inr ()"
  by (simp add: moved_facts fleet_task_is_relocatable_def task_document_def sample_task_def stage_document_def
      relocatable_stage_def absolute_value_def path_is_absolute_def has_prefix_def py_index_def dindex_def dget_def
      dget_or_def as_dict_def py_iter_def Let_def)

lemma moved_readable:
  "moved_reader (json_document transfer_env (task_raw moved_task)) = Inr (task_raw moved_task)"
  "moved_reader (json_document transfer_env (JObj (bundle_manifest transfer_env moved_task zeros))) =
     Inr (JObj (bundle_manifest transfer_env moved_task zeros))"
proof -
  have "json_pretty fr (task_document sample_task) 0 \<noteq> json_pretty fr (JObj moved_manifest) 0" for fr
    by (simp add: task_document_def moved_manifest_def bundle_manifest_def json_block_def new_line_def json_quote_def
        json_escape_def TASK_SCHEMA_def BUNDLE_SCHEMA_def)
  then have "json_document transfer_env (task_document sample_task) \<noteq> json_document transfer_env (JObj moved_manifest)"
    by (auto simp: json_document_def dest: utf8_inj)
  then show "moved_reader (json_document transfer_env (task_raw moved_task)) = Inr (task_raw moved_task)"
    "moved_reader (json_document transfer_env (JObj (bundle_manifest transfer_env moved_task zeros))) =
       Inr (JObj (bundle_manifest transfer_env moved_task zeros))"
    by (simp_all add: moved_reader_def moved_facts moved_manifest_def)
qed

lemma utf8_small: "length (utf8 s) \<le> 2 * length s"
  by (induction s) (simp_all add: utf8_def utf8_char_def Let_def)

lemma moved_small:
  "length (json_document transfer_env (task_raw moved_task)) +
     length (json_document transfer_env (JObj (bundle_manifest transfer_env moved_task zeros))) + 16 \<le> MAX_BUNDLE_BYTES"
proof -
  have z: "length (concat (map json_escape zeros)) = 64" "length (concat (map json_escape (take 32 zeros))) = 32"
    by code_simp+
  have a: "bundle_address transfer_env x y = take 32 zeros" for x y
    by (simp add: bundle_address_def digest_json_def digest_zeros)
  have f: "length (float_text transfer_env x) = 3" for x
    by (simp add: transfer_env_def attest_env_def sample_env_def)
  have "length (json_pretty (float_text transfer_env) (task_document sample_task) 0) \<le> 4000"
    by (simp add: task_document_def sample_task_def comparison_document_def stage_document_def request_resources_def
        sample_resources_def json_block_def new_line_def json_quote_def json_escape_def TASK_SCHEMA_def f
        opt_number_def int_text_def nat_text.simps)
  moreover have "length (json_pretty (float_text transfer_env) (JObj (bundle_manifest transfer_env moved_task zeros)) 0) \<le> 1000"
    by (simp add: bundle_manifest_def a z moved_facts json_block_def new_line_def json_quote_def json_escape_def BUNDLE_SCHEMA_def)
  ultimately show ?thesis
    using utf8_small [of "json_pretty (float_text transfer_env) (task_document sample_task) 0 @ [CHR 0x0A]"]
      utf8_small [of "json_pretty (float_text transfer_env) (JObj (bundle_manifest transfer_env moved_task zeros)) 0 @ [CHR 0x0A]"]
    by (simp add: MAX_BUNDLE_BYTES_def json_document_def moved_facts)
qed

lemmas moved_twin = moved_readable [folded moved_facts(5)] moved_small [folded moved_facts(5)]

section \<open>Properties\<close>

text \<open>C39: A bundle created from a relocatable task and a candidate directory is accepted by any
  inbox that lacks it: the stored directory holds exactly the regular files the snapshot
  keeps.  Received again it is answered as present and the inbox does not change.\<close>

theorem bundle_roundtrip:
  assumes "create_fleet_bundle env content path source (Some (Directory es)) workspace = Inr (task, manifest, members)"
    and "wf_entries es" and "safely_named (Directory es)" and "keeps_absolute env" and "transport_env env"
    and "delivers env read task manifest members" and "dict_get (manifest_address manifest) inbox = None"
  shows "\<exists>tree kept.
    receive_fleet_bundle env read root_dir staging inbox (map Inr members) (manifest_address manifest) =
      (Inr (manifest, False), inbox @ [(manifest_address manifest, Directory tree)]) \<and>
    dict_get ''candidate'' tree = Some (Directory kept) \<and>
    snapshot_files kept = as_nodes (sort_key fst (kept_files es)) \<and>
    receive_fleet_bundle env read root_dir staging' (inbox @ [(manifest_address manifest, Directory tree)]) (map Inr members)
        (manifest_address manifest) =
      (Inr (manifest, True), inbox @ [(manifest_address manifest, Directory tree)])"
proof -
  obtain intake kept c where man: "manifest = bundle_manifest env task c"
    and fold: "rfold bundle_member \<lparr>bi_seen = [], bi_total = 0, bi_tree = []\<rparr> (map Inr members) = Inr intake"
    and kept: "dict_get ''candidate'' (bi_tree intake) = Some (Directory kept)"
      "snapshot_files kept = as_nodes (sort_key fst (kept_files es))"
    and check: "\<And>base. \<exists>t. task_digest t = task_digest task \<and>
       check_bundle env read base (manifest_address manifest) (bi_tree intake) = Inr (manifest, t, c)"
    and existing: "\<And>target t. task_digest t = task_digest task \<Longrightarrow>
       check_existing env read target (bi_tree intake) manifest t c = Inr ()"
    using bundle_extracted [OF assms(1-4,6)] by blast
  have id: "is_bundle_id (manifest_address manifest)"
    using address_is_id [OF assms(5)] by (simp add: manifest_address_def man bundle_manifest_fields str_of_json_def)
  obtain t where t: "check_bundle env read (path_join root_dir staging) (manifest_address manifest) (bi_tree intake) = Inr (manifest, t, c)"
    using check by blast
  obtain t' where t': "check_bundle env read (path_join root_dir staging') (manifest_address manifest) (bi_tree intake) = Inr (manifest, t', c)"
    "task_digest t' = task_digest task" using check by blast
  show ?thesis
    using receive_fresh [OF fold id t assms(7)] kept
      receive_present [OF fold id t'(1) dict_get_last [OF assms(7)] existing [OF t'(2)]] by blast
qed

theorem bundle_roundtrip_witness:
  "\<exists>members tree kept.
    create_fleet_bundle transfer_env (FileParsed (task_document sample_task)) ''/t.json'' ''/c'' (Some (Directory twin_two)) ''/w'' =
      Inr (moved_task, moved_manifest, members) \<and>
    receive_fleet_bundle transfer_env moved_reader ''/inbox'' ''.tmp'' [] (map Inr members) (manifest_address moved_manifest) =
      (Inr (moved_manifest, False), [(manifest_address moved_manifest, Directory tree)]) \<and>
    dict_get ''candidate'' tree = Some (Directory kept) \<and>
    snapshot_files kept = as_nodes [([''a''], file_frame [''b''] [])]"
proof -
  obtain members where c: "create_fleet_bundle transfer_env (FileParsed (task_document sample_task)) ''/t.json'' ''/c''
        (Some (Directory twin_two)) ''/w'' = Inr (moved_task, moved_manifest, members)"
    and d: "delivers transfer_env moved_reader moved_task moved_manifest members"
    using twin_create [where read = moved_reader, OF moved_load moved_relocatable moved_twin, of twin_two]
    unfolding moved_manifest_def moved_facts(5) by blast
  show ?thesis
    using bundle_roundtrip [OF c twin_facts(2,6) moved_facts(4) transfer_env_ok d, of "[]" "''/inbox''" "''.tmp''" "''.tmp''"] c
    unfolding twin_facts(10) by auto
qed

text \<open>C40: The address of a bundle does not identify the candidate.  Whatever the hash function,
  two different candidates give the same manifest for a task; once the first is stored, the
  bundle of the second is answered as already present, and the node keeps the first.\<close>

theorem different_candidate_answered_reused:
  assumes "load_task env content path = Inr task" and "fleet_task_is_relocatable (task_raw task) = Inr ()"
    and "keeps_absolute env" and "transport_env env"
    and "read (json_document env (task_raw task)) = Inr (task_raw task)"
    and "read (json_document env (JObj (bundle_manifest env task (twin_digest env)))) = Inr (JObj (bundle_manifest env task (twin_digest env)))"
    and "length (json_document env (task_raw task)) +
      length (json_document env (JObj (bundle_manifest env task (twin_digest env)))) + 16 \<le> MAX_BUNDLE_BYTES"
  shows "\<exists>manifest one two tree kept.
    create_fleet_bundle env content path src (Some (Directory twin_one)) ws = Inr (task, manifest, one) \<and>
    create_fleet_bundle env content path src (Some (Directory twin_two)) ws = Inr (task, manifest, two) \<and>
    receive_fleet_bundle env read root_dir staging [] (map Inr one) (manifest_address manifest) =
      (Inr (manifest, False), [(manifest_address manifest, Directory tree)]) \<and>
    receive_fleet_bundle env read root_dir staging' [(manifest_address manifest, Directory tree)] (map Inr two) (manifest_address manifest) =
      (Inr (manifest, True), [(manifest_address manifest, Directory tree)]) \<and>
    dict_get ''candidate'' tree = Some (Directory kept) \<and>
    snapshot_files kept = as_nodes [([''a''], []), ([''b''], [])]"
proof -
  let ?m = "bundle_manifest env task (twin_digest env)"
  obtain one where one: "create_fleet_bundle env content path src (Some (Directory twin_one)) ws = Inr (task, ?m, one)"
    "delivers env read task ?m one" using twin_create [OF assms(1,2,5-7), of twin_one] by blast
  obtain two where two: "create_fleet_bundle env content path src (Some (Directory twin_two)) ws = Inr (task, ?m, two)"
    "delivers env read task ?m two" using twin_create [OF assms(1,2,5-7), of twin_two] by blast
  obtain intake kept c where fold: "rfold bundle_member \<lparr>bi_seen = [], bi_total = 0, bi_tree = []\<rparr> (map Inr one) = Inr intake"
    and kept: "dict_get ''candidate'' (bi_tree intake) = Some (Directory kept)"
      "snapshot_files kept = as_nodes (sort_key fst (kept_files twin_one))"
    and m: "?m = bundle_manifest env task c"
    and check: "\<And>base. \<exists>t. task_digest t = task_digest task \<and>
       check_bundle env read base (manifest_address ?m) (bi_tree intake) = Inr (?m, t, c)"
    and existing: "\<And>target t. task_digest t = task_digest task \<Longrightarrow> check_existing env read target (bi_tree intake) ?m t c = Inr ()"
    using bundle_extracted [OF one(1) twin_facts(1,5) assms(3) one(2)] by blast
  obtain intake' c' where fold': "rfold bundle_member \<lparr>bi_seen = [], bi_total = 0, bi_tree = []\<rparr> (map Inr two) = Inr intake'"
    and m': "?m = bundle_manifest env task c'"
    and check': "\<And>base. \<exists>t. task_digest t = task_digest task \<and>
       check_bundle env read base (manifest_address ?m) (bi_tree intake') = Inr (?m, t, c')"
    using bundle_extracted [OF two(1) twin_facts(2,6) assms(3) two(2)] by blast
  have "c' = c" using m m' by (simp add: bundle_manifest_def)
  have id: "is_bundle_id (manifest_address ?m)"
    using address_is_id [OF assms(4)] by (simp add: manifest_address_def bundle_manifest_fields str_of_json_def)
  obtain t where t: "check_bundle env read (path_join root_dir staging) (manifest_address ?m) (bi_tree intake) = Inr (?m, t, c)"
    using check by blast
  obtain t' where t': "check_bundle env read (path_join root_dir staging') (manifest_address ?m) (bi_tree intake') = Inr (?m, t', c)"
    "task_digest t' = task_digest task" using check' unfolding \<open>c' = c\<close> by blast
  have first: "receive_fleet_bundle env read root_dir staging [] (map Inr one) (manifest_address ?m) =
      (Inr (?m, False), [(manifest_address ?m, Directory (bi_tree intake))])"
    using receive_fresh [OF fold id t, of "[]"] by simp
  have second: "receive_fleet_bundle env read root_dir staging' [(manifest_address ?m, Directory (bi_tree intake))] (map Inr two) (manifest_address ?m) =
      (Inr (?m, True), [(manifest_address ?m, Directory (bi_tree intake))])"
    by (rule receive_present [OF fold' id t'(1) _ existing [OF t'(2)]]) simp
  show ?thesis using one(1) two(1) first second kept(1) kept(2) [unfolded twin_facts(9)] by blast
qed

theorem different_candidate_answered_reused_witness:
  "\<exists>manifest one two tree.
    create_fleet_bundle transfer_env (FileParsed (task_document sample_task)) ''/t.json'' ''/c'' (Some (Directory twin_one)) ''/w'' =
      Inr (moved_task, manifest, one) \<and>
    create_fleet_bundle transfer_env (FileParsed (task_document sample_task)) ''/t.json'' ''/c'' (Some (Directory twin_two)) ''/w'' =
      Inr (moved_task, manifest, two) \<and>
    receive_fleet_bundle transfer_env moved_reader ''/inbox'' ''.tmp'' [] (map Inr one) (manifest_address manifest) =
      (Inr (manifest, False), tree) \<and>
    receive_fleet_bundle transfer_env moved_reader ''/inbox'' ''.tmp'' tree (map Inr two) (manifest_address manifest) =
      (Inr (manifest, True), tree)"
  using different_candidate_answered_reused [where read = moved_reader, OF moved_load moved_relocatable moved_facts(4)
      transfer_env_ok moved_twin, of "''/c''" "''/w''" "''/inbox''" "''.tmp''" "''.tmp''"]
  by blast

end
