(* ===== verification/Run_Manager.thy ===== *)
theory Run_Manager
  imports Runner_Facts
begin

text \<open>
  \<open>src/kernel_infra/runner.py\<close>: the manager of runs as the event loop sees it.  \<open>Runner\<close> has
  what one execution does to the store; here is the coroutine \<open>_run\<close> between its \<open>await\<close>s,
  with the requests that submit, cancel and wait.  A coroutine that was cancelled learns it
  when it is resumed.
\<close>

section \<open>State\<close>

text \<open>
  The coroutine of a run: not begun; suspended in a stage, with the reports so far; in its
  handler of the cancellation, waiting for the interrupted process.  \<open>NeverRan\<close> is one that
  was cancelled before it began: its \<open>finally\<close> does not run.
\<close>

datatype run_phase =
    Fresh
  | Executing "staged list"
  | Interrupting "staged list"
  | NeverRan

record run_coroutine =
  rc_task :: task_spec
  rc_phase :: run_phase
  rc_cancelled :: bool

text \<open>\<open>rk_done\<close> has the events of the runs submitted since startup, and whether they are set.\<close>

record run_manager =
  rk_store :: run_store
  rk_tasks :: "run_coroutine dict"
  rk_stops :: "run_lifecycle dict"
  rk_done :: "bool dict"

definition key_removed :: "string \<Rightarrow> 'a dict \<Rightarrow> 'a dict" where
  "key_removed k d = filter (\<lambda>p. fst p \<noteq> k) d"

lemma dict_get_removed [simp, dict_simps]: "dict_get k (key_removed k' d) = (if k = k' then None else dict_get k d)"
  by (induction d) (auto simp: key_removed_def)

definition set_phase :: "string \<Rightarrow> run_coroutine \<Rightarrow> run_phase \<Rightarrow> run_manager \<Rightarrow> run_manager" where
  "set_phase rid c p rk = rk\<lparr>rk_tasks := dict_set rid (c\<lparr>rc_phase := p, rc_cancelled := False\<rparr>) (rk_tasks rk)\<rparr>"

section \<open>Requests\<close>

definition manager_submit ::
  "py_env \<Rightarrow> clock \<Rightarrow> (string + int \<times> string) \<Rightarrow> string \<Rightarrow> task_spec \<Rightarrow> string \<Rightarrow> node option \<Rightarrow> string option \<Rightarrow>
     run_manager \<Rightarrow> (run_state \<times> run_manager) result" where
  "manager_submit env clock probe suffix task candidate content label rk =
     rbind (submit env clock probe suffix task candidate content label (rk_store rk)) (\<lambda>(s, st).
     Inr (s, rk\<lparr>rk_store := st, rk_done := dict_set (rn_id s) False (rk_done rk),
       rk_tasks := dict_set (rn_id s) \<lparr>rc_task = task, rc_phase = Fresh, rc_cancelled = False\<rparr> (rk_tasks rk)\<rparr>))"

text \<open>
  \<open>cancel\<close> up to its \<open>await\<close>: an answer at once, or \<open>None\<close> when it waits for the coroutine,
  after which the answer is always \<open>True\<close>.  A coroutine that never ran has ended: cancelling
  it has no effect.
\<close>

definition cancelled_task :: "run_coroutine \<Rightarrow> run_coroutine" where
  "cancelled_task c = (if rc_phase c = NeverRan then c else c\<lparr>rc_cancelled := True\<rparr>)"

definition cancel_request :: "string \<Rightarrow> run_manager \<Rightarrow> (bool option \<times> run_manager) result" where
  "cancel_request rid rk =
     rbind (read_state rid (rk_store rk)) (\<lambda>s.
     if is_terminal (rn_state s) then Inr (Some False, rk)
     else case dict_get rid (rk_tasks rk) of
       None \<Rightarrow> Inr (Some False, rk)
     | Some c \<Rightarrow> Inr (None, rk\<lparr>rk_stops := dict_set rid Cancelled (rk_stops rk),
         rk_tasks := dict_set rid (cancelled_task c) (rk_tasks rk)\<rparr>))"

text \<open>\<open>wait\<close> up to its \<open>await\<close>: the state, or \<open>None\<close> when it waits for the event.\<close>

definition wait_request :: "string \<Rightarrow> run_manager \<Rightarrow> run_state option result" where
  "wait_request rid rk =
     rbind (read_state rid (rk_store rk)) (\<lambda>s.
     if is_terminal (rn_state s) then Inr (Some s)
     else case dict_get rid (rk_done rk) of
       None \<Rightarrow> Inr (Some s)
     | Some b \<Rightarrow> if b then Inr (Some s) else Inr None)"

text \<open>At shutdown every coroutine that has not ended is cancelled.\<close>

definition shutdown_one :: "run_manager \<Rightarrow> string \<times> run_coroutine \<Rightarrow> run_manager" where
  "shutdown_one rk p =
     (if rc_phase (snd p) = NeverRan then rk
      else rk\<lparr>rk_stops := dict_set (fst p) Interrupted (rk_stops rk),
              rk_tasks := dict_set (fst p) (cancelled_task (snd p)) (rk_tasks rk)\<rparr>)"

definition close_runs :: "run_manager \<Rightarrow> run_manager" where
  "close_runs rk = foldl shutdown_one rk (rk_tasks rk)"

section \<open>The coroutine of a run\<close>

text \<open>The \<open>finally\<close> of \<open>_run\<close>.\<close>

definition end_run :: "string \<Rightarrow> run_store \<Rightarrow> run_manager \<Rightarrow> run_manager" where
  "end_run rid st rk =
     rk\<lparr>rk_store := st, rk_tasks := key_removed rid (rk_tasks rk), rk_stops := key_removed rid (rk_stops rk),
       rk_done := dict_set rid True (rk_done rk)\<rparr>"

text \<open>After the last stage: no \<open>await\<close> is left.\<close>

definition finish_run ::
  "py_env \<Rightarrow> clock \<Rightarrow> string \<Rightarrow> task_spec \<Rightarrow> staged list \<Rightarrow> string option \<Rightarrow> run_manager \<Rightarrow> run_manager result" where
  "finish_run env clock rid task results reason rk =
     rbind (read_request rid (rk_store rk)) (\<lambda>request.
     case complete_run env clock task request results reason (rk_store rk) of
       (None, st) \<Rightarrow> Inr (end_run rid st rk)
     | (Some e, st) \<Rightarrow> rbind (close_run clock task request results InfraError (exn_described e) st)
         (\<lambda>st'. Inr (end_run rid st' rk)))"

text \<open>A stage raised.\<close>

definition fail_run ::
  "clock \<Rightarrow> string \<Rightarrow> task_spec \<Rightarrow> staged list \<Rightarrow> exn \<Rightarrow> run_manager \<Rightarrow> run_manager result" where
  "fail_run clock rid task results e rk =
     rbind (read_request rid (rk_store rk)) (\<lambda>request.
     rbind (close_run clock task request results InfraError (exn_described e) (rk_store rk)) (\<lambda>st.
     Inr (end_run rid st rk)))"

text \<open>The rest of the handler of the cancellation, once the process has ended.\<close>

definition interrupt_finish ::
  "clock \<Rightarrow> string \<Rightarrow> task_spec \<Rightarrow> staged list \<Rightarrow> run_manager \<Rightarrow> run_manager result" where
  "interrupt_finish clock rid task results rk =
     rbind (read_request rid (rk_store rk)) (\<lambda>request.
     let stop = (case dict_get rid (rk_stops rk) of None \<Rightarrow> Interrupted | Some s \<Rightarrow> s) in
     rbind (close_run clock task request results stop (cancel_reason stop) (rk_store rk)) (\<lambda>st.
     Inr (end_run rid st rk)))"

section \<open>Steps of the event loop\<close>

text \<open>
  What the stages and their pumps write between two \<open>await\<close>s moves the run along its
  lifecycle and leaves it open (\<open>Runner_Facts\<close>).  The last two steps are those in which a
  coroutine ends without closing its run: a second cancellation inside the handler of the
  first, and a cancellation before the coroutine began.  \<open>calm\<close> excludes them.
\<close>

definition open_run :: "run_store \<Rightarrow> string \<Rightarrow> bool" where
  "open_run st rid \<longleftrightarrow> (\<exists>s. peek_run st rid = Some s \<and> \<not> is_terminal (rn_state s))"

inductive run_manager_step :: "py_env \<Rightarrow> clock \<Rightarrow> bool \<Rightarrow> run_manager \<Rightarrow> run_manager \<Rightarrow> bool"
  for env clock calm where
  submits: "manager_submit env clock probe suffix task candidate content label rk = Inr (s, rk') \<Longrightarrow>
    run_manager_step env clock calm rk rk'"
| begins: "dict_get rid (rk_tasks rk) = Some c \<Longrightarrow> rc_phase c = Fresh \<Longrightarrow> \<not> rc_cancelled c \<Longrightarrow>
    run_manager_step env clock calm rk (set_phase rid c (Executing []) rk)"
| progresses: "dict_get rid (rk_tasks rk) = Some c \<Longrightarrow> rc_phase c = Executing results \<Longrightarrow>
    advances rid (rk_store rk) st \<Longrightarrow> open_run st rid \<Longrightarrow> run_manager_step env clock calm rk (rk\<lparr>rk_store := st\<rparr>)"
| reports: "dict_get rid (rk_tasks rk) = Some c \<Longrightarrow> rc_phase c = Executing results \<Longrightarrow> \<not> rc_cancelled c \<Longrightarrow>
    run_manager_step env clock calm rk (set_phase rid c (Executing (results @ [r])) rk)"
| completes: "dict_get rid (rk_tasks rk) = Some c \<Longrightarrow> rc_phase c = Executing results \<Longrightarrow> \<not> rc_cancelled c \<Longrightarrow>
    finish_run env clock rid (rc_task c) results reason rk = Inr rk' \<Longrightarrow> run_manager_step env clock calm rk rk'"
| raises: "dict_get rid (rk_tasks rk) = Some c \<Longrightarrow> rc_phase c = Executing results \<Longrightarrow> \<not> rc_cancelled c \<Longrightarrow>
    fail_run clock rid (rc_task c) results e rk = Inr rk' \<Longrightarrow> run_manager_step env clock calm rk rk'"
| cancels: "cancel_request rid rk = Inr (answer, rk') \<Longrightarrow> run_manager_step env clock calm rk rk'"
| shuts: "run_manager_step env clock calm rk (close_runs rk)"
| interrupted: "dict_get rid (rk_tasks rk) = Some c \<Longrightarrow> rc_phase c = Executing results \<Longrightarrow> rc_cancelled c \<Longrightarrow>
    run_manager_step env clock calm rk (set_phase rid c (Interrupting results) rk)"
| closes: "dict_get rid (rk_tasks rk) = Some c \<Longrightarrow> rc_phase c = Interrupting results \<Longrightarrow> \<not> rc_cancelled c \<Longrightarrow>
    interrupt_finish clock rid (rc_task c) results rk = Inr rk' \<Longrightarrow> run_manager_step env clock calm rk rk'"
| stranded: "\<not> calm \<Longrightarrow> dict_get rid (rk_tasks rk) = Some c \<Longrightarrow> rc_phase c = Interrupting results \<Longrightarrow> rc_cancelled c \<Longrightarrow>
    run_manager_step env clock calm rk (end_run rid (rk_store rk) rk)"
| never_ran: "\<not> calm \<Longrightarrow> dict_get rid (rk_tasks rk) = Some c \<Longrightarrow> rc_phase c = Fresh \<Longrightarrow> rc_cancelled c \<Longrightarrow>
    run_manager_step env clock calm rk (set_phase rid c NeverRan rk)"

text \<open>After startup no coroutine exists and recovery has closed every run.\<close>

definition started_runs :: "run_manager \<Rightarrow> bool" where
  "started_runs rk \<longleftrightarrow> wf_store (rk_store rk) \<and> rk_tasks rk = [] \<and> rk_stops rk = [] \<and> rk_done rk = [] \<and>
     (\<forall>rid. \<not> open_run (rk_store rk) rid)"

inductive runs_reachable :: "py_env \<Rightarrow> clock \<Rightarrow> bool \<Rightarrow> run_manager \<Rightarrow> bool" for env clock calm where
  initial: "started_runs rk \<Longrightarrow> runs_reachable env clock calm rk"
| step: "runs_reachable env clock calm rk \<Longrightarrow> run_manager_step env clock calm rk rk' \<Longrightarrow> runs_reachable env clock calm rk'"

end
