(* ===== verification/Daemon.thy ===== *)
theory Daemon
  imports Run_Manager Services Diagnosis Py_Builtins
begin

text \<open>
  \<open>src/kernel_infra/server.py\<close>: the daemon that owns the run manager and the service manager
  and answers one request per connection.  \<open>dispatch\<close> is a request up to its first \<open>await\<close>:
  it answers, raises, or waits for something; \<open>resume\<close> is the code after the \<open>await\<close>, on the
  state the other coroutines have made meanwhile.  A request that raises keeps what it
  changed before.
\<close>

section \<open>State and surroundings\<close>

text \<open>The service manager reads the store of the run manager.\<close>

record daemon =
  dn_runs :: run_manager
  dn_services :: manager

definition services_of :: "daemon \<Rightarrow> manager" where
  "services_of d = (dn_services d)\<lparr>mg_runs := rk_store (dn_runs d)\<rparr>"

definition run_states :: "string option \<Rightarrow> daemon \<Rightarrow> run_state list" where
  "run_states tid d = list_states tid (rk_store (dn_runs d))"

text \<open>
  What the daemon reads from outside: files and candidates by path, the answers of the
  broker and its client, the random suffixes of the ids it creates, the disk.
\<close>

record world =
  wd_env :: py_env
  wd_clock :: clock
  wd_now :: string
  wd_instants :: instants
  wd_files :: "string \<Rightarrow> json_file"
  wd_nodes :: "string \<Rightarrow> node option"
  wd_exists :: "string \<Rightarrow> bool"
  wd_sha256_file :: "string \<Rightarrow> string"
  wd_suffix :: "nat \<Rightarrow> string"
  wd_scoped_probe :: "string + int \<times> string"
  wd_preflight :: preflight_world
  wd_outside :: outside
  wd_disk :: "int \<times> int \<times> int"
  wd_home :: string
  wd_runs_dir :: string
  wd_socket :: string
  wd_gpu_run :: string
  wd_version :: string
  wd_instance_id :: string
  wd_state_root :: string

definition broker_answer :: "world \<Rightarrow> jdict result" where
  "broker_answer w = query_broker (wd_env w) (wd_outside w) (wd_socket w)"

section \<open>Documents\<close>

definition opt_str :: "string option \<Rightarrow> json" where
  "opt_str x = (case x of None \<Rightarrow> JNull | Some s \<Rightarrow> JStr s)"

definition int_list :: "int list \<Rightarrow> json" where
  "int_list xs = JList (map JInt xs)"

definition str_list :: "string list \<Rightarrow> json" where
  "str_list xs = JList (map JStr xs)"

text \<open>\<open>state.json\<close> of a run.\<close>

definition run_document :: "world \<Rightarrow> run_state \<Rightarrow> jdict" where
  "run_document w s =
     [(''schema'', JStr ''kernelinfra.state.v1''), (''run_id'', JStr (rn_id s)), (''task_id'', JStr (rn_task_id s)),
      (''task_sha256'', JStr (rn_task_sha256 s)), (''candidate_sha256'', JStr (rn_candidate_sha256 s)),
      (''label'', JStr (rn_label s)), (''state'', JStr (lifecycle_name (rn_state s))),
      (''stage_id'', opt_str (rn_stage_id s)), (''stage_kind'', opt_str (map_option kind_name (rn_stage_kind s))),
      (''stage_index'', (case rn_stage_index s of None \<Rightarrow> JNull | Some i \<Rightarrow> JInt (int i))),
      (''broker_job_id'', opt_str (rn_broker_job_id s)), (''gpu_ids'', int_list (rn_gpu_ids s)),
      (''service_deployment_ids'', str_list (rn_service_deployment_ids s)),
      (''accepted_at'', JStr (rn_accepted_at s)), (''updated_at'', JStr (rn_updated_at s)),
      (''terminal_at'', opt_str (rn_terminal_at s)), (''reason'', opt_str (rn_reason s)),
      (''run_dir'', JStr (wd_runs_dir w @ ''/'' @ rn_id s))]"

text \<open>\<open>request.json\<close> of a run.\<close>

definition run_request_document :: "run_request \<Rightarrow> jdict" where
  "run_request_document q =
     [(''schema'', JStr ''kernelinfra.request.v1''), (''run_id'', JStr (rq_run_id q)),
      (''task_id'', JStr (rq_task_id q)), (''task_sha256'', JStr (rq_task_sha256 q)),
      (''candidate_sha256'', JStr (rq_candidate_sha256 q)), (''candidate_source'', JStr (rq_candidate_source q)),
      (''task_source'', JStr (rq_task_source q)), (''label'', JStr (rq_label q)),
      (''accepted_at'', JStr (rq_accepted_at q)), (''stages'', JList (rq_stages q))]"

text \<open>The status of a deployment: its \<open>state.json\<close> and its consumers.\<close>

definition service_document :: "service_status \<Rightarrow> jdict" where
  "service_document v =
     (let s = ss_state v in
      [(''schema'', JStr ''kernelinfra.service-state.v1''), (''deployment_id'', JStr (sv_deployment_id s)),
       (''service_id'', JStr (sv_service_id s)), (''service_sha256'', JStr (sv_service_sha256 s)),
       (''state'', JStr (service_lifecycle_name (sv_state s))), (''broker_job_id'', opt_str (sv_broker_job_id s)),
       (''gpu_ids'', int_list (sv_gpu_ids s)), (''service_url'', JStr (sv_service_url s)),
       (''service_identity'', opt_str (sv_service_identity s)),
       (''admission_receipt'', JStr (sv_admission_receipt s)), (''deployment_receipt'', JStr (sv_deployment_receipt s)),
       (''accepted_at'', JStr (sv_accepted_at s)), (''updated_at'', JStr (sv_updated_at s)),
       (''ready_at'', opt_str (sv_ready_at s)), (''terminal_at'', opt_str (sv_terminal_at s)),
       (''reason'', opt_str (sv_reason s)),
       (''idle_grace_s'', (case sv_idle_grace_s s of None \<Rightarrow> JNull | Some x \<Rightarrow> JFloat x)),
       (''idle_since'', opt_str (sv_idle_since s)), (''deployment_dir'', JStr (sv_deployment_dir s)),
       (''active_consumers'', str_list (ss_consumers v)), (''active_consumer_count'', JInt (int (ss_consumer_count v)))])"

section \<open>Reading a request\<close>

definition json_path :: "json \<Rightarrow> string result" where
  "json_path v = (case v of JStr s \<Rightarrow> Inr (pure_path s)
     | _ \<Rightarrow> Inl (TypeError (''expected str, bytes or os.PathLike object, not '' @ json_type_name v)))"

definition path_field :: "string \<Rightarrow> jdict \<Rightarrow> string result" where
  "path_field k req = rbind (dindex k req) json_path"

definition text_of :: "world \<Rightarrow> json \<Rightarrow> string" where
  "text_of w v = py_str (float_text (wd_env w)) v"

definition to_float :: "world \<Rightarrow> json \<Rightarrow> py_float result" where
  "to_float w v = float_call (wd_env w) v"

definition timeout_of :: "world \<Rightarrow> jdict \<Rightarrow> py_float option result" where
  "timeout_of w req =
     (case dget ''timeout'' req of
        JNull \<Rightarrow> Inr None
      | v \<Rightarrow> rbind (to_float w v) (\<lambda>x.
          if flt_less x (Fin 0) then Inl (ValueError ''timeout must be non-negative'') else Inr (Some x)))"

definition task_at :: "world \<Rightarrow> string \<Rightarrow> task_spec result" where
  "task_at w path = load_task (wd_env w) (wd_files w (resolve_path (wd_env w) (expanduser (wd_env w) path))) path"

text \<open>\<open>label or ...\<close>: a label that is true but no text has no \<open>strip\<close>.\<close>

definition label_of :: "json \<Rightarrow> string option result" where
  "label_of v =
     (if \<not> py_truthy v then Inr None
      else case v of JStr s \<Rightarrow> Inr (Some s)
        | _ \<Rightarrow> Inl (AttributeError (repr_str (json_type_name v) @ '' object has no attribute '' @ repr_str ''strip'')))"

section \<open>Answers\<close>

datatype answer =
    RunAnswer run_state
  | RunsAnswer "run_state list"
  | CancelledAnswer bool
  | CheckedAnswer bool run_state
  | FrontierAnswer frontier_projection
  | ServiceAnswer service_status
  | StartedAnswer service_state
  | PreflightAnswer jdict
  | ServicesAnswer "service_status list"
  | StoppedAnswer bool
  | BoundAnswer jdict jdict
  | NodeAnswer jdict
  | DiagnosisAnswer diagnosis

text \<open>What a request waits for, with what it keeps across the \<open>await\<close>.\<close>

datatype awaited =
    RunEnds string
  | CancelEnds string
  | CheckedCancelEnds string
  | ServiceSettles string
  | StopEnds string string
  | ReceiptVerified jdict service_state jdict
  | BrokerForNode
  | BrokerForDiagnosis py_float "jdict list" "jdict dict" "string dict"

datatype progress = Answered answer | Waits awaited

section \<open>Submitting\<close>

definition submit_candidate ::
  "world \<Rightarrow> nat \<Rightarrow> task_spec \<Rightarrow> string \<Rightarrow> string option \<Rightarrow> daemon \<Rightarrow> (run_state \<times> daemon) result" where
  "submit_candidate w index task candidate label d =
     rbind (manager_submit (wd_env w) (wd_clock w) (wd_scoped_probe w) (wd_suffix w index) task candidate
              (wd_nodes w candidate) label (dn_runs d)) (\<lambda>(s, rk).
     Inr (s, d\<lparr>dn_runs := rk\<rparr>))"

definition op_submit :: "world \<Rightarrow> jdict \<Rightarrow> daemon \<Rightarrow> (run_state \<times> daemon) result" where
  "op_submit w req d =
     rbind (path_field ''task'' req) (\<lambda>path.
     rbind (task_at w path) (\<lambda>task.
     rbind (assert_task_deployments_ready task (services_of d)) (\<lambda>_.
     rbind (path_field ''candidate'' req) (\<lambda>candidate.
     rbind (label_of (dget ''label'' req)) (\<lambda>label.
     submit_candidate w 0 task candidate label d)))))"

text \<open>\<open>f"{index:03d}"\<close>.\<close>

definition three_digits :: "nat \<Rightarrow> string" where
  "three_digits n = replicate (3 - length (nat_text n)) CHR ''0'' @ nat_text n"

definition batch_label :: "string \<Rightarrow> nat \<Rightarrow> string \<Rightarrow> string" where
  "batch_label prefix index path = (if prefix \<noteq> [] then prefix @ three_digits index else path_name path)"

text \<open>The loop over the candidates stops at the first that cannot be submitted; the runs before it stay.\<close>

fun submit_all ::
  "world \<Rightarrow> task_spec \<Rightarrow> string \<Rightarrow> nat \<Rightarrow> string list \<Rightarrow> daemon \<Rightarrow> run_state list result \<times> daemon" where
  "submit_all w task prefix index [] d = (Inr [], d)"
| "submit_all w task prefix index (path # paths) d =
     (let label = batch_label prefix index path in
      case submit_candidate w index task path (if label = [] then None else Some label) d of
        Inl e \<Rightarrow> (Inl e, d)
      | Inr (s, d1) \<Rightarrow>
          (case submit_all w task prefix (Suc index) paths d1 of
             (runs, d2) \<Rightarrow> (rbind runs (\<lambda>rs. Inr (s # rs)), d2)))"

text \<open>What \<open>submit_many\<close> does before it accepts the first run.\<close>

definition batch_of :: "world \<Rightarrow> jdict \<Rightarrow> daemon \<Rightarrow> (task_spec \<times> string list) result" where
  "batch_of w req d =
     (case dget ''candidates'' req of
        JList (c # cs) \<Rightarrow>
          rbind (path_field ''task'' req) (\<lambda>path.
          rbind (task_at w path) (\<lambda>task.
          rbind (assert_task_deployments_ready task (services_of d)) (\<lambda>_.
          rbind (rtraverse (\<lambda>v. rbind (json_path v) (\<lambda>p.
              rbind (validate_candidate (resolve_path (wd_env w) (expanduser (wd_env w) p)) (wd_nodes w p)) (\<lambda>_. Inr p)))
              (c # cs)) (\<lambda>paths. Inr (task, paths)))))
      | _ \<Rightarrow> Inl (ValueError ''candidates must be a non-empty list''))"

definition batch_prefix :: "world \<Rightarrow> jdict \<Rightarrow> string" where
  "batch_prefix w req =
     (let v = dget ''label_prefix'' req in py_strip (if py_truthy v then text_of w v else []))"

definition op_submit_many :: "world \<Rightarrow> jdict \<Rightarrow> daemon \<Rightarrow> run_state list result \<times> daemon" where
  "op_submit_many w req d =
     (case batch_of w req d of
        Inl e \<Rightarrow> (Inl e, d)
      | Inr (task, paths) \<Rightarrow> submit_all w task (batch_prefix w req) 0 paths d)"

section \<open>Reading\<close>

text \<open>The argument of a filter: nothing, or a value the ids are compared with.\<close>

definition matches :: "json \<Rightarrow> string \<Rightarrow> bool" where
  "matches v k \<longleftrightarrow> v = JNull \<or> py_eq (JStr k) v"

definition op_status :: "world \<Rightarrow> jdict \<Rightarrow> daemon \<Rightarrow> run_state list result" where
  "op_status w req d =
     (let v = dget ''run_id'' req in
      if py_truthy v then rbind (read_state (text_of w v) (rk_store (dn_runs d))) (\<lambda>s. Inr [s])
      else Inr (filter (\<lambda>s. matches (dget ''task_id'' req) (rn_task_id s)) (run_states None d)))"

definition op_wait :: "world \<Rightarrow> jdict \<Rightarrow> daemon \<Rightarrow> progress result" where
  "op_wait w req d =
     rbind (timeout_of w req) (\<lambda>_.
     rbind (dindex ''run_id'' req) (\<lambda>v.
     rbind (wait_request (text_of w v) (dn_runs d)) (\<lambda>r.
     Inr (case r of Some s \<Rightarrow> Answered (RunAnswer s) | None \<Rightarrow> Waits (RunEnds (text_of w v))))))"

definition op_frontier :: "world \<Rightarrow> jdict \<Rightarrow> daemon \<Rightarrow> (frontier_projection \<times> daemon) result" where
  "op_frontier w req d =
     rbind (path_field ''task'' req) (\<lambda>path.
     rbind (task_at w path) (\<lambda>task.
     rbind (write_frontier (wd_env w) (wd_clock w) task (rk_store (dn_runs d))) (\<lambda>(projection, st).
     Inr (projection, d\<lparr>dn_runs := (dn_runs d)\<lparr>rk_store := st\<rparr>\<rparr>))))"

section \<open>Cancelling\<close>

definition op_cancel :: "world \<Rightarrow> jdict \<Rightarrow> daemon \<Rightarrow> (progress \<times> daemon) result" where
  "op_cancel w req d =
     rbind (dindex ''run_id'' req) (\<lambda>v.
     rbind (cancel_request (text_of w v) (dn_runs d)) (\<lambda>(r, rk).
     Inr (case r of Some b \<Rightarrow> Answered (CancelledAnswer b) | None \<Rightarrow> Waits (CancelEnds (text_of w v)),
          d\<lparr>dn_runs := rk\<rparr>)))"

definition IDENTITY_FIELDS :: "string list" where
  "IDENTITY_FIELDS = [''task_id'', ''task_sha256'', ''candidate_sha256'']"

text \<open>The identity the client expects, checked against the state before anything is cancelled.\<close>

definition check_identity :: "jdict \<Rightarrow> string \<times> json \<Rightarrow> unit result" where
  "check_identity state p =
     (if is_str (snd p) \<and> py_eq (dget (fst p) state) (snd p) then Inr ()
      else Inl (ValueError (''checked cancel '' @ fst p @ '' drift'')))"

definition op_cancel_checked :: "world \<Rightarrow> jdict \<Rightarrow> daemon \<Rightarrow> (progress \<times> daemon) result" where
  "op_cancel_checked w req d =
     rbind (dindex ''run_id'' req) (\<lambda>v.
     let rid = text_of w v in
     case dget ''expected'' req of
       JObj expected \<Rightarrow>
         if \<not> list_all (\<lambda>k. dict_has k expected) IDENTITY_FIELDS
         then Inl (ValueError ''checked cancel has invalid expected identity'')
         else if \<not> list_all (\<lambda>k. k \<in> set (''run_dir'' # IDENTITY_FIELDS)) (dict_keys expected)
         then Inl (ValueError ''checked cancel has unexpected identity fields'')
         else
           rbind (read_state rid (rk_store (dn_runs d))) (\<lambda>s.
           rbind (rtraverse (check_identity (run_document w s)) expected) (\<lambda>_.
           rbind (cancel_request rid (dn_runs d)) (\<lambda>(r, rk).
           case r of
             None \<Rightarrow> Inr (Waits (CheckedCancelEnds rid), d\<lparr>dn_runs := rk\<rparr>)
           | Some b \<Rightarrow> rbind (read_state rid (rk_store rk)) (\<lambda>s'. Inr (Answered (CheckedAnswer b s'), d\<lparr>dn_runs := rk\<rparr>)))))
     | _ \<Rightarrow> Inl (ValueError ''checked cancel has invalid expected identity''))"

section \<open>Services\<close>

definition spec_at :: "world \<Rightarrow> string \<Rightarrow> service_spec result" where
  "spec_at w path = load_service_spec (wd_env w) (wd_files w (resolve_path (wd_env w) (expanduser (wd_env w) path))) path"

definition op_service_start :: "world \<Rightarrow> jdict \<Rightarrow> daemon \<Rightarrow> (service_state \<times> daemon) result" where
  "op_service_start w req d =
     rbind (path_field ''spec'' req) (\<lambda>path.
     rbind (spec_at w path) (\<lambda>spec.
     rbind (start_service (wd_env w) (wd_clock w) (wd_home w) (wd_suffix w 0) (wd_preflight w) spec (services_of d)) (\<lambda>(s, m).
     Inr (s, d\<lparr>dn_services := m\<rparr>))))"

definition op_service_preflight :: "world \<Rightarrow> jdict \<Rightarrow> daemon \<Rightarrow> jdict result" where
  "op_service_preflight w req d =
     rbind (path_field ''spec'' req) (\<lambda>path.
     rbind (spec_at w path) (\<lambda>spec.
     rbind (preflight (wd_env w) (wd_preflight w) spec (services_of d)) (\<lambda>broker.
     Inr (preflight_document (wd_now w) (wd_socket w) (wd_gpu_run w) spec broker))))"

definition op_service_status :: "world \<Rightarrow> jdict \<Rightarrow> daemon \<Rightarrow> service_status list result" where
  "op_service_status w req d =
     (let v = dget ''deployment_id'' req; m = services_of d in
      if py_truthy v then rbind (service_status (text_of w v) m) (\<lambda>s. Inr [s])
      else rtraverse (\<lambda>s. service_status (sv_deployment_id s) m)
        (filter (\<lambda>s. matches (dget ''service_id'' req) (sv_service_id s)) (service_list_states None (mg_services m))))"

definition op_service_wait :: "world \<Rightarrow> jdict \<Rightarrow> daemon \<Rightarrow> progress result" where
  "op_service_wait w req d =
     rbind (timeout_of w req) (\<lambda>_.
     rbind (dindex ''deployment_id'' req) (\<lambda>v.
     rbind (service_status (text_of w v) (services_of d)) (\<lambda>s.
     if sv_state (ss_state s) = SvcReady \<or> service_terminal (sv_state (ss_state s))
     then Inr (Answered (ServiceAnswer s)) else Inr (Waits (ServiceSettles (text_of w v))))))"

definition stop_reason :: string where
  "stop_reason = ''service stop requested''"

definition op_service_stop :: "world \<Rightarrow> jdict \<Rightarrow> daemon \<Rightarrow> (progress \<times> daemon) result" where
  "op_service_stop w req d =
     rbind (dindex ''deployment_id'' req) (\<lambda>v.
     rbind (stop_request (wd_clock w) (text_of w v) stop_reason (services_of d)) (\<lambda>(b, m).
     Inr (if b then Waits (StopEnds (text_of w v) stop_reason) else Answered (StoppedAnswer False), d\<lparr>dn_services := m\<rparr>)))"

definition op_bind :: "world \<Rightarrow> jdict \<Rightarrow> daemon \<Rightarrow> progress result" where
  "op_bind w req d =
     rbind (dindex ''deployment_id'' req) (\<lambda>did.
     rbind (path_field ''template'' req) (\<lambda>template.
     rbind (path_field ''output'' req) (\<lambda>output.
     rbind (path_field ''binding_output'' req) (\<lambda>binding.
     rbind (bind_begin (wd_env w) output binding (wd_exists w) (text_of w did) (services_of d)) (\<lambda>(s, receipt).
     Inr (Waits (ReceiptVerified req s receipt)))))))"

section \<open>The node\<close>

definition open_states :: "daemon \<Rightarrow> run_state list" where
  "open_states d = filter (\<lambda>s. \<not> is_terminal (rn_state s)) (run_states None d)"

definition run_summary :: "run_state \<Rightarrow> json" where
  "run_summary s = JObj [(''run_id'', JStr (rn_id s)), (''task_id'', JStr (rn_task_id s)),
     (''state'', JStr (lifecycle_name (rn_state s))), (''service_deployment_ids'', str_list (rn_service_deployment_ids s))]"

definition service_summary :: "service_status \<Rightarrow> json" where
  "service_summary v = JObj [(''deployment_id'', JStr (sv_deployment_id (ss_state v))),
     (''service_id'', JStr (sv_service_id (ss_state v))),
     (''state'', JStr (service_lifecycle_name (sv_state (ss_state v)))),
     (''active_consumer_count'', JInt (int (ss_consumer_count v)))]"

definition list_field :: "string \<Rightarrow> jdict \<Rightarrow> json" where
  "list_field k d = (case dict_get k d of None \<Rightarrow> JList [] | Some v \<Rightarrow> v)"

definition node_broker :: "jdict \<Rightarrow> json" where
  "node_broker b = JObj
     (map (\<lambda>k. (k, dget k b)) [''version'', ''broker_version'', ''instance_id'', ''probe_error'', ''shared_capacity''] @
      map (\<lambda>k. (k, list_field k b)) [''gpus'', ''running'', ''queue''])"

text \<open>\<open>_node_status\<close> after the broker answered.\<close>

definition node_status :: "world \<Rightarrow> jdict \<Rightarrow> daemon \<Rightarrow> jdict result" where
  "node_status w broker d =
     rbind (list_statuses None (services_of d)) (\<lambda>services.
     Inr [(''schema'', JStr ''kernelinfra.node-status.v1''), (''observed_at'', JStr (wd_now w)),
       (''kernelinfra_version'', JStr (wd_version w)), (''daemon_instance_id'', JStr (wd_instance_id w)),
       (''state_root'', JStr (wd_state_root w)),
       (''disk'', (case wd_disk w of (capacity, used, free) \<Rightarrow>
          JObj [(''total_bytes'', JInt capacity), (''used_bytes'', JInt used), (''free_bytes'', JInt free)])),
       (''active_runs'', JList (map run_summary (open_states d))),
       (''services'', JList (map service_summary services)),
       (''ready_deployments'', JList (map (\<lambda>v. JStr (sv_deployment_id (ss_state v)))
          (filter (\<lambda>v. sv_state (ss_state v) = SvcReady) services))),
       (''broker'', node_broker broker)])"

text \<open>\<open>_diagnose\<close> before the broker is asked: the runs to look at and their requests.\<close>

definition attention_of :: "world \<Rightarrow> jdict \<Rightarrow> py_float result" where
  "attention_of w req =
     (let v = (case dict_get ''attention_after_s'' req of None \<Rightarrow> JFloat (Fin 300) | Some x \<Rightarrow> x) in
      case v of
        JBool b \<Rightarrow> Inl (ValueError ''attention_after_s must be non-negative'')
      | _ \<Rightarrow>
          (case to_float w v of
             Inl (OverflowError m) \<Rightarrow> Inl (OverflowError m)
           | Inl e \<Rightarrow> Inl (ValueError ''attention_after_s must be non-negative'')
           | Inr x \<Rightarrow> if \<not> flt_isfinite x \<or> flt_less x (Fin 0)
               then Inl (ValueError ''attention_after_s must be finite and non-negative'') else Inr x))"

definition collect_request :: "daemon \<Rightarrow> jdict dict \<times> string dict \<Rightarrow> run_state \<Rightarrow> jdict dict \<times> string dict" where
  "collect_request d acc s =
     (case acc of (requests, errors) \<Rightarrow>
        (case read_request (rn_id s) (rk_store (dn_runs d)) of
           Inr q \<Rightarrow> (dict_set (rn_id s) (run_request_document q) requests, errors)
         | Inl e \<Rightarrow> (requests, dict_set (rn_id s) (exn_described e) errors)))"

definition op_diagnose :: "world \<Rightarrow> jdict \<Rightarrow> daemon \<Rightarrow> progress result" where
  "op_diagnose w req d =
     rbind (attention_of w req) (\<lambda>attention.
     let v = dget ''run_id'' req in
     rbind (if py_truthy v then rbind (read_state (text_of w v) (rk_store (dn_runs d))) (\<lambda>s. Inr [s])
            else Inr (open_states d)) (\<lambda>states.
     case foldl (collect_request d) ([], []) states of
       (requests, errors) \<Rightarrow>
         Inr (Waits (BrokerForDiagnosis attention (map (run_document w) states) requests errors))))"

text \<open>After the broker answered or failed; the services are read only now.\<close>

definition diagnose_finish ::
  "world \<Rightarrow> py_float \<Rightarrow> jdict list \<Rightarrow> jdict dict \<Rightarrow> string dict \<Rightarrow> daemon \<Rightarrow> diagnosis result" where
  "diagnose_finish w attention states requests errors d =
     rbind (list_statuses None (services_of d)) (\<lambda>services.
     build_diagnosis (wd_env w) (wd_instants w) (wd_now w) attention states requests errors
       (case broker_answer w of Inl e \<Rightarrow> None | Inr b \<Rightarrow> Some b)
       (case broker_answer w of Inl e \<Rightarrow> Some (exn_described e) | Inr b \<Rightarrow> None)
       (map service_document (filter (\<lambda>v. \<not> service_terminal (sv_state (ss_state v))) services)))"

section \<open>Dispatch\<close>

definition answered :: "('a \<Rightarrow> answer) \<Rightarrow> daemon \<Rightarrow> 'a result \<Rightarrow> progress result \<times> daemon" where
  "answered f d r = (rbind r (\<lambda>x. Inr (Answered (f x))), d)"

definition changed :: "('a \<Rightarrow> progress) \<Rightarrow> daemon \<Rightarrow> ('a \<times> daemon) result \<Rightarrow> progress result \<times> daemon" where
  "changed f d r = (case r of Inl e \<Rightarrow> (Inl e, d) | Inr (x, d') \<Rightarrow> (Inr (f x), d'))"

definition dispatch :: "world \<Rightarrow> json \<Rightarrow> daemon \<Rightarrow> progress result \<times> daemon" where
  "dispatch w request d =
     (case request of
        JObj req \<Rightarrow>
          (let op = dget ''op'' req in
           if op = JStr ''submit'' then changed (Answered \<circ> RunAnswer) d (op_submit w req d)
           else if op = JStr ''submit_many''
           then (case op_submit_many w req d of (runs, d') \<Rightarrow> answered RunsAnswer d' runs)
           else if op = JStr ''status'' then answered RunsAnswer d (op_status w req d)
           else if op = JStr ''wait'' then (op_wait w req d, d)
           else if op = JStr ''cancel'' then changed id d (op_cancel w req d)
           else if op = JStr ''cancel_checked'' then changed id d (op_cancel_checked w req d)
           else if op = JStr ''frontier'' then changed (Answered \<circ> FrontierAnswer) d (op_frontier w req d)
           else if op = JStr ''service_start'' then changed (Answered \<circ> StartedAnswer) d (op_service_start w req d)
           else if op = JStr ''service_preflight'' then answered PreflightAnswer d (op_service_preflight w req d)
           else if op = JStr ''service_status'' then answered ServicesAnswer d (op_service_status w req d)
           else if op = JStr ''service_wait'' then (op_service_wait w req d, d)
           else if op = JStr ''service_stop'' then changed id d (op_service_stop w req d)
           else if op = JStr ''service_bind_task'' then (op_bind w req d, d)
           else if op = JStr ''node_status'' then (Inr (Waits BrokerForNode), d)
           else if op = JStr ''diagnose'' then (op_diagnose w req d, d)
           else (Inl (ValueError (''unknown operation: '' @ py_repr (float_text (wd_env w)) op)), d))
      | _ \<Rightarrow> (Inl (ValueError ''request must be an object''), d))"

definition bind_resume :: "world \<Rightarrow> jdict \<Rightarrow> service_state \<Rightarrow> jdict \<Rightarrow> daemon \<Rightarrow> answer result" where
  "bind_resume w req s receipt d =
     rbind (dindex ''deployment_id'' req) (\<lambda>did.
     rbind (path_field ''template'' req) (\<lambda>template.
     rbind (path_field ''output'' req) (\<lambda>output.
     rbind (path_field ''binding_output'' req) (\<lambda>binding.
     rbind (bind_finish (wd_env w) (wd_outside w) (wd_now w) (wd_sha256_file w template) (wd_files w template) template
              output binding (text_of w did) s receipt (services_of d)) (\<lambda>(task, b).
     Inr (BoundAnswer task b))))))"

definition resume :: "world \<Rightarrow> awaited \<Rightarrow> daemon \<Rightarrow> answer result \<times> daemon" where
  "resume w a d =
     (case a of
        RunEnds rid \<Rightarrow> (rbind (read_state rid (rk_store (dn_runs d))) (\<lambda>s. Inr (RunAnswer s)), d)
      | CancelEnds rid \<Rightarrow> (Inr (CancelledAnswer True), d)
      | CheckedCancelEnds rid \<Rightarrow> (rbind (read_state rid (rk_store (dn_runs d))) (\<lambda>s. Inr (CheckedAnswer True s)), d)
      | ServiceSettles did \<Rightarrow> (rbind (service_status did (services_of d)) (\<lambda>s. Inr (ServiceAnswer s)), d)
      | StopEnds did reason \<Rightarrow>
          (case stop_finish (wd_clock w) did reason (services_of d) of
             Inl e \<Rightarrow> (Inl e, d) | Inr m \<Rightarrow> (Inr (StoppedAnswer True), d\<lparr>dn_services := m\<rparr>))
      | ReceiptVerified req s receipt \<Rightarrow> (bind_resume w req s receipt d, d)
      | BrokerForNode \<Rightarrow> (rbind (broker_answer w) (\<lambda>b. rbind (node_status w b d) (\<lambda>n. Inr (NodeAnswer n))), d)
      | BrokerForDiagnosis attention states requests errors \<Rightarrow>
          (rbind (diagnose_finish w attention states requests errors d) (\<lambda>x. Inr (DiagnosisAnswer x)), d))"

text \<open>The line a failed request is answered with: expected errors without their class.\<close>

fun expected_error :: "exn \<Rightarrow> bool" where
  "expected_error (JSONDecodeError m) = True"
| "expected_error (KeyError m) = True"
| "expected_error (TypeError m) = True"
| "expected_error (ValueError m) = True"
| "expected_error (ContractError m) = True"
| "expected_error (CandidateError m) = True"
| "expected_error e = False"

definition error_line :: "exn \<Rightarrow> string" where
  "error_line e = (if expected_error e then exn_str e else exn_described e)"

end
