(* ===== verification/Run_Manager_Facts.thy ===== *)
theory Run_Manager_Facts
  imports Run_Manager Runner_Outcomes Services
begin

text \<open>
  While no cancellation hits a run twice, every open run has its coroutine, so it is closed
  and every waiter is answered; a second cancellation while the first one interrupts the
  process leaves the run open for good.
\<close>

section \<open>What the sections change\<close>

lemma open_run_at: "open_run st rid \<longleftrightarrow> (\<exists>l. run_at rid st l \<and> \<not> is_terminal l)"
  unfolding open_run_def run_at_def by blast

lemma peek_files_of:
  assumes "files_of st' k = files_of st k"
  shows "peek_run st' k = peek_run st k"
  unfolding peek_run_def read_state_def read_files_def assms [unfolded files_of_def] ..

lemma open_run_other:
  assumes "files_of st' k = files_of st k"
  shows "open_run st' k = open_run st k"
  unfolding open_run_def peek_files_of [OF assms] ..

lemma advances_others: "advances rid st st' \<Longrightarrow> k \<noteq> rid \<Longrightarrow> files_of st' k = files_of st k"
  by (simp add: advances_def)

lemma advances_wf: "advances rid st st' \<Longrightarrow> wf_store st \<Longrightarrow> wf_store st'"
  by (simp add: advances_def)

lemma settled_not_open: "settled_run rid st l r \<Longrightarrow> \<not> open_run st rid"
  by (auto simp: settled_run_def open_run_def)

lemma request_id:
  assumes "wf_store st" and "read_request rid st = Inr request"
  shows "rq_run_id request = rid"
  using assms wf_store_get [OF assms(1), of rid]
  by (auto simp: read_request_def wf_run_def split: option.splits)

text \<open>How a coroutine ends its run: nothing else changes, the run is settled.\<close>

definition closed_by :: "string \<Rightarrow> run_manager \<Rightarrow> run_manager \<Rightarrow> bool" where
  "closed_by rid rk rk' \<longleftrightarrow> (\<exists>st l r. rk' = end_run rid st rk \<and> advances rid (rk_store rk) st \<and> settled_run rid st l r)"

lemma fail_run_closes:
  assumes "fail_run clock rid task results e rk = Inr rk'" and "open_run (rk_store rk) rid" and "wf_store (rk_store rk)"
  shows "closed_by rid rk rk'"
proof -
  from assms(1) obtain request st where r: "read_request rid (rk_store rk) = Inr request"
    "close_run clock task request results InfraError (exn_described e) (rk_store rk) = Inr st" "rk' = end_run rid st rk"
    by (auto simp: fail_run_def)
  from assms(2) obtain l where l: "run_at rid (rk_store rk) l" "\<not> is_terminal l" by (auto simp: open_run_at)
  from close_run_settles [OF l, of InfraError request clock task results "exn_described e"] request_id [OF assms(3) r(1)] r(2)
  show ?thesis unfolding closed_by_def r(3) by auto
qed

lemma finish_run_closes:
  assumes "finish_run env clock rid task results reason rk = Inr rk'" and "open_run (rk_store rk) rid"
    and "wf_store (rk_store rk)"
  shows "closed_by rid rk rk'"
proof -
  from assms(1) obtain request where q: "read_request rid (rk_store rk) = Inr request" by (auto simp: finish_run_def)
  obtain raised st where cr: "complete_run env clock task request results reason (rk_store rk) = (raised, st)"
    by (cases "complete_run env clock task request results reason (rk_store rk)")
  note r = q cr assms(1) [unfolded finish_run_def q rbind.simps cr prod.case]
  note rid = request_id [OF assms(3) r(1)]
  from assms(2) obtain l where l: "run_at rid (rk_store rk) l" "\<not> is_terminal l" by (auto simp: open_run_at)
  note c = complete_run_settles [OF l rid r(2) refl]
  show ?thesis
  proof (cases raised)
    case None
    with c r(3) have "rk' = end_run rid st rk" "advances rid (rk_store rk) st"
      "settled_run rid st (rr_outcome (aggregate_run_result task rid (rq_task_sha256 request) (rq_candidate_sha256 request)
         results reason)) (aggregate_run_result task rid (rq_task_sha256 request) (rq_candidate_sha256 request) results reason)"
      by simp_all
    then show ?thesis unfolding closed_by_def by blast
  next
    case (Some e)
    with r(3) obtain st' where st': "close_run clock task request results InfraError (exn_described e) st = Inr st'"
      "rk' = end_run rid st' rk" by auto
    from c Some have "run_at rid st l" by simp
    from close_run_settles [OF this l(2), of InfraError request clock task results "exn_described e"] rid st'(1) obtain r
      where "advances rid st st'" "settled_run rid st' InfraError r" by auto
    with c st'(2) show ?thesis unfolding closed_by_def by (blast intro: advances_trans)
  qed
qed

lemma interrupt_finish_closes:
  assumes "interrupt_finish clock rid task results rk = Inr rk'" and "open_run (rk_store rk) rid"
    and "wf_store (rk_store rk)" and "\<forall>s. dict_get rid (rk_stops rk) = Some s \<longrightarrow> is_terminal s"
  shows "closed_by rid rk rk'"
proof -
  define stop where "stop = (case dict_get rid (rk_stops rk) of None \<Rightarrow> Interrupted | Some s \<Rightarrow> s)"
  from assms(1) obtain request st where r: "read_request rid (rk_store rk) = Inr request"
    "close_run clock task request results stop (cancel_reason stop) (rk_store rk) = Inr st" "rk' = end_run rid st rk"
    by (auto simp: interrupt_finish_def Let_def stop_def)
  from assms(2) obtain l where l: "run_at rid (rk_store rk) l" "\<not> is_terminal l" by (auto simp: open_run_at)
  have "is_terminal stop" using assms(4) by (simp add: stop_def split: option.splits)
  from close_run_settles [OF l this, of request clock task results "cancel_reason stop"] request_id [OF assms(3) r(1)] r(2)
  show ?thesis unfolding closed_by_def r(3) by auto
qed

section \<open>The invariant\<close>

text \<open>For one run: whether it is open, its coroutine, its stop reason, its event.\<close>

definition coroutine_inv :: "bool \<Rightarrow> bool \<Rightarrow> run_coroutine option \<Rightarrow> run_lifecycle option \<Rightarrow> bool option \<Rightarrow> bool" where
  "coroutine_inv calm is_open task stop event \<longleftrightarrow>
     (task \<noteq> None \<longrightarrow> is_open) \<and> (calm \<and> is_open \<longrightarrow> task \<noteq> None) \<and> (event = Some False \<longleftrightarrow> task \<noteq> None) \<and> (stop \<noteq> None \<longrightarrow> task \<noteq> None) \<and>
     (\<forall>s. stop = Some s \<longrightarrow> is_terminal s) \<and> (\<forall>c. calm \<and> task = Some c \<longrightarrow> rc_phase c \<noteq> NeverRan)"

definition run_inv :: "bool \<Rightarrow> string \<Rightarrow> run_manager \<Rightarrow> bool" where
  "run_inv calm rid rk \<longleftrightarrow> coroutine_inv calm (open_run (rk_store rk) rid) (dict_get rid (rk_tasks rk)) (dict_get rid (rk_stops rk))
     (dict_get rid (rk_done rk))"

definition runs_inv :: "bool \<Rightarrow> run_manager \<Rightarrow> bool" where
  "runs_inv calm rk \<longleftrightarrow> wf_store (rk_store rk) \<and> (\<forall>rid. run_inv calm rid rk)"

lemma closed_inv:
  assumes "runs_inv calm rk" and "closed_by rid rk rk'"
  shows "runs_inv calm rk'"
proof -
  from assms(2) obtain st l r where c: "rk' = end_run rid st rk" "advances rid (rk_store rk) st" "settled_run rid st l r"
    unfolding closed_by_def by blast
  have "run_inv calm k rk'" for k
  proof (cases "k = rid")
    case True
    then show ?thesis using settled_not_open [OF c(3)] by (simp add: run_inv_def coroutine_inv_def c(1) end_run_def)
  next
    case False
    with assms(1) open_run_other [OF advances_others [OF c(2) False]] show ?thesis
      by (simp add: runs_inv_def run_inv_def c(1) end_run_def)
  qed
  with assms(1) advances_wf [OF c(2)] show ?thesis by (simp add: runs_inv_def c(1) end_run_def)
qed

lemma phase_inv:
  assumes "runs_inv calm rk" and "dict_get rid (rk_tasks rk) = Some c" and "calm \<longrightarrow> p \<noteq> NeverRan"
  shows "runs_inv calm (set_phase rid c p rk)"
  using assms by (auto simp: runs_inv_def run_inv_def coroutine_inv_def set_phase_def)

lemma submit_created:
  assumes "submit env clock probe suffix task candidate content label st = Inr (s, st')"
  shows "\<exists>effective. create_run env clock suffix task candidate content effective st = Inr (s, st')"
  using assms by (auto simp: submit_def Let_def split: if_splits)

lemma created_open:
  assumes "create_run env clock suffix task candidate content label st = Inr (s, st')"
  shows "peek_run st' (rn_id s) = Some s" and "open_run st' (rn_id s)" and "\<not> open_run st (rn_id s)"
    and "k \<noteq> rn_id s \<Longrightarrow> files_of st' k = files_of st k"
proof -
  note c = create_run_Inr [OF assms]
  from c(4) obtain files where "dict_get (rn_id s) (store_runs st') = Some files" "rf_state files = s" "wf_run (rn_id s) files"
    by blast
  then show p: "peek_run st' (rn_id s) = Some s" by (auto simp: peek_run_files wf_run_def)
  then show "open_run st' (rn_id s)" using c(2) by (simp add: open_run_def)
  show "\<not> open_run st (rn_id s)" using c(3) by (auto simp: open_run_def peek_run_files)
  show "files_of st' k = files_of st k" if "k \<noteq> rn_id s" using c(6) [OF that] by (simp add: files_of_def)
qed

lemma submit_inv:
  assumes "runs_inv calm rk" and "manager_submit env clock probe suffix task candidate content label rk = Inr (s, rk')"
  shows "runs_inv calm rk'"
proof -
  from assms(2) obtain st where st: "submit env clock probe suffix task candidate content label (rk_store rk) = Inr (s, st)"
    "rk' = rk\<lparr>rk_store := st, rk_done := dict_set (rn_id s) False (rk_done rk),
       rk_tasks := dict_set (rn_id s) \<lparr>rc_task = task, rc_phase = Fresh, rc_cancelled = False\<rparr> (rk_tasks rk)\<rparr>"
    by (auto simp: manager_submit_def)
  from submit_created [OF st(1)] obtain effective where
    c: "create_run env clock suffix task candidate content effective (rk_store rk) = Inr (s, st)" ..
  note o = created_open [OF c]
  have "run_inv calm k rk'" for k
  proof (cases "k = rn_id s")
    case True
    have "run_inv calm (rn_id s) rk" using assms(1) by (simp add: runs_inv_def)
    with True o(2,3) show ?thesis by (auto simp: run_inv_def coroutine_inv_def st(2))
  next
    case False
    with assms(1) open_run_other [OF o(4) [OF False]] show ?thesis by (simp add: runs_inv_def run_inv_def st(2))
  qed
  with assms(1) create_run_Inr(7) [OF c] show ?thesis by (simp add: runs_inv_def st(2))
qed

lemma cancel_inv:
  assumes "runs_inv calm rk" and "cancel_request rid rk = Inr (answer, rk')"
  shows "runs_inv calm rk'"
proof (cases "rk' = rk")
  case False
  with assms(2) obtain c where c: "dict_get rid (rk_tasks rk) = Some c"
    "rk' = rk\<lparr>rk_stops := dict_set rid Cancelled (rk_stops rk), rk_tasks := dict_set rid (cancelled_task c) (rk_tasks rk)\<rparr>"
    by (auto simp: cancel_request_def split: if_splits option.splits)
  with assms(1) show ?thesis by (auto simp: runs_inv_def run_inv_def coroutine_inv_def cancelled_task_def)
qed (use assms in simp)

lemma shutdown_inv:
  assumes "runs_inv calm rk" and "\<forall>(rid, c) \<in> set ps. \<exists>c'. dict_get rid (rk_tasks rk) = Some c'"
  shows "runs_inv calm (foldl shutdown_one rk ps)"
  using assms
proof (induction ps arbitrary: rk)
  case (Cons p ps)
  obtain rid c where p: "p = (rid, c)" by (cases p)
  have "runs_inv calm (shutdown_one rk p)"
    using Cons.prems p by (auto simp: shutdown_one_def runs_inv_def run_inv_def coroutine_inv_def cancelled_task_def)
  moreover have "\<forall>(rid, c) \<in> set ps. \<exists>c'. dict_get rid (rk_tasks (shutdown_one rk p)) = Some c'"
    using Cons.prems(2) by (auto simp: shutdown_one_def)
  ultimately show ?case using Cons.IH by simp
qed simp

lemma listed_tasks: "\<forall>(rid, c) \<in> set d. \<exists>c'. dict_get rid d = Some c'"
  by (auto simp: dict_get_def) (metis domD dom_map_of_conv_image_fst fst_conv image_eqI)

lemma step_inv:
  assumes "run_manager_step env clock calm rk rk'" and "runs_inv calm rk"
  shows "runs_inv calm rk'"
proof -
  have wf: "wf_store (rk_store rk)" using assms(2) by (simp add: runs_inv_def)
  show ?thesis using assms(1)
  proof cases
    case (progresses rid c results st)
    have inv: "run_inv calm k rk" for k using assms(2) by (simp add: runs_inv_def)
    have o: "open_run (rk_store rk) rid"
      using inv [of rid] progresses(2) by (simp add: run_inv_def coroutine_inv_def)
    have "run_inv calm k rk'" for k
      using inv [of k] open_run_other [OF advances_others [OF progresses(4)], of k] o progresses(5)
      by (cases "k = rid") (simp_all add: runs_inv_def run_inv_def progresses(1))
    with assms(2) advances_wf [OF progresses(4)] show ?thesis by (simp add: runs_inv_def progresses(1))
  next
    case (completes rid c results reason)
    then have "open_run (rk_store rk) rid" using assms(2) by (auto simp: runs_inv_def run_inv_def coroutine_inv_def)
    from closed_inv [OF assms(2) finish_run_closes [OF completes(4) this wf]] show ?thesis .
  next
    case (raises rid c results e)
    then have "open_run (rk_store rk) rid" using assms(2) by (auto simp: runs_inv_def run_inv_def coroutine_inv_def)
    from closed_inv [OF assms(2) fail_run_closes [OF raises(4) this wf]] show ?thesis .
  next
    case (closes rid c results)
    then have "open_run (rk_store rk) rid" "\<forall>s. dict_get rid (rk_stops rk) = Some s \<longrightarrow> is_terminal s"
      using assms(2) by (auto simp: runs_inv_def run_inv_def coroutine_inv_def)
    from closed_inv [OF assms(2) interrupt_finish_closes [OF closes(4) this(1) wf this(2)]] show ?thesis .
  next
    case (stranded rid c results)
    have "run_inv calm k rk'" for k
      using assms(2) stranded by (cases "k = rid") (auto simp: runs_inv_def run_inv_def coroutine_inv_def end_run_def)
    with wf show ?thesis by (simp add: runs_inv_def stranded(1) end_run_def)
  next
    case shuts
    then show ?thesis using shutdown_inv [OF assms(2) listed_tasks] by (simp add: close_runs_def)
  qed (use assms(2) in \<open>auto intro: submit_inv cancel_inv phase_inv\<close>)
qed

lemma reachable_runs_inv: "runs_reachable env clock calm rk \<Longrightarrow> runs_inv calm rk"
proof (induction rule: runs_reachable.induct)
  case (initial rk)
  then show ?case by (simp add: started_runs_def runs_inv_def run_inv_def coroutine_inv_def)
qed (rule step_inv)

section \<open>Runs that are closed\<close>

text \<open>
  A run that has ended: its coroutine is gone, its event is set, so whoever waits for one of
  them is resumed, and finds the run terminal in the store.
\<close>

definition run_ended :: "string \<Rightarrow> run_manager \<Rightarrow> bool" where
  "run_ended rid rk \<longleftrightarrow> dict_get rid (rk_tasks rk) = None \<and> dict_get rid (rk_done rk) = Some True \<and>
     (\<exists>s. read_state rid (rk_store rk) = Inr s \<and> is_terminal (rn_state s) \<and> wait_request rid rk = Inr (Some s))"

lemma closed_by_ended: "closed_by rid rk rk' \<Longrightarrow> run_ended rid rk'"
proof -
  assume "closed_by rid rk rk'"
  then obtain st l r where c: "rk' = end_run rid st rk" "settled_run rid st l r" unfolding closed_by_def by blast
  from c(2) obtain s where "read_state rid st = Inr s" "is_terminal (rn_state s)"
    by (auto simp: settled_run_def peek_run_def split: sum.splits)
  then show ?thesis by (simp add: run_ended_def c(1) end_run_def wait_request_def)
qed

text \<open>The only steps that close a run end it.\<close>

lemma step_ends:
  assumes "run_manager_step env clock True rk rk'" and "runs_inv True rk" and "open_run (rk_store rk) rid"
    and "\<not> open_run (rk_store rk') rid"
  shows "run_ended rid rk'"
proof -
  have wf: "wf_store (rk_store rk)" using assms(2) by (simp add: runs_inv_def)
  have live: "open_run (rk_store rk) k" "\<forall>x. dict_get k (rk_stops rk) = Some x \<longrightarrow> is_terminal x"
    if "dict_get k (rk_tasks rk) = Some c" for k c
    using assms(2) that by (auto simp: runs_inv_def run_inv_def coroutine_inv_def)
  have closing: "run_ended rid rk'" if "closed_by k rk rk'" for k
  proof (cases "k = rid")
    case True
    with that closed_by_ended show ?thesis by simp
  next
    case False
    from that obtain st where "rk_store rk' = st" "advances k (rk_store rk) st" by (auto simp: closed_by_def end_run_def)
    with open_run_other [OF advances_others, of k "rk_store rk" st rid] False assms(3,4) show ?thesis by simp
  qed
  show ?thesis using assms(1)
  proof cases
    case (submits probe suffix task candidate content label x)
    then obtain st where st: "submit env clock probe suffix task candidate content label (rk_store rk) = Inr (x, st)" "rk_store rk' = st"
      by (auto simp: manager_submit_def)
    from submit_created [OF st(1)] obtain effective where
      c: "create_run env clock suffix task candidate content effective (rk_store rk) = Inr (x, st)" ..
    have "rid \<noteq> rn_id x" using created_open(3) [OF c] assms(3) by auto
    with open_run_other [OF created_open(4) [OF c], of rid] assms(3,4) st(2) show ?thesis by simp
  next
    case (progresses k c results st)
    with open_run_other [OF advances_others [OF progresses(4)], of rid] assms(3,4) show ?thesis by (cases "rid = k") auto
  next
    case (completes k c results reason)
    from closing [OF finish_run_closes [OF completes(4) live(1) wf]] completes(1) show ?thesis by blast
  next
    case (raises k c results e)
    from closing [OF fail_run_closes [OF raises(4) live(1) wf]] raises(1) show ?thesis by blast
  next
    case (closes k c results)
    from closing [OF interrupt_finish_closes [OF closes(4) live(1) wf live(2)]] closes(1) show ?thesis by blast
  next
    case shuts
    have "rk_store (foldl shutdown_one a ps) = rk_store a" for a ps
      by (induction ps arbitrary: a) (simp_all add: shutdown_one_def)
    with shuts assms(3,4) show ?thesis by (simp add: close_runs_def)
  qed (use assms(3,4) in \<open>auto simp: set_phase_def cancel_request_def split: if_splits option.splits\<close>)
qed

text \<open>The handlers cannot fail on an open run.\<close>

lemma request_known: "open_run st rid \<Longrightarrow> \<exists>request. read_request rid st = Inr request"
  by (auto simp: open_run_def peek_run_files read_request_def)

lemma handlers_total:
  assumes "open_run (rk_store rk) rid" and "wf_store (rk_store rk)" and "\<forall>s. dict_get rid (rk_stops rk) = Some s \<longrightarrow> is_terminal s"
  shows "\<exists>rk'. fail_run clock rid task results e rk = Inr rk'" and "\<exists>rk'. interrupt_finish clock rid task results rk = Inr rk'"
proof -
  define stop where "stop = (case dict_get rid (rk_stops rk) of None \<Rightarrow> Interrupted | Some s \<Rightarrow> s)"
  have stop: "is_terminal stop" using assms(3) by (simp add: stop_def split: option.splits)
  obtain request where q: "read_request rid (rk_store rk) = Inr request" using request_known [OF assms(1)] ..
  obtain l where l: "run_at rid (rk_store rk) l" "\<not> is_terminal l" using assms(1) by (auto simp: open_run_at)
  note closing = close_run_settles [OF l _ request_id [OF assms(2) q], of _ clock task results]
  show "\<exists>rk'. fail_run clock rid task results e rk = Inr rk'"
    using closing [of InfraError "exn_described e"] by (auto simp: fail_run_def q)
  show "\<exists>rk'. interrupt_finish clock rid task results rk = Inr rk'"
    using closing [OF stop, of "cancel_reason stop"] by (auto simp: interrupt_finish_def q Let_def simp flip: stop_def)
qed

text \<open>A coroutine that has not been cancelled outside a stage can still end its run.\<close>

definition undisturbed :: "run_coroutine \<Rightarrow> bool" where
  "undisturbed c \<longleftrightarrow> (rc_cancelled c \<longrightarrow> (\<exists>results. rc_phase c = Executing results))"

lemma interrupting_ends:
  assumes "runs_reachable env clock True rk" and "dict_get rid (rk_tasks rk) = Some c" and "rc_phase c = Interrupting results"
    and "\<not> rc_cancelled c"
  shows "\<exists>rk'. (run_manager_step env clock True)\<^sup>*\<^sup>* rk rk' \<and> run_ended rid rk'"
proof -
  have i: "open_run (rk_store rk) rid" "wf_store (rk_store rk)" "\<forall>s. dict_get rid (rk_stops rk) = Some s \<longrightarrow> is_terminal s"
    using reachable_runs_inv [OF assms(1)] assms(2) by (auto simp: runs_inv_def run_inv_def coroutine_inv_def)
  obtain rk' where rk': "interrupt_finish clock rid (rc_task c) results rk = Inr rk'" using handlers_total(2) [OF i] by blast
  from run_manager_step.closes [OF assms(2-4) rk'] closed_by_ended [OF interrupt_finish_closes [OF rk' i]] show ?thesis by blast
qed

lemma executing_ends:
  assumes "runs_reachable env clock True rk" and "dict_get rid (rk_tasks rk) = Some c" and "rc_phase c = Executing results"
  shows "\<exists>rk'. (run_manager_step env clock True)\<^sup>*\<^sup>* rk rk' \<and> run_ended rid rk'"
proof (cases "rc_cancelled c")
  case True
  let ?rk1 = "set_phase rid c (Interrupting results) rk"
  have s: "run_manager_step env clock True rk ?rk1" using run_manager_step.interrupted [OF assms(2,3) True] .
  have "dict_get rid (rk_tasks ?rk1) = Some (c\<lparr>rc_phase := Interrupting results, rc_cancelled := False\<rparr>)" by (simp add: set_phase_def)
  from interrupting_ends [OF runs_reachable.step [OF assms(1) s] this] s show ?thesis
    by (auto intro: converse_rtranclp_into_rtranclp)
next
  case False
  have i: "open_run (rk_store rk) rid" "wf_store (rk_store rk)" "\<forall>s. dict_get rid (rk_stops rk) = Some s \<longrightarrow> is_terminal s"
    using reachable_runs_inv [OF assms(1)] assms(2) by (auto simp: runs_inv_def run_inv_def coroutine_inv_def)
  obtain rk' where rk': "fail_run clock rid (rc_task c) results (RuntimeError []) rk = Inr rk'" using handlers_total(1) [OF i] by blast
  from run_manager_step.raises [OF assms(2,3) False rk'] closed_by_ended [OF fail_run_closes [OF rk' i(1,2)]] show ?thesis by blast
qed

lemma undisturbed_ends:
  assumes "runs_reachable env clock True rk" and "dict_get rid (rk_tasks rk) = Some c" and "undisturbed c"
  shows "\<exists>rk'. (run_manager_step env clock True)\<^sup>*\<^sup>* rk rk' \<and> run_ended rid rk'"
proof (cases "rc_phase c")
  case Fresh
  then have n: "\<not> rc_cancelled c" using assms(3) by (simp add: undisturbed_def)
  let ?rk1 = "set_phase rid c (Executing []) rk"
  have s: "run_manager_step env clock True rk ?rk1" using run_manager_step.begins [OF assms(2) Fresh n] .
  have "dict_get rid (rk_tasks ?rk1) = Some (c\<lparr>rc_phase := Executing [], rc_cancelled := False\<rparr>)" by (simp add: set_phase_def)
  from executing_ends [OF runs_reachable.step [OF assms(1) s] this] s show ?thesis
    by (auto intro: converse_rtranclp_into_rtranclp)
next
  case (Executing results)
  with assms(1,2) executing_ends show ?thesis by blast
next
  case (Interrupting results)
  with assms interrupting_ends show ?thesis by (auto simp: undisturbed_def)
next
  case NeverRan
  with reachable_runs_inv [OF assms(1)] assms(2) show ?thesis by (auto simp: runs_inv_def run_inv_def coroutine_inv_def)
qed

section \<open>Runs that nobody closes\<close>

text \<open>An open run whose coroutine is gone: no step of the event loop changes it again.\<close>

definition abandoned :: "string \<Rightarrow> run_state \<Rightarrow> run_manager \<Rightarrow> bool" where
  "abandoned rid s rk \<longleftrightarrow> peek_run (rk_store rk) rid = Some s \<and> \<not> is_terminal (rn_state s) \<and>
     dict_get rid (rk_tasks rk) = None \<and> dict_get rid (rk_done rk) \<noteq> Some False"

lemma abandoned_kept:
  assumes "abandoned rid s rk" and "files_of (rk_store rk') rid = files_of (rk_store rk) rid"
    and "dict_get rid (rk_tasks rk') = None" and "dict_get rid (rk_done rk') = dict_get rid (rk_done rk)"
  shows "abandoned rid s rk'"
  using assms(1) peek_files_of [OF assms(2)] assms(3,4) by (simp add: abandoned_def)

lemma abandoned_closed:
  assumes "abandoned rid s rk" and "closed_by k rk rk'" and "dict_get k (rk_tasks rk) = Some c"
  shows "abandoned rid s rk'"
proof -
  have "rid \<noteq> k" using assms(1,3) by (auto simp: abandoned_def)
  moreover from assms(2) obtain st l r where c: "rk' = end_run k st rk" "advances k (rk_store rk) st"
    unfolding closed_by_def by blast
  ultimately show ?thesis
    using abandoned_kept [OF assms(1), of rk'] advances_others [OF c(2)] assms(1)
    by (simp add: c(1) end_run_def abandoned_def)
qed

lemma abandoned_step:
  assumes "run_manager_step env clock calm rk rk'" and "runs_inv calm rk" and "abandoned rid s rk"
  shows "abandoned rid s rk'"
proof -
  have wf: "wf_store (rk_store rk)" using assms(2) by (simp add: runs_inv_def)
  have live: "open_run (rk_store rk) k" "\<forall>x. dict_get k (rk_stops rk) = Some x \<longrightarrow> is_terminal x"
    if "dict_get k (rk_tasks rk) = Some c" for k c
    using assms(2) that by (auto simp: runs_inv_def run_inv_def coroutine_inv_def)
  have gone: "dict_get rid (rk_tasks rk) = None" using assms(3) by (simp add: abandoned_def)
  show ?thesis using assms(1)
  proof cases
    case (submits probe suffix task candidate content label x)
    then obtain st where st: "submit env clock probe suffix task candidate content label (rk_store rk) = Inr (x, st)"
      "rk' = rk\<lparr>rk_store := st, rk_done := dict_set (rn_id x) False (rk_done rk),
         rk_tasks := dict_set (rn_id x) \<lparr>rc_task = task, rc_phase = Fresh, rc_cancelled = False\<rparr> (rk_tasks rk)\<rparr>"
      by (auto simp: manager_submit_def)
    from submit_created [OF st(1)] obtain effective where
      c: "create_run env clock suffix task candidate content effective (rk_store rk) = Inr (x, st)" ..
    have "rid \<noteq> rn_id x" using created_open(3) [OF c] assms(3) by (auto simp: abandoned_def open_run_def)
    with abandoned_kept [OF assms(3), of rk'] created_open(4) [OF c] gone show ?thesis by (simp add: st(2))
  next
    case (progresses k c results st)
    then have "rid \<noteq> k" using gone by auto
    with abandoned_kept [OF assms(3), of rk'] advances_others [OF progresses(4)] gone show ?thesis
      by (simp add: progresses(1))
  next
    case (completes k c results reason)
    from abandoned_closed [OF assms(3) finish_run_closes [OF completes(4) live(1) wf]] completes(1) show ?thesis by blast
  next
    case (raises k c results e)
    from abandoned_closed [OF assms(3) fail_run_closes [OF raises(4) live(1) wf]] raises(1) show ?thesis by blast
  next
    case (closes k c results)
    from abandoned_closed [OF assms(3) interrupt_finish_closes [OF closes(4) live(1) wf live(2)]] closes(1) show ?thesis by blast
  next
    case (cancels k answer)
    then show ?thesis
      using assms(3) by (auto simp: cancel_request_def abandoned_def split: if_splits option.splits)
  next
    case shuts
    have "abandoned rid s (foldl shutdown_one a ps)" if "abandoned rid s a" "\<forall>p \<in> set ps. fst p \<noteq> rid" for a ps
      using that by (induction ps arbitrary: a) (auto simp: shutdown_one_def abandoned_def)
    moreover have "\<forall>p \<in> set (rk_tasks rk). fst p \<noteq> rid"
      using gone by (auto simp: dict_get_def map_of_eq_None_iff)
    ultimately show ?thesis using assms(3) shuts by (simp add: close_runs_def)
  qed (use assms(3) gone in \<open>auto simp: set_phase_def end_run_def abandoned_def\<close>)
qed

lemma abandoned_answers:
  assumes "abandoned rid s rk"
  shows "cancel_request rid rk = Inr (Some False, rk) \<and> wait_request rid rk = Inr (Some s)"
proof -
  from assms have "read_state rid (rk_store rk) = Inr s"
    by (auto simp: abandoned_def peek_run_def split: sum.splits)
  with assms show ?thesis
    by (auto simp: abandoned_def cancel_request_def wait_request_def split: option.splits)
qed

lemma abandoned_forever:
  assumes "(run_manager_step env clock calm)\<^sup>*\<^sup>* rk rk'" and "runs_reachable env clock calm rk" and "abandoned rid s rk"
  shows "abandoned rid s rk' \<and> runs_reachable env clock calm rk'"
  using assms
proof (induction rule: rtranclp_induct)
  case (step y z)
  then show ?case using abandoned_step [OF step(2) reachable_runs_inv] runs_reachable.step by blast
qed simp

lemma abandoned_holds_services:
  assumes "abandoned rid s rk" and "mg_runs m = rk_store rk" and "did \<in> set (rn_service_deployment_ids s)"
    and "service_read_state did (mg_services m) = Inr x" and "\<not> service_terminal (sv_state x)"
  shows "\<exists>e. stop_request clock did reason m = Inl (ValueError e)"
proof -
  from assms(1) have "peek_run (mg_runs m) rid = Some s" "\<not> is_terminal (rn_state s)"
    by (simp_all add: abandoned_def assms(2))
  with assms(3) have "s \<in> set (filter (is_consumer did) (list_states None (mg_runs m)))"
    by (auto simp: is_consumer_def intro: known_listed)
  then have "active_consumers did m \<noteq> []" by (auto simp: active_consumers_def filter_empty_conv)
  with assms(4,5) show ?thesis by (simp add: stop_request_def Let_def)
qed

text \<open>Cancelled, interrupted, cancelled again, resumed.\<close>

lemma second_cancel_abandons:
  assumes "runs_reachable env clock False rk" and "dict_get rid (rk_tasks rk) = Some c"
    and "rc_phase c = Executing results"
  shows "\<exists>s rk'. runs_reachable env clock False rk' \<and> abandoned rid s rk' \<and> peek_run (rk_store rk) rid = Some s"
proof -
  have "open_run (rk_store rk) rid"
    using reachable_runs_inv [OF assms(1)] assms(2) by (auto simp: runs_inv_def run_inv_def coroutine_inv_def)
  then obtain s where s: "peek_run (rk_store rk) rid = Some s" "\<not> is_terminal (rn_state s)" by (auto simp: open_run_def)
  then have read: "read_state rid (rk_store rk) = Inr s" by (simp add: peek_run_def split: sum.splits)
  define c1 where "c1 = c\<lparr>rc_cancelled := True\<rparr>"
  define rk1 where "rk1 = rk\<lparr>rk_stops := dict_set rid Cancelled (rk_stops rk), rk_tasks := dict_set rid c1 (rk_tasks rk)\<rparr>"
  have "cancel_request rid rk = Inr (None, rk1)"
    using read s assms(2,3) by (simp add: cancel_request_def rk1_def c1_def cancelled_task_def)
  with assms(1) have r1: "runs_reachable env clock False rk1" by (blast intro: runs_reachable.step run_manager_step.cancels)
  define rk2 where "rk2 = set_phase rid c1 (Interrupting results) rk1"
  have r2: "runs_reachable env clock False rk2"
    unfolding rk2_def by (rule runs_reachable.step [OF r1 run_manager_step.interrupted])
      (use assms(3) in \<open>simp_all add: rk1_def c1_def\<close>)
  define c3 where "c3 = c1\<lparr>rc_phase := Interrupting results, rc_cancelled := True\<rparr>"
  define rk3 where "rk3 = rk2\<lparr>rk_stops := dict_set rid Cancelled (rk_stops rk2), rk_tasks := dict_set rid c3 (rk_tasks rk2)\<rparr>"
  have "cancel_request rid rk2 = Inr (None, rk3)"
    using read s by (simp add: cancel_request_def rk3_def rk2_def rk1_def c3_def set_phase_def cancelled_task_def)
  with r2 have r3: "runs_reachable env clock False rk3" by (blast intro: runs_reachable.step run_manager_step.cancels)
  define rk4 where "rk4 = end_run rid (rk_store rk3) rk3"
  have "runs_reachable env clock False rk4"
    unfolding rk4_def by (rule runs_reachable.step [OF r3 run_manager_step.stranded [where c = c3 and results = results]])
      (simp_all add: rk3_def c3_def)
  moreover have "abandoned rid s rk4"
    using s by (simp add: abandoned_def rk4_def end_run_def rk3_def rk2_def rk1_def set_phase_def)
  ultimately show ?thesis using s(1) by blast
qed

section \<open>Properties\<close>

text \<open>C13: while no cancellation hits a coroutine twice or before it began, a run is open exactly
  as long as its coroutine exists and its event is not set: a wait for it waits, a
  cancellation waits for the coroutine, and both answer at once only for a run that has ended.
  Every step that closes a run ends its coroutine and sets its event, so those who wait are
  answered, with the terminal state; and as long as its coroutine has not been cancelled
  outside a stage there are steps that end the run.\<close>

theorem open_run_has_coroutine:
  assumes "runs_reachable env clock True rk"
  shows "(open_run (rk_store rk) rid \<longleftrightarrow> dict_get rid (rk_tasks rk) \<noteq> None) \<and>
    (open_run (rk_store rk) rid \<longleftrightarrow> dict_get rid (rk_done rk) = Some False) \<and>
    (\<forall>answer rk'. cancel_request rid rk = Inr (answer, rk') \<longrightarrow> (answer = None \<longleftrightarrow> open_run (rk_store rk) rid)) \<and>
    (\<forall>answer. wait_request rid rk = Inr answer \<longrightarrow> (answer = None \<longleftrightarrow> open_run (rk_store rk) rid)) \<and>
    (\<forall>c results rk'. dict_get rid (rk_tasks rk) = Some c \<and>
       interrupt_finish clock rid (rc_task c) results rk = Inr rk' \<longrightarrow> run_ended rid rk') \<and>
    (\<forall>rk'. run_manager_step env clock True rk rk' \<and> open_run (rk_store rk) rid \<and> \<not> open_run (rk_store rk') rid \<longrightarrow>
       run_ended rid rk') \<and>
    (\<forall>c. dict_get rid (rk_tasks rk) = Some c \<and> undisturbed c \<longrightarrow>
       (\<exists>rk'. (run_manager_step env clock True)\<^sup>*\<^sup>* rk rk' \<and> run_ended rid rk'))"
proof -
  have all: "runs_inv True rk" by (rule reachable_runs_inv [OF assms])
  then have inv: "run_inv True rid rk" and wf: "wf_store (rk_store rk)" by (simp_all add: runs_inv_def)
  have peek: "peek_run (rk_store rk) rid = Some s" if "read_state rid (rk_store rk) = Inr s" for s
    using that by (simp add: peek_run_def)
  have ended: "run_ended rid rk'"
    if "dict_get rid (rk_tasks rk) = Some c" "interrupt_finish clock rid (rc_task c) results rk = Inr rk'" for c results rk'
    using interrupt_finish_closes [OF that(2) _ wf] inv that(1) closed_by_ended by (auto simp: run_inv_def coroutine_inv_def)
  have answers: "(\<forall>answer rk'. cancel_request rid rk = Inr (answer, rk') \<longrightarrow> (answer = None \<longleftrightarrow> open_run (rk_store rk) rid)) \<and>
      (\<forall>answer. wait_request rid rk = Inr answer \<longrightarrow> (answer = None \<longleftrightarrow> open_run (rk_store rk) rid))"
    using inv
    by (auto simp: run_inv_def coroutine_inv_def cancel_request_def wait_request_def open_run_def
        split: if_splits option.splits dest!: peek)
  from inv have "open_run (rk_store rk) rid \<longleftrightarrow> dict_get rid (rk_tasks rk) \<noteq> None"
    "open_run (rk_store rk) rid \<longleftrightarrow> dict_get rid (rk_done rk) = Some False"
    by (auto simp: run_inv_def coroutine_inv_def)
  with answers ended step_ends [OF _ all] undisturbed_ends [OF assms] show ?thesis by blast
qed

definition sample_manager :: run_manager where
  "sample_manager = \<lparr>rk_store = empty_store, rk_tasks = [], rk_stops = [], rk_done = []\<rparr>"

definition sample_submitted :: "(run_state \<times> run_manager) result" where
  "sample_submitted = manager_submit sample_env nat_text (Inr (0, ''--allowed-gpus'')) ''000000000000'' sample_task ''/c/main.cu''
     (Some (RegularFile [1])) (Some ''try'') sample_manager"

lemma sample_manager_started: "started_runs sample_manager"
  using empty_store_wf
  by (simp add: started_runs_def sample_manager_def open_run_def peek_run_def read_state_def read_files_def
      empty_store_def run_dir_def)

lemma sample_submitted_Inr:
  "\<exists>s rk. sample_submitted = Inr (s, rk) \<and> peek_run (rk_store rk) sample_id = Some s \<and>
    dict_get sample_id (rk_tasks rk) = Some \<lparr>rc_task = sample_task, rc_phase = Fresh, rc_cancelled = False\<rparr> \<and>
    runs_reachable sample_env nat_text calm rk"
proof -
  obtain s where s: "sample_created = Inr (s, sample_store)" "rn_id s = sample_id" using sample_created_Inr by blast
  have "submit sample_env nat_text (Inr (0, ''--allowed-gpus'')) ''000000000000'' sample_task ''/c/main.cu'' (Some (RegularFile [1])) (Some ''try'')
      empty_store = sample_created"
  proof -
    have "py_strip ''try'' = ''try''" "check_scoped_client (Inr (0, ''--allowed-gpus'')) = Inr ()" by code_simp+
    then show ?thesis by (simp add: submit_def sample_created_def)
  qed
  note submitted = this
  have "\<exists>rk. sample_submitted = Inr (s, rk) \<and> rk_store rk = sample_store \<and>
    dict_get sample_id (rk_tasks rk) = Some \<lparr>rc_task = sample_task, rc_phase = Fresh, rc_cancelled = False\<rparr>"
    unfolding sample_submitted_def manager_submit_def sample_manager_def run_manager.simps submitted s by (simp add: s)
  then obtain rk where rk: "sample_submitted = Inr (s, rk)" "rk_store rk = sample_store"
    "dict_get sample_id (rk_tasks rk) = Some \<lparr>rc_task = sample_task, rc_phase = Fresh, rc_cancelled = False\<rparr>" by blast
  have "peek_run sample_store sample_id = Some s"
    using created_open(1) [OF s(1) [unfolded sample_created_def]] unfolding s(2) .
  moreover have "runs_reachable sample_env nat_text calm rk"
    using rk(1) runs_reachable.step [OF runs_reachable.initial [OF sample_manager_started] run_manager_step.submits]
    by (auto simp: sample_submitted_def)
  ultimately have "sample_submitted = Inr (s, rk) \<and> peek_run (rk_store rk) sample_id = Some s \<and>
    dict_get sample_id (rk_tasks rk) = Some \<lparr>rc_task = sample_task, rc_phase = Fresh, rc_cancelled = False\<rparr> \<and>
    runs_reachable sample_env nat_text calm rk" by (simp only: rk HOL.simp_thms)
  then show ?thesis by blast
qed

theorem open_run_has_coroutine_witness:
  "\<exists>rk rk'. runs_reachable sample_env nat_text True rk \<and> open_run (rk_store rk) sample_id \<and>
    wait_request sample_id rk = Inr None \<and> (run_manager_step sample_env nat_text True)\<^sup>*\<^sup>* rk rk' \<and> run_ended sample_id rk'"
proof -
  obtain s rk c where rk: "peek_run (rk_store rk) sample_id = Some s" "dict_get sample_id (rk_tasks rk) = Some c"
    "runs_reachable sample_env nat_text True rk" "undisturbed c"
    using sample_submitted_Inr [of True] by (auto simp: undisturbed_def)
  note p = open_run_has_coroutine [OF rk(3), of sample_id]
  then have o: "open_run (rk_store rk) sample_id" using rk(2) by simp
  have "read_state sample_id (rk_store rk) = Inr s" using rk(1) by (simp add: peek_run_def split: sum.splits)
  then have "\<exists>answer. wait_request sample_id rk = Inr answer"
    by (auto simp: wait_request_def split: option.split)
  then obtain answer where "wait_request sample_id rk = Inr answer" ..
  with p o rk(2-4) show ?thesis by blast
qed

text \<open>C14: a second cancellation that arrives while the first one still interrupts the process of a
  run loses the run: from any state in which it executes a stage the event loop can get to one
  in which the run is open and stays so whatever happens next.  Every later cancellation is
  answered with false, every wait returns at once with an open state, and no deployment the
  run uses can be stopped.\<close>

theorem double_cancel_abandons_run:
  assumes "runs_reachable env clock False rk" and "dict_get rid (rk_tasks rk) = Some c"
    and "rc_phase c = Executing results"
  shows "\<exists>s rk'. runs_reachable env clock False rk' \<and> peek_run (rk_store rk) rid = Some s \<and> \<not> is_terminal (rn_state s) \<and>
    (\<forall>rk''. (run_manager_step env clock False)\<^sup>*\<^sup>* rk' rk'' \<longrightarrow>
       peek_run (rk_store rk'') rid = Some s \<and> cancel_request rid rk'' = Inr (Some False, rk'') \<and>
       wait_request rid rk'' = Inr (Some s) \<and>
       (\<forall>m did reason x. mg_runs m = rk_store rk'' \<and> did \<in> set (rn_service_deployment_ids s) \<and>
          service_read_state did (mg_services m) = Inr x \<and> \<not> service_terminal (sv_state x) \<longrightarrow>
          (\<exists>e. stop_request clock did reason m = Inl (ValueError e))))"
proof -
  from second_cancel_abandons [OF assms] obtain s rk' where rk': "runs_reachable env clock False rk'"
    "abandoned rid s rk'" "peek_run (rk_store rk) rid = Some s" by blast
  have "peek_run (rk_store rk'') rid = Some s \<and> cancel_request rid rk'' = Inr (Some False, rk'') \<and>
      wait_request rid rk'' = Inr (Some s) \<and>
      (\<forall>m did reason x. mg_runs m = rk_store rk'' \<and> did \<in> set (rn_service_deployment_ids s) \<and>
          service_read_state did (mg_services m) = Inr x \<and> \<not> service_terminal (sv_state x) \<longrightarrow>
          (\<exists>e. stop_request clock did reason m = Inl (ValueError e)))"
    if "(run_manager_step env clock False)\<^sup>*\<^sup>* rk' rk''" for rk''
  proof -
    have a: "abandoned rid s rk''" using abandoned_forever [OF that rk'(1,2)] ..
    then show ?thesis using abandoned_answers [OF a] abandoned_holds_services [OF a] by (auto simp: abandoned_def)
  qed
  with rk' show ?thesis by (auto simp: abandoned_def)
qed

theorem double_cancel_abandons_run_witness:
  "\<exists>rk'. runs_reachable sample_env nat_text False rk' \<and> open_run (rk_store rk') sample_id \<and>
    cancel_request sample_id rk' = Inr (Some False, rk')"
proof -
  obtain s rk where rk: "peek_run (rk_store rk) sample_id = Some s"
    "dict_get sample_id (rk_tasks rk) = Some \<lparr>rc_task = sample_task, rc_phase = Fresh, rc_cancelled = False\<rparr>"
    "runs_reachable sample_env nat_text False rk" using sample_submitted_Inr [of False] by auto
  define rk1 where "rk1 = set_phase sample_id \<lparr>rc_task = sample_task, rc_phase = Fresh, rc_cancelled = False\<rparr> (Executing []) rk"
  have "runs_reachable sample_env nat_text False rk1"
    unfolding rk1_def by (rule runs_reachable.step [OF rk(3) run_manager_step.begins [OF rk(2)]]) simp_all
  moreover have "dict_get sample_id (rk_tasks rk1) = Some \<lparr>rc_task = sample_task, rc_phase = Executing [], rc_cancelled = False\<rparr>"
    by (simp add: rk1_def set_phase_def)
  ultimately obtain t rk' where a: "runs_reachable sample_env nat_text False rk'" "\<not> is_terminal (rn_state t)"
    "\<forall>rk''. (run_manager_step sample_env nat_text False)\<^sup>*\<^sup>* rk' rk'' \<longrightarrow>
       peek_run (rk_store rk'') sample_id = Some t \<and> cancel_request sample_id rk'' = Inr (Some False, rk'')"
    using double_cancel_abandons_run [of sample_env nat_text rk1 sample_id _ "[]"] by fastforce
  from a(3) have "peek_run (rk_store rk') sample_id = Some t \<and> cancel_request sample_id rk' = Inr (Some False, rk')" by blast
  with a(1,2) show ?thesis by (auto simp: open_run_def)
qed

end
