(* ===== verification/Daemon_Loop.thy ===== *)
theory Daemon_Loop
  imports Daemon Run_Manager_Facts Service_Lifecycle
begin

text \<open>
  The daemon as one event loop: requests, the resumption of what they wait for, and the
  coroutines of runs and of services, in any order.  Seen from the services every step is a
  step of their manager or a change of the runs under which no deployment gains a run, so
  the invariants of both managers hold together in every reachable state.
\<close>

section \<open>Which deployments the open runs use\<close>

definition uses :: "run_store \<Rightarrow> string \<Rightarrow> bool" where
  "uses st did \<longleftrightarrow> (\<exists>k files. files_of st k = Some files \<and> is_consumer did (rf_state files))"

definition no_new_use :: "run_store \<Rightarrow> run_store \<Rightarrow> bool" where
  "no_new_use st st' \<longleftrightarrow> (\<forall>did. uses st' did \<longrightarrow> uses st did)"

lemma consumers_uses:
  assumes "wf_store (mg_runs m)"
  shows "active_consumers did m = [] \<longleftrightarrow> \<not> uses (mg_runs m) did"
  using assms by (fastforce simp: consumers_none uses_def files_of_def wf_store_def dict_get_mem_iff)

lemma no_new_use_same: "store_runs st' = store_runs st \<Longrightarrow> no_new_use st st'"
  by (simp add: no_new_use_def uses_def files_of_def)

lemma chain_from_terminal:
  "successively lifecycle_step (x # xs) \<Longrightarrow> is_terminal x \<Longrightarrow> xs = []"
  by (cases xs) (auto dest: terminal_absorbing)

lemma advances_cases:
  assumes "advances rid st st'"
  obtains f g and more :: "run_event list" where "files_of st rid = Some f" "files_of st' rid = Some g"
    "successively lifecycle_step (rn_state (rf_state f) # map ev_state more)"
    "rn_state (rf_state g) = last (rn_state (rf_state f) # map ev_state more)"
    "rn_service_deployment_ids (rf_state g) = rn_service_deployment_ids (rf_state f)"
  using assms unfolding advances_def by (elim exE conjE) (rule that, assumption+)

lemma advances_no_new_use:
  assumes "advances rid st st'"
  shows "no_new_use st st'"
proof -
  obtain f g and more :: "run_event list" where f: "files_of st rid = Some f" "files_of st' rid = Some g"
    "successively lifecycle_step (rn_state (rf_state f) # map ev_state more)"
    "rn_state (rf_state g) = last (rn_state (rf_state f) # map ev_state more)"
    "rn_service_deployment_ids (rf_state g) = rn_service_deployment_ids (rf_state f)"
    using assms by (rule advances_cases)
  have "is_terminal (rn_state (rf_state f)) \<Longrightarrow> is_terminal (rn_state (rf_state g))"
    using chain_from_terminal [OF f(3)] f(4) by auto
  then have "is_consumer did (rf_state g) \<Longrightarrow> is_consumer did (rf_state f)" for did
    using f(5) by (auto simp: is_consumer_def)
  then have "uses st did" if "files_of st' k = Some h" "is_consumer did (rf_state h)" for did k h
    using that f(1,2) advances_others [OF assms, of k] by (cases "k = rid") (auto simp: uses_def)
  then show ?thesis by (auto simp: no_new_use_def uses_def [of st'])
qed

lemma closed_no_new_use: "closed_by rid rk rk' \<Longrightarrow> no_new_use (rk_store rk) (rk_store rk')"
  by (auto simp: closed_by_def end_run_def intro: advances_no_new_use)

text \<open>The steps of the runs but the submissions, which come only from requests.\<close>

definition no_new_run :: "run_manager \<Rightarrow> run_manager \<Rightarrow> bool" where
  "no_new_run rk rk' \<longleftrightarrow> (\<forall>k. files_of (rk_store rk) k = None \<longrightarrow> files_of (rk_store rk') k = None)"

lemma manager_submit_new:
  assumes "manager_submit env clock probe suffix task candidate content label rk = Inr (s, rk')"
  shows "\<not> no_new_run rk rk'"
proof -
  from assms obtain st where st: "submit env clock probe suffix task candidate content label (rk_store rk) = Inr (s, st)"
    "rk_store rk' = st" unfolding manager_submit_def rbind_eq_Inr_iff by auto
  from submit_created [OF st(1)] obtain e where c: "create_run env clock suffix task candidate content e (rk_store rk) = Inr (s, st)" ..
  obtain files where "dict_get (rn_id s) (store_runs st) = Some files" using create_run_Inr(4) [OF c] by blast
  with create_run_Inr(3) [OF c] st(2) show ?thesis by (auto simp: no_new_run_def files_of_def intro!: exI [of _ "rn_id s"])
qed

lemma run_step_no_new_use:
  assumes "run_manager_step env clock calm rk rk'" and "runs_inv calm rk" and "no_new_run rk rk'"
  shows "no_new_use (rk_store rk) (rk_store rk')"
proof -
  have wf: "wf_store (rk_store rk)" using assms(2) by (simp add: runs_inv_def)
  have live: "open_run (rk_store rk) k" "\<forall>x. dict_get k (rk_stops rk) = Some x \<longrightarrow> is_terminal x"
    if "dict_get k (rk_tasks rk) = Some c" for k c
    using assms(2) that by (auto simp: runs_inv_def run_inv_def coroutine_inv_def)
  have shut: "rk_store (foldl shutdown_one a ps) = rk_store a" for a ps
    by (induction ps arbitrary: a) (simp_all add: shutdown_one_def)
  show ?thesis using assms(1)
  proof cases
    case (submits probe suffix task candidate content label s)
    with manager_submit_new assms(3) show ?thesis by blast
  next
    case (progresses rid c results st)
    from advances_no_new_use [OF progresses(4)] progresses(1) show ?thesis by simp
  next
    case (completes rid c results reason)
    from closed_no_new_use [OF finish_run_closes [OF completes(4) live(1) wf]] completes(1) show ?thesis by blast
  next
    case (raises rid c results e)
    from closed_no_new_use [OF fail_run_closes [OF raises(4) live(1) wf]] raises(1) show ?thesis by blast
  next
    case (closes rid c results)
    from closed_no_new_use [OF interrupt_finish_closes [OF closes(4) live(1) wf live(2)]] closes(1) show ?thesis by blast
  next
    case (cancels rid answer)
    then show ?thesis by (auto simp: cancel_request_def intro!: no_new_use_same split: if_splits option.splits)
  qed (auto simp: set_phase_def end_run_def close_runs_def shut intro!: no_new_use_same)
qed

section \<open>Steps\<close>

text \<open>
  A request that waits for a coroutine goes on when that coroutine has ended; a \<open>wait\<close> also
  when its time is over.
\<close>

definition can_resume :: "awaited \<Rightarrow> daemon \<Rightarrow> bool" where
  "can_resume a d \<longleftrightarrow> (case a of
     CancelEnds rid \<Rightarrow> dict_get rid (rk_tasks (dn_runs d)) = None
   | CheckedCancelEnds rid \<Rightarrow> dict_get rid (rk_tasks (dn_runs d)) = None
   | StopEnds did reason \<Rightarrow> (did, reason) \<in> set (mg_pending (dn_services d)) \<and> task_ended did (dn_services d)
   | _ \<Rightarrow> True)"

definition same_host :: "py_env \<Rightarrow> clock \<Rightarrow> string \<Rightarrow> world \<Rightarrow> bool" where
  "same_host env clock home w \<longleftrightarrow> wd_env w = env \<and> wd_clock w = clock \<and> wd_home w = home"

inductive daemon_step :: "py_env \<Rightarrow> clock \<Rightarrow> string \<Rightarrow> daemon \<Rightarrow> daemon \<Rightarrow> bool" for env clock home where
  requested: "same_host env clock home w \<Longrightarrow> dispatch w request d = (answer, d') \<Longrightarrow> daemon_step env clock home d d'"
| resumed: "same_host env clock home w \<Longrightarrow> can_resume a d \<Longrightarrow> resume w a d = (answer', d') \<Longrightarrow>
    daemon_step env clock home d d'"
| run_goes_on: "run_manager_step env clock False (dn_runs d) rk \<Longrightarrow> no_new_run (dn_runs d) rk \<Longrightarrow>
    daemon_step env clock home d (d\<lparr>dn_runs := rk\<rparr>)"
| service_goes_on: "manager_step env clock home (services_of d) m \<Longrightarrow> mg_runs m = rk_store (dn_runs d) \<Longrightarrow>
    daemon_step env clock home d (d\<lparr>dn_services := m\<rparr>)"

text \<open>After startup recovery has closed every run and every deployment.\<close>

definition started_daemon :: "daemon \<Rightarrow> bool" where
  "started_daemon d \<longleftrightarrow> started_runs (dn_runs d) \<and> started_manager (services_of d)"

inductive daemon_reachable :: "py_env \<Rightarrow> clock \<Rightarrow> string \<Rightarrow> daemon \<Rightarrow> bool" for env clock home where
  initial: "started_daemon d \<Longrightarrow> daemon_reachable env clock home d"
| step: "daemon_reachable env clock home d \<Longrightarrow> daemon_step env clock home d d' \<Longrightarrow> daemon_reachable env clock home d'"

section \<open>What a request does\<close>

lemma services_of_runs [simp]: "services_of (d\<lparr>dn_runs := rk\<rparr>) = (services_of d)\<lparr>mg_runs := rk_store rk\<rparr>"
  by (simp add: services_of_def)

lemma services_of_services: "mg_runs m = rk_store (dn_runs d) \<Longrightarrow> services_of (d\<lparr>dn_services := m\<rparr>) = m"
  by (simp add: services_of_def)

lemma services_of_select [simp]: "mg_runs (services_of d) = rk_store (dn_runs d)"
  "mg_services (services_of d) = mg_services (dn_services d)" "mg_tasks (services_of d) = mg_tasks (dn_services d)"
  "mg_pending (services_of d) = mg_pending (dn_services d)" "mg_stop_reasons (services_of d) = mg_stop_reasons (dn_services d)"
  by (simp_all add: services_of_def)

text \<open>A run accepted: its deployments were ready, its coroutine was created.\<close>

definition accepts :: "world \<Rightarrow> task_spec \<Rightarrow> daemon \<Rightarrow> daemon \<Rightarrow> bool" where
  "accepts w task d d' \<longleftrightarrow> assert_task_deployments_ready task (services_of d) = Inr () \<and>
     (\<exists>probe suffix candidate content label s rk. manager_submit (wd_env w) (wd_clock w) probe suffix task candidate content label
        (dn_runs d) = Inr (s, rk) \<and> d' = d\<lparr>dn_runs := rk\<rparr>)"

lemma ready_services: "mg_services m' = mg_services m \<Longrightarrow>
    assert_task_deployments_ready task m' = assert_task_deployments_ready task m"
  by (simp add: assert_task_deployments_ready_def)

lemma submit_candidate_accepts:
  assumes "submit_candidate w i task path label d = Inr (s, d')" and "assert_task_deployments_ready task (services_of d) = Inr ()"
  shows "accepts w task d d'" and "assert_task_deployments_ready task (services_of d') = Inr ()"
proof -
  from assms(1) obtain rk where rk: "manager_submit (wd_env w) (wd_clock w) (wd_scoped_probe w) (wd_suffix w i) task path
      (wd_nodes w path) label (dn_runs d) = Inr (s, rk)" "d' = d\<lparr>dn_runs := rk\<rparr>"
    unfolding submit_candidate_def rbind_eq_Inr_iff by auto
  then show "accepts w task d d'" using assms(2) unfolding accepts_def by blast
  show "assert_task_deployments_ready task (services_of d') = Inr ()"
    using assms(2) ready_services [of "services_of d'" "services_of d"] rk(2) by simp
qed

lemma submit_all_accepts:
  "submit_all w task prefix i paths d = (runs, d') \<Longrightarrow> assert_task_deployments_ready task (services_of d) = Inr () \<Longrightarrow>
    (accepts w task)\<^sup>*\<^sup>* d d'"
proof (induction paths arbitrary: i d runs d')
  case (Cons path paths)
  define label where "label = batch_label prefix i path"
  show ?case
  proof (cases "submit_candidate w i task path (if label = [] then None else Some label) d")
    case (Inl e)
    with Cons.prems(1) show ?thesis by (simp add: label_def [symmetric] Let_def)
  next
    case (Inr q)
    obtain s d1 where p: "q = (s, d1)" by (cases q)
    obtain rest d2 where rest: "submit_all w task prefix (Suc i) paths d1 = (rest, d2)" by fastforce
    have "d' = d2" using Cons.prems(1) Inr p rest by (simp add: label_def [symmetric] Let_def)
    moreover note a = submit_candidate_accepts [OF Inr [unfolded p] Cons.prems(2)]
    ultimately show ?thesis using Cons.IH [OF rest a(2)] a(1) by (simp add: converse_rtranclp_into_rtranclp)
  qed
qed simp

lemma op_submit_accepts: "op_submit w req d = Inr (s, d') \<Longrightarrow> \<exists>task. accepts w task d d'"
  unfolding op_submit_def rbind_eq_Inr_iff by (metis submit_candidate_accepts(1) unit.exhaust)

lemma batch_of_Inr:
  assumes "batch_of w req d = Inr (task, paths)"
  shows "assert_task_deployments_ready task (services_of d) = Inr ()"
proof -
  obtain cs where cs: "dget ''candidates'' req = JList cs" using assms by (cases "dget ''candidates'' req") (simp_all add: batch_of_def)
  obtain x xs where "cs = x # xs" using assms cs by (cases cs) (simp_all add: batch_of_def)
  note r = assms [unfolded batch_of_def cs this json.case list.case rbind_eq_Inr_iff]
  then show ?thesis by auto
qed

lemma op_submit_many_accepts:
  assumes "op_submit_many w req d = (runs, d')"
  shows "\<exists>task. (accepts w task)\<^sup>*\<^sup>* d d'"
proof (cases "batch_of w req d")
  case (Inl e)
  with assms show ?thesis by (auto simp: op_submit_many_def)
next
  case (Inr p)
  obtain task paths where p: "p = (task, paths)" by (cases p)
  have "assert_task_deployments_ready task (services_of d) = Inr ()" by (rule batch_of_Inr [OF Inr [unfolded p]])
  moreover have "submit_all w task (batch_prefix w req) 0 paths d = (runs, d')"
    using assms Inr p by (simp add: op_submit_many_def)
  ultimately show ?thesis using submit_all_accepts by blast
qed

text \<open>Every change a request makes.\<close>

inductive request_change :: "world \<Rightarrow> daemon \<Rightarrow> daemon \<Rightarrow> bool" for w where
  none: "request_change w d d"
| submitted: "(accepts w task)\<^sup>*\<^sup>* d d' \<Longrightarrow> request_change w d d'"
| cancelled: "cancel_request rid (dn_runs d) = Inr (b, rk) \<Longrightarrow> request_change w d (d\<lparr>dn_runs := rk\<rparr>)"
| projected: "store_runs st = store_runs (rk_store (dn_runs d)) \<Longrightarrow>
    request_change w d (d\<lparr>dn_runs := (dn_runs d)\<lparr>rk_store := st\<rparr>\<rparr>)"
| started: "start_service (wd_env w) (wd_clock w) (wd_home w) suffix (wd_preflight w) spec (services_of d) = Inr (s, m) \<Longrightarrow>
    request_change w d (d\<lparr>dn_services := m\<rparr>)"
| stopped: "stop_request (wd_clock w) did reason (services_of d) = Inr (b, m) \<Longrightarrow>
    request_change w d (d\<lparr>dn_services := m\<rparr>)"

lemma op_cancel_change: "op_cancel w req d = Inr (p, d') \<Longrightarrow> request_change w d d'"
  unfolding op_cancel_def rbind_eq_Inr_iff by (auto intro: request_change.cancelled)

lemma op_cancel_checked_change:
  assumes "op_cancel_checked w req d = Inr (p, d')"
  shows "request_change w d d'"
proof -
  from assms obtain v where v: "dindex ''run_id'' req = Inr v" unfolding op_cancel_checked_def rbind_eq_Inr_iff by blast
  note r = assms [unfolded op_cancel_checked_def v rbind.simps Let_def]
  obtain expected where e: "dget ''expected'' req = JObj expected" using r by (cases "dget ''expected'' req") simp_all
  from r [unfolded e json.case] obtain s u b rk where c: "cancel_request (text_of w v) (dn_runs d) = Inr (b, rk)"
    "(case b of None \<Rightarrow> Inr (Waits (CheckedCancelEnds (text_of w v)), d\<lparr>dn_runs := rk\<rparr>)
      | Some b \<Rightarrow> rbind (read_state (text_of w v) (rk_store rk)) (\<lambda>s'. Inr (Answered (CheckedAnswer b s'), d\<lparr>dn_runs := rk\<rparr>)))
      = Inr (p, d')"
    by (auto split: if_splits)
  from c(2) have "d' = d\<lparr>dn_runs := rk\<rparr>" by (cases b) auto
  with request_change.cancelled [OF c(1)] show ?thesis by simp
qed

lemma op_frontier_change: "op_frontier w req d = Inr (p, d') \<Longrightarrow> request_change w d d'"
  unfolding op_frontier_def rbind_eq_Inr_iff by (auto intro!: request_change.projected dest: write_frontier_runs)

lemma op_start_change: "op_service_start w req d = Inr (s, d') \<Longrightarrow> request_change w d d'"
  unfolding op_service_start_def rbind_eq_Inr_iff by (auto intro: request_change.started)

lemma op_stop_change: "op_service_stop w req d = Inr (p, d') \<Longrightarrow> request_change w d d'"
  unfolding op_service_stop_def rbind_eq_Inr_iff by (auto intro: request_change.stopped)

lemma changed_change:
  "changed f d r = (x, d') \<Longrightarrow> (\<And>y d1. r = Inr (y, d1) \<Longrightarrow> request_change w d d1) \<Longrightarrow> request_change w d d'"
  by (auto simp: changed_def intro: request_change.none split: sum.splits)

lemma unchanged: "(x, d) = (answer, d') \<Longrightarrow> request_change w d d'" "answered f d r = (answer, d') \<Longrightarrow> request_change w d d'"
  by (auto simp: answered_def intro: request_change.none)

lemma if_answer: "(if P then x else y) = a \<Longrightarrow> (x = a \<Longrightarrow> Q) \<Longrightarrow> (y = a \<Longrightarrow> Q) \<Longrightarrow> Q"
  by (cases P) simp_all

lemma op_submit_change: "op_submit w req d = Inr (s, d') \<Longrightarrow> request_change w d d'"
  by (blast dest: op_submit_accepts intro: request_change.submitted)

lemma op_submit_many_change:
  assumes "(case op_submit_many w req d of (runs, x) \<Rightarrow> answered RunsAnswer x runs) = (answer, d')"
  shows "request_change w d d'"
proof -
  obtain runs where "op_submit_many w req d = (runs, d')"
    using assms by (cases "op_submit_many w req d") (simp add: answered_def)
  from op_submit_many_accepts [OF this] show ?thesis by (blast intro: request_change.submitted)
qed

lemma request_changes:
  "changed f1 d (op_submit w req d) = (x, d') \<Longrightarrow> request_change w d d'"
  "changed f2 d (op_cancel w req d) = (x, d') \<Longrightarrow> request_change w d d'"
  "changed f2 d (op_cancel_checked w req d) = (x, d') \<Longrightarrow> request_change w d d'"
  "changed f3 d (op_frontier w req d) = (x, d') \<Longrightarrow> request_change w d d'"
  "changed f4 d (op_service_start w req d) = (x, d') \<Longrightarrow> request_change w d d'"
  "changed f2 d (op_service_stop w req d) = (x, d') \<Longrightarrow> request_change w d d'"
  by (erule changed_change; blast intro: op_submit_change op_cancel_change op_cancel_checked_change op_frontier_change
      op_start_change op_stop_change)+

lemma dispatch_change:
  assumes "dispatch w request d = (answer, d')"
  shows "request_change w d d'"
proof (cases request)
  case (JObj req)
  show ?thesis
    using assms unfolding JObj dispatch_def json.case Let_def
    by (elim if_answer) (erule unchanged request_changes op_submit_many_change)+
qed (use assms in \<open>auto simp: dispatch_def intro: request_change.none\<close>)

text \<open>Of the resumptions only the second half of \<open>stop\<close> changes anything.\<close>

lemma resume_change:
  assumes "resume w a d = (answer, d')"
  shows "d' = d \<or> (\<exists>did reason m. a = StopEnds did reason \<and> stop_finish (wd_clock w) did reason (services_of d) = Inr m \<and>
    d' = d\<lparr>dn_services := m\<rparr>)"
  using assms by (cases a) (auto simp: resume_def split: sum.splits)

section \<open>The invariant\<close>

lemma start_service_runs: "start_service env clock home suffix pw spec m = Inr (s, m') \<Longrightarrow> mg_runs m' = mg_runs m"
  by (auto simp: start_service_def)

lemma stop_request_runs: "stop_request clock did reason m = Inr (b, m') \<Longrightarrow> mg_runs m' = mg_runs m"
  by (auto simp: stop_request_def Let_def dest!: update_service_fields split: if_splits option.splits)

lemma stop_finish_runs:
  assumes "stop_finish clock did reason m = Inr m'"
  shows "mg_runs m' = mg_runs m"
proof -
  let ?m = "m\<lparr>mg_pending := remove1 (did, reason) (mg_pending m)\<rparr>"
  from assms obtain s where s: "service_read_state did (mg_services ?m) = Inr s"
    unfolding stop_finish_def Let_def rbind_eq_Inr_iff by blast
  note r = assms [unfolded stop_finish_def Let_def s rbind.simps]
  show ?thesis
  proof (cases "service_terminal (sv_state s)")
    case True
    with r show ?thesis by auto
  next
    case False
    with r obtain m1 where "update_service clock did ''stopped'' (\<lambda>x. x\<lparr>sv_state := SvcStopped, sv_reason := Some reason\<rparr>) ?m = Inr m1"
      "mg_runs m' = mg_runs m1" by auto
    with update_service_fields [OF this(1)] show ?thesis by simp
  qed
qed

definition services_inv :: "manager \<Rightarrow> bool" where
  "services_inv m \<longleftrightarrow> manager_inv m \<and> wf_services (mg_services m) \<and> one_open m"

definition daemon_inv :: "daemon \<Rightarrow> bool" where
  "daemon_inv d \<longleftrightarrow> runs_inv False (dn_runs d) \<and> services_inv (services_of d)"

lemma services_step: "services_inv m \<Longrightarrow> manager_step env clock home m m' \<Longrightarrow> services_inv m'"
  using step_sound step_one_open by (auto simp: services_inv_def sound_step_def)

lemma services_runs:
  assumes "services_inv m" and "wf_store (mg_runs m)" and "wf_store runs" and "no_new_use (mg_runs m) runs"
  shows "services_inv (m\<lparr>mg_runs := runs\<rparr>)"
proof -
  have "sound_step m (m\<lparr>mg_runs := runs\<rparr>)"
    by (rule sound_runs) (use assms consumers_uses [of m] consumers_uses [of "m\<lparr>mg_runs := runs\<rparr>"] in
      \<open>auto simp: services_inv_def no_new_use_def\<close>)
  with assms(1) show ?thesis by (simp add: services_inv_def sound_step_def one_open_def)
qed

lemma service_step_inv:
  assumes "daemon_inv d" and "manager_step env clock home (services_of d) m" and "mg_runs m = rk_store (dn_runs d)"
  shows "daemon_inv (d\<lparr>dn_services := m\<rparr>)"
  using assms services_step [OF _ assms(2)] by (simp add: daemon_inv_def services_of_services)

lemma run_change_inv:
  assumes "daemon_inv d" and "runs_inv False rk" and "no_new_use (rk_store (dn_runs d)) (rk_store rk)"
  shows "daemon_inv (d\<lparr>dn_runs := rk\<rparr>)"
  using assms services_runs [of "services_of d" "rk_store rk"] by (simp add: daemon_inv_def runs_inv_def)

lemma accepts_inv:
  assumes "daemon_inv d" and "accepts w task d d'"
  shows "daemon_inv d'"
proof -
  from assms(2) obtain probe suffix candidate content label s rk where
    a: "assert_task_deployments_ready task (services_of d) = Inr ()" "d' = d\<lparr>dn_runs := rk\<rparr>" and
    rk: "manager_submit (wd_env w) (wd_clock w) probe suffix task candidate content label (dn_runs d) = Inr (s, rk)"
    unfolding accepts_def by blast
  from rk have st: "submit (wd_env w) (wd_clock w) probe suffix task candidate content label (mg_runs (services_of d)) = Inr (s, rk_store rk)"
    by (auto simp: manager_submit_def)
  from services_step [OF _ manager_step.submits [OF a(1) st]] assms(1) submit_inv [OF _ rk] a(2) show ?thesis
    by (simp add: daemon_inv_def)
qed

lemma projected_inv:
  assumes "runs_inv False rk" and "store_runs st = store_runs (rk_store rk)"
  shows "runs_inv False (rk\<lparr>rk_store := st\<rparr>)"
  using assms open_run_other [of st _ "rk_store rk"] by (simp add: runs_inv_def run_inv_def wf_store_def files_of_def)

lemma request_inv:
  assumes "request_change w d d'" and "daemon_inv d"
  shows "daemon_inv d'"
  using assms
proof cases
  case (submitted task)
  from submitted assms(2) show ?thesis by (induction rule: rtranclp_induct) (auto intro: accepts_inv)
next
  case (cancelled rid b rk)
  have "no_new_use (rk_store (dn_runs d)) (rk_store rk)"
    using cancelled(2) by (auto simp: cancel_request_def intro!: no_new_use_same split: if_splits option.splits)
  with run_change_inv [OF assms(2) cancel_inv [OF _ cancelled(2)]] cancelled(1) assms(2) show ?thesis
    by (simp add: daemon_inv_def)
next
  case (projected st)
  with run_change_inv [OF assms(2) projected_inv [OF _ projected(2)]] assms(2) show ?thesis
    by (simp add: daemon_inv_def no_new_use_same)
next
  case (started suffix spec s m)
  from service_step_inv [OF assms(2) manager_step.start [OF started(2)]] start_service_runs [OF started(2)] started(1)
  show ?thesis by simp
next
  case (stopped did reason b m)
  from service_step_inv [OF assms(2) manager_step.stop [OF stopped(2)]] stop_request_runs [OF stopped(2)] stopped(1)
  show ?thesis by simp
qed simp

lemma daemon_step_inv:
  assumes "daemon_step env clock home d d'" and "daemon_inv d"
  shows "daemon_inv d'"
  using assms(1)
proof cases
  case (requested w request answer)
  from request_inv [OF dispatch_change [OF requested(2)] assms(2)] show ?thesis .
next
  case (resumed w a answer)
  from resume_change [OF resumed(3)] show ?thesis
  proof (elim disjE exE conjE)
    fix did reason m
    assume s: "a = StopEnds did reason" "stop_finish (wd_clock w) did reason (services_of d) = Inr m"
      "d' = d\<lparr>dn_services := m\<rparr>"
    have "(did, reason) \<in> set (mg_pending (services_of d))" "task_ended did (services_of d)"
      using resumed(2) s(1) by (simp_all add: can_resume_def task_ended_def)
    from service_step_inv [OF assms(2) manager_step.stop_ends [OF this s(2)]] stop_finish_runs [OF s(2)] s(3)
    show ?thesis by simp
  qed (use assms(2) in simp)
next
  case (run_goes_on rk)
  have inv: "runs_inv False (dn_runs d)" using assms(2) by (simp add: daemon_inv_def)
  from run_change_inv [OF assms(2) step_inv [OF run_goes_on(2) inv] run_step_no_new_use [OF run_goes_on(2) inv run_goes_on(3)]]
    run_goes_on(1) show ?thesis by simp
next
  case (service_goes_on m)
  from service_step_inv [OF assms(2) service_goes_on(2,3)] service_goes_on(1) show ?thesis by simp
qed

lemma reachable_daemon_inv: "daemon_reachable env clock home d \<Longrightarrow> daemon_inv d"
proof (induction rule: daemon_reachable.induct)
  case (initial d)
  then have "started_runs (dn_runs d)" "started_manager (services_of d)" by (simp_all add: started_daemon_def)
  moreover have "runs_inv False (dn_runs d)"
    using reachable_runs_inv [OF runs_reachable.initial] \<open>started_runs (dn_runs d)\<close> by blast
  moreover have "services_inv (services_of d)"
    using manager_reachable.initial [OF \<open>started_manager (services_of d)\<close>] reachable_inv reachable_one_open
    unfolding services_inv_def by blast
  ultimately show ?case by (simp add: daemon_inv_def)
qed (rule daemon_step_inv)

end
