(* ===== verification/Daemon_Facts.thy ===== *)
theory Daemon_Facts
  imports Daemon_Loop Fleet_Select_Facts Service_Stops Diagnosis_Facts
begin

text \<open>
  What a batch of candidates leaves behind, what holds in every state of the daemon, and
  that the node a coordinator selects is one that accepts the task.
\<close>

section \<open>Batches\<close>

definition accepted_runs :: "task_spec \<Rightarrow> run_state list \<Rightarrow> daemon \<Rightarrow> daemon \<Rightarrow> bool" where
  "accepted_runs task ss d d' \<longleftrightarrow> distinct (map rn_id ss) \<and> dn_services d' = dn_services d \<and>
     (\<forall>s \<in> set ss. files_of (rk_store (dn_runs d)) (rn_id s) = None \<and> peek_run (rk_store (dn_runs d')) (rn_id s) = Some s \<and>
        rn_state s = Accepted \<and> rn_task_sha256 s = task_digest task \<and>
        dict_get (rn_id s) (rk_tasks (dn_runs d')) = Some \<lparr>rc_task = task, rc_phase = Fresh, rc_cancelled = False\<rparr>) \<and>
     (\<forall>k. k \<notin> rn_id ` set ss \<longrightarrow> files_of (rk_store (dn_runs d')) k = files_of (rk_store (dn_runs d)) k \<and>
        dict_get k (rk_tasks (dn_runs d')) = dict_get k (rk_tasks (dn_runs d)))"

lemma accepted_none: "accepted_runs task [] d d"
  by (simp add: accepted_runs_def)

text \<open>What a run is made of: the snapshot is of this candidate, and task and request say so.\<close>

definition created_from :: "world \<Rightarrow> task_spec \<Rightarrow> nat \<Rightarrow> string \<Rightarrow> run_state \<Rightarrow> run_files \<Rightarrow> bool" where
  "created_from w task i path s files \<longleftrightarrow>
     (let src = resolve_path (wd_env w) (expanduser (wd_env w) path) in
      rn_id s = task_id task @ ''-'' @ wd_suffix w i \<and> rf_state files = s \<and> rf_task files = task_raw task \<and>
      snapshot_candidate (wd_env w) src (wd_nodes w path) (rn_id s @ ''/candidate'') =
        Inr (rf_candidate files, rn_candidate_sha256 s) \<and>
      rf_request files = \<lparr>rq_run_id = rn_id s, rq_task_id = task_id task, rq_task_sha256 = task_digest task,
        rq_candidate_sha256 = rn_candidate_sha256 s, rq_candidate_source = src, rq_task_source = task_source_path task,
        rq_label = rn_label s, rq_accepted_at = rn_accepted_at s, rq_stages = map request_stage (task_stages task)\<rparr> \<and>
      map ev_event (rf_events files) = [''accepted''] \<and> rf_stage_dirs files = [] \<and> rf_receipts files = [] \<and>
      rf_result files = None)"

lemma create_run_from:
  assumes "create_run (wd_env w) clock (wd_suffix w i) task path (wd_nodes w path) label st = Inr (s, st')"
  shows "\<exists>files. files_of st' (rn_id s) = Some files \<and> created_from w task i path s files"
  using assms unfolding create_run_def Let_def
  by (auto simp: utc_now_def append_event_def created_from_def files_of_def initial_state_def initial_request_def split: if_splits)

lemma submit_label:
  assumes "submit env clock probe suffix task candidate content label st = Inr (s, st')"
  shows "rn_label s = py_strip (case label of Some (c # l) \<Rightarrow> c # l
    | _ \<Rightarrow> if path_name candidate \<noteq> [] then path_name candidate else task_id task)"
proof -
  let ?chosen = "case label of Some (c # l) \<Rightarrow> c # l | _ \<Rightarrow> if path_name candidate \<noteq> [] then path_name candidate else task_id task"
  have "create_run env clock suffix task candidate content (py_strip ?chosen) st = Inr (s, st')"
    using assms unfolding submit_def Let_def by (auto split: if_splits)
  then obtain rid d now where "s = initial_state task rid d (py_strip ?chosen) now"
    unfolding create_run_def Let_def by (auto simp: utc_now_def append_event_def split: if_splits)
  then show ?thesis by (simp add: initial_state_def)
qed

definition batch_name :: "task_spec \<Rightarrow> string \<Rightarrow> nat \<Rightarrow> string \<Rightarrow> string" where
  "batch_name task prefix i path = (if batch_label prefix i path = [] then task_id task else batch_label prefix i path)"

definition submit_nth :: "world \<Rightarrow> task_spec \<Rightarrow> string \<Rightarrow> nat \<Rightarrow> string \<Rightarrow> daemon \<Rightarrow> (run_state \<times> daemon) result" where
  "submit_nth w task prefix i path d =
     submit_candidate w i task path (if batch_label prefix i path = [] then None else Some (batch_label prefix i path)) d"

lemma submit_nth_Inr:
  assumes "submit_nth w task prefix i path d = Inr (s, d')"
  shows "accepted_runs task [s] d d'" and "rn_label s = py_strip (batch_name task prefix i path)"
    and "\<exists>files. files_of (rk_store (dn_runs d')) (rn_id s) = Some files \<and> created_from w task i path s files"
proof -
  let ?label = "if batch_label prefix i path = [] then None else Some (batch_label prefix i path)"
  from assms obtain rk where m: "manager_submit (wd_env w) (wd_clock w) (wd_scoped_probe w) (wd_suffix w i) task path (wd_nodes w path)
      ?label (dn_runs d) = Inr (s, rk)" "d' = d\<lparr>dn_runs := rk\<rparr>"
    unfolding submit_nth_def submit_candidate_def rbind_eq_Inr_iff by auto
  from m(1) obtain st where st: "submit (wd_env w) (wd_clock w) (wd_scoped_probe w) (wd_suffix w i) task path (wd_nodes w path) ?label
      (rk_store (dn_runs d)) = Inr (s, st)"
    "rk = (dn_runs d)\<lparr>rk_store := st, rk_done := dict_set (rn_id s) False (rk_done (dn_runs d)),
       rk_tasks := dict_set (rn_id s) \<lparr>rc_task = task, rc_phase = Fresh, rc_cancelled = False\<rparr> (rk_tasks (dn_runs d))\<rparr>"
    unfolding manager_submit_def rbind_eq_Inr_iff by auto
  from submit_created [OF st(1)] obtain e where
    c: "create_run (wd_env w) (wd_clock w) (wd_suffix w i) task path (wd_nodes w path) e (rk_store (dn_runs d)) = Inr (s, st)" ..
  from created_open(1,4) [OF c] create_run_Inr(2,3,5) [OF c] show "accepted_runs task [s] d d'"
    by (simp add: accepted_runs_def m(2) st(2) files_of_def)
  show "\<exists>files. files_of (rk_store (dn_runs d')) (rn_id s) = Some files \<and> created_from w task i path s files"
    using create_run_from [OF c] by (simp add: m(2) st(2))
  have "batch_label prefix i path = [] \<Longrightarrow> path_name path = []" by (simp add: batch_label_def split: if_splits)
  then show "rn_label s = py_strip (batch_name task prefix i path)"
    unfolding submit_label [OF st(1)] by (cases "batch_label prefix i path") (simp_all add: batch_name_def)
qed

lemma accepted_cons:
  assumes "accepted_runs task [s] d d1" and "accepted_runs task ss d1 d2"
  shows "accepted_runs task (s # ss) d d2"
    and "files_of (rk_store (dn_runs d2)) (rn_id s) = files_of (rk_store (dn_runs d1)) (rn_id s)"
proof -
  have new: "rn_id s \<notin> rn_id ` set ss"
  proof
    assume "rn_id s \<in> rn_id ` set ss"
    then have "files_of (rk_store (dn_runs d1)) (rn_id s) = None" using assms(2) by (auto simp: accepted_runs_def)
    then show False using assms(1) by (auto simp: accepted_runs_def peek_run_files files_of_def split: option.splits)
  qed
  have same: "peek_run (rk_store (dn_runs d2)) (rn_id s) = peek_run (rk_store (dn_runs d1)) (rn_id s)"
    using new assms(2) by (intro peek_files_of) (simp add: accepted_runs_def)
  have old: "files_of (rk_store (dn_runs d)) (rn_id x) = None" if "x \<in> set ss" for x
  proof -
    have "rn_id x \<noteq> rn_id s" using new that by (metis imageI)
    then have "files_of (rk_store (dn_runs d1)) (rn_id x) = files_of (rk_store (dn_runs d)) (rn_id x)"
      using assms(1) by (simp add: accepted_runs_def)
    with assms(2) that show ?thesis by (simp add: accepted_runs_def)
  qed
  show "accepted_runs task (s # ss) d d2"
    using assms new same old unfolding accepted_runs_def by (auto simp: image_iff)
  show "files_of (rk_store (dn_runs d2)) (rn_id s) = files_of (rk_store (dn_runs d1)) (rn_id s)"
    using assms(2) new by (simp add: accepted_runs_def)
qed

text \<open>The run made for the candidate at an index of the batch.\<close>

definition batch_run :: "world \<Rightarrow> task_spec \<Rightarrow> string \<Rightarrow> daemon \<Rightarrow> nat \<Rightarrow> string \<Rightarrow> run_state \<Rightarrow> bool" where
  "batch_run w task prefix d i path s \<longleftrightarrow> rn_label s = py_strip (batch_name task prefix i path) \<and>
     (\<exists>files. files_of (rk_store (dn_runs d)) (rn_id s) = Some files \<and> created_from w task i path s files)"

text \<open>The candidates of an accepted batch.\<close>

lemma batch_of_candidates:
  assumes "batch_of w req d = Inr (task, paths)"
  shows "\<exists>cs. dget ''candidates'' req = JList cs \<and> cs \<noteq> [] \<and>
    list_all2 (\<lambda>v p. json_path v = Inr p \<and>
      validate_candidate (resolve_path (wd_env w) (expanduser (wd_env w) p)) (wd_nodes w p) = Inr ()) cs paths \<and>
    assert_task_deployments_ready task (services_of d) = Inr ()"
proof -
  obtain items where items: "dget ''candidates'' req = JList items"
    using assms by (cases "dget ''candidates'' req") (simp_all add: batch_of_def)
  then obtain c cs where c: "dget ''candidates'' req = JList (c # cs)"
    using assms by (cases items) (simp_all add: batch_of_def)
  show ?thesis
    using assms unfolding batch_of_def c by (auto simp: rbind_eq_Inr_iff rtraverse_eq_Inr_iff)
qed

lemma submit_all_prefix:
  "submit_all w task prefix i paths d = (runs, d') \<Longrightarrow>
    \<exists>ss. accepted_runs task ss d d' \<and>
      (\<forall>j < length ss. batch_run w task prefix d' (i + j) (paths ! j) (ss ! j)) \<and>
      (case runs of Inr rs \<Rightarrow> rs = ss \<and> length ss = length paths
       | Inl e \<Rightarrow> length ss < length paths \<and> submit_nth w task prefix (i + length ss) (paths ! length ss) d' = Inl e)"
proof (induction paths arbitrary: i d runs)
  case Nil
  then show ?case using accepted_none by auto
next
  case (Cons path paths)
  show ?case
  proof (cases "submit_nth w task prefix i path d")
    case (Inl e)
    with Cons.prems have "runs = Inl e" "d' = d" by (simp_all add: submit_nth_def Let_def)
    with Inl accepted_none show ?thesis by (intro exI [of _ "[]"]) simp
  next
    case (Inr p)
    obtain s d1 where p: "p = (s, d1)" by (cases p)
    obtain rest d2 where rest: "submit_all w task prefix (Suc i) paths d1 = (rest, d2)" by fastforce
    have r: "d' = d2" "runs = rbind rest (\<lambda>rs. Inr (s # rs))"
      using Cons.prems Inr p rest by (simp_all add: submit_nth_def Let_def)
    note one = submit_nth_Inr [OF Inr [unfolded p]]
    from Cons.IH [of "Suc i" d1 rest] rest r(1) obtain ss where ss: "accepted_runs task ss d1 d'"
      "\<forall>j < length ss. batch_run w task prefix d' (Suc i + j) (paths ! j) (ss ! j)"
      "case rest of Inr rs \<Rightarrow> rs = ss \<and> length ss = length paths
       | Inl e \<Rightarrow> length ss < length paths \<and> submit_nth w task prefix (Suc i + length ss) (paths ! length ss) d' = Inl e"
      by auto
    have "batch_run w task prefix d' i path s"
      using one(2,3) accepted_cons(2) [OF one(1) ss(1)] by (simp add: batch_run_def)
    then have made: "\<forall>j < length (s # ss). batch_run w task prefix d' (i + j) ((path # paths) ! j) ((s # ss) ! j)"
      using ss(2) by (auto simp: nth_Cons less_Suc_eq_0_disj split: nat.split)
    from accepted_cons(1) [OF one(1) ss(1)] made ss(3) r(2) show ?thesis
      by (intro exI [of _ "s # ss"]) (cases rest; simp)
  qed
qed

text \<open>C10: a batch is accepted as far as it goes: the runs of a prefix of its candidates are
  created, in order, each fresh, with its coroutine, with the label and the id of its index, and
  with the snapshot and the request of the candidate at this index, and nothing else changes.
  The candidates are those of the request, each of which was found valid before the first
  was accepted, and the deployments of the task were ready.  The request answers with exactly
  these runs when that is the whole batch, and otherwise fails with the error of the first
  candidate it could not submit.  Nothing is created when the check of the batch fails.\<close>

theorem submit_many_prefix:
  assumes "op_submit_many w req d = (runs, d')"
  shows "case batch_of w req d of
      Inl e \<Rightarrow> runs = Inl e \<and> d' = d
    | Inr (task, paths) \<Rightarrow>
        (\<exists>cs. dget ''candidates'' req = JList cs \<and> cs \<noteq> [] \<and>
          list_all2 (\<lambda>v p. json_path v = Inr p \<and>
            validate_candidate (resolve_path (wd_env w) (expanduser (wd_env w) p)) (wd_nodes w p) = Inr ()) cs paths \<and>
          assert_task_deployments_ready task (services_of d) = Inr ()) \<and>
        (\<exists>ss. accepted_runs task ss d d' \<and>
        (\<forall>j < length ss. batch_run w task (batch_prefix w req) d' j (paths ! j) (ss ! j)) \<and>
        (case runs of Inr rs \<Rightarrow> rs = ss \<and> length ss = length paths
         | Inl e \<Rightarrow> length ss < length paths \<and>
             submit_nth w task (batch_prefix w req) (length ss) (paths ! length ss) d' = Inl e))"
proof (cases "batch_of w req d")
  case (Inr p)
  obtain task paths where p: "p = (task, paths)" by (cases p)
  have "submit_all w task (batch_prefix w req) 0 paths d = (runs, d')"
    using assms Inr p by (simp add: op_submit_many_def)
  from submit_all_prefix [OF this, unfolded add_0] batch_of_candidates [OF Inr [unfolded p]]
  show ?thesis by (simp only: Inr p sum.case prod.case)
qed (use assms in \<open>simp add: op_submit_many_def\<close>)

section \<open>A batch that fails half way\<close>

text \<open>A host with the sample task at \<open>/t.json\<close> and one-byte files everywhere else.\<close>

definition sample_world :: world where
  "sample_world = \<lparr>wd_env = attest_env, wd_clock = (\<lambda>n. ''now''), wd_now = ''now'',
     wd_instants = sample_instants, wd_files = (\<lambda>p. if p = ''/t.json'' then FileParsed (task_document sample_task) else FileMissing),
     wd_nodes = (\<lambda>p. Some (RegularFile [1])), wd_exists = (\<lambda>p. False), wd_sha256_file = (\<lambda>p. []),
     wd_suffix = nat_text, wd_scoped_probe = Inr (0, ''--allowed-gpus''), wd_preflight = race_world,
     wd_outside = sample_outside, wd_disk = (10, 4, 6), wd_home = ''/h'', wd_runs_dir = ''/r'', wd_socket = ''/s'',
     wd_gpu_run = ''/g'', wd_version = ''1'', wd_instance_id = ''i'', wd_state_root = ''/r''\<rparr>"

definition empty_daemon :: daemon where
  "empty_daemon = \<lparr>dn_runs = sample_manager, dn_services = race_empty\<rparr>"

definition blank_batch :: jdict where
  "blank_batch = [(''op'', JStr ''submit_many''), (''task'', JStr ''/t.json''),
     (''candidates'', JList [JStr ''/c/a'', JStr ''/c/ ''])]"

lemma blank_batch_runs:
  "case dispatch sample_world (JObj blank_batch) empty_daemon of
     (Inl e, d) \<Rightarrow> e = ValueError ''label must not be empty'' \<and>
       \<not> Option.is_none (peek_run (rk_store (dn_runs d)) ''gemm-0'') \<and> map rn_state (run_states None d) = [Accepted] \<and>
       \<not> Option.is_none (dict_get ''gemm-0'' (rk_tasks (dn_runs d)))
   | (Inr a, d) \<Rightarrow> False"
  by code_simp

lemma blank_batch_checked:
  "case batch_of sample_world blank_batch empty_daemon of Inr (task, paths) \<Rightarrow> paths = [''/c/a'', ''/c/ ''] | Inl e \<Rightarrow> False"
  by code_simp

text \<open>the check of a batch does not cover the labels: with no prefix a candidate file whose
  name is blank passes the check and is refused when its turn comes, after the runs of the
  candidates before it were accepted.  The client gets an error and no run id.\<close>

lemma blank_name_splits_batch:
  "\<exists>d task. batch_of sample_world blank_batch empty_daemon = Inr (task, [''/c/a'', ''/c/ '']) \<and>
     dispatch sample_world (JObj blank_batch) empty_daemon = (Inl (ValueError ''label must not be empty''), d) \<and>
     open_run (rk_store (dn_runs d)) ''gemm-0''"
proof -
  obtain answer d where d: "dispatch sample_world (JObj blank_batch) empty_daemon = (answer, d)" by fastforce
  obtain e where e: "answer = Inl e" "e = ValueError ''label must not be empty''" "peek_run (rk_store (dn_runs d)) ''gemm-0'' \<noteq> None"
    "map rn_state (run_states None d) = [Accepted]"
    using blank_batch_runs [unfolded d prod.case Option.is_none_def] by (cases answer) auto
  obtain s where s: "peek_run (rk_store (dn_runs d)) ''gemm-0'' = Some s" using e(3) by blast
  have "s \<in> set (run_states None d)" unfolding run_states_def by (rule known_listed [OF s])
  then have "rn_state s \<in> set (map rn_state (run_states None d))" by simp
  then have "\<not> is_terminal (rn_state s)" unfolding e(4) by simp
  then have "open_run (rk_store (dn_runs d)) ''gemm-0''" using s unfolding open_run_def by blast
  moreover obtain task where "batch_of sample_world blank_batch empty_daemon = Inr (task, [''/c/a'', ''/c/ ''])"
    using blank_batch_checked by (auto split: sum.splits)
  ultimately show ?thesis using d e(1,2) by blast
qed

theorem submit_many_prefix_witness:
  "\<exists>e d task ss. op_submit_many sample_world blank_batch empty_daemon = (Inl e, d) \<and> accepted_runs task ss empty_daemon d \<and>
     length ss < 2"
proof -
  obtain task paths where b: "batch_of sample_world blank_batch empty_daemon = Inr (task, paths)" "length paths = 2"
    using blank_batch_checked by (auto split: sum.splits)
  obtain runs d where d: "op_submit_many sample_world blank_batch empty_daemon = (runs, d)" by fastforce
  have "dispatch sample_world (JObj blank_batch) empty_daemon = answered RunsAnswer d runs"
    by (simp add: dispatch_def blank_batch_def dget_def d [unfolded blank_batch_def])
  with blank_batch_runs obtain e where e: "runs = Inl e"
    by (cases runs) (simp_all add: answered_def)
  from submit_many_prefix [OF d] b e show ?thesis using d by auto
qed

section \<open>Every state of the daemon\<close>

text \<open>C9: in every state the daemon can reach, whatever its clients request and in whatever order
  its coroutines go on: every coroutine of a run has an open run, whose waiters are waiting;
  no open run uses a deployment that is stopping; a deployment has not ended exactly as
  long as its coroutine exists; and no service has two deployments that have not ended.\<close>

theorem daemon_invariant:
  assumes "daemon_reachable env clock home d"
  shows "(\<forall>rid. dict_get rid (rk_tasks (dn_runs d)) \<noteq> None \<longrightarrow>
      open_run (rk_store (dn_runs d)) rid \<and> dict_get rid (rk_done (dn_runs d)) = Some False) \<and>
    (\<forall>did. lifecycle_of did (services_of d) = Some SvcStopping \<longrightarrow> \<not> uses (rk_store (dn_runs d)) did) \<and>
    (\<forall>did s. peek_service (mg_services (services_of d)) did = Some s \<longrightarrow>
      (open_service s \<longleftrightarrow> dict_get did (mg_tasks (services_of d)) \<noteq> None)) \<and>
    one_open (services_of d)"
proof -
  have inv: "daemon_inv d" by (rule reachable_daemon_inv [OF assms])
  have runs: "open_run (rk_store (dn_runs d)) rid" "dict_get rid (rk_done (dn_runs d)) = Some False"
    if "dict_get rid (rk_tasks (dn_runs d)) \<noteq> None" for rid
    using inv that by (auto simp: daemon_inv_def runs_inv_def run_inv_def coroutine_inv_def)
  have dep: "deployment_inv (lifecycle_of did (services_of d)) (dict_get did (mg_tasks (services_of d)))
     (dict_get did (mg_stop_reasons (services_of d)) \<noteq> None) (\<exists>reason. (did, reason) \<in> set (mg_pending (services_of d)))
     (active_consumers did (services_of d) = [])" for did
    using inv unfolding daemon_inv_def services_inv_def manager_inv_def by blast
  have unused: "\<not> uses (rk_store (dn_runs d)) did" if "lifecycle_of did (services_of d) = Some SvcStopping" for did
    using dep [of did] that consumers_uses [of "services_of d" did] inv
    by (simp add: deployment_inv_def daemon_inv_def runs_inv_def)
  have task: "open_service s \<longleftrightarrow> dict_get did (mg_tasks (services_of d)) \<noteq> None"
    if "peek_service (mg_services (services_of d)) did = Some s" for did s
    using dep [of did] that by (simp add: deployment_inv_def lifecycle_of_def open_service_def)
  have "one_open (services_of d)" using inv by (simp add: daemon_inv_def services_inv_def)
  then show ?thesis using runs unused task by blast
qed

lemma empty_daemon_started: "started_daemon empty_daemon"
proof -
  have "services_of empty_daemon = race_empty" by (simp add: services_of_def empty_daemon_def race_empty_def sample_manager_def)
  moreover have "started_manager race_empty"
    by (simp add: started_manager_def race_empty_def wf_services_def dict_keys_def peek_service_def
        service_read_state_def service_read_files_def split: sum.splits)
  ultimately show ?thesis using sample_manager_started by (simp add: started_daemon_def empty_daemon_def)
qed

theorem daemon_invariant_witness:
  "\<exists>d. daemon_reachable attest_env (\<lambda>n. ''now'') ''/h'' d \<and> dict_get ''gemm-0'' (rk_tasks (dn_runs d)) \<noteq> None \<and>
     dict_get ''gemm-0'' (rk_done (dn_runs d)) = Some False"
proof -
  obtain d where d: "dispatch sample_world (JObj blank_batch) empty_daemon = (Inl (ValueError ''label must not be empty''), d)"
    using blank_batch_runs by (auto split: prod.splits sum.splits)
  have r: "daemon_reachable attest_env (\<lambda>n. ''now'') ''/h'' d"
    by (rule daemon_reachable.step [OF daemon_reachable.initial [OF empty_daemon_started] daemon_step.requested [OF _ d]])
      (simp add: same_host_def sample_world_def)
  have "dict_get ''gemm-0'' (rk_tasks (dn_runs d)) \<noteq> None"
    using blank_batch_runs unfolding d prod.case sum.case Option.is_none_def by blast
  with daemon_invariant [OF r] r show ?thesis by blast
qed

section \<open>From a node's status to its selection\<close>

text \<open>What the status document says: the ready deployments, the free space.\<close>

lemma node_status_fields:
  assumes "node_status w broker d = Inr status"
  shows "\<exists>services. list_statuses None (services_of d) = Inr services \<and>
    dget_or ''ready_deployments'' (JList []) status = JList (map (\<lambda>v. JStr (sv_deployment_id (ss_state v)))
      (filter (\<lambda>v. sv_state (ss_state v) = SvcReady) services))"
    and "\<exists>capacity used free. wd_disk w = (capacity, used, free) \<and> dget_or ''disk'' (JObj []) status =
      JObj [(''total_bytes'', JInt capacity), (''used_bytes'', JInt used), (''free_bytes'', JInt free)]"
    and "dget_or ''broker'' (JObj []) status = node_broker broker"
    and "dget ''schema'' status = JStr ''kernelinfra.node-status.v1''"
  using assms by (auto simp: node_status_def dget_or_def dget_def dict_simps split: prod.splits)

lemma listed_ready:
  assumes "wf_services (mg_services m)" and "list_statuses None m = Inr services" and "v \<in> set services"
    and "sv_state (ss_state v) = SvcReady"
  shows "\<exists>s. service_read_state (sv_deployment_id (ss_state v)) (mg_services m) = Inr s \<and> sv_state s = SvcReady"
proof -
  from rtraverse_setD [OF assms(2) [unfolded list_statuses_def] assms(3)] obtain x where
    x: "x \<in> set (service_list_states None (mg_services m))" "service_status (sv_deployment_id x) m = Inr v" by blast
  have "service_read_state (sv_deployment_id x) (mg_services m) = Inr x"
    using service_listed_known [OF assms(1) x(1)] by (simp add: service_read_state_peek)
  with x(2) have "ss_state v = x" by (auto simp: service_status_def Let_def)
  with \<open>service_read_state _ _ = _\<close> assms(4) show ?thesis by auto
qed

lemma ready_accepted:
  assumes "\<And>did. did \<in> set (task_deployments task) \<Longrightarrow>
    \<exists>s. service_read_state did (mg_services m) = Inr s \<and> sv_state s = SvcReady"
  shows "assert_task_deployments_ready task m = Inr ()"
proof -
  let ?check = "\<lambda>did. rbind (service_read_state did (mg_services m)) (\<lambda>s. if sv_state s \<noteq> SvcReady
       then Inl (ValueError (''task service deployment is not ready: '' @ did @ '' state='' @ service_lifecycle_name (sv_state s)))
       else Inr ())"
  have "list_all2 (\<lambda>did u. ?check did = Inr u) (task_deployments task) (map (\<lambda>did. ()) (task_deployments task))"
    unfolding list_all2_map2 by (rule list.rel_refl_strong) (use assms in fastforce)
  then have "rtraverse ?check (task_deployments task) = Inr (map (\<lambda>did. ()) (task_deployments task))"
    by (simp add: rtraverse_eq_Inr_iff)
  then show ?thesis unfolding assert_task_deployments_ready_def by (simp only: rbind.simps)
qed

lemma selected_reasons:
  assumes "select_node env catalog xs q = Inr (Selected node x ds)"
  shows "node_reasons env q node x = Inr []"
proof -
  from select_node_Selected [OF assms] obtain judged r where
    j: "rtraverse (judge_node env catalog q) xs = Inr judged" "(r, node, x) \<in> set (ranked judged)" by blast
  from j(2) [unfolded in_ranked] obtain e where "(e, Some (r, node, x)) \<in> set judged" ..
  from rtraverse_setD [OF j(1) this] obtain y where y: "judge_node env catalog q y = Inr (e, Some (r, node, x))" by blast
  have yx: "y = x" using judge_node_Some(1) [OF y] by simp
  from y [unfolded yx] obtain i node' reasons where k: "node_by_id catalog i = Inr node'" "node_reasons env q node' x = Inr reasons"
    "(let decision = \<lparr>nd_node_id = fn_id node', nd_reasons = reasons\<rparr> in
      if reasons \<noteq> [] then Inr (decision, None)
      else case probed_status x of
        None \<Rightarrow> Inr (decision, None)
      | Some status \<Rightarrow> rbind (node_load_of status) (\<lambda>l. Inr (decision, Some (load_rank l node', node', x))))
      = (Inr (e, Some (r, node, x)) :: _ result)"
    unfolding judge_node_def rbind_eq_Inr_iff by blast
  from k(3) have "reasons = []" "node' = node" by (auto simp: Let_def split: option.splits if_splits)
  with k(2) show ?thesis by simp
qed

lemma no_reason:
  assumes "rbind (py_set ready) (\<lambda>ready. rbind (as_dict (JObj disk)) (\<lambda>disk.
      rbind (py_int env (dget_or ''free_bytes'' (JInt 0) disk)) (\<lambda>free.
      rbind (as_dict b) (\<lambda>broker.
      Inr (missing_reason ''missing_capabilities='' (sort (remdups (filter P xs))) @
           missing_reason ''missing_deployments='' (sort (remdups (filter (Q ready) ys))) @
           (if free < n then [''insufficient_disk''] else []) @
           (if R broker then [''broker_probe_error''] else [])))))) = Inr []"
    and "\<And>rs. py_set ready = Inr rs \<Longrightarrow> filter P xs = [] \<Longrightarrow> filter (Q rs) ys = [] \<Longrightarrow>
      \<forall>free. dget_or ''free_bytes'' (JInt 0) disk = JInt free \<longrightarrow> \<not> free < n \<Longrightarrow> thesis"
  shows thesis
proof -
  from assms(1) obtain rs free broker where r: "py_set ready = Inr rs" "py_int env (dget_or ''free_bytes'' (JInt 0) disk) = Inr free"
    "missing_reason ''missing_capabilities='' (sort (remdups (filter P xs))) @
      missing_reason ''missing_deployments='' (sort (remdups (filter (Q rs) ys))) @
      (if free < n then [''insufficient_disk''] else []) @ (if R broker then [''broker_probe_error''] else []) = []"
    unfolding as_dict_def json.case rbind.simps rbind_eq_Inr_iff sum.inject by blast
  have empty: "missing_reason what zs = [] \<longleftrightarrow> zs = []" for what zs by (simp add: missing_reason_def)
  have sorted: "sort (remdups zs) = [] \<longleftrightarrow> zs = []" for zs :: "string list"
    by (metis remdups_eq_nil_iff set_empty set_sort)
  from r(3) [unfolded append_is_Nil_conv empty sorted] have n: "filter P xs = []" "filter (Q rs) ys = []" "\<not> free < n"
    by (auto split: if_splits)
  show thesis by (rule assms(2) [OF r(1) n(1,2)]) (use r(2) n(3) in \<open>auto simp: py_int_def\<close>)
qed

text \<open>C11: the answer of a node about itself is what the node then goes by: when a coordinator
  selects a node by the status its daemon gives, for a request that has the deployments of
  a task, the daemon in that state finds every deployment of the task ready and refuses no
  submission for its services; the node has the capabilities and the free space asked for.\<close>

theorem selected_node_accepts:
  assumes "daemon_reachable env clock home d"
    and "resume w BrokerForNode d = (Inr (NodeAnswer status), d')"
    and "select_node penv catalog observations q =
      Inr (Selected node (probe_node node (Inr (0, FileParsed (JObj status), err)) elapsed) decisions)"
    and "set (required_deployments task) \<subseteq> set (fq_deployments q)"
  shows "d' = d \<and> assert_task_deployments_ready task (services_of d) = Inr () \<and>
    set (fq_capabilities q) \<subseteq> set (fn_capabilities node) \<and> fq_min_free_bytes q \<le> snd (snd (wd_disk w))"
proof -
  let ?x = "probe_node node (Inr (0, FileParsed (JObj status), err)) elapsed"
  obtain broker where b: "node_status w broker d = Inr status" and d': "d' = d"
    using assms(2) unfolding resume_def awaited.case prod.inject rbind_eq_Inr_iff sum.inject answer.inject by blast
  note f = node_status_fields [OF b]
  have "?x = node_observation node elapsed (Inr status)" using f(4) by (simp add: probe_node_def probe_outcome_def)
  then have x: "probed_status ?x = Some status" by (simp add: node_observation_def probed_status_def dget_def dict_simps)
  obtain services where sv: "list_statuses None (services_of d) = Inr services"
    "dget_or ''ready_deployments'' (JList []) status = JList (map (\<lambda>v. JStr (sv_deployment_id (ss_state v)))
      (filter (\<lambda>v. sv_state (ss_state v) = SvcReady) services))" using f(1) by blast
  obtain capacity used free where disk: "wd_disk w = (capacity, used, free)" "dget_or ''disk'' (JObj []) status =
      JObj [(''total_bytes'', JInt capacity), (''used_bytes'', JInt used), (''free_bytes'', JInt free)]" using f(2) by blast
  note none = selected_reasons [OF assms(3), unfolded node_reasons_def x option.case sv(2) disk(2) f(3)]
  obtain ready where r: "py_set (JList (map (\<lambda>v. JStr (sv_deployment_id (ss_state v)))
      (filter (\<lambda>v. sv_state (ss_state v) = SvcReady) services))) = Inr ready"
    "filter (\<lambda>c. c \<notin> set (fn_capabilities node)) (fq_capabilities q) = []"
    "filter (\<lambda>k. JStr k \<notin> set ready) (fq_deployments q) = []" "\<forall>x. dget_or ''free_bytes'' (JInt 0)
      [(''total_bytes'', JInt capacity), (''used_bytes'', JInt used), (''free_bytes'', JInt free)] = JInt x \<longrightarrow> \<not> x < fq_min_free_bytes q"
    by (rule no_reason [OF none]) (rule that, assumption+)
  have "wf_services (mg_services (services_of d))"
    using reachable_daemon_inv [OF assms(1)] by (simp add: daemon_inv_def services_inv_def)
  note ready = listed_ready [OF this sv(1)]
  have rs: "ready = map (\<lambda>v. JStr (sv_deployment_id (ss_state v))) (filter (\<lambda>v. sv_state (ss_state v) = SvcReady) services)"
    using r(1) by (auto simp: py_set_def py_iter_def)
  have "assert_task_deployments_ready task (services_of d) = Inr ()"
  proof (rule ready_accepted)
    fix did assume "did \<in> set (task_deployments task)"
    then have "did \<in> set (fq_deployments q)" using assms(4) by (auto simp: task_deployments_def required_deployments_def)
    with r(3) have "JStr did \<in> set ready" by (auto simp: filter_empty_conv)
    with rs obtain v where "v \<in> set services" "sv_state (ss_state v) = SvcReady" "did = sv_deployment_id (ss_state v)" by auto
    with ready show "\<exists>s. service_read_state did (mg_services (services_of d)) = Inr s \<and> sv_state s = SvcReady" by blast
  qed
  moreover have "\<not> free < fq_min_free_bytes q" by (rule r(4) [rule_format]) (simp add: dget_or_def dict_simps)
  ultimately show ?thesis using d' r(2) disk(1) by (auto simp: filter_empty_conv)
qed

text \<open>A daemon whose only deployment became ready, asked by a coordinator for a task that uses it.\<close>

definition served_manager :: "manager result" where
  "served_manager =
     rbind race_attesting (\<lambda>m4.
     rbind (task_in (Attesting (Some sample_admission)) m4) (\<lambda>t4.
     rbind (if tk_spec t4 = race_spec then Inr () else Inl (KeyError race_id)) (\<lambda>_.
     become_ready race_clock race_id t4 race_identity race_receipt m4)))"

definition serving :: "manager \<Rightarrow> daemon" where
  "serving m = \<lparr>dn_runs = sample_manager, dn_services = m\<rparr>"

definition daemon_serves :: "manager \<Rightarrow> bool" where
  "daemon_serves m \<longleftrightarrow> mg_runs m = empty_store \<and> daemon_reachable attest_env race_clock ''/dep'' (serving m)"

lemma services_of_serving: "mg_runs m = empty_store \<Longrightarrow> services_of (serving m) = m"
  by (simp add: services_of_def serving_def sample_manager_def)

lemma serves_step:
  assumes "daemon_serves m" and "manager_step attest_env race_clock ''/dep'' m m'" and "mg_runs m' = mg_runs m"
  shows "daemon_serves m'"
proof -
  have m: "mg_runs m = empty_store" "daemon_reachable attest_env race_clock ''/dep'' (serving m)"
    using assms(1) by (simp_all add: daemon_serves_def)
  have "daemon_reachable attest_env race_clock ''/dep'' ((serving m)\<lparr>dn_services := m'\<rparr>)"
  proof (rule daemon_reachable.step [OF m(2) daemon_step.service_goes_on])
    show "manager_step attest_env race_clock ''/dep'' (services_of (serving m)) m'"
      unfolding services_of_serving [OF m(1)] by (rule assms(2))
  qed (use assms(3) m(1) in \<open>simp add: serving_def sample_manager_def\<close>)
  with assms(3) m(1) show ?thesis by (simp add: daemon_serves_def serving_def)
qed

lemma served_reachable:
  assumes "served_manager = Inr m"
  shows "daemon_serves m"
proof -
  from assms [unfolded served_manager_def rbind_eq_Inr_iff] obtain m4 t4 where m4: "race_attesting = Inr m4" and t4: "task_in (Attesting (Some sample_admission)) m4 = Inr t4"
    "tk_spec t4 = race_spec" "become_ready race_clock race_id t4 race_identity race_receipt m4 = Inr m"
    by (auto split: if_splits)
  from m4 obtain s m1 t1 m2 t2 t3 where r:
    "start_service attest_env race_clock ''/dep'' ''1'' race_world race_spec race_empty = Inr (s, m1)"
    "task_in NotStarted m1 = Inr t1" "begin_run race_clock race_id t1 m1 = Inr m2" "task_in Spawning m2 = Inr t2"
    "task_in (Attesting None) (spawned race_id t2 m2) = Inr t3"
    "admission_read race_clock race_id t3 sample_admission (spawned race_id t2 m2) = Inr m4"
    by (auto simp: race_attesting_def)
  have m0: "daemon_serves race_empty"
    using daemon_reachable.initial [OF empty_daemon_started] by (simp add: daemon_serves_def serving_def empty_daemon_def race_empty_def)
  have m1: "daemon_serves m1" by (rule serves_step [OF m0 manager_step.start [OF r(1)] start_service_runs [OF r(1)]])
  have runs: "mg_runs m2 = mg_runs m1" "mg_runs m4 = mg_runs (spawned race_id t2 m2)" "mg_runs m = mg_runs m4"
    using r(3,6) t4(3) by (auto simp: begin_run_def admission_read_def become_ready_def dest!: update_service_fields)
  have m2: "daemon_serves m2"
    using task_in_Inr [OF r(2)] r(3) by (blast intro: serves_step [OF m1 _ runs(1)] manager_step.begins)
  have m3: "daemon_serves (spawned race_id t2 m2)"
    using task_in_Inr [OF r(4)] by (blast intro: serves_step [OF m2 manager_step.spawns] spawned_def [THEN arg_cong, THEN trans] set_task_fields)
  have m4': "daemon_serves m4"
    using task_in_Inr [OF r(5)] r(6) sample_load by (blast intro: serves_step [OF m3 _ runs(2)] manager_step.admitted)
  have a: "attest_service attest_env sample_outside ''now'' ''/s'' (FileParsed (JObj sample_admission)) ''/a'' (tk_spec t4) sample_admission =
     Inr race_receipt" using race_attested t4(2) by simp
  have i: "become_ready race_clock race_id t4 (admission_identity attest_env (tk_spec t4) sample_admission) race_receipt m4 = Inr m"
    using t4(2,3) by (simp add: race_identity)
  show ?thesis using task_in_Inr [OF t4(1)] a i by (blast intro: serves_step [OF m4' _ runs(3)] manager_step.ready)
qed

definition service_request :: fleet_request where
  "service_request = \<lparr>fq_capabilities = [''c''], fq_deployments = [race_id], fq_min_free_bytes = 5\<rparr>"

definition served_observations :: "jdict \<Rightarrow> jdict list" where
  "served_observations status =
     [probe_node (sample_node ''b'') (Inl (RuntimeError ''down'')) (JInt 1),
      probe_node (sample_node ''a'') (Inr (0, FileParsed (JObj status), [])) (JInt 1)]"

definition served_choice :: "manager \<Rightarrow> (jdict \<times> selection) result" where
  "served_choice m =
     (case fst (resume sample_world BrokerForNode (serving m)) of
        Inr (NodeAnswer status) \<Rightarrow>
          rbind (select_node attest_env sample_catalog (served_observations status) service_request) (\<lambda>x. Inr (status, x))
      | _ \<Rightarrow> Inl (KeyError []))"

lemma served_selected:
  "case rbind served_manager served_choice of
     Inr (status, Selected node x ds) \<Rightarrow> node = sample_node ''a'' \<and>
       x = probe_node (sample_node ''a'') (Inr (0, FileParsed (JObj status), [])) (JInt 1)
   | _ \<Rightarrow> False"
  by code_simp

theorem selected_node_accepts_witness:
  "\<exists>d. daemon_reachable attest_env race_clock ''/dep'' d \<and> task_deployments race_task = [race_id] \<and>
     assert_task_deployments_ready race_task (services_of d) = Inr ()"
proof -
  obtain status ds where r: "rbind served_manager served_choice = Inr (status, Selected (sample_node ''a'')
      (probe_node (sample_node ''a'') (Inr (0, FileParsed (JObj status), [])) (JInt 1)) ds)"
    using served_selected by (auto split: sum.splits prod.splits selection.splits)
  then obtain m where m: "served_manager = Inr m" "served_choice m = Inr (status, Selected (sample_node ''a'')
      (probe_node (sample_node ''a'') (Inr (0, FileParsed (JObj status), [])) (JInt 1)) ds)"
    unfolding rbind_eq_Inr_iff by blast
  have s: "daemon_serves m" by (rule served_reachable [OF m(1)])
  from m(2) have c: "fst (resume sample_world BrokerForNode (serving m)) = Inr (NodeAnswer status)"
    "select_node attest_env sample_catalog (served_observations status) service_request = Inr (Selected (sample_node ''a'')
      (probe_node (sample_node ''a'') (Inr (0, FileParsed (JObj status), [])) (JInt 1)) ds)"
    unfolding served_choice_def by (auto split: sum.splits answer.splits)
  then obtain d' where r: "resume sample_world BrokerForNode (serving m) = (Inr (NodeAnswer status), d')"
    by (cases "resume sample_world BrokerForNode (serving m)") simp
  have t: "set (required_deployments race_task) \<subseteq> set (fq_deployments service_request)" "task_deployments race_task = [race_id]"
    by (simp_all add: required_deployments_def task_deployments_def race_task_def service_request_def)
  have "daemon_reachable attest_env race_clock ''/dep'' (serving m)" using s by (simp add: daemon_serves_def)
  from selected_node_accepts [OF this r c(2) t(1)] this t(2) show ?thesis by blast
qed

end
