(* ===== verification/Daemon_Startup.thy ===== *)
theory Daemon_Startup
  imports Daemon_Facts
begin

text \<open>
  \<open>start\<close> of \<open>src/kernel_infra/server.py\<close>: the daemon claims its endpoint, recovers what an
  earlier daemon left open, and only then accepts clients.  When anything fails the locks
  and the endpoint are released; what recovery already wrote stays in the stores.
\<close>

section \<open>Claiming the endpoint\<close>

text \<open>What is at the path of the socket; for a socket, whether somebody answers on it.\<close>

datatype socket_file = NoSocket | OtherFile | SocketFile "bool result"

definition lock_paths :: "string \<Rightarrow> string \<Rightarrow> string list" where
  "lock_paths state_root socket = [state_root @ ''/daemon.lock'', socket @ ''.lock'']"

definition take_lock :: "(string \<Rightarrow> bool) \<Rightarrow> string \<Rightarrow> unit result" where
  "take_lock held path =
     (if held path then Inl (RuntimeError (''Kernel Infra owner already active: '' @ path)) else Inr ())"

definition claim_endpoint :: "(string \<Rightarrow> bool) \<Rightarrow> string \<Rightarrow> string \<Rightarrow> socket_file \<Rightarrow> unit result" where
  "claim_endpoint held state_root socket entry =
     rbind (rtraverse (take_lock held) (lock_paths state_root socket)) (\<lambda>_.
     case entry of
       NoSocket \<Rightarrow> Inr ()
     | OtherFile \<Rightarrow> Inl (RuntimeError (''refusing to replace non-socket path: '' @ socket))
     | SocketFile live \<Rightarrow> rbind live (\<lambda>b.
         if b then Inl (RuntimeError (''Kernel Infra socket already active: '' @ socket)) else Inr ()))"

section \<open>Starting\<close>

definition fresh_runs :: "run_store \<Rightarrow> run_manager" where
  "fresh_runs st = \<lparr>rk_store = st, rk_tasks = [], rk_stops = [], rk_done = []\<rparr>"

definition fresh_services :: "run_store \<Rightarrow> service_store \<Rightarrow> manager" where
  "fresh_services st svc =
     \<lparr>mg_services = svc, mg_runs = st, mg_tasks = [], mg_stop_reasons = [], mg_pending = []\<rparr>"

definition start_server ::
  "clock \<Rightarrow> (string \<Rightarrow> bool result) \<Rightarrow> (string \<Rightarrow> bool) \<Rightarrow> string \<Rightarrow> string \<Rightarrow> socket_file \<Rightarrow> run_store \<Rightarrow> service_store \<Rightarrow>
     (nat \<times> daemon) result" where
  "start_server clock cancel held state_root socket entry st svc =
     rbind (claim_endpoint held state_root socket entry) (\<lambda>_.
     rbind (recover_runs clock cancel st) (\<lambda>(n, st').
     rbind (recover_services clock cancel svc) (\<lambda>(k, svc').
     Inr (n + k, \<lparr>dn_runs = fresh_runs st', dn_services = fresh_services st' svc'\<rparr>))))"

section \<open>Recovery\<close>

lemma reconcile_total:
  assumes "peek_run st (rn_id s) \<noteq> None" and "\<And>job. \<exists>b. cancel job = Inr b"
  shows "\<exists>st'. reconcile clock cancel st s = Inr st' \<and> (\<forall>k. peek_run st' k = None \<longleftrightarrow> peek_run st k = None)"
proof (cases "rn_broker_job_id s = None \<or> rn_broker_job_id s = Some []")
  case True
  then show ?thesis by (auto simp: reconcile_def)
next
  case False
  then obtain job where job: "rn_broker_job_id s = Some job" "job \<noteq> []" by auto
  obtain b where b: "cancel job = Inr b" using assms(2) by blast
  obtain x where x: "peek_run st (rn_id s) = Some x" using assms(1) by blast
  let ?f = "\<lambda>x. x\<lparr>rn_reason := Some (''startup reconciled broker job '' @ job @ ''; active_cancelled=''
                    @ (if b then ''true'' else ''false''))\<rparr>"
  from runs.update_known [OF x, of clock "''recovery_broker_reconciled''" ?f] obtain y st' where
    u: "update_state clock (rn_id s) ''recovery_broker_reconciled'' ?f st = Inr (y, st')" by blast
  have "reconcile clock cancel st s = Inr st'" using job b u by (simp add: reconcile_def)
  with runs.update_keeps_known [OF u] show ?thesis by blast
qed

lemma reconcile_wf:
  assumes "reconcile clock cancel st s = Inr st'" and "wf_store st"
  shows "wf_store st'"
proof (cases "rn_broker_job_id s = None \<or> rn_broker_job_id s = Some []")
  case True
  with assms show ?thesis by (auto simp: reconcile_def)
next
  case False
  then obtain job where job: "rn_broker_job_id s = Some job" "job \<noteq> []" by auto
  with assms(1) obtain b x where "update_state clock (rn_id s) ''recovery_broker_reconciled''
      (\<lambda>x. x\<lparr>rn_reason := Some (''startup reconciled broker job '' @ job @ ''; active_cancelled=''
                    @ (if b then ''true'' else ''false''))\<rparr>) st = Inr (x, st')"
    by (auto simp: reconcile_def)
  from update_state_wf [OF this assms(2)] show ?thesis by simp
qed

lemma recover_runs_started:
  assumes "recover_runs clock cancel st = Inr (n, st')" and "wf_store st"
  shows "started_runs (fresh_runs st')"
proof -
  from assms(1) obtain st1 where st1: "rfold (reconcile clock cancel) st
      (filter (\<lambda>s. \<not> is_terminal (rn_state s)) (list_states None st)) = Inr st1" "recover_interrupted clock st1 = Inr (n, st')"
    by (auto simp: recover_runs_def)
  have wf: "wf_store st1" by (rule rfold_invariant [OF st1(1), where P = wf_store]) (use assms(2) reconcile_wf in blast)+
  have "\<not> open_run st' rid" for rid
  proof (cases "peek_run st1 rid")
    case None
    with recover_interrupted_closes [OF wf, of clock] st1(2) show ?thesis by (auto simp: open_run_def)
  next
    case (Some s)
    with recover_interrupted_closes [OF wf, of clock] st1(2) show ?thesis by (fastforce simp: open_run_def)
  qed
  with recover_wf [OF wf st1(2)] show ?thesis by (simp add: started_runs_def fresh_runs_def)
qed

lemma recover_runs_total:
  assumes "wf_store st" and "\<And>job. \<exists>b. cancel job = Inr b"
  shows "\<exists>n st'. recover_runs clock cancel st = Inr (n, st')"
proof -
  let ?xs = "filter (\<lambda>s. \<not> is_terminal (rn_state s)) (list_states None st)"
  have "\<exists>st1. rfold (reconcile clock cancel) st ?xs = Inr st1 \<and>
      (wf_store st1 \<and> (\<forall>k. peek_run st1 k = None \<longleftrightarrow> peek_run st k = None))"
  proof (rule rfold_total)
    show "wf_store st \<and> (\<forall>k. peek_run st k = None \<longleftrightarrow> peek_run st k = None)" using assms(1) by simp
    show "\<exists>b. reconcile clock cancel a x = Inr b \<and> (wf_store b \<and> (\<forall>k. peek_run b k = None \<longleftrightarrow> peek_run st k = None))"
      if "wf_store a \<and> (\<forall>k. peek_run a k = None \<longleftrightarrow> peek_run st k = None)" "x \<in> set ?xs" for a x
    proof -
      have "peek_run a (rn_id x) \<noteq> None" using that listed_known [OF assms(1), of x] by auto
      from reconcile_total [where cancel = cancel and clock = clock, OF this assms(2)] obtain b where "reconcile clock cancel a x = Inr b"
        "\<forall>k. peek_run b k = None \<longleftrightarrow> peek_run a k = None" by blast
      with that(1) reconcile_wf show ?thesis by blast
    qed
  qed
  then show ?thesis using recover_interrupted_closes unfolding recover_runs_def by fastforce
qed

section \<open>Properties\<close>

text \<open>C12: when the broker answers its cancellations, a daemon starts exactly if no other process
  holds its two locks and nothing answers on its socket; it then starts with no open run, no
  open deployment and no coroutine, the state the other theorems begin with.\<close>

theorem daemon_starts_clean:
  assumes "wf_store st" and "wf_services svc" and "\<And>job. \<exists>b. cancel job = Inr b"
  shows "((\<exists>n d. start_server clock cancel held state_root socket entry st svc = Inr (n, d)) \<longleftrightarrow>
      (\<forall>path \<in> set (lock_paths state_root socket). \<not> held path) \<and> entry \<in> {NoSocket, SocketFile (Inr False)}) \<and>
    (\<forall>n d. start_server clock cancel held state_root socket entry st svc = Inr (n, d) \<longrightarrow>
      started_daemon d \<and> daemon_reachable env clock home d)"
proof
  have locks: "rtraverse (take_lock held) ps = Inr us \<longleftrightarrow> us = replicate (length ps) () \<and> (\<forall>p \<in> set ps. \<not> held p)" for ps us
    by (induction ps arbitrary: us) (auto simp: take_lock_def split: if_splits)
  have claim: "claim_endpoint held state_root socket entry = Inr () \<longleftrightarrow>
      (\<forall>path \<in> set (lock_paths state_root socket). \<not> held path) \<and> entry \<in> {NoSocket, SocketFile (Inr False)}"
    by (cases entry) (auto simp: claim_endpoint_def locks split: sum.splits)
  from recover_runs_total [where cancel = cancel and clock = clock, OF assms(1,3)] obtain n st' where r: "recover_runs clock cancel st = Inr (n, st')" by blast
  from recovered_services [where cancel = cancel, OF assms(2,3), of clock st'] obtain k svc' where
    s: "recover_services clock cancel svc = Inr (k, svc')" "started_manager (fresh_services st' svc')"
    unfolding fresh_services_def by blast
  have start: "start_server clock cancel held state_root socket entry st svc =
      rbind (claim_endpoint held state_root socket entry) (\<lambda>_.
        Inr (n + k, \<lparr>dn_runs = fresh_runs st', dn_services = fresh_services st' svc'\<rparr>))"
    by (simp add: start_server_def r s(1))
  show "(\<exists>n d. start_server clock cancel held state_root socket entry st svc = Inr (n, d)) \<longleftrightarrow>
      (\<forall>path \<in> set (lock_paths state_root socket). \<not> held path) \<and> entry \<in> {NoSocket, SocketFile (Inr False)}"
    unfolding start claim [symmetric] rbind_eq_Inr_iff by auto
  have "started_daemon \<lparr>dn_runs = fresh_runs st', dn_services = fresh_services st' svc'\<rparr>"
    using recover_runs_started [OF r assms(1)] s(2)
    by (simp add: started_daemon_def services_of_def fresh_runs_def fresh_services_def)
  then show "\<forall>n d. start_server clock cancel held state_root socket entry st svc = Inr (n, d) \<longrightarrow>
      started_daemon d \<and> daemon_reachable env clock home d"
    unfolding start rbind_eq_Inr_iff using daemon_reachable.initial by blast
qed

theorem daemon_starts_clean_witness:
  "\<exists>svc n d. wf_services svc \<and> start_server nat_text (\<lambda>job. Inr True) (\<lambda>p. False) ''/r'' ''/s'' (SocketFile (Inr False))
     sample_store svc = Inr (n, d) \<and> started_daemon d"
proof -
  obtain m4 where m: "race_reachable m4" "lifecycle_of race_id m4 = Some SvcStarting" by (rule race_stopping)
  have wf: "wf_services (mg_services m4)" using reachable_one_open [OF m(1)] by simp
  have t: "\<exists>b. (\<lambda>job. Inr True :: bool result) (job :: string) = Inr b" for job by (intro exI) (rule refl)
  note r = daemon_starts_clean [where cancel = "\<lambda>job. Inr True" and held = "\<lambda>p. False" and state_root = "''/r''" and
      socket = "''/s''" and entry = "SocketFile (Inr False)" and clock = nat_text, OF sample_store_wf wf t]
  then obtain n d where n: "start_server nat_text (\<lambda>job. Inr True) (\<lambda>p. False) ''/r'' ''/s'' (SocketFile (Inr False))
     sample_store (mg_services m4) = Inr (n, d)" by blast
  with r have "started_daemon d" by blast
  with n wf show ?thesis by blast
qed

end
