(* ===== verification/Judge_Results.thy ===== *)
theory Judge_Results
  imports Result_Facts Py_Builtins
begin

text \<open>
  The contract between the judges under \<open>src/kernel_infra/adapters\<close> and the runner: which
  documents \<open>validate_stage_result\<close> accepts, as a condition on the document alone.
\<close>

section \<open>Rows\<close>

definition sample_times_ok :: "json \<Rightarrow> bool" where
  "sample_times_ok v \<longleftrightarrow> (case v of JList xs \<Rightarrow> xs \<noteq> [] \<and> list_all time_ok xs | _ \<Rightarrow> False)"

definition field_accepted :: "jdict \<Rightarrow> string \<Rightarrow> (json \<Rightarrow> bool) \<Rightarrow> bool" where
  "field_accepted row k P \<longleftrightarrow> (\<forall>v. dict_get k row = Some v \<longrightarrow> P v)"

definition row_accepted :: "task_spec \<Rightarrow> jdict \<Rightarrow> bool" where
  "row_accepted task row \<longleftrightarrow>
     list_all (\<lambda>k. k \<in> set WORKLOAD_FIELDS) (dict_keys row) \<and>
     (\<exists>w \<in> set (task_workloads task). dget ''id'' row = JStr w) \<and>
     field_accepted row ''correct'' is_bool \<and> field_accepted row ''candidate_ms'' time_ok \<and>
     field_accepted row ''baseline_ms'' time_ok \<and> field_accepted row ''speedup'' time_ok \<and>
     field_accepted row ''candidate_samples_ms'' sample_times_ok \<and>
     field_accepted row ''baseline_samples_ms'' sample_times_ok \<and>
     field_accepted row ''stable'' is_bool \<and> field_accepted row ''notes'' is_str"

lemma finite_positive_iff: "(\<exists>x. finite_positive v loc = Inr x) \<longleftrightarrow> time_ok v"
proof
  show "\<exists>x. finite_positive v loc = Inr x \<Longrightarrow> time_ok v" using finite_positive_Inr by blast
  assume "time_ok v"
  then obtain q where "py_float_of v = Inr (Fin q)" "0 < q" by (rule time_okE)
  moreover have "is_number v" using \<open>time_ok v\<close> by (simp add: time_ok_def)
  ultimately show "\<exists>x. finite_positive v loc = Inr x" by (simp add: finite_positive_def flt_le_def)
qed

lemma check_time_iff: "check_time loc v = Inr () \<longleftrightarrow> time_ok v"
  using finite_positive_iff [of v loc] by (simp add: check_time_def)

lemma check_samples_iff: "check_samples loc v = Inr () \<longleftrightarrow> sample_times_ok v"
proof (cases v)
  case (JList xs)
  have "(\<exists>us. rtraverse (\<lambda>(i, x). check_time (loc @ ''['' @ nat_text i @ '']'') x) (List.enumerate n xs) = Inr us) \<longleftrightarrow>
      list_all time_ok xs" for n
    by (induction xs arbitrary: n) (auto simp: check_time_iff)
  then show ?thesis using JList by (auto simp: check_samples_def sample_times_ok_def)
qed (simp_all add: check_samples_def sample_times_ok_def)

lemma require_iff: "require P msg = Inr () \<longleftrightarrow> P"
  by (simp add: require_def)

lemma sorted_none: "sort xs = [] \<longleftrightarrow> xs = []" for xs :: "string list"
  by (metis length_0_conv length_sort)

lemma validate_workload_iff:
  "validate_workload env (JObj row) i task = Inr row' \<longleftrightarrow> row' = row \<and> row_accepted task row"
proof -
  have unknown: "sort (filter (\<lambda>k. k \<notin> set WORKLOAD_FIELDS) (dict_keys row)) \<noteq> [] \<longleftrightarrow>
      \<not> list_all (\<lambda>k. k \<in> set WORKLOAD_FIELDS) (dict_keys row)"
    by (simp add: sorted_none filter_empty_conv list_all_iff)
  have id: "list_ex (\<lambda>w. py_eq (dget ''id'' row) (JStr w)) (task_workloads task) \<longleftrightarrow>
      (\<exists>w \<in> set (task_workloads task). dget ''id'' row = JStr w)"
    by (auto simp: list_ex_iff)
  have o: "optional_field k check row = Inr () \<longleftrightarrow> field_accepted row k P"
    if "\<And>v. check v = Inr () \<longleftrightarrow> P v" for k check P
    using that by (simp add: optional_field_Inr field_accepted_def)
  show ?thesis
    unfolding validate_workload_def expect_object.simps rbind.simps Let_def unknown id
    by (auto simp: row_accepted_def o [OF check_time_iff] o [OF check_samples_iff] o [OF require_iff])
qed

lemma validate_rows_iff:
  "validate_rows env task i seen (map JObj rows) = Inr out \<longleftrightarrow> out = rows \<and> list_all (row_accepted task) rows \<and>
     distinct (map row_id rows) \<and> set (map row_id rows) \<inter> set seen = {}"
proof (induction rows arbitrary: i seen out)
  case (Cons row rows)
  have IH: "validate_rows env task (Suc i) (row_id row # seen) (map JObj rows) = Inr out' \<longleftrightarrow> out' = rows \<and>
      list_all (row_accepted task) rows \<and> distinct (map row_id rows) \<and> set (map row_id rows) \<inter> set (row_id row # seen) = {}" for out'
    by (rule Cons.IH)
  show ?case
    unfolding list.map validate_rows.simps rbind_eq_Inr_iff validate_workload_iff
    by (auto simp: IH)
qed auto

section \<open>Documents\<close>

definition consistent :: "status \<Rightarrow> validity \<Rightarrow> bool" where
  "consistent s v \<longleftrightarrow> \<not> (s = Passed \<and> v = Invalid) \<and> \<not> (s = Failed \<and> v = Valid)"

text \<open>What every document of a judge has.\<close>

definition judge_document :: "jdict \<Rightarrow> status \<Rightarrow> validity \<Rightarrow> jdict list \<Rightarrow> bool" where
  "judge_document d s v rows \<longleftrightarrow>
     list_all (\<lambda>k. k \<in> set STAGE_RESULT_FIELDS) (dict_keys d) \<and>
     dict_get ''schema'' d = Some (JStr STAGE_RESULT_SCHEMA) \<and>
     dict_get ''status'' d = Some (JStr (status_name s)) \<and> dict_get ''validity'' d = Some (JStr (validity_name v)) \<and>
     consistent s v \<and> dict_get ''workloads'' d = Some (JList (map JObj rows)) \<and>
     field_accepted d ''summary'' is_str \<and> field_accepted d ''artifacts'' is_obj \<and>
     field_accepted d ''fingerprints'' is_obj \<and> field_accepted d ''metrics'' is_obj"

definition rows_accepted :: "task_spec \<Rightarrow> jdict list \<Rightarrow> bool" where
  "rows_accepted task rows \<longleftrightarrow> list_all (row_accepted task) rows \<and> distinct (map row_id rows)"

lemma lookup_status: "lookup_named status_name STATUSES (JStr (status_name s)) e = Inr s"
  by (cases s) (simp_all add: lookup_named_def member_named_def STATUSES_def)

lemma lookup_validity: "lookup_named validity_name VALIDITIES (JStr (validity_name v)) e = Inr v"
  by (cases v) (simp_all add: lookup_named_def member_named_def VALIDITIES_def)

lemma judge_document_accepted:
  assumes "judge_document d s v rows"
  shows "(\<exists>r. validate_stage_result env (JObj d) task = Inr r) \<longleftrightarrow> rows_accepted task rows"
    and "validate_stage_result env (JObj d) task = Inr r \<Longrightarrow> sr_status r = s \<and> sr_validity r = v \<and> sr_workloads r = rows"
proof -
  have fields: "sort (filter (\<lambda>k. \<not> dict_has k d) [''schema'', ''status'', ''validity'']) = []"
    "sort (filter (\<lambda>k. k \<notin> set STAGE_RESULT_FIELDS) (dict_keys d)) = []"
    using assms by (auto simp: judge_document_def sorted_none filter_empty_conv list_all_iff dict_has_get)
  have heads: "py_eq (dget ''schema'' d) (JStr STAGE_RESULT_SCHEMA)" "dget ''status'' d = JStr (status_name s)"
    "dget ''validity'' d = JStr (validity_name v)" "\<not> (s = Passed \<and> v = Invalid)" "\<not> (s = Failed \<and> v = Valid)"
    "dict_get ''workloads'' d = Some (JList (map JObj rows))"
    using assms by (auto simp: judge_document_def dget_def consistent_def)
  have opts: "optional_field ''summary'' (\<lambda>x. require (is_str x) ''stage result summary must be a string'') d = Inr ()"
    "optional_field ''artifacts'' (\<lambda>x. require (is_obj x) ''stage result artifacts must be an object'') d = Inr ()"
    "optional_field ''fingerprints'' (\<lambda>x. require (is_obj x) ''stage result fingerprints must be an object'') d = Inr ()"
    "optional_field ''metrics'' (\<lambda>x. require (is_obj x) ''stage result metrics must be an object'') d = Inr ()"
    using assms by (simp_all add: judge_document_def optional_field_Inr require_iff field_accepted_def)
  have v: "validate_stage_result env (JObj d) task = rbind (validate_rows env task 0 [] (map JObj rows)) (\<lambda>normalized.
         Inr \<lparr>sr_status = s, sr_validity = v,
              sr_summary = Option.bind (dict_get ''summary'' d) opt_string,
              sr_workloads = normalized,
              sr_artifacts = Option.bind (dict_get ''artifacts'' d) opt_object,
              sr_fingerprints = Option.bind (dict_get ''fingerprints'' d) opt_object,
              sr_metrics = Option.bind (dict_get ''metrics'' d) opt_object\<rparr>)"
    unfolding validate_stage_result_def expect_object.simps rbind.simps Let_def fields heads(2,3) lookup_status lookup_validity
      opts heads(6) option.case json.case
    using heads(1,4,5) by auto
  show "(\<exists>r. validate_stage_result env (JObj d) task = Inr r) \<longleftrightarrow> rows_accepted task rows"
    unfolding v rbind_eq_Inr_iff validate_rows_iff rows_accepted_def by auto
  show "validate_stage_result env (JObj d) task = Inr r \<Longrightarrow> sr_status r = s \<and> sr_validity r = v \<and> sr_workloads r = rows"
    unfolding v rbind_eq_Inr_iff validate_rows_iff by auto
qed

text \<open>The document of a failure without rows is always accepted.\<close>

lemma no_rows_accepted: "rows_accepted task []"
  by (simp add: rows_accepted_def)

section \<open>What the judges read of their task\<close>

text \<open>\<open>json.loads(path.read_text())\<close>.\<close>

definition parsed :: "json_file \<Rightarrow> json result" where
  "parsed f = (case f of FileParsed v \<Rightarrow> Inr v | FileMalformed e \<Rightarrow> Inl (JSONDecodeError e)
     | FileMissing \<Rightarrow> Inl (OSError ''No such file or directory''))"

text \<open>The identities of the judges of the stages with an id; a missing id is \<open>None\<close>.\<close>

fun stage_identities :: "json \<Rightarrow> json list \<Rightarrow> json list result" where
  "stage_identities sid [] = Inr []"
| "stage_identities sid (stage # stages) =
     rbind (as_dict stage) (\<lambda>d.
     if py_eq (dget ''id'' d) sid
     then rbind (as_dict (dget_or ''judge'' (JObj []) d)) (\<lambda>judge.
          rbind (stage_identities sid stages) (\<lambda>rest. Inr (dget ''identity'' judge # rest)))
     else stage_identities sid stages)"

definition judge_identities :: "json_file \<Rightarrow> json \<Rightarrow> json list result" where
  "judge_identities task sid =
     rbind (parsed task) (\<lambda>t. rbind (as_dict t) (\<lambda>d.
     rbind (py_iter (dget_or ''stages'' (JList []) d)) (stage_identities sid)))"

text \<open>The document of an adapter that failed.\<close>

definition adapter_error :: "string \<Rightarrow> exn \<Rightarrow> jdict" where
  "adapter_error adapter e =
     [(''schema'', JStr STAGE_RESULT_SCHEMA), (''status'', JStr ''failed''), (''validity'', JStr ''unknown''),
      (''summary'', JStr (adapter @ '' error: '' @ exn_described e)), (''workloads'', JList [])]"

lemma adapter_error_document: "judge_document (adapter_error adapter e) Failed Unknown []"
  by (simp add: judge_document_def adapter_error_def consistent_def dict_keys_def STAGE_RESULT_FIELDS_def field_accepted_def)

end
