(* ===== verification/Cuda_Container.thy ===== *)
theory Cuda_Container
  imports Judge_Results Byte_Frames Posix_Path
begin

text \<open>
  \<open>src/kernel_infra/adapters/cuda_container.py\<close>: the judge that compiles and runs a CUDA
  candidate in a container.  Its image contract, the identity checks, and \<open>main\<close> as a
  function of what the commands answer: every command and every written log is part of the
  state, every exception an \<open>Inl\<close>.
\<close>

section \<open>Surroundings\<close>

text \<open>The answer of a command is an exception, or its exit code, output and errors.\<close>

type_synonym completed = "int \<times> string \<times> string"

datatype written = Text string | Document jdict

record judge_state =
  js_commands :: nat
  js_written :: "(string \<times> written) list"

text \<open>
  The file system as it is when the judge is in a state: it has run so many commands and
  written these files.
\<close>

record container_world =
  cn_env :: py_env
  cn_general9 :: "py_float \<Rightarrow> string"
  cn_json :: "string \<Rightarrow> json_file"
  cn_environ :: "string \<Rightarrow> string option"
  cn_document :: "string \<Rightarrow> json_file"
  cn_bytes :: "judge_state \<Rightarrow> string \<Rightarrow> nat list option"
  cn_command :: "nat \<Rightarrow> string list \<Rightarrow> exn + completed"
  cn_self :: string
  cn_ids :: string

record judge_args =
  ja_image_contract :: string
  ja_arch :: string
  ja_artifact_name :: string
  ja_judge_dir :: string

text \<open>The judge's code as functions of its state.\<close>

type_synonym 'a judging = "judge_state \<Rightarrow> 'a result \<times> judge_state"

definition jlift :: "'a result \<Rightarrow> 'a judging" where
  "jlift r s = (r, s)"

definition jbind :: "'a judging \<Rightarrow> ('a \<Rightarrow> 'b judging) \<Rightarrow> 'b judging" where
  "jbind f g s = (case f s of (Inl e, s') \<Rightarrow> (Inl e, s') | (Inr x, s') \<Rightarrow> g x s')"

definition command :: "container_world \<Rightarrow> string list \<Rightarrow> completed judging" where
  "command w argv s = (cn_command w (js_commands s) argv, s\<lparr>js_commands := Suc (js_commands s)\<rparr>)"

definition write_file :: "string \<Rightarrow> written \<Rightarrow> unit judging" where
  "write_file path content s = (Inr (), s\<lparr>js_written := (path, content) # js_written s\<rparr>)"

definition write_text :: "string \<Rightarrow> string \<Rightarrow> unit judging" where
  "write_text path text = write_file path (Text text)"

definition loads :: "container_world \<Rightarrow> string \<Rightarrow> json result" where
  "loads w text = (case cn_json w text of FileParsed v \<Rightarrow> Inr v | FileMalformed e \<Rightarrow> Inl (JSONDecodeError e)
     | FileMissing \<Rightarrow> Inl (JSONDecodeError []))"

definition read_bytes :: "container_world \<Rightarrow> string \<Rightarrow> nat list judging" where
  "read_bytes w path s =
     (case cn_bytes w s path of Some b \<Rightarrow> (Inr b, s) | None \<Rightarrow> (Inl (OSError ''No such file or directory''), s))"

definition environ_item :: "container_world \<Rightarrow> string \<Rightarrow> string result" where
  "environ_item w k = (case cn_environ w k of Some v \<Rightarrow> Inr v | None \<Rightarrow> Inl (KeyError k))"

definition required_path :: "container_world \<Rightarrow> string \<Rightarrow> string result" where
  "required_path w k =
     (case cn_environ w k of
        Some (c # cs) \<Rightarrow> Inr (resolve_path (cn_env w) (c # cs))
      | _ \<Rightarrow> Inl (RuntimeError (''missing required environment variable: '' @ k)))"

section \<open>Identities\<close>

definition named_frame :: "string \<Rightarrow> nat list \<Rightarrow> nat list" where
  "named_frame name data = utf8 name @ [0] @ be64 (length data) @ data"

definition bundle_stream :: "nat list \<Rightarrow> nat list \<Rightarrow> nat list \<Rightarrow> nat list" where
  "bundle_stream judge harness contract =
     named_frame ''cuda_container.py'' judge @ named_frame ''harness.cu'' harness @ named_frame ''image-contract.json'' contract"

definition bundle_sha256 :: "container_world \<Rightarrow> string \<Rightarrow> string \<Rightarrow> string judging" where
  "bundle_sha256 w judge_dir contract_path =
     jbind (read_bytes w (cn_self w)) (\<lambda>judge.
     jbind (read_bytes w (judge_dir @ ''/harness.cu'')) (\<lambda>harness.
     jbind (read_bytes w contract_path) (\<lambda>contract.
     jlift (Inr (sha256 (cn_env w) (bundle_stream judge harness contract))))))"

definition sha256_reference :: "json \<Rightarrow> bool" where
  "sha256_reference v \<longleftrightarrow> (case v of
     JStr s \<Rightarrow> has_prefix ''sha256:'' s \<and> length (drop 7 s) = 64 \<and> list_all lower_hex (drop 7 s) | _ \<Rightarrow> False)"

definition IMAGE_CONTRACT_FIELDS :: "string list" where
  "IMAGE_CONTRACT_FIELDS = [''schema'', ''name'', ''image_ref'', ''platform'', ''manifest_digest'', ''config_digest'',
     ''cuda_version'', ''nvcc_build'', ''required_tools'', ''source'']"

definition REQUIRED_TOOLS :: json where
  "REQUIRED_TOOLS = JList [JStr ''nvcc'', JStr ''cuobjdump'', JStr ''compute-sanitizer'']"

definition image_contract_of :: "container_world \<Rightarrow> json \<Rightarrow> jdict result" where
  "image_contract_of w v =
     (case v of
        JObj d \<Rightarrow>
          if \<not> (set (dict_keys d) = set IMAGE_CONTRACT_FIELDS)
          then Inl (RuntimeError ''invalid container image contract fields'')
          else if \<not> py_eq (dget ''schema'' d) (JStr ''kernelinfra.container-image.v1'')
          then Inl (RuntimeError ''unsupported container image contract schema'')
          else if \<not> sha256_reference (dget ''manifest_digest'' d)
          then Inl (RuntimeError ''invalid manifest_digest in container image contract'')
          else if \<not> sha256_reference (dget ''config_digest'' d)
          then Inl (RuntimeError ''invalid config_digest in container image contract'')
          else if \<not> py_eq (dget ''platform'' d) (JStr ''linux/amd64'')
          then Inl (RuntimeError (''unsupported container platform: '' @ py_str (float_text (cn_env w)) (dget ''platform'' d)))
          else if \<not> py_eq (dget ''required_tools'' d) REQUIRED_TOOLS
          then Inl (RuntimeError ''container image contract does not provide required tools'')
          else Inr d
      | _ \<Rightarrow> Inl (RuntimeError ''invalid container image contract fields''))"

definition load_image_contract :: "container_world \<Rightarrow> string \<Rightarrow> jdict result" where
  "load_image_contract w path = rbind (parsed (cn_document w path)) (image_contract_of w)"

definition image_identity :: "container_world \<Rightarrow> string \<Rightarrow> jdict judging" where
  "image_identity w image_ref =
     jbind (command w [''docker'', ''image'', ''inspect'', image_ref]) (\<lambda>(code, out, err).
     if code \<noteq> 0 then jlift (Inl (RuntimeError (''cannot inspect image '' @ image_ref @ '': '' @ py_strip err)))
     else jlift (rbind (loads w out) (\<lambda>v.
       case v of
         JList [JObj d] \<Rightarrow> Inr d
       | _ \<Rightarrow> Inl (RuntimeError ''docker image inspect returned an invalid payload''))))"

text \<open>\<open>image_ref.rsplit(":", 1)[0]\<close>.\<close>

definition before_last_colon :: "string \<Rightarrow> string" where
  "before_last_colon s = (if CHR '':'' \<in> set s then rev (drop 1 (dropWhile (\<lambda>c. c \<noteq> CHR '':'') (rev s))) else s)"

definition validate_image_identity :: "container_world \<Rightarrow> jdict \<Rightarrow> string \<Rightarrow> string \<Rightarrow> string \<Rightarrow> string result" where
  "validate_image_identity w identity image_ref manifest config =
     (let runtime = dget ''Id'' identity;
          repo = (let v = dget ''RepoDigests'' identity in if py_truthy v then v else JList []);
          expected = before_last_colon image_ref @ ''@'' @ manifest
      in if py_eq runtime (JStr config) then Inr config
         else if py_eq runtime (JStr manifest) \<and>
           (case repo of JList xs \<Rightarrow> list_ex (\<lambda>x. py_eq x (JStr expected)) xs | _ \<Rightarrow> False)
         then Inr manifest
         else Inl (RuntimeError (''container identity drift: expected exact config or manifest-backed runtime; got id=''
                @ py_repr (float_text (cn_env w)) runtime @ '' repo_digests='' @ py_repr (float_text (cn_env w)) repo)))"

fun find_judge :: "py_env \<Rightarrow> string \<Rightarrow> json list \<Rightarrow> string result" where
  "find_judge env sid [] = Inl (RuntimeError (''stage is absent from task: '' @ sid))"
| "find_judge env sid (stage # stages) =
     rbind (py_index ''id'' stage) (\<lambda>i.
     if py_eq i (JStr sid)
     then rbind (py_index ''judge'' stage) (\<lambda>j. rbind (py_index ''identity'' j) (\<lambda>v. Inr (py_str (float_text env) v)))
     else find_judge env sid stages)"

definition judge_identity_in :: "container_world \<Rightarrow> string \<Rightarrow> string \<Rightarrow> string result" where
  "judge_identity_in w task_path sid =
     rbind (parsed (cn_document w task_path)) (\<lambda>task.
     rbind (py_index ''stages'' task) (\<lambda>stages.
     rbind (py_iter stages) (find_judge (cn_env w) sid)))"

section \<open>Commands\<close>

definition last_12 :: "string \<Rightarrow> string" where
  "last_12 s = drop (length s - 12) s"

definition container_name :: "container_world \<Rightarrow> string result" where
  "container_name w =
     rbind (environ_item w ''KERNELINFRA_RUN_ID'') (\<lambda>rid.
     rbind (environ_item w ''KERNELINFRA_STAGE_ID'') (\<lambda>sid.
     Inr (''kernelinfra-'' @ last_12 rid @ ''-'' @ sid)))"

definition docker_base ::
  "container_world \<Rightarrow> string \<Rightarrow> string \<Rightarrow> string \<Rightarrow> string \<Rightarrow> bool \<Rightarrow> string list result" where
  "docker_base w image_ref candidate_dir judge_dir artifact_dir needs_gpu =
     rbind (container_name w) (\<lambda>name.
     rbind (environ_item w ''KERNELINFRA_RUN_ID'') (\<lambda>rid.
     rbind (environ_item w ''KERNELINFRA_STAGE_ID'') (\<lambda>sid.
     rbind (if \<not> needs_gpu then Inr []
            else let gpus = py_strip (case cn_environ w ''CUDA_VISIBLE_DEVICES'' of None \<Rightarrow> [] | Some v \<Rightarrow> v) in
              if gpus = [] then Inl (RuntimeError ''broker did not assign CUDA_VISIBLE_DEVICES'')
              else Inr [''--gpus'', ''device='' @ gpus]) (\<lambda>gpu.
     Inr ([''docker'', ''run'', ''--rm'', ''--network'', ''none'', ''--cap-drop'', ''ALL'',
           ''--security-opt'', ''no-new-privileges'', ''--pids-limit'', ''256'', ''--name'', name,
           ''--label'', ''kernelinfra.run_id='' @ rid, ''--label'', ''kernelinfra.stage_id='' @ sid] @ gpu @
          [''--user'', cn_ids w, ''--volume'', candidate_dir @ '':/candidate:ro'',
           ''--volume'', judge_dir @ '':/judge:ro'', ''--volume'', artifact_dir @ '':/artifacts:rw'', image_ref])))))"

text \<open>The options of \<open>cuobjdump\<close> are run until one fails; \<open>None\<close> when none does.\<close>

fun dump_options ::
  "container_world \<Rightarrow> string list \<Rightarrow> string \<Rightarrow> string \<Rightarrow> (string \<times> string) list \<Rightarrow> string option judging" where
  "dump_options w base artifact_dir stage_dir [] = jlift (Inr None)"
| "dump_options w base artifact_dir stage_dir ((option, name) # rest) =
     jbind (command w (base @ [''cuobjdump'', option, ''/artifacts/runner''])) (\<lambda>(code, out, err).
     jbind (write_text (artifact_dir @ ''/'' @ name) out) (\<lambda>_.
     jbind (write_text (stage_dir @ ''/cuobjdump'' @ option @ ''.stderr.log'') err) (\<lambda>_.
     if code \<noteq> 0
     then jlift (Inr (Some (''cuobjdump '' @ option @ '' failed with exit '' @ int_text code)))
     else dump_options w base artifact_dir stage_dir rest)))"

text \<open>The error of the compilation, or \<open>None\<close>.\<close>

definition compile_candidate ::
  "container_world \<Rightarrow> string list \<Rightarrow> string \<Rightarrow> string \<Rightarrow> string \<Rightarrow> string option judging" where
  "compile_candidate w base arch artifact_dir stage_dir =
     jbind (command w (base @ [''nvcc'', ''-O3'', ''-std=c++17'', ''-arch='' @ arch, ''-lineinfo'', ''-Xptxas'', ''-v'',
        ''/judge/harness.cu'', ''/candidate/kernel.cu'', ''-o'', ''/artifacts/runner''])) (\<lambda>(code, out, err).
     jbind (write_text (stage_dir @ ''/compile.stdout.log'') out) (\<lambda>_.
     jbind (write_text (stage_dir @ ''/compile.stderr.log'') err) (\<lambda>_.
     if code \<noteq> 0 then jlift (Inr (Some (''nvcc failed with exit '' @ int_text code)))
     else dump_options w base artifact_dir stage_dir [(''-sass'', ''runner.sass''), (''-ptx'', ''runner.ptx'')])))"

text \<open>The sanitizers are run until one fails; the answer of the last one run decides.\<close>

definition sanitizer_command :: "string list \<Rightarrow> string \<Rightarrow> string list" where
  "sanitizer_command base tool =
     base @ [''compute-sanitizer'', ''--tool'', tool, ''--error-exitcode'', ''99'', ''/artifacts/runner'', ''--mode'', ''correctness'']"

fun sanitize :: "container_world \<Rightarrow> string list \<Rightarrow> string \<Rightarrow> string \<Rightarrow> string list \<Rightarrow> completed judging" where
  "sanitize w base stage_dir tool tools =
     jbind (command w (sanitizer_command base tool)) (\<lambda>(code, out, err).
     jbind (write_text (stage_dir @ ''/'' @ tool @ ''.stdout.log'') out) (\<lambda>_.
     jbind (write_text (stage_dir @ ''/'' @ tool @ ''.stderr.log'') err) (\<lambda>_.
     case tools of
       [] \<Rightarrow> jlift (Inr (code, out, err))
     | next_tool # rest \<Rightarrow> if code \<noteq> 0 then jlift (Inr (code, out, err)) else sanitize w base stage_dir next_tool rest)))"

section \<open>Harness output\<close>

fun last_object :: "container_world \<Rightarrow> string list \<Rightarrow> jdict result" where
  "last_object w [] = Inl (ValueError ''harness emitted no JSON object'')"
| "last_object w (line # lines) =
     (let stripped = py_strip line in
      if \<not> has_prefix [CHR 0x7B] stripped then last_object w lines
      else rbind (loads w stripped) (\<lambda>v.
        case v of JObj d \<Rightarrow> Inr d | _ \<Rightarrow> Inl (ValueError ''harness JSON must be an object'')))"

definition last_json_object :: "container_world \<Rightarrow> string \<Rightarrow> jdict result" where
  "last_json_object w text = last_object w (rev (splitlines text))"

section \<open>Results\<close>

definition failure_document :: "validity \<Rightarrow> string \<Rightarrow> jdict \<Rightarrow> jdict" where
  "failure_document validity summary artifacts =
     [(''schema'', JStr STAGE_RESULT_SCHEMA), (''status'', JStr ''failed''), (''validity'', JStr (validity_name validity)),
      (''summary'', JStr summary), (''workloads'', JList []), (''artifacts'', JObj artifacts)]"

text \<open>What the judge knows once the identities are checked.\<close>

record judge_context =
  jc_candidate :: string
  jc_artifact_dir :: string
  jc_stage_dir :: string
  jc_artifacts :: jdict
  jc_runtime :: string
  jc_config :: string
  jc_manifest :: string

definition file_digest :: "container_world \<Rightarrow> string \<Rightarrow> json judging" where
  "file_digest w path = jbind (read_bytes w path) (\<lambda>b. jlift (Inr (JStr (sha256 (cn_env w) b))))"

definition fingerprints :: "container_world \<Rightarrow> judge_context \<Rightarrow> jdict judging" where
  "fingerprints w c =
     jbind (file_digest w (jc_candidate c)) (\<lambda>source.
     jbind (file_digest w (jc_artifact_dir c @ ''/runner'')) (\<lambda>binary.
     jbind (file_digest w (jc_artifact_dir c @ ''/runner.sass'')) (\<lambda>sass.
     jbind (file_digest w (jc_artifact_dir c @ ''/runner.ptx'')) (\<lambda>ptx.
     jlift (Inr [(''source_sha256'', source), (''binary_sha256'', binary), (''sass_sha256'', sass), (''ptx_sha256'', ptx),
       (''container_image_id'', JStr (jc_runtime c)), (''container_runtime_id'', JStr (jc_runtime c)),
       (''container_config_digest'', JStr (jc_config c)), (''container_manifest_digest'', JStr (jc_manifest c))])))))"

definition compile_logs :: jdict where
  "compile_logs = [(''compile_stdout'', JStr ''compile.stdout.log''), (''compile_stderr'', JStr ''compile.stderr.log'')]"

definition compiled_document :: "string \<Rightarrow> judge_context \<Rightarrow> jdict \<Rightarrow> jdict" where
  "compiled_document arch c prints =
     [(''schema'', JStr STAGE_RESULT_SCHEMA), (''status'', JStr ''passed''), (''validity'', JStr ''unknown''),
      (''summary'', JStr (''NVCC '' @ arch @ '' compile and compiler evidence passed'')), (''workloads'', JList []),
      (''artifacts'', JObj (jc_artifacts c @ compile_logs)), (''fingerprints'', JObj prints)]"

definition compile_stage :: "container_world \<Rightarrow> string list \<Rightarrow> string \<Rightarrow> judge_context \<Rightarrow> jdict judging" where
  "compile_stage w base arch c =
     jbind (compile_candidate w base arch (jc_artifact_dir c) (jc_stage_dir c)) (\<lambda>failed.
     case failed of
       Some e \<Rightarrow> jlift (Inr (failure_document Invalid e compile_logs))
     | None \<Rightarrow>
         jbind (fingerprints w c) (\<lambda>prints.
         jlift (Inr (compiled_document arch c prints))))"

text \<open>The harness gave no object.\<close>

definition no_output :: "string \<Rightarrow> int \<Rightarrow> exn \<Rightarrow> jdict" where
  "no_output kind code e =
     failure_document (if kind \<in> {''correctness'', ''sanitize''} \<and> code \<noteq> 0 then Invalid else Unknown)
       (if kind = ''correctness'' \<and> code \<noteq> 0
        then ''candidate runtime failed before a complete correctness result (exit '' @ int_text code @ '')''
        else if kind = ''sanitize'' \<and> code \<noteq> 0
        then ''compute-sanitizer rejected candidate before a complete result (exit '' @ int_text code @ '')''
        else ''harness failed without valid JSON: '' @ exn_str e)
       [(''harness_stdout'', JStr ''harness.stdout.log''), (''harness_stderr'', JStr ''harness.stderr.log'')]"

definition error_note :: "container_world \<Rightarrow> string \<Rightarrow> json \<Rightarrow> string result" where
  "error_note w k row = rbind (py_index k row) (\<lambda>v. rbind (float_call (cn_env w) v) (\<lambda>x. Inr (k @ ''='' @ cn_general9 w x)))"

definition correctness_row :: "container_world \<Rightarrow> json \<Rightarrow> jdict result" where
  "correctness_row w row =
     rbind (error_note w ''max_abs_error'' row) (\<lambda>absolute.
     rbind (as_dict row) (\<lambda>d.
     rbind (if dict_has ''max_rel_error'' d then rbind (error_note w ''max_rel_error'' row) (\<lambda>n. Inr ('' '' @ n)) else Inr []) (\<lambda>relative.
     rbind (py_index ''id'' row) (\<lambda>i.
     rbind (py_index ''correct'' row) (\<lambda>c.
     Inr [(''id'', i), (''correct'', JBool (py_truthy c)), (''notes'', JStr (absolute @ relative))])))))"

definition float_field :: "container_world \<Rightarrow> string \<Rightarrow> json \<Rightarrow> py_float result" where
  "float_field w k row = rbind (py_index k row) (float_call (cn_env w))"

definition float_samples :: "container_world \<Rightarrow> string \<Rightarrow> json \<Rightarrow> json result" where
  "float_samples w k row =
     rbind (py_index k row) (\<lambda>v. rbind (py_iter v) (\<lambda>xs.
     rbind (rtraverse (float_call (cn_env w)) xs) (\<lambda>fs. Inr (JList (map JFloat fs)))))"

definition benchmark_row :: "container_world \<Rightarrow> py_float \<Rightarrow> json \<Rightarrow> jdict result" where
  "benchmark_row w noise row =
     rbind (py_index ''id'' row) (\<lambda>i.
     rbind (float_field w ''candidate_ms'' row) (\<lambda>candidate.
     rbind (float_field w ''baseline_ms'' row) (\<lambda>baseline.
     rbind (float_samples w ''candidate_samples_ms'' row) (\<lambda>candidates.
     rbind (float_samples w ''baseline_samples_ms'' row) (\<lambda>baselines.
     rbind (float_field w ''baseline_cv'' row) (\<lambda>cv.
     Inr [(''id'', i), (''correct'', JBool True), (''candidate_ms'', JFloat candidate), (''baseline_ms'', JFloat baseline),
          (''candidate_samples_ms'', candidates), (''baseline_samples_ms'', baselines),
          (''stable'', JBool (flt_le cv noise)), (''notes'', JStr (''baseline_cv='' @ cn_general9 w cv))]))))))"

text \<open>\<open>f"{payload['device']}"\<close>.\<close>

definition device_text :: "container_world \<Rightarrow> jdict \<Rightarrow> string result" where
  "device_text w payload = rbind (dindex ''device'' payload) (\<lambda>v. Inr (py_str (float_text (cn_env w)) v))"

definition stage_rows :: "(json \<Rightarrow> jdict result) \<Rightarrow> jdict \<Rightarrow> jdict list result" where
  "stage_rows f payload = rbind (dindex ''workloads'' payload) (\<lambda>v. rbind (py_iter v) (rtraverse f))"

definition result_document :: "bool \<Rightarrow> validity \<Rightarrow> string \<Rightarrow> jdict list \<Rightarrow> jdict \<Rightarrow> jdict \<Rightarrow> jdict" where
  "result_document passed validity summary rows artifacts prints =
     [(''schema'', JStr STAGE_RESULT_SCHEMA), (''status'', JStr (if passed then ''passed'' else ''failed'')),
      (''validity'', JStr (validity_name validity)), (''summary'', JStr summary), (''workloads'', JList (map JObj rows)),
      (''artifacts'', JObj artifacts), (''fingerprints'', JObj prints)]"

definition correctness_result ::
  "container_world \<Rightarrow> string \<Rightarrow> int \<Rightarrow> jdict \<Rightarrow> jdict \<Rightarrow> jdict \<Rightarrow> jdict result" where
  "correctness_result w kind code payload artifacts prints =
     rbind (stage_rows (correctness_row w) payload) (\<lambda>rows.
     let passed = (code = 0 \<and> list_all (\<lambda>row. py_truthy (dget ''correct'' row)) rows) in
     rbind (device_text w payload) (\<lambda>device.
        let good = (if kind = ''sanitize'' then ''compute-sanitizer memcheck+racecheck passed on '' @ device
                    else ''CUDA correctness passed on '' @ device);
            bad = (if kind = ''sanitize'' then ''compute-sanitizer rejected candidate on '' @ device
                   else ''candidate failed correctness on '' @ device)
        in Inr (result_document passed (if passed then Valid else Invalid) (if passed then good else bad) rows
             artifacts prints)))"

definition benchmark_result ::
  "container_world \<Rightarrow> json_file \<Rightarrow> int \<Rightarrow> jdict \<Rightarrow> jdict \<Rightarrow> jdict \<Rightarrow> jdict result" where
  "benchmark_result w task code payload artifacts prints =
     rbind (parsed task) (\<lambda>t.
     rbind (py_index ''comparison'' t) (\<lambda>comparison.
     rbind (float_field w ''relative_noise_floor'' comparison) (\<lambda>noise.
     rbind (stage_rows (benchmark_row w noise) payload) (\<lambda>rows.
     rbind (device_text w payload) (\<lambda>device.
     Inr (result_document (code = 0) (if code = 0 then Valid else Unknown) (''balanced AB/BA completed on '' @ device) rows
       artifacts prints))))))"

section \<open>The judge\<close>

text \<open>What \<open>main\<close> reads before its \<open>try\<close>; what it raises there reaches no result file.\<close>

record judge_setup =
  ju_contract :: jdict
  ju_contract_path :: string
  ju_stage_dir :: string
  ju_run_dir :: string
  ju_task :: string
  ju_candidate_dir :: string
  ju_stage_id :: string
  ju_stage_kind :: string
  ju_judge_dir :: string

definition judge_setup_of :: "container_world \<Rightarrow> judge_args \<Rightarrow> judge_setup result" where
  "judge_setup_of w a =
     (let contract_path = resolve_path (cn_env w) (ja_image_contract a) in
      rbind (load_image_contract w contract_path) (\<lambda>contract.
      rbind (required_path w ''KERNELINFRA_RESULT'') (\<lambda>_.
      rbind (required_path w ''KERNELINFRA_STAGE_DIR'') (\<lambda>stage_dir.
      rbind (required_path w ''KERNELINFRA_RUN_DIR'') (\<lambda>run_dir.
      rbind (required_path w ''KERNELINFRA_TASK'') (\<lambda>task.
      rbind (required_path w ''KERNELINFRA_CANDIDATE_DIR'') (\<lambda>candidate_dir.
      rbind (environ_item w ''KERNELINFRA_STAGE_ID'') (\<lambda>sid.
      rbind (environ_item w ''KERNELINFRA_STAGE_KIND'') (\<lambda>kind.
      rbind (container_name w) (\<lambda>_.
      Inr \<lparr>ju_contract = contract, ju_contract_path = contract_path, ju_stage_dir = stage_dir, ju_run_dir = run_dir,
           ju_task = task, ju_candidate_dir = candidate_dir, ju_stage_id = sid, ju_stage_kind = kind,
           ju_judge_dir = resolve_path (cn_env w) (ja_judge_dir a)\<rparr>))))))))))"

definition contract_text :: "container_world \<Rightarrow> string \<Rightarrow> judge_setup \<Rightarrow> string" where
  "contract_text w k u = py_str (float_text (cn_env w)) (dget k (ju_contract u))"

text \<open>The image is the one of the contract, and the task names the evaluator and the image.\<close>

definition check_identities :: "container_world \<Rightarrow> judge_setup \<Rightarrow> string judging" where
  "check_identities w u =
     (let image_ref = contract_text w ''image_ref'' u; config = contract_text w ''config_digest'' u;
          manifest = contract_text w ''manifest_digest'' u in
      jbind (image_identity w image_ref) (\<lambda>identity.
      jbind (jlift (validate_image_identity w identity image_ref manifest config)) (\<lambda>runtime.
      jbind (bundle_sha256 w (ju_judge_dir u) (ju_contract_path u)) (\<lambda>bundle.
      jbind (jlift (judge_identity_in w (ju_task u) (ju_stage_id u))) (\<lambda>identity.
      if \<not> is_substring bundle identity \<or> \<not> is_substring config identity \<or> \<not> is_substring manifest identity
      then jlift (Inl (RuntimeError ''task judge identity does not bind evaluator bundle, manifest, and image''))
      else jlift (Inr runtime))))))"

definition is_file :: "container_world \<Rightarrow> string \<Rightarrow> bool judging" where
  "is_file w path s = (Inr (cn_bytes w s path \<noteq> None), s)"

definition judge_artifacts :: "judge_args \<Rightarrow> jdict" where
  "judge_artifacts a =
     (let base = ''artifacts/'' @ ja_artifact_name a in
      [(''binary'', JStr (base @ ''/runner'')), (''sass'', JStr (base @ ''/runner.sass'')), (''ptx'', JStr (base @ ''/runner.ptx''))])"

definition judge_context_of :: "container_world \<Rightarrow> judge_args \<Rightarrow> judge_setup \<Rightarrow> string \<Rightarrow> judge_context" where
  "judge_context_of w a u runtime =
     \<lparr>jc_candidate = ju_candidate_dir u @ ''/kernel.cu'',
      jc_artifact_dir = path_join (ju_run_dir u @ ''/artifacts'') (ja_artifact_name a), jc_stage_dir = ju_stage_dir u,
      jc_artifacts = judge_artifacts a, jc_runtime = runtime, jc_config = contract_text w ''config_digest'' u,
      jc_manifest = contract_text w ''manifest_digest'' u\<rparr>"

definition sanitizer_logs :: "container_world \<Rightarrow> string \<Rightarrow> jdict judging" where
  "sanitizer_logs w stage_dir s =
     (Inr (map (\<lambda>t. (t @ ''_stderr'', JStr (t @ ''.stderr.log'')))
        (filter (\<lambda>t. cn_bytes w s (stage_dir @ ''/'' @ t @ ''.stderr.log'') \<noteq> None) [''memcheck'', ''racecheck''])), s)"

text \<open>The harness ran; its last object becomes the result.\<close>

definition harness_result :: "container_world \<Rightarrow> judge_setup \<Rightarrow> judge_context \<Rightarrow> completed \<Rightarrow> jdict judging" where
  "harness_result w u c answer =
     (case answer of (code, out, err) \<Rightarrow>
      let kind = ju_stage_kind u in
      jbind (write_text (jc_stage_dir c @ ''/harness.stdout.log'') out) (\<lambda>_.
      jbind (write_text (jc_stage_dir c @ ''/harness.stderr.log'') err) (\<lambda>_.
      case last_json_object w out of
        Inl e \<Rightarrow> jlift (Inr (no_output kind code e))
      | Inr payload \<Rightarrow>
          jbind (write_file (jc_stage_dir c @ ''/harness-output.json'') (Document payload)) (\<lambda>_.
          jbind (fingerprints w c) (\<lambda>prints.
          let artifacts = jc_artifacts c @ [(''harness_output'', JStr ''harness-output.json'')] in
          if kind = ''correctness'' then jlift (correctness_result w kind code payload artifacts prints)
          else if kind = ''sanitize''
          then jbind (sanitizer_logs w (jc_stage_dir c)) (\<lambda>extra.
               jlift (correctness_result w kind code payload (artifacts @ extra) prints))
          else jlift (benchmark_result w (cn_document w (ju_task u)) code payload artifacts prints))))))"

definition judge_stage :: "container_world \<Rightarrow> judge_args \<Rightarrow> judge_setup \<Rightarrow> judge_context \<Rightarrow> jdict judging" where
  "judge_stage w a u c =
     (let kind = ju_stage_kind u in
      jbind (is_file w (jc_candidate c)) (\<lambda>present.
      if \<not> present then jlift (Inr (failure_document Invalid ''candidate/kernel.cu is missing'' []))
      else
      jbind (jlift (docker_base w (contract_text w ''image_ref'' u) (ju_candidate_dir u) (ju_judge_dir u)
               (jc_artifact_dir c) (kind \<noteq> ''compile''))) (\<lambda>base.
      if kind = ''compile'' then compile_stage w base (ja_arch a) c
      else if kind \<notin> {''correctness'', ''sanitize'', ''benchmark''}
      then jlift (Inr (failure_document Unknown (''unsupported stage kind: '' @ kind) []))
      else
      jbind (is_file w (jc_artifact_dir c @ ''/runner'')) (\<lambda>binary.
      jbind (is_file w (jc_artifact_dir c @ ''/runner.sass'')) (\<lambda>sass.
      jbind (is_file w (jc_artifact_dir c @ ''/runner.ptx'')) (\<lambda>ptx.
      if \<not> (binary \<and> sass \<and> ptx)
      then jlift (Inr (failure_document Unknown ''compile-stage binary or compiler evidence is missing'' []))
      else
      jbind (if kind = ''sanitize'' then sanitize w base (jc_stage_dir c) ''memcheck'' [''racecheck'']
             else command w (base @ [''/artifacts/runner'', ''--mode'', kind])) (harness_result w u c)))))))"

text \<open>The exceptions the handler names; \<open>OSError\<close>, \<open>RuntimeError\<close> and \<open>SubprocessError\<close> with what derives from them.\<close>

fun handled :: "exn \<Rightarrow> bool" where
  "handled (OSError m) = True"
| "handled (FileExistsError m) = True"
| "handled (TimeoutError m) = True"
| "handled (RuntimeError m) = True"
| "handled (TimeoutExpired m) = True"
| "handled (KeyError m) = True"
| "handled (TypeError m) = True"
| "handled e = False"

text \<open>The document of the result file, or the exception that leaves none.\<close>

definition judge_candidate :: "container_world \<Rightarrow> judge_args \<Rightarrow> jdict judging" where
  "judge_candidate w a s =
     (case judge_setup_of w a of
        Inl e \<Rightarrow> (Inl e, s)
      | Inr u \<Rightarrow>
          (case jbind (check_identities w u) (\<lambda>runtime. judge_stage w a u (judge_context_of w a u runtime)) s of
             (Inl e, s') \<Rightarrow>
               if handled e
               then (Inr (failure_document Unknown (''container evaluator error: '' @ exn_described e) []), s')
               else (Inl e, s')
           | (Inr d, s') \<Rightarrow> (Inr d, s')))"

definition judge_exit :: "jdict \<Rightarrow> int" where
  "judge_exit d = (if py_eq (dget ''status'' d) (JStr ''passed'') then 0 else 1)"

end
