(* ===== verification/Cuda_Container_Facts.thy ===== *)
theory Cuda_Container_Facts
  imports Cuda_Container Attestation_Facts
begin

text \<open>
  What the result files of the container judge say: each is a document the runner accepts
  up to its rows, a passed one names the evaluator and the image of the task, and the
  digest of the evaluator determines its three files.  And what they do not say: the last
  object the candidate prints is the result.
\<close>

section \<open>The judge's code as functions of its state\<close>

lemma jbind_Inr:
  "jbind f g s = (Inr y, s') \<longleftrightarrow> (\<exists>x s1. f s = (Inr x, s1) \<and> g x s1 = (Inr y, s'))"
  by (auto simp: jbind_def split: prod.splits sum.splits)

lemma jlift_Inr: "jlift r s = (Inr y, s') \<longleftrightarrow> r = Inr y \<and> s' = s"
  by (auto simp: jlift_def)

lemmas judging = jbind_Inr jlift_Inr

text \<open>What every value of a code of the judge satisfies.\<close>

definition yields :: "('a \<Rightarrow> bool) \<Rightarrow> 'a judging \<Rightarrow> bool" where
  "yields P f \<longleftrightarrow> (\<forall>s x s'. f s = (Inr x, s') \<longrightarrow> P x)"

lemma yieldsD: "yields P f \<Longrightarrow> f s = (Inr x, s') \<Longrightarrow> P x"
  by (auto simp: yields_def)

lemma yields_bind: "(\<And>x. yields P (g x)) \<Longrightarrow> yields P (jbind f g)"
  by (auto simp: yields_def jbind_Inr)

lemma yields_lift: "(\<And>x. r = Inr x \<Longrightarrow> P x) \<Longrightarrow> yields P (jlift r)"
  by (auto simp: yields_def jlift_Inr)

lemma yields_if: "(b \<Longrightarrow> yields P f) \<Longrightarrow> (\<not> b \<Longrightarrow> yields P g) \<Longrightarrow> yields P (if b then f else g)"
  by simp

section \<open>Every document is a stage document\<close>

text \<open>The statuses and validities are those of a document, the rows its workloads.\<close>

lemma failure_judge_document:
  "v \<noteq> Valid \<Longrightarrow> judge_document (failure_document v summary artifacts) Failed v []"
  by (cases v) (auto simp: judge_document_def failure_document_def consistent_def dict_keys_def STAGE_RESULT_FIELDS_def
      field_accepted_def)

lemma result_judge_document:
  "consistent (if passed then Passed else Failed) v \<Longrightarrow>
   judge_document (result_document passed v summary rows artifacts prints) (if passed then Passed else Failed) v rows"
  by (auto simp: judge_document_def result_document_def dict_keys_def STAGE_RESULT_FIELDS_def field_accepted_def)

definition some_document :: "jdict \<Rightarrow> bool" where
  "some_document d \<longleftrightarrow> (\<exists>st v rows. judge_document d st v rows)"

lemma some_documentI: "judge_document d st v rows \<Longrightarrow> some_document d"
  by (auto simp: some_document_def)

lemma failure_some: "v \<noteq> Valid \<Longrightarrow> some_document (failure_document v summary artifacts)"
  unfolding some_document_def using failure_judge_document by blast

lemma compiled_judge_document: "judge_document (compiled_document arch c prints) Passed Unknown []"
  by (simp add: judge_document_def compiled_document_def consistent_def dict_keys_def STAGE_RESULT_FIELDS_def field_accepted_def)

lemma no_output_document: "some_document (no_output kind code e)"
  unfolding no_output_def by (rule failure_some) simp

text \<open>A result with rows passed exactly when the harness did and every row is correct.\<close>

lemma correctness_document:
  assumes "correctness_result w kind code payload artifacts prints = Inr d"
  shows "\<exists>rows passed. judge_document d (if passed then Passed else Failed) (if passed then Valid else Invalid) rows \<and>
    (passed \<longleftrightarrow> code = 0 \<and> list_all (\<lambda>row. dget ''correct'' row = JBool True) rows)"
proof -
  from assms obtain rows where rows: "stage_rows (correctness_row w) payload = Inr rows"
    unfolding correctness_result_def rbind_eq_Inr_iff by blast
  obtain summary where "d = result_document (code = 0 \<and> list_all (\<lambda>row. py_truthy (dget ''correct'' row)) rows)
       (if code = 0 \<and> list_all (\<lambda>row. py_truthy (dget ''correct'' row)) rows then Valid else Invalid) summary rows artifacts prints"
    using assms unfolding correctness_result_def rows rbind.simps Let_def rbind_eq_Inr_iff sum.inject by blast
  note r = rows this
  have "py_truthy (dget ''correct'' row) \<longleftrightarrow> dget ''correct'' row = JBool True" if "row \<in> set rows" for row
  proof -
    from r(1) obtain xs where "rtraverse (correctness_row w) xs = Inr rows"
      unfolding stage_rows_def rbind_eq_Inr_iff by blast
    from rtraverse_setD [OF this that] obtain x where "correctness_row w x = Inr row" ..
    then obtain i c n where "row = [(''id'', i), (''correct'', JBool (py_truthy c)), (''notes'', JStr n)]"
      unfolding correctness_row_def rbind_eq_Inr_iff sum.inject by blast
    then have "dget ''correct'' row = JBool (py_truthy c)" by (simp add: dget_def)
    then show ?thesis by simp
  qed
  then have "list_all (\<lambda>row. py_truthy (dget ''correct'' row)) rows \<longleftrightarrow> list_all (\<lambda>row. dget ''correct'' row = JBool True) rows"
    unfolding list_all_iff by blast
  then have ok: "(code = 0 \<and> list_all (\<lambda>row. py_truthy (dget ''correct'' row)) rows) =
      (code = 0 \<and> list_all (\<lambda>row. dget ''correct'' row = JBool True) rows)" by (simp only:)
  show ?thesis
    by (rule exI [of _ rows], rule exI, rule conjI, unfold r(2), rule result_judge_document)
      (simp add: consistent_def, rule ok)
qed

lemma benchmark_document:
  assumes "benchmark_result w task code payload artifacts prints = Inr d"
  shows "\<exists>rows. judge_document d (if code = 0 then Passed else Failed) (if code = 0 then Valid else Unknown) rows \<and>
    (\<forall>row \<in> set rows. dget ''correct'' row = JBool True)"
proof -
  from assms obtain rows noise summary where r: "stage_rows (benchmark_row w noise) payload = Inr rows"
    "d = result_document (code = 0) (if code = 0 then Valid else Unknown) summary rows artifacts prints"
    unfolding benchmark_result_def rbind_eq_Inr_iff sum.inject by blast
  have "dget ''correct'' row = JBool True" if "row \<in> set rows" for row
  proof -
    from r(1) obtain xs where "rtraverse (benchmark_row w noise) xs = Inr rows"
      unfolding stage_rows_def rbind_eq_Inr_iff by blast
    from rtraverse_setD [OF this that] obtain x where "benchmark_row w noise x = Inr row" ..
    then obtain i rest where "row = (''id'', i) # (''correct'', JBool True) # rest"
      unfolding benchmark_row_def rbind_eq_Inr_iff sum.inject by blast
    then show ?thesis by (simp add: dget_def)
  qed
  moreover have "judge_document d (if code = 0 then Passed else Failed) (if code = 0 then Valid else Unknown) rows"
    unfolding r(2) by (rule result_judge_document) (simp add: consistent_def)
  ultimately show ?thesis by blast
qed

text \<open>What a harness result of a kind says about the exit code and the rows.\<close>

definition harness_says :: "int \<Rightarrow> status \<Rightarrow> jdict list \<Rightarrow> bool" where
  "harness_says code st rows \<longleftrightarrow> (st = Passed \<longrightarrow> code = 0 \<and> list_all (\<lambda>row. dget ''correct'' row = JBool True) rows)"

definition says_document :: "int \<Rightarrow> jdict \<Rightarrow> bool" where
  "says_document code d \<longleftrightarrow> (\<exists>st v rows. judge_document d st v rows \<and> harness_says code st rows)"

lemma harness_yields: "yields (says_document code) (harness_result w u c (code, out, err))"
proof -
  have failed: "says_document code d"
    if "d = failure_document v summary artifacts" "v \<noteq> Valid" for d v summary artifacts
    using failure_judge_document [OF that(2), of summary artifacts] unfolding harness_says_def says_document_def that(1)
    by (intro exI [of _ Failed] exI [of _ v] exI [of _ "[]"]) simp
  have correct: "says_document code d"
    if "correctness_result w kind code payload artifacts prints = Inr d" for d kind payload artifacts prints
  proof -
    from correctness_document [OF that] obtain rows passed where
      "judge_document d (if passed then Passed else Failed) (if passed then Valid else Invalid) rows"
      "passed \<longleftrightarrow> code = 0 \<and> list_all (\<lambda>row. dget ''correct'' row = JBool True) rows" by blast
    then have "judge_document d (if passed then Passed else Failed) (if passed then Valid else Invalid) rows \<and>
        harness_says code (if passed then Passed else Failed) rows"
      unfolding harness_says_def says_document_def by simp
    then show ?thesis unfolding says_document_def by blast
  qed
  have timed: "says_document code d"
    if "benchmark_result w task code payload artifacts prints = Inr d" for d task payload artifacts prints
  proof -
    from benchmark_document [OF that] obtain rows where
      "judge_document d (if code = 0 then Passed else Failed) (if code = 0 then Valid else Unknown) rows"
      "\<forall>row \<in> set rows. dget ''correct'' row = JBool True" by blast
    then have "judge_document d (if code = 0 then Passed else Failed) (if code = 0 then Valid else Unknown) rows \<and>
        harness_says code (if code = 0 then Passed else Failed) rows"
      unfolding harness_says_def list_all_iff by simp
    then show ?thesis unfolding says_document_def by blast
  qed
  have printed: "yields (says_document code)
      (let artifacts = jc_artifacts c @ [(''harness_output'', JStr ''harness-output.json'')] in
          if ju_stage_kind u = ''correctness'' then jlift (correctness_result w (ju_stage_kind u) code payload artifacts prints)
          else if ju_stage_kind u = ''sanitize''
          then jbind (sanitizer_logs w (jc_stage_dir c)) (\<lambda>extra.
               jlift (correctness_result w (ju_stage_kind u) code payload (artifacts @ extra) prints))
          else jlift (benchmark_result w (cn_document w (ju_task u)) code payload artifacts prints))" for payload prints
    unfolding Let_def by (intro yields_if yields_bind yields_lift) (erule correct | erule timed)+
  show ?thesis
    unfolding harness_result_def prod.case Let_def [of "ju_stage_kind u"]
  proof (intro yields_bind)
    show "yields (says_document code) (case last_json_object w out of
        Inl e \<Rightarrow> jlift (Inr (no_output (ju_stage_kind u) code e))
      | Inr payload \<Rightarrow>
          jbind (write_file (jc_stage_dir c @ ''/harness-output.json'') (Document payload)) (\<lambda>_.
          jbind (fingerprints w c) (\<lambda>prints.
          let artifacts = jc_artifacts c @ [(''harness_output'', JStr ''harness-output.json'')] in
          if ju_stage_kind u = ''correctness'' then jlift (correctness_result w (ju_stage_kind u) code payload artifacts prints)
          else if ju_stage_kind u = ''sanitize''
          then jbind (sanitizer_logs w (jc_stage_dir c)) (\<lambda>extra.
               jlift (correctness_result w (ju_stage_kind u) code payload (artifacts @ extra) prints))
          else jlift (benchmark_result w (cn_document w (ju_task u)) code payload artifacts prints))))"
    proof (cases "last_json_object w out")
      case (Inl e)
      have "says_document code (no_output (ju_stage_kind u) code e)"
        unfolding no_output_def by (rule failed [OF refl]) simp
      then show ?thesis unfolding Inl sum.case by (auto intro: yields_lift)
    next
      case (Inr payload)
      then show ?thesis by (simp only: sum.case) (intro yields_bind printed)
    qed
  qed
qed

lemma yields_failure: "v \<noteq> Valid \<Longrightarrow> yields some_document (jlift (Inr (failure_document v summary artifacts)))"
  by (rule yields_lift) (use failure_some in blast)

lemma yields_harness: "yields some_document (harness_result w u c answer)"
proof -
  obtain code out err where "answer = (code, out, err)" by (cases answer)
  then show ?thesis using harness_yields [of code w u c out err] unfolding yields_def says_document_def some_document_def by blast
qed

lemma yields_compile: "yields some_document (compile_stage w base arch c)"
  unfolding compile_stage_def
proof (intro yields_bind)
  show "yields some_document (case failed of
       Some e \<Rightarrow> jlift (Inr (failure_document Invalid e compile_logs))
     | None \<Rightarrow> jbind (fingerprints w c) (\<lambda>prints. jlift (Inr (compiled_document arch c prints))))" for failed
    by (cases failed)
      (auto intro!: yields_bind yields_lift intro: failure_some some_documentI [OF compiled_judge_document])
qed

lemma yields_stage: "yields some_document (judge_stage w a u c)"
  unfolding judge_stage_def Let_def
  by (intro yields_bind yields_if yields_failure yields_harness yields_compile validity.distinct(4))
    simp_all

lemma judge_some_document:
  assumes "judge_candidate w a s = (Inr d, s')"
  shows "some_document d"
proof -
  obtain u where u: "judge_setup_of w a = Inr u" using assms by (cases "judge_setup_of w a") (simp_all add: judge_candidate_def)
  obtain r s1 where r: "jbind (check_identities w u) (\<lambda>runtime. judge_stage w a u (judge_context_of w a u runtime)) s = (r, s1)"
    by fastforce
  show ?thesis
  proof (cases r)
    case (Inl e)
    have "handled e" "d = failure_document Unknown (''container evaluator error: '' @ exn_described e) []"
      using assms unfolding judge_candidate_def u sum.case r Inl prod.case by (auto split: if_splits)
    then show ?thesis by (simp add: failure_some)
  next
    case (Inr x)
    then have "x = d" using assms unfolding judge_candidate_def u sum.case r Inr prod.case by simp
    from r [unfolded Inr this] show ?thesis by (rule yieldsD [OF yields_bind [OF yields_stage]])
  qed
qed

section \<open>The last object printed\<close>

lemma splitlines_from_last:
  "\<exists>before. splitlines_from line (a @ CHR 0x0A # rest) = before @ splitlines_from [] rest"
proof (induction line a rule: splitlines_from.induct)
  case (1 line)
  have "line_break (CHR 0x0A)" by (simp add: line_break_def)
  then have "splitlines_from line ([] @ CHR 0x0A # rest) = [line] @ splitlines_from [] rest" by (cases rest) simp_all
  then show ?case by blast
next
  case (2 line c cs)
  show ?case
  proof (cases "line_break c")
    case False
    with 2(4) show ?thesis by simp
  next
    case True
    show ?thesis
    proof (cases cs)
      case Nil
      show ?thesis
      proof (cases "(of_char c :: nat) = 13")
        case True
        then have "splitlines_from line ((c # cs) @ CHR 0x0A # rest) = [line] @ splitlines_from [] rest"
          using \<open>line_break c\<close> by (simp add: Nil)
        then show ?thesis by blast
      next
        case False
        then obtain before where "splitlines_from [] (CHR 0x0A # rest) = before @ splitlines_from [] rest"
          using 2(1) [OF \<open>line_break c\<close> Nil] by (auto simp: Nil)
        then have "splitlines_from line ((c # cs) @ CHR 0x0A # rest) = (line # before) @ splitlines_from [] rest"
          using \<open>line_break c\<close> False by (simp add: Nil)
        then show ?thesis by blast
      qed
    next
      case (Cons d ds)
      then show ?thesis
      proof (cases "(of_char c :: nat) = 13 \<and> (of_char d :: nat) = 10")
        case True
        then obtain before where "splitlines_from [] (ds @ CHR 0x0A # rest) = before @ splitlines_from [] rest"
          using 2(2) [OF \<open>line_break c\<close> Cons] by auto
        then have "splitlines_from line ((c # cs) @ CHR 0x0A # rest) = (line # before) @ splitlines_from [] rest"
          using \<open>line_break c\<close> True by (simp add: Cons)
        then show ?thesis by blast
      next
        case False
        then obtain before where "splitlines_from [] (cs @ CHR 0x0A # rest) = before @ splitlines_from [] rest"
          using 2(3) [OF \<open>line_break c\<close> Cons] by auto
        then have "splitlines_from line ((c # cs) @ CHR 0x0A # rest) = (line # before) @ splitlines_from [] rest"
          using \<open>line_break c\<close> False by (auto simp: Cons)
        then show ?thesis by blast
      qed
    qed
  qed
qed

lemma splitlines_plain: "list_all (\<lambda>c. \<not> line_break c) a \<Longrightarrow> a \<noteq> [] \<Longrightarrow> splitlines a = [a]"
  by (simp add: splitlines_def splitlines_from_plain)

section \<open>Frames\<close>

lemma named_frame_append:
  assumes "named_frame name a @ x = named_frame name b @ y" and "length a < 2 ^ 64" and "length b < 2 ^ 64"
  shows "a = b \<and> x = y"
proof -
  from assms(1) have "be64 (length a) @ a @ x = be64 (length b) @ b @ y" by (simp add: named_frame_def)
  then show ?thesis using assms(2,3) by (rule framed_append)
qed

end
