(* ===== verification/Cuda_Container_Passed.thy ===== *)
theory Cuda_Container_Passed
  imports Cuda_Container_Facts
begin

text \<open>
  What stands behind a passed result of the container judge: the last command it ran exited
  with 0, its rows are correct, and the task names the evaluator and the image.  The
  properties of the judge are stated at the end, on a sample run.
\<close>

section \<open>What a passed stage has behind it\<close>

text \<open>
  Assertions on the state: after a code that starts where \<open>P\<close> holds, its value and the state
  satisfy \<open>Q\<close>.
\<close>

definition settles :: "(judge_state \<Rightarrow> bool) \<Rightarrow> 'a judging \<Rightarrow> ('a \<Rightarrow> judge_state \<Rightarrow> bool) \<Rightarrow> bool" where
  "settles P f Q \<longleftrightarrow> (\<forall>s x s'. P s \<longrightarrow> f s = (Inr x, s') \<longrightarrow> Q x s')"

lemma settlesD: "settles P f Q \<Longrightarrow> P s \<Longrightarrow> f s = (Inr x, s') \<Longrightarrow> Q x s'"
  by (auto simp: settles_def)

lemma settles_bind: "settles P f Q \<Longrightarrow> (\<And>x. settles (Q x) (g x) R) \<Longrightarrow> settles P (jbind f g) R"
  unfolding settles_def jbind_Inr by blast

lemma settles_lift: "(\<And>x s. r = Inr x \<Longrightarrow> P s \<Longrightarrow> Q x s) \<Longrightarrow> settles P (jlift r) Q"
  by (auto simp: settles_def jlift_Inr)

lemma settles_if:
  "(b \<Longrightarrow> settles P f Q) \<Longrightarrow> (\<not> b \<Longrightarrow> settles P g Q) \<Longrightarrow> settles P (if b then f else g) Q"
  by simp

lemma settles_weaken: "settles P f Q \<Longrightarrow> (\<And>s. P' s \<Longrightarrow> P s) \<Longrightarrow> settles P' f Q"
  by (auto simp: settles_def)

lemma settles_any: "settles P f (\<lambda>_ _. True)"
  by (simp add: settles_def)

lemma settles_yields: "yields Q f \<Longrightarrow> settles P f (\<lambda>x _. Q x)"
  by (auto simp: settles_def yields_def)

text \<open>The last command has answered; nothing but a command changes that.\<close>

definition answered :: "container_world \<Rightarrow> completed \<Rightarrow> judge_state \<Rightarrow> bool" where
  "answered w answer s \<longleftrightarrow> (\<exists>n argv. js_commands s = Suc n \<and> cn_command w n argv = Inr answer)"

definition quiet :: "'a judging \<Rightarrow> bool" where
  "quiet f \<longleftrightarrow> (\<forall>s x s'. f s = (Inr x, s') \<longrightarrow> js_commands s' = js_commands s)"

lemma quiet_bind: "quiet f \<Longrightarrow> (\<And>x. quiet (g x)) \<Longrightarrow> quiet (jbind f g)"
  unfolding quiet_def jbind_Inr by metis

lemma quiet_codes:
  "quiet (jlift r)" "quiet (write_file p c)" "quiet (write_text p t)" "quiet (read_bytes w p)" "quiet (file_digest w p)"
  "quiet (is_file w p)" "quiet (sanitizer_logs w p)"
  by (auto simp: quiet_def jlift_def write_file_def write_text_def read_bytes_def file_digest_def jbind_Inr
      is_file_def sanitizer_logs_def split: option.splits)

lemma quiet_fingerprints: "quiet (fingerprints w c)"
  unfolding fingerprints_def by (intro quiet_bind quiet_codes)

lemma settles_quiet: "quiet f \<Longrightarrow> settles (answered w answer) f (\<lambda>_. answered w answer)"
  unfolding settles_def quiet_def answered_def by metis

lemma settles_command: "settles P (command w argv) (\<lambda>answer. answered w answer)"
  by (auto simp: settles_def command_def answered_def)

lemmas settled_step = settles_bind [OF settles_quiet [OF quiet_codes(2)]] settles_bind [OF settles_quiet [OF quiet_codes(3)]]
  settles_bind [OF settles_quiet [OF quiet_fingerprints]]

text \<open>The last command has exited with 0.\<close>

definition succeeded :: "container_world \<Rightarrow> judge_state \<Rightarrow> bool" where
  "succeeded w s \<longleftrightarrow> (\<exists>out err. answered w (0, out, err) s)"

lemma succeededI: "answered w (code, out, err) s \<Longrightarrow> code = 0 \<Longrightarrow> succeeded w s"
  unfolding succeeded_def by blast

definition passing :: "container_world \<Rightarrow> jdict \<Rightarrow> judge_state \<Rightarrow> bool" where
  "passing w d s \<longleftrightarrow> (dget ''status'' d = JStr ''passed'' \<longrightarrow> succeeded w s \<and>
     (\<exists>v rows. judge_document d Passed v rows \<and> list_all (\<lambda>row. dget ''correct'' row = JBool True) rows))"

lemma passing_failure: "passing w (failure_document v summary artifacts) s"
  by (simp add: passing_def failure_document_def dget_def)

lemma settles_failure: "settles P (jlift (Inr (failure_document v summary artifacts))) (passing w)"
  by (rule settles_lift) (auto simp: passing_failure)

lemma status_known: "judge_document d st v rows \<Longrightarrow> dget ''status'' d = JStr ''passed'' \<Longrightarrow> st = Passed"
  by (cases st) (auto simp: judge_document_def dget_def)

lemma says_passing:
  assumes "says_document code d" and "answered w (code, out, err) s"
  shows "passing w d s"
  unfolding passing_def
proof
  assume passed: "dget ''status'' d = JStr ''passed''"
  from assms(1) obtain st v rows where d: "judge_document d st v rows" "harness_says code st rows"
    unfolding says_document_def by blast
  from status_known [OF d(1) passed] d(2)
  have "code = 0" "list_all (\<lambda>row. dget ''correct'' row = JBool True) rows" by (simp_all add: harness_says_def)
  with d(1) status_known [OF d(1) passed] succeededI [OF assms(2)]
  show "succeeded w s \<and>
     (\<exists>v rows. judge_document d Passed v rows \<and> list_all (\<lambda>row. dget ''correct'' row = JBool True) rows)" by blast
qed

lemma dump_options_succeeds:
  "settles (succeeded w) (dump_options w base artifact_dir stage_dir options) (\<lambda>r s. r = None \<longrightarrow> succeeded w s)"
proof (induction options)
  case (Cons option options)
  obtain flag name where option: "option = (flag, name)" by (cases option)
  show ?case
    unfolding option dump_options.simps
  proof (intro settles_bind [OF settles_command])
    fix answer :: completed
    obtain code out err where answer: "answer = (code, out, err)" by (cases answer)
    show "settles (answered w answer) (case answer of (code, out, err) \<Rightarrow>
        jbind (write_text (artifact_dir @ ''/'' @ name) out) (\<lambda>_.
        jbind (write_text (stage_dir @ ''/cuobjdump'' @ flag @ ''.stderr.log'') err) (\<lambda>_.
        if code \<noteq> 0 then jlift (Inr (Some (''cuobjdump '' @ flag @ '' failed with exit '' @ int_text code)))
        else dump_options w base artifact_dir stage_dir options))) (\<lambda>r s. r = None \<longrightarrow> succeeded w s)"
      unfolding answer prod.case
      by (intro settled_step settles_if settles_lift settles_weaken [OF Cons.IH]) (auto intro: succeededI)
  qed
qed (auto simp: settles_def jlift_Inr)

lemma compile_candidate_succeeds:
  "settles P (compile_candidate w base arch artifact_dir stage_dir) (\<lambda>r s. r = None \<longrightarrow> succeeded w s)"
  unfolding compile_candidate_def
proof (intro settles_bind [OF settles_command])
  fix answer :: completed
  obtain code out err where answer: "answer = (code, out, err)" by (cases answer)
  show "settles (answered w answer) (case answer of (code, out, err) \<Rightarrow>
        jbind (write_text (stage_dir @ ''/compile.stdout.log'') out) (\<lambda>_.
        jbind (write_text (stage_dir @ ''/compile.stderr.log'') err) (\<lambda>_.
        if code \<noteq> 0 then jlift (Inr (Some (''nvcc failed with exit '' @ int_text code)))
        else dump_options w base artifact_dir stage_dir [(''-sass'', ''runner.sass''), (''-ptx'', ''runner.ptx'')])))
        (\<lambda>r s. r = None \<longrightarrow> succeeded w s)"
    unfolding answer prod.case
    by (intro settled_step settles_if settles_lift settles_weaken [OF dump_options_succeeds]) (auto intro: succeededI)
qed

lemma sanitize_answers: "settles P (sanitize w base stage_dir tool tools) (\<lambda>answer. answered w answer)"
proof (induction tools arbitrary: P tool)
  case Nil
  show ?case
    unfolding sanitize.simps [of w base stage_dir tool "[]"]
  proof (intro settles_bind [OF settles_command])
    fix answer :: completed
    obtain code out err where answer: "answer = (code, out, err)" by (cases answer)
    show "settles (answered w answer) (case answer of (code, out, err) \<Rightarrow>
        jbind (write_text (stage_dir @ ''/'' @ tool @ ''.stdout.log'') out) (\<lambda>_.
        jbind (write_text (stage_dir @ ''/'' @ tool @ ''.stderr.log'') err) (\<lambda>_.
        case [] of [] \<Rightarrow> jlift (Inr (code, out, err))
        | next_tool # rest \<Rightarrow> if code \<noteq> 0 then jlift (Inr (code, out, err)) else sanitize w base stage_dir next_tool rest)))
        (\<lambda>answer. answered w answer)"
      unfolding answer prod.case list.case by (intro settled_step settles_lift) simp
  qed
next
  case (Cons next_tool rest)
  show ?case
    unfolding sanitize.simps [of w base stage_dir tool "next_tool # rest"]
  proof (intro settles_bind [OF settles_command])
    fix answer :: completed
    obtain code out err where answer: "answer = (code, out, err)" by (cases answer)
    show "settles (answered w answer) (case answer of (code, out, err) \<Rightarrow>
        jbind (write_text (stage_dir @ ''/'' @ tool @ ''.stdout.log'') out) (\<lambda>_.
        jbind (write_text (stage_dir @ ''/'' @ tool @ ''.stderr.log'') err) (\<lambda>_.
        case next_tool # rest of [] \<Rightarrow> jlift (Inr (code, out, err))
        | next_tool # rest \<Rightarrow> if code \<noteq> 0 then jlift (Inr (code, out, err)) else sanitize w base stage_dir next_tool rest)))
        (\<lambda>answer. answered w answer)"
      unfolding answer prod.case list.case by (intro settled_step settles_if settles_lift Cons.IH) simp
  qed
qed

text \<open>A passed stage has a last command that exited with 0, and its rows are all correct.\<close>

lemma compile_stage_passing: "settles P (compile_stage w base arch c) (passing w)"
  unfolding compile_stage_def
proof (intro settles_bind [OF compile_candidate_succeeds])
  fix failed
  show "settles (\<lambda>s. failed = None \<longrightarrow> succeeded w s) (case failed of
       Some e \<Rightarrow> jlift (Inr (failure_document Invalid e compile_logs))
     | None \<Rightarrow>
         jbind (fingerprints w c) (\<lambda>prints. jlift (Inr (compiled_document arch c prints)))) (passing w)"
  proof (cases failed)
    case None
    have "settles (succeeded w) (fingerprints w c) (\<lambda>_. succeeded w)"
      using quiet_fingerprints unfolding settles_def quiet_def succeeded_def answered_def by metis
    moreover have "settles (succeeded w) (jlift (Inr (compiled_document arch c prints))) (passing w)" for prints
    proof (intro settles_lift)
      fix x s assume "Inr (compiled_document arch c prints) = (Inr x :: jdict result)" and "succeeded w s"
      moreover have "list_all (\<lambda>row. dget ''correct'' row = JBool True) []" by simp
      ultimately show "passing w x s" using compiled_judge_document [of arch c prints] unfolding passing_def by blast
    qed
    ultimately show ?thesis unfolding None by (auto intro: settles_bind)
  qed (simp add: settles_failure)
qed

lemma harness_passing: "settles (answered w answer) (harness_result w u c answer) (passing w)"
proof -
  obtain code out err where answer: "answer = (code, out, err)" by (cases answer)
  have "quiet (harness_result w u c answer)"
    unfolding harness_result_def answer prod.case Let_def
    by (intro quiet_bind quiet_codes) (auto intro!: quiet_bind quiet_codes quiet_fingerprints split: sum.split)
  with harness_yields [of code w u c out err] show ?thesis
    unfolding answer by (auto simp: settles_def yields_def quiet_def answered_def intro!: says_passing)
qed

lemma judge_stage_passing: "settles P (judge_stage w a u c) (passing w)"
  unfolding judge_stage_def Let_def
  by (intro settles_bind [OF _ harness_passing] settles_command sanitize_answers settles_if settles_failure
      compile_stage_passing settles_bind [OF settles_any])

lemma judge_candidate_Inr:
  assumes "judge_candidate w a s = (Inr d, s')" and "dget ''status'' d = JStr ''passed''"
  shows "\<exists>u runtime s1. judge_setup_of w a = Inr u \<and> check_identities w u s = (Inr runtime, s1) \<and>
    judge_stage w a u (judge_context_of w a u runtime) s1 = (Inr d, s')"
proof -
  obtain u where u: "judge_setup_of w a = Inr u" using assms by (cases "judge_setup_of w a") (simp_all add: judge_candidate_def)
  obtain r s1 where r: "jbind (check_identities w u) (\<lambda>runtime. judge_stage w a u (judge_context_of w a u runtime)) s = (r, s1)"
    by fastforce
  have "r \<noteq> Inl e" for e
    using assms r unfolding judge_candidate_def u
    by (auto split: if_splits simp: failure_document_def dget_def)
  then obtain d' where "r = Inr d'" by (cases r) auto
  then show ?thesis using assms r u unfolding judge_candidate_def by (auto simp: jbind_Inr)
qed

text \<open>What the identity checks establish.\<close>

lemma check_identities_Inr:
  assumes "check_identities w u s = (Inr runtime, s')"
  shows "\<exists>identity. judge_identity_in w (ju_task u) (ju_stage_id u) = Inr identity \<and>
    is_substring (contract_text w ''config_digest'' u) identity \<and> is_substring (contract_text w ''manifest_digest'' u) identity \<and>
    (\<exists>inspected. fst (image_identity w (contract_text w ''image_ref'' u) s) = Inr inspected \<and>
       dget ''Id'' inspected \<in> {JStr (contract_text w ''config_digest'' u), JStr (contract_text w ''manifest_digest'' u)}) \<and>
    (\<exists>s1 judge harness contract. cn_bytes w s1 (cn_self w) = Some judge \<and>
       cn_bytes w s1 (ju_judge_dir u @ ''/harness.cu'') = Some harness \<and> cn_bytes w s1 (ju_contract_path u) = Some contract \<and>
       is_substring (sha256 (cn_env w) (bundle_stream judge harness contract)) identity)"
proof -
  from assms obtain evaluator identity s1 s2 answer where c: "bundle_sha256 w (ju_judge_dir u) (ju_contract_path u) s1 = (Inr evaluator, s2)"
    "judge_identity_in w (ju_task u) (ju_stage_id u) = Inr identity"
    "is_substring evaluator identity" "is_substring (contract_text w ''config_digest'' u) identity"
    "is_substring (contract_text w ''manifest_digest'' u) identity"
    "validate_image_identity w answer (contract_text w ''image_ref'' u) (contract_text w ''manifest_digest'' u)
      (contract_text w ''config_digest'' u) = Inr runtime"
    "fst (image_identity w (contract_text w ''image_ref'' u) s) = Inr answer"
    unfolding check_identities_def Let_def judging by (auto simp: jlift_Inr split: if_split_asm)
  from c(6) have "dget ''Id'' answer \<in> {JStr (contract_text w ''config_digest'' u), JStr (contract_text w ''manifest_digest'' u)}"
    unfolding validate_image_identity_def Let_def by (auto split: if_split_asm)
  note c = c(1-5,7) this
  from c(1) have "\<exists>judge harness contract. cn_bytes w s1 (cn_self w) = Some judge \<and>
       cn_bytes w s1 (ju_judge_dir u @ ''/harness.cu'') = Some harness \<and> cn_bytes w s1 (ju_contract_path u) = Some contract \<and>
       evaluator = sha256 (cn_env w) (bundle_stream judge harness contract)"
    unfolding bundle_sha256_def judging read_bytes_def by (auto split: option.splits)
  with c(2-) show ?thesis by blast
qed

lemma jbind_assoc: "jbind (jbind f g) h = jbind f (\<lambda>x. jbind (g x) h)"
  by (auto simp: jbind_def fun_eq_iff split: prod.splits sum.splits)

lemma jbind_Inl: "fst (f s) = Inl e \<Longrightarrow> fst (jbind f g s) = Inl e"
  by (auto simp: jbind_def split: prod.splits)

section \<open>A sample run\<close>

definition sample_image :: jdict where
  "sample_image =
     [(''schema'', JStr ''kernelinfra.container-image.v1''), (''name'', JStr ''cuda''), (''image_ref'', JStr ''cuda:12''),
      (''platform'', JStr ''linux/amd64''), (''manifest_digest'', JStr (''sha256:'' @ zeros)),
      (''config_digest'', JStr (''sha256:'' @ zeros)), (''cuda_version'', JStr ''12''), (''nvcc_build'', JStr ''b''),
      (''required_tools'', REQUIRED_TOOLS), (''source'', JNull)]"

definition sample_stage_task :: json where
  "sample_stage_task = JObj [(''stages'', JList [JObj [(''id'', JStr ''s1''),
     (''judge'', JObj [(''identity'', JStr (''sha256:'' @ zeros))])]])]"

definition sample_output :: json where
  "sample_output = JObj [(''device'', JStr ''A800''), (''workloads'', JList [JObj [(''id'', JStr ''w''),
     (''max_abs_error'', JFloat (Fin 0)), (''correct'', JBool True)]])]"

definition sample_environ :: "string \<Rightarrow> string option" where
  "sample_environ k = map_of [(''KERNELINFRA_RESULT'', ''/r''), (''KERNELINFRA_STAGE_DIR'', ''/s''), (''KERNELINFRA_RUN_DIR'', ''/run''),
     (''KERNELINFRA_TASK'', ''/task''), (''KERNELINFRA_CANDIDATE_DIR'', ''/c''), (''KERNELINFRA_STAGE_ID'', ''s1''),
     (''KERNELINFRA_STAGE_KIND'', ''correctness''), (''KERNELINFRA_RUN_ID'', ''run''), (''CUDA_VISIBLE_DEVICES'', ''0'')] k"

definition sample_container :: container_world where
  "sample_container =
     \<lparr>cn_env = attest_env, cn_general9 = (\<lambda>_. ''0''),
      cn_json = (\<lambda>s. if s = ''inspection'' then FileParsed (JList [JObj [(''Id'', JStr (''sha256:'' @ zeros))]])
         else if s = [] then FileMalformed ''Expecting value'' else FileParsed sample_output),
      cn_environ = sample_environ,
      cn_document = (\<lambda>p. if p = ''/task'' then FileParsed sample_stage_task else FileParsed (JObj sample_image)),
      cn_bytes = (\<lambda>s p. Some []),
      cn_command = (\<lambda>n argv. Inr (0, if n = 0 then ''inspection'' else [CHR 0x7B, CHR 0x7D], [])),
      cn_self = ''/judge.py'', cn_ids = ''0:0''\<rparr>"

definition sample_judge_args :: judge_args where
  "sample_judge_args = \<lparr>ja_image_contract = ''/image.json'', ja_arch = ''sm_80'', ja_artifact_name = ''k'', ja_judge_dir = ''/j''\<rparr>"

definition judge_start :: judge_state where
  "judge_start = \<lparr>js_commands = 0, js_written = []\<rparr>"

definition says_passed :: "jdict result \<Rightarrow> bool" where
  "says_passed r = (case r of Inr d \<Rightarrow> dget ''status'' d = JStr ''passed'' | Inl e \<Rightarrow> False)"

lemma sample_passes: "says_passed (fst (judge_candidate sample_container sample_judge_args judge_start))"
  by code_simp

lemma sample_run:
  obtains d s' where "judge_candidate sample_container sample_judge_args judge_start = (Inr d, s')"
    and "dget ''status'' d = JStr ''passed''"
proof -
  obtain r s' where r: "judge_candidate sample_container sample_judge_args judge_start = (r, s')" by fastforce
  with sample_passes obtain d where "r = Inr d" "dget ''status'' d = JStr ''passed''"
    by (auto simp: says_passed_def split: sum.splits)
  with r that show ?thesis by blast
qed

text \<open>The same machine, where the container runtime prints nothing.\<close>

definition silent_container :: container_world where
  "silent_container = sample_container\<lparr>cn_command := (\<lambda>n argv. Inr (0, [], []))\<rparr>"

lemma silent_reads:
  "cn_env silent_container = cn_env sample_container" "cn_document silent_container = cn_document sample_container"
  "image_contract_of silent_container = image_contract_of sample_container"
  "required_path silent_container = required_path sample_container"
  "environ_item silent_container = environ_item sample_container"
  by (auto simp: silent_container_def image_contract_of_def required_path_def environ_item_def fun_eq_iff
      split: json.split option.split list.split)

lemma silent_setup: "judge_setup_of silent_container a = judge_setup_of sample_container a"
  by (simp only: judge_setup_of_def load_image_contract_def container_name_def silent_reads)

section \<open>The judge\<close>

text \<open>C30: A candidate passes a stage of the container judge only if the judge identity of the
  stage in the task contains the digest of the evaluator that ran (judge, harness and image
  contract), the configuration digest and the manifest digest of the image contract, if the
  identifier of the image on the machine is one of those two, if the last command the judge ran exited with 0,
  and if every row of the result is correct.\<close>

theorem passed_container_bound:
  assumes "judge_candidate w a s = (Inr d, s')" and "dget ''status'' d = JStr ''passed''"
  shows "\<exists>u identity. judge_setup_of w a = Inr u \<and>
    judge_identity_in w (ju_task u) (ju_stage_id u) = Inr identity \<and>
    is_substring (contract_text w ''config_digest'' u) identity \<and> is_substring (contract_text w ''manifest_digest'' u) identity \<and>
    (\<exists>inspected. fst (image_identity w (contract_text w ''image_ref'' u) s) = Inr inspected \<and>
       dget ''Id'' inspected \<in> {JStr (contract_text w ''config_digest'' u), JStr (contract_text w ''manifest_digest'' u)}) \<and>
    (\<exists>s1 judge harness contract. cn_bytes w s1 (cn_self w) = Some judge \<and>
       cn_bytes w s1 (ju_judge_dir u @ ''/harness.cu'') = Some harness \<and> cn_bytes w s1 (ju_contract_path u) = Some contract \<and>
       is_substring (sha256 (cn_env w) (bundle_stream judge harness contract)) identity) \<and>
    succeeded w s' \<and>
    (\<exists>v rows. judge_document d Passed v rows \<and> list_all (\<lambda>row. dget ''correct'' row = JBool True) rows)"
proof -
  from judge_candidate_Inr [OF assms] obtain u runtime s1 where
    u: "judge_setup_of w a = Inr u" "check_identities w u s = (Inr runtime, s1)"
      "judge_stage w a u (judge_context_of w a u runtime) s1 = (Inr d, s')" by blast
  have "passing w d s'" by (rule settlesD [OF judge_stage_passing TrueI u(3)])
  with assms(2) u(1) check_identities_Inr [OF u(2)] show ?thesis unfolding passing_def by blast
qed

theorem passed_container_bound_witness:
  "\<exists>d s' u identity. judge_candidate sample_container sample_judge_args judge_start = (Inr d, s') \<and>
     judge_setup_of sample_container sample_judge_args = Inr u \<and>
     judge_identity_in sample_container (ju_task u) (ju_stage_id u) = Inr identity \<and> succeeded sample_container s'"
proof -
  obtain d s' where d: "judge_candidate sample_container sample_judge_args judge_start = (Inr d, s')"
    "dget ''status'' d = JStr ''passed''" by (rule sample_run)
  from passed_container_bound [OF d] d(1) show ?thesis by blast
qed

text \<open>The digest of the evaluator is over its three files as a whole: files that differ give
  different streams to the hash, because every file is preceded by its length.\<close>

lemma bundle_stream_injective:
  assumes "bundle_stream j h c = bundle_stream j' h' c'"
    and "length j < 2 ^ 64" and "length h < 2 ^ 64" and "length c < 2 ^ 64"
    and "length j' < 2 ^ 64" and "length h' < 2 ^ 64" and "length c' < 2 ^ 64"
  shows "j = j' \<and> h = h' \<and> c = c'"
proof -
  have j: "j = j'" and r: "named_frame ''harness.cu'' h @ named_frame ''image-contract.json'' c =
      named_frame ''harness.cu'' h' @ named_frame ''image-contract.json'' c'"
    using named_frame_append [OF assms(1) [unfolded bundle_stream_def] assms(2,5)] by blast+
  from named_frame_append [OF r assms(3,6)] have h: "h = h'" and
    c: "named_frame ''image-contract.json'' c @ [] = named_frame ''image-contract.json'' c' @ []" by auto
  from named_frame_append [OF c assms(4,7)] j h show ?thesis by blast
qed

lemma bundle_stream_injective_witness: "[1] = [1::nat] \<and> [2] = [2::nat] \<and> [3] = [3::nat]"
  by (rule bundle_stream_injective [of "[1]" "[2]" "[3]" "[1]" "[2]" "[3]"]) simp_all

text \<open>The harness and the candidate share one output, and its last line that begins with a
  brace is the result: whatever the harness printed before, a line the candidate prints after
  it decides the rows.\<close>

lemma last_printed_object_decides:
  assumes "list_all (\<lambda>c. \<not> line_break c) line" and "has_prefix [CHR 0x7B] (py_strip line)"
    and "loads w (py_strip line) = Inr (JObj d)"
  shows "last_json_object w (printed @ CHR 0x0A # line) = Inr d"
proof -
  have "line \<noteq> []" using assms(2) by (auto simp: py_strip_def py_rstrip_def py_lstrip_def has_prefix_def)
  with splitlines_from_last [of "[]" printed line] splitlines_plain [OF assms(1)] obtain before where
    "splitlines (printed @ CHR 0x0A # line) = before @ [line]" unfolding splitlines_def by auto
  then show ?thesis using assms(2,3) by (simp add: last_json_object_def)
qed

lemma last_printed_object_decides_witness:
  "\<exists>d. last_json_object sample_container (''ok'' @ CHR 0x0A # [CHR 0x7B, CHR 0x7D]) = Inr d"
proof (rule exI, rule last_printed_object_decides)
  show "loads sample_container (py_strip [CHR 0x7B, CHR 0x7D]) = Inr (JObj [(''device'', JStr ''A800''),
     (''workloads'', JList [JObj [(''id'', JStr ''w''), (''max_abs_error'', JFloat (Fin 0)), (''correct'', JBool True)]])])"
    by (simp add: loads_def sample_container_def sample_output_def py_strip_def py_rstrip_def py_lstrip_def py_isspace_def)
qed (simp_all add: line_break_def py_strip_def py_rstrip_def py_lstrip_def py_isspace_def has_prefix_def)

text \<open>A malformed answer of the container runtime to the inspection of the image leaves no
  result file: the handler of the judge names neither \<open>ValueError\<close> nor \<open>JSONDecodeError\<close>.\<close>

lemma container_value_error_escapes:
  assumes "judge_setup_of w a = Inr u"
    and "cn_command w (js_commands s) [''docker'', ''image'', ''inspect'', contract_text w ''image_ref'' u] = Inr (0, out, err)"
    and "cn_json w out = FileMalformed e"
  shows "fst (judge_candidate w a s) = Inl (JSONDecodeError e)"
proof -
  have "fst (image_identity w (contract_text w ''image_ref'' u) s) = Inl (JSONDecodeError e)"
    using assms(2,3) by (simp add: image_identity_def jbind_def command_def loads_def jlift_def)
  then have "fst (jbind (check_identities w u) f s) = Inl (JSONDecodeError e)" for f :: "string \<Rightarrow> jdict judging"
    unfolding check_identities_def Let_def jbind_assoc by (rule jbind_Inl)
  then obtain s1 where
    "jbind (check_identities w u) (\<lambda>runtime. judge_stage w a u (judge_context_of w a u runtime)) s = (Inl (JSONDecodeError e), s1)"
    by (metis prod.collapse)
  then show ?thesis by (simp add: judge_candidate_def assms(1))
qed

lemma container_value_error_escapes_witness:
  "fst (judge_candidate silent_container sample_judge_args judge_start) = Inl (JSONDecodeError ''Expecting value'')"
proof -
  obtain d s' where d: "judge_candidate sample_container sample_judge_args judge_start = (Inr d, s')"
    "dget ''status'' d = JStr ''passed''" by (rule sample_run)
  from judge_candidate_Inr [OF d] obtain u where "judge_setup_of silent_container sample_judge_args = Inr u"
    unfolding silent_setup by blast
  then show ?thesis
    by (rule container_value_error_escapes [where out = "[]" and err = "[]"])
      (simp_all add: silent_container_def sample_container_def)
qed

end
