(* ===== verification/Csv_Reader.thy ===== *)
theory Csv_Reader
  imports Prelude
begin

text \<open>
  The module \<open>csv\<close> as \<open>adapters/kda.py\<close> uses it: the reader of the default dialect over the
  lines of a file opened with \<open>newline=""\<close>, and \<open>DictReader\<close>.
\<close>

section \<open>Lines\<close>

text \<open>The lines with their ends, which are kept; a carriage return and a line feed are one end.\<close>

fun kept_lines :: "string \<Rightarrow> string \<Rightarrow> string list" where
  "kept_lines line [] = (if line = [] then [] else [line])"
| "kept_lines line (c # cs) =
     (if c = CHR 0x0A then (line @ [c]) # kept_lines [] cs
      else if c = CHR 0x0D then
        (case cs of
           [] \<Rightarrow> [line @ [c]]
         | d # ds \<Rightarrow> if d = CHR 0x0A then (line @ [c, d]) # kept_lines [] ds else (line @ [c]) # kept_lines [] cs)
      else kept_lines (line @ [c]) cs)"

section \<open>Records\<close>

datatype csv_mode = StartRecord | StartField | InField | InQuoted | QuoteInQuoted | EatNewline

text \<open>The state, the field under construction and the fields before it.\<close>

type_synonym csv_state = "csv_mode \<times> string \<times> string list"

definition save_field :: "csv_mode \<Rightarrow> string \<Rightarrow> string list \<Rightarrow> csv_state" where
  "save_field mode field fields = (mode, [], fields @ [field])"

definition is_newline :: "char \<Rightarrow> bool" where
  "is_newline c \<longleftrightarrow> c = CHR 0x0A \<or> c = CHR 0x0D"

definition start_field :: "char \<Rightarrow> string \<Rightarrow> string list \<Rightarrow> csv_state" where
  "start_field c field fields =
     (if is_newline c then save_field EatNewline field fields
      else if c = CHR 0x22 then (InQuoted, field, fields)
      else if c = CHR '','' then save_field StartField field fields
      else (InField, field @ [c], fields))"

text \<open>One character; lines end at their first newline, so nothing but its end follows it.\<close>

fun csv_char :: "char \<Rightarrow> csv_state \<Rightarrow> csv_state" where
  "csv_char c (StartRecord, field, fields) =
     (if is_newline c then (EatNewline, field, fields) else start_field c field fields)"
| "csv_char c (StartField, field, fields) = start_field c field fields"
| "csv_char c (InField, field, fields) =
     (if is_newline c then save_field EatNewline field fields
      else if c = CHR '','' then save_field StartField field fields
      else (InField, field @ [c], fields))"
| "csv_char c (InQuoted, field, fields) =
     (if c = CHR 0x22 then (QuoteInQuoted, field, fields) else (InQuoted, field @ [c], fields))"
| "csv_char c (QuoteInQuoted, field, fields) =
     (if c = CHR 0x22 then (InQuoted, field @ [c], fields)
      else if c = CHR '','' then save_field StartField field fields
      else if is_newline c then save_field EatNewline field fields
      else (InField, field @ [c], fields))"
| "csv_char c (EatNewline, field, fields) = (EatNewline, field, fields)"

fun csv_line_end :: "csv_state \<Rightarrow> csv_state" where
  "csv_line_end (StartField, field, fields) = save_field StartRecord field fields"
| "csv_line_end (InField, field, fields) = save_field StartRecord field fields"
| "csv_line_end (QuoteInQuoted, field, fields) = save_field StartRecord field fields"
| "csv_line_end (EatNewline, field, fields) = (StartRecord, field, fields)"
| "csv_line_end s = s"

definition csv_line :: "csv_state \<Rightarrow> string \<Rightarrow> csv_state" where
  "csv_line s line = csv_line_end (foldl (\<lambda>s c. csv_char c s) s line)"

text \<open>A record may span lines; at the end of the file an open quotation ends.\<close>

fun csv_records :: "csv_state \<Rightarrow> string list \<Rightarrow> string list list" where
  "csv_records (mode, field, fields) [] = (if field \<noteq> [] \<or> mode = InQuoted then [fields @ [field]] else [])"
| "csv_records s (line # lines) =
     (case csv_line s line of
        (StartRecord, field, fields) \<Rightarrow> fields # csv_records (StartRecord, [], []) lines
      | s' \<Rightarrow> csv_records s' lines)"

definition csv_rows :: "string \<Rightarrow> string list list" where
  "csv_rows s = csv_records (StartRecord, [], []) (kept_lines [] s)"

section \<open>Dictionaries\<close>

text \<open>
  A row as a dictionary: missing fields are \<open>None\<close>; what is beyond the header, which only the
  saved copy of a row shows, is left out.
\<close>

definition csv_dict :: "string list \<Rightarrow> string list \<Rightarrow> string option dict" where
  "csv_dict header row =
     dict_update []
       (zip header (map Some row @ replicate (length header - length row) None))"

text \<open>The field names, if there are any, and the rows; empty rows are skipped.\<close>

definition dict_reader :: "string \<Rightarrow> string list option \<times> string option dict list" where
  "dict_reader s =
     (case csv_rows s of
        [] \<Rightarrow> (None, [])
      | header # rows \<Rightarrow> (Some header, map (csv_dict header) (filter (\<lambda>row. row \<noteq> []) rows)))"

section \<open>Properties\<close>

text \<open>A field of the header is in every row.\<close>

lemma dict_update_keys: "set (dict_keys (dict_update d kvs)) = set (dict_keys d) \<union> set (map fst kvs)"
proof (induction kvs arbitrary: d)
  case (Cons kv kvs)
  obtain k v where "kv = (k, v)" by (cases kv)
  then show ?case by (auto simp: Cons.IH dict_keys_set)
qed (simp add: dict_keys_def)

lemma csv_dict_keys: "set (dict_keys (csv_dict header row)) = set header"
  unfolding csv_dict_def dict_update_keys by (simp add: dict_keys_def map_fst_zip_take)

end
