(* ===== verification/Kda_Import.thy ===== *)
theory Kda_Import
  imports Judge_Results Csv_Reader
begin

text \<open>
  \<open>src/kernel_infra/adapters/kda.py\<close>: the import of one row of the KDA ledger and of its
  workload table as a stage result.  The geometric mean, a sum of logarithms, is a parameter;
  files are functions of their path.
\<close>

section \<open>Surroundings\<close>

record kda_world =
  kw_env :: py_env
  kw_environ :: "string \<Rightarrow> string option"
  kw_document :: "string \<Rightarrow> json_file"
  kw_text :: "string \<Rightarrow> string result"
  kw_bytes :: "string \<Rightarrow> nat list result"
  kw_mean :: "py_float list \<Rightarrow> py_float result"

record kda_args =
  ka_report_ref :: string
  ka_kernel :: string
  ka_benchmarks_sha :: string
  ka_scoring_schema :: string
  ka_workloads :: int
  ka_identity :: string

type_synonym csv_row = "string option dict"

definition LEDGER_REQUIRED :: "string list" where
  "LEDGER_REQUIRED = [''submission_id'', ''kernel'', ''source'', ''correctness_passed'', ''all_geomean'', ''large_geomean'',
     ''small_geomean'', ''benchmarks_sha'', ''artifact_digest'', ''gpu_model'', ''cuda_version'', ''scoring_schema_version'',
     ''per_workload_file'']"

definition PER_WORKLOAD_REQUIRED :: "string list" where
  "PER_WORKLOAD_REQUIRED = [''submission_id'', ''kernel'', ''workload_id'', ''size_class'', ''passed'', ''status'', ''speedup'',
     ''note'']"

section \<open>Cells\<close>

definition cell :: "string \<Rightarrow> csv_row \<Rightarrow> string option result" where
  "cell k row = (case dict_get k row of Some v \<Rightarrow> Inr v | None \<Rightarrow> Inl (KeyError k))"

definition cell_json :: "string option \<Rightarrow> json" where
  "cell_json v = (case v of None \<Rightarrow> JNull | Some s \<Rightarrow> JStr s)"

definition cell_text :: "string option \<Rightarrow> string" where
  "cell_text v = (case v of None \<Rightarrow> ''None'' | Some s \<Rightarrow> s)"

definition cell_bool :: "string option \<Rightarrow> string \<Rightarrow> bool result" where
  "cell_bool v loc =
     (if v = Some ''True'' then Inr True else if v = Some ''False'' then Inr False
      else Inl (RuntimeError (loc @ '' must be True or False'')))"

text \<open>A missing cell is no text, and \<open>float(None)\<close> raises what the function does not catch.\<close>

definition optional_float :: "py_env \<Rightarrow> string option \<Rightarrow> string \<Rightarrow> py_float option result" where
  "optional_float env v loc =
     (if v = Some [] then Inr None
      else case float_call env (cell_json v) of
        Inl (ValueError m) \<Rightarrow> Inl (RuntimeError (loc @ '' is not numeric''))
      | Inl e \<Rightarrow> Inl e
      | Inr x \<Rightarrow>
          if \<not> flt_isfinite x \<or> flt_le x (Fin 0) then Inl (RuntimeError (loc @ '' must be finite and positive''))
          else Inr (Some x))"

definition geomean :: "kda_world \<Rightarrow> py_float list \<Rightarrow> py_float option result" where
  "geomean w xs = (if xs = [] then Inr None else rbind (kw_mean w xs) (\<lambda>x. Inr (Some x)))"

definition flt_abs :: "py_float \<Rightarrow> py_float" where
  "flt_abs x = (case x of Fin q \<Rightarrow> Fin \<bar>q\<bar> | NegInf \<Rightarrow> PosInf | _ \<Rightarrow> x)"

definition metric_tolerance :: py_float where
  "metric_tolerance = to_double (1 / 1000000)"

definition same_metric :: "py_float option \<Rightarrow> py_float option \<Rightarrow> bool" where
  "same_metric stored expected =
     (case (stored, expected) of
        (None, None) \<Rightarrow> True
      | (Some x, Some y) \<Rightarrow>
          flt_le (flt_abs (flt_sub x y))
            (flt_mul metric_tolerance (if flt_less (Fin 1) (flt_abs y) then flt_abs y else Fin 1))
      | _ \<Rightarrow> False)"

text \<open>\<open>Path(value).resolve()\<close>.\<close>

definition path_of_cell :: "kda_world \<Rightarrow> json \<Rightarrow> string result" where
  "path_of_cell w v =
     (case v of
        JStr s \<Rightarrow> Inr (resolve_path (kw_env w) s)
      | _ \<Rightarrow> Inl (TypeError (''argument should be a str or an os.PathLike object where __fspath__ returns a str, not ''
               @ repr_str (json_type_name v))))"

section \<open>The rows of a report\<close>

definition read_table :: "kda_world \<Rightarrow> string \<Rightarrow> string list \<Rightarrow> string \<Rightarrow> csv_row list result" where
  "read_table w path required msg =
     rbind (kw_text w path) (\<lambda>content.
     case dict_reader content of
       (Some names, rows) \<Rightarrow> if set required \<subseteq> set names then Inr rows else Inl (RuntimeError msg)
     | (None, rows) \<Rightarrow> Inl (RuntimeError msg))"

definition check_row_status :: "string \<Rightarrow> string option \<Rightarrow> bool \<Rightarrow> py_float option \<Rightarrow> unit result" where
  "check_row_status loc status passed speedup =
     (if status = Some ''ok'' \<and> \<not> (passed \<and> speedup \<noteq> None)
      then Inl (RuntimeError (loc @ '' status disagrees with passed/speedup''))
      else if status = Some ''candidate_only'' \<and> \<not> (passed \<and> speedup = None)
      then Inl (RuntimeError (loc @ '' candidate_only is inconsistent''))
      else if status \<in> {Some ''incorrect'', Some ''error''} \<and> passed
      then Inl (RuntimeError (loc @ '' failed status cannot pass''))
      else if status \<notin> {Some ''ok'', Some ''candidate_only'', Some ''incorrect'', Some ''error''}
      then Inl (RuntimeError (loc @ '' status is invalid''))
      else Inr ())"

text \<open>A row of the result, and the speedup it scores in its size class.\<close>

type_synonym scored_row = "jdict \<times> (string \<times> py_float) option"

definition row_item :: "string option \<Rightarrow> bool \<Rightarrow> string \<Rightarrow> py_float option \<Rightarrow> jdict" where
  "row_item workload passed notes_text speedup =
     [(''id'', cell_json workload), (''correct'', JBool passed), (''notes'', JStr notes_text)] @
     (case speedup of None \<Rightarrow> [] | Some x \<Rightarrow> [(''speedup'', JFloat x)])"

definition import_row :: "py_env \<Rightarrow> csv_row \<Rightarrow> nat \<times> csv_row \<Rightarrow> scored_row result" where
  "import_row env ledger indexed =
     (case indexed of (index, raw) \<Rightarrow>
      let loc = ''workload['' @ nat_text index @ '']'' in
      rbind (cell ''submission_id'' raw) (\<lambda>sid. rbind (cell ''submission_id'' ledger) (\<lambda>expected_sid.
      if sid \<noteq> expected_sid then Inl (RuntimeError (loc @ '' submission id drift''))
      else
      rbind (cell ''kernel'' raw) (\<lambda>kernel. rbind (cell ''kernel'' ledger) (\<lambda>expected_kernel.
      if kernel \<noteq> expected_kernel then Inl (RuntimeError (loc @ '' kernel drift''))
      else
      rbind (cell ''size_class'' raw) (\<lambda>size_class.
      if size_class \<notin> {Some ''small'', Some ''large''} then Inl (RuntimeError (loc @ '' size class is invalid''))
      else
      rbind (rbind (cell ''passed'' raw) (\<lambda>v. cell_bool v (loc @ ''.passed''))) (\<lambda>passed.
      rbind (rbind (cell ''speedup'' raw) (\<lambda>v. optional_float env v (loc @ ''.speedup''))) (\<lambda>speedup.
      rbind (cell ''status'' raw) (\<lambda>status.
      rbind (check_row_status loc status passed speedup) (\<lambda>_.
      rbind (cell ''workload_id'' raw) (\<lambda>workload.
      rbind (cell ''note'' raw) (\<lambda>remark.
      Inr (row_item workload passed (py_strip (''size_class='' @ cell_text size_class @ '' status='' @ cell_text status @
             '' note='' @ cell_text remark)) speedup,
           if passed then map_option (\<lambda>x. (cell_text size_class, x)) speedup else None)))))))))))))"

definition scores :: "scored_row list \<Rightarrow> string \<Rightarrow> py_float list" where
  "scores rows key = map snd (filter (\<lambda>(size_class, x). key = ''all'' \<or> size_class = key) (List.map_filter snd rows))"

definition GEOMEANS :: "string list" where
  "GEOMEANS = [''all'', ''large'', ''small'']"

definition ledger_geomean :: "py_env \<Rightarrow> csv_row \<Rightarrow> string \<Rightarrow> py_float option result" where
  "ledger_geomean env ledger key = rbind (cell (key @ ''_geomean'') ledger) (\<lambda>v. optional_float env v (key @ ''_geomean''))"

definition check_geomean :: "kda_world \<Rightarrow> scored_row list \<Rightarrow> string \<times> py_float option \<Rightarrow> unit result" where
  "check_geomean w rows entry =
     (case entry of (key, stored) \<Rightarrow>
      rbind (geomean w (scores rows key)) (\<lambda>expected.
      if same_metric stored expected then Inr ()
      else Inl (RuntimeError (''KDA '' @ key @ '' geomean disagrees with workload rows''))))"

definition item_correct :: "jdict \<Rightarrow> bool" where
  "item_correct item \<longleftrightarrow> py_truthy (dget ''correct'' item)"

section \<open>The report\<close>

definition report_reference :: "kda_world \<Rightarrow> kda_args \<Rightarrow> json result" where
  "report_reference w a =
     rbind (parsed (kw_document w (resolve_path (kw_env w) (ka_report_ref a)))) (\<lambda>reference.
     rbind (py_set reference) (\<lambda>names.
     if \<not> (set names = {JStr ''ledger_row'', JStr ''ledger_path''})
     then Inl (RuntimeError ''KDA report reference has unexpected fields'')
     else Inr reference))"

text \<open>\<open>True\<close> is the row 1.\<close>

definition ledger_row_index :: "json \<Rightarrow> nat result" where
  "ledger_row_index v =
     (case v of
        JInt i \<Rightarrow> if i < 1 then Inl (RuntimeError ''KDA ledger row must be a positive integer'') else Inr (nat i)
      | JBool b \<Rightarrow> if b then Inr 1 else Inl (RuntimeError ''KDA ledger row must be a positive integer'')
      | _ \<Rightarrow> Inl (RuntimeError ''KDA ledger row must be a positive integer''))"

definition expect_cell :: "string \<Rightarrow> string \<Rightarrow> string \<Rightarrow> csv_row \<Rightarrow> unit result" where
  "expect_cell k expected msg row =
     rbind (cell k row) (\<lambda>v. if v \<noteq> Some expected then Inl (RuntimeError msg) else Inr ())"

definition check_ledger :: "kda_args \<Rightarrow> csv_row \<Rightarrow> unit result" where
  "check_ledger a ledger =
     rbind (expect_cell ''source'' ''authoritative'' ''KDA ledger source is not authoritative'' ledger) (\<lambda>_.
     rbind (expect_cell ''kernel'' (ka_kernel a) ''KDA kernel does not match the task'' ledger) (\<lambda>_.
     rbind (expect_cell ''benchmarks_sha'' (ka_benchmarks_sha a) ''KDA benchmark revision drift'' ledger) (\<lambda>_.
     expect_cell ''scoring_schema_version'' (ka_scoring_schema a) ''KDA scoring schema drift'' ledger)))"

text \<open>The row of the ledger the reference names, its index and the path of the ledger.\<close>

definition ledger_entry :: "kda_world \<Rightarrow> kda_args \<Rightarrow> json \<Rightarrow> (json \<times> string \<times> csv_row) result" where
  "ledger_entry w a reference =
     rbind (py_index ''ledger_row'' reference) (\<lambda>row_index.
     rbind (ledger_row_index row_index) (\<lambda>n.
     rbind (rbind (py_index ''ledger_path'' reference) (path_of_cell w)) (\<lambda>path.
     rbind (read_table w path LEDGER_REQUIRED ''KDA ledger is missing required columns'') (\<lambda>rows.
     if length rows < n then Inl (RuntimeError ''KDA ledger row is out of range'')
     else let ledger = rows ! (n - 1) in
       rbind (check_ledger a ledger) (\<lambda>_. Inr (row_index, path, ledger))))))"

definition workload_table :: "kda_world \<Rightarrow> kda_args \<Rightarrow> csv_row \<Rightarrow> (string \<times> csv_row list) result" where
  "workload_table w a ledger =
     rbind (rbind (cell ''per_workload_file'' ledger) (\<lambda>v. path_of_cell w (cell_json v))) (\<lambda>path.
     rbind (read_table w path PER_WORKLOAD_REQUIRED ''KDA per-workload receipt is missing required columns'') (\<lambda>rows.
     if int (length rows) \<noteq> ka_workloads a
     then Inl (RuntimeError (''KDA workload count drift: expected '' @ int_text (ka_workloads a) @ '', got '' @ nat_text (length rows)))
     else Inr (path, rows)))"

definition metric_json :: "py_float option \<Rightarrow> json" where
  "metric_json m = (case m of None \<Rightarrow> JNull | Some x \<Rightarrow> JFloat x)"

definition correct_count :: "jdict list \<Rightarrow> nat" where
  "correct_count items = length (filter item_correct items)"

definition kda_document ::
  "json \<Rightarrow> csv_row \<Rightarrow> jdict list \<Rightarrow> (string \<times> py_float option) list \<Rightarrow> bool \<Rightarrow> string \<Rightarrow> string \<Rightarrow> jdict" where
  "kda_document row_index ledger items geomeans correctness ledger_digest table_digest =
     [(''schema'', JStr STAGE_RESULT_SCHEMA),
      (''status'', JStr (if correctness then ''passed'' else ''failed'')),
      (''validity'', JStr (if correctness then ''valid'' else ''invalid'')),
      (''summary'', JStr (''authoritative KDA correctness '' @ nat_text (correct_count items) @ ''/'' @ nat_text (length items) @
         ''; speedup-only receipt, absolute timing and full provenance unavailable'')),
      (''workloads'', JList (map JObj items)),
      (''metrics'', JObj [(''primary_metric'', JStr ''large_geomean''),
         (''geomeans'', JObj (map (\<lambda>(k, m). (k, metric_json m)) geomeans)),
         (''absolute_timing_available'', JBool False), (''provenance_complete'', JBool False),
         (''missing_provenance_fields'', JList [JStr ''judge_image_digest'', JStr ''driver_version''])]),
      (''artifacts'', JObj [(''report_ref'', JStr ''kda-report-ref.json''), (''ledger_row'', JStr ''kda-ledger-row.json''),
         (''per_workload'', JStr ''kda-per-workload.csv''), (''authoritative_row_index'', row_index)]),
      (''fingerprints'', JObj (map (\<lambda>k. (k, case dict_get k ledger of Some v \<Rightarrow> cell_json v | None \<Rightarrow> JNull))
         [''submission_id'', ''benchmarks_sha'', ''artifact_digest'', ''gpu_model'', ''cuda_version'', ''scoring_schema_version''] @
         [(''ledger_sha256'', JStr ledger_digest), (''per_workload_sha256'', JStr table_digest)]))]"

definition import_report :: "kda_world \<Rightarrow> kda_args \<Rightarrow> jdict result" where
  "import_report w a =
     rbind (report_reference w a) (\<lambda>reference.
     rbind (ledger_entry w a reference) (\<lambda>(row_index, ledger_path, ledger).
     rbind (workload_table w a ledger) (\<lambda>(table_path, raw_rows).
     rbind (rtraverse (import_row (kw_env w) ledger) (List.enumerate 0 raw_rows)) (\<lambda>rows.
     rbind (rtraverse (ledger_geomean (kw_env w) ledger) GEOMEANS) (\<lambda>stored.
     let geomeans = zip GEOMEANS stored; items = map fst rows in
     rbind (rtraverse (check_geomean w rows) geomeans) (\<lambda>_.
     rbind (rbind (cell ''correctness_passed'' ledger) (\<lambda>v. cell_bool v ''correctness_passed'')) (\<lambda>correctness.
     if correctness \<noteq> list_all item_correct items
     then Inl (RuntimeError ''KDA correctness summary disagrees with workload rows'')
     else
     rbind (kw_bytes w table_path) (\<lambda>table_bytes.
     rbind (kw_bytes w ledger_path) (\<lambda>ledger_bytes.
     Inr (kda_document row_index ledger items geomeans correctness
       (sha256 (kw_env w) ledger_bytes) (sha256 (kw_env w) table_bytes)))))))))))"

section \<open>The importer\<close>

definition environ_value :: "kda_world \<Rightarrow> string \<Rightarrow> string result" where
  "environ_value w k = (case kw_environ w k of Some v \<Rightarrow> Inr v | None \<Rightarrow> Inl (KeyError k))"

definition check_task_identity :: "kda_world \<Rightarrow> string \<Rightarrow> unit result" where
  "check_task_identity w expected =
     rbind (environ_value w ''KERNELINFRA_TASK'') (\<lambda>path.
     rbind (environ_value w ''KERNELINFRA_STAGE_ID'') (\<lambda>sid.
     rbind (judge_identities (kw_document w path) (JStr sid)) (\<lambda>identities.
     case identities of
       [i] \<Rightarrow> if is_substring expected (py_str (float_text (kw_env w)) i) then Inr ()
         else Inl (RuntimeError ''task judge identity does not bind KDA judge identity'')
     | _ \<Rightarrow> Inl (RuntimeError ''task judge identity does not bind KDA judge identity''))))"

text \<open>The document of the result file; only a missing variable of the environment leaves none.\<close>

definition kda_main :: "kda_world \<Rightarrow> kda_args \<Rightarrow> jdict result" where
  "kda_main w a =
     rbind (environ_value w ''KERNELINFRA_RESULT'') (\<lambda>_.
     rbind (environ_value w ''KERNELINFRA_STAGE_DIR'') (\<lambda>_.
     Inr (case rbind (check_task_identity w (ka_identity a)) (\<lambda>_. import_report w a) of
            Inl e \<Rightarrow> adapter_error ''KDA importer'' e
          | Inr d \<Rightarrow> d)))"

end
