(* ===== verification/Kda_Facts.thy ===== *)
theory Kda_Facts
  imports Kda_Import
begin

text \<open>
  What the result files of the KDA importer say: each is a document the runner accepts up to
  its rows, a passed one reports an authoritative row of the ledger whose workloads all
  passed, and no run that has only such results enters the frontier.
\<close>

section \<open>Rows\<close>

text \<open>A cell that is empty or holds a finite positive number.\<close>

definition scored_cell :: "py_env \<Rightarrow> string option \<Rightarrow> py_float option \<Rightarrow> bool" where
  "scored_cell env v score \<longleftrightarrow> (case score of
       None \<Rightarrow> v = Some []
     | Some x \<Rightarrow> v \<noteq> Some [] \<and> float_call env (cell_json v) = Inr x \<and> flt_isfinite x \<and> \<not> flt_le x (Fin 0))"

lemma optional_float_Inr: "optional_float env v loc = Inr score \<Longrightarrow> scored_cell env v score"
  by (auto simp: optional_float_def scored_cell_def split: if_splits sum.splits exn.splits)

text \<open>The status of a row says whether it passed and whether it has a speedup.\<close>

definition status_says :: "string option \<Rightarrow> bool \<Rightarrow> bool \<Rightarrow> bool" where
  "status_says status passed timed \<longleftrightarrow>
     status \<in> (if passed then {Some (if timed then ''ok'' else ''candidate_only'')} else {Some ''incorrect'', Some ''error''})"

lemma check_row_status_Inr: "check_row_status loc status passed speedup = Inr () \<longleftrightarrow> status_says status passed (speedup \<noteq> None)"
  by (cases "status = Some ''ok''"; cases speedup) (auto simp: check_row_status_def status_says_def)

text \<open>The row of a result, and its score, that a row of the workload table gives.\<close>

definition row_from :: "py_env \<Rightarrow> csv_row \<Rightarrow> csv_row \<Rightarrow> scored_row \<Rightarrow> bool" where
  "row_from env ledger raw row \<longleftrightarrow> (\<exists>workload size_class status remark passed number speedup.
     dict_get ''submission_id'' raw = dict_get ''submission_id'' ledger \<and> dict_get ''kernel'' raw = dict_get ''kernel'' ledger \<and>
     dict_get ''workload_id'' raw = Some workload \<and> dict_get ''note'' raw = Some remark \<and>
     dict_get ''size_class'' raw = Some (Some size_class) \<and> size_class \<in> {''small'', ''large''} \<and>
     dict_get ''passed'' raw = Some (Some (if passed then ''True'' else ''False'')) \<and>
     dict_get ''speedup'' raw = Some number \<and> scored_cell env number speedup \<and>
     dict_get ''status'' raw = Some status \<and> status_says status passed (speedup \<noteq> None) \<and>
     row = (row_item workload passed (py_strip (''size_class='' @ size_class @ '' status='' @ cell_text status @
              '' note='' @ cell_text remark)) speedup,
            if passed then map_option (Pair size_class) speedup else None))"

lemma cell_Inr [simp]: "cell k row = Inr v \<longleftrightarrow> dict_get k row = Some v"
  by (auto simp: cell_def split: option.splits)

lemma cell_bool_Inr: "cell_bool v loc = Inr b \<longleftrightarrow> v = Some (if b then ''True'' else ''False'')"
  by (auto simp: cell_bool_def)

lemma import_row_Inr:
  assumes "import_row env ledger (i, raw) = Inr row"
  shows "row_from env ledger raw row"
proof -
  from assms obtain sid sid' kernel kernel' cls mark number status workload remark passed speedup us l1 l2 l3 where
    c: "dict_get ''submission_id'' raw = Some sid" "dict_get ''submission_id'' ledger = Some sid'" "sid = sid'"
      "dict_get ''kernel'' raw = Some kernel" "dict_get ''kernel'' ledger = Some kernel'" "kernel = kernel'"
      "dict_get ''size_class'' raw = Some cls" "cls \<in> {Some ''small'', Some ''large''}"
      "dict_get ''passed'' raw = Some mark" "cell_bool mark l1 = Inr passed"
      "dict_get ''speedup'' raw = Some number" "optional_float env number l2 = Inr speedup"
      "dict_get ''status'' raw = Some status" "check_row_status l3 status passed speedup = Inr us"
      "dict_get ''workload_id'' raw = Some workload" "dict_get ''note'' raw = Some remark"
    and row: "(row_item workload passed (py_strip (''size_class='' @ cell_text cls @ '' status='' @ cell_text status @
          '' note='' @ cell_text remark)) speedup, if passed then map_option (\<lambda>x. (cell_text cls, x)) speedup else None) = row"
    unfolding import_row_def prod.case Let_def rbind_eq_Inr_iff if_Inl_eq_Inr_iff sum.inject not_not cell_Inr by blast
  obtain size_class where s: "cls = Some size_class" "size_class \<in> {''small'', ''large''}" using c(8) by blast
  have t: "cell_text (Some size_class) = size_class" by (simp add: cell_text_def)
  have p: "mark = Some (if passed then ''True'' else ''False'')" using c(10) unfolding cell_bool_Inr .
  have check: "status_says status passed (speedup \<noteq> None)" using c(14) by (simp add: check_row_status_Inr)
  have "(\<lambda>x. (size_class, x)) = Pair size_class" by (rule ext) (rule refl)
  with row have "row = (row_item workload passed (py_strip (''size_class='' @ size_class @ '' status='' @ cell_text status @
          '' note='' @ cell_text remark)) speedup, if passed then map_option (Pair size_class) speedup else None)"
    unfolding s(1) t by metis
  with c(1-7,9,11,13,15,16) s p optional_float_Inr [OF c(12)] check
  show ?thesis unfolding row_from_def by metis
qed

lemma row_item_keys: "set (dict_keys (row_item workload passed remark speedup)) \<subseteq> {''id'', ''correct'', ''notes'', ''speedup''}"
  by (auto simp: row_item_def dict_keys_def split: option.splits)

lemma row_item_correct: "item_correct (row_item workload passed remark speedup) \<longleftrightarrow> passed"
  by (simp add: item_correct_def row_item_def dget_def)

definition kda_row :: "jdict \<Rightarrow> bool" where
  "kda_row row \<longleftrightarrow> (\<exists>workload passed remark speedup. row = row_item workload passed remark speedup)"

section \<open>The report\<close>

lemma kda_judge_document:
  "judge_document (kda_document row_index ledger items geomeans correctness ledger_digest table_digest)
     (if correctness then Passed else Failed) (if correctness then Valid else Invalid) items"
  by (simp add: judge_document_def kda_document_def consistent_def dict_keys_def STAGE_RESULT_FIELDS_def field_accepted_def)

definition bound_ledger :: "kda_args \<Rightarrow> csv_row \<Rightarrow> bool" where
  "bound_ledger a ledger \<longleftrightarrow> dict_get ''source'' ledger = Some (Some ''authoritative'') \<and>
     dict_get ''kernel'' ledger = Some (Some (ka_kernel a)) \<and>
     dict_get ''benchmarks_sha'' ledger = Some (Some (ka_benchmarks_sha a)) \<and>
     dict_get ''scoring_schema_version'' ledger = Some (Some (ka_scoring_schema a))"

lemma check_ledger_bound: "check_ledger a ledger = Inr () \<Longrightarrow> bound_ledger a ledger"
  by (auto simp: check_ledger_def expect_cell_def cell_def bound_ledger_def split: option.splits if_splits)

lemma imported_rows:
  "rtraverse (import_row env ledger) (List.enumerate n raws) = Inr rows \<Longrightarrow> list_all2 (row_from env ledger) raws rows"
  by (induction raws arbitrary: n rows) (auto simp: list_all2_Cons1 intro: import_row_Inr)

lemma row_from_kda: "row_from env ledger raw row \<Longrightarrow> kda_row (fst row)"
  unfolding row_from_def kda_row_def by (metis fst_conv)

lemma rows_from_kda: "list_all2 (row_from env ledger) raws rows \<Longrightarrow> list_all kda_row (map fst rows)"
  by (induction rule: list_all2_induct) (simp_all add: row_from_kda)

text \<open>A mean the ledger stores agrees with the mean of the scores of the rows it is over.\<close>

definition mean_agrees :: "kda_world \<Rightarrow> csv_row \<Rightarrow> scored_row list \<Rightarrow> string \<Rightarrow> bool" where
  "mean_agrees w ledger rows key \<longleftrightarrow> (\<exists>number stored expected. dict_get (key @ ''_geomean'') ledger = Some number \<and>
     scored_cell (kw_env w) number stored \<and> geomean w (scores rows key) = Inr expected \<and> same_metric stored expected)"

lemma ledger_geomean_Inr:
  "ledger_geomean env ledger key = Inr stored \<Longrightarrow>
   \<exists>number. dict_get (key @ ''_geomean'') ledger = Some number \<and> scored_cell env number stored"
  using optional_float_Inr by (fastforce simp: ledger_geomean_def)

lemma means_agree:
  assumes "rtraverse (ledger_geomean (kw_env w) ledger) keys = Inr stored"
    and "rtraverse (check_geomean w rows) (zip keys stored) = Inr us"
  shows "list_all (mean_agrees w ledger rows) keys"
  using assms
proof (induction keys arbitrary: stored us)
  case (Cons key keys)
  then obtain m ms where m: "stored = m # ms" "ledger_geomean (kw_env w) ledger key = Inr m"
    "rtraverse (ledger_geomean (kw_env w) ledger) keys = Inr ms"
    by (cases stored) (auto simp: list_all2_Cons1)
  with Cons.prems(2) obtain rest where r: "check_geomean w rows (key, m) = Inr ()"
    "rtraverse (check_geomean w rows) (zip keys ms) = Inr rest"
    by (auto simp: list_all2_Cons1)
  from r(1) ledger_geomean_Inr [OF m(2)] have "mean_agrees w ledger rows key"
    by (auto simp: mean_agrees_def check_geomean_def split: if_splits)
  with Cons.IH [OF m(3) r(2)] show ?case by simp
qed simp

text \<open>The reference of the report as its file reads, and a table as its file reads.\<close>

definition reference_read :: "kda_world \<Rightarrow> kda_args \<Rightarrow> jdict \<Rightarrow> bool" where
  "reference_read w a reference \<longleftrightarrow>
     kw_document w (resolve_path (kw_env w) (ka_report_ref a)) = FileParsed (JObj reference) \<and>
     set (dict_keys reference) = {''ledger_row'', ''ledger_path''}"

definition table_read :: "kda_world \<Rightarrow> string \<Rightarrow> string list \<Rightarrow> csv_row list \<Rightarrow> bool" where
  "table_read w path required rows \<longleftrightarrow> (\<exists>content names. kw_text w path = Inr content \<and>
     dict_reader content = (Some names, rows) \<and> set required \<subseteq> set names)"

text \<open>Rows are numbered from 1.\<close>

definition names_row :: "json \<Rightarrow> csv_row list \<Rightarrow> csv_row \<Rightarrow> bool" where
  "names_row v rows row \<longleftrightarrow> (\<exists>n. (v = JInt (int n) \<or> v = JBool True \<and> n = 1) \<and> 1 \<le> n \<and> n \<le> length rows \<and>
     row = rows ! (n - 1))"

definition prints_files :: "kda_world \<Rightarrow> string \<Rightarrow> string \<Rightarrow> jdict \<Rightarrow> bool" where
  "prints_files w ledger_path table_path d \<longleftrightarrow> (\<exists>prints ledger_bytes table_bytes. dget ''fingerprints'' d = JObj prints \<and>
     kw_bytes w ledger_path = Inr ledger_bytes \<and> dget ''ledger_sha256'' prints = JStr (sha256 (kw_env w) ledger_bytes) \<and>
     kw_bytes w table_path = Inr table_bytes \<and> dget ''per_workload_sha256'' prints = JStr (sha256 (kw_env w) table_bytes))"

text \<open>What an imported report is made of, from the files it was read from.\<close>

definition imported :: "kda_world \<Rightarrow> kda_args \<Rightarrow> jdict \<Rightarrow> scored_row list \<Rightarrow> bool \<Rightarrow> bool" where
  "imported w a d rows correctness \<longleftrightarrow>
     (\<exists>reference ledger_path ledgers ledger table_path raws.
        reference_read w a reference \<and> dget ''ledger_path'' reference = JStr ledger_path \<and>
        table_read w (resolve_path (kw_env w) ledger_path) LEDGER_REQUIRED ledgers \<and>
        names_row (dget ''ledger_row'' reference) ledgers ledger \<and> bound_ledger a ledger \<and>
        dict_get ''correctness_passed'' ledger = Some (Some (if correctness then ''True'' else ''False'')) \<and>
        dict_get ''per_workload_file'' ledger = Some (Some table_path) \<and>
        table_read w (resolve_path (kw_env w) table_path) PER_WORKLOAD_REQUIRED raws \<and> int (length raws) = ka_workloads a \<and>
        list_all2 (row_from (kw_env w) ledger) raws rows \<and> list_all (mean_agrees w ledger rows) GEOMEANS \<and>
        prints_files w (resolve_path (kw_env w) ledger_path) (resolve_path (kw_env w) table_path) d) \<and>
     (correctness \<longleftrightarrow> list_all item_correct (map fst rows)) \<and>
     judge_document d (if correctness then Passed else Failed) (if correctness then Valid else Invalid) (map fst rows)"

lemma py_index_Inr: "py_index k v = Inr x \<longleftrightarrow> (\<exists>d. v = JObj d \<and> dict_get k d = Some x)"
  by (auto simp: py_index_def dindex_def split: json.splits option.splits)

lemma path_of_cell_Inr: "path_of_cell w v = Inr path \<longleftrightarrow> (\<exists>s. v = JStr s \<and> path = resolve_path (kw_env w) s)"
  by (auto simp: path_of_cell_def split: json.splits)

lemma cell_json_JStr: "cell_json v = JStr s \<longleftrightarrow> v = Some s"
  by (simp add: cell_json_def split: option.split)

lemma read_table_Inr: "read_table w path required msg = Inr rows \<Longrightarrow> table_read w path required rows"
  unfolding table_read_def read_table_def
  by (cases "kw_text w path") (force split: option.splits if_splits prod.splits)+

lemma parsed_Inr: "parsed f = Inr v \<longleftrightarrow> f = FileParsed v"
  by (cases f) (simp_all add: parsed_def)

lemma report_reference_Inr:
  assumes "report_reference w a = Inr (JObj reference)"
  shows "reference_read w a reference"
proof -
  from assms obtain names where r: "kw_document w (resolve_path (kw_env w) (ka_report_ref a)) = FileParsed (JObj reference)"
    "py_set (JObj reference) = Inr names" "set names = {JStr ''ledger_row'', JStr ''ledger_path''}"
    unfolding report_reference_def rbind_eq_Inr_iff if_Inl_eq_Inr_iff sum.inject parsed_Inr not_not by blast
  from r(2) have "names = map JStr (dict_keys reference)"
    by (auto simp: py_set_def py_iter_def)
  with r(3) have "JStr ` set (dict_keys reference) = JStr ` {''ledger_row'', ''ledger_path''}" by simp
  then have "set (dict_keys reference) = {''ledger_row'', ''ledger_path''}"
    by (subst (asm) inj_image_eq_iff) (simp_all add: inj_def)
  with r(1) show ?thesis by (simp add: reference_read_def)
qed

lemma ledger_row_index_Inr:
  "ledger_row_index v = Inr n \<Longrightarrow> (v = JInt (int n) \<or> v = JBool True \<and> n = 1) \<and> 1 \<le> n"
  by (cases v) (auto simp: ledger_row_index_def split: if_splits)

lemma ledger_entry_Inr:
  assumes "ledger_entry w a v = Inr (row_index, path, ledger)"
  shows "\<exists>reference s ledgers. v = JObj reference \<and> dget ''ledger_path'' reference = JStr s \<and>
    path = resolve_path (kw_env w) s \<and> table_read w path LEDGER_REQUIRED ledgers \<and>
    names_row (dget ''ledger_row'' reference) ledgers ledger \<and> bound_ledger a ledger"
proof -
  from assms obtain n place rows us where c: "py_index ''ledger_row'' v = Inr row_index" "ledger_row_index row_index = Inr n"
    "py_index ''ledger_path'' v = Inr place" "path_of_cell w place = Inr path"
    "read_table w path LEDGER_REQUIRED ''KDA ledger is missing required columns'' = Inr rows"
    "\<not> length rows < n" "check_ledger a (rows ! (n - 1)) = Inr us" "rows ! (n - 1) = ledger"
    unfolding ledger_entry_def Let_def rbind_eq_Inr_iff if_Inl_eq_Inr_iff sum.inject prod.inject by blast
  from c(1,3,4) obtain reference s where r: "v = JObj reference" "dget ''ledger_row'' reference = row_index"
    "dget ''ledger_path'' reference = JStr s" "path = resolve_path (kw_env w) s"
    by (auto simp: py_index_Inr path_of_cell_Inr dget_def)
  have n: "names_row (dget ''ledger_row'' reference) rows ledger"
    unfolding r(2) using ledger_row_index_Inr [OF c(2)] c(6,8) unfolding names_row_def by (intro exI [of _ n]) simp
  have b: "bound_ledger a ledger" using check_ledger_bound [of a ledger] c(7) unfolding c(8) by simp
  show ?thesis
    by (intro exI [of _ reference] exI [of _ s] exI [of _ rows] conjI r(1,3,4) n b read_table_Inr [OF c(5)])
qed

lemma workload_table_Inr:
  assumes "workload_table w a ledger = Inr (path, raws)"
  shows "\<exists>s. dict_get ''per_workload_file'' ledger = Some (Some s) \<and> path = resolve_path (kw_env w) s \<and>
    table_read w path PER_WORKLOAD_REQUIRED raws \<and> int (length raws) = ka_workloads a"
proof -
  from assms obtain mark where c: "dict_get ''per_workload_file'' ledger = Some mark" "path_of_cell w (cell_json mark) = Inr path"
    "read_table w path PER_WORKLOAD_REQUIRED ''KDA per-workload receipt is missing required columns'' = Inr raws"
    "int (length raws) = ka_workloads a"
    unfolding workload_table_def rbind_eq_Inr_iff if_Inl_eq_Inr_iff sum.inject prod.inject not_not cell_Inr by blast
  with read_table_Inr [OF c(3)] show ?thesis by (auto simp: path_of_cell_Inr cell_json_JStr)
qed

lemma import_report_Inr:
  assumes "import_report w a = Inr d"
  shows "\<exists>rows correctness. imported w a d rows correctness"
proof -
  from assms obtain v row_index ledger_path ledger table_path raws rows stored us mark correctness lb tb where
    c: "report_reference w a = Inr v" "ledger_entry w a v = Inr (row_index, ledger_path, ledger)"
      "workload_table w a ledger = Inr (table_path, raws)"
      "rtraverse (import_row (kw_env w) ledger) (List.enumerate 0 raws) = Inr rows"
      "rtraverse (ledger_geomean (kw_env w) ledger) GEOMEANS = Inr stored"
      "rtraverse (check_geomean w rows) (zip GEOMEANS stored) = Inr us"
      "cell ''correctness_passed'' ledger = Inr mark" "cell_bool mark ''correctness_passed'' = Inr correctness"
      "correctness = list_all item_correct (map fst rows)"
      "kw_bytes w table_path = Inr tb" "kw_bytes w ledger_path = Inr lb"
      "kda_document row_index ledger (map fst rows) (zip GEOMEANS stored) correctness
         (sha256 (kw_env w) lb) (sha256 (kw_env w) tb) = d"
    unfolding import_report_def Let_def rbind_eq_Inr_iff if_Inl_eq_Inr_iff split_paired_Ex prod.case sum.inject not_not by blast
  from ledger_entry_Inr [OF c(2)] obtain reference s ledgers where l: "v = JObj reference" "dget ''ledger_path'' reference = JStr s"
    "ledger_path = resolve_path (kw_env w) s" "table_read w ledger_path LEDGER_REQUIRED ledgers"
    "names_row (dget ''ledger_row'' reference) ledgers ledger" "bound_ledger a ledger" by blast
  from workload_table_Inr [OF c(3)] obtain t where t: "dict_get ''per_workload_file'' ledger = Some (Some t)"
    "table_path = resolve_path (kw_env w) t" "table_read w table_path PER_WORKLOAD_REQUIRED raws" "int (length raws) = ka_workloads a"
    by blast
  have p: "prints_files w ledger_path table_path d"
    using c(10,11) unfolding prints_files_def c(12) [symmetric] by (simp add: kda_document_def dget_def)
  have j: "judge_document d (if correctness then Passed else Failed) (if correctness then Valid else Invalid) (map fst rows)"
    unfolding c(12) [symmetric] by (rule kda_judge_document)
  from c(7,8) have m: "dict_get ''correctness_passed'' ledger = Some (Some (if correctness then ''True'' else ''False''))"
    unfolding cell_Inr cell_bool_Inr by simp
  have "imported w a d rows correctness"
    unfolding imported_def
    using report_reference_Inr [OF c(1) [unfolded l(1)]] l(2,5,6) l(4) [unfolded l(3)] t(1,4) t(3) [unfolded t(2)]
      imported_rows [OF c(4)] means_agree [OF c(5,6)] m c(9) j p [unfolded l(3) t(2)] by blast
  then show ?thesis by blast
qed

section \<open>The importer\<close>

lemma kda_main_Inr:
  assumes "kda_main w a = Inr d"
  shows "(\<exists>e. d = adapter_error ''KDA importer'' e) \<or> (check_task_identity w (ka_identity a) = Inr () \<and> import_report w a = Inr d)"
  using assms unfolding kda_main_def
  by (cases "rbind (check_task_identity w (ka_identity a)) (\<lambda>_. import_report w a)") auto

lemma kda_document_rows:
  assumes "kda_main w a = Inr d"
  shows "\<exists>st v rows. judge_document d st v rows \<and> list_all kda_row rows"
  using kda_main_Inr [OF assms]
proof
  assume "\<exists>e. d = adapter_error ''KDA importer'' e"
  then obtain e where "d = adapter_error ''KDA importer'' e" ..
  then have "judge_document d Failed Unknown []" by (simp add: adapter_error_document)
  moreover have "list_all kda_row []" by simp
  ultimately show ?thesis by blast
next
  assume "check_task_identity w (ka_identity a) = Inr () \<and> import_report w a = Inr d"
  with import_report_Inr obtain rows correctness where i: "imported w a d rows correctness" by blast
  with rows_from_kda show ?thesis unfolding imported_def by blast
qed

lemma adapter_error_not_passed: "dget ''status'' (adapter_error adapter e) \<noteq> JStr ''passed''"
  by (simp add: adapter_error_def dget_def)

text \<open>A field of a merged row comes from one of the rows.\<close>

lemma dict_update_fields: "set (dict_keys (dict_update d e)) \<subseteq> set (dict_keys d) \<union> set (dict_keys e)"
  by (simp add: dict_update_keys) (simp add: dict_keys_def)

lemma merged_fields:
  "(k, row) \<in> set (foldl merge_row [] rows) \<Longrightarrow> f \<in> set (dict_keys row) \<Longrightarrow> \<exists>r \<in> set rows. f \<in> set (dict_keys r)"
proof (induction rows arbitrary: k row rule: rev_induct)
  case (snoc r rows)
  let ?m = "foldl merge_row [] rows"
  have d: "distinct (dict_keys (foldl merge_row [] (rows @ [r])))" by (rule merged_keys)
  from snoc.prems(1) have get: "dict_get k (merge_row ?m r) = Some row"
    using dict_get_mem_iff [OF d, of k row] by simp
  show ?case
  proof (cases "row_id r = k")
    case False
    with get have "dict_get k ?m = Some row" by (simp add: merge_row_def)
    with snoc.IH snoc.prems(2) dict_get_mem show ?thesis by fastforce
  next
    case True
    with get have "row = dict_update (case dict_get k ?m of None \<Rightarrow> [] | Some x \<Rightarrow> x) r" by (simp add: merge_row_def)
    with snoc.prems(2) dict_update_fields have "f \<in> set (dict_keys r) \<or>
        f \<in> set (dict_keys (case dict_get k ?m of None \<Rightarrow> [] | Some x \<Rightarrow> x))" by blast
    then show ?thesis
      using snoc.IH [of k] dict_get_mem [of k ?m] by (cases "dict_get k ?m") (auto simp: dict_keys_def)
  qed
qed simp

text \<open>Rows without a candidate time make no run eligible.\<close>

lemma untimed_not_eligible:
  assumes "task_workloads task \<noteq> []" and "\<And>r. r \<in> set (all_rows stages) \<Longrightarrow> ''candidate_ms'' \<notin> set (dict_keys r)"
  shows "\<not> rr_frontier_eligible (aggregate_run_result task rid tsha csha stages reason)"
proof
  let ?m = "ag_merged (aggregate_stages task stages)"
  assume "rr_frontier_eligible (aggregate_run_result task rid tsha csha stages reason)"
  then have "set (task_workloads task) \<subseteq> fst ` {p \<in> set ?m. row_timed (snd p)}"
    by (auto simp: aggregate_run_result_def Let_def)
  with assms(1) obtain k row where "(k, row) \<in> set ?m" "row_timed row"
    by (cases "task_workloads task") auto
  then show False
    using merged_fields [of k row "all_rows stages" "''candidate_ms''"] assms(2)
    by (auto simp: ag_merged_eq row_timed_def dict_has_def dict_keys_def)
qed

section \<open>A sample import\<close>

definition sample_ledger :: string where
  "sample_ledger =
     join '','' LEDGER_REQUIRED @ CHR 0x0A # ''s,k,authoritative,True,,,,b,d,g,c,1,/per'' @ [CHR 0x0A]"

definition sample_table :: string where
  "sample_table =
     join '','' PER_WORKLOAD_REQUIRED @ CHR 0x0A # ''s,k,w,small,True,candidate_only,,'' @ [CHR 0x0A]"

definition sample_kda :: kda_world where
  "sample_kda =
     \<lparr>kw_env = sample_env,
      kw_environ = (\<lambda>k. if k = ''KERNELINFRA_STAGE_ID'' then Some ''s'' else Some ''/task''),
      kw_document = (\<lambda>p. if p = ''/task''
         then FileParsed (JObj [(''stages'', JList [JObj [(''id'', JStr ''s''), (''judge'', JObj [(''identity'', JStr ''KDA@1'')])]])])
         else FileParsed (JObj [(''ledger_row'', JInt 1), (''ledger_path'', JStr ''/ledger'')])),
      kw_text = (\<lambda>p. if p = ''/ledger'' then Inr sample_ledger else Inr sample_table),
      kw_bytes = (\<lambda>p. Inr []), kw_mean = (\<lambda>xs. Inr (Fin 1))\<rparr>"

definition sample_kda_args :: kda_args where
  "sample_kda_args = \<lparr>ka_report_ref = ''/ref'', ka_kernel = ''k'', ka_benchmarks_sha = ''b'', ka_scoring_schema = ''1'',
     ka_workloads = 1, ka_identity = ''KDA''\<rparr>"

definition sample_row :: jdict where
  "sample_row = [(''id'', JStr ''w''), (''correct'', JBool True), (''notes'', JStr ''size_class=small status=candidate_only note='')]"

definition sample_import_task :: task_spec where
  "sample_import_task = sample_task\<lparr>task_workloads := [''w'']\<rparr>"

definition kda_passed :: "jdict result \<Rightarrow> bool" where
  "kda_passed r = (case r of Inr d \<Rightarrow> dget ''status'' d = JStr ''passed'' \<and> dget ''workloads'' d = JList [JObj sample_row]
     | Inl e \<Rightarrow> False)"

lemma sample_import_passes: "kda_passed (kda_main sample_kda sample_kda_args)"
  by code_simp

lemma sample_import:
  obtains d where "kda_main sample_kda sample_kda_args = Inr d" and "dget ''status'' d = JStr ''passed''"
    and "dget ''workloads'' d = JList [JObj sample_row]"
  using sample_import_passes by (auto simp: kda_passed_def split: sum.splits)

lemma sample_import_accepted:
  assumes "kda_main sample_kda sample_kda_args = Inr d" and "dget ''workloads'' d = JList [JObj sample_row]"
  shows "\<exists>r. validate_stage_result sample_env (JObj d) sample_import_task = Inr r"
proof -
  from kda_document_rows [OF assms(1)] obtain st v rows where j: "judge_document d st v rows" by blast
  with assms(2) have "map JObj rows = [JObj sample_row]" by (simp add: judge_document_def dget_def)
  then have "rows = [sample_row]" by auto
  moreover have "rows_accepted sample_import_task [sample_row]"
    by (simp add: rows_accepted_def row_accepted_def sample_row_def sample_import_task_def WORKLOAD_FIELDS_def dict_keys_def
        dget_def field_accepted_def)
  ultimately show ?thesis using judge_document_accepted(1) [OF j] by blast
qed

section \<open>The importer's results\<close>

text \<open>C31: A KDA result passes only if the task names the judge identity and the files bear it
  out: the reference file names one row of the ledger file; that row is authoritative, is marked
  correct and is for the kernel, the benchmark revision and the scoring schema the task expects;
  the workload table the row names has the expected number of rows, every one of this submission
  and kernel, consistent and passed; the rows of the result are these rows one by one; each
  geometric mean stored in the ledger row agrees with their speedups; and the fingerprints are
  the digests of the two files.\<close>

theorem kda_passed_sound:
  assumes "kda_main w a = Inr d" and "dget ''status'' d = JStr ''passed''"
  shows "check_task_identity w (ka_identity a) = Inr () \<and>
    (\<exists>reference ledger_path ledgers ledger table_path raws rows.
       reference_read w a reference \<and> dget ''ledger_path'' reference = JStr ledger_path \<and>
       table_read w (resolve_path (kw_env w) ledger_path) LEDGER_REQUIRED ledgers \<and>
       names_row (dget ''ledger_row'' reference) ledgers ledger \<and> bound_ledger a ledger \<and>
       dict_get ''correctness_passed'' ledger = Some (Some ''True'') \<and>
       dict_get ''per_workload_file'' ledger = Some (Some table_path) \<and>
       table_read w (resolve_path (kw_env w) table_path) PER_WORKLOAD_REQUIRED raws \<and> int (length raws) = ka_workloads a \<and>
       list_all2 (row_from (kw_env w) ledger) raws rows \<and> list_all item_correct (map fst rows) \<and>
       list_all (mean_agrees w ledger rows) GEOMEANS \<and>
       prints_files w (resolve_path (kw_env w) ledger_path) (resolve_path (kw_env w) table_path) d \<and>
       judge_document d Passed Valid (map fst rows))"
proof -
  from kda_main_Inr [OF assms(1)] assms(2) adapter_error_not_passed have
    c: "check_task_identity w (ka_identity a) = Inr ()" "import_report w a = Inr d" by blast+
  from import_report_Inr [OF c(2)] obtain rows correctness where i: "imported w a d rows correctness" by blast
  then have correctness
    using assms(2) by (cases correctness) (auto simp: imported_def judge_document_def dget_def)
  with i have "imported w a d rows True" by simp
  then show ?thesis unfolding imported_def if_True simp_thms using c(1) by blast
qed

theorem kda_passed_sound_witness:
  "check_task_identity sample_kda (ka_identity sample_kda_args) = Inr () \<and>
   (\<exists>ledgers ledger. table_read sample_kda ''/ledger'' LEDGER_REQUIRED ledgers \<and> names_row (JInt 1) ledgers ledger \<and>
      bound_ledger sample_kda_args ledger)"
proof -
  obtain d where d: "kda_main sample_kda sample_kda_args = Inr d" "dget ''status'' d = JStr ''passed''" by (rule sample_import)
  have r: "dget ''ledger_path'' reference = JStr ''/ledger'' \<and> dget ''ledger_row'' reference = JInt 1"
    if "reference_read sample_kda sample_kda_args reference" for reference
  proof -
    have "resolve_path (kw_env sample_kda) (ka_report_ref sample_kda_args) = ''/ref''"
      by (simp add: sample_kda_def sample_kda_args_def sample_env_def)
    moreover have "kw_document sample_kda ''/ref'' = FileParsed (JObj [(''ledger_row'', JInt 1), (''ledger_path'', JStr ''/ledger'')])"
      by (simp add: sample_kda_def)
    ultimately have "reference = [(''ledger_row'', JInt 1), (''ledger_path'', JStr ''/ledger'')]"
      using that by (simp only: reference_read_def json_file.inject json.inject)
    then show ?thesis by (simp add: dget_def)
  qed
  have p: "resolve_path (kw_env sample_kda) x = x" for x by (simp add: sample_kda_def sample_env_def)
  from kda_passed_sound [OF d] obtain reference ledger_path ledgers ledger where
    k: "check_task_identity sample_kda (ka_identity sample_kda_args) = Inr ()" "reference_read sample_kda sample_kda_args reference"
      "dget ''ledger_path'' reference = JStr ledger_path" "table_read sample_kda ledger_path LEDGER_REQUIRED ledgers"
      "names_row (dget ''ledger_row'' reference) ledgers ledger" "bound_ledger sample_kda_args ledger"
    unfolding p by blast
  with r [OF k(2)] have "table_read sample_kda ''/ledger'' LEDGER_REQUIRED ledgers" "names_row (JInt 1) ledgers ledger" by simp_all
  with k(1,6) show ?thesis by blast
qed

text \<open>A run of a task all of whose stages are KDA imports is never eligible for the
  frontier: an imported row has a speedup and no times.\<close>

lemma kda_never_eligible:
  assumes "task_workloads task \<noteq> []"
    and "list_all (\<lambda>(sid, kind, r). \<exists>w a d env. kda_main w a = Inr d \<and> validate_stage_result env (JObj d) task = Inr r) stages"
  shows "\<not> rr_frontier_eligible (aggregate_run_result task rid tsha csha stages reason)"
proof (rule untimed_not_eligible [OF assms(1)])
  fix row assume "row \<in> set (all_rows stages)"
  then obtain sid kind r where r: "(sid, kind, r) \<in> set stages" "row \<in> set (sr_workloads r)"
    by (auto simp: all_rows_def)
  from assms(2) r(1) obtain w a d env where d: "kda_main w a = Inr d" "validate_stage_result env (JObj d) task = Inr r"
    by (fastforce simp: list_all_iff)
  from kda_document_rows [OF d(1)] obtain st v rows where j: "judge_document d st v rows" "list_all kda_row rows" by blast
  from judge_document_accepted(2) [OF j(1) d(2)] have "row \<in> set rows" using r(2) by simp
  with j(2) show "''candidate_ms'' \<notin> set (dict_keys row)"
    using row_item_keys unfolding list_all_iff kda_row_def by fastforce
qed

lemma kda_never_eligible_witness:
  "\<exists>r. sr_status r = Passed \<and>
     \<not> rr_frontier_eligible (aggregate_run_result sample_import_task [] [] [] [(''bench'', Benchmark, r)] None)"
proof -
  obtain d where d: "kda_main sample_kda sample_kda_args = Inr d" "dget ''status'' d = JStr ''passed''"
    "dget ''workloads'' d = JList [JObj sample_row]" by (rule sample_import)
  from sample_import_accepted [OF d(1,3)] obtain r where
    r: "validate_stage_result sample_env (JObj d) sample_import_task = Inr r" ..
  from kda_document_rows [OF d(1)] obtain st v rows where j: "judge_document d st v rows" by blast
  with d(2) have "st = Passed" by (cases st) (auto simp: judge_document_def dget_def)
  with judge_document_accepted(2) [OF j r] have "sr_status r = Passed" by simp
  moreover have "\<not> rr_frontier_eligible (aggregate_run_result sample_import_task [] [] [] [(''bench'', Benchmark, r)] None)"
  proof (rule kda_never_eligible)
    show "task_workloads sample_import_task \<noteq> []" by (simp add: sample_import_task_def)
    show "list_all (\<lambda>(sid, kind, r). \<exists>w a d env. kda_main w a = Inr d \<and>
        validate_stage_result env (JObj d) sample_import_task = Inr r) [(''bench'', Benchmark, r)]"
      using d(1) r by auto
  qed
  ultimately show ?thesis by blast
qed

end
