(* ===== verification/Fibserve.thy ===== *)
theory Fibserve
  imports Judge_Results Attestation Posix_Path
begin

text \<open>
  \<open>src/kernel_infra/adapters/fibserve.py\<close>: the adapter that submits a candidate to a
  FIBServe service, polls its task and translates the response into a stage result.  What
  the service and the clock answer, and what the two verifications of the deployment see, are
  parts of the surroundings; the polling loop has fuel, and \<open>None\<close> is a loop that is not over.
\<close>

section \<open>Surroundings\<close>

datatype http_answer = HttpBody "json result" | HttpStatus int string | HttpFailed exn

text \<open>
  The files of the candidate are given by their components below its directory.  The answers
  are numbered by request, the readings of the monotonic clock by reading.
\<close>

record fib_world =
  fb_env :: py_env
  fb_environ :: "string \<Rightarrow> string option"
  fb_document :: "string \<Rightarrow> json_file"
  fb_tree :: "string list list"
  fb_read :: "string \<Rightarrow> string result"
  fb_before :: outside
  fb_after :: outside
  fb_http :: "nat \<Rightarrow> string \<Rightarrow> string \<Rightarrow> json option \<Rightarrow> http_answer"
  fb_clock :: "nat \<Rightarrow> py_float"

record fib_args =
  fa_receipt :: string
  fa_definition :: string
  fa_entry_point :: string
  fa_language :: string
  fa_binding :: "string option"
  fa_dependencies :: "string list"
  fa_sources :: "string list"
  fa_workloads :: "string list"
  fa_author :: string
  fa_name :: string
  fa_poll_timeout :: py_float

definition required_env_path :: "fib_world \<Rightarrow> string \<Rightarrow> string result" where
  "required_env_path w k =
     (case fb_environ w k of
        Some (c # cs) \<Rightarrow> Inr (resolve_path (fb_env w) (c # cs))
      | _ \<Rightarrow> Inl (RuntimeError (''missing required environment variable: '' @ k)))"

section \<open>The sources of the candidate\<close>

definition SOURCE_SUFFIXES :: "string list" where
  "SOURCE_SUFFIXES = [''.cu'', ''.cuh'', ''.cc'', ''.cpp'', ''.h'', ''.hpp'', ''.py'']"

text \<open>\<open>Path.suffix\<close> of a file name.\<close>

definition name_suffix :: "string \<Rightarrow> string" where
  "name_suffix name =
     (let ext = rev (takeWhile (\<lambda>c. c \<noteq> CHR ''.'') (rev name)) in
      if CHR ''.'' \<in> set name \<and> ext \<noteq> [] \<and> length ext + 1 < length name then CHR ''.'' # ext else [])"

definition source_paths :: "fib_world \<Rightarrow> string \<Rightarrow> string list \<Rightarrow> string list" where
  "source_paths w candidate_dir selected =
     (if selected \<noteq> [] then map (path_join candidate_dir) selected
      else map (\<lambda>parts. candidate_dir @ ''/'' @ join ''/'' parts)
        (sort (filter (\<lambda>parts. parts \<noteq> [] \<and> name_suffix (last parts) \<in> set SOURCE_SUFFIXES) (fb_tree w))))"

text \<open>\<open>p in q.parents\<close> for absolute resolved paths, and \<open>q.relative_to(p)\<close>.\<close>

definition is_parent :: "string \<Rightarrow> string \<Rightarrow> bool" where
  "is_parent p q \<longleftrightarrow>
     path_anchor p = path_anchor q \<and> length (path_components p) < length (path_components q) \<and>
     take (length (path_components p)) (path_components q) = path_components p"

definition relative_path :: "string \<Rightarrow> string \<Rightarrow> string" where
  "relative_path p q = join ''/'' (drop (length (path_components p)) (path_components q))"

type_synonym source = "string \<times> string"

definition read_source :: "fib_world \<Rightarrow> string \<Rightarrow> string \<Rightarrow> source result" where
  "read_source w candidate_dir path =
     (let resolved = resolve_path (fb_env w) path; base = resolve_path (fb_env w) candidate_dir in
      if \<not> is_parent base resolved then Inl (ValueError (''source escapes candidate snapshot: '' @ path))
      else rbind (fb_read w resolved) (\<lambda>content. Inr (relative_path base resolved, content)))"

definition candidate_sources :: "fib_world \<Rightarrow> string \<Rightarrow> string list \<Rightarrow> source list result" where
  "candidate_sources w candidate_dir selected =
     (let paths = source_paths w candidate_dir selected in
      if paths = [] then Inl (ValueError ''candidate contains no selected FIBServe source files'')
      else rtraverse (read_source w candidate_dir) paths)"

definition source_json :: "source \<Rightarrow> json" where
  "source_json s = JObj [(''path'', JStr (fst s)), (''content'', JStr (snd s))]"

definition source_stream :: "source list \<Rightarrow> nat list" where
  "source_stream sources = concat (map (\<lambda>(path, content). utf8 path @ utf8 content) (sort_key fst sources))"

section \<open>Requests\<close>

definition request_json :: "fib_world \<Rightarrow> nat \<Rightarrow> string \<Rightarrow> string \<Rightarrow> json option \<Rightarrow> jdict result" where
  "request_json w n verb url body =
     (case fb_http w n verb url body of
        HttpStatus code detail \<Rightarrow> Inl (RuntimeError (''FIBServe HTTP '' @ int_text code @ '': '' @ detail))
      | HttpFailed e \<Rightarrow> Inl e
      | HttpBody answer \<Rightarrow>
          rbind answer (\<lambda>v. case v of JObj d \<Rightarrow> Inr d | _ \<Rightarrow> Inl (ValueError ''FIBServe returned a non-object response'')))"

definition strings_json :: "string list \<Rightarrow> json" where
  "strings_json xs = JList (map JStr xs)"

definition evaluate_request :: "fib_args \<Rightarrow> source list \<Rightarrow> json" where
  "evaluate_request a sources =
     JObj
       [(''solution'', JObj
          [(''name'', JStr (fa_name a)), (''definition'', JStr (fa_definition a)), (''author'', JStr (fa_author a)),
           (''spec'', JObj
             ([(''language'', JStr (fa_language a)), (''target_hardware'', JList [JStr ''cuda'']),
               (''entry_point'', JStr (fa_entry_point a)), (''dependencies'', strings_json (fa_dependencies a)),
               (''destination_passing_style'', JBool True)] @
              (case fa_binding a of Some b \<Rightarrow> [(''binding'', JStr b)] | None \<Rightarrow> []))),
           (''sources'', JList (map source_json sources))]),
        (''workload_uuids'', if fa_workloads a = [] then JNull else strings_json (fa_workloads a))]"

text \<open>\<open>min(30.0, max(0.0, remaining))\<close>.\<close>

definition poll_wait :: "py_float \<Rightarrow> py_float" where
  "poll_wait remaining =
     (let m = (if flt_less (Fin 0) remaining then remaining else Fin 0) in if flt_less m (Fin 30) then m else Fin 30)"

definition task_url :: "fib_world \<Rightarrow> string \<Rightarrow> json \<Rightarrow> py_float \<Rightarrow> string" where
  "task_url w url task remaining =
     url @ ''/tasks/'' @ py_str (float_text (fb_env w)) task @ ''?timeout='' @ float_text (fb_env w) (poll_wait remaining)"

text \<open>The turn \<open>i\<close> reads the clock twice and sends the request \<open>i + 1\<close>.\<close>

fun poll :: "fib_world \<Rightarrow> string \<Rightarrow> json \<Rightarrow> py_float \<Rightarrow> nat \<Rightarrow> nat \<Rightarrow> jdict result option" where
  "poll w url task deadline 0 i = None"
| "poll w url task deadline (Suc fuel) i =
     (if flt_le deadline (fb_clock w (2 * i + 1))
      then Some (Inl (TimeoutError (''FIBServe task did not finish: '' @ py_str (float_text (fb_env w)) task)))
      else case request_json w (Suc i) ''GET'' (task_url w url task (flt_sub deadline (fb_clock w (2 * i + 2)))) None of
        Inl e \<Rightarrow> Some (Inl e)
      | Inr response \<Rightarrow>
          (case hashable (dget ''status'' response) of
             Inl e \<Rightarrow> Some (Inl e)
           | Inr _ \<Rightarrow>
               if dget ''status'' response \<in> {JStr ''completed'', JStr ''failed''} then Some (Inr response)
               else poll w url task deadline fuel (Suc i)))"

section \<open>The translation\<close>

definition required_keys :: "string list \<Rightarrow> jdict \<Rightarrow> jdict result" where
  "required_keys names d = rtraverse (\<lambda>k. rbind (dindex k d) (\<lambda>v. Inr (k, v))) names"

definition deployment_artifacts :: "json \<Rightarrow> jdict \<Rightarrow> jdict result" where
  "deployment_artifacts task deployment =
     rbind (required_keys [''broker_job_id'', ''broker_gpu_ids''] deployment) (\<lambda>broker.
     Inr ([(''fibserve_task_id'', task), (''deployment_receipt'', JStr ''deployment-receipt.json'')] @ broker))"

definition ADMISSION_PRINTS :: "(string \<times> string) list" where
  "ADMISSION_PRINTS =
     [(''broker_admission_receipt_sha256'', ''receipt_sha256''), (''broker_launch_spec_sha256'', ''launch_spec_sha256''),
      (''broker_argv_sha256'', ''argv_sha256''), (''broker_env_sha256'', ''env_sha256''),
      (''broker_effective_env_sha256'', ''effective_env_sha256''), (''broker_executable_sha256'', ''executable_sha256'')]"

definition deployment_fingerprints :: "py_env \<Rightarrow> jdict \<Rightarrow> json \<Rightarrow> json \<Rightarrow> jdict result" where
  "deployment_fingerprints env deployment commit admission =
     rbind (required_keys [''service_identity'', ''broker_instance_id''] deployment) (\<lambda>service.
     rbind (rtraverse (\<lambda>(name, k). rbind (py_index k admission) (\<lambda>v. Inr (name, v))) ADMISSION_PRINTS) (\<lambda>broker.
     rbind (dindex ''source_commit'' deployment) (\<lambda>source_commit.
     rbind (dindex ''source_tree'' deployment) (\<lambda>source_tree.
     Inr ([(''deployment_receipt_sha256'', JStr (digest_json env (JObj deployment)))] @ service @ broker @
       [(''service_commit'', if is_str commit then commit else JStr []),
        (''service_source_commit'', source_commit), (''service_source_tree'', source_tree)])))))"

text \<open>\<open>value or {}\<close>.\<close>

definition or_empty :: "json \<Rightarrow> json" where
  "or_empty v = (if py_truthy v then v else JObj [])"

text \<open>A time that is no positive number is left out; \<open>True\<close> is the number 1.\<close>

fun positive_number :: "json \<Rightarrow> bool" where
  "positive_number (JInt i) \<longleftrightarrow> 0 < i"
| "positive_number (JFloat x) \<longleftrightarrow> flt_less (Fin 0) x"
| "positive_number (JBool b) \<longleftrightarrow> b"
| "positive_number v \<longleftrightarrow> False"

definition trace_time :: "py_env \<Rightarrow> string \<Rightarrow> json \<Rightarrow> jdict result" where
  "trace_time env k v =
     (if positive_number v then rbind (float_call env v) (\<lambda>x. Inr [(k, JFloat x)]) else Inr [])"

definition trace_row :: "py_env \<Rightarrow> json \<Rightarrow> jdict result" where
  "trace_row env trace =
     rbind (as_dict trace) (\<lambda>t.
     rbind (as_dict (or_empty (dget ''evaluation'' t))) (\<lambda>evaluation.
     let passed = py_eq (dget ''status'' evaluation) (JStr ''PASSED'') in
     rbind (as_dict (or_empty (dget ''workload'' t))) (\<lambda>workload.
     rbind (as_dict (or_empty (dget ''performance'' evaluation))) (\<lambda>performance.
     rbind (trace_time env ''candidate_ms'' (dget ''latency_ms'' performance)) (\<lambda>candidate.
     rbind (trace_time env ''baseline_ms'' (dget ''reference_latency_ms'' performance)) (\<lambda>baseline.
     Inr ([(''id'', dget_or ''uuid'' (JStr []) workload), (''correct'', JBool passed)] @ candidate @ baseline)))))))"

definition trace_correct :: "jdict \<Rightarrow> bool" where
  "trace_correct row \<longleftrightarrow> dget ''correct'' row = JBool True"

definition fib_document :: "status \<Rightarrow> validity \<Rightarrow> string \<Rightarrow> jdict list \<Rightarrow> jdict \<Rightarrow> jdict \<Rightarrow> jdict" where
  "fib_document st validity summary rows artifacts prints =
     [(''schema'', JStr STAGE_RESULT_SCHEMA), (''status'', JStr (status_name st)), (''validity'', JStr (validity_name validity)),
      (''summary'', JStr summary), (''workloads'', JList (map JObj rows)), (''artifacts'', JObj artifacts),
      (''fingerprints'', JObj prints)]"

definition traced_document :: "py_env \<Rightarrow> source list \<Rightarrow> jdict list \<Rightarrow> jdict \<Rightarrow> jdict \<Rightarrow> jdict" where
  "traced_document env sources rows artifacts prints =
     (if rows = [] then fib_document Failed Unknown ''FIBServe completed without trace results'' [] artifacts prints
      else let passed = list_all trace_correct rows in
        fib_document (if passed then Passed else Failed) (if passed then Valid else Invalid)
          (if passed then ''all FIBServe workloads passed'' else ''one or more FIBServe workloads failed'') rows
          (artifacts @ [(''raw_response'', JStr ''fibserve-response.json'')])
          ((''source_sha256'', JStr (sha256 env (source_stream sources))) # prints))"

definition translate :: "py_env \<Rightarrow> jdict \<Rightarrow> source list \<Rightarrow> json \<Rightarrow> jdict \<Rightarrow> jdict result" where
  "translate env response sources task deployment =
     rbind (dindex ''service_root'' deployment) (\<lambda>service_root. rbind (as_dict service_root) (\<lambda>page.
     rbind (dindex ''broker_admission_receipt'' deployment) (\<lambda>admission.
     rbind (deployment_artifacts task deployment) (\<lambda>artifacts.
     rbind (deployment_fingerprints env deployment (dget ''commit'' page) admission) (\<lambda>prints.
     if py_eq (dget ''status'' response) (JStr ''failed'')
     then Inr (fib_document Failed Unknown
       (''FIBServe task failed: '' @ py_str (float_text env) (dget_or ''error'' (JStr ''unknown'') response)) [] artifacts prints)
     else
     rbind (let v = dget ''traces'' response in py_iter (if py_truthy v then v else JList [])) (\<lambda>traces.
     rbind (rtraverse (trace_row env) traces) (\<lambda>rows.
     Inr (traced_document env sources rows artifacts prints))))))))"

section \<open>The adapter\<close>

definition require_task_identity :: "fib_world \<Rightarrow> jdict \<Rightarrow> unit result" where
  "require_task_identity w deployment =
     rbind (required_env_path w ''KERNELINFRA_TASK'') (\<lambda>path.
     rbind (judge_identities (fb_document w path)
              (case fb_environ w ''KERNELINFRA_STAGE_ID'' of None \<Rightarrow> JNull | Some s \<Rightarrow> JStr s)) (\<lambda>identities.
     case identities of
       [i] \<Rightarrow>
         (let str = py_str (float_text (fb_env w)); identity = str i in
          rbind (dindex ''service_identity'' deployment) (\<lambda>service.
          if \<not> is_substring (str service) identity \<or>
             \<not> is_substring (''deployment-receipt@sha256:'' @ digest_json (fb_env w) (JObj deployment)) identity
          then Inl (RuntimeError ''task judge identity does not bind service identity and deployment receipt'')
          else Inr ()))
     | _ \<Rightarrow> Inl (RuntimeError ''task judge identity does not bind service identity and deployment receipt'')))"

text \<open>Up to the deadline: the deployment, its address, the sources and the task of the service.\<close>

definition submit_task :: "fib_world \<Rightarrow> fib_args \<Rightarrow> string \<Rightarrow> (jdict \<times> string \<times> source list \<times> json) result" where
  "submit_task w a candidate_dir =
     (let receipt_path = resolve_path (fb_env w) (fa_receipt a) in
      rbind (load_service_receipt (fb_env w) (fb_document w receipt_path) receipt_path) (\<lambda>deployment.
      rbind (require_task_identity w deployment) (\<lambda>_.
      rbind (verify_service_receipt (fb_env w) (fb_before w) deployment) (\<lambda>_.
      rbind (dindex ''service_url'' deployment) (\<lambda>v.
      let url = py_str (float_text (fb_env w)) v in
      rbind (candidate_sources w candidate_dir (fa_sources a)) (\<lambda>sources.
      rbind (request_json w 0 ''POST'' (url @ ''/evaluate'') (Some (evaluate_request a sources))) (\<lambda>submitted.
      rbind (dindex ''task_id'' submitted) (\<lambda>task. Inr (deployment, url, sources, task)))))))))"

definition finish_task :: "fib_world \<Rightarrow> jdict \<Rightarrow> source list \<Rightarrow> json \<Rightarrow> jdict result \<Rightarrow> jdict result" where
  "finish_task w deployment sources task answer =
     rbind answer (\<lambda>response.
     rbind (verify_service_receipt (fb_env w) (fb_after w) deployment) (\<lambda>_.
     translate (fb_env w) response sources task deployment))"

definition deadline_of :: "fib_world \<Rightarrow> fib_args \<Rightarrow> py_float" where
  "deadline_of w a = flt_add (fb_clock w 0) (fa_poll_timeout a)"

definition evaluate_candidate :: "fib_world \<Rightarrow> fib_args \<Rightarrow> string \<Rightarrow> nat \<Rightarrow> jdict result option" where
  "evaluate_candidate w a candidate_dir fuel =
     (case submit_task w a candidate_dir of
        Inl e \<Rightarrow> Some (Inl e)
      | Inr (deployment, url, sources, task) \<Rightarrow>
          map_option (finish_task w deployment sources task) (poll w url task (deadline_of w a) fuel 0))"

text \<open>Every exception becomes the document of an error.\<close>

definition reported :: "jdict result \<Rightarrow> jdict" where
  "reported r = (case r of Inl e \<Rightarrow> adapter_error ''FIBServe adapter'' e | Inr d \<Rightarrow> d)"

text \<open>The document of the result file; what is raised before the \<open>try\<close> leaves none.\<close>

definition fib_main :: "fib_world \<Rightarrow> fib_args \<Rightarrow> nat \<Rightarrow> jdict result option" where
  "fib_main w a fuel =
     (case rbind (required_env_path w ''KERNELINFRA_RESULT'') (\<lambda>_.
           rbind (required_env_path w ''KERNELINFRA_STAGE_DIR'') (\<lambda>_.
           required_env_path w ''KERNELINFRA_CANDIDATE_DIR'')) of
        Inl e \<Rightarrow> Some (Inl e)
      | Inr candidate_dir \<Rightarrow>
          map_option (\<lambda>r. Inr (reported r))
            (evaluate_candidate w a candidate_dir fuel))"

end
