(* ===== verification/Fibserve_Facts.thy ===== *)
theory Fibserve_Facts
  imports Fibserve Attestation_Facts
begin

text \<open>
  What the result files of the FIBServe adapter say: each is a document the runner accepts up
  to its rows, a passed one has a deployment that was verified before the submission and after
  the response, and the polling loop ends once its clock reaches the deadline.
\<close>

section \<open>Documents\<close>

lemma fib_judge_document:
  "consistent st v \<Longrightarrow> judge_document (fib_document st v summary rows artifacts prints) st v rows"
  by (simp add: judge_document_def fib_document_def dict_keys_def STAGE_RESULT_FIELDS_def field_accepted_def)

text \<open>A trace is reported as correct exactly when its evaluation passed.\<close>

definition trace_passed :: "json \<Rightarrow> bool" where
  "trace_passed trace \<longleftrightarrow> (\<exists>t evaluation. trace = JObj t \<and> dget ''evaluation'' t = JObj evaluation \<and>
     dget ''status'' evaluation = JStr ''PASSED'')"

lemma as_dict_Inr [simp]: "as_dict v = Inr d \<longleftrightarrow> v = JObj d"
  by (cases v) (auto simp: as_dict_def)

lemma trace_row_correct:
  assumes "trace_row env trace = Inr row"
  shows "trace_correct row \<longleftrightarrow> trace_passed trace"
proof -
  from assms obtain t evaluation i rest where r: "trace = JObj t" "or_empty (dget ''evaluation'' t) = JObj evaluation"
    "[(''id'', i), (''correct'', JBool (py_eq (dget ''status'' evaluation) (JStr ''PASSED'')))] @ rest = row"
    unfolding trace_row_def Let_def rbind_eq_Inr_iff as_dict_Inr sum.inject append_assoc by blast
  have "trace_correct row \<longleftrightarrow> dget ''status'' evaluation = JStr ''PASSED''"
    by (simp add: r(3) [symmetric] trace_correct_def dget_def)
  moreover have "trace_passed trace \<longleftrightarrow> dget ''status'' evaluation = JStr ''PASSED''"
    using r(1,2) by (auto simp: trace_passed_def or_empty_def dget_def split: if_splits)
  ultimately show ?thesis by simp
qed

lemma trace_rows_correct:
  "rtraverse (trace_row env) traces = Inr rows \<Longrightarrow> list_all trace_correct rows \<longleftrightarrow> list_all trace_passed traces"
  by (induction traces arbitrary: rows) (auto simp: list_all2_Cons1 trace_row_correct)

text \<open>A time of a trace is reported if it is a positive number.\<close>

definition time_reported :: "py_env \<Rightarrow> string \<Rightarrow> json \<Rightarrow> jdict \<Rightarrow> bool" where
  "time_reported env k v part \<longleftrightarrow>
     (if positive_number v then \<exists>x. float_call env v = Inr x \<and> part = [(k, JFloat x)] else part = [])"

text \<open>The row of a trace: its workload, whether its evaluation passed, and its times.\<close>

definition row_of_trace :: "py_env \<Rightarrow> json \<Rightarrow> jdict \<Rightarrow> bool" where
  "row_of_trace env trace row \<longleftrightarrow> (\<exists>t evaluation workload performance candidate baseline. trace = JObj t \<and>
     or_empty (dget ''evaluation'' t) = JObj evaluation \<and> or_empty (dget ''workload'' t) = JObj workload \<and>
     or_empty (dget ''performance'' evaluation) = JObj performance \<and>
     time_reported env ''candidate_ms'' (dget ''latency_ms'' performance) candidate \<and>
     time_reported env ''baseline_ms'' (dget ''reference_latency_ms'' performance) baseline \<and>
     row = [(''id'', dget_or ''uuid'' (JStr []) workload), (''correct'', JBool (dget ''status'' evaluation = JStr ''PASSED''))] @
       candidate @ baseline)"

lemma trace_time_reported: "trace_time env k v = Inr part \<Longrightarrow> time_reported env k v part"
  by (auto simp: trace_time_def time_reported_def split: if_splits)

lemma trace_row_of:
  assumes "trace_row env trace = Inr row"
  shows "row_of_trace env trace row"
proof -
  from assms obtain t evaluation workload performance candidate baseline where r: "trace = JObj t"
    "or_empty (dget ''evaluation'' t) = JObj evaluation" "or_empty (dget ''workload'' t) = JObj workload"
    "or_empty (dget ''performance'' evaluation) = JObj performance"
    "trace_time env ''candidate_ms'' (dget ''latency_ms'' performance) = Inr candidate"
    "trace_time env ''baseline_ms'' (dget ''reference_latency_ms'' performance) = Inr baseline"
    and row: "[(''id'', dget_or ''uuid'' (JStr []) workload), (''correct'', JBool (py_eq (dget ''status'' evaluation) (JStr ''PASSED'')))] @
      candidate @ baseline = row"
    unfolding trace_row_def Let_def rbind_eq_Inr_iff as_dict_Inr sum.inject by blast
  show ?thesis
    unfolding row_of_trace_def
    using r(1-4) trace_time_reported [OF r(5)] trace_time_reported [OF r(6)] row [symmetric] unfolding py_eq_JStr by blast
qed

lemma trace_rows_of: "rtraverse (trace_row env) traces = Inr rows \<Longrightarrow> list_all2 (row_of_trace env) traces rows"
  by (induction traces arbitrary: rows) (auto simp: list_all2_Cons1 intro: trace_row_of)

text \<open>The traces of a response; what is no true value is none.\<close>

definition traces_of :: "jdict \<Rightarrow> json list \<Rightarrow> bool" where
  "traces_of response traces \<longleftrightarrow>
     py_iter (if py_truthy (dget ''traces'' response) then dget ''traces'' response else JList []) = Inr traces"

definition translated :: "jdict \<Rightarrow> jdict \<Rightarrow> bool" where
  "translated response d \<longleftrightarrow> (\<exists>st v rows. judge_document d st v rows \<and>
     (st = Passed \<longrightarrow> v = Valid \<and> dget ''status'' response \<noteq> JStr ''failed'' \<and> list_all trace_correct rows \<and>
        (\<exists>traces. traces_of response traces \<and> traces \<noteq> [] \<and> length rows = length traces \<and> list_all trace_passed traces)))"

lemma translated_failure:
  "v \<noteq> Valid \<Longrightarrow> translated response (fib_document Failed v summary rows artifacts prints)"
  using fib_judge_document [of Failed v] by (fastforce simp: translated_def consistent_def)

lemma translated_traces:
  assumes "traces_of response traces" and "rtraverse (trace_row env) traces = Inr rows"
    and "dget ''status'' response \<noteq> JStr ''failed''"
  shows "translated response (traced_document env sources rows artifacts prints)"
proof (cases "rows \<noteq> [] \<and> list_all trace_correct rows")
  case True
  then obtain summary artifacts' prints' where
    d: "traced_document env sources rows artifacts prints = fib_document Passed Valid summary rows artifacts' prints'"
    by (auto simp: traced_document_def Let_def)
  have "traces \<noteq> []" "length rows = length traces" using True rtraverse_length [OF assms(2)] by auto
  with True assms(1,3) trace_rows_correct [OF assms(2)] fib_judge_document [of Passed Valid summary rows artifacts' prints']
  show ?thesis unfolding translated_def d consistent_def by blast
next
  case False
  then show ?thesis
    using translated_failure [of Invalid] translated_failure [of Unknown] by (auto simp: traced_document_def Let_def)
qed

lemma translate_Inr:
  assumes "translate env response sources task deployment = Inr d"
  shows "translated response d"
proof (cases "dget ''status'' response = JStr ''failed''")
  case True
  with assms show ?thesis using translated_failure [of Unknown] by (auto simp: translate_def)
next
  case False
  with assms obtain traces rows artifacts prints where "traces_of response traces" "rtraverse (trace_row env) traces = Inr rows"
    "traced_document env sources rows artifacts prints = d"
    unfolding translate_def traces_of_def Let_def py_eq_JStr if_not_P [OF False] rbind_eq_Inr_iff sum.inject by blast
  with translated_traces [OF this(1,2) False] show ?thesis by blast
qed

text \<open>A passed result says which task it is of and has the digest of the sources.\<close>

definition prints_sources :: "py_env \<Rightarrow> source list \<Rightarrow> json \<Rightarrow> jdict \<Rightarrow> bool" where
  "prints_sources env sources task d \<longleftrightarrow> (\<exists>artifacts prints. dget ''artifacts'' d = JObj artifacts \<and>
     dget ''fibserve_task_id'' artifacts = task \<and> dget ''fingerprints'' d = JObj prints \<and>
     dget ''source_sha256'' prints = JStr (sha256 env (source_stream sources)))"

lemma translate_passed:
  assumes "translate env response sources task deployment = Inr d" and "dget ''status'' d = JStr ''passed''"
  shows "\<exists>traces rows. traces_of response traces \<and> traces \<noteq> [] \<and> list_all2 (row_of_trace env) traces rows \<and>
    list_all trace_passed traces \<and> list_all trace_correct rows \<and> judge_document d Passed Valid rows \<and>
    dget ''status'' response \<noteq> JStr ''failed'' \<and> prints_sources env sources task d"
proof (cases "dget ''status'' response = JStr ''failed''")
  case True
  with assms show ?thesis by (auto simp: translate_def fib_document_def dget_def)
next
  case False
  with assms(1) obtain traces rows artifacts prints where t: "traces_of response traces" "rtraverse (trace_row env) traces = Inr rows"
    "traced_document env sources rows artifacts prints = d" "deployment_artifacts task deployment = Inr artifacts"
    unfolding translate_def traces_of_def Let_def py_eq_JStr if_not_P [OF False] rbind_eq_Inr_iff sum.inject by blast
  have r: "rows \<noteq> []" "list_all trace_correct rows"
    using assms(2) unfolding t(3) [symmetric]
    by (auto simp: traced_document_def fib_document_def dget_def Let_def split: if_splits)
  obtain summary where d: "d = fib_document Passed Valid summary rows (artifacts @ [(''raw_response'', JStr ''fibserve-response.json'')])
      ((''source_sha256'', JStr (sha256 env (source_stream sources))) # prints)"
    using r unfolding t(3) [symmetric] by (simp add: traced_document_def Let_def)
  have "dget ''fibserve_task_id'' (artifacts @ more) = task" for more
    using t(4) by (auto simp: deployment_artifacts_def dget_def)
  then have "prints_sources env sources task d" unfolding prints_sources_def d by (simp add: fib_document_def dget_def)
  moreover have "judge_document d Passed Valid rows" unfolding d by (rule fib_judge_document) (simp add: consistent_def)
  moreover have "traces \<noteq> []" using r(1) rtraverse_length [OF t(2)] by auto
  ultimately show ?thesis using t(1) trace_rows_of [OF t(2)] r(2) trace_rows_correct [OF t(2)] False by blast
qed

section \<open>The polling loop\<close>

lemma poll_ends:
  assumes "flt_le deadline (fb_clock w (2 * (i + n) + 1))" and "n < fuel"
  shows "poll w url task deadline fuel i \<noteq> None"
  using assms
proof (induction fuel arbitrary: i n)
  case (Suc fuel)
  show ?case
  proof (cases n)
    case 0
    with Suc.prems(1) show ?thesis by simp
  next
    case (Suc m)
    have "poll w url task deadline fuel (Suc i) \<noteq> None"
      by (rule Suc.IH [of "Suc i" m]) (use Suc.prems Suc in simp_all)
    then show ?thesis by (simp split: sum.splits)
  qed
qed simp

lemma poll_stable:
  "poll w url task deadline fuel i = Some r \<Longrightarrow> fuel \<le> fuel' \<Longrightarrow> poll w url task deadline fuel' i = Some r"
proof (induction fuel arbitrary: i fuel')
  case (Suc fuel)
  then obtain more where fuel': "fuel' = Suc more" "fuel \<le> more" by (cases fuel') auto
  from Suc.prems(1) Suc.IH [of "Suc i" more] fuel'(2) show ?case
    unfolding fuel'(1) poll.simps by (auto split: if_split_asm sum.splits simp del: poll.simps)
qed simp

text \<open>What the service answers to a request with an object.\<close>

definition answers :: "fib_world \<Rightarrow> nat \<Rightarrow> string \<Rightarrow> string \<Rightarrow> json option \<Rightarrow> jdict \<Rightarrow> bool" where
  "answers w n verb url body d \<longleftrightarrow> fb_http w n verb url body = HttpBody (Inr (JObj d))"

lemma request_json_Inr: "request_json w n verb url body = Inr d \<longleftrightarrow> answers w n verb url body d"
  by (auto simp: request_json_def answers_def split: http_answer.splits json.splits)

text \<open>A turn asks for the task before the deadline; the answer ends the loop if the task is over.\<close>

definition turn_answers :: "fib_world \<Rightarrow> string \<Rightarrow> json \<Rightarrow> py_float \<Rightarrow> nat \<Rightarrow> jdict \<Rightarrow> bool" where
  "turn_answers w url task deadline i d \<longleftrightarrow> \<not> flt_le deadline (fb_clock w (2 * i + 1)) \<and>
     (\<exists>seconds. answers w (Suc i) ''GET'' (url @ ''/tasks/'' @ py_str (float_text (fb_env w)) task @ ''?timeout='' @ seconds) None d)"

definition task_over :: "jdict \<Rightarrow> bool" where
  "task_over d \<longleftrightarrow> dget ''status'' d = JStr ''completed'' \<or> dget ''status'' d = JStr ''failed''"

lemma poll_turns:
  assumes "poll w url task deadline fuel i = Some (Inr response)"
  shows "\<exists>n \<ge> i. turn_answers w url task deadline n response \<and> task_over response \<and>
    (\<forall>j. i \<le> j \<and> j < n \<longrightarrow> (\<exists>d. turn_answers w url task deadline j d \<and> \<not> task_over d))"
  using assms
proof (induction fuel arbitrary: i)
  case (Suc fuel)
  then obtain d where d: "\<not> flt_le deadline (fb_clock w (2 * i + 1))"
    "request_json w (Suc i) ''GET'' (task_url w url task (flt_sub deadline (fb_clock w (2 * i + 2)))) None = Inr d"
    and next_turn: "if task_over d then d = response else poll w url task deadline fuel (Suc i) = Some (Inr response)"
    by (auto simp: task_over_def split: if_splits sum.splits)
  have t: "turn_answers w url task deadline i d"
    using d unfolding turn_answers_def request_json_Inr task_url_def append_assoc by blast
  show ?case
  proof (cases "task_over d")
    case True
    with next_turn t show ?thesis by (intro exI [of _ i]) auto
  next
    case False
    with next_turn Suc.IH obtain n where n: "n \<ge> Suc i" "turn_answers w url task deadline n response" "task_over response"
      "\<forall>j. Suc i \<le> j \<and> j < n \<longrightarrow> (\<exists>d. turn_answers w url task deadline j d \<and> \<not> task_over d)"
      by auto
    have "\<exists>d. turn_answers w url task deadline j d \<and> \<not> task_over d" if "i \<le> j" "j < n" for j
      using that n(4) t False by (cases "j = i") auto
    with n show ?thesis by (intro exI [of _ n]) auto
  qed
qed simp

text \<open>A deadline that is no number is never reached.\<close>

lemma nan_deadline_polls_on:
  assumes "\<And>i url. \<exists>d. request_json w (Suc i) ''GET'' url None = Inr d \<and> dget ''status'' d = JStr ''running''"
  shows "poll w url task NaN fuel i = None"
proof (induction fuel arbitrary: i)
  case (Suc fuel)
  obtain d where "request_json w (Suc i) ''GET'' (task_url w url task (flt_sub NaN (fb_clock w (2 * i + 2)))) None = Inr d"
    "dget ''status'' d = JStr ''running''" using assms by blast
  moreover have "\<not> flt_le NaN x" for x by (cases x) (simp_all add: flt_le_def)
  ultimately show ?case using Suc.IH by (simp add: hashable_def)
qed simp

section \<open>The adapter\<close>

lemma fib_main_Inr:
  assumes "fib_main w a fuel = Some (Inr d)"
  shows "(\<exists>e. d = adapter_error ''FIBServe adapter'' e) \<or>
    (\<exists>candidate_dir deployment url sources task response.
       required_env_path w ''KERNELINFRA_CANDIDATE_DIR'' = Inr candidate_dir \<and>
       submit_task w a candidate_dir = Inr (deployment, url, sources, task) \<and>
       poll w url task (deadline_of w a) fuel 0 = Some (Inr response) \<and>
       (\<exists>observed. verify_service_receipt (fb_env w) (fb_after w) deployment = Inr observed) \<and>
       translate (fb_env w) response sources task deployment = Inr d)"
proof -
  from assms obtain candidate_dir r where r: "evaluate_candidate w a candidate_dir fuel = Some r"
    "d = reported r" and place: "required_env_path w ''KERNELINFRA_CANDIDATE_DIR'' = Inr candidate_dir"
    unfolding fib_main_def by (auto split: sum.splits)
  show ?thesis
  proof (cases r)
    case (Inl e)
    with r(2) show ?thesis by (auto simp: reported_def)
  next
    case (Inr x)
    with r have "evaluate_candidate w a candidate_dir fuel = Some (Inr d)" by (simp add: reported_def)
    with place show ?thesis
      unfolding evaluate_candidate_def finish_task_def
      by (fastforce split: sum.splits prod.splits)
  qed
qed

lemma fib_some_document:
  assumes "fib_main w a fuel = Some (Inr d)"
  shows "\<exists>st v rows. judge_document d st v rows"
  using fib_main_Inr [OF assms] translate_Inr adapter_error_document unfolding translated_def by blast

text \<open>
  The sources asked for, or the files of the candidate with a suffix of a source; each is read
  below the directory of the candidate and named by its place there.
\<close>

definition source_chosen :: "fib_world \<Rightarrow> string \<Rightarrow> string list \<Rightarrow> string \<Rightarrow> bool" where
  "source_chosen w candidate_dir selected path \<longleftrightarrow>
     (if selected \<noteq> [] then path \<in> path_join candidate_dir ` set selected
      else \<exists>parts. parts \<in> set (fb_tree w) \<and> parts \<noteq> [] \<and> name_suffix (last parts) \<in> set SOURCE_SUFFIXES \<and>
        path = candidate_dir @ ''/'' @ join ''/'' parts)"

definition source_read :: "fib_world \<Rightarrow> string \<Rightarrow> string \<Rightarrow> source \<Rightarrow> bool" where
  "source_read w candidate_dir path source \<longleftrightarrow>
     (let base = resolve_path (fb_env w) candidate_dir; resolved = resolve_path (fb_env w) path in
      is_parent base resolved \<and> fst source = relative_path base resolved \<and> fb_read w resolved = Inr (snd source))"

definition sources_of :: "fib_world \<Rightarrow> string \<Rightarrow> string list \<Rightarrow> source list \<Rightarrow> bool" where
  "sources_of w candidate_dir selected sources \<longleftrightarrow> (\<exists>paths. paths \<noteq> [] \<and>
     (\<forall>path. path \<in> set paths \<longleftrightarrow> source_chosen w candidate_dir selected path) \<and>
     list_all2 (source_read w candidate_dir) paths sources)"

lemma source_paths_chosen: "path \<in> set (source_paths w candidate_dir selected) \<longleftrightarrow> source_chosen w candidate_dir selected path"
  by (auto simp: source_paths_def source_chosen_def)

lemma read_source_Inr: "read_source w candidate_dir path = Inr source \<Longrightarrow> source_read w candidate_dir path source"
  by (auto simp: read_source_def source_read_def Let_def)

lemma candidate_sources_of:
  assumes "candidate_sources w candidate_dir selected = Inr sources"
  shows "sources_of w candidate_dir selected sources"
proof -
  from assms have r: "source_paths w candidate_dir selected \<noteq> []"
    "rtraverse (read_source w candidate_dir) (source_paths w candidate_dir selected) = Inr sources"
    by (auto simp: candidate_sources_def Let_def split: if_splits)
  have "list_all2 (source_read w candidate_dir) (source_paths w candidate_dir selected) sources"
    using r(2) read_source_Inr unfolding rtraverse_eq_Inr_iff by (rule list_all2_mono)
  with r(1) source_paths_chosen show ?thesis unfolding sources_of_def by blast
qed

text \<open>The body of the submission: the sources, all of them and nothing else, and what is asked of them.\<close>

definition submission :: "fib_args \<Rightarrow> source list \<Rightarrow> json \<Rightarrow> bool" where
  "submission a sources body \<longleftrightarrow> (\<exists>b solution spec. body = JObj b \<and> dget ''solution'' b = JObj solution \<and>
     dget ''definition'' solution = JStr (fa_definition a) \<and>
     dget ''sources'' solution =
       JList (map (\<lambda>(path, content). JObj [(''path'', JStr path), (''content'', JStr content)]) sources) \<and>
     dget ''spec'' solution = JObj spec \<and> dget ''entry_point'' spec = JStr (fa_entry_point a) \<and>
     dget ''workload_uuids'' b = (if fa_workloads a = [] then JNull else JList (map JStr (fa_workloads a))))"

lemma evaluate_request_submission: "submission a sources (evaluate_request a sources)"
proof -
  have "source_json = (\<lambda>(path, content). JObj [(''path'', JStr path), (''content'', JStr content)])"
    by (auto simp: source_json_def)
  then show ?thesis by (simp add: submission_def evaluate_request_def strings_json_def dget_def)
qed

text \<open>The task of the service that was made for the candidate of the environment.\<close>

definition submitted_task :: "fib_world \<Rightarrow> fib_args \<Rightarrow> jdict \<Rightarrow> string \<Rightarrow> source list \<Rightarrow> json \<Rightarrow> bool" where
  "submitted_task w a deployment url sources task \<longleftrightarrow> (\<exists>place v body answer.
     fb_environ w ''KERNELINFRA_CANDIDATE_DIR'' = Some place \<and> place \<noteq> [] \<and>
     sources_of w (resolve_path (fb_env w) place) (fa_sources a) sources \<and>
     dict_get ''service_url'' deployment = Some v \<and> url = py_str (float_text (fb_env w)) v \<and>
     submission a sources body \<and> answers w 0 ''POST'' (url @ ''/evaluate'') (Some body) answer \<and>
     dict_get ''task_id'' answer = Some task)"

lemma required_env_path_Inr:
  "required_env_path w k = Inr path \<Longrightarrow> \<exists>place. fb_environ w k = Some place \<and> place \<noteq> [] \<and> path = resolve_path (fb_env w) place"
  by (cases "fb_environ w k"; cases "the (fb_environ w k)") (auto simp: required_env_path_def)

lemma dindex_field: "dindex k d = Inr v \<longleftrightarrow> dict_get k d = Some v"
  by (simp add: dindex_def split: option.split)

lemma submit_task_Inr:
  assumes "submit_task w a candidate_dir = Inr (deployment, url, sources, task)"
    and "required_env_path w ''KERNELINFRA_CANDIDATE_DIR'' = Inr candidate_dir"
  shows "load_service_receipt (fb_env w) (fb_document w (resolve_path (fb_env w) (fa_receipt a))) (resolve_path (fb_env w) (fa_receipt a))
      = Inr deployment \<and> require_task_identity w deployment = Inr () \<and>
    (\<exists>before. verify_service_receipt (fb_env w) (fb_before w) deployment = Inr before) \<and>
    submitted_task w a deployment url sources task"
proof -
  from assms(1) obtain us before v answer where s:
    "load_service_receipt (fb_env w) (fb_document w (resolve_path (fb_env w) (fa_receipt a))) (resolve_path (fb_env w) (fa_receipt a))
      = Inr deployment" "require_task_identity w deployment = Inr us"
    "verify_service_receipt (fb_env w) (fb_before w) deployment = Inr before"
    "dict_get ''service_url'' deployment = Some v" "url = py_str (float_text (fb_env w)) v"
    "candidate_sources w candidate_dir (fa_sources a) = Inr sources"
    "answers w 0 ''POST'' (url @ ''/evaluate'') (Some (evaluate_request a sources)) answer" "dict_get ''task_id'' answer = Some task"
    unfolding submit_task_def Let_def rbind_eq_Inr_iff sum.inject prod.inject dindex_field request_json_Inr by blast
  from required_env_path_Inr [OF assms(2)] obtain place where p: "fb_environ w ''KERNELINFRA_CANDIDATE_DIR'' = Some place"
    "place \<noteq> []" "candidate_dir = resolve_path (fb_env w) place" by blast
  have "submitted_task w a deployment url sources task"
    unfolding submitted_task_def
    using p candidate_sources_of [OF s(6) [unfolded p(3)]] s(4,5,7,8) evaluate_request_submission by blast
  with s(1-3) show ?thesis by simp
qed

section \<open>A sample evaluation\<close>

definition sample_response :: jdict where
  "sample_response = [(''status'', JStr ''completed''), (''traces'', JList [JObj
     [(''workload'', JObj [(''uuid'', JStr ''w'')]), (''evaluation'', JObj [(''status'', JStr ''PASSED'')])]])]"

definition sample_fib_task :: json where
  "sample_fib_task = JObj [(''stages'', JList [JObj [(''id'', JStr ''s''), (''judge'', JObj
     [(''identity'', JStr (sample_identity @ ''deployment-receipt@sha256:'' @ zeros))])]])]"

definition sample_fib :: fib_world where
  "sample_fib =
     \<lparr>fb_env = attest_env,
      fb_environ = (\<lambda>k. if k = ''KERNELINFRA_STAGE_ID'' then Some ''s'' else if k = ''KERNELINFRA_TASK'' then Some ''/task'' else Some ''/c''),
      fb_document = (\<lambda>p. if p = ''/task'' then FileParsed sample_fib_task else FileParsed (JObj sample_receipt)),
      fb_tree = [[''k.cu''], [''readme'']], fb_read = (\<lambda>p. Inr ''x''),
      fb_before = sample_outside, fb_after = sample_outside,
      fb_http = (\<lambda>n verb url body. HttpBody (Inr (JObj (if n = 0 then [(''task_id'', JStr ''t'')] else sample_response)))),
      fb_clock = (\<lambda>n. Fin (of_nat (n div 2)))\<rparr>"

definition sample_fib_args :: fib_args where
  "sample_fib_args =
     \<lparr>fa_receipt = ''/receipt'', fa_definition = ''gemm'', fa_entry_point = ''k.cu::run'', fa_language = ''cuda'', fa_binding = None,
      fa_dependencies = [], fa_sources = [], fa_workloads = [], fa_author = ''a'', fa_name = ''n'', fa_poll_timeout = Fin 1\<rparr>"

lemma sample_fib_loads:
  "load_service_receipt (fb_env sample_fib) (fb_document sample_fib (resolve_path (fb_env sample_fib) (fa_receipt sample_fib_args)))
     (resolve_path (fb_env sample_fib) (fa_receipt sample_fib_args)) = Inr sample_receipt"
proof -
  have "fb_document sample_fib (resolve_path (fb_env sample_fib) (fa_receipt sample_fib_args)) = FileParsed (JObj sample_receipt)"
    by (simp add: sample_fib_def sample_fib_args_def attest_env_def sample_env_def)
  moreover have "fb_env sample_fib = attest_env" by (simp add: sample_fib_def)
  ultimately show ?thesis using built_receipt_loads [OF sample_receipt_built] by simp
qed

lemma sample_marked: "is_substring (''deployment-receipt@sha256:'' @ zeros) (sample_identity @ ''deployment-receipt@sha256:'' @ zeros)"
  by code_simp

lemma sample_served: "is_substring sample_identity (sample_identity @ ''deployment-receipt@sha256:'' @ zeros)"
  by code_simp

lemma sample_receipt_fields:
  "dindex ''service_identity'' sample_receipt = Inr (JStr sample_identity)"
  "dindex ''service_url'' sample_receipt = Inr (JStr ''http://localhost:8000'')"
  by code_simp+

lemma not_isl: "\<not> isl r \<Longrightarrow> \<exists>x. r = Inr x"
  by (cases r) auto

lemma sample_deployment_fields:
  "dindex ''service_root'' sample_receipt = Inr (JObj sample_health)"
  "dindex ''broker_admission_receipt'' sample_receipt = Inr (JObj sample_admission)"
  by code_simp+

lemma sample_sources: "candidate_sources sample_fib ''/c'' [] = Inr [(''k.cu'', ''x'')]"
  by code_simp

lemma sample_names: "\<exists>artifacts. deployment_artifacts (JStr ''t'') sample_receipt = Inr artifacts"
proof -
  have "\<not> isl (deployment_artifacts (JStr ''t'') sample_receipt)" by code_simp
  then show ?thesis by (rule not_isl)
qed

lemma sample_prints: "\<exists>prints. deployment_fingerprints attest_env sample_receipt commit (JObj sample_admission) = Inr prints"
proof -
  have "\<not> isl (required_keys [''service_identity'', ''broker_instance_id''] sample_receipt)"
    "\<not> isl (rtraverse (\<lambda>(name, k). rbind (py_index k (JObj sample_admission)) (\<lambda>v. Inr (name, v))) ADMISSION_PRINTS)"
    "\<not> isl (dindex ''source_commit'' sample_receipt)" "\<not> isl (dindex ''source_tree'' sample_receipt)"
    by code_simp+
  note this [THEN not_isl]
  then obtain a b c d where "required_keys [''service_identity'', ''broker_instance_id''] sample_receipt = Inr a"
    "rtraverse (\<lambda>(name, k). rbind (py_index k (JObj sample_admission)) (\<lambda>v. Inr (name, v))) ADMISSION_PRINTS = Inr b"
    "dindex ''source_commit'' sample_receipt = Inr c" "dindex ''source_tree'' sample_receipt = Inr d"
    by blast
  then show ?thesis unfolding deployment_fingerprints_def by (simp only: rbind.simps) blast
qed

lemma sample_rows: "rtraverse (trace_row attest_env) [JObj
     [(''workload'', JObj [(''uuid'', JStr ''w'')]), (''evaluation'', JObj [(''status'', JStr ''PASSED'')])]] =
     Inr [[(''id'', JStr ''w''), (''correct'', JBool True)]]"
  by code_simp

lemma sample_identity_ok: "require_task_identity sample_fib sample_receipt = Inr ()"
proof -
  have i: "judge_identities (fb_document sample_fib ''/task'') (JStr ''s'') = Inr [JStr (sample_identity @ ''deployment-receipt@sha256:'' @ zeros)]"
    by code_simp
  have p: "required_env_path sample_fib ''KERNELINFRA_TASK'' = Inr ''/task''" "fb_environ sample_fib ''KERNELINFRA_STAGE_ID'' = Some ''s''"
    "fb_env sample_fib = attest_env"
    by (simp_all add: sample_fib_def required_env_path_def attest_env_def sample_env_def)
  have str: "py_str (float_text attest_env) (JStr x) = x" for x by (simp add: py_str_def)
  show ?thesis
    unfolding require_task_identity_def p rbind.simps option.case i list.case Let_def sample_receipt_fields sample_digest str
    by (simp only: sample_marked sample_served simp_thms if_False)
qed

lemma sample_translates:
  "\<exists>d. translate attest_env sample_response [(''k.cu'', ''x'')] (JStr ''t'') sample_receipt = Inr d \<and>
     dget ''status'' d = JStr ''passed''"
proof -
  obtain artifacts where a: "deployment_artifacts (JStr ''t'') sample_receipt = Inr artifacts" using sample_names ..
  obtain prints where p: "deployment_fingerprints attest_env sample_receipt (dget ''commit'' sample_health) (JObj sample_admission)
      = Inr prints" using sample_prints ..
  have s: "py_eq (dget ''status'' sample_response) (JStr ''failed'') = False"
    "py_iter (if py_truthy (dget ''traces'' sample_response) then dget ''traces'' sample_response else JList []) =
       Inr [JObj [(''workload'', JObj [(''uuid'', JStr ''w'')]), (''evaluation'', JObj [(''status'', JStr ''PASSED'')])]]"
    "as_dict (JObj sample_health) = Inr sample_health"
    by code_simp+
  have "translate attest_env sample_response [(''k.cu'', ''x'')] (JStr ''t'') sample_receipt =
      Inr (traced_document attest_env [(''k.cu'', ''x'')] [[(''id'', JStr ''w''), (''correct'', JBool True)]] artifacts prints)"
    unfolding translate_def sample_deployment_fields rbind.simps s(3) a p s(1) if_False Let_def s(2) sample_rows ..
  moreover have "dget ''status'' (traced_document attest_env [(''k.cu'', ''x'')] [[(''id'', JStr ''w''), (''correct'', JBool True)]]
      artifacts prints) = JStr ''passed''"
    by (simp add: traced_document_def trace_correct_def dget_def fib_document_def)
  ultimately show ?thesis by blast
qed

lemma sample_submits:
  "submit_task sample_fib sample_fib_args ''/c'' = Inr (sample_receipt, ''http://localhost:8000'', [(''k.cu'', ''x'')], JStr ''t'')"
proof -
  obtain observed where v: "verify_service_receipt (fb_env sample_fib) (fb_before sample_fib) sample_receipt = Inr observed"
    using sample_receipt_verifies by (auto simp: sample_fib_def)
  have r: "request_json sample_fib 0 verb url body = Inr [(''task_id'', JStr ''t'')]" for verb url body
    by (simp add: request_json_def sample_fib_def)
  have t: "fa_sources sample_fib_args = []" "dindex ''task_id'' [(''task_id'', JStr ''t'')] = Inr (JStr ''t'')"
    "py_str (float_text (fb_env sample_fib)) (JStr x) = x" for x
    by (simp_all add: sample_fib_args_def dindex_def py_str_def)
  show ?thesis
    unfolding submit_task_def Let_def sample_fib_loads rbind.simps sample_identity_ok v sample_receipt_fields t(1,3) sample_sources r t(2) ..
qed

lemma sample_deadline: "deadline_of sample_fib sample_fib_args = Fin 1"
  by (simp add: deadline_of_def sample_fib_def sample_fib_args_def to_double_def max_double_def Let_def)

lemma sample_poll: "poll sample_fib ''http://localhost:8000'' (JStr ''t'') (deadline_of sample_fib sample_fib_args) 1 0 = Some (Inr sample_response)"
proof -
  have "flt_le (deadline_of sample_fib sample_fib_args) (fb_clock sample_fib 1) = False"
    by (simp add: sample_deadline) (simp add: sample_fib_def flt_le_def)
  moreover have "request_json sample_fib (Suc 0) verb url body = Inr sample_response" for verb url body
    by (simp add: request_json_def sample_fib_def)
  moreover have "hashable (dget ''status'' sample_response) = Inr ()" "dget ''status'' sample_response = JStr ''completed''" by code_simp+
  ultimately show ?thesis by simp
qed

lemma sample_evaluation:
  obtains d where "fib_main sample_fib sample_fib_args 1 = Some (Inr d)" and "dget ''status'' d = JStr ''passed''"
proof -
  obtain d where d: "translate attest_env sample_response [(''k.cu'', ''x'')] (JStr ''t'') sample_receipt = Inr d"
    "dget ''status'' d = JStr ''passed''" using sample_translates by blast
  have e: "fb_env sample_fib = attest_env" by (simp add: sample_fib_def)
  obtain observed where v: "verify_service_receipt attest_env (fb_after sample_fib) sample_receipt = Inr observed"
    using sample_receipt_verifies by (auto simp: sample_fib_def)
  have "evaluate_candidate sample_fib sample_fib_args ''/c'' 1 = Some (Inr d)"
    unfolding evaluate_candidate_def sample_submits sum.case prod.case sample_poll option.map finish_task_def rbind.simps e v d(1) ..
  moreover have "rbind (required_env_path sample_fib ''KERNELINFRA_RESULT'') (\<lambda>_.
           rbind (required_env_path sample_fib ''KERNELINFRA_STAGE_DIR'') (\<lambda>_.
           required_env_path sample_fib ''KERNELINFRA_CANDIDATE_DIR'')) = Inr ''/c''"
    by code_simp
  ultimately have "fib_main sample_fib sample_fib_args 1 = Some (Inr d)" unfolding fib_main_def
    by (simp only: sum.case option.map reported_def)
  with d(2) that show ?thesis by blast
qed
section \<open>Properties\<close>

text \<open>C32: A FIBServe result passes only if the deployment receipt loads, the task names the
  service identity and the receipt's digest, the deployment verifies before the candidate is
  submitted and again after the response, what is submitted is exactly the selected sources as
  they are read below the candidate's directory, and the response is the first final answer the
  service gives, before the deadline, to a request for the task it named for this submission:
  it is completed, has at least one trace, all of them passed, and the rows of the result are
  these traces one by one.\<close>

theorem fib_passed_sound:
  assumes "fib_main w a fuel = Some (Inr d)" and "dget ''status'' d = JStr ''passed''"
  shows "\<exists>deployment url sources task n response traces rows.
    load_service_receipt (fb_env w) (fb_document w (resolve_path (fb_env w) (fa_receipt a))) (resolve_path (fb_env w) (fa_receipt a))
      = Inr deployment \<and>
    require_task_identity w deployment = Inr () \<and>
    (\<exists>before. verify_service_receipt (fb_env w) (fb_before w) deployment = Inr before) \<and>
    submitted_task w a deployment url sources task \<and>
    turn_answers w url task (deadline_of w a) n response \<and>
    (\<forall>i < n. \<exists>waiting. turn_answers w url task (deadline_of w a) i waiting \<and> \<not> task_over waiting) \<and>
    (\<exists>after. verify_service_receipt (fb_env w) (fb_after w) deployment = Inr after) \<and>
    dget ''status'' response = JStr ''completed'' \<and> traces_of response traces \<and> traces \<noteq> [] \<and> list_all trace_passed traces \<and>
    list_all2 (row_of_trace (fb_env w)) traces rows \<and> list_all trace_correct rows \<and>
    judge_document d Passed Valid rows \<and> prints_sources (fb_env w) sources task d"
proof -
  have "d \<noteq> adapter_error ''FIBServe adapter'' e" for e using assms(2) by (auto simp: adapter_error_def dget_def)
  with fib_main_Inr [OF assms(1)] obtain candidate_dir deployment url sources task response after where
    c: "required_env_path w ''KERNELINFRA_CANDIDATE_DIR'' = Inr candidate_dir"
      "submit_task w a candidate_dir = Inr (deployment, url, sources, task)"
      "poll w url task (deadline_of w a) fuel 0 = Some (Inr response)"
      "verify_service_receipt (fb_env w) (fb_after w) deployment = Inr after"
      "translate (fb_env w) response sources task deployment = Inr d" by blast
  from translate_passed [OF c(5) assms(2)] obtain traces rows where t: "traces_of response traces" "traces \<noteq> []"
    "list_all2 (row_of_trace (fb_env w)) traces rows" "list_all trace_passed traces" "list_all trace_correct rows"
    "judge_document d Passed Valid rows" "dget ''status'' response \<noteq> JStr ''failed''" "prints_sources (fb_env w) sources task d"
    by blast
  from poll_turns [OF c(3)] obtain n where n: "turn_answers w url task (deadline_of w a) n response" "task_over response"
    "\<forall>i < n. \<exists>waiting. turn_answers w url task (deadline_of w a) i waiting \<and> \<not> task_over waiting" by blast
  from n(2) t(7) have "dget ''status'' response = JStr ''completed''" unfolding task_over_def by blast
  with submit_task_Inr [OF c(2,1)] c(4) t n show ?thesis by blast
qed

theorem fib_passed_sound_witness:
  "\<exists>d sources task rows. fib_main sample_fib sample_fib_args 1 = Some (Inr d) \<and> judge_document d Passed Valid rows \<and>
     list_all trace_correct rows \<and> submitted_task sample_fib sample_fib_args sample_receipt ''http://localhost:8000'' sources task"
proof -
  obtain d where d: "fib_main sample_fib sample_fib_args 1 = Some (Inr d)" "dget ''status'' d = JStr ''passed''"
    by (rule sample_evaluation)
  from fib_passed_sound [OF d] obtain deployment url sources task rows where
    r: "load_service_receipt (fb_env sample_fib) (fb_document sample_fib (resolve_path (fb_env sample_fib) (fa_receipt sample_fib_args)))
       (resolve_path (fb_env sample_fib) (fa_receipt sample_fib_args)) = Inr deployment"
      "submitted_task sample_fib sample_fib_args deployment url sources task" "judge_document d Passed Valid rows"
      "list_all trace_correct rows" by blast
  have deployment: "deployment = sample_receipt" using r(1) unfolding sample_fib_loads by simp
  obtain v where v: "dict_get ''service_url'' deployment = Some v" "url = py_str (float_text (fb_env sample_fib)) v"
    using r(2) unfolding submitted_task_def by blast
  have "dict_get ''service_url'' sample_receipt = Some (JStr ''http://localhost:8000'')"
    using sample_receipt_fields(2) by (simp only: dindex_field)
  with v(1) have "v = JStr ''http://localhost:8000''" unfolding deployment by simp
  then have "url = ''http://localhost:8000''" unfolding v(2) by (simp add: py_str_def)
  with d(1) r(2-4) show ?thesis unfolding deployment by blast
qed

text \<open>C33: The adapter ends: once a reading of the monotonic clock at the start of a turn has
  reached the deadline it has a result, whatever the service answers, and the result does not
  depend on how many turns it may take beyond that.\<close>

theorem fib_polling_ends:
  assumes "flt_le (deadline_of w a) (fb_clock w (2 * n + 1))"
  shows "\<exists>r. \<forall>fuel > n. fib_main w a fuel = Some r"
proof -
  have polls: "\<exists>r. \<forall>fuel > n. poll w url task (deadline_of w a) fuel 0 = Some r" for url task
  proof -
    obtain r where r: "poll w url task (deadline_of w a) (Suc n) 0 = Some r"
      using poll_ends [of "deadline_of w a" w 0 n "Suc n" url task] assms by auto
    have "poll w url task (deadline_of w a) fuel 0 = Some r" if "n < fuel" for fuel
      by (rule poll_stable [OF r]) (use that in simp)
    then show ?thesis by blast
  qed
  have evaluates: "\<exists>r. \<forall>fuel > n. evaluate_candidate w a candidate_dir fuel = Some r" for candidate_dir
  proof (cases "submit_task w a candidate_dir")
    case (Inr x)
    obtain deployment url sources task where x: "x = (deployment, url, sources, task)" by (cases x)
    from polls [of url task] show ?thesis unfolding evaluate_candidate_def Inr x by auto
  qed (simp add: evaluate_candidate_def)
  show ?thesis
  proof (cases "rbind (required_env_path w ''KERNELINFRA_RESULT'') (\<lambda>_.
           rbind (required_env_path w ''KERNELINFRA_STAGE_DIR'') (\<lambda>_.
           required_env_path w ''KERNELINFRA_CANDIDATE_DIR''))")
    case (Inr candidate_dir)
    from evaluates [of candidate_dir] show ?thesis unfolding fib_main_def Inr by auto
  qed (simp add: fib_main_def)
qed

theorem fib_polling_ends_witness: "\<exists>r. \<forall>fuel > 1. fib_main sample_fib sample_fib_args fuel = Some r"
  by (rule fib_polling_ends) (simp add: sample_deadline, simp add: sample_fib_def flt_le_def)

end
