(* ===== verification/Adapter_Documents.thy ===== *)
theory Adapter_Documents
  imports Cuda_Container_Passed Kda_Facts Fibserve_Facts
begin

text \<open>
  What the three adapters have in common: the contract between the documents they write and
  the runner that validates them.
\<close>

text \<open>C34: Whatever the commands, the files and the services answer, a document that an adapter
  writes is one the runner accepts exactly when its rows are rows of the task, each workload
  once; the status and validity the runner then sees are consistent, and the rows it stores
  are those of the document.\<close>

theorem adapter_result_accepted:
  assumes "judge_candidate w a s = (Inr d, s') \<or> kda_main kw ka = Inr d \<or> fib_main fw fa fuel = Some (Inr d)"
  shows "\<exists>rows. dict_get ''workloads'' d = Some (JList (map JObj rows)) \<and>
    ((\<exists>r. validate_stage_result env (JObj d) task = Inr r) \<longleftrightarrow> rows_accepted task rows) \<and>
    (\<forall>r. validate_stage_result env (JObj d) task = Inr r \<longrightarrow>
       consistent (sr_status r) (sr_validity r) \<and> sr_workloads r = rows)"
proof -
  obtain st v rows where d: "judge_document d st v rows"
    using assms judge_some_document kda_document_rows fib_some_document unfolding some_document_def by metis
  then have "dict_get ''workloads'' d = Some (JList (map JObj rows))" "consistent st v" by (simp_all add: judge_document_def)
  with judge_document_accepted [OF d] show ?thesis by blast
qed

theorem adapter_result_accepted_witness:
  "\<exists>d r. kda_main sample_kda sample_kda_args = Inr d \<and> validate_stage_result sample_env (JObj d) sample_import_task = Inr r \<and>
     consistent (sr_status r) (sr_validity r)"
proof -
  obtain d where d: "kda_main sample_kda sample_kda_args = Inr d" "dget ''workloads'' d = JList [JObj sample_row]"
    by (rule sample_import)
  obtain r where r: "validate_stage_result sample_env (JObj d) sample_import_task = Inr r"
    using sample_import_accepted [OF d] ..
  from adapter_result_accepted [OF disjI2 [OF disjI1 [OF d(1)]], of sample_env sample_import_task] d(1) r show ?thesis by blast
qed

end
