(* ===== verification/Spec2Isabelle.thy ===== *)
theory Spec2Isabelle
  imports Task_Forms Result_Facts Frontier_Facts Snapshot_Facts Run_Store_Facts
    Runner_Outcomes Diagnosis_Facts Service_Binding_Facts Service_Stops
    Fleet_Routes_Facts Fleet_Artifacts_Claims Fleet_Bundle_Claims Daemon_Startup Adapter_Documents
begin

text \<open>
  A verification development for kernel-infra, the daemon that takes kernel optimisation
  tasks and candidates, runs the judge stages of each candidate through a GPU broker or
  locally, stores every run durably and projects the best accepted runs of a task as a
  frontier.

  The program, under \<open>src/kernel_infra\<close>, and the theories that model it:

  \<^item> \<open>contracts.py\<close>: the task document.  \<open>Task_Contract\<close> has the specifications as records
    and the parser in the order of its checks; \<open>Task_Checks\<close> and \<open>Task_Documents\<close> prove that
    what it accepts is well formed, that a well-formed task is read back from its document,
    and which exceptions escape; \<open>Task_Forms\<close> says which documents have the form of a task and
    that these, with the rules for values, are exactly what is accepted.
  \<^item> \<open>results.py\<close>: \<open>Stage_Result\<close> validates what a judge wrote and aggregates the reports of
    a run; \<open>Result_Facts\<close> shows what an accepted report and an eligible run satisfy.
  \<^item> \<open>frontier.py\<close>: \<open>Frontier\<close> is the reduction over stored results, in double arithmetic
    (\<open>Py_Float\<close>); \<open>Frontier_Facts\<close> shows that it never raises on aggregated results and that
    no accepted run beats the cells.
  \<^item> \<open>candidate.py\<close>: \<open>Snapshot\<close> and \<open>Snapshot_Facts\<close>, the copy and the digest of a tree.
  \<^item> \<open>store.py\<close>: \<open>Lifecycle\<close> and \<open>Run_Store\<close>, the run directories as a record; \<open>Ledger\<close> is the
    interface of a durable store of states, \<open>Run_Store_Facts\<close> interprets it for the runs.
  \<^item> \<open>runner.py\<close>, \<open>broker.py\<close>: \<open>Runner\<close> executes the stages of a run as a function of what its
    processes print and how they end; \<open>Runner_Facts\<close> shows that every execution follows the
    lifecycle relation to one terminal state, \<open>Runner_Outcomes\<close> what that state is.
    \<open>Run_Manager\<close> has the coroutines of the runs and the requests that submit, cancel and wait;
    \<open>Run_Manager_Facts\<close> shows which runs are closed, and that a second cancellation leaves one
    open for good.
  \<^item> \<open>diagnostics.py\<close>: \<open>Diagnosis\<close> and \<open>Diagnosis_Facts\<close>, the verdict on every run and on the
    node from the states, the requests and one broker observation.
  \<^item> \<open>service_contracts.py\<close>: \<open>Service_Url\<close> follows \<open>urllib\<close> and proves what an accepted URL
    addresses; \<open>Service_Contract\<close> is the parser of managed services.
  \<^item> \<open>service_store.py\<close>: \<open>Service_Store\<close>, the deployment history, on the ledger interface.
  \<^item> \<open>service_attestation.py\<close>: \<open>Attestation\<close> validates the broker's admission, builds the
    deployment receipt and verifies it; \<open>Attestation_Facts\<close> shows that a receipt verifies where
    it was built and what a verified one says about the live broker.
  \<^item> \<open>service_binding.py\<close>: \<open>Service_Binding\<close> binds a task template to a deployment;
    \<open>Service_Binding_Facts\<close> shows what the bound task says.
  \<^item> \<open>services.py\<close>: \<open>Services\<close> has the manager of services, one definition for the code between
    two \<open>await\<close>s; \<open>Service_Lifecycle\<close> composes them, with the submission of runs, into the steps
    of the event loop, proves the invariant of the manager and that every deployment follows
    the abstract lifecycle; \<open>Service_Stops\<close> has what this means for stopping and recovery.
  \<^item> \<open>server.py\<close>: \<open>Daemon\<close> has every request as the code before its \<open>await\<close> (\<open>dispatch\<close>) and
    after it (\<open>resume\<close>); \<open>Daemon_Loop\<close> composes requests and the coroutines of both managers
    into one event loop and proves the joint invariant; \<open>Daemon_Facts\<close> has what a batch
    leaves behind and that a selected node accepts the task; \<open>Daemon_Startup\<close> the claim of the
    endpoint and the recovery.
  \<^item> \<open>fleet.py\<close>: \<open>Fleet_Catalog\<close> has the catalog of remote nodes, the endpoint map, the locators
    and the commands; \<open>Fleet_Select\<close> the choice of a node and the plan of a batch, with
    \<open>Fleet_Select_Facts\<close> on the order of the observations and the balance of the plan;
    \<open>Fleet_Routes\<close> the route receipts and the snapshot of all routed runs, with
    \<open>Fleet_Routes_Facts\<close> on what a snapshot shows.  \<open>Fleet_Archive\<close> has what the transports
    share, the members of a tar stream and the directory they are extracted to;
    \<open>Fleet_Artifacts\<close> the export of the files of a run, their reception and the installation of
    the mirror, with \<open>Fleet_Artifacts_Facts\<close> on what is accepted, \<open>Fleet_Artifacts_Transfer\<close> and
    \<open>Fleet_Artifacts_Roundtrip\<close> on export and reception being inverse, and
    \<open>Fleet_Artifacts_Claims\<close> with the properties; \<open>Fleet_Bundle\<close> the bundle of a task and a
    candidate under its content address, \<open>Fleet_Bundle_Facts\<close> what an inbox keeps,
    \<open>Fleet_Bundle_Roundtrip\<close> the archive of a tree being rebuilt, and \<open>Fleet_Bundle_Claims\<close> that
    a created bundle is accepted and what its address fails to tell apart.
    \<open>Byte_Frames\<close> shows that framed lengths and UTF-8 can be read back.
  \<^item> \<open>adapters/cuda_container.py\<close>: \<open>Cuda_Container\<close> has the judge that compiles and runs a CUDA
    candidate in a container, its commands and written logs as a state; \<open>Cuda_Container_Facts\<close>
    shows that every document it writes is a stage document, \<open>Cuda_Container_Passed\<close> what
    stands behind a passed one.  \<open>Judge_Results\<close> has the contract of all judges with the runner.
  \<^item> \<open>adapters/kda.py\<close>: \<open>Kda_Import\<close> imports a row of the KDA ledger, over the reader of the
    \<open>csv\<close> module in \<open>Csv_Reader\<close>; \<open>Kda_Facts\<close> ties a passed import to the files it was read from and
    shows that imports alone never enter the frontier.
  \<^item> \<open>adapters/fibserve.py\<close>: \<open>Fibserve\<close> has the adapter of the FIBServe service with its polling
    loop; \<open>Fibserve_Facts\<close> ties a passed result to what was sent to the service and what it
    answered, and shows that the loop ends.
    \<open>Adapter_Documents\<close> has the contract of the three adapters with the runner.

  Conventions.  Every Python value that comes from JSON is a \<open>json\<close> (\<open>Json\<close>), with dictionaries
  in insertion order; functions that can raise return \<open>exn + 'a\<close> (\<open>Prelude\<close>); floats are the
  IEEE doubles with their rounding (\<open>Py_Float\<close>).  Strings are lists of characters below code
  point 256.  What the code takes from outside \<open>src\<close> is an argument: the hash function, the
  printing of floats, home and path resolution (the record \<open>py_env\<close>), the clock, the contents
  of files, the lines and the end of every process, the answers of the broker, of a service and
  of git (the record \<open>outside\<close>).

  Recursions are structural or have a termination proof.  Only the polling loop of the FIBServe
  adapter has fuel, one unit for each turn: \<open>fib_polling_ends\<close> shows that the turns up to the
  deadline are enough and that more change nothing.

  The state of a run in \<open>Run_Store\<close> corresponds field by field to \<open>state.json\<close>, a request to
  \<open>request.json\<close>, a receipt to \<open>stages/<id>/receipt.json\<close>, a result to \<open>result.json\<close> and the
  events to \<open>events.jsonl\<close>.  An operation that raises leaves the store as it was at the last
  write before, as the code does.

  The size of an archive is bounded by the limits of the source; reading bytes as JSON is the
  argument \<open>read\<close> of the receivers, of which the round trip asks that it reads back the document
  that was written.

  Not modelled: the socket exchange of the daemon, signals to process groups, file modes, the
  encoding of tar archives, the command line, the removal of a judge's container, and the evaluators of the examples.
\<close>

end
